(* ===== verification/Prelude.thy ===== *)
theory Prelude
  imports Main
begin

text \<open>
  Shared vocabulary of the development.

  Go's pair of a value and an error becomes the sum \<open>'e + 'a\<close> (\<open>Inl\<close> is the returned
  error); \<open>rbind\<close> is the idiom "if err != nil return err" and \<open>ensure\<close> a guard with an
  early return.  A SQL table is a list of rows; \<open>upd_where\<close>, \<open>del_where\<close> and
  \<open>count_where\<close> are the statements UPDATE, DELETE and SELECT count with a WHERE clause.
  The lemmas here are the ones every component proof uses.
\<close>

named_theorems handler_defs \<open>definitions unfolded when a use-case is analysed\<close>
named_theorems row_simps \<open>facts on tables and their keys\<close>

type_synonym go_int = int       \<comment> \<open>int64: ids, sequences and counters\<close>
type_synonym go_time = int      \<comment> \<open>time.Time, in microseconds since the Unix epoch\<close>

section \<open>Results\<close>

definition rbind :: "'e + 'a \<Rightarrow> ('a \<Rightarrow> 'e + 'b) \<Rightarrow> 'e + 'b" where
  "rbind m f = (case m of Inl e \<Rightarrow> Inl e | Inr x \<Rightarrow> f x)"

definition ensure :: "bool \<Rightarrow> 'e \<Rightarrow> 'e + unit" where
  "ensure b e = (if b then Inr () else Inl e)"

definition from_opt :: "'e \<Rightarrow> 'a option \<Rightarrow> 'e + 'a" where
  "from_opt e x = (case x of None \<Rightarrow> Inl e | Some a \<Rightarrow> Inr a)"

lemma rbind_simps [simp]:
  "rbind (Inl e) f = Inl e"
  "rbind (Inr x) f = f x"
  by (simp_all add: rbind_def)

lemma rbind_Inr_iff [simp]: "rbind m f = Inr y \<longleftrightarrow> (\<exists>x. m = Inr x \<and> f x = Inr y)"
  by (auto simp: rbind_def split: sum.splits)

lemma rbind_Inl_iff: "rbind m f = Inl e \<longleftrightarrow> m = Inl e \<or> (\<exists>x. m = Inr x \<and> f x = Inl e)"
  by (auto simp: rbind_def split: sum.splits)

lemma ensure_simps [simp]:
  "ensure True e = Inr ()"
  "ensure False e = Inl e"
  by (simp_all add: ensure_def)

lemma ensure_Inr_iff [simp]: "ensure b e = Inr u \<longleftrightarrow> b"
  by (simp add: ensure_def)

lemma ensure_Inl_iff [simp]: "ensure b e = Inl e' \<longleftrightarrow> \<not> b \<and> e' = e"
  by (auto simp: ensure_def)

lemma from_opt_simps [simp]:
  "from_opt e None = Inl e"
  "from_opt e (Some a) = Inr a"
  by (simp_all add: from_opt_def)

lemma from_opt_Inr_iff [simp]: "from_opt e x = Inr a \<longleftrightarrow> x = Some a"
  by (auto simp: from_opt_def split: option.splits)

lemma from_opt_Inl_iff [simp]: "from_opt e x = Inl e' \<longleftrightarrow> x = None \<and> e' = e"
  by (auto simp: from_opt_def split: option.splits)

section \<open>Tables\<close>

definition upd_where :: "('r \<Rightarrow> bool) \<Rightarrow> ('r \<Rightarrow> 'r) \<Rightarrow> 'r list \<Rightarrow> 'r list" where
  "upd_where P f t = map (\<lambda>r. if P r then f r else r) t"

definition del_where :: "('r \<Rightarrow> bool) \<Rightarrow> 'r list \<Rightarrow> 'r list" where
  "del_where P t = filter (\<lambda>r. \<not> P r) t"

definition count_where :: "('r \<Rightarrow> bool) \<Rightarrow> 'r list \<Rightarrow> int" where
  "count_where P t = int (length (filter P t))"

text \<open>INSERT .. ON CONFLICT (key) DO UPDATE: replace the row with the same key or add one.\<close>

definition upsert :: "('r \<Rightarrow> 'k) \<Rightarrow> ('r \<Rightarrow> 'r \<Rightarrow> 'r) \<Rightarrow> 'r \<Rightarrow> 'r list \<Rightarrow> 'r list" where
  "upsert key merge r t =
     (if key r \<in> key ` set t then upd_where (\<lambda>x. key x = key r) (\<lambda>x. merge x r) t else t @ [r])"

lemma set_upd_where [row_simps]: "set (upd_where P f t) = (\<lambda>r. if P r then f r else r) ` set t"
  by (simp add: upd_where_def)

lemma upd_where_append [simp]: "upd_where P f (s @ t) = upd_where P f s @ upd_where P f t"
  by (simp add: upd_where_def)

lemma upd_where_Nil [simp]: "upd_where P f [] = []"
  by (simp add: upd_where_def)

lemma upd_where_Cons [simp]:
  "upd_where P f (x # t) = (if P x then f x else x) # upd_where P f t"
  by (simp add: upd_where_def)

lemma length_upd_where [simp]: "length (upd_where P f t) = length t"
  by (simp add: upd_where_def)

lemma map_upd_where_key [simp]:
  "(\<And>r. P r \<Longrightarrow> key (f r) = key r) \<Longrightarrow> map key (upd_where P f t) = map key t"
  by (induction t) auto

lemma upd_where_none: "(\<And>r. r \<in> set t \<Longrightarrow> \<not> P r) \<Longrightarrow> upd_where P f t = t"
  by (induction t) auto

lemma find_SomeD [dest?]: "find P t = Some r \<Longrightarrow> r \<in> set t \<and> P r"
  by (auto simp: find_Some_iff in_set_conv_nth)

lemma find_None_iff_filter: "find P t = None \<longleftrightarrow> filter P t = []"
  by (auto simp: find_None_iff filter_empty_conv)

lemma find_by_key:
  "distinct (map key t) \<Longrightarrow> r \<in> set t \<Longrightarrow> find (\<lambda>x. key x = key r) t = Some r"
  by (induction t) (auto simp: rev_image_eqI)

lemma key_inj:
  "distinct (map key t) \<Longrightarrow> r \<in> set t \<Longrightarrow> s \<in> set t \<Longrightarrow> key r = key s \<Longrightarrow> r = s"
  by (simp add: distinct_map inj_on_def)

lemma distinct_upsert:
  assumes "distinct (map key t)" and "\<And>x. key (merge x r) = key x"
  shows "distinct (map key (upsert key merge r t))"
  using assms by (auto simp: upsert_def)

lemma set_upsert_subset:
  "x \<in> set (upsert key merge r t) \<Longrightarrow> x = r \<or> x \<in> set t \<or> (\<exists>y \<in> set t. key y = key r \<and> x = merge y r)"
  by (auto simp: upsert_def set_upd_where split: if_splits)

lemma count_where_zero_iff: "count_where P t = 0 \<longleftrightarrow> (\<forall>r \<in> set t. \<not> P r)"
  by (simp add: count_where_def filter_empty_conv)

lemma count_where_nonneg [simp]: "0 \<le> count_where P t"
  by (simp add: count_where_def)

lemma filter_one:
  assumes "distinct (map key t)" and "r \<in> set t"
  shows "filter (\<lambda>x. key x = key r) t = [r]"
  using assms
proof (induction t)
  case Nil
  then show ?case by simp
next
  case (Cons a t)
  have rest: "filter (\<lambda>x. key x = key a) t = []"
    using Cons.prems(1) by (auto simp: filter_empty_conv rev_image_eqI)
  show ?case
  proof (cases "a = r")
    case True
    with rest show ?thesis by simp
  next
    case False
    with Cons show ?thesis by (auto simp: rev_image_eqI)
  qed
qed

end
