(* ===== verification/GoStrings.thy ===== *)
theory GoStrings
  imports Prelude
begin

text \<open>
  Go strings are byte sequences: a \<open>string\<close> (list of \<open>char\<close>, one byte each).  This theory
  holds the standard-library functions the code applies to them: the conversion to runes (UTF-8
  decoding, an invalid byte becoming U+FFFD on its own), \<open>strings.TrimSpace\<close>,
  \<open>strings.Cut\<close>, and the decimal \<open>strconv.FormatInt\<close> and \<open>strconv.ParseInt\<close>.
\<close>

section \<open>Runes\<close>

definition byte :: "char \<Rightarrow> nat" where
  "byte c = of_char c"

definition cont :: "char \<Rightarrow> bool" where
  "cont c \<longleftrightarrow> 128 \<le> byte c \<and> byte c \<le> 191"

definition low6 :: "char \<Rightarrow> nat" where
  "low6 c = byte c - 128"

text \<open>\<open>utf8.DecodeRuneInString\<close>: the code point and the width of the first rune.\<close>

fun decode_rune :: "string \<Rightarrow> nat \<times> nat" where
  "decode_rune [] = (65533, 0)"
| "decode_rune (c # cs) =
     (let b = byte c in
      if b < 128 then (b, 1)
      else if 194 \<le> b \<and> b \<le> 223 then
        (case cs of c1 # _ \<Rightarrow> if cont c1 then ((b - 192) * 64 + low6 c1, 2) else (65533, 1)
                  | [] \<Rightarrow> (65533, 1))
      else if 224 \<le> b \<and> b \<le> 239 then
        (case cs of c1 # c2 # _ \<Rightarrow>
           if cont c1 \<and> cont c2 \<and> (b = 224 \<longrightarrow> 160 \<le> byte c1) \<and> (b = 237 \<longrightarrow> byte c1 \<le> 159)
           then ((b - 224) * 4096 + low6 c1 * 64 + low6 c2, 3) else (65533, 1)
                  | _ \<Rightarrow> (65533, 1))
      else if 240 \<le> b \<and> b \<le> 244 then
        (case cs of c1 # c2 # c3 # _ \<Rightarrow>
           if cont c1 \<and> cont c2 \<and> cont c3 \<and> (b = 240 \<longrightarrow> 144 \<le> byte c1) \<and> (b = 244 \<longrightarrow> byte c1 \<le> 143)
           then ((b - 240) * 262144 + low6 c1 * 4096 + low6 c2 * 64 + low6 c3, 4) else (65533, 1)
                  | _ \<Rightarrow> (65533, 1))
      else (65533, 1))"

lemma decode_rune_width: "s \<noteq> [] \<Longrightarrow> 0 < snd (decode_rune s) \<and> snd (decode_rune s) \<le> length s"
  by (cases s) (auto simp: Let_def split: list.splits)

text \<open>The runes of a string, each with the bytes it was decoded from.\<close>

function runes :: "string \<Rightarrow> (nat \<times> string) list" where
  "runes s =
     (if s = [] then []
      else (fst (decode_rune s), take (snd (decode_rune s)) s) # runes (drop (snd (decode_rune s)) s))"
  by pat_completeness auto
termination
  by (relation "measure length") (auto dest: decode_rune_width simp del: decode_rune.simps)

declare runes.simps [simp del]

lemma runes_Nil [simp]: "runes [] = []"
  by (simp add: runes.simps)

lemma runes_Cons:
  "runes (c # cs) =
     (fst (decode_rune (c # cs)), take (snd (decode_rune (c # cs))) (c # cs))
       # runes (drop (snd (decode_rune (c # cs))) (c # cs))"
  by (subst runes.simps) (simp del: decode_rune.simps)

definition rune_count :: "string \<Rightarrow> nat" where
  "rune_count s = length (runes s)"

lemma concat_runes: "concat (map snd (runes s)) = s"
proof (induction s rule: runes.induct)
  case (1 s)
  then show ?case by (cases "s = []") (simp_all add: runes.simps [of s])
qed

lemma rune_count_le: "rune_count s \<le> length s"
proof (induction s rule: runes.induct)
  case (1 s)
  show ?case
  proof (cases "s = []")
    case False
    then have "rune_count (drop (snd (decode_rune s)) s) \<le> length s - snd (decode_rune s)"
      using "1.IH" by simp
    moreover have "0 < snd (decode_rune s)" and "snd (decode_rune s) \<le> length s"
      using decode_rune_width [OF False] by simp_all
    ultimately show ?thesis
      using False by (simp add: rune_count_def runes.simps [of s] del: decode_rune.simps)
  qed (simp add: rune_count_def)
qed

definition ascii :: "string \<Rightarrow> bool" where
  "ascii s \<longleftrightarrow> (\<forall>c \<in> set s. byte c < 128)"

lemma runes_ascii: "ascii s \<Longrightarrow> runes s = map (\<lambda>c. (byte c, [c])) s"
  by (induction s) (simp_all add: ascii_def runes_Cons)

lemma rune_count_ascii: "ascii s \<Longrightarrow> rune_count s = length s"
  by (simp add: rune_count_def runes_ascii)

text \<open>\<open>string([]rune(s)[:n])\<close>: an undecodable byte is written back as U+FFFD.\<close>

definition rune_prefix :: "nat \<Rightarrow> string \<Rightarrow> string" where
  "rune_prefix n s =
     concat (map (\<lambda>(cp, bs). if cp = 65533 then [char_of (239::nat), char_of (191::nat), char_of (189::nat)]
                             else bs) (take n (runes s)))"

lemma rune_prefix_ascii: "ascii s \<Longrightarrow> rune_prefix n s = take n s"
proof -
  assume a: "ascii s"
  have "concat (map (\<lambda>(cp, bs). if cp = 65533 then [char_of (239::nat), char_of (191::nat), char_of (189::nat)]
                             else bs) (map (\<lambda>c. (byte c, [c])) t)) = t"
    if "set t \<subseteq> set s" for t
    using that a by (induction t) (auto simp: ascii_def)
  from this [of "take n s"] show ?thesis
    by (simp add: rune_prefix_def runes_ascii [OF a] take_map set_take_subset)
qed

section \<open>TrimSpace and Cut\<close>

definition is_space :: "nat \<Rightarrow> bool" where
  "is_space r \<longleftrightarrow> r \<in> {9, 10, 11, 12, 13, 32, 133, 160, 5760, 8232, 8233, 8239, 8287, 12288}
                 \<or> 8192 \<le> r \<and> r \<le> 8202"

definition TrimSpace :: "string \<Rightarrow> string" where
  "TrimSpace s =
     concat (map snd (rev (dropWhile (is_space \<circ> fst) (rev (dropWhile (is_space \<circ> fst) (runes s))))))"

lemma TrimSpace_Nil [simp]: "TrimSpace [] = []"
  by (simp add: TrimSpace_def)

lemma TrimSpace_length: "length (TrimSpace s) \<le> length s"
proof -
  have dw: "length (concat (map snd (dropWhile P xs))) \<le> length (concat (map snd xs))"
    for P and xs :: "(nat \<times> string) list"
    by (induction xs) auto
  have r: "length (concat (map snd (rev xs))) = length (concat (map snd xs))"
    for xs :: "(nat \<times> string) list"
    by (induction xs) auto
  show ?thesis
    unfolding TrimSpace_def r
    by (rule order_trans [OF dw])
       (simp only: r, rule order_trans [OF dw], simp only: concat_runes order_refl)
qed

fun Cut :: "string \<Rightarrow> char \<Rightarrow> (string \<times> string) option" where
  "Cut [] sep = None"
| "Cut (c # cs) sep =
     (if c = sep then Some ([], cs)
      else (case Cut cs sep of None \<Rightarrow> None | Some (a, b) \<Rightarrow> Some (c # a, b)))"

lemma Cut_append: "sep \<notin> set a \<Longrightarrow> Cut (a @ sep # b) sep = Some (a, b)"
  by (induction a) auto

section \<open>Decimal integers\<close>

definition digit :: "nat \<Rightarrow> char" where
  "digit d = char_of (48 + d)"

fun format_nat :: "nat \<Rightarrow> string" where
  "format_nat n = (if n < 10 then [digit n] else format_nat (n div 10) @ [digit (n mod 10)])"

declare format_nat.simps [simp del]

definition FormatInt :: "go_int \<Rightarrow> string" where
  "FormatInt i = (if i < 0 then CHR ''-'' # format_nat (nat (- i)) else format_nat (nat i))"

definition is_digit :: "char \<Rightarrow> bool" where
  "is_digit c \<longleftrightarrow> 48 \<le> byte c \<and> byte c \<le> 57"

fun parse_digits :: "nat \<Rightarrow> string \<Rightarrow> nat option" where
  "parse_digits acc [] = Some acc"
| "parse_digits acc (c # cs) =
     (if is_digit c then parse_digits (10 * acc + (byte c - 48)) cs else None)"

text \<open>\<open>strconv.ParseInt(s, 10, 64)\<close>: an optional sign, at least one digit, in the int64 range.\<close>

definition ParseInt :: "string \<Rightarrow> go_int option" where
  "ParseInt s =
     (let neg = (case s of c # _ \<Rightarrow> c = CHR ''-'' | [] \<Rightarrow> False);
          body = (case s of c # cs \<Rightarrow> if c = CHR ''-'' \<or> c = CHR ''+'' then cs else s | [] \<Rightarrow> [])
      in if body = [] then None
         else case parse_digits 0 body of
                None \<Rightarrow> None
              | Some n \<Rightarrow> let i = (if neg then - int n else int n)
                          in if - (2 ^ 63) \<le> i \<and> i < 2 ^ 63 then Some i else None)"

lemma byte_digit [simp]: "d < 10 \<Longrightarrow> byte (digit d) = 48 + d"
  by (simp add: byte_def digit_def)

lemma is_digit_digit [simp]: "d < 10 \<Longrightarrow> is_digit (digit d)"
  by (simp add: is_digit_def)

lemma digit_not_sign [simp]:
  "d < 10 \<Longrightarrow> digit d \<noteq> CHR ''-''" "d < 10 \<Longrightarrow> digit d \<noteq> CHR ''+''" "d < 10 \<Longrightarrow> digit d \<noteq> CHR '':''"
  using byte_digit [of d] by (auto simp: byte_def)

lemma parse_digits_append:
  "parse_digits acc (xs @ ys) =
     (case parse_digits acc xs of None \<Rightarrow> None | Some a \<Rightarrow> parse_digits a ys)"
  by (induction xs arbitrary: acc) auto

lemma parse_format_nat: "parse_digits 0 (format_nat n) = Some n"
proof (induction n rule: format_nat.induct)
  case (1 n)
  show ?case
  proof (cases "n < 10")
    case True
    then show ?thesis by (subst format_nat.simps) simp
  next
    case False
    then show ?thesis
      using "1.IH" by (subst format_nat.simps) (simp add: parse_digits_append)
  qed
qed

lemma format_nat_Cons: "\<exists>c cs. format_nat n = c # cs \<and> c \<noteq> CHR ''-'' \<and> c \<noteq> CHR ''+''"
proof (induction n rule: format_nat.induct)
  case (1 n)
  then show ?case by (cases "n < 10") (subst format_nat.simps, fastforce)+
qed

lemma format_nat_no_colon: "CHR '':'' \<notin> set (format_nat n)"
proof (induction n rule: format_nat.induct)
  case (1 n)
  then show ?case
    by (cases "n < 10") (subst format_nat.simps, simp add: eq_commute [of "CHR '':''"])+
qed

lemma FormatInt_no_colon: "CHR '':'' \<notin> set (FormatInt i)"
  by (simp add: FormatInt_def format_nat_no_colon)

lemma ParseInt_FormatInt:
  assumes "- (2 ^ 63) \<le> i" and "i < 2 ^ 63"
  shows "ParseInt (FormatInt i) = Some i"
proof (cases "i < 0")
  case True
  obtain c cs where c: "format_nat (nat (- i)) = c # cs" using format_nat_Cons by blast
  show ?thesis
    using True assms parse_format_nat [of "nat (- i)"]
    by (simp add: ParseInt_def FormatInt_def c)
next
  case False
  obtain c cs where c: "format_nat (nat i) = c # cs" "c \<noteq> CHR ''-''" "c \<noteq> CHR ''+''"
    using format_nat_Cons by blast
  show ?thesis
    using False assms parse_format_nat [of "nat i"]
    by (simp add: ParseInt_def FormatInt_def c)
qed

lemma format_nat_inj: "format_nat m = format_nat n \<Longrightarrow> m = n"
  by (metis option.inject parse_format_nat)

lemma FormatInt_inj: "FormatInt i = FormatInt j \<Longrightarrow> i = j"
proof -
  assume eq: "FormatInt i = FormatInt j"
  have no_sign: "format_nat n \<noteq> CHR ''-'' # xs" for n xs
    using format_nat_Cons [of n] by auto
  show ?thesis
  proof (cases "i < 0"; cases "j < 0")
    assume "i < 0" "j < 0"
    with eq have "nat (- i) = nat (- j)" by (simp add: FormatInt_def format_nat_inj)
    with \<open>i < 0\<close> \<open>j < 0\<close> show ?thesis by simp
  next
    assume "\<not> i < 0" "\<not> j < 0"
    with eq have "nat i = nat j" by (simp add: FormatInt_def format_nat_inj)
    with \<open>\<not> i < 0\<close> \<open>\<not> j < 0\<close> show ?thesis by simp
  qed (use eq no_sign no_sign [symmetric] in \<open>auto simp: FormatInt_def\<close>)
qed

section \<open>Printable ASCII\<close>

text \<open>On text without spaces or multi-byte runes the string functions are the obvious ones.\<close>

definition plain :: "string \<Rightarrow> bool" where
  "plain s \<longleftrightarrow> (\<forall>c \<in> set s. 33 \<le> byte c \<and> byte c \<le> 126)"

lemma plain_simps [simp]:
  "plain []" "plain (c # s) \<longleftrightarrow> 33 \<le> byte c \<and> byte c \<le> 126 \<and> plain s"
  by (auto simp: plain_def)

lemma plain_ascii: "plain s \<Longrightarrow> ascii s"
  by (auto simp: plain_def ascii_def)

lemma dropWhile_plain: "plain s \<Longrightarrow> dropWhile (is_space \<circ> fst) (map (\<lambda>c. (byte c, [c])) s) = map (\<lambda>c. (byte c, [c])) s"
  by (cases s) (auto simp: is_space_def)

lemma TrimSpace_plain: "plain s \<Longrightarrow> TrimSpace s = s"
proof -
  assume p: "plain s"
  then have r: "plain (rev s)" by (simp add: plain_def)
  have single: "concat (map (\<lambda>c. [c]) s) = s" by (induction s) simp_all
  show ?thesis
    using dropWhile_plain [OF p] dropWhile_plain [OF r] single
    by (simp add: TrimSpace_def runes_ascii plain_ascii [OF p] rev_map [symmetric] comp_def)
qed

lemma rune_count_plain: "plain s \<Longrightarrow> rune_count s = length s"
  by (simp add: rune_count_ascii plain_ascii)

end
