(* ===== verification/ChatDomain.thy ===== *)
theory ChatDomain
  imports GoStrings
begin

text \<open>
  The chat module's aggregates and rules: \<open>internal/chat/domain/{conversation,membership,
  message,errors}.go\<close> and the ports' row types of \<open>ports.go\<close>, with the user
  aggregate of \<open>internal/user/domain/user.go\<close> the chat module resolves names from.
  Structs are records whose selectors carry a one- or two-letter prefix before the Go field
  name; a pointer field is an \<open>option\<close>; the string enums are datatypes with their parser
  and their wire value.
\<close>

section \<open>Errors\<close>

text \<open>
  The sentinel errors of the module, its field-level \<open>ValidationError\<close>, and
  \<open>InfraError\<close> for an unexpected failure of the named collaborator, which the code wraps
  with \<open>makeErr\<close> and passes up.
\<close>

datatype repo_call =
    CallFindConversation | CallFindDirectPair | CallCreateConversation | CallUpdateConversation
  | CallTombstoneConversation | CallBumpLastMessage | CallListConversations
  | CallAddMembers | CallFindActive | CallUpdateMembership | CallRemoveMembership
  | CallCountActive | CallActiveUserIDs | CallListMembers | CallMarkRead | CallListReceipts
  | CallCursors | CallInitSequence | CallNextSequence | CallPersistSequence
  | CallInsertMessage | CallFindByClientMsgID | CallFindMessage | CallFindByConversationSeq
  | CallListMessages | CallEditMessage | CallTombstoneMessage | CallSenderIDsBetween
  | CallAddReaction | CallRemoveReaction | CallDistinctEmoji | CallCountReaction
  | CallCountReactionAfter | CallReactionAggregates | CallReactors
  | CallAppendChangeLog | CallListUsers | CallNextID | CallBegin | CallCommit | CallRollback
  | CallContextDone

datatype chat_error =
    ErrInvalidConversationType | ErrInvalidRole | ErrInvalidHistoryVisible | ErrGroupTitleRequired
  | ErrConversationNotFound | ErrMembershipNotFound | ErrNotMember | ErrInsufficientRole
  | ErrDirectExists | ErrUnknownParticipant | ErrConversationFull | ErrCannotRemoveOwner
  | ErrCannotDemoteOwner | ErrOnlyOwnerMayChangeOwner | ErrInvalidCursor | ErrInvalidMessageType
  | ErrMessageContentRequired | ErrMessageMediaLimit | ErrMessageNotFound | ErrNotSender
  | ErrEditWindowExpired | ErrMessageDeleted | ErrMessageNotEditable | ErrReplyNotFound
  | ErrMentionNotMember | ErrInvalidEmoji | ErrReactionLimit | ErrSequenceConflict
  | ErrClientMsgIDConflict
  | ValidationError string string
  | InfraError repo_call

section \<open>Conversations\<close>

datatype ConversationType = ConversationDirect | ConversationGroup

fun conversation_type_string :: "ConversationType \<Rightarrow> string" where
  "conversation_type_string ConversationDirect = ''direct''"
| "conversation_type_string ConversationGroup = ''group''"

definition ParseConversationType :: "string \<Rightarrow> chat_error + ConversationType" where
  "ParseConversationType s =
     (if s = ''direct'' then Inr ConversationDirect
      else if s = ''group'' then Inr ConversationGroup
      else Inl ErrInvalidConversationType)"

text \<open>\<open>HistoryVisible\<close> is a Go string type with two valid values.\<close>

type_synonym HistoryVisible = string

definition HistoryVisibleAll :: HistoryVisible where "HistoryVisibleAll = ''all''"
definition HistoryVisibleFromJoin :: HistoryVisible where "HistoryVisibleFromJoin = ''from_join''"

definition HistoryVisible_Valid :: "HistoryVisible \<Rightarrow> bool" where
  "HistoryVisible_Valid h \<longleftrightarrow> h = HistoryVisibleAll \<or> h = HistoryVisibleFromJoin"

record Settings =
  sSlowModeSeconds :: int
  sAnyoneCanAdd :: bool
  sHistoryVisible :: HistoryVisible

definition DefaultSettings :: Settings where
  "DefaultSettings = \<lparr>sSlowModeSeconds = 0, sAnyoneCanAdd = False, sHistoryVisible = HistoryVisibleAll\<rparr>"

record Conversation =
  cID :: go_int
  cType :: ConversationType
  cTitle :: "string option"
  cPhotoMediaID :: "go_int option"
  cDescription :: "string option"
  cCreatedBy :: go_int
  cLastMessageAt :: "go_time option"
  cLastMessageSeq :: "go_int option"
  cLastMessageSnippet :: "string option"
  cLastSenderID :: "go_int option"
  cSettings :: Settings
  cRetentionDays :: "int option"
  cCreatedAt :: go_time
  cUpdatedAt :: go_time
  cDeletedAt :: "go_time option"

definition LastActivity :: "Conversation \<Rightarrow> go_time" where
  "LastActivity c = (case cLastMessageAt c of Some t \<Rightarrow> t | None \<Rightarrow> cCreatedAt c)"

section \<open>Memberships\<close>

datatype Role = RoleOwner | RoleAdmin | RoleMember

fun role_string :: "Role \<Rightarrow> string" where
  "role_string RoleOwner = ''owner''"
| "role_string RoleAdmin = ''admin''"
| "role_string RoleMember = ''member''"

definition ParseRole :: "string \<Rightarrow> chat_error + Role" where
  "ParseRole s =
     (if s = ''owner'' then Inr RoleOwner
      else if s = ''admin'' then Inr RoleAdmin
      else if s = ''member'' then Inr RoleMember
      else Inl ErrInvalidRole)"

fun role_rank :: "Role \<Rightarrow> int" where
  "role_rank RoleMember = 0"
| "role_rank RoleAdmin = 1"
| "role_rank RoleOwner = 2"

definition AtLeast :: "Role \<Rightarrow> Role \<Rightarrow> bool" where
  "AtLeast r target \<longleftrightarrow> role_rank r \<ge> role_rank target"

text \<open>Roles are ordered by authority, so the order of the library is the code's \<open>AtLeast\<close>.\<close>

instantiation Role :: linorder
begin

definition less_eq_Role :: "Role \<Rightarrow> Role \<Rightarrow> bool" where
  "less_eq_Role r s \<longleftrightarrow> role_rank r \<le> role_rank s"

definition less_Role :: "Role \<Rightarrow> Role \<Rightarrow> bool" where
  "less_Role r s \<longleftrightarrow> role_rank r < role_rank s"

instance
proof
  fix x y z :: Role
  show "x < y \<longleftrightarrow> x \<le> y \<and> \<not> y \<le> x" by (auto simp: less_eq_Role_def less_Role_def)
  show "x \<le> x" by (simp add: less_eq_Role_def)
  show "x \<le> y \<Longrightarrow> y \<le> z \<Longrightarrow> x \<le> z" by (simp add: less_eq_Role_def)
  show "x \<le> y \<Longrightarrow> y \<le> x \<Longrightarrow> x = y" by (cases x; cases y) (auto simp: less_eq_Role_def)
  show "x \<le> y \<or> y \<le> x" by (auto simp: less_eq_Role_def)
qed

end

lemma AtLeast_ge: "AtLeast r t \<longleftrightarrow> t \<le> r"
  by (simp add: AtLeast_def less_eq_Role_def)

lemma AtLeast_Admin [simp]: "AtLeast r RoleAdmin \<longleftrightarrow> r \<noteq> RoleMember"
  by (cases r) (simp_all add: AtLeast_def)

record Membership =
  mConversationID :: go_int
  mUserID :: go_int
  mRole :: Role
  mLastReadSeq :: go_int
  mLastDeliveredSeq :: go_int
  mLastReadAt :: "go_time option"
  mMutedUntil :: "go_time option"
  mPinnedAt :: "go_time option"
  mArchivedAt :: "go_time option"
  mJoinedAt :: go_time
  mLeftAt :: "go_time option"

definition Active :: "Membership \<Rightarrow> bool" where
  "Active m \<longleftrightarrow> mLeftAt m = None"

definition UnreadCount :: "Membership \<Rightarrow> go_int option \<Rightarrow> go_int" where
  "UnreadCount m lastMessageSeq =
     (case lastMessageSeq of None \<Rightarrow> 0
      | Some s \<Rightarrow> let n = s - mLastReadSeq m in if n > 0 then n else 0)"

definition MessageStatus :: "Membership \<Rightarrow> go_int option \<Rightarrow> string" where
  "MessageStatus m seq =
     (case seq of None \<Rightarrow> ''''
      | Some s \<Rightarrow> if s \<le> mLastReadSeq m then ''read''
                 else if s \<le> mLastDeliveredSeq m then ''delivered'' else ''sent'')"

section \<open>Messages\<close>

datatype MessageType =
    MessageTypeText | MessageTypeMedia | MessageTypeSystem | MessageTypeReply
  | MessageTypeForwarded | MessageTypeDeleted

fun message_type_string :: "MessageType \<Rightarrow> string" where
  "message_type_string MessageTypeText = ''text''"
| "message_type_string MessageTypeMedia = ''media''"
| "message_type_string MessageTypeSystem = ''system''"
| "message_type_string MessageTypeReply = ''reply''"
| "message_type_string MessageTypeForwarded = ''forwarded''"
| "message_type_string MessageTypeDeleted = ''deleted''"

definition ParseMessageType :: "string \<Rightarrow> chat_error + MessageType" where
  "ParseMessageType s =
     (if s = ''text'' then Inr MessageTypeText
      else if s = ''media'' then Inr MessageTypeMedia
      else if s = ''system'' then Inr MessageTypeSystem
      else if s = ''reply'' then Inr MessageTypeReply
      else if s = ''forwarded'' then Inr MessageTypeForwarded
      else Inl ErrInvalidMessageType)"

definition MaxMessageTextLen :: nat where "MaxMessageTextLen = 4000"
definition MaxMediaPerMessage :: nat where "MaxMediaPerMessage = 10"

record Attachment =
  aMediaID :: string
  aKind :: string
  aURL :: string
  aThumb :: string
  aSize :: "go_int option"
  aWidth :: "int option"
  aHeight :: "int option"
  aCaption :: string

text \<open>
  The attachment envelope is the JSON text of the attachment list; it is only ever written by
  \<open>encodeEnvelope\<close> and read back by \<open>decodeEnvelopePlain\<close>, so the model keeps the list.
\<close>

record Message =
  gID :: go_int
  gConversationID :: go_int
  gSequence :: go_int
  gClientMsgID :: "string option"
  gSenderID :: "go_int option"
  gType :: MessageType
  gContent :: "string option"
  gAttachmentEnvelope :: "Attachment list option"
  gMentions :: "go_int list"
  gReplyToID :: "go_int option"
  gEditCount :: int
  gEditedAt :: "go_time option"
  gDeletedAt :: "go_time option"
  gDeletedBy :: "go_int option"
  gGlobalSeq :: go_int
  gCreatedAt :: go_time

definition Deleted :: "Message \<Rightarrow> bool" where
  "Deleted m \<longleftrightarrow> gDeletedAt m \<noteq> None"

definition RenderedType :: "Message \<Rightarrow> MessageType" where
  "RenderedType m = (if Deleted m then MessageTypeDeleted else gType m)"

definition EditWindow :: go_time where
  "EditWindow = 24 * 60 * 60 * 1000000"

definition Editable :: "Message \<Rightarrow> go_time \<Rightarrow> bool" where
  "Editable m now \<longleftrightarrow> \<not> Deleted m \<and> now < gCreatedAt m + EditWindow"

definition SenderIDOrZero :: "Message \<Rightarrow> go_int" where
  "SenderIDOrZero m = (case gSenderID m of None \<Rightarrow> 0 | Some s \<Rightarrow> s)"

definition SenderOf :: "Message \<Rightarrow> go_int \<Rightarrow> bool" where
  "SenderOf m userID \<longleftrightarrow> (case gSenderID m of None \<Rightarrow> False | Some s \<Rightarrow> s = userID)"

lemma SenderOf_iff: "SenderOf m u \<longleftrightarrow> gSenderID m = Some u"
  by (auto simp: SenderOf_def split: option.splits)

record ReplyTo =
  rtID :: string
  rtSenderID :: "string option"
  rtText :: "string option"
  rtType :: MessageType

record Reaction =
  reEmoji :: string
  reCount :: go_int
  reUserIDs :: "go_int list"

record ReactionRow =
  rID :: go_int
  rMessageID :: go_int
  rUserID :: go_int
  rEmoji :: string
  rCreatedAt :: go_time

record MessageEdit =
  eID :: go_int
  eMessageID :: go_int
  eEditedBy :: go_int
  eOldContent :: string
  eEditedAt :: go_time

section \<open>Users\<close>

datatype AccountState = AccountActive | AccountSuspended | AccountDeleted

datatype PrimaryIdentifier = PrimaryPhone | PrimaryEmail | PrimaryUsername

record User =
  uID :: go_int
  uUsername :: "string option"
  uDisplayName :: string
  uPhoneNumber :: "string option"
  uEmail :: "string option"
  uAccountState :: AccountState
  uPrimaryIdentifier :: PrimaryIdentifier
  uTokenVersion :: go_int
  uCreatedAt :: go_time
  uUpdatedAt :: go_time

section \<open>The outbox\<close>

text \<open>
  The payload of an outbox row is the JSON of a Go map, kept as a JSON value.  \<open>JTime\<close>
  stands for the text of a timestamp.
\<close>

datatype json =
    JNull
  | JBool bool
  | JInt int
  | JStr string
  | JTime go_time
  | JArr "json list"
  | JObj "(string \<times> json) list"

definition jopt :: "('a \<Rightarrow> json) \<Rightarrow> 'a option \<Rightarrow> json" where
  "jopt f x = (case x of None \<Rightarrow> JNull | Some a \<Rightarrow> f a)"

fun jfield :: "string \<Rightarrow> json \<Rightarrow> json option" where
  "jfield k (JObj kvs) = map_of kvs k"
| "jfield k _ = None"

datatype event_type =
    EventConversationCreated | EventConversationMembership | EventConversationSettings
  | EventMessageCreated | EventMessageEdited | EventMessageDeleted | EventMessageReaction
  | EventReceiptRead | EventReceiptDelivered

fun event_type_string :: "event_type \<Rightarrow> string" where
  "event_type_string EventConversationCreated = ''conversation.created''"
| "event_type_string EventConversationMembership = ''conversation.membership''"
| "event_type_string EventConversationSettings = ''conversation.settings''"
| "event_type_string EventMessageCreated = ''message.created''"
| "event_type_string EventMessageEdited = ''message.edited''"
| "event_type_string EventMessageDeleted = ''message.deleted''"
| "event_type_string EventMessageReaction = ''message.reaction''"
| "event_type_string EventReceiptRead = ''receipt.read''"
| "event_type_string EventReceiptDelivered = ''receipt.delivered''"

record ChangeLogEntry =
  lEventType :: event_type
  lConversationID :: "go_int option"
  lEntityID :: "go_int option"
  lActorUserID :: "go_int option"
  lAffectedUserIDs :: "go_int list"
  lPayload :: json

record ChangeLogRow = ChangeLogEntry +
  lGlobalSeq :: go_int

end
