(* ===== verification/Keyset.thy ===== *)
theory Keyset
  imports Prelude "HOL-Library.Product_Lexorder"
begin

text \<open>
  Keyset pagination, the read pattern of every list endpoint: the query keeps the rows strictly
  beyond the cursor's key, orders them by the key and takes \<open>limit + 1\<close> of them; the service
  serves \<open>limit\<close> and reports a further page when the extra row came back.  The contract of
  such a read is the locale \<open>keyset_reader\<close>, whose client lemma says that following the
  cursors visits every row exactly once and in order.
\<close>

section \<open>The SQL reads\<close>

definition page_asc :: "('r \<Rightarrow> 'k::linorder) \<Rightarrow> 'k option \<Rightarrow> nat \<Rightarrow> 'r list \<Rightarrow> 'r list" where
  "page_asc key cursor limit rows =
     take limit (sort_key key
       (filter (\<lambda>r. case cursor of None \<Rightarrow> True | Some k \<Rightarrow> k < key r) rows))"

definition page_desc :: "('r \<Rightarrow> 'k::linorder) \<Rightarrow> 'k option \<Rightarrow> nat \<Rightarrow> 'r list \<Rightarrow> 'r list" where
  "page_desc key cursor limit rows =
     take limit (rev (sort_key key
       (filter (\<lambda>r. case cursor of None \<Rightarrow> True | Some k \<Rightarrow> key r < k) rows)))"

lemma set_page_asc: "r \<in> set (page_asc key cur n rows) \<Longrightarrow> r \<in> set rows"
  by (auto simp: page_asc_def dest: in_set_takeD)

lemma set_page_desc: "r \<in> set (page_desc key cur n rows) \<Longrightarrow> r \<in> set rows"
  by (auto simp: page_desc_def dest: in_set_takeD)

lemma length_page_asc: "length (page_asc key cur n rows) \<le> n"
  by (simp add: page_asc_def)

lemma length_page_desc: "length (page_desc key cur n rows) \<le> n"
  by (simp add: page_desc_def)

section \<open>The contract and its client\<close>

locale keyset_reader =
  fixes invar :: "'s \<Rightarrow> bool"
    and everything :: "'s \<Rightarrow> 'r list"
    and key :: "'r \<Rightarrow> 'k"
    and fetch :: "'s \<Rightarrow> 'k option \<Rightarrow> nat \<Rightarrow> 'r list"
  assumes fetch_first: "invar s \<Longrightarrow> fetch s None n = take n (everything s)"
    and fetch_beyond:
      "invar s \<Longrightarrow> everything s = xs @ r # ys \<Longrightarrow> fetch s (Some (key r)) n = take n ys"
begin

definition page :: "'s \<Rightarrow> 'k option \<Rightarrow> nat \<Rightarrow> 'r list" where
  "page s cur limit = take limit (fetch s cur (Suc limit))"

definition has_more :: "'s \<Rightarrow> 'k option \<Rightarrow> nat \<Rightarrow> bool" where
  "has_more s cur limit \<longleftrightarrow> limit < length (fetch s cur (Suc limit))"

fun walk :: "nat \<Rightarrow> 's \<Rightarrow> nat \<Rightarrow> 'k option \<Rightarrow> 'r list" where
  "walk 0 s limit cur = []"
| "walk (Suc fuel) s limit cur =
     page s cur limit
       @ (if has_more s cur limit \<and> page s cur limit \<noteq> []
          then walk fuel s limit (Some (key (last (page s cur limit)))) else [])"

definition at :: "'s \<Rightarrow> 'k option \<Rightarrow> 'r list \<Rightarrow> bool" where
  "at s cur rest \<longleftrightarrow>
     (cur = None \<and> rest = everything s)
   \<or> (\<exists>xs r. everything s = xs @ r # rest \<and> cur = Some (key r))"

lemma fetch_at: "invar s \<Longrightarrow> at s cur rest \<Longrightarrow> fetch s cur n = take n rest"
  by (auto simp: at_def fetch_first fetch_beyond)

lemma at_next:
  assumes "at s cur rest" and "0 < limit" and "rest \<noteq> []"
  shows "at s (Some (key (last (take limit rest)))) (drop limit rest)"
proof -
  have ne: "take limit rest \<noteq> []" using assms(2,3) by simp
  obtain pre where pre: "everything s = pre @ rest"
    using assms(1) by (auto simp: at_def)
  have "everything s = (pre @ butlast (take limit rest)) @ last (take limit rest) # drop limit rest"
    using pre ne by (metis append.assoc append_Cons append_Nil append_butlast_last_id append_take_drop_id)
  then show ?thesis by (auto simp: at_def)
qed

lemma walk_from:
  "invar s \<Longrightarrow> 0 < limit \<Longrightarrow> at s cur rest \<Longrightarrow> length rest < fuel \<Longrightarrow> walk fuel s limit cur = rest"
proof (induction fuel arbitrary: cur rest)
  case 0
  then show ?case by simp
next
  case (Suc fuel)
  have f: "fetch s cur (Suc limit) = take (Suc limit) rest"
    using Suc.prems by (simp add: fetch_at)
  then have p: "page s cur limit = take limit rest"
    by (simp add: page_def min_def)
  have m: "has_more s cur limit \<longleftrightarrow> limit < length rest"
    by (auto simp: has_more_def f)
  show ?case
  proof (cases "limit < length rest")
    case True
    then have ne: "rest \<noteq> []" by auto
    have "walk fuel s limit (Some (key (last (take limit rest)))) = drop limit rest"
      using Suc.prems True ne by (intro Suc.IH at_next) auto
    with True ne Suc.prems(2) show ?thesis by (simp add: p m)
  next
    case False
    then show ?thesis by (simp add: p m)
  qed
qed

text \<open>Following the cursors from the start returns every row once, in the order of the list.\<close>

lemma walk_complete:
  "invar s \<Longrightarrow> 0 < limit \<Longrightarrow> length (everything s) < fuel \<Longrightarrow> walk fuel s limit None = everything s"
  by (rule walk_from) (auto simp: at_def)

lemma page_bound: "length (page s cur limit) \<le> limit"
  by (simp add: page_def)

end

section \<open>Endpoints that page with an opaque cursor\<close>

text \<open>
  A client follows an endpoint by sending back the cursor of the last answer until there is none.
  An endpoint answers with a page of items and the cursor of the next page.
\<close>

fun follow :: "nat \<Rightarrow> (string \<Rightarrow> 'e + 'i list \<times> string option) \<Rightarrow> string \<Rightarrow> 'i list" where
  "follow 0 request cursor = []"
| "follow (Suc fuel) request cursor =
     (case request cursor of
        Inl _ \<Rightarrow> []
      | Inr (items, next) \<Rightarrow>
          items @ (case next of None \<Rightarrow> [] | Some c \<Rightarrow> follow fuel request c))"

locale cursor_endpoint = keyset_reader invar everything key fetch
  for invar :: "'s \<Rightarrow> bool" and everything :: "'s \<Rightarrow> 'r list" and key :: "'r \<Rightarrow> 'k"
    and fetch :: "'s \<Rightarrow> 'k option \<Rightarrow> nat \<Rightarrow> 'r list" +
  fixes limit :: "'s \<Rightarrow> nat"
    and encode :: "'k \<Rightarrow> string"
    and item :: "'s \<Rightarrow> 'r \<Rightarrow> 'i"
    and request :: "'s \<Rightarrow> string \<Rightarrow> 'e + 'i list \<times> string option"
  assumes limit_pos: "invar s \<Longrightarrow> 0 < limit s"
    and request_first: "invar s \<Longrightarrow>
      \<exists>next. request s [] = Inr (map (item s) (page s None (limit s)), next)
        \<and> (next = None \<and> \<not> has_more s None (limit s)
            \<or> page s None (limit s) \<noteq> [] \<and> next = Some (encode (key (last (page s None (limit s))))))"
    and request_next: "invar s \<Longrightarrow> r \<in> set (everything s) \<Longrightarrow>
      \<exists>next. request s (encode (key r)) = Inr (map (item s) (page s (Some (key r)) (limit s)), next)
        \<and> (next = None \<and> \<not> has_more s (Some (key r)) (limit s)
            \<or> page s (Some (key r)) (limit s) \<noteq> []
              \<and> next = Some (encode (key (last (page s (Some (key r)) (limit s))))))"
begin

definition sent :: "'k option \<Rightarrow> string" where
  "sent cur = (case cur of None \<Rightarrow> [] | Some k \<Rightarrow> encode k)"

lemma request_at:
  assumes "invar s" and "at s cur rest"
  shows "\<exists>next. request s (sent cur) = Inr (map (item s) (take (limit s) rest), next)
      \<and> (next = None \<and> \<not> limit s < length rest
          \<or> rest \<noteq> [] \<and> next = Some (sent (Some (key (last (take (limit s) rest))))))"
proof -
  have f: "fetch s cur n = take n rest" for n using assms by (simp add: fetch_at)
  have p: "page s cur (limit s) = take (limit s) rest" "has_more s cur (limit s) \<longleftrightarrow> limit s < length rest"
    by (auto simp: page_def has_more_def f min_def)
  have ne: "take (limit s) rest \<noteq> [] \<longleftrightarrow> rest \<noteq> []" using limit_pos [OF assms(1)] by simp
  show ?thesis
  proof (cases cur)
    case None
    with request_first [OF assms(1)] p ne show ?thesis by (simp add: sent_def)
  next
    case (Some k)
    then have "\<exists>r \<in> set (everything s). k = key r" using assms(2) by (auto simp: at_def)
    then obtain r where r: "r \<in> set (everything s)" "k = key r" by blast
    from request_next [OF assms(1) r(1)] p ne Some r(2) show ?thesis by (simp add: sent_def)
  qed
qed

lemma follow_from:
  "invar s \<Longrightarrow> at s cur rest \<Longrightarrow> length rest < fuel \<Longrightarrow> follow fuel (request s) (sent cur) = map (item s) rest"
proof (induction fuel arbitrary: cur rest)
  case 0
  then show ?case by simp
next
  case (Suc fuel)
  obtain nx where nx: "request s (sent cur) = Inr (map (item s) (take (limit s) rest), nx)"
    "nx = None \<and> \<not> limit s < length rest \<or> rest \<noteq> [] \<and> nx = Some (sent (Some (key (last (take (limit s) rest)))))"
    using request_at [OF Suc.prems(1,2)] by blast
  show ?case
  proof (cases nx)
    case None
    with nx show ?thesis by simp
  next
    case (Some c)
    with nx(2) have ne: "rest \<noteq> []" and c: "c = sent (Some (key (last (take (limit s) rest))))" by auto
    note pos = limit_pos [OF Suc.prems(1)]
    have "length (drop (limit s) rest) < fuel" using Suc.prems(3) ne pos by (cases rest) auto
    then have "follow fuel (request s) c = map (item s) (drop (limit s) rest)"
      unfolding c by (rule Suc.IH [OF Suc.prems(1) at_next [OF Suc.prems(2) pos ne]])
    with nx(1) Some show ?thesis by (simp add: map_append [symmetric] del: map_append)
  qed
qed

text \<open>A client that follows the cursors sees every row once, in order.\<close>

lemma follow_complete:
  assumes "invar s" and "length (everything s) < fuel"
  shows "follow fuel (request s) [] = map (item s) (everything s)"
proof -
  have "at s None (everything s)" by (simp add: at_def)
  from follow_from [OF assms(1) this assms(2)] show ?thesis by (simp add: sent_def)
qed

end

section \<open>The SQL reads satisfy it\<close>

lemma sort_key_split:
  assumes "distinct (map key rows)" and "sort_key key rows = xs @ r # ys"
  shows "sort_key key (filter (\<lambda>x. key r < key x) rows) = ys"
    and "sort_key key (filter (\<lambda>x. key x < key r) rows) = xs"
proof -
  let ?s = "sort_key key rows"
  have sd: "sorted (map key ?s)" "distinct (map key ?s)"
    using assms(1) by (simp_all add: distinct_map)
  have strict: "sorted_wrt (<) (map key (xs @ r # ys))"
    using sd unfolding assms(2) by (simp add: strict_sorted_iff)
  have y: "\<forall>y \<in> set ys. key r < key y" and x: "\<forall>x \<in> set xs. key x < key r"
    using strict by (auto simp: sorted_wrt_append)
  have f1: "filter (\<lambda>x. key r < key x) ?s = ys" and f2: "filter (\<lambda>x. key x < key r) ?s = xs"
    using x y unfolding assms(2)
    by (auto simp: filter_id_conv filter_empty_conv dest: order_less_asym)
  show "sort_key key (filter (\<lambda>x. key r < key x) rows) = ys"
    using f1 by (simp add: filter_sort)
  show "sort_key key (filter (\<lambda>x. key x < key r) rows) = xs"
    using f2 by (simp add: filter_sort)
qed

lemma page_asc_beyond:
  "distinct (map key rows) \<Longrightarrow> sort_key key rows = xs @ r # ys
    \<Longrightarrow> page_asc key (Some (key r)) n rows = take n ys"
  by (simp add: page_asc_def sort_key_split)

lemma page_asc_first: "page_asc key None n rows = take n (sort_key key rows)"
  by (simp add: page_asc_def)

lemma page_desc_beyond:
  assumes "distinct (map key rows)" and "rev (sort_key key rows) = xs @ r # ys"
  shows "page_desc key (Some (key r)) n rows = take n ys"
proof -
  have "sort_key key rows = rev ys @ r # rev xs"
    using assms(2) by (metis append.assoc append_Cons append_Nil rev.simps(2) rev_append rev_rev_ident)
  from sort_key_split(2) [OF assms(1) this] show ?thesis
    by (simp add: page_desc_def)
qed

lemma page_desc_first: "page_desc key None n rows = take n (rev (sort_key key rows))"
  by (simp add: page_desc_def)

end
