(* ===== verification/ChatStore.thy ===== *)
theory ChatStore
  imports ChatDomain Keyset
begin

text \<open>
  The PostgreSQL repositories of the chat module
  (\<open>internal/chat/infra/postgres/*_repo.go\<close>, \<open>change_log.go\<close>) over the tables of
  migrations 000006 and 000007.  A table is a list of rows; each SQL statement is a function on
  the tables with the constraint checks that can fail.  \<open>fl\<close> says which repository calls
  fail with an unexpected error in the current request, so that every error return of the code
  is a branch.  A read on the connection pool is applied to the committed tables, a read inside
  a transaction to the tables of the transaction.
\<close>

section \<open>Tables\<close>

record ChatDB =
  tConversations :: "Conversation list"
  tMembers :: "Membership list"
  tSequences :: "(go_int \<times> go_int) list"
  tMessages :: "Message list"
  tEdits :: "MessageEdit list"
  tReactions :: "ReactionRow list"
  tChangeLog :: "ChangeLogRow list"
  tUsers :: "User list"
  nMessageSeq :: go_int
  nChangeSeq :: go_int

type_synonym faults = "repo_call \<Rightarrow> bool"

definition no_faults :: faults where "no_faults = (\<lambda>_. False)"

definition call :: "faults \<Rightarrow> repo_call \<Rightarrow> chat_error + unit" where
  "call fl c = ensure (\<not> fl c) (InfraError c)"

lemma call_Inr [simp]: "call fl c = Inr u \<longleftrightarrow> \<not> fl c"
  by (simp add: call_def)

lemma call_ok [simp]: "\<not> fl c \<Longrightarrow> call fl c = Inr ()"
  by (simp add: call_def)

lemma call_no_faults [simp]: "call no_faults c = Inr ()"
  by (simp add: call_def no_faults_def)

lemma call_Inl [simp]: "call fl c = Inl e \<longleftrightarrow> fl c \<and> e = InfraError c"
  by (auto simp: call_def)

definition user_exists :: "ChatDB \<Rightarrow> go_int \<Rightarrow> bool" where
  "user_exists db u \<longleftrightarrow> u \<in> uID ` set (tUsers db)"

definition conversation_exists :: "ChatDB \<Rightarrow> go_int \<Rightarrow> bool" where
  "conversation_exists db c \<longleftrightarrow> c \<in> cID ` set (tConversations db)"

section \<open>Users (internal/auth/infra/postgres/user_repo.go)\<close>

definition ListByIDs :: "faults \<Rightarrow> ChatDB \<Rightarrow> go_int list \<Rightarrow> chat_error + User list" where
  "ListByIDs fl db ids =
     (if ids = [] then Inr []
      else rbind (call fl CallListUsers)
             (\<lambda>_. Inr (filter (\<lambda>u. uID u \<in> set ids \<and> uAccountState u \<noteq> AccountDeleted) (tUsers db))))"

section \<open>Conversations (conversation_repo.go)\<close>

text \<open>The JSON settings column; an empty \<open>history_visible\<close> reads as "all".\<close>

definition settingsFromJSON :: "Settings \<Rightarrow> Settings" where
  "settingsFromJSON s =
     (if sHistoryVisible s = [] then s\<lparr>sHistoryVisible := HistoryVisibleAll\<rparr> else s)"

definition scanConversation :: "Conversation \<Rightarrow> Conversation" where
  "scanConversation c = c\<lparr>cSettings := settingsFromJSON (cSettings c)\<rparr>"

definition ConversationCreate :: "faults \<Rightarrow> Conversation \<Rightarrow> ChatDB \<Rightarrow> chat_error + ChatDB" where
  "ConversationCreate fl c db =
     rbind (call fl CallCreateConversation) (\<lambda>_.
     rbind (ensure (cType c = ConversationDirect \<or> cTitle c \<noteq> None) (InfraError CallCreateConversation)) (\<lambda>_.
     rbind (ensure (\<not> conversation_exists db (cID c)) (InfraError CallCreateConversation)) (\<lambda>_.
     rbind (ensure (user_exists db (cCreatedBy c)) (InfraError CallCreateConversation)) (\<lambda>_.
       Inr (db\<lparr>tConversations := tConversations db @
              [c\<lparr>cLastMessageAt := None, cLastMessageSeq := None, cLastMessageSnippet := None,
                 cLastSenderID := None, cDeletedAt := None\<rparr>]\<rparr>)))))"

definition ConversationFindByID :: "faults \<Rightarrow> ChatDB \<Rightarrow> go_int \<Rightarrow> chat_error + Conversation" where
  "ConversationFindByID fl db i =
     rbind (call fl CallFindConversation) (\<lambda>_.
       from_opt ErrConversationNotFound
         (map_option scanConversation (find (\<lambda>c. cID c = i \<and> cDeletedAt c = None) (tConversations db))))"

definition active_member :: "ChatDB \<Rightarrow> go_int \<Rightarrow> go_int \<Rightarrow> bool" where
  "active_member db c u \<longleftrightarrow>
     (\<exists>m \<in> set (tMembers db). mConversationID m = c \<and> mUserID m = u \<and> mLeftAt m = None)"

definition direct_pair :: "ChatDB \<Rightarrow> go_int \<Rightarrow> go_int \<Rightarrow> Conversation \<Rightarrow> bool" where
  "direct_pair db a b c \<longleftrightarrow>
     cType c = ConversationDirect \<and> cDeletedAt c = None
   \<and> active_member db (cID c) a \<and> active_member db (cID c) b
   \<and> \<not> (\<exists>x \<in> set (tMembers db). mConversationID x = cID c \<and> mUserID x \<notin> {a, b})"

definition FindDirectPair :: "faults \<Rightarrow> ChatDB \<Rightarrow> go_int \<Rightarrow> go_int \<Rightarrow> chat_error + Conversation" where
  "FindDirectPair fl db a b =
     rbind (call fl CallFindDirectPair) (\<lambda>_.
       from_opt ErrConversationNotFound
         (map_option scanConversation (find (direct_pair db a b) (tConversations db))))"

definition ConversationUpdate :: "faults \<Rightarrow> Conversation \<Rightarrow> ChatDB \<Rightarrow> chat_error + ChatDB" where
  "ConversationUpdate fl c db =
     rbind (call fl CallUpdateConversation) (\<lambda>_.
     rbind (ensure (\<forall>r \<in> set (tConversations db). cID r = cID c \<longrightarrow>
              cType r = ConversationDirect \<or> cTitle c \<noteq> None) (InfraError CallUpdateConversation)) (\<lambda>_.
       Inr (db\<lparr>tConversations := upd_where (\<lambda>r. cID r = cID c)
              (\<lambda>r. r\<lparr>cTitle := cTitle c, cPhotoMediaID := cPhotoMediaID c, cDescription := cDescription c,
                     cLastMessageAt := cLastMessageAt c, cLastMessageSeq := cLastMessageSeq c,
                     cLastMessageSnippet := cLastMessageSnippet c, cLastSenderID := cLastSenderID c,
                     cSettings := cSettings c, cRetentionDays := cRetentionDays c,
                     cUpdatedAt := cUpdatedAt c\<rparr>)
              (tConversations db)\<rparr>)))"

definition ConversationTombstone :: "faults \<Rightarrow> go_int \<Rightarrow> go_time \<Rightarrow> ChatDB \<Rightarrow> chat_error + ChatDB" where
  "ConversationTombstone fl i at db =
     rbind (call fl CallTombstoneConversation) (\<lambda>_.
       Inr (db\<lparr>tConversations := upd_where (\<lambda>r. cID r = i)
              (\<lambda>r. r\<lparr>cDeletedAt := Some at, cUpdatedAt := at\<rparr>) (tConversations db)\<rparr>))"

definition bump_guard :: "go_int \<Rightarrow> go_int \<Rightarrow> Conversation \<Rightarrow> bool" where
  "bump_guard i seq r \<longleftrightarrow>
     cID r = i \<and> (case cLastMessageSeq r of None \<Rightarrow> True | Some s \<Rightarrow> s < seq)"

definition BumpLastMessage ::
  "faults \<Rightarrow> go_int \<Rightarrow> go_int \<Rightarrow> string option \<Rightarrow> go_int option \<Rightarrow> go_time \<Rightarrow> ChatDB
    \<Rightarrow> chat_error + (bool \<times> ChatDB)" where
  "BumpLastMessage fl i seq snippet sender at db =
     rbind (call fl CallBumpLastMessage) (\<lambda>_.
       Inr (count_where (bump_guard i seq) (tConversations db) = 1,
            db\<lparr>tConversations := upd_where (bump_guard i seq)
              (\<lambda>r. r\<lparr>cLastMessageAt := Some at, cLastMessageSeq := Some seq,
                     cLastMessageSnippet := snippet, cLastSenderID := sender, cUpdatedAt := at\<rparr>)
              (tConversations db)\<rparr>))"

record ConversationRow =
  crConversation :: Conversation
  crMembership :: Membership
  crCounterpartID :: "go_int option"

record ConversationListQuery =
  qlUserID :: go_int
  qlFilter :: string
  qlUnreadOnly :: bool
  qlLimit :: nat
  qlCursor :: "(go_time \<times> go_int) option"

text \<open>
  The chat-list query: the join of the live conversations with the caller's active membership,
  the optional filters, and the keyset on (activity, id) descending.
\<close>

definition list_matches :: "ConversationListQuery \<Rightarrow> Conversation \<Rightarrow> Membership \<Rightarrow> bool" where
  "list_matches q c m \<longleftrightarrow>
     mConversationID m = cID c \<and> mUserID m = qlUserID q
   \<and> cDeletedAt c = None \<and> mLeftAt m = None
   \<and> (qlFilter q = ''pinned'' \<longrightarrow> mPinnedAt m \<noteq> None)
   \<and> (qlFilter q = ''archived'' \<longrightarrow> mArchivedAt m \<noteq> None)
   \<and> (qlFilter q = ''groups'' \<longrightarrow> cType c = ConversationGroup)
   \<and> (qlFilter q = ''direct'' \<longrightarrow> cType c = ConversationDirect)
   \<and> (qlUnreadOnly q \<longrightarrow>
        (case cLastMessageSeq c of None \<Rightarrow> 0 | Some s \<Rightarrow> s) > mLastReadSeq m)"

definition counterpart :: "ChatDB \<Rightarrow> go_int \<Rightarrow> go_int \<Rightarrow> go_int option" where
  "counterpart db c u =
     map_option mUserID
       (find (\<lambda>m. mConversationID m = c \<and> mUserID m \<noteq> u \<and> mLeftAt m = None) (tMembers db))"

definition conversation_rows :: "ChatDB \<Rightarrow> ConversationListQuery \<Rightarrow> ConversationRow list" where
  "conversation_rows db q =
     map (\<lambda>(c, m). \<lparr>crConversation = scanConversation c, crMembership = m,
                    crCounterpartID = counterpart db (cID c) (qlUserID q)\<rparr>)
       (filter (\<lambda>(c, m). list_matches q c m) (List.product (tConversations db) (tMembers db)))"

definition row_position :: "ConversationRow \<Rightarrow> go_time \<times> go_int" where
  "row_position r = (LastActivity (crConversation r), cID (crConversation r))"

definition ConversationList ::
  "faults \<Rightarrow> ChatDB \<Rightarrow> ConversationListQuery \<Rightarrow> chat_error + ConversationRow list" where
  "ConversationList fl db q =
     rbind (call fl CallListConversations) (\<lambda>_.
       Inr (page_desc row_position (qlCursor q) (qlLimit q) (conversation_rows db q)))"

section \<open>Memberships (membership_repo.go)\<close>

definition mem_key :: "Membership \<Rightarrow> go_int \<times> go_int" where
  "mem_key m = (mConversationID m, mUserID m)"

text \<open>The CHECK constraints of \<open>conversation_members\<close> (migration 000006).\<close>

definition mem_check :: "Membership \<Rightarrow> bool" where
  "mem_check m \<longleftrightarrow>
     0 \<le> mLastReadSeq m
   \<and> (mLastReadSeq m \<le> mLastDeliveredSeq m \<or> mLastReadSeq m = 0)
   \<and> (mArchivedAt m = None \<or> mPinnedAt m = None)"

text \<open>An inserted row takes the column defaults besides the four inserted values.\<close>

definition inserted_member :: "Membership \<Rightarrow> Membership" where
  "inserted_member m =
     \<lparr>mConversationID = mConversationID m, mUserID = mUserID m, mRole = mRole m,
      mLastReadSeq = 0, mLastDeliveredSeq = 0, mLastReadAt = None, mMutedUntil = None,
      mPinnedAt = None, mArchivedAt = None, mJoinedAt = mJoinedAt m, mLeftAt = None\<rparr>"

definition rejoin :: "Membership \<Rightarrow> Membership \<Rightarrow> Membership" where
  "rejoin old new = old\<lparr>mLeftAt := None, mRole := mRole new, mJoinedAt := mJoinedAt new\<rparr>"

definition AddMany :: "faults \<Rightarrow> Membership list \<Rightarrow> ChatDB \<Rightarrow> chat_error + ChatDB" where
  "AddMany fl ms db =
     (if ms = [] then Inr db
      else
        rbind (call fl CallAddMembers) (\<lambda>_.
        rbind (ensure (distinct (map mem_key ms)) (InfraError CallAddMembers)) (\<lambda>_.
        rbind (ensure (\<forall>m \<in> set ms. user_exists db (mUserID m) \<and> conversation_exists db (mConversationID m))
                 (InfraError CallAddMembers)) (\<lambda>_.
          Inr (db\<lparr>tMembers := fold (\<lambda>m t. upsert mem_key rejoin (inserted_member m) t) ms (tMembers db)\<rparr>)))))"

definition FindActive :: "faults \<Rightarrow> ChatDB \<Rightarrow> go_int \<Rightarrow> go_int \<Rightarrow> chat_error + Membership" where
  "FindActive fl db c u =
     rbind (call fl CallFindActive) (\<lambda>_.
       from_opt ErrMembershipNotFound
         (find (\<lambda>m. mConversationID m = c \<and> mUserID m = u \<and> mLeftAt m = None) (tMembers db)))"

definition MembershipUpdate :: "faults \<Rightarrow> Membership \<Rightarrow> ChatDB \<Rightarrow> chat_error + ChatDB" where
  "MembershipUpdate fl m db =
     rbind (call fl CallUpdateMembership) (\<lambda>_.
     rbind (ensure (mem_key m \<in> mem_key ` set (tMembers db) \<longrightarrow> mem_check m)
              (InfraError CallUpdateMembership)) (\<lambda>_.
       Inr (db\<lparr>tMembers := upd_where (\<lambda>r. mem_key r = mem_key m)
              (\<lambda>r. m\<lparr>mJoinedAt := mJoinedAt r\<rparr>) (tMembers db)\<rparr>)))"

definition MembershipRemove ::
  "faults \<Rightarrow> go_int \<Rightarrow> go_int \<Rightarrow> go_time \<Rightarrow> ChatDB \<Rightarrow> chat_error + ChatDB" where
  "MembershipRemove fl c u leftAt db =
     rbind (call fl CallRemoveMembership) (\<lambda>_.
       Inr (db\<lparr>tMembers := upd_where (\<lambda>r. mem_key r = (c, u) \<and> mLeftAt r = None)
              (\<lambda>r. r\<lparr>mLeftAt := Some leftAt\<rparr>) (tMembers db)\<rparr>))"

definition CountActive :: "faults \<Rightarrow> ChatDB \<Rightarrow> go_int \<Rightarrow> chat_error + go_int" where
  "CountActive fl db c =
     rbind (call fl CallCountActive) (\<lambda>_.
       Inr (count_where (\<lambda>m. mConversationID m = c \<and> mLeftAt m = None) (tMembers db)))"

definition active_ids :: "ChatDB \<Rightarrow> go_int \<Rightarrow> go_int list" where
  "active_ids db c =
     sort (map mUserID (filter (\<lambda>m. mConversationID m = c \<and> mLeftAt m = None) (tMembers db)))"

definition ActiveUserIDs :: "faults \<Rightarrow> ChatDB \<Rightarrow> go_int \<Rightarrow> chat_error + go_int list" where
  "ActiveUserIDs fl db c = rbind (call fl CallActiveUserIDs) (\<lambda>_. Inr (active_ids db c))"

record MemberRow =
  mrUserID :: go_int
  mrDisplayName :: string
  mrRole :: Role
  mrJoinedAt :: go_time

record MemberListQuery =
  qmLimit :: nat
  qmCursor :: "(go_time \<times> go_int) option"
  qmQ :: string

text \<open>\<open>ReplaceAll\<close> of a one-byte string, and the pattern of the name filter.\<close>

definition ReplaceAll :: "char \<Rightarrow> string \<Rightarrow> string \<Rightarrow> string" where
  "ReplaceAll old new s = concat (map (\<lambda>c. if c = old then new else [c]) s)"

definition escapeLike :: "string \<Rightarrow> string" where
  "escapeLike s =
     (let s = ReplaceAll (CHR 0x5C) [CHR 0x5C, CHR 0x5C] s;
          s = ReplaceAll (CHR ''%'') [CHR 0x5C, CHR ''%''] s
      in ReplaceAll (CHR ''_'') [CHR 0x5C, CHR ''_''] s)"

definition filter_pattern :: "string \<Rightarrow> string" where
  "filter_pattern q = ''%'' @ escapeLike q @ ''%''"

text \<open>\<open>ilike name pattern\<close> is PostgreSQL's \<open>name ILIKE pattern\<close>.\<close>

definition member_rows :: "(string \<Rightarrow> string \<Rightarrow> bool) \<Rightarrow> ChatDB \<Rightarrow> go_int \<Rightarrow> string \<Rightarrow> MemberRow list" where
  "member_rows ilike db c q =
     map (\<lambda>(m, u). \<lparr>mrUserID = mUserID m, mrDisplayName = uDisplayName u, mrRole = mRole m,
                    mrJoinedAt = mJoinedAt m\<rparr>)
       (filter (\<lambda>(m, u). uID u = mUserID m \<and> mConversationID m = c \<and> mLeftAt m = None
                        \<and> (q \<noteq> [] \<longrightarrow> ilike (uDisplayName u) (filter_pattern q)))
         (List.product (tMembers db) (tUsers db)))"

definition member_position :: "MemberRow \<Rightarrow> go_time \<times> go_int" where
  "member_position r = (mrJoinedAt r, mrUserID r)"

definition MemberList ::
  "faults \<Rightarrow> (string \<Rightarrow> string \<Rightarrow> bool) \<Rightarrow> ChatDB \<Rightarrow> go_int \<Rightarrow> MemberListQuery \<Rightarrow> chat_error + MemberRow list" where
  "MemberList fl ilike db c q =
     rbind (call fl CallListMembers) (\<lambda>_.
       Inr (page_desc member_position (qmCursor q) (qmLimit q) (member_rows ilike db c (qmQ q))))"

definition MembershipMarkRead ::
  "faults \<Rightarrow> go_int \<Rightarrow> go_int \<Rightarrow> go_int \<Rightarrow> go_int \<Rightarrow> go_time \<Rightarrow> ChatDB
    \<Rightarrow> chat_error + ((bool \<times> bool) \<times> ChatDB)" where
  "MembershipMarkRead fl c u readSeq deliveredSeq at db =
     rbind (call fl CallMarkRead) (\<lambda>_.
     case find (\<lambda>m. mem_key m = (c, u) \<and> mLeftAt m = None) (tMembers db) of
       None \<Rightarrow> Inr ((False, False), db)
     | Some old \<Rightarrow>
         let newRead = max (mLastReadSeq old) readSeq;
             newDelivered = max (mLastDeliveredSeq old) (max readSeq deliveredSeq) in
         rbind (ensure (mem_check (old\<lparr>mLastReadSeq := newRead, mLastDeliveredSeq := newDelivered\<rparr>))
                  (InfraError CallMarkRead)) (\<lambda>_.
           Inr ((newRead > mLastReadSeq old, newDelivered > mLastDeliveredSeq old),
                db\<lparr>tMembers := upd_where (\<lambda>m. mem_key m = (c, u) \<and> mLeftAt m = None)
                   (\<lambda>m. m\<lparr>mLastReadSeq := max (mLastReadSeq m) readSeq,
                          mLastDeliveredSeq := max (mLastDeliveredSeq m) (max readSeq deliveredSeq),
                          mLastReadAt := Some at\<rparr>) (tMembers db)\<rparr>)))"

record ReceiptRow =
  rrUserID :: go_int
  rrLastReadSeq :: go_int
  rrLastReadAt :: "go_time option"

definition ListReceipts :: "faults \<Rightarrow> ChatDB \<Rightarrow> go_int \<Rightarrow> chat_error + ReceiptRow list" where
  "ListReceipts fl db c =
     rbind (call fl CallListReceipts) (\<lambda>_.
       Inr (map (\<lambda>m. \<lparr>rrUserID = mUserID m, rrLastReadSeq = mLastReadSeq m, rrLastReadAt = mLastReadAt m\<rparr>)
         (sort_key mUserID (filter (\<lambda>m. mConversationID m = c \<and> mLeftAt m = None) (tMembers db)))))"

record CursorRow =
  cuUserID :: go_int
  cuLastReadSeq :: go_int
  cuLastDeliveredSeq :: go_int

definition CursorsByConversation :: "faults \<Rightarrow> ChatDB \<Rightarrow> go_int \<Rightarrow> chat_error + CursorRow list" where
  "CursorsByConversation fl db c =
     rbind (call fl CallCursors) (\<lambda>_.
       Inr (map (\<lambda>m. \<lparr>cuUserID = mUserID m, cuLastReadSeq = mLastReadSeq m,
                      cuLastDeliveredSeq = mLastDeliveredSeq m\<rparr>)
         (sort_key mUserID (filter (\<lambda>m. mConversationID m = c \<and> mLeftAt m = None) (tMembers db)))))"

end
