(* ===== verification/MessageStore.thy ===== *)
theory MessageStore
  imports ChatStore
begin

text \<open>
  The repositories of messages, edits, reactions, the outbox and the durable sequence counter
  (\<open>message_repo.go\<close>, \<open>reaction_repo.go\<close>, \<open>change_log.go\<close>, \<open>sequence_repo.go\<close> and the
  SQL of \<open>sequence_source.go\<close>), and the invariant the schema gives the tables.
\<close>

section \<open>Messages (message_repo.go)\<close>

definition message_slot :: "Message \<Rightarrow> go_int \<times> go_int" where
  "message_slot m = (gConversationID m, gSequence m)"

text \<open>The partial unique index on (sender, client message id).\<close>

definition client_key :: "Message \<Rightarrow> (go_int \<times> string) option" where
  "client_key m =
     (case (gSenderID m, gClientMsgID m) of (Some s, Some k) \<Rightarrow> Some (s, k) | _ \<Rightarrow> None)"

definition message_check :: "Message \<Rightarrow> bool" where
  "message_check m \<longleftrightarrow>
     0 < gSequence m \<and> gType m \<noteq> MessageTypeDeleted
   \<and> (gType m = MessageTypeText \<longrightarrow> gContent m \<noteq> None)"

definition message_refs :: "ChatDB \<Rightarrow> Message \<Rightarrow> bool" where
  "message_refs db m \<longleftrightarrow>
     conversation_exists db (gConversationID m)
   \<and> (case gSenderID m of None \<Rightarrow> True | Some s \<Rightarrow> user_exists db s)
   \<and> (case gReplyToID m of None \<Rightarrow> True | Some r \<Rightarrow> r \<in> gID ` set (tMessages db))"

definition stored_message :: "ChatDB \<Rightarrow> Message \<Rightarrow> Message" where
  "stored_message db m =
     m\<lparr>gEditCount := 0, gEditedAt := None, gDeletedAt := None, gDeletedBy := None,
       gGlobalSeq := nMessageSeq db\<rparr>"

definition MessageInsert ::
  "faults \<Rightarrow> Message \<Rightarrow> ChatDB \<Rightarrow> chat_error + (Message option \<times> ChatDB)" where
  "MessageInsert fl m db =
     rbind (call fl CallInsertMessage) (\<lambda>_.
     rbind (ensure (message_check m) (InfraError CallInsertMessage)) (\<lambda>_.
       if client_key m \<noteq> None \<and> client_key m \<in> client_key ` set (tMessages db)
       then Inr (None, db)
       else
         rbind (ensure (message_slot m \<notin> message_slot ` set (tMessages db)) ErrSequenceConflict) (\<lambda>_.
         rbind (ensure (gID m \<notin> gID ` set (tMessages db) \<and> message_refs db m)
                  (InfraError CallInsertMessage)) (\<lambda>_.
           Inr (Some (m\<lparr>gGlobalSeq := nMessageSeq db\<rparr>),
                db\<lparr>tMessages := tMessages db @ [stored_message db m],
                   nMessageSeq := nMessageSeq db + 1\<rparr>)))))"

definition FindByClientMsgID :: "faults \<Rightarrow> ChatDB \<Rightarrow> go_int \<Rightarrow> string \<Rightarrow> chat_error + Message" where
  "FindByClientMsgID fl db sender k =
     rbind (call fl CallFindByClientMsgID) (\<lambda>_.
       from_opt ErrMessageNotFound
         (find (\<lambda>m. gSenderID m = Some sender \<and> gClientMsgID m = Some k) (tMessages db)))"

definition MessageFindByID :: "faults \<Rightarrow> ChatDB \<Rightarrow> go_int \<Rightarrow> chat_error + Message" where
  "MessageFindByID fl db i =
     rbind (call fl CallFindMessage) (\<lambda>_.
       from_opt ErrMessageNotFound (find (\<lambda>m. gID m = i) (tMessages db)))"

definition FindByConversationSeq :: "faults \<Rightarrow> ChatDB \<Rightarrow> go_int \<Rightarrow> go_int \<Rightarrow> chat_error + Message" where
  "FindByConversationSeq fl db c s =
     rbind (call fl CallFindByConversationSeq) (\<lambda>_.
       from_opt ErrMessageNotFound
         (find (\<lambda>m. gConversationID m = c \<and> gSequence m = s) (tMessages db)))"

record MessageListQuery =
  qgConversationID :: go_int
  qgBeforeSeq :: "go_int option"
  qgAfterGlobalSeq :: "go_int option"
  qgLimit :: nat

definition conversation_messages :: "ChatDB \<Rightarrow> go_int \<Rightarrow> Message list" where
  "conversation_messages db c = filter (\<lambda>m. gConversationID m = c) (tMessages db)"

definition ListByConversation :: "faults \<Rightarrow> ChatDB \<Rightarrow> MessageListQuery \<Rightarrow> chat_error + Message list" where
  "ListByConversation fl db q =
     rbind (call fl CallListMessages) (\<lambda>_.
       Inr (case qgAfterGlobalSeq q of
              Some a \<Rightarrow> page_asc gGlobalSeq (Some a) (qgLimit q) (conversation_messages db (qgConversationID q))
            | None \<Rightarrow> page_desc gSequence (qgBeforeSeq q) (qgLimit q)
                        (conversation_messages db (qgConversationID q))))"

definition live_message :: "go_int \<Rightarrow> Message \<Rightarrow> bool" where
  "live_message i m \<longleftrightarrow> gID m = i \<and> gDeletedAt m = None"

definition MessageEditRow ::
  "faults \<Rightarrow> go_int \<Rightarrow> Message \<Rightarrow> string \<Rightarrow> go_time \<Rightarrow> ChatDB \<Rightarrow> chat_error + (bool \<times> ChatDB)" where
  "MessageEditRow fl editID m oldContent at db =
     rbind (call fl CallEditMessage) (\<lambda>_.
       if count_where (live_message (gID m)) (tMessages db) = 0 then Inr (False, db)
       else
         rbind (ensure (\<forall>r \<in> set (tMessages db). live_message (gID m) r \<longrightarrow>
                   message_check (r\<lparr>gContent := gContent m\<rparr>)) (InfraError CallEditMessage)) (\<lambda>_.
         rbind (ensure (editID \<notin> eID ` set (tEdits db) \<and> user_exists db (SenderIDOrZero m))
                  (InfraError CallEditMessage)) (\<lambda>_.
           Inr (True,
             db\<lparr>tMessages := upd_where (live_message (gID m))
                  (\<lambda>r. r\<lparr>gContent := gContent m, gEditCount := gEditCount r + 1, gEditedAt := Some at\<rparr>)
                  (tMessages db),
                tEdits := tEdits db @
                  [\<lparr>eID = editID, eMessageID = gID m, eEditedBy = SenderIDOrZero m,
                    eOldContent = oldContent, eEditedAt = at\<rparr>]\<rparr>))))"

definition MessageTombstone ::
  "faults \<Rightarrow> go_int \<Rightarrow> go_int \<Rightarrow> go_time \<Rightarrow> ChatDB \<Rightarrow> chat_error + (bool \<times> ChatDB)" where
  "MessageTombstone fl i deletedBy at db =
     rbind (call fl CallTombstoneMessage) (\<lambda>_.
     rbind (ensure (count_where (live_message i) (tMessages db) = 0 \<or> user_exists db deletedBy) (InfraError CallTombstoneMessage)) (\<lambda>_.
       Inr (count_where (live_message i) (tMessages db) = 1,
            db\<lparr>tMessages := upd_where (live_message i)
                 (\<lambda>r. r\<lparr>gDeletedAt := Some at, gDeletedBy := Some deletedBy\<rparr>) (tMessages db)\<rparr>)))"

text \<open>The distinct senders of the newly read messages; SQL fixes no order for them.\<close>

definition senders_between :: "ChatDB \<Rightarrow> go_int \<Rightarrow> go_int \<Rightarrow> go_int \<Rightarrow> go_int list" where
  "senders_between db c lo hi =
     remdups (List.map_filter gSenderID
       (filter (\<lambda>m. lo < gSequence m \<and> gSequence m \<le> hi) (conversation_messages db c)))"

definition SenderIDsBetween ::
  "faults \<Rightarrow> ChatDB \<Rightarrow> go_int \<Rightarrow> go_int \<Rightarrow> go_int \<Rightarrow> chat_error + go_int list" where
  "SenderIDsBetween fl db c lo hi =
     rbind (call fl CallSenderIDsBetween) (\<lambda>_. Inr (senders_between db c lo hi))"

section \<open>Reactions (reaction_repo.go)\<close>

definition reaction_key :: "ReactionRow \<Rightarrow> go_int \<times> go_int \<times> string" where
  "reaction_key r = (rMessageID r, rUserID r, rEmoji r)"

definition ReactionAdd :: "faults \<Rightarrow> ReactionRow \<Rightarrow> ChatDB \<Rightarrow> chat_error + (bool \<times> ChatDB)" where
  "ReactionAdd fl r db =
     rbind (call fl CallAddReaction) (\<lambda>_.
       if reaction_key r \<in> reaction_key ` set (tReactions db) then Inr (False, db)
       else
         rbind (ensure (rID r \<notin> rID ` set (tReactions db) \<and> rMessageID r \<in> gID ` set (tMessages db)
                        \<and> user_exists db (rUserID r)) (InfraError CallAddReaction)) (\<lambda>_.
           Inr (True, db\<lparr>tReactions := tReactions db @ [r]\<rparr>)))"

definition ReactionRemove ::
  "faults \<Rightarrow> go_int \<Rightarrow> go_int \<Rightarrow> string \<Rightarrow> ChatDB \<Rightarrow> chat_error + (bool \<times> ChatDB)" where
  "ReactionRemove fl mid u emoji db =
     rbind (call fl CallRemoveReaction) (\<lambda>_.
       Inr (count_where (\<lambda>r. reaction_key r = (mid, u, emoji)) (tReactions db) = 1,
            db\<lparr>tReactions := del_where (\<lambda>r. reaction_key r = (mid, u, emoji)) (tReactions db)\<rparr>))"

definition distinct_emoji :: "ChatDB \<Rightarrow> go_int \<Rightarrow> go_int" where
  "distinct_emoji db mid =
     int (length (remdups (map rEmoji (filter (\<lambda>r. rMessageID r = mid) (tReactions db)))))"

definition DistinctEmoji :: "faults \<Rightarrow> ChatDB \<Rightarrow> go_int \<Rightarrow> chat_error + go_int" where
  "DistinctEmoji fl db mid = rbind (call fl CallDistinctEmoji) (\<lambda>_. Inr (distinct_emoji db mid))"

definition reaction_count :: "ChatDB \<Rightarrow> go_int \<Rightarrow> string \<Rightarrow> go_int" where
  "reaction_count db mid emoji =
     count_where (\<lambda>r. rMessageID r = mid \<and> rEmoji r = emoji) (tReactions db)"

text \<open>\<open>AddReaction\<close> counts once before and once after its commit: \<open>c\<close> is the call site.\<close>

definition ReactionCount :: "faults \<Rightarrow> repo_call \<Rightarrow> ChatDB \<Rightarrow> go_int \<Rightarrow> string \<Rightarrow> chat_error + go_int" where
  "ReactionCount fl c db mid emoji = rbind (call fl c) (\<lambda>_. Inr (reaction_count db mid emoji))"

definition CountsByMessages :: "ChatDB \<Rightarrow> go_int list \<Rightarrow> go_int \<Rightarrow> (string \<times> go_int) list" where
  "CountsByMessages db ids mid =
     (if mid \<in> set ids
      then map (\<lambda>e. (e, reaction_count db mid e))
             (remdups (map rEmoji (filter (\<lambda>r. rMessageID r = mid) (tReactions db))))
      else [])"

definition UserIDsByMessages :: "ChatDB \<Rightarrow> go_int list \<Rightarrow> go_int \<Rightarrow> string \<Rightarrow> go_int list" where
  "UserIDsByMessages db ids mid emoji =
     (if mid \<in> set ids
      then map rUserID (sort_key rCreatedAt
             (filter (\<lambda>r. rMessageID r = mid \<and> rEmoji r = emoji) (tReactions db)))
      else [])"

definition Reactors :: "faults \<Rightarrow> ChatDB \<Rightarrow> go_int \<Rightarrow> string \<Rightarrow> chat_error + (go_int \<times> go_time) list" where
  "Reactors fl db mid emoji =
     rbind (call fl CallReactors) (\<lambda>_.
       Inr (map (\<lambda>r. (rUserID r, rCreatedAt r))
         (rev (sort_key (\<lambda>r. (rCreatedAt r, rUserID r))
            (filter (\<lambda>r. rMessageID r = mid \<and> rEmoji r = emoji) (tReactions db))))))"

section \<open>The outbox (change_log.go)\<close>

definition log_row :: "ChangeLogEntry \<Rightarrow> go_int \<Rightarrow> ChangeLogRow" where
  "log_row e n = ChangeLogEntry.extend e (ChangeLogRow.fields n)"

fun append_log :: "ChangeLogEntry list \<Rightarrow> ChatDB \<Rightarrow> ChatDB" where
  "append_log [] db = db"
| "append_log (e # es) db =
     append_log es (db\<lparr>tChangeLog := tChangeLog db @ [log_row e (nChangeSeq db)],
                       nChangeSeq := nChangeSeq db + 1\<rparr>)"

definition ChangeLogAppend :: "faults \<Rightarrow> ChangeLogEntry list \<Rightarrow> ChatDB \<Rightarrow> chat_error + ChatDB" where
  "ChangeLogAppend fl es db =
     (if es = [] then Inr db
      else rbind (call fl CallAppendChangeLog) (\<lambda>_. Inr (append_log es db)))"

definition ChangeLogHead :: "ChatDB \<Rightarrow> go_int" where
  "ChangeLogHead db = fold max (map lGlobalSeq (tChangeLog db)) 0"

definition ChangeLogListAfter :: "ChatDB \<Rightarrow> go_int \<Rightarrow> nat \<Rightarrow> ChangeLogRow list" where
  "ChangeLogListAfter db after limit = page_asc lGlobalSeq (Some after) limit (tChangeLog db)"

section \<open>The durable sequence counter (sequence_repo.go, sequence_source.go)\<close>

definition SequenceInit :: "faults \<Rightarrow> go_int \<Rightarrow> ChatDB \<Rightarrow> chat_error + ChatDB" where
  "SequenceInit fl c db =
     rbind (call fl CallInitSequence) (\<lambda>_.
       Inr (if c \<in> fst ` set (tSequences db) then db
            else db\<lparr>tSequences := tSequences db @ [(c, 0)]\<rparr>))"

definition SequencePersist :: "faults \<Rightarrow> go_int \<Rightarrow> go_int \<Rightarrow> ChatDB \<Rightarrow> chat_error + ChatDB" where
  "SequencePersist fl c seq db =
     rbind (call fl CallPersistSequence) (\<lambda>_.
       Inr (db\<lparr>tSequences := upd_where (\<lambda>r. fst r = c) (\<lambda>(k, n). (k, max n seq)) (tSequences db)\<rparr>))"

definition floor_of :: "ChatDB \<Rightarrow> go_int \<Rightarrow> go_int option" where
  "floor_of db c = map_of (tSequences db) c"

definition nextFromPG :: "go_int \<Rightarrow> ChatDB \<Rightarrow> chat_error + (go_int \<times> ChatDB)" where
  "nextFromPG c db =
     (case floor_of db c of
        None \<Rightarrow> Inl (InfraError CallNextSequence)
      | Some n \<Rightarrow> Inr (n + 1,
          db\<lparr>tSequences := upd_where (\<lambda>r. fst r = c) (\<lambda>(k, n). (k, n + 1)) (tSequences db)\<rparr>))"

section \<open>The invariant of the schema\<close>

text \<open>
  Primary keys and unique indexes as distinctness of the key column, the CHECK constraints row by
  row, and the sequence-backed columns below the next value.
\<close>

definition client_keys :: "Message list \<Rightarrow> (go_int \<times> string) list" where
  "client_keys t = List.map_filter client_key t"

definition members_ok :: "Membership list \<Rightarrow> bool" where
  "members_ok t \<longleftrightarrow> distinct (map mem_key t) \<and> (\<forall>m \<in> set t. mem_check m)"

definition messages_ok :: "Message list \<Rightarrow> go_int \<Rightarrow> bool" where
  "messages_ok t n \<longleftrightarrow>
     distinct (map message_slot t) \<and> distinct (map gID t)
   \<and> distinct (map gGlobalSeq t) \<and> distinct (client_keys t)
   \<and> (\<forall>m \<in> set t. message_check m \<and> gGlobalSeq m < n)"

definition reactions_ok :: "ReactionRow list \<Rightarrow> bool" where
  "reactions_ok t \<longleftrightarrow> distinct (map reaction_key t) \<and> distinct (map rID t)"

definition outbox_ok :: "ChangeLogRow list \<Rightarrow> go_int \<Rightarrow> bool" where
  "outbox_ok t n \<longleftrightarrow> sorted_wrt (<) (map lGlobalSeq t) \<and> (\<forall>r \<in> set t. lGlobalSeq r < n)"

definition schema_ok :: "ChatDB \<Rightarrow> bool" where
  "schema_ok db \<longleftrightarrow>
     distinct (map cID (tConversations db)) \<and> members_ok (tMembers db)
   \<and> messages_ok (tMessages db) (nMessageSeq db) \<and> distinct (map eID (tEdits db))
   \<and> reactions_ok (tReactions db) \<and> outbox_ok (tChangeLog db) (nChangeSeq db)
   \<and> distinct (map fst (tSequences db)) \<and> distinct (map uID (tUsers db))"

end
