(* ===== verification/StoreLemmas.thy ===== *)
theory StoreLemmas
  imports MessageStore
begin

text \<open>
  What the repositories guarantee: every statement that succeeds keeps the schema invariant, and
  the outbox only grows at its end.  The invariant is a conjunction over the tables, so each
  proof needs one fact on the table its statement writes.
\<close>

named_theorems schema_intros \<open>statements keep the schema invariant\<close>

section \<open>Facts on single tables\<close>

lemma client_keys_simps [simp]:
  "client_keys [] = []"
  "client_keys (t @ [m]) = client_keys t @ (case client_key m of None \<Rightarrow> [] | Some k \<Rightarrow> [k])"
  by (auto simp: client_keys_def map_filter_def split: option.splits)

lemma client_keys_member: "k \<in> set (client_keys t) \<longleftrightarrow> Some k \<in> client_key ` set t"
  by (induction t) (auto simp: client_keys_def List.map_filter_simps split: option.splits)

lemma map_filter_upd_where:
  "(\<And>r. P r \<Longrightarrow> g (f r) = g r) \<Longrightarrow> List.map_filter g (upd_where P f t) = List.map_filter g t"
  by (induction t) (auto simp: List.map_filter_simps split: option.splits)

lemma members_ok_upd:
  assumes "members_ok t" and "\<And>m. P m \<Longrightarrow> mem_key (f m) = mem_key m"
    and "\<And>m. m \<in> set t \<Longrightarrow> P m \<Longrightarrow> mem_check m \<Longrightarrow> mem_check (f m)"
  shows "members_ok (upd_where P f t)"
  using assms by (auto simp: members_ok_def set_upd_where)

lemma messages_ok_upd:
  assumes "messages_ok t n"
    and "\<And>m. P m \<Longrightarrow> message_slot (f m) = message_slot m" "\<And>m. P m \<Longrightarrow> gID (f m) = gID m"
    and "\<And>m. P m \<Longrightarrow> gGlobalSeq (f m) = gGlobalSeq m" "\<And>m. P m \<Longrightarrow> client_key (f m) = client_key m"
    and "\<And>m. m \<in> set t \<Longrightarrow> P m \<Longrightarrow> message_check m \<Longrightarrow> message_check (f m)"
  shows "messages_ok (upd_where P f t) n"
  using assms by (auto simp: messages_ok_def set_upd_where client_keys_def map_filter_upd_where)

lemma messages_ok_insert:
  assumes "messages_ok t n" and "message_check m" and "gGlobalSeq m = n"
    and "message_slot m \<notin> message_slot ` set t" "gID m \<notin> gID ` set t"
    and "client_key m \<noteq> None \<Longrightarrow> client_key m \<notin> client_key ` set t"
  shows "messages_ok (t @ [m]) (n + 1)"
proof -
  have "\<forall>x \<in> set t. gGlobalSeq x < n" using assms(1) by (simp add: messages_ok_def)
  with assms show ?thesis
    by (fastforce simp: messages_ok_def client_keys_member split: option.splits)
qed

lemma inserted_member_simps [simp]:
  "mem_key (inserted_member m) = mem_key m" "mem_check (inserted_member m)"
  "mLeftAt (inserted_member m) = None" "mRole (inserted_member m) = mRole m"
  "mConversationID (inserted_member m) = mConversationID m" "mUserID (inserted_member m) = mUserID m"
  by (simp_all add: inserted_member_def mem_key_def mem_check_def)

lemma rejoin_simps [simp]:
  "mem_key (rejoin old new) = mem_key old" "mem_check (rejoin old new) = mem_check old"
  "mLeftAt (rejoin old new) = None" "mRole (rejoin old new) = mRole new"
  "mConversationID (rejoin old new) = mConversationID old" "mUserID (rejoin old new) = mUserID old"
  by (simp_all add: rejoin_def mem_key_def mem_check_def)

lemma members_ok_upsert:
  "members_ok t \<Longrightarrow> members_ok (upsert mem_key rejoin (inserted_member m) t)"
  by (auto simp: members_ok_def intro!: distinct_upsert dest!: set_upsert_subset)

lemma members_ok_fold:
  "members_ok t \<Longrightarrow> members_ok (fold (\<lambda>m t. upsert mem_key rejoin (inserted_member m) t) ms t)"
  by (induction ms arbitrary: t) (auto simp: members_ok_upsert)

section \<open>Every statement keeps the schema invariant\<close>

lemma ConversationCreate_schema [schema_intros]:
  "ConversationCreate fl c db = Inr db' \<Longrightarrow> schema_ok db \<Longrightarrow> schema_ok db'"
  by (auto simp: ConversationCreate_def schema_ok_def conversation_exists_def)

lemma ConversationUpdate_schema [schema_intros]:
  "ConversationUpdate fl c db = Inr db' \<Longrightarrow> schema_ok db \<Longrightarrow> schema_ok db'"
  by (auto simp: ConversationUpdate_def schema_ok_def)

lemma ConversationTombstone_schema [schema_intros]:
  "ConversationTombstone fl i at db = Inr db' \<Longrightarrow> schema_ok db \<Longrightarrow> schema_ok db'"
  by (auto simp: ConversationTombstone_def schema_ok_def)

lemma BumpLastMessage_schema [schema_intros]:
  "BumpLastMessage fl i seq sn se at db = Inr (b, db') \<Longrightarrow> schema_ok db \<Longrightarrow> schema_ok db'"
  by (auto simp: BumpLastMessage_def schema_ok_def bump_guard_def)

lemma AddMany_schema [schema_intros]:
  "AddMany fl ms db = Inr db' \<Longrightarrow> schema_ok db \<Longrightarrow> schema_ok db'"
  by (auto simp: AddMany_def schema_ok_def members_ok_fold split: if_splits)

lemma joined_at_simps [simp]:
  "mem_key (m\<lparr>mJoinedAt := j\<rparr>) = mem_key m" "mem_check (m\<lparr>mJoinedAt := j\<rparr>) = mem_check m"
  by (simp_all add: mem_key_def mem_check_def)

lemma MembershipUpdate_schema [schema_intros]:
  assumes "MembershipUpdate fl m db = Inr db'" and "schema_ok db"
  shows "schema_ok db'"
proof -
  from assms(1) have "mem_key m \<in> mem_key ` set (tMembers db) \<Longrightarrow> mem_check m"
    by (auto simp: MembershipUpdate_def)
  then have chk: "mem_check m" if "r \<in> set (tMembers db)" "mem_key r = mem_key m" for r
    using that by (metis image_eqI)
  have "members_ok (upd_where (\<lambda>r. mem_key r = mem_key m) (\<lambda>r. m\<lparr>mJoinedAt := mJoinedAt r\<rparr>) (tMembers db))"
    using assms(2) by (intro members_ok_upd) (auto simp: schema_ok_def intro: chk)
  with assms show ?thesis by (auto simp: MembershipUpdate_def schema_ok_def)
qed

lemma MembershipRemove_schema [schema_intros]:
  "MembershipRemove fl c u at db = Inr db' \<Longrightarrow> schema_ok db \<Longrightarrow> schema_ok db'"
  by (auto simp: MembershipRemove_def schema_ok_def mem_key_def mem_check_def intro!: members_ok_upd)

lemma MembershipMarkRead_schema [schema_intros]:
  "MembershipMarkRead fl c u r d at db = Inr (adv, db') \<Longrightarrow> schema_ok db \<Longrightarrow> schema_ok db'"
  by (auto simp: MembershipMarkRead_def schema_ok_def mem_key_def Let_def mem_check_def max_def
      intro!: members_ok_upd split: option.splits)

lemma MessageInsert_schema [schema_intros]:
  assumes "MessageInsert fl m db = Inr (res, db')" and "schema_ok db"
  shows "schema_ok db'"
proof -
  have f: "message_slot (stored_message db m) = message_slot m" "gID (stored_message db m) = gID m"
    "client_key (stored_message db m) = client_key m"
    "gGlobalSeq (stored_message db m) = nMessageSeq db"
    "message_check (stored_message db m) = message_check m"
    by (simp_all add: stored_message_def message_slot_def client_key_def message_check_def)
  have "messages_ok (tMessages db') (nMessageSeq db')"
    using assms by (auto simp: MessageInsert_def schema_ok_def f intro!: messages_ok_insert split: if_splits)
  with assms show ?thesis
    by (auto simp: MessageInsert_def schema_ok_def split: if_splits)
qed

lemma MessageEditRow_schema [schema_intros]:
  "MessageEditRow fl i m old at db = Inr (b, db') \<Longrightarrow> schema_ok db \<Longrightarrow> schema_ok db'"
  by (auto simp: MessageEditRow_def schema_ok_def message_slot_def client_key_def message_check_def
      image_iff intro!: messages_ok_upd split: if_splits)

lemma MessageTombstone_schema [schema_intros]:
  "MessageTombstone fl i by at db = Inr (b, db') \<Longrightarrow> schema_ok db \<Longrightarrow> schema_ok db'"
  by (auto simp: MessageTombstone_def schema_ok_def message_slot_def client_key_def message_check_def
      intro!: messages_ok_upd)

lemma ReactionAdd_schema [schema_intros]:
  "ReactionAdd fl r db = Inr (b, db') \<Longrightarrow> schema_ok db \<Longrightarrow> schema_ok db'"
  by (auto simp: ReactionAdd_def schema_ok_def reactions_ok_def split: if_splits)

lemma ReactionRemove_schema [schema_intros]:
  "ReactionRemove fl m u e db = Inr (b, db') \<Longrightarrow> schema_ok db \<Longrightarrow> schema_ok db'"
  by (auto simp: ReactionRemove_def schema_ok_def reactions_ok_def del_where_def
      intro: List.distinct_map_filter)

lemma log_row_simps [simp]:
  "lGlobalSeq (log_row e n) = n" "lEventType (log_row e n) = lEventType e"
  "lConversationID (log_row e n) = lConversationID e" "lEntityID (log_row e n) = lEntityID e"
  "lActorUserID (log_row e n) = lActorUserID e" "lAffectedUserIDs (log_row e n) = lAffectedUserIDs e"
  "lPayload (log_row e n) = lPayload e"
  by (cases e; simp add: log_row_def ChangeLogEntry.defs ChangeLogRow.defs)+

lemma append_log_frame [simp]:
  "tConversations (append_log es db) = tConversations db" "tMembers (append_log es db) = tMembers db"
  "tMessages (append_log es db) = tMessages db" "tEdits (append_log es db) = tEdits db"
  "tReactions (append_log es db) = tReactions db" "tUsers (append_log es db) = tUsers db"
  "tSequences (append_log es db) = tSequences db" "nMessageSeq (append_log es db) = nMessageSeq db"
  by (induction es arbitrary: db) simp_all

lemma append_log_outbox:
  "outbox_ok (tChangeLog db) (nChangeSeq db)
    \<Longrightarrow> outbox_ok (tChangeLog (append_log es db)) (nChangeSeq (append_log es db))"
proof (induction es arbitrary: db)
  case Nil
  then show ?case by simp
next
  case (Cons e es)
  show ?case
    unfolding append_log.simps
    by (rule Cons.IH) (use Cons.prems in \<open>auto simp: outbox_ok_def sorted_wrt_append\<close>)
qed

lemma ChangeLogAppend_schema [schema_intros]:
  "ChangeLogAppend fl es db = Inr db' \<Longrightarrow> schema_ok db \<Longrightarrow> schema_ok db'"
  by (auto simp: ChangeLogAppend_def schema_ok_def append_log_outbox split: if_splits)

lemma SequenceInit_schema [schema_intros]:
  "SequenceInit fl c db = Inr db' \<Longrightarrow> schema_ok db \<Longrightarrow> schema_ok db'"
  by (auto simp: SequenceInit_def schema_ok_def split: if_splits)

lemma SequencePersist_schema [schema_intros]:
  "SequencePersist fl c s db = Inr db' \<Longrightarrow> schema_ok db \<Longrightarrow> schema_ok db'"
  by (auto simp: SequencePersist_def schema_ok_def split_beta)

lemma nextFromPG_schema [schema_intros]:
  "nextFromPG c db = Inr (s, db') \<Longrightarrow> schema_ok db \<Longrightarrow> schema_ok db'"
  by (auto simp: nextFromPG_def schema_ok_def split_beta split: option.splits)

end
