(* ===== verification/StoreEvolution.thy ===== *)
theory StoreEvolution
  imports StoreLemmas "HOL-Library.Sublist"
begin

text \<open>
  How the tables may change.  \<open>evolves\<close> is a preorder every statement satisfies: rows of the
  outbox, the edit history and the messages are only appended, a message keeps its identity and
  a tombstoned one keeps everything, conversations and memberships are never deleted, and a
  durable sequence floor never falls.  \<open>store_step\<close> adds the schema invariant; it is
  reflexive and transitive, so a use case satisfies it when its statements do.
\<close>

named_theorems step_intros \<open>statements are store steps\<close>

section \<open>Pointwise change of a table that only grows\<close>

definition grows_by :: "('r \<Rightarrow> 'r \<Rightarrow> bool) \<Rightarrow> 'r list \<Rightarrow> 'r list \<Rightarrow> bool" where
  "grows_by R t t' \<longleftrightarrow> length t \<le> length t' \<and> (\<forall>i < length t. R (t ! i) (t' ! i))"

lemma grows_by_refl [simp]: "(\<And>r. r \<in> set t \<Longrightarrow> R r r) \<Longrightarrow> grows_by R t t"
  by (simp add: grows_by_def)

lemma grows_by_trans:
  "grows_by R t t' \<Longrightarrow> grows_by R t' t'' \<Longrightarrow> (\<And>x y z. R x y \<Longrightarrow> R y z \<Longrightarrow> R x z) \<Longrightarrow> grows_by R t t''"
  unfolding grows_by_def by (meson le_trans less_le_trans)

lemma grows_by_append: "(\<And>r. R r r) \<Longrightarrow> grows_by R t (t @ xs)"
  by (simp add: grows_by_def nth_append)

lemma grows_by_upd_where:
  "(\<And>r. R r r) \<Longrightarrow> (\<And>r. P r \<Longrightarrow> R r (f r)) \<Longrightarrow> grows_by R t (upd_where P f t)"
  by (simp add: grows_by_def upd_where_def)

lemma grows_by_upsert:
  "(\<And>r. R r r) \<Longrightarrow> (\<And>x. key x = key r \<Longrightarrow> R x (merge x r)) \<Longrightarrow> grows_by R t (upsert key merge r t)"
  by (simp add: upsert_def grows_by_append grows_by_upd_where)

lemma grows_by_member: "grows_by R t t' \<Longrightarrow> r \<in> set t \<Longrightarrow> \<exists>r' \<in> set t'. R r r'"
  unfolding grows_by_def by (metis in_set_conv_nth less_le_trans nth_mem)

section \<open>The preorder\<close>

definition message_identity where
  "message_identity m =
     (gID m, gConversationID m, gSequence m, gClientMsgID m, gSenderID m, gType m, gReplyToID m,
      gGlobalSeq m, gCreatedAt m)"

definition message_evolves :: "Message \<Rightarrow> Message \<Rightarrow> bool" where
  "message_evolves m m' \<longleftrightarrow>
     message_identity m' = message_identity m \<and> gEditCount m \<le> gEditCount m' \<and> (Deleted m \<longrightarrow> m' = m)"

definition conversation_evolves :: "Conversation \<Rightarrow> Conversation \<Rightarrow> bool" where
  "conversation_evolves c c' \<longleftrightarrow>
     cID c' = cID c \<and> cType c' = cType c \<and> cCreatedBy c' = cCreatedBy c \<and> cCreatedAt c' = cCreatedAt c
   \<and> (cDeletedAt c \<noteq> None \<longrightarrow> cDeletedAt c' \<noteq> None)"

definition floor_evolves :: "go_int \<times> go_int \<Rightarrow> go_int \<times> go_int \<Rightarrow> bool" where
  "floor_evolves r r' \<longleftrightarrow> fst r' = fst r \<and> snd r \<le> snd r'"

definition evolves :: "ChatDB \<Rightarrow> ChatDB \<Rightarrow> bool" where
  "evolves db db' \<longleftrightarrow>
     prefix (tChangeLog db) (tChangeLog db') \<and> prefix (tEdits db) (tEdits db')
   \<and> grows_by message_evolves (tMessages db) (tMessages db')
   \<and> grows_by conversation_evolves (tConversations db) (tConversations db')
   \<and> grows_by (\<lambda>m m'. mem_key m' = mem_key m) (tMembers db) (tMembers db')
   \<and> grows_by floor_evolves (tSequences db) (tSequences db')
   \<and> tUsers db' = tUsers db \<and> nMessageSeq db \<le> nMessageSeq db' \<and> nChangeSeq db \<le> nChangeSeq db'"

lemma row_evolves_refl [simp, intro]:
  "message_evolves m m" "conversation_evolves c c" "floor_evolves r r"
  by (simp_all add: message_evolves_def conversation_evolves_def floor_evolves_def)

lemma row_evolves_trans:
  "message_evolves m m' \<Longrightarrow> message_evolves m' m'' \<Longrightarrow> message_evolves m m''"
  "conversation_evolves c c' \<Longrightarrow> conversation_evolves c' c'' \<Longrightarrow> conversation_evolves c c''"
  "floor_evolves r r' \<Longrightarrow> floor_evolves r' r'' \<Longrightarrow> floor_evolves r r''"
  by (auto simp: message_evolves_def conversation_evolves_def floor_evolves_def)

lemma evolves_refl [simp, intro]: "evolves db db"
  by (simp add: evolves_def)

lemma evolves_trans: "evolves db db' \<Longrightarrow> evolves db' db'' \<Longrightarrow> evolves db db''"
  unfolding evolves_def
  by (auto intro: prefix_order.trans grows_by_trans row_evolves_trans order_trans)

definition store_step :: "ChatDB \<Rightarrow> ChatDB \<Rightarrow> bool" where
  "store_step db db' \<longleftrightarrow> evolves db db' \<and> (schema_ok db \<longrightarrow> schema_ok db')"

lemma store_step_refl [simp, intro]: "store_step db db"
  by (simp add: store_step_def)

lemma store_step_trans [trans]: "store_step db db' \<Longrightarrow> store_step db' db'' \<Longrightarrow> store_step db db''"
  by (auto simp: store_step_def intro: evolves_trans)

lemma store_step_evolves: "store_step db db' \<Longrightarrow> evolves db db'"
  by (simp add: store_step_def)

section \<open>Writing one table\<close>

lemma evolves_writes:
  "grows_by conversation_evolves (tConversations db) cs \<Longrightarrow> evolves db (db\<lparr>tConversations := cs\<rparr>)"
  "grows_by (\<lambda>m m'. mem_key m' = mem_key m) (tMembers db) ms \<Longrightarrow> evolves db (db\<lparr>tMembers := ms\<rparr>)"
  "grows_by floor_evolves (tSequences db) qs \<Longrightarrow> evolves db (db\<lparr>tSequences := qs\<rparr>)"
  "grows_by message_evolves (tMessages db) gs \<Longrightarrow> evolves db (db\<lparr>tMessages := gs\<rparr>)"
  "evolves db (db\<lparr>tReactions := rs\<rparr>)"
  by (simp_all add: evolves_def)

lemma evolves_insert_message: "evolves db (db\<lparr>tMessages := tMessages db @ [m], nMessageSeq := nMessageSeq db + 1\<rparr>)"
  by (simp add: evolves_def grows_by_append)

lemma evolves_edit_message:
  "grows_by message_evolves (tMessages db) gs
    \<Longrightarrow> evolves db (db\<lparr>tMessages := gs, tEdits := tEdits db @ [e]\<rparr>)"
  by (simp add: evolves_def)

lemma store_stepI: "evolves db db' \<Longrightarrow> (schema_ok db \<Longrightarrow> schema_ok db') \<Longrightarrow> store_step db db'"
  by (simp add: store_step_def)

lemmas grow_rules = grows_by_append grows_by_upd_where grows_by_upsert row_evolves_refl

section \<open>Every statement is a store step\<close>

lemma ConversationCreate_evolves: "ConversationCreate fl c db = Inr db' \<Longrightarrow> evolves db db'"
  by (auto simp: ConversationCreate_def intro!: evolves_writes grow_rules)

lemma ConversationUpdate_evolves: "ConversationUpdate fl c db = Inr db' \<Longrightarrow> evolves db db'"
  by (auto simp: ConversationUpdate_def conversation_evolves_def intro!: evolves_writes grows_by_upd_where)

lemma ConversationTombstone_evolves: "ConversationTombstone fl i at db = Inr db' \<Longrightarrow> evolves db db'"
  by (auto simp: ConversationTombstone_def conversation_evolves_def intro!: evolves_writes grows_by_upd_where)

lemma BumpLastMessage_evolves: "BumpLastMessage fl i s sn se at db = Inr (b, db') \<Longrightarrow> evolves db db'"
  by (auto simp: BumpLastMessage_def conversation_evolves_def intro!: evolves_writes grows_by_upd_where)

lemma grows_by_AddMany:
  "grows_by (\<lambda>m m'. mem_key m' = mem_key m) t
     (fold (\<lambda>m t. upsert mem_key rejoin (inserted_member m) t) ms t)"
proof (induction ms arbitrary: t)
  case Nil
  then show ?case by simp
next
  case (Cons m ms)
  have "grows_by (\<lambda>m m'. mem_key m' = mem_key m) t (upsert mem_key rejoin (inserted_member m) t)"
    by (rule grows_by_upsert) simp_all
  from grows_by_trans [OF this Cons.IH] show ?case by simp
qed

lemma AddMany_evolves: "AddMany fl ms db = Inr db' \<Longrightarrow> evolves db db'"
  by (auto simp: AddMany_def intro!: evolves_writes grows_by_AddMany split: if_splits)

lemma MembershipUpdate_evolves: "MembershipUpdate fl m db = Inr db' \<Longrightarrow> evolves db db'"
  by (auto simp: MembershipUpdate_def intro!: evolves_writes grows_by_upd_where)

lemma MembershipRemove_evolves: "MembershipRemove fl c u at db = Inr db' \<Longrightarrow> evolves db db'"
  by (auto simp: MembershipRemove_def mem_key_def intro!: evolves_writes grows_by_upd_where)

lemma MembershipMarkRead_evolves: "MembershipMarkRead fl c u r d at db = Inr (adv, db') \<Longrightarrow> evolves db db'"
  by (auto simp: MembershipMarkRead_def mem_key_def Let_def intro!: evolves_writes grows_by_upd_where
      split: option.splits)

lemma MessageInsert_evolves: "MessageInsert fl m db = Inr (res, db') \<Longrightarrow> evolves db db'"
  by (auto simp: MessageInsert_def intro!: evolves_insert_message split: if_splits)

lemma MessageEditRow_evolves: "MessageEditRow fl i m old at db = Inr (b, db') \<Longrightarrow> evolves db db'"
  by (auto simp: MessageEditRow_def message_evolves_def message_identity_def live_message_def Deleted_def
      intro!: evolves_edit_message grows_by_upd_where split: if_splits)

lemma MessageTombstone_evolves: "MessageTombstone fl i by_user at db = Inr (b, db') \<Longrightarrow> evolves db db'"
  by (auto simp: MessageTombstone_def message_evolves_def message_identity_def live_message_def Deleted_def
      intro!: evolves_writes grows_by_upd_where)

lemma ReactionAdd_evolves: "ReactionAdd fl r db = Inr (b, db') \<Longrightarrow> evolves db db'"
  by (auto simp: ReactionAdd_def intro!: evolves_writes split: if_splits)

lemma ReactionRemove_evolves: "ReactionRemove fl m u e db = Inr (b, db') \<Longrightarrow> evolves db db'"
  by (auto simp: ReactionRemove_def intro!: evolves_writes)

lemma append_log_grows:
  "prefix (tChangeLog db) (tChangeLog (append_log es db)) \<and> nChangeSeq db \<le> nChangeSeq (append_log es db)"
proof (induction es arbitrary: db)
  case Nil
  then show ?case by simp
next
  case (Cons e es)
  from Cons.IH [of "db\<lparr>tChangeLog := tChangeLog db @ [log_row e (nChangeSeq db)],
                       nChangeSeq := nChangeSeq db + 1\<rparr>"]
  show ?case by (auto simp: prefix_def)
qed

lemma evolves_append_log: "evolves db (append_log es db)"
  using append_log_grows [of db es] by (simp add: evolves_def)

lemma ChangeLogAppend_evolves: "ChangeLogAppend fl es db = Inr db' \<Longrightarrow> evolves db db'"
  by (auto simp: ChangeLogAppend_def evolves_append_log split: if_splits)

lemma SequenceInit_evolves: "SequenceInit fl c db = Inr db' \<Longrightarrow> evolves db db'"
  by (auto simp: SequenceInit_def intro!: evolves_writes grow_rules split: if_splits)

lemma SequencePersist_evolves: "SequencePersist fl c s db = Inr db' \<Longrightarrow> evolves db db'"
  by (auto simp: SequencePersist_def floor_evolves_def intro!: evolves_writes grows_by_upd_where)

lemma nextFromPG_evolves: "nextFromPG c db = Inr (s, db') \<Longrightarrow> evolves db db'"
  by (auto simp: nextFromPG_def floor_evolves_def intro!: evolves_writes grows_by_upd_where
      split: option.splits)

lemma ConversationCreate_step [step_intros]: "ConversationCreate fl c db = Inr db' \<Longrightarrow> store_step db db'"
  by (rule store_stepI [OF ConversationCreate_evolves ConversationCreate_schema])

lemma ConversationUpdate_step [step_intros]: "ConversationUpdate fl c db = Inr db' \<Longrightarrow> store_step db db'"
  by (rule store_stepI [OF ConversationUpdate_evolves ConversationUpdate_schema])

lemma ConversationTombstone_step [step_intros]: "ConversationTombstone fl i at db = Inr db' \<Longrightarrow> store_step db db'"
  by (rule store_stepI [OF ConversationTombstone_evolves ConversationTombstone_schema])

lemma BumpLastMessage_step [step_intros]: "BumpLastMessage fl i s sn se at db = Inr (b, db') \<Longrightarrow> store_step db db'"
  by (rule store_stepI [OF BumpLastMessage_evolves BumpLastMessage_schema])

lemma AddMany_step [step_intros]: "AddMany fl ms db = Inr db' \<Longrightarrow> store_step db db'"
  by (rule store_stepI [OF AddMany_evolves AddMany_schema])

lemma MembershipUpdate_step [step_intros]: "MembershipUpdate fl m db = Inr db' \<Longrightarrow> store_step db db'"
  by (rule store_stepI [OF MembershipUpdate_evolves MembershipUpdate_schema])

lemma MembershipRemove_step [step_intros]: "MembershipRemove fl c u at db = Inr db' \<Longrightarrow> store_step db db'"
  by (rule store_stepI [OF MembershipRemove_evolves MembershipRemove_schema])

lemma MembershipMarkRead_step [step_intros]: "MembershipMarkRead fl c u r d at db = Inr (adv, db') \<Longrightarrow> store_step db db'"
  by (rule store_stepI [OF MembershipMarkRead_evolves MembershipMarkRead_schema])

lemma MessageInsert_step [step_intros]: "MessageInsert fl m db = Inr (res, db') \<Longrightarrow> store_step db db'"
  by (rule store_stepI [OF MessageInsert_evolves MessageInsert_schema])

lemma MessageEditRow_step [step_intros]: "MessageEditRow fl i m old at db = Inr (b, db') \<Longrightarrow> store_step db db'"
  by (rule store_stepI [OF MessageEditRow_evolves MessageEditRow_schema])

lemma MessageTombstone_step [step_intros]: "MessageTombstone fl i by_user at db = Inr (b, db') \<Longrightarrow> store_step db db'"
  by (rule store_stepI [OF MessageTombstone_evolves MessageTombstone_schema])

lemma ReactionAdd_step [step_intros]: "ReactionAdd fl r db = Inr (b, db') \<Longrightarrow> store_step db db'"
  by (rule store_stepI [OF ReactionAdd_evolves ReactionAdd_schema])

lemma ReactionRemove_step [step_intros]: "ReactionRemove fl m u e db = Inr (b, db') \<Longrightarrow> store_step db db'"
  by (rule store_stepI [OF ReactionRemove_evolves ReactionRemove_schema])

lemma ChangeLogAppend_step [step_intros]: "ChangeLogAppend fl es db = Inr db' \<Longrightarrow> store_step db db'"
  by (rule store_stepI [OF ChangeLogAppend_evolves ChangeLogAppend_schema])

lemma SequenceInit_step [step_intros]: "SequenceInit fl c db = Inr db' \<Longrightarrow> store_step db db'"
  by (rule store_stepI [OF SequenceInit_evolves SequenceInit_schema])

lemma SequencePersist_step [step_intros]: "SequencePersist fl c s db = Inr db' \<Longrightarrow> store_step db db'"
  by (rule store_stepI [OF SequencePersist_evolves SequencePersist_schema])

lemma nextFromPG_step [step_intros]: "nextFromPG c db = Inr (s, db') \<Longrightarrow> store_step db db'"
  by (rule store_stepI [OF nextFromPG_evolves nextFromPG_schema])

end
