(* ===== verification/ChatViews.thy ===== *)
theory ChatViews
  imports StoreLemmas "HOL-Library.List_Lexorder" "HOL-Library.Char_ord"
begin

text \<open>
  The wire views: the rendering helpers of \<open>application/helpers.go\<close>, the page enrichment and
  message rendering of \<open>application/message_views.go\<close>, and \<open>viewFor\<close> of
  \<open>application/send.go\<close>.  A Go map that is only looked up is a function with the zero value
  as default; the reader order inside \<open>read_by\<close>, which Go leaves open by ranging over a map,
  is the row order here.
\<close>

section \<open>Helpers\<close>

definition displayNames :: "User list \<Rightarrow> go_int \<Rightarrow> string" where
  "displayNames us i = (case find (\<lambda>u. uID u = i) (rev us) of None \<Rightarrow> [] | Some u \<Rightarrow> uDisplayName u)"

definition avatarView :: "go_int option \<Rightarrow> string option" where
  "avatarView mediaID = map_option FormatInt mediaID"

definition seqString :: "go_int option \<Rightarrow> string option" where
  "seqString s = map_option FormatInt s"

record LastMessageView =
  lvID :: "string option"
  lvSeq :: string
  lvText :: "string option"
  lvSenderID :: "string option"
  lvCreatedAt :: "go_time option"
  lvStatus :: string

definition lastMessageView :: "Conversation \<Rightarrow> Membership \<Rightarrow> LastMessageView option" where
  "lastMessageView c m =
     (case cLastMessageSeq c of
        None \<Rightarrow> None
      | Some s \<Rightarrow> Some \<lparr>lvID = None, lvSeq = FormatInt s, lvText = cLastMessageSnippet c,
                       lvSenderID = map_option FormatInt (cLastSenderID c),
                       lvCreatedAt = cLastMessageAt c,
                       lvStatus = MessageStatus m (cLastMessageSeq c)\<rparr>)"

record ConversationView =
  cvID :: string
  cvType :: string
  cvTitle :: "string option"
  cvAvatar :: "string option"
  cvLastMessage :: "LastMessageView option"
  cvLastMessageSeq :: "string option"
  cvLastReadSeq :: string
  cvUnreadCount :: go_int
  cvMutedUntil :: "go_time option"
  cvIsPinned :: bool
  cvIsArchived :: bool
  cvRole :: string
  cvJoinedAt :: go_time
  cvTyping :: "string list"
  cvUpdatedAt :: go_time

definition buildListView :: "ConversationRow \<Rightarrow> (go_int \<Rightarrow> string) \<Rightarrow> ConversationView" where
  "buildListView row names =
     (let c = crConversation row; m = crMembership row in
      \<lparr>cvID = FormatInt (cID c), cvType = conversation_type_string (cType c),
       cvTitle = (if cType c = ConversationDirect then map_option names (crCounterpartID row)
                  else cTitle c),
       cvAvatar = avatarView (cPhotoMediaID c), cvLastMessage = lastMessageView c m,
       cvLastMessageSeq = seqString (cLastMessageSeq c), cvLastReadSeq = FormatInt (mLastReadSeq m),
       cvUnreadCount = UnreadCount m (cLastMessageSeq c), cvMutedUntil = mMutedUntil m,
       cvIsPinned = (mPinnedAt m \<noteq> None), cvIsArchived = (mArchivedAt m \<noteq> None),
       cvRole = role_string (mRole m), cvJoinedAt = mJoinedAt m, cvTyping = [], cvUpdatedAt = cUpdatedAt c\<rparr>)"

record ConversationDetail =
  cdID :: string
  cdType :: string
  cdTitle :: "string option"
  cdAvatar :: "string option"
  cdOwnerID :: string
  cdCreatedAt :: go_time
  cdLastMessageSeq :: "string option"
  cdRole :: string
  cdMutedUntil :: "go_time option"
  cdNotificationsEnabled :: bool
  cdRetentionDays :: "int option"
  cdSettings :: Settings
  cdMemberCount :: go_int
  cdMemberPreview :: "(string \<times> string) list"

definition buildDetailView ::
  "go_time \<Rightarrow> Conversation \<Rightarrow> Membership \<Rightarrow> go_int \<Rightarrow> (string \<times> string) list \<Rightarrow> ConversationDetail" where
  "buildDetailView now c m memberCount preview =
     \<lparr>cdID = FormatInt (cID c), cdType = conversation_type_string (cType c), cdTitle = cTitle c,
      cdAvatar = avatarView (cPhotoMediaID c), cdOwnerID = FormatInt (cCreatedBy c),
      cdCreatedAt = cCreatedAt c, cdLastMessageSeq = seqString (cLastMessageSeq c),
      cdRole = role_string (mRole m), cdMutedUntil = mMutedUntil m,
      cdNotificationsEnabled = (case mMutedUntil m of None \<Rightarrow> True | Some t \<Rightarrow> now < t),
      cdRetentionDays = cRetentionDays c, cdSettings = cSettings c,
      cdMemberCount = memberCount, cdMemberPreview = preview\<rparr>"

section \<open>Message views\<close>

record Enrichment =
  nSenders :: "go_int \<Rightarrow> string"
  nReplies :: "go_int \<Rightarrow> ReplyTo option"
  nReactionCounts :: "go_int \<Rightarrow> (string \<times> go_int) list"
  nReactionUsers :: "go_int \<Rightarrow> string \<Rightarrow> go_int list"
  nCursors :: "CursorRow list"
  nReadAt :: "go_int \<Rightarrow> go_time option"

definition emptyEnrichment :: Enrichment where
  "emptyEnrichment = \<lparr>nSenders = \<lambda>_. [], nReplies = \<lambda>_. None, nReactionCounts = \<lambda>_. [],
     nReactionUsers = \<lambda>_ _. [], nCursors = [], nReadAt = \<lambda>_. None\<rparr>"

definition renderReply :: "Message \<Rightarrow> ReplyTo" where
  "renderReply reply =
     \<lparr>rtID = FormatInt (gID reply), rtSenderID = map_option FormatInt (gSenderID reply),
      rtText = (if Deleted reply then None else gContent reply), rtType = RenderedType reply\<rparr>"

definition enrichPage :: "faults \<Rightarrow> ChatDB \<Rightarrow> Message list \<Rightarrow> chat_error + Enrichment" where
  "enrichPage fl db msgs =
     (let ids = map gID msgs;
          replyIDs = List.map_filter gReplyToID msgs;
          senderIDs = remdups (filter (\<lambda>s. s \<noteq> 0) (map SenderIDOrZero msgs)) in
      rbind (ListByIDs fl db senderIDs) (\<lambda>users.
      rbind (if msgs = [] then Inr emptyEnrichment
             else
               rbind (call fl CallReactionAggregates) (\<lambda>_.
               rbind (CursorsByConversation fl db (gConversationID (hd msgs))) (\<lambda>cursors.
               rbind (ListReceipts fl db (gConversationID (hd msgs))) (\<lambda>receipts.
                 Inr (emptyEnrichment
                   \<lparr>nReactionCounts := CountsByMessages db ids,
                    nReactionUsers := UserIDsByMessages db ids,
                    nCursors := cursors,
                    nReadAt := (\<lambda>u. case find (\<lambda>r. rrUserID r = u) receipts of
                                      None \<Rightarrow> None | Some r \<Rightarrow> rrLastReadAt r)\<rparr>))))) (\<lambda>e.
      rbind (if replyIDs = [] then Inr () else call fl CallFindMessage) (\<lambda>_.
        Inr (e\<lparr>nSenders := displayNames users,
               nReplies := (\<lambda>i. if i \<in> set replyIDs
                                then map_option renderReply (find (\<lambda>m. gID m = i) (tMessages db))
                                else None)\<rparr>)))))"

definition decodeEnvelopePlain :: "Attachment list option \<Rightarrow> Attachment list" where
  "decodeEnvelopePlain raw = (case raw of None \<Rightarrow> [] | Some xs \<Rightarrow> xs)"

definition encodeEnvelope :: "Attachment list \<Rightarrow> Attachment list option" where
  "encodeEnvelope media = (if media = [] then None else Some media)"

record ReplyToView =
  rvID :: string
  rvSenderID :: "string option"
  rvText :: "string option"

record MessageView =
  vID :: string
  vConversationID :: string
  vSequence :: string
  vSenderID :: "string option"
  vSender :: "string option"
  vType :: string
  vContent :: "string option"
  vMedia :: "Attachment list"
  vClientMsgID :: "string option"
  vCreatedAt :: go_time
  vEditedAt :: "go_time option"
  vStatus :: string
  vReplyTo :: "ReplyToView option"
  vMentions :: "string list"
  vReactions :: "Reaction list"
  vReadBy :: "(string \<times> go_time option) list"
  vGlobalSeq :: string

definition other_cursors :: "Message \<Rightarrow> Enrichment \<Rightarrow> CursorRow list" where
  "other_cursors m e = filter (\<lambda>c. cuUserID c \<noteq> SenderIDOrZero m) (nCursors e)"

definition messageStatus :: "Message \<Rightarrow> Enrichment \<Rightarrow> string" where
  "messageStatus m e =
     (if Deleted m then ''sent''
      else if \<exists>c \<in> set (other_cursors m e). cuLastReadSeq c \<ge> gSequence m then ''read''
      else if \<exists>c \<in> set (other_cursors m e). cuLastDeliveredSeq c \<ge> gSequence m then ''delivered''
      else ''sent'')"

definition messageView :: "Message \<Rightarrow> Enrichment \<Rightarrow> MessageView" where
  "messageView m e =
     \<lparr>vID = FormatInt (gID m), vConversationID = FormatInt (gConversationID m),
      vSequence = FormatInt (gSequence m), vSenderID = map_option FormatInt (gSenderID m),
      vSender = map_option (nSenders e) (gSenderID m),
      vType = message_type_string (RenderedType m),
      vContent = (if Deleted m then None else gContent m),
      vMedia = (if Deleted m then [] else decodeEnvelopePlain (gAttachmentEnvelope m)),
      vClientMsgID = gClientMsgID m, vCreatedAt = gCreatedAt m, vEditedAt = gEditedAt m,
      vStatus = messageStatus m e,
      vReplyTo = (case gReplyToID m of None \<Rightarrow> None
                  | Some i \<Rightarrow> map_option (\<lambda>rt. \<lparr>rvID = rtID rt, rvSenderID = rtSenderID rt,
                                                rvText = rtText rt\<rparr>) (nReplies e i)),
      vMentions = map FormatInt (gMentions m),
      vReactions =
        map (\<lambda>emoji. \<lparr>reEmoji = emoji,
                       reCount = (case map_of (nReactionCounts e (gID m)) emoji of
                                    None \<Rightarrow> 0 | Some n \<Rightarrow> n),
                       reUserIDs = nReactionUsers e (gID m) emoji\<rparr>)
            (sort (map fst (nReactionCounts e (gID m)))),
      vReadBy = (if Deleted m then []
                 else map (\<lambda>c. (FormatInt (cuUserID c), nReadAt e (cuUserID c)))
                        (filter (\<lambda>c. cuLastReadSeq c \<ge> gSequence m) (other_cursors m e))),
      vGlobalSeq = FormatInt (gGlobalSeq m)\<rparr>"

text \<open>The write has already committed when a result is rendered: a failed lookup degrades.\<close>

definition viewFor :: "faults \<Rightarrow> ChatDB \<Rightarrow> Message \<Rightarrow> MessageView" where
  "viewFor fl db msg =
     messageView msg (case enrichPage fl db [msg] of Inl _ \<Rightarrow> emptyEnrichment | Inr e \<Rightarrow> e)"

definition truncate :: "string \<Rightarrow> nat \<Rightarrow> string" where
  "truncate s mx =
     (if rune_count s > mx
      then rune_prefix mx s @ [char_of (226::nat), char_of (128::nat), char_of (166::nat)] else s)"

definition media_placeholder :: string where
  "media_placeholder =
     [char_of (240::nat), char_of (159::nat), char_of (147::nat), char_of (142::nat)] @ '' Media''"

definition snippet :: "Message \<Rightarrow> string option" where
  "snippet m =
     (case gContent m of
        Some t \<Rightarrow> Some (truncate t 120)
      | None \<Rightarrow> if gType m = MessageTypeMedia then Some media_placeholder else None)"

section \<open>Facts\<close>

lemma envelope_roundtrip: "decodeEnvelopePlain (encodeEnvelope media) = media"
  by (simp add: decodeEnvelopePlain_def encodeEnvelope_def)

text \<open>A tombstone shows neither its body nor its media, whoever reads it.\<close>

lemma messageView_tombstone:
  "Deleted m \<Longrightarrow> vContent (messageView m e) = None \<and> vMedia (messageView m e) = []
     \<and> vReadBy (messageView m e) = [] \<and> vType (messageView m e) = ''deleted''"
  by (simp add: messageView_def RenderedType_def)

lemma renderReply_tombstone: "Deleted m \<Longrightarrow> rtText (renderReply m) = None"
  by (simp add: renderReply_def)

lemma vID_viewFor [simp]: "vID (viewFor fl db m) = FormatInt (gID m)"
  by (simp add: viewFor_def messageView_def)

text \<open>The status "read" is exactly "someone other than the sender has read past it".\<close>

lemma messageView_read_iff:
  "vStatus (messageView m e) = ''read'' \<longleftrightarrow> vReadBy (messageView m e) \<noteq> []"
  by (auto simp: messageView_def messageStatus_def filter_empty_conv)

end
