(* ===== verification/ChatTx.thy ===== *)
theory ChatTx
  imports StoreEvolution ChatViews
begin

text \<open>
  How a use case runs (\<open>internal/chat/application/service.go\<close> and the idiom every file of that
  package follows): reads on the connection pool and validation, one transaction, and reads
  after its commit.  \<open>Env\<close> holds what the outside decides during one request: the readings
  of the clock, the id the generator hands out, and which collaborators fail.
\<close>

record Env =
  nvClock :: "nat \<Rightarrow> go_time"   \<comment> \<open>the successive readings of \<open>s.now()\<close>\<close>
  nvID :: go_int
  nvFaults :: faults

definition healthy_env :: "go_time \<Rightarrow> go_int \<Rightarrow> Env" where
  "healthy_env t i = \<lparr>nvClock = (\<lambda>_. t), nvID = i, nvFaults = no_faults\<rparr>"

lemma healthy_env_simps [simp]:
  "nvClock (healthy_env t i) k = t" "nvID (healthy_env t i) = i" "nvFaults (healthy_env t i) = no_faults"
  by (simp_all add: healthy_env_def)

definition NextID :: "Env \<Rightarrow> chat_error + go_int" where
  "NextID env = rbind (call (nvFaults env) CallNextID) (\<lambda>_. Inr (nvID env))"

section \<open>The three phases\<close>

text \<open>
  \<open>prepare\<close> runs the reads: an error returns without a transaction.  \<open>transact\<close> opens a
  transaction, runs the body on the tables and commits; an error of the body, or a body that
  returns without committing (\<open>None\<close>), rolls back through the deferred \<open>Rollback\<close>.
  \<open>finish\<close> runs the reads after the commit.
\<close>

type_synonym 'a body = "ChatDB \<Rightarrow> chat_error + ('a \<times> ChatDB option)"

definition prepare ::
  "chat_error + 'p \<Rightarrow> ('p \<Rightarrow> ChatDB \<Rightarrow> (chat_error + 'a) \<times> ChatDB) \<Rightarrow> ChatDB \<Rightarrow> (chat_error + 'a) \<times> ChatDB" where
  "prepare p k db = (case p of Inl e \<Rightarrow> (Inl e, db) | Inr x \<Rightarrow> k x db)"

definition transact :: "faults \<Rightarrow> 'a body \<Rightarrow> ChatDB \<Rightarrow> (chat_error + 'a) \<times> ChatDB" where
  "transact fl body db =
     (if fl CallBegin then (Inl (InfraError CallBegin), db)
      else case body db of
             Inl e \<Rightarrow> (Inl e, db)
           | Inr (r, None) \<Rightarrow> (Inr r, db)
           | Inr (r, Some db') \<Rightarrow>
               if fl CallCommit then (Inl (InfraError CallCommit), db) else (Inr r, db'))"

definition finish ::
  "(chat_error + 'a) \<times> ChatDB \<Rightarrow> ('a \<Rightarrow> ChatDB \<Rightarrow> chat_error + 'b) \<Rightarrow> (chat_error + 'b) \<times> ChatDB" where
  "finish x f = (rbind (fst x) (\<lambda>r. f r (snd x)), snd x)"

definition commit :: "'a \<Rightarrow> ChatDB \<Rightarrow> chat_error + ('a \<times> ChatDB option)" where
  "commit r db = Inr (r, Some db)"

definition roll_back :: "'a \<Rightarrow> chat_error + ('a \<times> ChatDB option)" where
  "roll_back r = Inr (r, None)"

lemma commit_Inr [simp]: "commit r db = Inr (x, d) \<longleftrightarrow> x = r \<and> d = Some db"
  by (auto simp: commit_def)

lemma roll_back_Inr [simp]: "roll_back r = Inr (x, d) \<longleftrightarrow> x = r \<and> d = None"
  by (auto simp: roll_back_def)

lemma prepare_Inr [simp]: "prepare (Inr x) k db = k x db"
  by (simp add: prepare_def)

lemma prepare_Inl [simp]: "prepare (Inl e) k db = (Inl e, db)"
  by (simp add: prepare_def)

lemma snd_finish [simp]: "snd (finish x f) = snd x"
  by (simp add: finish_def)

lemma finish_Inr: "finish x f = (Inr b, db') \<longleftrightarrow> (\<exists>a. x = (Inr a, db') \<and> f a db' = Inr b)"
  by (cases x) (auto simp: finish_def)

lemma finish_Inl:
  "finish x f = (Inl e, db') \<longleftrightarrow> x = (Inl e, db') \<or> (\<exists>a. x = (Inr a, db') \<and> f a db' = Inl e)"
  by (cases x) (auto simp: finish_def rbind_Inl_iff)

section \<open>What the phases preserve\<close>

text \<open>A relation that holds of doing nothing and of the body's tables holds of the request.\<close>

lemma snd_prepare:
  assumes "R db db" and "\<And>x. p = Inr x \<Longrightarrow> R db (snd (k x db))"
  shows "R db (snd (prepare p k db))"
  using assms by (cases p) simp_all

lemma snd_transact:
  assumes "R db db" and "\<And>r db'. body db = Inr (r, Some db') \<Longrightarrow> R db db'"
  shows "R db (snd (transact fl body db))"
  using assms by (auto simp: transact_def split: sum.splits option.splits)

lemma prepare_step:
  "(\<And>x. p = Inr x \<Longrightarrow> store_step db (snd (k x db))) \<Longrightarrow> store_step db (snd (prepare p k db))"
  by (rule snd_prepare) simp_all

lemma transact_step:
  "(\<And>r db'. body db = Inr (r, Some db') \<Longrightarrow> store_step db db') \<Longrightarrow> store_step db (snd (transact fl body db))"
  by (rule snd_transact) simp_all

lemma finish_step: "store_step db (snd x) \<Longrightarrow> store_step db (snd (finish x f))"
  by simp

lemmas phase_steps = prepare_step transact_step finish_step

text \<open>Atomicity: a request that fails in or before its transaction leaves the tables alone.\<close>

lemma transact_Inl: "transact fl body db = (Inl e, db') \<Longrightarrow> db' = db"
  by (auto simp: transact_def split: sum.splits option.splits if_splits)

lemma prepare_Inl_iff:
  "prepare p k db = (Inl e, db') \<longleftrightarrow> (p = Inl e \<and> db' = db) \<or> (\<exists>x. p = Inr x \<and> k x db = (Inl e, db'))"
  by (cases p) auto

lemma prepare_Inr_iff: "prepare p k db = (Inr r, db') \<longleftrightarrow> (\<exists>x. p = Inr x \<and> k x db = (Inr r, db'))"
  by (cases p) auto

lemma transact_Inr_iff:
  "transact fl body db = (Inr r, db') \<longleftrightarrow>
     \<not> fl CallBegin \<and> (body db = Inr (r, None) \<and> db' = db
                     \<or> body db = Inr (r, Some db') \<and> \<not> fl CallCommit)"
  by (auto simp: transact_def split: sum.splits option.splits)

section \<open>The membership gate\<close>

text \<open>
  \<open>requireMember\<close>, \<open>requireActiveMember\<close> and the inline copies of the same lines: no active
  membership is \<open>ErrNotMember\<close>, any other error is passed on.
\<close>

definition requireMember :: "faults \<Rightarrow> ChatDB \<Rightarrow> go_int \<Rightarrow> go_int \<Rightarrow> chat_error + Membership" where
  "requireMember fl db c u =
     (case FindActive fl db c u of
        Inr m \<Rightarrow> Inr m
      | Inl e \<Rightarrow> Inl (if e = ErrMembershipNotFound then ErrNotMember else e))"

definition requireAdmin :: "faults \<Rightarrow> ChatDB \<Rightarrow> go_int \<Rightarrow> go_int \<Rightarrow> chat_error + Membership" where
  "requireAdmin fl db c u =
     rbind (requireMember fl db c u) (\<lambda>m.
     rbind (ensure (AtLeast (mRole m) RoleAdmin) ErrInsufficientRole) (\<lambda>_. Inr m))"

lemma requireMember_Inr:
  "requireMember fl db c u = Inr m \<Longrightarrow>
     m \<in> set (tMembers db) \<and> mConversationID m = c \<and> mUserID m = u \<and> mLeftAt m = None"
  by (auto simp: requireMember_def FindActive_def dest: find_SomeD split: sum.splits)

lemma requireMember_active: "requireMember fl db c u = Inr m \<Longrightarrow> active_member db c u"
  by (auto simp: active_member_def dest: requireMember_Inr)

lemma requireMember_outsider:
  "\<not> active_member db c u \<Longrightarrow>
     requireMember fl db c u = Inl (if fl CallFindActive then InfraError CallFindActive else ErrNotMember)"
  by (auto simp: requireMember_def FindActive_def active_member_def call_def find_None_iff ensure_def
      from_opt_def split: sum.splits option.splits dest!: find_SomeD)

lemma requireMember_ok:
  assumes "\<not> fl CallFindActive" and "active_member db c u"
  shows "\<exists>m. requireMember fl db c u = Inr m"
proof -
  from assms(2) have "find (\<lambda>m. mConversationID m = c \<and> mUserID m = u \<and> mLeftAt m = None) (tMembers db) \<noteq> None"
    by (auto simp: find_None_iff active_member_def)
  with assms(1) show ?thesis by (auto simp: requireMember_def FindActive_def)
qed

definition defaultLimit :: int where "defaultLimit = 50"
definition maxLimit :: int where "maxLimit = 100"

definition clamp_limit :: "int \<Rightarrow> nat" where
  "clamp_limit l = nat (let l1 = (if l \<le> 0 then defaultLimit else l) in if l1 > maxLimit then maxLimit else l1)"

lemma clamp_limit_bounds: "0 < clamp_limit l \<and> clamp_limit l \<le> 100"
  by (auto simp: clamp_limit_def defaultLimit_def maxLimit_def Let_def)

end
