(* ===== verification/SequenceSource.thy ===== *)
theory SequenceSource
  imports StoreLemmas
begin

text \<open>
  The per-conversation sequence allocator (\<open>infra/postgres/sequence_source.go\<close>): a Redis
  counter is the hot path, the durable row \<open>conversation_sequences\<close> the floor it is
  bootstrapped from and the fallback.  \<open>SeqEnv\<close> says which of the external calls of one
  allocation succeed.
\<close>

section \<open>State and operations\<close>

record World =
  wDB :: ChatDB
  wRedis :: "go_int \<Rightarrow> go_int option"   \<comment> \<open>key conv:N:seq\<close>

record SeqEnv =
  seExistsOK :: bool
  seFloorOK :: bool
  seSetNXOK :: bool
  seIncrOK :: bool
  sePGOK :: bool

definition seq_healthy :: SeqEnv where
  "seq_healthy = \<lparr>seExistsOK = True, seFloorOK = True, seSetNXOK = True, seIncrOK = True, sePGOK = True\<rparr>"

text \<open>Redis \<open>EXISTS\<close> failed on the first call.\<close>

definition seq_redis_down :: SeqEnv where
  "seq_redis_down = \<lparr>seExistsOK = False, seFloorOK = True, seSetNXOK = False, seIncrOK = False, sePGOK = True\<rparr>"

definition fallback :: "SeqEnv \<Rightarrow> go_int \<Rightarrow> World \<Rightarrow> (chat_error + go_int) \<times> World" where
  "fallback env c w =
     (if sePGOK env then
        (case nextFromPG c (wDB w) of
           Inl e \<Rightarrow> (Inl e, w) | Inr (s, db) \<Rightarrow> (Inr s, w\<lparr>wDB := db\<rparr>))
      else (Inl (InfraError CallNextSequence), w))"

text \<open>The bootstrap of a cold counter: \<open>SET NX\<close> of a positive floor.\<close>

definition bootstrap :: "SeqEnv \<Rightarrow> go_int \<Rightarrow> World \<Rightarrow> World" where
  "bootstrap env c w =
     (if wRedis w c = None then
        (case (if seFloorOK env then floor_of (wDB w) c else None) of
           None \<Rightarrow> w
         | Some f \<Rightarrow> if f > 0 \<and> seSetNXOK env then w\<lparr>wRedis := (wRedis w)(c \<mapsto> f)\<rparr> else w)
      else w)"

definition incr :: "go_int \<Rightarrow> World \<Rightarrow> go_int \<times> World" where
  "incr c w =
     (let n = (case wRedis w c of None \<Rightarrow> 0 | Some v \<Rightarrow> v) + 1
      in (n, w\<lparr>wRedis := (wRedis w)(c \<mapsto> n)\<rparr>))"

definition SequenceNext :: "SeqEnv \<Rightarrow> go_int \<Rightarrow> World \<Rightarrow> (chat_error + go_int) \<times> World" where
  "SequenceNext env c w =
     (if \<not> seExistsOK env then fallback env c w
      else let w1 = bootstrap env c w in
           if \<not> seIncrOK env then fallback env c w1
           else let (n, w2) = incr c w1 in (Inr n, w2))"

section \<open>The allocator's invariant\<close>

text \<open>
  Every stored message of the conversation is at or below the durable floor, and a warm counter
  is at or above it.  The first part is kept by \<open>Persist\<close>, the second by the allocator as
  long as it does not fall back.
\<close>

definition floor_covers :: "ChatDB \<Rightarrow> go_int \<Rightarrow> bool" where
  "floor_covers db c \<longleftrightarrow>
     (\<exists>f. floor_of db c = Some f \<and> 0 \<le> f
        \<and> (\<forall>m \<in> set (tMessages db). gConversationID m = c \<longrightarrow> gSequence m \<le> f))"

definition counter_warm :: "World \<Rightarrow> go_int \<Rightarrow> bool" where
  "counter_warm w c \<longleftrightarrow>
     (case wRedis w c of None \<Rightarrow> True
      | Some v \<Rightarrow> (\<forall>f. floor_of (wDB w) c = Some f \<longrightarrow> f \<le> v))"

definition allocator_ok :: "World \<Rightarrow> go_int \<Rightarrow> bool" where
  "allocator_ok w c \<longleftrightarrow> floor_covers (wDB w) c \<and> counter_warm w c"

lemma SequenceNext_healthy:
  assumes "allocator_ok w c"
  shows "\<exists>n. SequenceNext seq_healthy c w = (Inr n, w\<lparr>wRedis := (wRedis w)(c \<mapsto> n)\<rparr>)
    \<and> (\<forall>f. floor_of (wDB w) c = Some f \<longrightarrow> f < n) \<and> 0 < n
    \<and> (\<forall>v. wRedis w c = Some v \<longrightarrow> n = v + 1)"
proof -
  from assms obtain f where f: "floor_of (wDB w) c = Some f" "0 \<le> f"
    by (auto simp: allocator_ok_def floor_covers_def)
  have warm: "f \<le> v" if "wRedis w c = Some v" for v
    using assms that f by (simp add: allocator_ok_def counter_warm_def)
  define n where "n = (case wRedis w c of Some v \<Rightarrow> v | None \<Rightarrow> f) + 1"
  have "SequenceNext seq_healthy c w = (Inr n, w\<lparr>wRedis := (wRedis w)(c \<mapsto> n)\<rparr>)"
  proof (cases "wRedis w c")
    case None
    then show ?thesis
      using f by (cases "f > 0") (simp_all add: SequenceNext_def seq_healthy_def bootstrap_def incr_def n_def Let_def)
  next
    case (Some v)
    then show ?thesis
      by (simp add: SequenceNext_def seq_healthy_def bootstrap_def incr_def n_def Let_def)
  qed
  moreover have "f < n" and "0 < n"
    using f warm by (auto simp: n_def split: option.splits)
  ultimately show ?thesis
    using f by (intro exI [of _ n]) (auto simp: n_def)
qed

lemma allocator_ok_next:
  assumes "allocator_ok w c" and "SequenceNext seq_healthy c w = (Inr n, w')"
  shows "allocator_ok w' c" and "wDB w' = wDB w" and "\<And>f. floor_of (wDB w) c = Some f \<Longrightarrow> f < n"
    and "0 < n" and "wRedis w' c = Some n"
proof -
  obtain k where k: "SequenceNext seq_healthy c w = (Inr k, w\<lparr>wRedis := (wRedis w)(c \<mapsto> k)\<rparr>)"
    and above: "\<And>f. floor_of (wDB w) c = Some f \<Longrightarrow> f < k" and pos: "0 < k"
    using SequenceNext_healthy [OF assms(1)] by metis
  from k assms(2) have "n = k" and w': "w' = w\<lparr>wRedis := (wRedis w)(c \<mapsto> k)\<rparr>" by auto
  then show "\<And>f. floor_of (wDB w) c = Some f \<Longrightarrow> f < n" and "0 < n" and "wDB w' = wDB w"
    and "wRedis w' c = Some n"
    using above pos by auto
  show "allocator_ok w' c"
    using assms(1) above by (fastforce simp: allocator_ok_def counter_warm_def w')
qed

text \<open>A Redis restart loses the counter; the invariant survives it.\<close>

definition redis_flush :: "World \<Rightarrow> World" where
  "redis_flush w = w\<lparr>wRedis := (\<lambda>_. None)\<rparr>"

lemma allocator_ok_flush: "allocator_ok w c \<Longrightarrow> allocator_ok (redis_flush w) c"
  by (simp add: allocator_ok_def counter_warm_def redis_flush_def)

lemma floor_of_Persist:
  assumes "SequencePersist fl c s db = Inr db'"
  shows "floor_of db' k = (if k = c then map_option (\<lambda>n. max n s) (floor_of db k) else floor_of db k)"
proof -
  have "map_of (upd_where (\<lambda>r. fst r = c) (\<lambda>(k, n). (k, max n s)) t) k
      = (if k = c then map_option (\<lambda>n. max n s) (map_of t k) else map_of t k)" for t :: "(go_int \<times> go_int) list"
    by (induction t) (auto simp: split_beta)
  with assms show ?thesis by (auto simp: SequencePersist_def floor_of_def)
qed

section \<open>The contract the send path relies on\<close>

text \<open>
  What a client of an allocator needs: in a good state an allocation succeeds with a sequence
  above everything recorded as used, and leaves a good state in which nothing is forgotten.
  Two allocations therefore never agree, whatever happens to be recorded between them.
\<close>

locale sequence_allocator =
  fixes good :: "'s \<Rightarrow> bool"
    and used :: "'s \<Rightarrow> go_int set"
    and alloc :: "'s \<Rightarrow> go_int \<times> 's"
  assumes alloc_fresh: "good s \<Longrightarrow> alloc s = (n, s') \<Longrightarrow> n \<notin> used s \<and> 0 < n"
    and alloc_good: "good s \<Longrightarrow> alloc s = (n, s') \<Longrightarrow> good s'"
    and alloc_used: "good s \<Longrightarrow> alloc s = (n, s') \<Longrightarrow> insert n (used s) \<subseteq> used s'"
begin

fun alloc_many :: "nat \<Rightarrow> 's \<Rightarrow> go_int list \<times> 's" where
  "alloc_many 0 s = ([], s)"
| "alloc_many (Suc k) s = (let (n, s1) = alloc s; (ns, s2) = alloc_many k s1 in (n # ns, s2))"

lemma alloc_many_fresh:
  "good s \<Longrightarrow> alloc_many k s = (ns, s') \<Longrightarrow>
     good s' \<and> distinct ns \<and> set ns \<inter> used s = {} \<and> set ns \<union> used s \<subseteq> used s' \<and> (\<forall>n \<in> set ns. 0 < n)"
proof (induction k arbitrary: s ns s')
  case 0
  then show ?case by simp
next
  case (Suc k)
  obtain n s1 where a: "alloc s = (n, s1)" by fastforce
  obtain ms s2 where m: "alloc_many k s1 = (ms, s2)" by fastforce
  from Suc.prems(2) a m have eqs: "ns = n # ms" "s' = s2" by auto
  have g: "good s1" and f: "n \<notin> used s" "0 < n" and u: "insert n (used s) \<subseteq> used s1"
    using Suc.prems(1) a alloc_good alloc_fresh alloc_used by blast+
  from Suc.IH [OF g m] f u show ?case by (auto simp: eqs)
qed

end

text \<open>
  The healthy Redis path is such an allocator for one conversation: everything at or below the
  counter (the floor, while the counter is cold) counts as used.
\<close>

definition conversation_alloc :: "World \<times> go_int \<Rightarrow> go_int \<times> (World \<times> go_int)" where
  "conversation_alloc s =
     (case SequenceNext seq_healthy (snd s) (fst s) of
        (Inr n, w) \<Rightarrow> (n, (w, snd s)) | (Inl _, w) \<Rightarrow> (0, (w, snd s)))"

definition used_sequences :: "World \<times> go_int \<Rightarrow> go_int set" where
  "used_sequences s =
     {n. n \<le> (case wRedis (fst s) (snd s) of
                Some v \<Rightarrow> v
              | None \<Rightarrow> (case floor_of (wDB (fst s)) (snd s) of Some f \<Rightarrow> f | None \<Rightarrow> 0))}"

lemma conversation_alloc_step:
  assumes "allocator_ok (fst s) (snd s)" and "conversation_alloc s = (n, s')"
  shows "n \<notin> used_sequences s \<and> 0 < n" and "allocator_ok (fst s') (snd s')"
    and "insert n (used_sequences s) \<subseteq> used_sequences s'"
proof -
  obtain w c where s: "s = (w, c)" by fastforce
  with assms(1) have ok: "allocator_ok w c" by simp
  obtain k where k: "SequenceNext seq_healthy c w = (Inr k, w\<lparr>wRedis := (wRedis w)(c \<mapsto> k)\<rparr>)"
    and above: "\<And>f. floor_of (wDB w) c = Some f \<Longrightarrow> f < k" and pos: "0 < k"
    and step: "\<And>v. wRedis w c = Some v \<Longrightarrow> k = v + 1"
    using SequenceNext_healthy [OF ok] by metis
  have ns: "n = k" "s' = (w\<lparr>wRedis := (wRedis w)(c \<mapsto> k)\<rparr>, c)"
    using assms(2) by (auto simp: conversation_alloc_def s k)
  show "allocator_ok (fst s') (snd s')"
    using allocator_ok_next(1) [OF ok k] by (simp add: ns)
  show "n \<notin> used_sequences s \<and> 0 < n"
    using pos step above by (auto simp: used_sequences_def s ns split: option.splits)
  show "insert n (used_sequences s) \<subseteq> used_sequences s'"
    using step above pos by (auto simp: used_sequences_def s ns split: option.splits)
qed

interpretation redis_seq: sequence_allocator
  "\<lambda>s. allocator_ok (fst s) (snd s)" used_sequences conversation_alloc
  by unfold_locales (use conversation_alloc_step in blast)+

end
