(* ===== verification/ChatSend.thy ===== *)
theory ChatSend
  imports ChatTx SequenceSource
begin

text \<open>
  The send path (\<open>internal/chat/application/send.go\<close>): validation, the membership gate, the
  reply target, and up to three attempts of allocate-then-commit.  One attempt has its own
  environment; \<open>atVisible\<close> is what the poll for the winner of a duplicate sees on its i-th
  try, given the tables of the attempt.
\<close>

section \<open>Commands, results and environments\<close>

record SendMessageCommand =
  smUserID :: go_int
  smConversationID :: go_int
  smClientMsgID :: string
  smType :: string
  smText :: "string option"
  smMedia :: "Attachment list"
  smReplyToSeq :: "go_int option"
  smMentions :: "go_int list"

record SendMessageResult =
  srView :: MessageView
  srCreated :: bool

record AttemptEnv =
  atSeq :: SeqEnv
  atEnv :: Env
  atVisible :: "nat \<Rightarrow> ChatDB \<Rightarrow> ChatDB"

record SendEnv =
  seFaults :: faults
  seAttempt :: "nat \<Rightarrow> AttemptEnv"

section \<open>Validation\<close>

fun mentions_loop :: "go_int set \<Rightarrow> go_int set \<Rightarrow> go_int list \<Rightarrow> chat_error + unit" where
  "mentions_loop member seen [] = Inr ()"
| "mentions_loop member seen (i # ids) =
     (if i \<le> 0 then Inl (ValidationError ''mentions'' ''invalid_user_id'')
      else if i \<in> seen then mentions_loop member seen ids
      else if i \<notin> member then Inl ErrMentionNotMember
      else mentions_loop member (insert i seen) ids)"

definition validateMentions :: "faults \<Rightarrow> ChatDB \<Rightarrow> go_int \<Rightarrow> go_int list \<Rightarrow> chat_error + unit" where
  "validateMentions fl db c mentions =
     rbind (ActiveUserIDs fl db c) (\<lambda>ids. mentions_loop (set ids) {} mentions)"

definition validate_body :: "SendMessageCommand \<Rightarrow> chat_error + unit" where
  "validate_body cmd =
     (let hasText = (case smText cmd of None \<Rightarrow> False | Some t \<Rightarrow> TrimSpace t \<noteq> []);
          hasMedia = (smMedia cmd \<noteq> []) in
      if hasText \<and> hasMedia then Inl (ValidationError ''content'' ''exactly_one_of_content_or_media'')
      else if \<not> hasText \<and> \<not> hasMedia then Inl (ValidationError ''content'' ''exactly_one_of_content_or_media'')
      else if hasText then
        ensure (\<not> rune_count (the (smText cmd)) > MaxMessageTextLen) (ValidationError ''content.text'' ''too_long'')
      else
        rbind (ensure (\<not> length (smMedia cmd) > MaxMediaPerMessage) (ValidationError ''media'' ''too_many'')) (\<lambda>_.
          ensure (\<forall>a \<in> set (smMedia cmd). TrimSpace (aMediaID a) \<noteq> [])
            (ValidationError ''media'' ''media_id_required'')))"

definition validateSendCommand :: "faults \<Rightarrow> ChatDB \<Rightarrow> SendMessageCommand \<Rightarrow> chat_error + MessageType" where
  "validateSendCommand fl db cmd =
     rbind (ensure (TrimSpace (smClientMsgID cmd) \<noteq> []) (ValidationError ''client_msg_id'' ''required'')) (\<lambda>_.
     rbind (ensure (\<not> length (smClientMsgID cmd) > 255) (ValidationError ''client_msg_id'' ''too_long'')) (\<lambda>_.
     rbind (case ParseMessageType (smType cmd) of
              Inl _ \<Rightarrow> Inl (ValidationError ''type'' ''invalid_type'') | Inr t \<Rightarrow> Inr t) (\<lambda>mtype.
     rbind (ensure (\<not> (mtype \<noteq> MessageTypeText \<and> mtype \<noteq> MessageTypeMedia))
              (ValidationError ''type'' ''invalid_type'')) (\<lambda>_.
     rbind (validate_body cmd) (\<lambda>_.
     rbind (if smMentions cmd \<noteq> [] then validateMentions fl db (smConversationID cmd) (smMentions cmd)
            else Inr ()) (\<lambda>_. Inr mtype))))))"

section \<open>The outbox row\<close>

definition attachment_json :: "Attachment \<Rightarrow> json" where
  "attachment_json a =
     JObj ([(''media_id'', JStr (aMediaID a)), (''kind'', JStr (aKind a))]
       @ (if aURL a = [] then [] else [(''url'', JStr (aURL a))])
       @ (if aThumb a = [] then [] else [(''thumb'', JStr (aThumb a))])
       @ (case aSize a of None \<Rightarrow> [] | Some n \<Rightarrow> [(''size'', JInt n)])
       @ (case aWidth a of None \<Rightarrow> [] | Some n \<Rightarrow> [(''width'', JInt n)])
       @ (case aHeight a of None \<Rightarrow> [] | Some n \<Rightarrow> [(''height'', JInt n)])
       @ (if aCaption a = [] then [] else [(''caption'', JStr (aCaption a))]))"

definition messageCreatedPayload :: "faults \<Rightarrow> ChatDB \<Rightarrow> Message \<Rightarrow> json" where
  "messageCreatedPayload fl db m =
     (let senderName = (case gSenderID m of
            None \<Rightarrow> []
          | Some s \<Rightarrow> (case ListByIDs fl db [s] of Inr [u] \<Rightarrow> uDisplayName u | _ \<Rightarrow> [])) in
      JObj [(''id'', JInt (gID m)), (''conversation_id'', JInt (gConversationID m)),
            (''sequence'', JInt (gSequence m)), (''sender_id'', jopt JInt (gSenderID m)),
            (''sender'', JObj [(''display_name'', JStr senderName)]),
            (''type'', JStr (message_type_string (RenderedType m))),
            (''content'', JObj [(''text'', jopt JStr (gContent m))]),
            (''media'', JArr (map attachment_json (decodeEnvelopePlain (gAttachmentEnvelope m)))),
            (''client_msg_id'', jopt JStr (gClientMsgID m)),
            (''mentions'', JArr (map JInt (gMentions m))), (''reply_to_id'', jopt JInt (gReplyToID m)),
            (''created_at'', JTime (gCreatedAt m)), (''edited_at'', jopt JTime (gEditedAt m)),
            (''global_seq'', JInt (gGlobalSeq m))])"

definition appendMessageCreated :: "faults \<Rightarrow> SendMessageCommand \<Rightarrow> Message \<Rightarrow> ChatDB \<Rightarrow> chat_error + ChatDB" where
  "appendMessageCreated fl cmd m db =
     rbind (ActiveUserIDs fl db (smConversationID cmd)) (\<lambda>members.
       ChangeLogAppend fl
         [\<lparr>lEventType = EventMessageCreated, lConversationID = Some (gConversationID m),
           lEntityID = Some (gID m), lActorUserID = Some (smUserID cmd), lAffectedUserIDs = members,
           lPayload = messageCreatedPayload fl db m\<rparr>] db)"

section \<open>One attempt\<close>

fun replay_poll ::
  "nat \<Rightarrow> nat \<Rightarrow> faults \<Rightarrow> (nat \<Rightarrow> ChatDB) \<Rightarrow> go_int \<Rightarrow> string \<Rightarrow> chat_error + Message" where
  "replay_poll 0 i fl visible sender k = Inl ErrClientMsgIDConflict"
| "replay_poll (Suc n) i fl visible sender k =
     (case FindByClientMsgID fl (visible i) sender k of
        Inr m \<Rightarrow> Inr m
      | Inl e \<Rightarrow> if e \<noteq> ErrMessageNotFound then Inl e
                 else if fl CallContextDone then Inl (InfraError CallContextDone)
                 else replay_poll n (Suc i) fl visible sender k)"

definition replayOriginal :: "faults \<Rightarrow> (nat \<Rightarrow> ChatDB) \<Rightarrow> go_int \<Rightarrow> string \<Rightarrow> chat_error + Message" where
  "replayOriginal fl visible sender k = replay_poll 10 0 fl visible sender k"

definition new_message ::
  "SendMessageCommand \<Rightarrow> MessageType \<Rightarrow> go_int option \<Rightarrow> go_int \<Rightarrow> go_int \<Rightarrow> go_time \<Rightarrow> Message" where
  "new_message cmd mtype replyToID seq msgID now =
     \<lparr>gID = msgID, gConversationID = smConversationID cmd, gSequence = seq,
      gClientMsgID = Some (smClientMsgID cmd), gSenderID = Some (smUserID cmd), gType = mtype,
      gContent = smText cmd, gAttachmentEnvelope = encodeEnvelope (smMedia cmd),
      gMentions = smMentions cmd, gReplyToID = replyToID, gEditCount = 0, gEditedAt = None,
      gDeletedAt = None, gDeletedBy = None, gGlobalSeq = 0, gCreatedAt = now\<rparr>"

text \<open>The transaction: its result says which message to render and whether it is new.\<close>

definition send_tx :: "AttemptEnv \<Rightarrow> SendMessageCommand \<Rightarrow> Message \<Rightarrow> (Message \<times> bool) body" where
  "send_tx at cmd msg db =
     (let fl = nvFaults (atEnv at) in
      rbind (MessageInsert fl msg db) (\<lambda>(inserted, db1).
        case inserted of
          None \<Rightarrow>
            rbind (replayOriginal fl (\<lambda>i. atVisible at i db1) (smUserID cmd) (smClientMsgID cmd)) (\<lambda>orig.
            rbind (call fl CallRollback) (\<lambda>_. roll_back (orig, False)))
        | Some m \<Rightarrow>
            rbind (SequencePersist fl (smConversationID cmd) (gSequence m) db1) (\<lambda>db2.
            rbind (BumpLastMessage fl (smConversationID cmd) (gSequence m) (snippet m)
                     (Some (smUserID cmd)) (gCreatedAt m) db2) (\<lambda>(_, db3).
            rbind (appendMessageCreated fl cmd m db3) (\<lambda>db4. commit (m, True) db4)))))"

definition sendOnce ::
  "AttemptEnv \<Rightarrow> SendMessageCommand \<Rightarrow> MessageType \<Rightarrow> go_int option \<Rightarrow> World
    \<Rightarrow> (chat_error + SendMessageResult) \<times> World" where
  "sendOnce at cmd mtype replyToID w =
     (case SequenceNext (atSeq at) (smConversationID cmd) w of
        (Inl e, w1) \<Rightarrow> (Inl e, w1)
      | (Inr seq, w1) \<Rightarrow>
          let env = atEnv at;
              (res, db) =
                prepare (NextID env)
                  (\<lambda>msgID db.
                    finish (transact (nvFaults env)
                              (send_tx at cmd (new_message cmd mtype replyToID seq msgID (nvClock env 0))) db)
                      (\<lambda>(m, created) db'. Inr \<lparr>srView = viewFor (nvFaults env) db' m, srCreated = created\<rparr>))
                  (wDB w1)
          in (res, w1\<lparr>wDB := db\<rparr>))"

section \<open>The retry loop\<close>

definition maxSendRetries :: nat where "maxSendRetries = 3"

fun send_loop ::
  "nat \<Rightarrow> nat \<Rightarrow> SendEnv \<Rightarrow> SendMessageCommand \<Rightarrow> MessageType \<Rightarrow> go_int option \<Rightarrow> World
    \<Rightarrow> (chat_error + SendMessageResult) \<times> World" where
  "send_loop 0 i env cmd mtype replyToID w = (Inl ErrSequenceConflict, w)"
| "send_loop (Suc n) i env cmd mtype replyToID w =
     (case sendOnce (seAttempt env i) cmd mtype replyToID w of
        (Inr r, w1) \<Rightarrow> (Inr r, w1)
      | (Inl e, w1) \<Rightarrow> if e \<noteq> ErrSequenceConflict then (Inl e, w1)
                        else send_loop n (Suc i) env cmd mtype replyToID w1)"

definition reply_target :: "faults \<Rightarrow> ChatDB \<Rightarrow> SendMessageCommand \<Rightarrow> chat_error + go_int option" where
  "reply_target fl db cmd =
     (case smReplyToSeq cmd of
        None \<Rightarrow> Inr None
      | Some s \<Rightarrow>
          (case FindByConversationSeq fl db (smConversationID cmd) s of
             Inr reply \<Rightarrow> Inr (Some (gID reply))
           | Inl e \<Rightarrow> Inl (if e = ErrMessageNotFound
                            then ValidationError ''reply_to_seq'' ''invalid_reply_target'' else e)))"

definition send_checks :: "faults \<Rightarrow> ChatDB \<Rightarrow> SendMessageCommand \<Rightarrow> chat_error + (MessageType \<times> go_int option)" where
  "send_checks fl db cmd =
     rbind (validateSendCommand fl db cmd) (\<lambda>mtype.
     rbind (ConversationFindByID fl db (smConversationID cmd)) (\<lambda>_.
     rbind (requireMember fl db (smConversationID cmd) (smUserID cmd)) (\<lambda>_.
     rbind (reply_target fl db cmd) (\<lambda>replyToID. Inr (mtype, replyToID)))))"

definition SendMessage :: "SendEnv \<Rightarrow> SendMessageCommand \<Rightarrow> World \<Rightarrow> (chat_error + SendMessageResult) \<times> World" where
  "SendMessage env cmd w =
     (case send_checks (seFaults env) (wDB w) cmd of
        Inl e \<Rightarrow> (Inl e, w)
      | Inr (mtype, replyToID) \<Rightarrow> send_loop maxSendRetries 0 env cmd mtype replyToID w)"

end
