(* ===== verification/Scenario.thy ===== *)
theory Scenario
  imports ChatSend
begin

text \<open>
  A small deployment the examples run on: users 10, 11 and 12, a group (conversation 1) of the
  owner 10 and the member 11, and a direct chat (conversation 2) of 10 and 11.
\<close>

definition demo_user :: "go_int \<Rightarrow> string \<Rightarrow> User" where
  "demo_user i n = \<lparr>uID = i, uUsername = None, uDisplayName = n, uPhoneNumber = None, uEmail = None,
     uAccountState = AccountActive, uPrimaryIdentifier = PrimaryUsername, uTokenVersion = 1,
     uCreatedAt = 0, uUpdatedAt = 0\<rparr>"

definition demo_conversation :: "go_int \<Rightarrow> ConversationType \<Rightarrow> string option \<Rightarrow> Conversation" where
  "demo_conversation i t title = \<lparr>cID = i, cType = t, cTitle = title, cPhotoMediaID = None,
     cDescription = None, cCreatedBy = 10, cLastMessageAt = None, cLastMessageSeq = None,
     cLastMessageSnippet = None, cLastSenderID = None, cSettings = DefaultSettings,
     cRetentionDays = None, cCreatedAt = 0, cUpdatedAt = 0, cDeletedAt = None\<rparr>"

definition demo_member :: "go_int \<Rightarrow> go_int \<Rightarrow> Role \<Rightarrow> Membership" where
  "demo_member c u r = \<lparr>mConversationID = c, mUserID = u, mRole = r, mLastReadSeq = 0,
     mLastDeliveredSeq = 0, mLastReadAt = None, mMutedUntil = None, mPinnedAt = None,
     mArchivedAt = None, mJoinedAt = 0, mLeftAt = None\<rparr>"

definition demo_db :: ChatDB where
  "demo_db = \<lparr>
     tConversations = [demo_conversation 1 ConversationGroup (Some ''team''),
                       demo_conversation 2 ConversationDirect None],
     tMembers = [demo_member 1 10 RoleOwner, demo_member 1 11 RoleMember,
                 demo_member 2 10 RoleMember, demo_member 2 11 RoleMember],
     tSequences = [(1, 0), (2, 0)], tMessages = [], tEdits = [], tReactions = [], tChangeLog = [],
     tUsers = [demo_user 10 ''ann'', demo_user 11 ''bob'', demo_user 12 ''eve''],
     nMessageSeq = 1, nChangeSeq = 1\<rparr>"

definition demo_world :: World where
  "demo_world = \<lparr>wDB = demo_db, wRedis = (\<lambda>_. None)\<rparr>"

definition demo_text :: "go_int \<Rightarrow> go_int \<Rightarrow> string \<Rightarrow> SendMessageCommand" where
  "demo_text u c k = \<lparr>smUserID = u, smConversationID = c, smClientMsgID = k, smType = ''text'',
     smText = Some ''hello'', smMedia = [], smReplyToSeq = None, smMentions = []\<rparr>"

definition healthy_attempt :: "go_time \<Rightarrow> go_int \<Rightarrow> AttemptEnv" where
  "healthy_attempt t i = \<lparr>atSeq = seq_healthy, atEnv = healthy_env t i, atVisible = (\<lambda>_ db. db)\<rparr>"

definition healthy_send :: "go_time \<Rightarrow> go_int \<Rightarrow> SendEnv" where
  "healthy_send t i = \<lparr>seFaults = no_faults, seAttempt = (\<lambda>_. healthy_attempt t i)\<rparr>"

text \<open>The same, with Redis unreachable: the allocator falls back to the durable row.\<close>

definition outage_send :: "go_time \<Rightarrow> go_int \<Rightarrow> SendEnv" where
  "outage_send t i =
     \<lparr>seFaults = no_faults, seAttempt = (\<lambda>_. (healthy_attempt t i)\<lparr>atSeq := seq_redis_down\<rparr>)\<rparr>"

lemma demo_schema: "schema_ok demo_db"
  by code_simp

lemma demo_floor: "floor_covers demo_db 1"
  by (simp add: floor_covers_def demo_db_def floor_of_def)

lemma demo_allocator: "allocator_ok demo_world 1"
  by (simp add: allocator_ok_def demo_floor demo_world_def counter_warm_def)

text \<open>A printable text message of an active member passes the checks.\<close>

definition live_conversation :: "ChatDB \<Rightarrow> go_int \<Rightarrow> bool" where
  "live_conversation db c \<longleftrightarrow> (\<exists>r \<in> set (tConversations db). cID r = c \<and> cDeletedAt r = None)"

lemma FindByID_live: "live_conversation db c \<Longrightarrow> \<exists>r. ConversationFindByID no_faults db c = Inr r"
  unfolding ConversationFindByID_def live_conversation_def
  by (cases "find (\<lambda>r. cID r = c \<and> cDeletedAt r = None) (tConversations db)") (auto simp: find_None_iff)

lemma text_send_checks:
  assumes "plain k" "k \<noteq> []" "length k \<le> 255" and "live_conversation db c" "active_member db c u"
  shows "send_checks no_faults db (demo_text u c k) = Inr (MessageTypeText, None)"
proof -
  have t: "plain ''hello''" by (simp add: byte_def)
  have v: "validateSendCommand no_faults db (demo_text u c k) = Inr MessageTypeText"
    using assms(1-3) TrimSpace_plain [OF t] rune_count_plain [OF t]
    by (simp add: validateSendCommand_def validate_body_def demo_text_def TrimSpace_plain ParseMessageType_def
        MaxMessageTextLen_def)
  obtain r where "ConversationFindByID no_faults db c = Inr r" using FindByID_live [OF assms(4)] by blast
  moreover obtain m where "requireMember no_faults db c u = Inr m"
    using requireMember_ok [OF _ assms(5), of no_faults] by (auto simp: no_faults_def)
  ultimately show ?thesis
    using v by (simp add: send_checks_def demo_text_def reply_target_def)
qed

lemma demo_members: "active_member demo_db 1 10" "active_member demo_db 1 11" "\<not> active_member demo_db 1 12"
  by (simp_all add: active_member_def demo_db_def demo_member_def)

lemma demo_live: "live_conversation demo_db 1" "live_conversation demo_db 2"
  by (simp_all add: live_conversation_def demo_db_def demo_conversation_def)

lemma demo_send_checks:
  "send_checks no_faults demo_db (demo_text 10 1 ''a'') = Inr (MessageTypeText, None)"
  by (rule text_send_checks) (simp_all add: byte_def demo_members demo_live)

end
