(* ===== verification/SendProofs.thy ===== *)
theory SendProofs
  imports Scenario
begin

text \<open>
  What the send path guarantees: a duplicate never creates a second message and returns the
  first one, a created message comes with its outbox row, its floor and its conversation bump,
  a failed send leaves nothing behind but used-up sequence numbers, and with a healthy allocator
  the first attempt commits.
\<close>

section \<open>Allocation touches only the floor\<close>

definition only_floor :: "ChatDB \<Rightarrow> ChatDB \<Rightarrow> bool" where
  "only_floor db db' \<longleftrightarrow> db' = db\<lparr>tSequences := tSequences db'\<rparr>"

lemma only_floor_refl [simp]: "only_floor db db"
  by (simp add: only_floor_def)

lemma only_floor_trans: "only_floor db db' \<Longrightarrow> only_floor db' db'' \<Longrightarrow> only_floor db db''"
  unfolding only_floor_def by (metis ChatDB.update_convs(3) ChatDB.surjective)

lemma only_floor_frame:
  assumes "only_floor db db'"
  shows "tMessages db' = tMessages db" "tMembers db' = tMembers db" "tConversations db' = tConversations db"
    "tChangeLog db' = tChangeLog db" "tUsers db' = tUsers db" "nMessageSeq db' = nMessageSeq db"
    "nChangeSeq db' = nChangeSeq db" "tEdits db' = tEdits db" "tReactions db' = tReactions db"
  using assms unfolding only_floor_def by (metis ChatDB.select_convs ChatDB.surjective ChatDB.update_convs)+

lemma fallback_wDB:
  "wDB (snd (fallback env c w)) = wDB w
   \<or> (\<exists>s db'. nextFromPG c (wDB w) = Inr (s, db') \<and> wDB (snd (fallback env c w)) = db')"
  by (auto simp: fallback_def split: sum.splits)

lemma wDB_bootstrap [simp]: "wDB (bootstrap env c w) = wDB w"
  by (auto simp: bootstrap_def split: option.splits)

lemma wDB_incr [simp]: "wDB (snd (incr c w)) = wDB w"
  by (simp add: incr_def Let_def)

lemma SequenceNext_wDB:
  "wDB (snd (SequenceNext env c w)) = wDB w
   \<or> (\<exists>s db'. nextFromPG c (wDB w) = Inr (s, db') \<and> wDB (snd (SequenceNext env c w)) = db')"
  using fallback_wDB [of env c w] fallback_wDB [of env c "bootstrap env c w"]
  by (auto simp: SequenceNext_def incr_def Let_def)

lemma nextFromPG_only_floor: "nextFromPG c db = Inr (s, db') \<Longrightarrow> only_floor db db'"
  by (auto simp: nextFromPG_def only_floor_def split: option.splits)

lemma SequenceNext_only_floor: "only_floor (wDB w) (wDB (snd (SequenceNext env c w)))"
  using SequenceNext_wDB [of env c w] nextFromPG_only_floor by auto

lemma SequenceNext_step: "store_step (wDB w) (wDB (snd (SequenceNext env c w)))"
  using SequenceNext_wDB [of env c w] nextFromPG_step by auto

section \<open>One attempt\<close>

definition attempt_message ::
  "AttemptEnv \<Rightarrow> SendMessageCommand \<Rightarrow> MessageType \<Rightarrow> go_int option \<Rightarrow> go_int \<Rightarrow> Message" where
  "attempt_message at cmd mtype rp seq = new_message cmd mtype rp seq (nvID (atEnv at)) (nvClock (atEnv at) 0)"

lemma attempt_message_simps [simp]:
  "client_key (attempt_message at cmd mtype rp seq) = Some (smUserID cmd, smClientMsgID cmd)"
  "gConversationID (attempt_message at cmd mtype rp seq) = smConversationID cmd"
  "gSequence (attempt_message at cmd mtype rp seq) = seq"
  "gID (attempt_message at cmd mtype rp seq) = nvID (atEnv at)"
  "gType (attempt_message at cmd mtype rp seq) = mtype"
  "gContent (attempt_message at cmd mtype rp seq) = smText cmd"
  "gSenderID (attempt_message at cmd mtype rp seq) = Some (smUserID cmd)"
  "gClientMsgID (attempt_message at cmd mtype rp seq) = Some (smClientMsgID cmd)"
  "gReplyToID (attempt_message at cmd mtype rp seq) = rp"
  "gDeletedAt (attempt_message at cmd mtype rp seq) = None"
  "gEditedAt (attempt_message at cmd mtype rp seq) = None"
  by (simp_all add: attempt_message_def new_message_def client_key_def)

lemma stored_message_simps [simp]:
  "client_key (stored_message db m) = client_key m" "gID (stored_message db m) = gID m"
  "gConversationID (stored_message db m) = gConversationID m" "gSequence (stored_message db m) = gSequence m"
  "gContent (stored_message db m) = gContent m" "gSenderID (stored_message db m) = gSenderID m"
  "gClientMsgID (stored_message db m) = gClientMsgID m" "message_slot (stored_message db m) = message_slot m"
  by (simp_all add: stored_message_def client_key_def message_slot_def)

lemma sendOnce_Inr:
  assumes "sendOnce at cmd mtype rp w = (Inr r, w')"
  obtains seq w1 m created db' where
    "SequenceNext (atSeq at) (smConversationID cmd) w = (Inr seq, w1)"
    "transact (nvFaults (atEnv at)) (send_tx at cmd (attempt_message at cmd mtype rp seq)) (wDB w1)
       = (Inr (m, created), db')"
    "r = \<lparr>srView = viewFor (nvFaults (atEnv at)) db' m, srCreated = created\<rparr>" "w' = w1\<lparr>wDB := db'\<rparr>"
  using assms
  by (auto simp: sendOnce_def attempt_message_def Let_def prepare_Inr_iff finish_Inr NextID_def
      split: prod.splits sum.splits)

lemma send_tx_Some:
  assumes "send_tx at cmd msg db = Inr (x, Some db')"
  obtains m db1 db2 b db3 where
    "MessageInsert (nvFaults (atEnv at)) msg db = Inr (Some m, db1)"
    "SequencePersist (nvFaults (atEnv at)) (smConversationID cmd) (gSequence m) db1 = Inr db2"
    "BumpLastMessage (nvFaults (atEnv at)) (smConversationID cmd) (gSequence m) (snippet m)
       (Some (smUserID cmd)) (gCreatedAt m) db2 = Inr (b, db3)"
    "appendMessageCreated (nvFaults (atEnv at)) cmd m db3 = Inr db'" "x = (m, True)"
  using assms by (auto simp: send_tx_def Let_def split: option.splits)

lemma send_tx_None: "send_tx at cmd msg db = Inr (x, None) \<Longrightarrow> \<not> snd x"
  by (auto simp: send_tx_def Let_def split: option.splits)

lemma appendMessageCreated_step: "appendMessageCreated fl cmd m db = Inr db' \<Longrightarrow> store_step db db'"
  by (auto simp: appendMessageCreated_def dest: ChangeLogAppend_step)

lemma send_tx_step: "send_tx at cmd msg db = Inr (x, Some db') \<Longrightarrow> store_step db db'"
  by (erule send_tx_Some)
    (meson MessageInsert_step SequencePersist_step BumpLastMessage_step appendMessageCreated_step
      store_step_trans)

lemma sendOnce_wDB:
  "\<exists>db1. only_floor (wDB w) db1 \<and> store_step (wDB w) db1
     \<and> (wDB (snd (sendOnce at cmd mtype rp w)) = db1
        \<or> (\<exists>seq x. send_tx at cmd (attempt_message at cmd mtype rp seq) db1
              = Inr (x, Some (wDB (snd (sendOnce at cmd mtype rp w))))))"
proof -
  obtain res w1 where n: "SequenceNext (atSeq at) (smConversationID cmd) w = (res, w1)" by fastforce
  have f: "only_floor (wDB w) (wDB w1)" "store_step (wDB w) (wDB w1)"
    using SequenceNext_only_floor [of w "atSeq at" "smConversationID cmd"]
      SequenceNext_step [of w "atSeq at" "smConversationID cmd"] n by simp_all
  show ?thesis
  proof (cases res)
    case (Inl e)
    with n f show ?thesis by (auto simp: sendOnce_def)
  next
    case (Inr seq)
    let ?P = "\<lambda>a b. b = a \<or> (\<exists>x. send_tx at cmd (attempt_message at cmd mtype rp seq) a = Inr (x, Some b))"
    have "?P (wDB w1) (snd (prepare (NextID (atEnv at))
            (\<lambda>msgID db. finish (transact (nvFaults (atEnv at))
               (send_tx at cmd (new_message cmd mtype rp seq msgID (nvClock (atEnv at) 0))) db)
               (\<lambda>(m, created) db'. Inr \<lparr>srView = viewFor (nvFaults (atEnv at)) db' m, srCreated = created\<rparr>))
            (wDB w1)))"
    proof (rule snd_prepare)
      fix i assume "NextID (atEnv at) = Inr i"
      then have i: "i = nvID (atEnv at)" by (auto simp: NextID_def)
      show "?P (wDB w1) (snd (finish (transact (nvFaults (atEnv at))
               (send_tx at cmd (new_message cmd mtype rp seq i (nvClock (atEnv at) 0))) (wDB w1))
               (\<lambda>(m, created) db'. Inr \<lparr>srView = viewFor (nvFaults (atEnv at)) db' m, srCreated = created\<rparr>)))"
        unfolding snd_finish i attempt_message_def by (rule snd_transact) auto
    qed simp
    with n f Inr show ?thesis
      by (intro exI [of _ "wDB w1"]) (auto simp: sendOnce_def Let_def split: prod.splits)
  qed
qed

lemma sendOnce_store_step: "store_step (wDB w) (wDB (snd (sendOnce at cmd mtype rp w)))"
  using sendOnce_wDB [of w at cmd mtype rp] by (meson send_tx_step store_step_trans)

lemma sendOnce_Inl: "sendOnce at cmd mtype rp w = (Inl e, w') \<Longrightarrow> only_floor (wDB w) (wDB w')"
  using SequenceNext_only_floor [of w "atSeq at" "smConversationID cmd"]
  by (auto simp: sendOnce_def Let_def finish_Inl prepare_Inl_iff
      split: prod.splits sum.splits dest!: transact_Inl)

section \<open>The loop\<close>

lemma send_loop_Inl:
  "send_loop n i env cmd mtype rp w = (Inl e, w') \<Longrightarrow> only_floor (wDB w) (wDB w')"
proof (induction n arbitrary: i w)
  case 0
  then show ?case by simp
next
  case (Suc n)
  obtain res w1 where o: "sendOnce (seAttempt env i) cmd mtype rp w = (res, w1)" by fastforce
  from Suc.prems o obtain e1 where e1: "res = Inl e1" by (cases res) auto
  with o have f: "only_floor (wDB w) (wDB w1)" by (auto dest: sendOnce_Inl)
  from Suc.prems o e1 have "w' = w1 \<or> send_loop n (Suc i) env cmd mtype rp w1 = (Inl e, w')"
    by (auto split: if_splits)
  with Suc.IH f show ?case by (blast intro: only_floor_trans)
qed

lemma send_loop_Inr:
  "send_loop n i env cmd mtype rp w = (Inr r, w') \<Longrightarrow>
     \<exists>j w1. only_floor (wDB w) (wDB w1) \<and> store_step (wDB w) (wDB w1)
       \<and> sendOnce (seAttempt env j) cmd mtype rp w1 = (Inr r, w')"
proof (induction n arbitrary: i w)
  case 0
  then show ?case by simp
next
  case (Suc n)
  obtain res w1 where o: "sendOnce (seAttempt env i) cmd mtype rp w = (res, w1)" by fastforce
  show ?case
  proof (cases res)
    case (Inr x)
    with Suc.prems o show ?thesis by (intro exI [of _ i] exI [of _ w]) auto
  next
    case (Inl e)
    with o have f: "only_floor (wDB w) (wDB w1)" "store_step (wDB w) (wDB w1)"
      using sendOnce_store_step [of w "seAttempt env i" cmd mtype rp] by (auto dest: sendOnce_Inl)
    from Suc.prems o Inl have "send_loop n (Suc i) env cmd mtype rp w1 = (Inr r, w')"
      by (auto split: if_splits)
    with Suc.IH f show ?thesis by (blast intro: only_floor_trans store_step_trans)
  qed
qed

lemma send_loop_step: "store_step (wDB w) (wDB (snd (send_loop n i env cmd mtype rp w)))"
proof (induction n arbitrary: i w)
  case 0
  then show ?case by simp
next
  case (Suc n)
  obtain res w1 where o: "sendOnce (seAttempt env i) cmd mtype rp w = (res, w1)" by fastforce
  then have s: "store_step (wDB w) (wDB w1)"
    using sendOnce_store_step [of w "seAttempt env i" cmd mtype rp] by simp
  have "store_step (wDB w) (wDB (snd (send_loop n (Suc i) env cmd mtype rp w1)))"
    using s Suc.IH by (rule store_step_trans)
  with o s show ?case by (auto split: sum.splits)
qed

lemma SendMessage_step: "store_step (wDB w) (wDB (snd (SendMessage env cmd w)))"
  by (auto simp: SendMessage_def send_loop_step split: sum.splits)

lemma SendMessage_Inr:
  assumes "SendMessage env cmd w = (Inr r, w')"
  obtains mtype rp j w1 where
    "send_checks (seFaults env) (wDB w) cmd = Inr (mtype, rp)"
    "only_floor (wDB w) (wDB w1)" "store_step (wDB w) (wDB w1)"
    "sendOnce (seAttempt env j) cmd mtype rp w1 = (Inr r, w')"
  using assms send_loop_Inr by (fastforce simp: SendMessage_def split: sum.splits)

lemma SendMessage_Inl: "SendMessage env cmd w = (Inl e, w') \<Longrightarrow> only_floor (wDB w) (wDB w')"
  by (auto simp: SendMessage_def split: sum.splits dest: send_loop_Inl)

section \<open>What a committed send writes\<close>

lemma MessageInsert_new:
  "MessageInsert fl msg db = Inr (Some m, db1) \<Longrightarrow>
     m = msg\<lparr>gGlobalSeq := nMessageSeq db\<rparr>
   \<and> db1 = db\<lparr>tMessages := tMessages db @ [stored_message db msg], nMessageSeq := nMessageSeq db + 1\<rparr>
   \<and> message_check msg \<and> message_slot msg \<notin> message_slot ` set (tMessages db)
   \<and> gID msg \<notin> gID ` set (tMessages db) \<and> message_refs db msg
   \<and> (client_key msg \<noteq> None \<longrightarrow> client_key msg \<notin> client_key ` set (tMessages db))"
  by (auto simp: MessageInsert_def split: if_splits)

lemma MessageInsert_duplicate:
  "MessageInsert fl msg db = Inr (None, db1) \<Longrightarrow>
     db1 = db \<and> client_key msg \<noteq> None \<and> client_key msg \<in> client_key ` set (tMessages db)"
  by (auto simp: MessageInsert_def split: if_splits)

definition created_row :: "faults \<Rightarrow> SendMessageCommand \<Rightarrow> Message \<Rightarrow> ChatDB \<Rightarrow> ChangeLogEntry" where
  "created_row fl cmd m db =
     \<lparr>lEventType = EventMessageCreated, lConversationID = Some (gConversationID m),
       lEntityID = Some (gID m), lActorUserID = Some (smUserID cmd),
       lAffectedUserIDs = active_ids db (smConversationID cmd), lPayload = messageCreatedPayload fl db m\<rparr>"

lemma send_tx_effect:
  assumes "send_tx at cmd msg db = Inr (x, Some db')" and "gConversationID msg = smConversationID cmd"
  shows "x = (msg\<lparr>gGlobalSeq := nMessageSeq db\<rparr>, True)"
    and "tMessages db' = tMessages db @ [stored_message db msg]"
    and "tMembers db' = tMembers db" and "tUsers db' = tUsers db"
    and "\<exists>db3. tMembers db3 = tMembers db \<and> tUsers db3 = tUsers db \<and>
           tChangeLog db' = tChangeLog db @
             [log_row (created_row (nvFaults (atEnv at)) cmd (msg\<lparr>gGlobalSeq := nMessageSeq db\<rparr>) db3)
                (nChangeSeq db)]"
    and "tConversations db' = upd_where (bump_guard (smConversationID cmd) (gSequence msg))
           (\<lambda>r. r\<lparr>cLastMessageAt := Some (gCreatedAt msg), cLastMessageSeq := Some (gSequence msg),
                  cLastMessageSnippet := snippet msg, cLastSenderID := Some (smUserID cmd),
                  cUpdatedAt := gCreatedAt msg\<rparr>) (tConversations db)"
    and "tSequences db' = upd_where (\<lambda>r. fst r = smConversationID cmd)
           (\<lambda>(k, n). (k, max n (gSequence msg))) (tSequences db)"
    and "message_slot msg \<notin> message_slot ` set (tMessages db)" and "message_check msg"
proof -
  from assms(1) obtain m db1 db2 b db3 where
    ins: "MessageInsert (nvFaults (atEnv at)) msg db = Inr (Some m, db1)" and
    per: "SequencePersist (nvFaults (atEnv at)) (smConversationID cmd) (gSequence m) db1 = Inr db2" and
    bmp: "BumpLastMessage (nvFaults (atEnv at)) (smConversationID cmd) (gSequence m) (snippet m)
       (Some (smUserID cmd)) (gCreatedAt m) db2 = Inr (b, db3)" and
    app: "appendMessageCreated (nvFaults (atEnv at)) cmd m db3 = Inr db'" and x: "x = (m, True)"
    by (rule send_tx_Some)
  note i = MessageInsert_new [OF ins]
  have m: "m = msg\<lparr>gGlobalSeq := nMessageSeq db\<rparr>" using i by blast
  have db1: "db1 = db\<lparr>tMessages := tMessages db @ [stored_message db msg], nMessageSeq := nMessageSeq db + 1\<rparr>"
    using i by blast
  have db2: "db2 = db1\<lparr>tSequences := upd_where (\<lambda>r. fst r = smConversationID cmd)
           (\<lambda>(k, n). (k, max n (gSequence msg))) (tSequences db1)\<rparr>"
    using per by (simp add: SequencePersist_def m)
  have sn: "snippet m = snippet msg" by (simp add: snippet_def m)
  have db3: "db3 = db2\<lparr>tConversations := upd_where (bump_guard (smConversationID cmd) (gSequence msg))
           (\<lambda>r. r\<lparr>cLastMessageAt := Some (gCreatedAt msg), cLastMessageSeq := Some (gSequence msg),
                  cLastMessageSnippet := snippet msg, cLastSenderID := Some (smUserID cmd),
                  cUpdatedAt := gCreatedAt msg\<rparr>) (tConversations db2)\<rparr>"
    using bmp by (simp add: BumpLastMessage_def sn) (simp add: m)
  have db': "db' = append_log [created_row (nvFaults (atEnv at)) cmd m db3] db3"
    using app by (auto simp: appendMessageCreated_def ActiveUserIDs_def ChangeLogAppend_def created_row_def)
  show "x = (msg\<lparr>gGlobalSeq := nMessageSeq db\<rparr>, True)" by (simp add: x m)
  show "tMessages db' = tMessages db @ [stored_message db msg]" "tMembers db' = tMembers db"
    "tUsers db' = tUsers db"
    by (simp_all add: db' db3 db2 db1)
  show "tConversations db' = upd_where (bump_guard (smConversationID cmd) (gSequence msg))
           (\<lambda>r. r\<lparr>cLastMessageAt := Some (gCreatedAt msg), cLastMessageSeq := Some (gSequence msg),
                  cLastMessageSnippet := snippet msg, cLastSenderID := Some (smUserID cmd),
                  cUpdatedAt := gCreatedAt msg\<rparr>) (tConversations db)"
    by (simp add: db' db3 db2 db1)
  show "tSequences db' = upd_where (\<lambda>r. fst r = smConversationID cmd)
           (\<lambda>(k, n). (k, max n (gSequence msg))) (tSequences db)"
    by (simp add: db' db3 db2 db1)
  show "message_slot msg \<notin> message_slot ` set (tMessages db)" "message_check msg" using i by blast+
  have f3: "tMembers db3 = tMembers db" "tUsers db3 = tUsers db" "nChangeSeq db3 = nChangeSeq db"
    "tChangeLog db3 = tChangeLog db"
    by (simp_all add: db3 db2 db1)
  then show "\<exists>db3. tMembers db3 = tMembers db \<and> tUsers db3 = tUsers db \<and>
           tChangeLog db' = tChangeLog db @
             [log_row (created_row (nvFaults (atEnv at)) cmd (msg\<lparr>gGlobalSeq := nMessageSeq db\<rparr>) db3)
                (nChangeSeq db)]"
    by (intro exI [of _ db3]) (simp add: db' m)
qed

section \<open>The committed tables\<close>

text \<open>The exact tables a first-time send leaves behind, once its insert is accepted.\<close>

definition committed :: "faults \<Rightarrow> SendMessageCommand \<Rightarrow> Message \<Rightarrow> ChatDB \<Rightarrow> ChatDB" where
  "committed fl cmd msg db =
     append_log [created_row fl cmd (msg\<lparr>gGlobalSeq := nMessageSeq db\<rparr>) db]
       (db\<lparr>tMessages := tMessages db @ [stored_message db msg], nMessageSeq := nMessageSeq db + 1,
           tSequences := upd_where (\<lambda>r. fst r = smConversationID cmd)
             (\<lambda>(k, n). (k, max n (gSequence msg))) (tSequences db),
           tConversations := upd_where (bump_guard (smConversationID cmd) (gSequence msg))
             (\<lambda>r. r\<lparr>cLastMessageAt := Some (gCreatedAt msg), cLastMessageSeq := Some (gSequence msg),
                    cLastMessageSnippet := snippet msg, cLastSenderID := Some (smUserID cmd),
                    cUpdatedAt := gCreatedAt msg\<rparr>) (tConversations db)\<rparr>)"

definition insertable :: "ChatDB \<Rightarrow> Message \<Rightarrow> bool" where
  "insertable db msg \<longleftrightarrow>
     message_check msg \<and> message_refs db msg \<and> client_key msg \<notin> client_key ` set (tMessages db)
   \<and> message_slot msg \<notin> message_slot ` set (tMessages db) \<and> gID msg \<notin> gID ` set (tMessages db)"

lemma created_row_cong:
  "tMembers db = tMembers db' \<Longrightarrow> tUsers db = tUsers db' \<Longrightarrow> created_row fl cmd m db = created_row fl cmd m db'"
proof -
  assume m: "tMembers db = tMembers db'" and u: "tUsers db = tUsers db'"
  have l: "ListByIDs fl db = ListByIDs fl db'" by (rule ext) (simp add: ListByIDs_def u)
  show ?thesis
    unfolding created_row_def active_ids_def messageCreatedPayload_def m l by (rule refl)
qed

lemma appendMessageCreated_ok:
  "appendMessageCreated no_faults cmd m db = Inr (append_log [created_row no_faults cmd m db] db)"
  by (simp add: appendMessageCreated_def ActiveUserIDs_def ChangeLogAppend_def created_row_def)

lemma snippet_global_seq [simp]: "snippet (m\<lparr>gGlobalSeq := n\<rparr>) = snippet m"
  by (simp add: snippet_def)

lemma send_tx_commits:
  assumes "insertable db msg" and "nvFaults (atEnv at) = no_faults"
    and "gConversationID msg = smConversationID cmd"
  shows "send_tx at cmd msg db
           = Inr ((msg\<lparr>gGlobalSeq := nMessageSeq db\<rparr>, True), Some (committed no_faults cmd msg db))"
proof -
  have "MessageInsert no_faults msg db = Inr (Some (msg\<lparr>gGlobalSeq := nMessageSeq db\<rparr>),
      db\<lparr>tMessages := tMessages db @ [stored_message db msg], nMessageSeq := nMessageSeq db + 1\<rparr>)"
    using assms(1) by (auto simp: MessageInsert_def insertable_def)
  with assms(2) show ?thesis
    by (simp add: send_tx_def SequencePersist_def BumpLastMessage_def appendMessageCreated_ok
        committed_def commit_def del: append_log.simps)
      (rule arg_cong [where f = "\<lambda>r. append_log [r] _"], rule created_row_cong, simp_all)
qed

lemma sendOnce_commits:
  assumes "SequenceNext (atSeq at) (smConversationID cmd) w = (Inr seq, w1)"
    and "insertable (wDB w1) (attempt_message at cmd mtype rp seq)" and "nvFaults (atEnv at) = no_faults"
  shows "\<exists>r. sendOnce at cmd mtype rp w
             = (Inr r, w1\<lparr>wDB := committed no_faults cmd (attempt_message at cmd mtype rp seq) (wDB w1)\<rparr>)
           \<and> srCreated r \<and> vID (srView r) = FormatInt (nvID (atEnv at))"
proof -
  note t = send_tx_commits [OF assms(2,3)]
  have n: "NextID (atEnv at) = Inr (nvID (atEnv at))" by (simp add: NextID_def assms(3))
  have "transact no_faults (send_tx at cmd (attempt_message at cmd mtype rp seq)) (wDB w1)
      = (Inr ((attempt_message at cmd mtype rp seq)\<lparr>gGlobalSeq := nMessageSeq (wDB w1)\<rparr>, True),
         committed no_faults cmd (attempt_message at cmd mtype rp seq) (wDB w1))"
    using t by (simp add: transact_def no_faults_def)
  then show ?thesis
    using assms(1) n
    by (simp add: sendOnce_def Let_def assms(3) finish_def attempt_message_def [symmetric] attempt_message_simps)
qed

section \<open>A duplicate finds the original\<close>

text \<open>What other transactions do between two reads of one statement each is again a store step.\<close>

definition faithful_views :: "SendEnv \<Rightarrow> bool" where
  "faithful_views env \<longleftrightarrow> (\<forall>i j db. store_step db (atVisible (seAttempt env i) j db))"

lemma client_keys_inj:
  "distinct (client_keys t) \<Longrightarrow> m \<in> set t \<Longrightarrow> m' \<in> set t \<Longrightarrow> client_key m = Some k \<Longrightarrow>
     client_key m' = Some k \<Longrightarrow> m = m'"
proof (induction t)
  case Nil
  then show ?case by simp
next
  case (Cons a t)
  have other: "client_key x \<noteq> client_key a" if "x \<in> set t" "client_key a \<noteq> None" for x
    using Cons.prems(1) that client_keys_member [of _ t]
    by (auto simp: client_keys_def List.map_filter_simps split: option.splits) force
  have "distinct (client_keys t)"
    using Cons.prems(1) by (auto simp: client_keys_def List.map_filter_simps split: option.splits)
  with Cons other show ?case by (metis option.distinct(1) set_ConsD)
qed

lemma client_key_iff:
  "client_key m = Some (u, k) \<longleftrightarrow> gSenderID m = Some u \<and> gClientMsgID m = Some k"
  by (auto simp: client_key_def split: option.splits)

lemma message_evolves_key: "message_evolves m m' \<Longrightarrow> client_key m' = client_key m \<and> gID m' = gID m"
  by (simp add: message_evolves_def message_identity_def client_key_def)

lemma evolves_message:
  "evolves db db' \<Longrightarrow> m \<in> set (tMessages db) \<Longrightarrow> \<exists>m' \<in> set (tMessages db'). message_evolves m m'"
  unfolding evolves_def by (blast dest: grows_by_member)

lemma replay_poll_original:
  assumes "replay_poll n i fl visible u k = Inr found"
    and "\<And>j. schema_ok (visible j) \<and> (\<exists>m \<in> set (tMessages (visible j)).
           client_key m = Some (u, k) \<and> gID m = g)"
  shows "gID found = g"
  using assms(1)
proof (induction n arbitrary: i)
  case 0
  then show ?case by simp
next
  case (Suc n)
  show ?case
  proof (cases "FindByClientMsgID fl (visible i) u k")
    case (Inl e)
    with Suc show ?thesis by (auto split: if_splits)
  next
    case (Inr m)
    with Suc.prems have "m = found" by simp
    with Inr have f: "found \<in> set (tMessages (visible i))" "client_key found = Some (u, k)"
      by (auto simp: FindByClientMsgID_def client_key_iff dest: find_SomeD)
    from assms(2) [of i] obtain m' where "m' \<in> set (tMessages (visible i))"
      "client_key m' = Some (u, k)" "gID m' = g" "distinct (client_keys (tMessages (visible i)))"
      by (auto simp: schema_ok_def messages_ok_def)
    with f show ?thesis by (metis client_keys_inj)
  qed
qed

lemma only_floor_key: "only_floor db db' \<Longrightarrow> client_key ` set (tMessages db') = client_key ` set (tMessages db)"
  by (simp add: only_floor_frame)

lemma MessageInsert_key:
  "MessageInsert fl msg db = Inr (Some m, db1) \<Longrightarrow> client_key msg = Some k \<Longrightarrow>
     Some k \<notin> client_key ` set (tMessages db)"
  using MessageInsert_new [of fl msg db m db1] by simp

lemma send_tx_duplicate:
  assumes "Some (smUserID cmd, smClientMsgID cmd) \<in> client_key ` set (tMessages db)"
    and "send_tx at cmd (attempt_message at cmd mtype rp seq) db = Inr (x, d)"
  shows "d = None" and "\<not> snd x"
    and "replay_poll 10 0 (nvFaults (atEnv at)) (\<lambda>j. atVisible at j db) (smUserID cmd) (smClientMsgID cmd)
           = Inr (fst x)"
proof -
  obtain ins db1 where i:
    "MessageInsert (nvFaults (atEnv at)) (attempt_message at cmd mtype rp seq) db = Inr (ins, db1)"
    using assms(2) by (auto simp: send_tx_def Let_def)
  have "ins = None"
  proof (cases ins)
    case (Some m)
    from MessageInsert_key [OF i [unfolded Some] attempt_message_simps(1)] assms(1) show ?thesis
      by contradiction
  qed
  moreover from this have "db1 = db" using MessageInsert_duplicate i by blast
  ultimately show "d = None" "\<not> snd x"
    "replay_poll 10 0 (nvFaults (atEnv at)) (\<lambda>j. atVisible at j db) (smUserID cmd) (smClientMsgID cmd)
       = Inr (fst x)"
    using assms(2) i by (auto simp: send_tx_def Let_def replayOriginal_def)
qed

lemma sendOnce_duplicate:
  assumes "Some (smUserID cmd, smClientMsgID cmd) \<in> client_key ` set (tMessages (wDB w))"
    and "sendOnce at cmd mtype rp w = (res, w')"
  shows "only_floor (wDB w) (wDB w')" and "res = Inr r \<Longrightarrow> \<not> srCreated r"
proof -
  have no: "\<not> send_tx at cmd (attempt_message at cmd mtype rp seq) db = Inr (x, Some db')"
    if "only_floor (wDB w) db" for seq x db db'
    using send_tx_duplicate(1) [of cmd db] assms(1) only_floor_key [OF that] by blast
  show o: "only_floor (wDB w) (wDB w')"
    using sendOnce_wDB [of w at cmd mtype rp] no assms(2) by auto
  show "\<not> srCreated r" if r: "res = Inr r"
  proof
    assume c: "srCreated r"
    obtain seq w1 m created db' where
      n: "SequenceNext (atSeq at) (smConversationID cmd) w = (Inr seq, w1)" and
      t: "transact (nvFaults (atEnv at)) (send_tx at cmd (attempt_message at cmd mtype rp seq)) (wDB w1)
         = (Inr (m, created), db')" and
      "r = \<lparr>srView = viewFor (nvFaults (atEnv at)) db' m, srCreated = created\<rparr>"
      using assms(2) r sendOnce_Inr by metis
    with c have created by simp
    have "only_floor (wDB w) (wDB w1)"
      using SequenceNext_only_floor [of w "atSeq at" "smConversationID cmd"] n by simp
    then have "Some (smUserID cmd, smClientMsgID cmd) \<in> client_key ` set (tMessages (wDB w1))"
      using assms(1) only_floor_key by blast
    from send_tx_duplicate(2) [OF this] t \<open>created\<close> show False
      by (fastforce simp: transact_Inr_iff)
  qed
qed

lemma sendOnce_original:
  assumes "schema_ok (wDB w)" and "\<And>j db. store_step db (atVisible at j db)"
    and "orig \<in> set (tMessages (wDB w))" "client_key orig = Some (smUserID cmd, smClientMsgID cmd)"
    and "sendOnce at cmd mtype rp w = (Inr r, w')"
  shows "vID (srView r) = FormatInt (gID orig)"
proof -
  obtain seq w1 m created db' where
    n: "SequenceNext (atSeq at) (smConversationID cmd) w = (Inr seq, w1)" and
    t: "transact (nvFaults (atEnv at)) (send_tx at cmd (attempt_message at cmd mtype rp seq)) (wDB w1)
       = (Inr (m, created), db')" and
    r: "r = \<lparr>srView = viewFor (nvFaults (atEnv at)) db' m, srCreated = created\<rparr>"
    using assms(5) sendOnce_Inr by metis
  have s1: "only_floor (wDB w) (wDB w1)" "store_step (wDB w) (wDB w1)"
    using SequenceNext_only_floor [of w "atSeq at" "smConversationID cmd"]
      SequenceNext_step [of w "atSeq at" "smConversationID cmd"] n by simp_all
  then have o: "orig \<in> set (tMessages (wDB w1))" and sch: "schema_ok (wDB w1)"
    using assms(1,3) only_floor_frame(1) [OF s1(1)] by (simp_all add: store_step_def)
  have vis: "schema_ok (atVisible at j (wDB w1)) \<and> (\<exists>m \<in> set (tMessages (atVisible at j (wDB w1))).
       client_key m = Some (smUserID cmd, smClientMsgID cmd) \<and> gID m = gID orig)" for j
    using assms(2) [of "wDB w1" j] sch evolves_message [OF store_step_evolves o]
    by (metis assms(4) message_evolves_key store_step_def)
  have key: "Some (smUserID cmd, smClientMsgID cmd) \<in> client_key ` set (tMessages (wDB w1))"
    using o assms(4) by force
  have "replay_poll 10 0 (nvFaults (atEnv at)) (\<lambda>j. atVisible at j (wDB w1)) (smUserID cmd) (smClientMsgID cmd)
      = Inr m"
    using t send_tx_duplicate(3) [OF key] by (fastforce simp: transact_Inr_iff)
  then have "gID m = gID orig" using vis by (rule replay_poll_original)
  then show ?thesis by (simp add: r)
qed

lemma SendMessage_duplicate:
  assumes "schema_ok (wDB w)" and "faithful_views env"
    and "orig \<in> set (tMessages (wDB w))" "client_key orig = Some (smUserID cmd, smClientMsgID cmd)"
    and "SendMessage env cmd w = (res, w')"
  shows "only_floor (wDB w) (wDB w')"
    and "res = Inr r \<Longrightarrow> \<not> srCreated r \<and> vID (srView r) = FormatInt (gID orig)"
proof -
  have key: "Some (smUserID cmd, smClientMsgID cmd) \<in> client_key ` set (tMessages (wDB w))"
    using assms(3,4) by force
  have both: "only_floor (wDB w) (wDB w') \<and> \<not> srCreated r \<and> vID (srView r) = FormatInt (gID orig)"
    if r: "res = Inr r" for r
  proof -
    obtain mtype rp j w1 where f: "only_floor (wDB w) (wDB w1)" "store_step (wDB w) (wDB w1)"
      and o: "sendOnce (seAttempt env j) cmd mtype rp w1 = (Inr r, w')"
      using assms(5) r SendMessage_Inr by metis
    have k1: "Some (smUserID cmd, smClientMsgID cmd) \<in> client_key ` set (tMessages (wDB w1))"
      using key only_floor_key [OF f(1)] by simp
    have "schema_ok (wDB w1)" "orig \<in> set (tMessages (wDB w1))"
      using f assms(1,3) only_floor_frame(1) [OF f(1)] by (simp_all add: store_step_def)
    moreover have "store_step db (atVisible (seAttempt env j) i db)" for i db
      using assms(2) by (simp add: faithful_views_def)
    ultimately have "vID (srView r) = FormatInt (gID orig)"
      using sendOnce_original assms(4) o by metis
    with sendOnce_duplicate [OF k1 o] f show ?thesis by (blast intro: only_floor_trans)
  qed
  show "only_floor (wDB w) (wDB w')"
    using both assms(5) SendMessage_Inl by (cases res) blast+
  show "res = Inr r \<Longrightarrow> \<not> srCreated r \<and> vID (srView r) = FormatInt (gID orig)"
    using both by blast
qed

lemma SendMessage_created:
  assumes "SendMessage env cmd w = (Inr r, w')" and "srCreated r"
  shows "\<exists>msg j seq db1. only_floor (wDB w) db1 \<and> store_step (wDB w) db1
           \<and> (\<exists>mtype rp. msg = attempt_message (seAttempt env j) cmd mtype rp seq)
           \<and> send_tx (seAttempt env j) cmd msg db1
               = Inr ((msg\<lparr>gGlobalSeq := nMessageSeq db1\<rparr>, True), Some (wDB w'))
           \<and> vID (srView r) = FormatInt (gID msg)
           \<and> send_checks (seFaults env) (wDB w) cmd \<noteq> Inl (ErrNotMember)
           \<and> active_member (wDB w) (smConversationID cmd) (smUserID cmd)"
proof -
  obtain mtype rp j w1 where c: "send_checks (seFaults env) (wDB w) cmd = Inr (mtype, rp)"
    and f: "only_floor (wDB w) (wDB w1)" "store_step (wDB w) (wDB w1)"
    and o: "sendOnce (seAttempt env j) cmd mtype rp w1 = (Inr r, w')"
    using assms(1) SendMessage_Inr by metis
  obtain seq w2 m created db' where
    n: "SequenceNext (atSeq (seAttempt env j)) (smConversationID cmd) w1 = (Inr seq, w2)" and
    t: "transact (nvFaults (atEnv (seAttempt env j)))
          (send_tx (seAttempt env j) cmd (attempt_message (seAttempt env j) cmd mtype rp seq)) (wDB w2)
       = (Inr (m, created), db')" and
    r: "r = \<lparr>srView = viewFor (nvFaults (atEnv (seAttempt env j))) db' m, srCreated = created\<rparr>" and
    w': "w' = w2\<lparr>wDB := db'\<rparr>"
    using o sendOnce_Inr by metis
  let ?at = "seAttempt env j" and ?msg = "attempt_message (seAttempt env j) cmd mtype rp seq"
  have f2: "only_floor (wDB w1) (wDB w2)" "store_step (wDB w1) (wDB w2)"
    using SequenceNext_only_floor [of w1 "atSeq ?at" "smConversationID cmd"]
      SequenceNext_step [of w1 "atSeq ?at" "smConversationID cmd"] n by simp_all
  have "created" using assms(2) r by simp
  then have x: "send_tx ?at cmd ?msg (wDB w2) = Inr ((m, True), Some db')"
    using t send_tx_None [of ?at cmd ?msg "wDB w2"] by (auto simp: transact_Inr_iff)
  then have m: "m = ?msg\<lparr>gGlobalSeq := nMessageSeq (wDB w2)\<rparr>"
    using send_tx_effect(1) by fastforce
  have a: "active_member (wDB w) (smConversationID cmd) (smUserID cmd)"
    using c by (auto simp: send_checks_def dest: requireMember_active)
  show ?thesis
    using f f2 x m r w' a c
    by (intro exI [of _ ?msg] exI [of _ j] exI [of _ seq] exI [of _ "wDB w2"])
      (auto intro: only_floor_trans store_step_trans)
qed

section \<open>A healthy attempt commits\<close>

lemma committed_simps [simp]:
  "tMessages (committed fl cmd msg db) = tMessages db @ [stored_message db msg]"
  "tMembers (committed fl cmd msg db) = tMembers db" "tUsers (committed fl cmd msg db) = tUsers db"
  "tSequences (committed fl cmd msg db) = upd_where (\<lambda>r. fst r = smConversationID cmd)
     (\<lambda>(k, n). (k, max n (gSequence msg))) (tSequences db)"
  by (simp_all add: committed_def)

lemma floor_of_committed:
  "floor_of (committed fl cmd msg db) k =
     (if k = smConversationID cmd then map_option (\<lambda>n. max n (gSequence msg)) (floor_of db k) else floor_of db k)"
  using floor_of_Persist [of no_faults "smConversationID cmd" "gSequence msg" db
      "db\<lparr>tSequences := upd_where (\<lambda>r. fst r = smConversationID cmd) (\<lambda>(k, n). (k, max n (gSequence msg))) (tSequences db)\<rparr>" k]
  by (simp add: SequencePersist_def floor_of_def)

lemma send_checks_refs:
  assumes "send_checks fl db cmd = Inr (mtype, rp)"
  shows "conversation_exists db (smConversationID cmd)"
    and "case rp of None \<Rightarrow> True | Some i \<Rightarrow> i \<in> gID ` set (tMessages db)"
    and "mtype = MessageTypeText \<or> mtype = MessageTypeMedia"
    and "ParseMessageType (smType cmd) = Inr mtype"
proof -
  have find: "ConversationFindByID fl db c = Inr x \<Longrightarrow> conversation_exists db c" for c x
    by (auto simp: ConversationFindByID_def conversation_exists_def dest: find_SomeD)
  have target: "reply_target fl db cmd = Inr (Some i) \<Longrightarrow> i \<in> gID ` set (tMessages db)" for i
    by (auto simp: reply_target_def FindByConversationSeq_def dest!: find_SomeD
        split: option.splits sum.splits)
  from assms have *: "\<exists>x. ConversationFindByID fl db (smConversationID cmd) = Inr x"
    "reply_target fl db cmd = Inr rp" "validateSendCommand fl db cmd = Inr mtype"
    by (auto simp: send_checks_def)
  show "conversation_exists db (smConversationID cmd)" using *(1) find by blast
  show "case rp of None \<Rightarrow> True | Some i \<Rightarrow> i \<in> gID ` set (tMessages db)"
    using *(2) target by (cases rp) simp_all
  show "mtype = MessageTypeText \<or> mtype = MessageTypeMedia" "ParseMessageType (smType cmd) = Inr mtype"
    using *(3) by (auto simp: validateSendCommand_def split: sum.splits)
qed

lemma attempt_insertable:
  assumes "send_checks fl db cmd = Inr (mtype, rp)" and "user_exists db (smUserID cmd)"
    and "Some (smUserID cmd, smClientMsgID cmd) \<notin> client_key ` set (tMessages db)"
    and "nvID (atEnv at) \<notin> gID ` set (tMessages db)"
    and "smType cmd = ''text'' \<Longrightarrow> smText cmd \<noteq> None"
    and "0 < n" "(smConversationID cmd, n) \<notin> message_slot ` set (tMessages db)"
  shows "insertable db (attempt_message at cmd mtype rp n)"
proof -
  note r = send_checks_refs [OF assms(1)]
  have "mtype = MessageTypeText \<Longrightarrow> smType cmd = ''text''"
    using r(4) by (auto simp: ParseMessageType_def split: if_splits)
  with assms r show ?thesis
    by (auto simp: insertable_def message_check_def message_refs_def message_slot_def)
qed

lemma floor_covers_fresh:
  "floor_covers db c \<Longrightarrow> floor_of db c = Some f \<Longrightarrow> f < n \<Longrightarrow> (c, n) \<notin> message_slot ` set (tMessages db)"
  by (auto simp: floor_covers_def message_slot_def)

lemma floor_covers_committed:
  assumes "floor_covers db c" and "gConversationID msg = smConversationID cmd"
  shows "floor_covers (committed fl cmd msg db) c"
  using assms by (fastforce simp: floor_covers_def floor_of_committed)

text \<open>The allocation and the commit of a healthy first attempt, for one fixed state.\<close>

lemma healthy_send_commit:
  assumes "allocator_ok w (smConversationID cmd)" and "send_checks no_faults (wDB w) cmd = Inr (mtype, rp)"
    and "user_exists (wDB w) (smUserID cmd)"
    and "Some (smUserID cmd, smClientMsgID cmd) \<notin> client_key ` set (tMessages (wDB w))"
    and "i \<notin> gID ` set (tMessages (wDB w))" and "smType cmd = ''text'' \<Longrightarrow> smText cmd \<noteq> None"
  shows "\<exists>r n. SendMessage (healthy_send t i) cmd w
      = (Inr r, w\<lparr>wRedis := (wRedis w)(smConversationID cmd \<mapsto> n),
                  wDB := committed no_faults cmd
                    (attempt_message (healthy_attempt t i) cmd mtype rp n) (wDB w)\<rparr>)
    \<and> srCreated r \<and> vID (srView r) = FormatInt i
    \<and> (\<forall>f. floor_of (wDB w) (smConversationID cmd) = Some f \<longrightarrow> f < n) \<and> 0 < n"
proof -
  let ?c = "smConversationID cmd" and ?at = "healthy_attempt t i"
  obtain n where n: "SequenceNext seq_healthy ?c w = (Inr n, w\<lparr>wRedis := (wRedis w)(?c \<mapsto> n)\<rparr>)"
    and above: "\<forall>f. floor_of (wDB w) ?c = Some f \<longrightarrow> f < n" and pos: "0 < n"
    using SequenceNext_healthy [OF assms(1)] by blast
  have "(?c, n) \<notin> message_slot ` set (tMessages (wDB w))"
    using assms(1) above by (auto simp: allocator_ok_def floor_covers_def message_slot_def)
  with assms pos have "insertable (wDB w) (attempt_message ?at cmd mtype rp n)"
    by (intro attempt_insertable [OF assms(2,3)]) (simp_all add: healthy_attempt_def)
  from sendOnce_commits [of ?at, OF _ _ _, of cmd w n "w\<lparr>wRedis := (wRedis w)(?c \<mapsto> n)\<rparr>" mtype rp] this n
  obtain r where "sendOnce ?at cmd mtype rp w
      = (Inr r, w\<lparr>wRedis := (wRedis w)(?c \<mapsto> n), wDB := committed no_faults cmd (attempt_message ?at cmd mtype rp n) (wDB w)\<rparr>)"
    "srCreated r" "vID (srView r) = FormatInt i"
    by (auto simp: healthy_attempt_def)
  then show ?thesis
    using above pos assms(2)
    by (intro exI [of _ r] exI [of _ n]) (simp add: SendMessage_def healthy_send_def maxSendRetries_def numeral_3_eq_3)
qed

lemma allocator_ok_committed:
  assumes "allocator_ok w c" and "floor_of (wDB w) c = Some f" "f < n" and "smConversationID cmd = c"
    and "gConversationID msg = c" "gSequence msg = n"
  shows "allocator_ok (w\<lparr>wRedis := (wRedis w)(c \<mapsto> n), wDB := committed fl cmd msg (wDB w)\<rparr>) c"
  using assms floor_covers_committed [of "wDB w" c msg cmd fl]
  by (auto simp: allocator_ok_def counter_warm_def floor_of_committed)

lemma send_tx_replays:
  assumes "message_check (attempt_message at cmd mtype rp seq)" and "nvFaults (atEnv at) = no_faults"
    and "Some (smUserID cmd, smClientMsgID cmd) \<in> client_key ` set (tMessages db)"
    and "atVisible at 0 db = db"
  shows "\<exists>orig. send_tx at cmd (attempt_message at cmd mtype rp seq) db = Inr ((orig, False), None)"
proof -
  have ins: "MessageInsert no_faults (attempt_message at cmd mtype rp seq) db = Inr (None, db)"
    using assms(1,3) by (simp add: MessageInsert_def)
  obtain x where x: "x \<in> set (tMessages db)" "client_key x = Some (smUserID cmd, smClientMsgID cmd)"
    using assms(3) by (metis imageE)
  then have "find (\<lambda>m. gSenderID m = Some (smUserID cmd) \<and> gClientMsgID m = Some (smClientMsgID cmd)) (tMessages db) \<noteq> None"
    unfolding find_None_iff by (auto simp: client_key_iff)
  then obtain orig where "FindByClientMsgID no_faults db (smUserID cmd) (smClientMsgID cmd) = Inr orig"
    by (auto simp: FindByClientMsgID_def)
  then have "replayOriginal no_faults (\<lambda>i. atVisible at i db) (smUserID cmd) (smClientMsgID cmd) = Inr orig"
    using assms(4) by (simp add: replayOriginal_def numeral_eq_Suc)
  then show ?thesis
    using ins assms(2) by (simp add: send_tx_def roll_back_def)
qed

lemma healthy_send_replay:
  assumes "allocator_ok w (smConversationID cmd)" and "send_checks no_faults (wDB w) cmd = Inr (mtype, rp)"
    and "Some (smUserID cmd, smClientMsgID cmd) \<in> client_key ` set (tMessages (wDB w))"
    and "smType cmd = ''text'' \<Longrightarrow> smText cmd \<noteq> None"
  shows "\<exists>r w'. SendMessage (healthy_send t i) cmd w = (Inr r, w') \<and> \<not> srCreated r
           \<and> allocator_ok w' (smConversationID cmd)"
proof -
  let ?c = "smConversationID cmd" and ?at = "healthy_attempt t i"
  obtain n where n: "SequenceNext seq_healthy ?c w = (Inr n, w\<lparr>wRedis := (wRedis w)(?c \<mapsto> n)\<rparr>)"
    and pos: "0 < n"
    using SequenceNext_healthy [OF assms(1)] by blast
  have "mtype = MessageTypeText \<Longrightarrow> smType cmd = ''text''"
    using send_checks_refs(4) [OF assms(2)] by (auto simp: ParseMessageType_def split: if_splits)
  then have chk: "message_check (attempt_message ?at cmd mtype rp n)"
    using assms(4) pos send_checks_refs(3) [OF assms(2)] by (auto simp: message_check_def)
  have env: "nvFaults (atEnv ?at) = no_faults" "atVisible ?at 0 (wDB w) = wDB w" "atSeq ?at = seq_healthy"
    "NextID (atEnv ?at) = Inr i"
    by (simp_all add: healthy_attempt_def NextID_def)
  obtain orig where t: "send_tx ?at cmd (attempt_message ?at cmd mtype rp n) (wDB w) = Inr ((orig, False), None)"
    using send_tx_replays [OF chk env(1) assms(3) env(2)] by blast
  have "new_message cmd mtype rp n i (nvClock (atEnv ?at) 0) = attempt_message ?at cmd mtype rp n"
    by (simp add: attempt_message_def healthy_attempt_def)
  with t n env have "sendOnce ?at cmd mtype rp w
      = (Inr \<lparr>srView = viewFor no_faults (wDB w) orig, srCreated = False\<rparr>, w\<lparr>wRedis := (wRedis w)(?c \<mapsto> n)\<rparr>)"
    by (simp add: sendOnce_def transact_def finish_def) (simp add: no_faults_def)
  with assms(2) have "SendMessage (healthy_send t i) cmd w
      = (Inr \<lparr>srView = viewFor no_faults (wDB w) orig, srCreated = False\<rparr>, w\<lparr>wRedis := (wRedis w)(?c \<mapsto> n)\<rparr>)"
    by (simp add: SendMessage_def healthy_send_def maxSendRetries_def numeral_3_eq_3)
  with allocator_ok_next(1) [OF assms(1) n] show ?thesis by simp
qed

end
