(* ===== verification/SendProperties.thy ===== *)
theory SendProperties
  imports SendProofs
begin

text \<open>The properties of the send path, each with the deployment of \<open>Scenario\<close> as its example.\<close>

section \<open>The example runs\<close>

lemma demo_fresh:
  "user_exists demo_db 10" "Some (10, ''a'') \<notin> client_key ` set (tMessages demo_db)"
  "(100::go_int) \<notin> gID ` set (tMessages demo_db)"
  by (simp_all add: user_exists_def demo_db_def demo_user_def)

lemma demo_text_simps [simp]:
  "smConversationID (demo_text u c k) = c" "smUserID (demo_text u c k) = u"
  "smClientMsgID (demo_text u c k) = k" "smText (demo_text u c k) = Some ''hello''"
  "smType (demo_text u c k) = ''text''"
  by (simp_all add: demo_text_def)

lemma wDB_demo [simp]: "wDB demo_world = demo_db"
  by (simp add: demo_world_def)

text \<open>The first send of the example commits.\<close>

lemma demo_first_send:
  "\<exists>r w. SendMessage (healthy_send 5 100) (demo_text 10 1 ''a'') demo_world = (Inr r, w) \<and> srCreated r
     \<and> allocator_ok w 1 \<and> tMembers (wDB w) = tMembers demo_db \<and> live_conversation (wDB w) 1
     \<and> Some (10, ''a'') \<in> client_key ` set (tMessages (wDB w))"
proof -
  have f: "floor_of demo_db 1 = Some 0" by (simp add: demo_db_def floor_of_def)
  obtain r n where r: "SendMessage (healthy_send 5 100) (demo_text 10 1 ''a'') demo_world
      = (Inr r, demo_world\<lparr>wRedis := (wRedis demo_world)(1 \<mapsto> n),
           wDB := committed no_faults (demo_text 10 1 ''a'')
             (attempt_message (healthy_attempt 5 100) (demo_text 10 1 ''a'') MessageTypeText None n) demo_db\<rparr>)"
    and c: "srCreated r" and n: "0 < n"
    using healthy_send_commit [of demo_world "demo_text 10 1 ''a''" MessageTypeText None 100 5]
      demo_allocator demo_send_checks demo_fresh f by (auto simp: demo_db_def)
  have "allocator_ok (demo_world\<lparr>wRedis := (wRedis demo_world)(1 \<mapsto> n),
           wDB := committed no_faults (demo_text 10 1 ''a'')
             (attempt_message (healthy_attempt 5 100) (demo_text 10 1 ''a'') MessageTypeText None n) (wDB demo_world)\<rparr>) 1"
    using demo_allocator f n by (intro allocator_ok_committed [where f = 0]) simp_all
  with r c show ?thesis
    by (intro exI [of _ r])
      (auto simp: live_conversation_def committed_def set_upd_where demo_db_def demo_conversation_def
        bump_guard_def)
qed

section \<open>Properties of the send path\<close>








text \<open>
  C4. Atomicity: a send that returns an error has written nothing but used-up sequence numbers:
  no message, no outbox row, no preview.
\<close>

theorem failed_send_leaves_nothing:
  assumes "SendMessage env cmd w = (Inl e, w')"
  shows "only_floor (wDB w) (wDB w')"
  using assms by (rule SendMessage_Inl)

theorem failed_send_leaves_nothing_witness:
  "\<exists>w'. SendMessage (healthy_send 5 100) (demo_text 12 1 ''a'') demo_world = (Inl ErrNotMember, w')
     \<and> only_floor demo_db (wDB w')"
proof -
  have t: "plain ''hello''" "plain ''a''" by (simp_all add: byte_def)
  have "validateSendCommand no_faults demo_db (demo_text 12 1 ''a'') = Inr MessageTypeText"
    using TrimSpace_plain [OF t(1)] rune_count_plain [OF t(1)] TrimSpace_plain [OF t(2)]
    by (simp add: validateSendCommand_def validate_body_def demo_text_def ParseMessageType_def MaxMessageTextLen_def)
  moreover obtain c where "ConversationFindByID no_faults demo_db 1 = Inr c"
    using FindByID_live demo_live by blast
  ultimately have "SendMessage (healthy_send 5 100) (demo_text 12 1 ''a'') demo_world = (Inl ErrNotMember, demo_world)"
    using requireMember_outsider [OF demo_members(3), of no_faults]
    by (simp add: SendMessage_def healthy_send_def send_checks_def) (simp add: no_faults_def)
  from failed_send_leaves_nothing [OF this] this show ?thesis by auto
qed

end
