(* ===== verification/Cursor.thy ===== *)
theory Cursor
  imports ChatDomain "HOL-Library.Word"
begin

text \<open>
  The opaque pagination cursors: the versioned 17-byte position of the chat and member lists
  (\<open>internal/chat/application/helpers.go\<close>), base64url without padding as Go's
  \<open>base64.RawURLEncoding\<close> has it, and the textual message cursor (\<open>history.go\<close>).  A byte is
  a \<open>nat\<close> below 256; a 64-bit value is a word.
\<close>

section \<open>base64.RawURLEncoding\<close>

definition enc6 :: "nat \<Rightarrow> char" where
  "enc6 i = char_of (if i < 26 then i + 65 else if i < 52 then i + 71 else if i < 62 then i - 4
                     else if i = 62 then 45 else 95)"

definition dec6 :: "char \<Rightarrow> nat option" where
  "dec6 c =
     (let b = byte c in
      if 65 \<le> b \<and> b \<le> 90 then Some (b - 65)
      else if 97 \<le> b \<and> b \<le> 122 then Some (b - 71)
      else if 48 \<le> b \<and> b \<le> 57 then Some (b + 4)
      else if b = 45 then Some 62
      else if b = 95 then Some 63
      else None)"

fun sextets :: "nat list \<Rightarrow> nat list" where
  "sextets [] = []"
| "sextets [a] = [a div 4, a mod 4 * 16]"
| "sextets [a, b] = [a div 4, a mod 4 * 16 + b div 16, b mod 16 * 4]"
| "sextets (a # b # c # bs) =
     [a div 4, a mod 4 * 16 + b div 16, b mod 16 * 4 + c div 64, c mod 64] @ sextets bs"

definition EncodeToString :: "nat list \<Rightarrow> string" where
  "EncodeToString bs = map enc6 (sextets bs)"

text \<open>The decoder is not strict: the unused low bits of the last character are ignored.\<close>

fun octets :: "nat list \<Rightarrow> nat list option" where
  "octets [] = Some []"
| "octets [s] = None"
| "octets [s, t] = Some [s * 4 + t div 16]"
| "octets [s, t, u] = Some [s * 4 + t div 16, t mod 16 * 16 + u div 4]"
| "octets (s # t # u # v # r) =
     map_option (append [s * 4 + t div 16, t mod 16 * 16 + u div 4, u mod 4 * 64 + v]) (octets r)"

fun all_some :: "'a option list \<Rightarrow> 'a list option" where
  "all_some [] = Some []"
| "all_some (None # xs) = None"
| "all_some (Some x # xs) = map_option (Cons x) (all_some xs)"

text \<open>Carriage returns and line feeds are skipped.\<close>

definition DecodeString :: "string \<Rightarrow> nat list option" where
  "DecodeString s =
     Option.bind (all_some (map dec6 (filter (\<lambda>c. byte c \<noteq> 10 \<and> byte c \<noteq> 13) s))) octets"

lemma byte_enc6: "i < 64 \<Longrightarrow> byte (enc6 i) = (if i < 26 then i + 65 else if i < 52 then i + 71
    else if i < 62 then i - 4 else if i = 62 then 45 else 95)"
  by (simp add: enc6_def byte_def)

lemma dec6_enc6: "i < 64 \<Longrightarrow> dec6 (enc6 i) = Some i"
  by (auto simp: dec6_def byte_enc6 Let_def split: if_splits)

lemma sextets_lt: "\<forall>b \<in> set bs. b < 256 \<Longrightarrow> \<forall>s \<in> set (sextets bs). s < 64"
proof (induction bs rule: sextets.induct)
  case (4 a b c bs)
  then show ?case by (auto; presburger)
qed (auto; presburger)+

lemma octets_sextets: "\<forall>b \<in> set bs. b < 256 \<Longrightarrow> octets (sextets bs) = Some bs"
proof (induction bs rule: sextets.induct)
  case (4 a b c bs)
  have "a div 4 * 4 + (a mod 4 * 16 + b div 16) div 16 = a"
    "(a mod 4 * 16 + b div 16) mod 16 * 16 + (b mod 16 * 4 + c div 64) div 4 = b"
    "(b mod 16 * 4 + c div 64) mod 4 * 64 + c mod 64 = c"
    using "4.prems" by (auto; presburger)+
  with 4 show ?case by simp
qed (auto; presburger)+

lemma all_some_map_Some: "all_some (map Some xs) = Some xs"
  by (induction xs) simp_all

lemma base64_roundtrip:
  assumes "\<forall>b \<in> set bs. b < 256"
  shows "DecodeString (EncodeToString bs) = Some bs"
proof -
  note lt = sextets_lt [OF assms]
  have "filter (\<lambda>c. byte c \<noteq> 10 \<and> byte c \<noteq> 13) (map enc6 (sextets bs)) = map enc6 (sextets bs)"
    using lt by (auto simp: filter_id_conv byte_enc6)
  moreover have "map dec6 (map enc6 (sextets bs)) = map Some (sextets bs)"
    using lt by (simp add: dec6_enc6)
  ultimately show ?thesis
    by (simp add: DecodeString_def EncodeToString_def all_some_map_Some octets_sextets [OF assms] del: map_map)
qed

section \<open>Big-endian 64-bit values\<close>

fun be_bytes :: "nat \<Rightarrow> nat \<Rightarrow> nat list" where
  "be_bytes 0 n = []"
| "be_bytes (Suc k) n = be_bytes k (n div 256) @ [n mod 256]"

definition be_value :: "nat list \<Rightarrow> nat" where
  "be_value bs = foldl (\<lambda>a b. a * 256 + b) 0 bs"

lemma length_be_bytes [simp]: "length (be_bytes k n) = k"
  by (induction k arbitrary: n) simp_all

lemma be_bytes_lt: "b \<in> set (be_bytes k n) \<Longrightarrow> b < 256"
  by (induction k arbitrary: n) auto

lemma be_value_bytes: "be_value (be_bytes k n) = n mod 256 ^ k"
proof (induction k arbitrary: n)
  case 0
  then show ?case by (simp add: be_value_def)
next
  case (Suc k)
  have "be_value (be_bytes (Suc k) n) = be_value (be_bytes k (n div 256)) * 256 + n mod 256"
    by (simp add: be_value_def)
  also have "\<dots> = n mod 256 ^ Suc k"
    by (simp add: Suc mod_mult2_eq)
  finally show ?case .
qed

definition put_uint64 :: "go_int \<Rightarrow> nat list" where
  "put_uint64 x = be_bytes 8 (unat (word_of_int x :: 64 word))"

definition get_int64 :: "nat list \<Rightarrow> go_int" where
  "get_int64 bs = sint (word_of_nat (be_value bs) :: 64 word)"

definition int64 :: "int \<Rightarrow> bool" where
  "int64 x \<longleftrightarrow> - (2 ^ 63) \<le> x \<and> x < 2 ^ 63"

lemma int64_roundtrip:
  assumes "int64 x"
  shows "get_int64 (put_uint64 x) = x"
proof -
  have "unat (word_of_int x :: 64 word) < 2 ^ 64"
    using unsigned_less [of "word_of_int x :: 64 word"] by simp
  then have "unat (word_of_int x :: 64 word) mod 256 ^ 8 = unat (word_of_int x :: 64 word)"
    by simp
  then have "get_int64 (put_uint64 x) = sint (word_of_int x :: 64 word)"
    by (simp add: get_int64_def put_uint64_def be_value_bytes)
  also have "\<dots> = signed_take_bit 63 x"
    by transfer simp
  also have "\<dots> = x"
    using assms by (simp add: int64_def signed_take_bit_int_eq_self)
  finally show ?thesis .
qed

section \<open>List cursors (helpers.go)\<close>

definition encodeCursor :: "nat \<Rightarrow> go_time \<Rightarrow> go_int \<Rightarrow> string" where
  "encodeCursor version at i = EncodeToString (version # put_uint64 at @ put_uint64 i)"

definition decodeCursor :: "nat \<Rightarrow> string \<Rightarrow> chat_error + go_time \<times> go_int" where
  "decodeCursor version s =
     (if s = [] then Inl ErrInvalidCursor
      else case DecodeString s of
             None \<Rightarrow> Inl ErrInvalidCursor
           | Some buf \<Rightarrow>
               if length buf \<noteq> 17 \<or> buf ! 0 \<noteq> version then Inl ErrInvalidCursor
               else Inr (get_int64 (take 8 (drop 1 buf)), get_int64 (take 8 (drop 9 buf))))"

definition conversationCursor :: "go_time \<times> go_int \<Rightarrow> string" where
  "conversationCursor c = encodeCursor 1 (fst c) (snd c)"

definition decodeConversationCursor :: "string \<Rightarrow> chat_error + (go_time \<times> go_int) option" where
  "decodeConversationCursor s = (if s = [] then Inr None else rbind (decodeCursor 1 s) (\<lambda>c. Inr (Some c)))"

definition memberCursor :: "go_time \<times> go_int \<Rightarrow> string" where
  "memberCursor c = encodeCursor 2 (fst c) (snd c)"

definition decodeMemberCursor :: "string \<Rightarrow> chat_error + (go_time \<times> go_int) option" where
  "decodeMemberCursor s = (if s = [] then Inr None else rbind (decodeCursor 2 s) (\<lambda>c. Inr (Some c)))"

lemma put_uint64_simps [simp]: "length (put_uint64 x) = 8" "b \<in> set (put_uint64 x) \<Longrightarrow> b < 256"
  by (auto simp: put_uint64_def dest: be_bytes_lt)

lemma cursor_bytes:
  "version < 256 \<Longrightarrow> DecodeString (encodeCursor version at i) = Some (version # put_uint64 at @ put_uint64 i)"
  unfolding encodeCursor_def by (rule base64_roundtrip) auto

lemma encodeCursor_nonempty: "encodeCursor version at i \<noteq> []"
proof -
  obtain a as where "put_uint64 at = a # as" by (cases "put_uint64 at") (use put_uint64_simps(1) [of at] in auto)
  moreover obtain b bs where "as @ put_uint64 i = b # bs"
    by (cases "as @ put_uint64 i") (use put_uint64_simps(1) [of i] in auto)
  ultimately show ?thesis by (simp add: encodeCursor_def EncodeToString_def)
qed

lemma cursor_roundtrip:
  assumes "version < 256" and "int64 at" "int64 i"
  shows "decodeCursor version (encodeCursor version at i) = Inr (at, i)"
  using assms encodeCursor_nonempty
  by (simp add: decodeCursor_def cursor_bytes int64_roundtrip)

lemma cursor_version:
  assumes "version < 256" and "version' \<noteq> version"
  shows "decodeCursor version' (encodeCursor version at i) = Inl ErrInvalidCursor"
  using assms encodeCursor_nonempty by (simp add: decodeCursor_def cursor_bytes)

section \<open>Message cursors (history.go)\<close>

definition encodeMessageCursor :: "string \<Rightarrow> go_int \<Rightarrow> string" where
  "encodeMessageCursor pre n = pre @ CHR '':'' # FormatInt n"

definition decodeMessageCursor :: "string \<Rightarrow> chat_error + (go_int option \<times> go_int option)" where
  "decodeMessageCursor s =
     (if s = [] then Inr (None, None)
      else case Cut s CHR '':'' of
             None \<Rightarrow> Inl ErrInvalidCursor
           | Some (pre, raw) \<Rightarrow>
               (case ParseInt raw of
                  None \<Rightarrow> Inl ErrInvalidCursor
                | Some n \<Rightarrow>
                    if n \<le> 0 then Inl ErrInvalidCursor
                    else if pre = ''s'' then Inr (Some n, None)
                    else if pre = ''g'' then Inr (None, Some n)
                    else Inl ErrInvalidCursor))"

lemma message_cursor_roundtrip:
  assumes "0 < n" "n < 2 ^ 63"
  shows "decodeMessageCursor (encodeMessageCursor ''s'' n) = Inr (Some n, None)"
    and "decodeMessageCursor (encodeMessageCursor ''g'' n) = Inr (None, Some n)"
  using assms Cut_append [of "CHR '':''" "''s''" "FormatInt n"] Cut_append [of "CHR '':''" "''g''" "FormatInt n"]
  by (simp_all add: decodeMessageCursor_def encodeMessageCursor_def ParseInt_FormatInt)

text \<open>A decoded cursor names exactly one direction.\<close>

lemma decodeMessageCursor_one_seek:
  "decodeMessageCursor s = Inr (before, after) \<Longrightarrow> before = None \<or> after = None"
  by (auto simp: decodeMessageCursor_def split: if_splits option.splits)

end
