(* ===== verification/ChatConversations.thy ===== *)
theory ChatConversations
  imports ChatTx Cursor
begin

text \<open>
  The conversation use cases (\<open>create.go\<close>, \<open>list.go\<close>, \<open>get.go\<close>, \<open>update.go\<close> and the
  participant rules of \<open>helpers.go\<close>).  A use case is its pool reads and checks, its
  transaction and its reads after the commit, so that two requests can also be interleaved.
\<close>

definition maxTotalMembers :: nat where "maxTotalMembers = 500"
definition memberPreviewLimit :: nat where "memberPreviewLimit = 8"

definition newMembership :: "go_int \<Rightarrow> go_int \<Rightarrow> Role \<Rightarrow> go_time \<Rightarrow> Membership" where
  "newMembership c u r now =
     \<lparr>mConversationID = c, mUserID = u, mRole = r, mLastReadSeq = 0, mLastDeliveredSeq = 0,
      mLastReadAt = None, mMutedUntil = None, mPinnedAt = None, mArchivedAt = None,
      mJoinedAt = now, mLeftAt = None\<rparr>"

text \<open>The chat reads pass no name filter; \<open>no_filter\<close> stands in for PostgreSQL's ILIKE there.\<close>

definition no_filter :: "string \<Rightarrow> string \<Rightarrow> bool" where "no_filter = (\<lambda>_ _. True)"

definition first_members :: "faults \<Rightarrow> ChatDB \<Rightarrow> go_int \<Rightarrow> nat \<Rightarrow> chat_error + MemberRow list" where
  "first_members fl db c n = MemberList fl no_filter db c \<lparr>qmLimit = n, qmCursor = None, qmQ = []\<rparr>"

section \<open>CreateConversation\<close>

record CreateConversationCommand =
  ccUserID :: go_int
  ccType :: string
  ccParticipantIDs :: "go_int list"
  ccTitle :: "string option"
  ccAvatarMediaID :: "go_int option"

record CreateConversationResult =
  ccrView :: ConversationView
  ccrCreated :: bool

fun participants_loop :: "go_int \<Rightarrow> go_int set \<Rightarrow> go_int list \<Rightarrow> chat_error + unit" where
  "participants_loop caller seen [] = Inr ()"
| "participants_loop caller seen (i # ids) =
     (if i \<le> 0 then Inl (ValidationError ''participant_ids'' ''invalid_user_id'')
      else if i = caller then Inl (ValidationError ''participant_ids'' ''must_not_include_self'')
      else if i \<in> seen then Inl (ValidationError ''participant_ids'' ''must_be_unique'')
      else participants_loop caller (insert i seen) ids)"

definition validateParticipants ::
  "faults \<Rightarrow> ChatDB \<Rightarrow> go_int \<Rightarrow> ConversationType \<Rightarrow> go_int list \<Rightarrow> chat_error + go_int list" where
  "validateParticipants fl db caller ctype ids =
     rbind (ensure (ids \<noteq> []) (ValidationError ''participant_ids'' ''must_not_be_empty'')) (\<lambda>_.
     rbind (participants_loop caller {} ids) (\<lambda>_.
     rbind (case ctype of
              ConversationDirect \<Rightarrow>
                ensure (length ids = 1) (ValidationError ''participant_ids'' ''direct_requires_exactly_one_other'')
            | ConversationGroup \<Rightarrow>
                ensure (\<not> length ids > maxTotalMembers - 1)
                  (ValidationError ''participant_ids'' ''too_many_participants'')) (\<lambda>_.
     rbind (ListByIDs fl db ids) (\<lambda>users.
     rbind (ensure (\<forall>i \<in> set ids. i \<in> uID ` set users) (ValidationError ''participant_ids'' ''unknown_user'')) (\<lambda>_.
       Inr ids)))))"

definition conversationListView :: "faults \<Rightarrow> ChatDB \<Rightarrow> Conversation \<Rightarrow> go_int \<Rightarrow> chat_error + ConversationView" where
  "conversationListView fl db c userID =
     rbind (FindActive fl db (cID c) userID) (\<lambda>m.
     rbind (if cType c = ConversationDirect
            then rbind (first_members fl db (cID c) 2) (\<lambda>ms.
                   Inr (map_option mrUserID (find (\<lambda>r. mrUserID r \<noteq> userID) ms)))
            else Inr None) (\<lambda>other.
     rbind (case other of
              None \<Rightarrow> Inr (\<lambda>_. [])
            | Some x \<Rightarrow> rbind (ListByIDs fl db [x]) (\<lambda>users. Inr (displayNames users))) (\<lambda>names.
       Inr (buildListView \<lparr>crConversation = c, crMembership = m, crCounterpartID = other\<rparr> names))))"

text \<open>
  The checks end in the existing direct conversation, or in what to create: the type and the
  other participants.
\<close>

definition create_checks ::
  "Env \<Rightarrow> CreateConversationCommand \<Rightarrow> ChatDB \<Rightarrow> chat_error + (ConversationView + ConversationType \<times> go_int list)" where
  "create_checks env cmd db =
     (let fl = nvFaults env in
      rbind (case ParseConversationType (ccType cmd) of
               Inl _ \<Rightarrow> Inl (ValidationError ''type'' ''invalid_conversation_type'') | Inr t \<Rightarrow> Inr t) (\<lambda>ctype.
      rbind (validateParticipants fl db (ccUserID cmd) ctype (ccParticipantIDs cmd)) (\<lambda>others.
      rbind (ensure (ctype = ConversationGroup \<longrightarrow>
               (case ccTitle cmd of None \<Rightarrow> False | Some t \<Rightarrow> TrimSpace t \<noteq> [])) ErrGroupTitleRequired) (\<lambda>_.
        if ctype = ConversationDirect then
          (case FindDirectPair fl db (ccUserID cmd) (hd others) of
             Inr existing \<Rightarrow> rbind (conversationListView fl db existing (ccUserID cmd)) (\<lambda>v. Inr (Inl v))
           | Inl e \<Rightarrow> if e \<noteq> ErrConversationNotFound then Inl e else Inr (Inr (ctype, others)))
        else Inr (Inr (ctype, others))))))"

definition new_conversation :: "CreateConversationCommand \<Rightarrow> ConversationType \<Rightarrow> go_int \<Rightarrow> go_time \<Rightarrow> Conversation" where
  "new_conversation cmd ctype i now =
     \<lparr>cID = i, cType = ctype, cTitle = ccTitle cmd, cPhotoMediaID = ccAvatarMediaID cmd,
      cDescription = None, cCreatedBy = ccUserID cmd, cLastMessageAt = None, cLastMessageSeq = None,
      cLastMessageSnippet = None, cLastSenderID = None, cSettings = DefaultSettings,
      cRetentionDays = None, cCreatedAt = now, cUpdatedAt = now, cDeletedAt = None\<rparr>"

definition new_members ::
  "CreateConversationCommand \<Rightarrow> ConversationType \<Rightarrow> go_int list \<Rightarrow> go_int \<Rightarrow> go_time \<Rightarrow> Membership list" where
  "new_members cmd ctype others i now =
     newMembership i (ccUserID cmd) (if ctype = ConversationGroup then RoleOwner else RoleMember) now
       # map (\<lambda>u. newMembership i u RoleMember now) others"

definition created_events ::
  "CreateConversationCommand \<Rightarrow> ConversationType \<Rightarrow> go_int list \<Rightarrow> go_int \<Rightarrow> go_time \<Rightarrow> ChangeLogEntry list" where
  "created_events cmd ctype others i now =
     map (\<lambda>t. \<lparr>lEventType = t, lConversationID = Some i, lEntityID = Some i,
               lActorUserID = Some (ccUserID cmd), lAffectedUserIDs = ccUserID cmd # others,
               lPayload = JObj [(''conversation_id'', JInt i),
                 (''type'', JStr (conversation_type_string ctype)), (''title'', jopt JStr (ccTitle cmd)),
                 (''created_by'', JInt (ccUserID cmd)), (''created_at'', JTime now)]\<rparr>)
       [EventConversationCreated, EventConversationMembership]"

definition create_tx ::
  "Env \<Rightarrow> CreateConversationCommand \<Rightarrow> ConversationType \<Rightarrow> go_int list \<Rightarrow> go_int \<Rightarrow> unit body" where
  "create_tx env cmd ctype others i db =
     (let fl = nvFaults env; now = nvClock env 0 in
      rbind (ConversationCreate fl (new_conversation cmd ctype i now) db) (\<lambda>db1.
      rbind (AddMany fl (new_members cmd ctype others i now) db1) (\<lambda>db2.
      rbind (SequenceInit fl i db2) (\<lambda>db3.
      rbind (ChangeLogAppend fl (created_events cmd ctype others i now) db3) (\<lambda>db4. commit () db4)))))"

definition create_commit ::
  "Env \<Rightarrow> CreateConversationCommand \<Rightarrow> ConversationType \<Rightarrow> go_int list \<Rightarrow> ChatDB
    \<Rightarrow> (chat_error + CreateConversationResult) \<times> ChatDB" where
  "create_commit env cmd ctype others db =
     prepare (NextID env) (\<lambda>i db.
       finish (transact (nvFaults env) (create_tx env cmd ctype others i) db) (\<lambda>_ db'.
         rbind (ListByIDs (nvFaults env) db' (ccUserID cmd # others)) (\<lambda>users.
           Inr \<lparr>ccrView = buildListView
                 \<lparr>crConversation = new_conversation cmd ctype i (nvClock env 0),
                  crMembership = hd (new_members cmd ctype others i (nvClock env 0)),
                  crCounterpartID = (if ctype = ConversationDirect then Some (hd others) else None)\<rparr>
                 (displayNames users),
               ccrCreated = True\<rparr>))) db"

definition CreateConversation ::
  "Env \<Rightarrow> CreateConversationCommand \<Rightarrow> ChatDB \<Rightarrow> (chat_error + CreateConversationResult) \<times> ChatDB" where
  "CreateConversation env cmd db =
     prepare (create_checks env cmd db) (\<lambda>plan db.
       case plan of
         Inl view \<Rightarrow> (Inr \<lparr>ccrView = view, ccrCreated = False\<rparr>, db)
       | Inr (ctype, others) \<Rightarrow> create_commit env cmd ctype others db) db"

section \<open>GetConversation and ListConversations\<close>

definition conversationDetailFor ::
  "Env \<Rightarrow> ChatDB \<Rightarrow> Conversation \<Rightarrow> go_int \<Rightarrow> nat \<Rightarrow> chat_error + ConversationDetail" where
  "conversationDetailFor env db c userID tick =
     (let fl = nvFaults env in
      rbind (requireMember fl db (cID c) userID) (\<lambda>m.
      rbind (CountActive fl db (cID c)) (\<lambda>count.
      rbind (first_members fl db (cID c) memberPreviewLimit) (\<lambda>rows.
        let preview = map (\<lambda>r. (FormatInt (mrUserID r), mrDisplayName r)) rows;
            directTitle = map_option mrDisplayName (find (\<lambda>r. mrUserID r \<noteq> userID) (rev rows));
            detail = buildDetailView (nvClock env tick) c m count preview in
        Inr (if cType c = ConversationDirect then detail\<lparr>cdTitle := directTitle\<rparr> else detail)))))"

definition GetConversation :: "Env \<Rightarrow> go_int \<Rightarrow> go_int \<Rightarrow> ChatDB \<Rightarrow> chat_error + ConversationDetail" where
  "GetConversation env userID c db =
     rbind (ConversationFindByID (nvFaults env) db c) (\<lambda>conv. conversationDetailFor env db conv userID 0)"

record ListConversationsCommand =
  lcUserID :: go_int
  lcFilter :: string
  lcUnreadOnly :: bool
  lcLimit :: int
  lcCursor :: string

record ConversationListResult =
  clItems :: "ConversationView list"
  clNext :: "string option"
  clHasMore :: bool
  clLimit :: nat

definition list_query :: "ListConversationsCommand \<Rightarrow> chat_error + ConversationListQuery" where
  "list_query cmd =
     (let flt = (if lcFilter cmd = [] then ''all'' else lcFilter cmd) in
      rbind (ensure (flt \<in> {''all'', ''pinned'', ''archived'', ''groups'', ''direct''})
               (ValidationError ''filter'' ''invalid_filter'')) (\<lambda>_.
      rbind (case decodeConversationCursor (lcCursor cmd) of
               Inl _ \<Rightarrow> Inl (ValidationError ''cursor'' ''invalid_cursor'') | Inr c \<Rightarrow> Inr c) (\<lambda>cursor.
        Inr \<lparr>qlUserID = lcUserID cmd, qlFilter = flt, qlUnreadOnly = lcUnreadOnly cmd,
             qlLimit = clamp_limit (lcLimit cmd) + 1, qlCursor = cursor\<rparr>)))"

definition counterpart_ids :: "ConversationRow list \<Rightarrow> go_int list" where
  "counterpart_ids rows =
     List.map_filter (\<lambda>r. if cType (crConversation r) = ConversationDirect then crCounterpartID r else None) rows"

definition ListConversations ::
  "faults \<Rightarrow> ListConversationsCommand \<Rightarrow> ChatDB \<Rightarrow> chat_error + ConversationListResult" where
  "ListConversations fl cmd db =
     (let limit = clamp_limit (lcLimit cmd) in
      rbind (list_query cmd) (\<lambda>q.
      rbind (ConversationList fl db q) (\<lambda>found.
        let hasMore = length found > limit;
            rows = (if hasMore then take limit found else found) in
        rbind (if counterpart_ids rows \<noteq> []
               then rbind (ListByIDs fl db (counterpart_ids rows)) (\<lambda>users. Inr (displayNames users))
               else Inr (\<lambda>_. [])) (\<lambda>names.
          Inr \<lparr>clItems = map (\<lambda>r. buildListView r names) rows,
               clNext = (if hasMore \<and> rows \<noteq> [] then Some (conversationCursor (row_position (last rows))) else None),
               clHasMore = hasMore, clLimit = limit\<rparr>))))"

section \<open>UpdateConversation\<close>

record SettingsPatch =
  spSlowModeSeconds :: "int option"
  spAnyoneCanAdd :: "bool option"
  spHistoryVisible :: "string option"

record UpdateConversationCommand =
  ucUserID :: go_int
  ucConversationID :: go_int
  ucTitle :: "string option"
  ucTitleSet :: bool
  ucAvatarMediaID :: "go_int option"
  ucAvatarSet :: bool
  ucAvatarCleared :: bool
  ucSettings :: "SettingsPatch option"

definition applySettingsPatch :: "Settings \<Rightarrow> SettingsPatch \<Rightarrow> chat_error + Settings" where
  "applySettingsPatch cur patch =
     rbind (case spSlowModeSeconds patch of
              None \<Rightarrow> Inr cur
            | Some n \<Rightarrow> if n < 0 then Inl (ValidationError ''settings.slow_mode_seconds'' ''must_be_non_negative'')
                        else Inr (cur\<lparr>sSlowModeSeconds := n\<rparr>)) (\<lambda>s1.
     rbind (Inr (case spAnyoneCanAdd patch of None \<Rightarrow> s1 | Some b \<Rightarrow> s1\<lparr>sAnyoneCanAdd := b\<rparr>)) (\<lambda>s2.
       case spHistoryVisible patch of
         None \<Rightarrow> Inr s2
       | Some h \<Rightarrow> rbind (ensure (HistoryVisible_Valid h) ErrInvalidHistoryVisible) (\<lambda>_.
                     Inr (s2\<lparr>sHistoryVisible := h\<rparr>))))"

definition patch_conversation :: "UpdateConversationCommand \<Rightarrow> Conversation \<Rightarrow> chat_error + Conversation" where
  "patch_conversation cmd c =
     rbind (if cType c = ConversationDirect then
              rbind (ensure (\<not> ucTitleSet cmd) (ValidationError ''title'' ''direct_conversation_has_no_title'')) (\<lambda>_.
                ensure (ucSettings cmd = None) (ValidationError ''settings'' ''direct_conversation_has_no_settings''))
            else Inr ()) (\<lambda>_.
     rbind (if ucTitleSet cmd then
              rbind (ensure (\<not> cType c \<noteq> ConversationGroup) (ValidationError ''title'' ''direct_conversation_has_no_title'')) (\<lambda>_.
              rbind (ensure (case ucTitle cmd of None \<Rightarrow> False | Some t \<Rightarrow> TrimSpace t \<noteq> []) ErrGroupTitleRequired) (\<lambda>_.
                Inr (c\<lparr>cTitle := ucTitle cmd\<rparr>)))
            else Inr c) (\<lambda>c1.
     rbind (Inr (if ucAvatarSet cmd then c1\<lparr>cPhotoMediaID := ucAvatarMediaID cmd\<rparr> else c1)) (\<lambda>c2.
     rbind (Inr (if ucAvatarCleared cmd then c2\<lparr>cPhotoMediaID := None\<rparr> else c2)) (\<lambda>c3.
       case ucSettings cmd of
         None \<Rightarrow> Inr c3
       | Some p \<Rightarrow> rbind (applySettingsPatch (cSettings c3) p) (\<lambda>s. Inr (c3\<lparr>cSettings := s\<rparr>))))))"

text \<open>The new row and the users to tell, both read before the transaction.\<close>

definition update_checks ::
  "Env \<Rightarrow> UpdateConversationCommand \<Rightarrow> ChatDB \<Rightarrow> chat_error + (Conversation \<times> go_int list)" where
  "update_checks env cmd db =
     (let fl = nvFaults env in
      rbind (ConversationFindByID fl db (ucConversationID cmd)) (\<lambda>c.
      rbind (requireAdmin fl db (cID c) (ucUserID cmd)) (\<lambda>_.
      rbind (patch_conversation cmd c) (\<lambda>c1.
      rbind (ActiveUserIDs fl db (cID c)) (\<lambda>affected.
        Inr (c1\<lparr>cUpdatedAt := nvClock env 0\<rparr>, affected))))))"

definition settings_json :: "Settings \<Rightarrow> json" where
  "settings_json s = JObj [(''slow_mode_seconds'', JInt (sSlowModeSeconds s)),
     (''anyone_can_add'', JBool (sAnyoneCanAdd s)), (''history_visible'', JStr (sHistoryVisible s))]"

definition update_tx :: "Env \<Rightarrow> UpdateConversationCommand \<Rightarrow> Conversation \<Rightarrow> go_int list \<Rightarrow> unit body" where
  "update_tx env cmd c affected db =
     (let fl = nvFaults env in
      rbind (ConversationUpdate fl c db) (\<lambda>db1.
      rbind (ChangeLogAppend fl
               [\<lparr>lEventType = EventConversationSettings, lConversationID = Some (cID c),
                 lEntityID = Some (cID c), lActorUserID = Some (ucUserID cmd), lAffectedUserIDs = affected,
                 lPayload = JObj [(''conversation_id'', JInt (cID c)), (''title'', jopt JStr (cTitle c)),
                   (''settings'', settings_json (cSettings c)), (''updated_at'', JTime (cUpdatedAt c))]\<rparr>] db1)
        (\<lambda>db2. commit () db2)))"

definition UpdateConversation ::
  "Env \<Rightarrow> UpdateConversationCommand \<Rightarrow> ChatDB \<Rightarrow> (chat_error + ConversationDetail) \<times> ChatDB" where
  "UpdateConversation env cmd db =
     prepare (update_checks env cmd db) (\<lambda>(c, affected) db.
       finish (transact (nvFaults env) (update_tx env cmd c affected) db)
         (\<lambda>_ db'. conversationDetailFor env db' c (ucUserID cmd) 1)) db"

section \<open>Store steps\<close>

lemma create_tx_step: "create_tx env cmd ctype others i db = Inr (r, Some db') \<Longrightarrow> store_step db db'"
  by (auto simp: create_tx_def Let_def dest!: step_intros) (meson store_step_trans)

lemma create_commit_step: "store_step db (snd (create_commit env cmd ctype others db))"
  unfolding create_commit_def by (intro phase_steps) (erule create_tx_step)

lemma CreateConversation_step: "store_step db (snd (CreateConversation env cmd db))"
  unfolding CreateConversation_def
  by (intro phase_steps) (auto simp: create_commit_step split: sum.splits)

lemma update_tx_step: "update_tx env cmd c affected db = Inr (r, Some db') \<Longrightarrow> store_step db db'"
  by (auto simp: update_tx_def Let_def dest!: step_intros elim: store_step_trans)

lemma UpdateConversation_step: "store_step db (snd (UpdateConversation env cmd db))"
  unfolding UpdateConversation_def
  by (intro phase_steps) (auto intro: transact_step update_tx_step split: prod.splits)

end
