(* ===== verification/ChatMembers.thy ===== *)
theory ChatMembers
  imports ChatConversations
begin

text \<open>
  The membership use cases (\<open>members.go\<close>) and the caller's per-conversation preferences
  (\<open>prefs.go\<close>).  Role changes and preferences rewrite the whole membership row with what was
  read before the transaction, as the code does.
\<close>

section \<open>ListMembers\<close>

record ListMembersCommand =
  lmUserID :: go_int
  lmConversationID :: go_int
  lmLimit :: int
  lmCursor :: string
  lmQ :: string

record MemberView =
  mvUserID :: string
  mvDisplayName :: string
  mvAvatar :: "string option"
  mvRole :: string
  mvJoinedAt :: go_time
  mvLastActiveAt :: "go_time option"
  mvIsSelf :: bool

record MemberListResult =
  mlItems :: "MemberView list"
  mlNext :: "string option"
  mlHasMore :: bool
  mlLimit :: nat

definition ListMembers ::
  "faults \<Rightarrow> (string \<Rightarrow> string \<Rightarrow> bool) \<Rightarrow> ListMembersCommand \<Rightarrow> ChatDB \<Rightarrow> chat_error + MemberListResult" where
  "ListMembers fl ilike cmd db =
     rbind (ConversationFindByID fl db (lmConversationID cmd)) (\<lambda>c.
     rbind (requireMember fl db (cID c) (lmUserID cmd)) (\<lambda>_.
     let limit = clamp_limit (lmLimit cmd) in
     rbind (case decodeMemberCursor (lmCursor cmd) of
              Inl _ \<Rightarrow> Inl (ValidationError ''cursor'' ''invalid_cursor'') | Inr k \<Rightarrow> Inr k) (\<lambda>cursor.
     rbind (MemberList fl ilike db (cID c) \<lparr>qmLimit = limit + 1, qmCursor = cursor, qmQ = lmQ cmd\<rparr>) (\<lambda>found.
       let hasMore = length found > limit;
           rows = (if hasMore then take limit found else found) in
       Inr \<lparr>mlItems = map (\<lambda>r. \<lparr>mvUserID = FormatInt (mrUserID r), mvDisplayName = mrDisplayName r, mvAvatar = None,
                mvRole = role_string (mrRole r), mvJoinedAt = mrJoinedAt r, mvLastActiveAt = None,
                mvIsSelf = (mrUserID r = lmUserID cmd)\<rparr>) rows,
            mlNext = (if hasMore \<and> rows \<noteq> [] then Some (memberCursor (member_position (last rows))) else None),
            mlHasMore = hasMore, mlLimit = limit\<rparr>))))"

section \<open>AddMembers\<close>

record AddMembersCommand =
  amUserID :: go_int
  amConversationID :: go_int
  amUserIDs :: "go_int list"

record AddMembersResult =
  arAdded :: "string list"
  arSkipped :: "(string \<times> string) list"

fun user_ids_loop :: "go_int set \<Rightarrow> go_int list \<Rightarrow> chat_error + unit" where
  "user_ids_loop seen [] = Inr ()"
| "user_ids_loop seen (i # ids) =
     (if i \<le> 0 then Inl (ValidationError ''user_ids'' ''invalid_user_id'')
      else if i \<in> seen then Inl (ValidationError ''user_ids'' ''must_be_unique'')
      else user_ids_loop (insert i seen) ids)"

definition buildSkipped :: "go_int \<Rightarrow> go_int list \<Rightarrow> go_int set \<Rightarrow> go_int set \<Rightarrow> (string \<times> string) list" where
  "buildSkipped caller targets existing userSet =
     List.map_filter (\<lambda>i.
       if i = caller \<or> i \<in> existing then Some (FormatInt i, ''already_member'')
       else if i \<notin> userSet then Some (FormatInt i, ''unknown_user'')
       else None) targets"

text \<open>What the checks decide: the users to add, the skip list and the members before.\<close>

definition add_checks ::
  "faults \<Rightarrow> AddMembersCommand \<Rightarrow> ChatDB \<Rightarrow> chat_error + (go_int list \<times> (string \<times> string) list \<times> go_int list)" where
  "add_checks fl cmd db =
     rbind (ConversationFindByID fl db (amConversationID cmd)) (\<lambda>c.
     rbind (requireMember fl db (cID c) (amUserID cmd)) (\<lambda>m.
     rbind (ensure (amUserIDs cmd \<noteq> []) (ValidationError ''user_ids'' ''must_not_be_empty'')) (\<lambda>_.
     rbind (user_ids_loop {} (amUserIDs cmd)) (\<lambda>_.
     rbind (ensure (\<not> (\<not> AtLeast (mRole m) RoleAdmin \<and> \<not> sAnyoneCanAdd (cSettings c))) ErrInsufficientRole) (\<lambda>_.
     rbind (ActiveUserIDs fl db (cID c)) (\<lambda>existing.
     rbind (ListByIDs fl db (amUserIDs cmd)) (\<lambda>users.
       let userSet = uID ` set users;
           addedIDs = filter (\<lambda>i. \<not> (i = amUserID cmd \<or> i \<in> set existing \<or> i \<notin> userSet)) (amUserIDs cmd) in
       rbind (ensure (\<not> length existing + length addedIDs > maxTotalMembers) ErrConversationFull) (\<lambda>_.
         Inr (addedIDs, buildSkipped (amUserID cmd) (amUserIDs cmd) (set existing) userSet, existing)))))))))"

definition membership_event :: "go_int \<Rightarrow> go_int \<Rightarrow> go_int list \<Rightarrow> json \<Rightarrow> ChangeLogEntry" where
  "membership_event c actor affected payload =
     \<lparr>lEventType = EventConversationMembership, lConversationID = Some c, lEntityID = Some c,
      lActorUserID = Some actor, lAffectedUserIDs = affected, lPayload = payload\<rparr>"

definition add_tx :: "Env \<Rightarrow> AddMembersCommand \<Rightarrow> go_int list \<Rightarrow> go_int list \<Rightarrow> unit body" where
  "add_tx env cmd addedIDs existing db =
     (let fl = nvFaults env; c = amConversationID cmd in
      rbind (AddMany fl (map (\<lambda>(k, i). newMembership c i RoleMember (nvClock env k)) (enumerate 0 addedIDs)) db) (\<lambda>db1.
      rbind (ChangeLogAppend fl
               [membership_event c (amUserID cmd) (existing @ addedIDs)
                  (JObj [(''conversation_id'', JInt c), (''added_user_ids'', JArr (map JInt addedIDs)),
                         (''actor_user_id'', JInt (amUserID cmd))])] db1) (\<lambda>db2. commit () db2)))"

definition AddMembers :: "Env \<Rightarrow> AddMembersCommand \<Rightarrow> ChatDB \<Rightarrow> (chat_error + AddMembersResult) \<times> ChatDB" where
  "AddMembers env cmd db =
     prepare (add_checks (nvFaults env) cmd db) (\<lambda>(addedIDs, skipped, existing) db.
       if addedIDs = [] then (Inr \<lparr>arAdded = [], arSkipped = skipped\<rparr>, db)
       else finish (transact (nvFaults env) (add_tx env cmd addedIDs existing) db)
              (\<lambda>_ _. Inr \<lparr>arAdded = map FormatInt addedIDs, arSkipped = skipped\<rparr>)) db"

section \<open>RemoveMember\<close>

record RemoveMemberCommand =
  rmUserID :: go_int
  rmConversationID :: go_int
  rmTargetUserID :: go_int

definition remove_allowed :: "Membership \<Rightarrow> Membership \<Rightarrow> chat_error + unit" where
  "remove_allowed caller target =
     (if mRole target = RoleOwner then Inl ErrCannotRemoveOwner
      else if mRole target = RoleAdmin \<and> mRole caller \<noteq> RoleOwner then Inl ErrInsufficientRole
      else if mRole caller = RoleMember then Inl ErrInsufficientRole
      else Inr ())"

definition remove_checks :: "faults \<Rightarrow> RemoveMemberCommand \<Rightarrow> ChatDB \<Rightarrow> chat_error + unit" where
  "remove_checks fl cmd db =
     rbind (ConversationFindByID fl db (rmConversationID cmd)) (\<lambda>c.
     rbind (requireMember fl db (cID c) (rmUserID cmd)) (\<lambda>caller.
     rbind (requireMember fl db (cID c) (rmTargetUserID cmd)) (\<lambda>target.
       if rmTargetUserID cmd \<noteq> rmUserID cmd then remove_allowed caller target else Inr ())))"

text \<open>
  The count of the remaining members goes through the pool, not the transaction: it reads the
  committed tables, which still hold the member being removed.
\<close>

definition remove_tx :: "Env \<Rightarrow> RemoveMemberCommand \<Rightarrow> unit body" where
  "remove_tx env cmd db =
     (let fl = nvFaults env; c = rmConversationID cmd; now = nvClock env 0 in
      rbind (MembershipRemove fl c (rmTargetUserID cmd) now db) (\<lambda>db1.
      rbind (CountActive fl db c) (\<lambda>remaining.
      rbind (if remaining = 0 then ConversationTombstone fl c now db1 else Inr db1) (\<lambda>db2.
      rbind (ActiveUserIDs fl db2 c) (\<lambda>affected.
      rbind (ChangeLogAppend fl
               [membership_event c (rmUserID cmd)
                  (if remaining = 0 then affected @ [rmTargetUserID cmd] else affected)
                  (JObj [(''conversation_id'', JInt c), (''removed_user_id'', JInt (rmTargetUserID cmd)),
                         (''actor_user_id'', JInt (rmUserID cmd))])] db2) (\<lambda>db3. commit () db3))))))"

definition RemoveMember :: "Env \<Rightarrow> RemoveMemberCommand \<Rightarrow> ChatDB \<Rightarrow> (chat_error + unit) \<times> ChatDB" where
  "RemoveMember env cmd db =
     prepare (remove_checks (nvFaults env) cmd db) (\<lambda>_ db. transact (nvFaults env) (remove_tx env cmd) db) db"

section \<open>ChangeMemberRole\<close>

record ChangeMemberRoleCommand =
  crcUserID :: go_int
  crcConversationID :: go_int
  crcTargetUserID :: go_int
  crcRole :: string

definition role_change_allowed :: "Membership \<Rightarrow> Membership \<Rightarrow> Role \<Rightarrow> chat_error + unit" where
  "role_change_allowed caller target newRole =
     (if newRole = RoleOwner \<and> mRole caller \<noteq> RoleOwner then Inl ErrOnlyOwnerMayChangeOwner
      else if \<not> AtLeast (mRole caller) RoleAdmin then Inl ErrInsufficientRole
      else if mRole target = RoleOwner then Inl ErrCannotDemoteOwner
      else if mRole target = RoleAdmin \<and> mRole caller \<noteq> RoleOwner then Inl ErrInsufficientRole
      else Inr ())"

text \<open>The checks hand on the target's row, as read, with the new role.\<close>

definition role_checks :: "faults \<Rightarrow> ChangeMemberRoleCommand \<Rightarrow> ChatDB \<Rightarrow> chat_error + Membership" where
  "role_checks fl cmd db =
     rbind (ConversationFindByID fl db (crcConversationID cmd)) (\<lambda>c.
     rbind (requireMember fl db (cID c) (crcUserID cmd)) (\<lambda>caller.
     rbind (case ParseRole (crcRole cmd) of
              Inl _ \<Rightarrow> Inl (ValidationError ''role'' ''invalid_role'') | Inr r \<Rightarrow> Inr r) (\<lambda>newRole.
     rbind (requireMember fl db (cID c) (crcTargetUserID cmd)) (\<lambda>target.
     rbind (role_change_allowed caller target newRole) (\<lambda>_.
       Inr (target\<lparr>mRole := newRole\<rparr>))))))"

definition role_tx :: "Env \<Rightarrow> ChangeMemberRoleCommand \<Rightarrow> Membership \<Rightarrow> (string \<times> string) body" where
  "role_tx env cmd target db =
     (let fl = nvFaults env; c = crcConversationID cmd in
      rbind (MembershipUpdate fl target db) (\<lambda>db1.
      rbind (ActiveUserIDs fl db1 c) (\<lambda>affected.
      rbind (ChangeLogAppend fl
               [membership_event c (crcUserID cmd) affected
                  (JObj [(''conversation_id'', JInt c), (''member_user_id'', JInt (crcTargetUserID cmd)),
                         (''role'', JStr (role_string (mRole target))),
                         (''actor_user_id'', JInt (crcUserID cmd))])] db1) (\<lambda>db2.
        commit (FormatInt (crcTargetUserID cmd), role_string (mRole target)) db2))))"

definition ChangeMemberRole ::
  "Env \<Rightarrow> ChangeMemberRoleCommand \<Rightarrow> ChatDB \<Rightarrow> (chat_error + string \<times> string) \<times> ChatDB" where
  "ChangeMemberRole env cmd db =
     prepare (role_checks (nvFaults env) cmd db) (\<lambda>target db. transact (nvFaults env) (role_tx env cmd target) db) db"

section \<open>Preferences (prefs.go)\<close>

definition pref_member :: "faults \<Rightarrow> go_int \<Rightarrow> go_int \<Rightarrow> ChatDB \<Rightarrow> chat_error + Membership" where
  "pref_member fl u c db =
     rbind (ConversationFindByID fl db c) (\<lambda>conv. requireMember fl db (cID conv) u)"

definition pref_tx :: "Env \<Rightarrow> Membership \<Rightarrow> Membership body" where
  "pref_tx env m db = rbind (MembershipUpdate (nvFaults env) m db) (\<lambda>db1. commit m db1)"

definition set_pref ::
  "Env \<Rightarrow> chat_error + Membership \<Rightarrow> ChatDB \<Rightarrow> (chat_error + Membership) \<times> ChatDB" where
  "set_pref env m db = prepare m (\<lambda>m db. transact (nvFaults env) (pref_tx env m) db) db"

definition muted :: "Env \<Rightarrow> go_time option \<Rightarrow> Membership \<Rightarrow> chat_error + Membership" where
  "muted env until m =
     rbind (ensure (\<not> (case until of None \<Rightarrow> False | Some t \<Rightarrow> \<not> nvClock env 0 < t))
              (ValidationError ''until'' ''must_be_in_the_future'')) (\<lambda>_. Inr (m\<lparr>mMutedUntil := until\<rparr>))"

definition pinned :: "Env \<Rightarrow> bool \<Rightarrow> Membership \<Rightarrow> Membership" where
  "pinned env p m = (if p then m\<lparr>mPinnedAt := Some (nvClock env 0), mArchivedAt := None\<rparr>
                     else m\<lparr>mPinnedAt := None\<rparr>)"

definition archived :: "Env \<Rightarrow> bool \<Rightarrow> Membership \<Rightarrow> Membership" where
  "archived env a m = (if a then m\<lparr>mArchivedAt := Some (nvClock env 0), mPinnedAt := None\<rparr>
                       else m\<lparr>mArchivedAt := None\<rparr>)"

definition SetMute ::
  "Env \<Rightarrow> go_int \<Rightarrow> go_int \<Rightarrow> go_time option \<Rightarrow> ChatDB \<Rightarrow> (chat_error + go_time option) \<times> ChatDB" where
  "SetMute env u c until db =
     finish (set_pref env (rbind (pref_member (nvFaults env) u c db) (muted env until)) db)
       (\<lambda>m _. Inr (mMutedUntil m))"

definition SetPin :: "Env \<Rightarrow> go_int \<Rightarrow> go_int \<Rightarrow> bool \<Rightarrow> ChatDB \<Rightarrow> (chat_error + bool) \<times> ChatDB" where
  "SetPin env u c p db =
     finish (set_pref env (rbind (pref_member (nvFaults env) u c db) (\<lambda>m. Inr (pinned env p m))) db)
       (\<lambda>m _. Inr (mPinnedAt m \<noteq> None))"

definition SetArchive :: "Env \<Rightarrow> go_int \<Rightarrow> go_int \<Rightarrow> bool \<Rightarrow> ChatDB \<Rightarrow> (chat_error + bool) \<times> ChatDB" where
  "SetArchive env u c a db =
     finish (set_pref env (rbind (pref_member (nvFaults env) u c db) (\<lambda>m. Inr (archived env a m))) db)
       (\<lambda>m _. Inr (mArchivedAt m \<noteq> None))"

section \<open>Store steps\<close>

lemma add_tx_step: "add_tx env cmd a e db = Inr (r, Some db') \<Longrightarrow> store_step db db'"
  by (auto simp: add_tx_def Let_def dest!: step_intros elim: store_step_trans)

lemma AddMembers_step: "store_step db (snd (AddMembers env cmd db))"
  unfolding AddMembers_def
  by (intro phase_steps) (auto intro: transact_step add_tx_step split: prod.splits)

lemma remove_tx_step: "remove_tx env cmd db = Inr (r, Some db') \<Longrightarrow> store_step db db'"
  by (auto simp: remove_tx_def Let_def dest!: step_intros split: if_splits) (meson store_step_trans)+

lemma RemoveMember_step: "store_step db (snd (RemoveMember env cmd db))"
  unfolding RemoveMember_def by (intro phase_steps) (erule remove_tx_step)

lemma role_tx_step: "role_tx env cmd m db = Inr (r, Some db') \<Longrightarrow> store_step db db'"
  by (auto simp: role_tx_def Let_def dest!: step_intros elim: store_step_trans)

lemma ChangeMemberRole_step: "store_step db (snd (ChangeMemberRole env cmd db))"
  unfolding ChangeMemberRole_def by (intro phase_steps) (erule role_tx_step)

lemma set_pref_step: "store_step db (snd (set_pref env m db))"
  unfolding set_pref_def by (intro phase_steps) (auto simp: pref_tx_def dest!: step_intros)

lemma SetPref_steps:
  "store_step db (snd (SetMute env u c t db))" "store_step db (snd (SetPin env u c p db))"
  "store_step db (snd (SetArchive env u c p db))"
  by (simp_all add: SetMute_def SetPin_def SetArchive_def set_pref_step)

end
