(* ===== verification/ChatMessages.thy ===== *)
theory ChatMessages
  imports ChatMembers
begin

text \<open>
  The message use cases besides sending: edit and delete (\<open>edit_delete.go\<close>), reactions
  (\<open>reactions.go\<close>), receipts (\<open>receipts.go\<close>) and history (\<open>history.go\<close>).
\<close>

section \<open>EditMessage\<close>

record EditMessageCommand =
  emUserID :: go_int
  emMessageID :: go_int
  emNewText :: string

text \<open>The checks hand on the message with its new content, and the content it replaces.\<close>

definition edit_checks :: "Env \<Rightarrow> EditMessageCommand \<Rightarrow> ChatDB \<Rightarrow> chat_error + (Message \<times> string)" where
  "edit_checks env cmd db =
     rbind (MessageFindByID (nvFaults env) db (emMessageID cmd)) (\<lambda>m.
     rbind (ensure (SenderOf m (emUserID cmd)) ErrNotSender) (\<lambda>_.
     rbind (ensure (\<not> Deleted m) ErrMessageDeleted) (\<lambda>_.
     rbind (ensure (Editable m (nvClock env 0)) ErrEditWindowExpired) (\<lambda>_.
     let text = TrimSpace (emNewText cmd) in
     rbind (ensure (text \<noteq> []) (ValidationError ''content.text'' ''required'')) (\<lambda>_.
     rbind (ensure (\<not> rune_count text > MaxMessageTextLen) (ValidationError ''content.text'' ''too_long'')) (\<lambda>_.
     rbind (from_opt ErrMessageNotEditable (gContent m)) (\<lambda>old.
       Inr (m\<lparr>gContent := Some text\<rparr>, old))))))))"

definition appendMessageEdited :: "faults \<Rightarrow> Message \<Rightarrow> ChatDB \<Rightarrow> chat_error + ChatDB" where
  "appendMessageEdited fl m db =
     rbind (ActiveUserIDs fl db (gConversationID m)) (\<lambda>members.
       ChangeLogAppend fl
         [\<lparr>lEventType = EventMessageEdited, lConversationID = Some (gConversationID m),
           lEntityID = Some (gID m), lActorUserID = gSenderID m, lAffectedUserIDs = members,
           lPayload = JObj [(''message_id'', JInt (gID m)), (''conversation_id'', JInt (gConversationID m)),
             (''sequence'', JInt (gSequence m)), (''content'', JObj [(''text'', jopt JStr (gContent m))]),
             (''edited_at'', jopt JTime (gEditedAt m)), (''global_seq'', JInt (gGlobalSeq m))]\<rparr>] db)"

definition edit_tx :: "Env \<Rightarrow> Message \<Rightarrow> string \<Rightarrow> go_int \<Rightarrow> Message body" where
  "edit_tx env m old editID db =
     (let fl = nvFaults env; now = nvClock env 1 in
      rbind (MessageEditRow fl editID m old now db) (\<lambda>(updated, db1).
      rbind (ensure updated ErrMessageNotFound) (\<lambda>_.
      rbind (appendMessageEdited fl m db1) (\<lambda>db2.
        commit (m\<lparr>gEditCount := gEditCount m + 1, gEditedAt := Some now\<rparr>) db2))))"

definition EditMessage :: "Env \<Rightarrow> EditMessageCommand \<Rightarrow> ChatDB \<Rightarrow> (chat_error + MessageView) \<times> ChatDB" where
  "EditMessage env cmd db =
     prepare (rbind (edit_checks env cmd db) (\<lambda>(m, old). rbind (NextID env) (\<lambda>i. Inr (m, old, i))))
       (\<lambda>(m, old, i) db.
          finish (transact (nvFaults env) (edit_tx env m old i) db)
            (\<lambda>m' db'. Inr (viewFor (nvFaults env) db' m'))) db"

section \<open>DeleteMessage\<close>

record DeleteMessageCommand =
  dmUserID :: go_int
  dmMessageID :: go_int
  dmMode :: string

text \<open>\<open>None\<close>: nothing to do, the message is already deleted.\<close>

definition delete_checks :: "Env \<Rightarrow> DeleteMessageCommand \<Rightarrow> ChatDB \<Rightarrow> chat_error + Message option" where
  "delete_checks env cmd db =
     rbind (MessageFindByID (nvFaults env) db (dmMessageID cmd)) (\<lambda>m.
     rbind (requireMember (nvFaults env) db (gConversationID m) (dmUserID cmd)) (\<lambda>mem.
     rbind (ensure (\<not> (\<not> SenderOf m (dmUserID cmd) \<and> \<not> AtLeast (mRole mem) RoleAdmin)) ErrNotSender) (\<lambda>_.
       Inr (if Deleted m then None else Some m))))"

definition appendMessageDeleted :: "faults \<Rightarrow> Message \<Rightarrow> go_int \<Rightarrow> go_time \<Rightarrow> ChatDB \<Rightarrow> chat_error + ChatDB" where
  "appendMessageDeleted fl m deletedBy at db =
     rbind (ActiveUserIDs fl db (gConversationID m)) (\<lambda>members.
       ChangeLogAppend fl
         [\<lparr>lEventType = EventMessageDeleted, lConversationID = Some (gConversationID m),
           lEntityID = Some (gID m), lActorUserID = gSenderID m, lAffectedUserIDs = members,
           lPayload = JObj [(''message_id'', JInt (gID m)), (''conversation_id'', JInt (gConversationID m)),
             (''sequence'', JInt (gSequence m)), (''mode'', JStr ''all''), (''deleted_by'', JInt deletedBy),
             (''deleted_at'', JTime at), (''global_seq'', JInt (gGlobalSeq m))]\<rparr>] db)"

definition delete_tx :: "Env \<Rightarrow> DeleteMessageCommand \<Rightarrow> Message \<Rightarrow> unit body" where
  "delete_tx env cmd m db =
     (let fl = nvFaults env; now = nvClock env 0 in
      rbind (MessageTombstone fl (gID m) (dmUserID cmd) now db) (\<lambda>(tombstoned, db1).
        if \<not> tombstoned then roll_back ()
        else rbind (appendMessageDeleted fl m (dmUserID cmd) now db1) (\<lambda>db2. commit () db2)))"

definition DeleteMessage ::
  "Env \<Rightarrow> DeleteMessageCommand \<Rightarrow> ChatDB \<Rightarrow> (chat_error + string \<times> string) \<times> ChatDB" where
  "DeleteMessage env cmd db =
     (let mode = (if dmMode cmd = [] then ''all'' else dmMode cmd); idStr = FormatInt (dmMessageID cmd) in
      if mode \<noteq> ''all'' \<and> mode \<noteq> ''self'' then (Inl (ValidationError ''mode'' ''invalid_mode''), db)
      else if mode = ''self'' then (Inr (''self'', idStr), db)
      else prepare (delete_checks env cmd db) (\<lambda>target db.
             case target of
               None \<Rightarrow> (Inr (''all'', idStr), db)
             | Some m \<Rightarrow> finish (transact (nvFaults env) (delete_tx env cmd m) db)
                           (\<lambda>_ _. Inr (''all'', idStr))) db)"

section \<open>Reactions\<close>

record ReactionCommand =
  rcUserID :: go_int
  rcMessageID :: go_int
  rcEmoji :: string

record ReactionResult =
  rsMessageID :: string
  rsEmoji :: string
  rsCount :: go_int

definition maxDistinctReactions :: int where "maxDistinctReactions = 20"

definition validateEmoji :: "string \<Rightarrow> chat_error + unit" where
  "validateEmoji emoji =
     (let e = TrimSpace emoji in
      rbind (ensure (e \<noteq> []) (ValidationError ''emoji'' ''required'')) (\<lambda>_.
        ensure (\<not> rune_count e > 16) (ValidationError ''emoji'' ''too_long'')))"

definition appendReactionEvent ::
  "faults \<Rightarrow> Message \<Rightarrow> go_int \<Rightarrow> string \<Rightarrow> bool \<Rightarrow> ChatDB \<Rightarrow> chat_error + ChatDB" where
  "appendReactionEvent fl m actor emoji added db =
     rbind (ActiveUserIDs fl db (gConversationID m)) (\<lambda>members.
       ChangeLogAppend fl
         [\<lparr>lEventType = EventMessageReaction, lConversationID = Some (gConversationID m),
           lEntityID = Some (gID m), lActorUserID = Some actor, lAffectedUserIDs = members,
           lPayload = JObj [(''message_id'', JInt (gID m)), (''conversation_id'', JInt (gConversationID m)),
             (''sequence'', JInt (gSequence m)), (''emoji'', JStr emoji), (''actor_id'', JInt actor),
             (''added'', JBool added), (''global_seq'', JInt (gGlobalSeq m))]\<rparr>] db)"

definition reaction_target :: "faults \<Rightarrow> ReactionCommand \<Rightarrow> ChatDB \<Rightarrow> chat_error + Message" where
  "reaction_target fl cmd db =
     rbind (validateEmoji (rcEmoji cmd)) (\<lambda>_.
     rbind (MessageFindByID fl db (rcMessageID cmd)) (\<lambda>m.
     rbind (requireMember fl db (gConversationID m) (rcUserID cmd)) (\<lambda>_. Inr m)))"

definition react_checks :: "Env \<Rightarrow> ReactionCommand \<Rightarrow> ChatDB \<Rightarrow> chat_error + (Message \<times> go_int)" where
  "react_checks env cmd db =
     (let fl = nvFaults env in
      rbind (reaction_target fl cmd db) (\<lambda>m.
      rbind (ensure (\<not> Deleted m) ErrMessageDeleted) (\<lambda>_.
      rbind (ReactionCount fl CallCountReaction db (gID m) (rcEmoji cmd)) (\<lambda>already.
      rbind (if already = 0
             then rbind (DistinctEmoji fl db (gID m)) (\<lambda>n. ensure (\<not> n \<ge> maxDistinctReactions) ErrReactionLimit)
             else Inr ()) (\<lambda>_.
      rbind (NextID env) (\<lambda>i. Inr (m, i)))))))"

definition react_tx :: "Env \<Rightarrow> ReactionCommand \<Rightarrow> Message \<Rightarrow> go_int \<Rightarrow> unit body" where
  "react_tx env cmd m i db =
     (let fl = nvFaults env in
      rbind (ReactionAdd fl \<lparr>rID = i, rMessageID = gID m, rUserID = rcUserID cmd, rEmoji = rcEmoji cmd,
                             rCreatedAt = nvClock env 0\<rparr> db) (\<lambda>(added, db1).
      rbind (if added then appendReactionEvent fl m (rcUserID cmd) (rcEmoji cmd) True db1 else Inr db1) (\<lambda>db2.
        commit () db2)))"

definition reaction_result :: "faults \<Rightarrow> ReactionCommand \<Rightarrow> Message \<Rightarrow> ChatDB \<Rightarrow> chat_error + ReactionResult" where
  "reaction_result fl cmd m db =
     rbind (ReactionCount fl CallCountReactionAfter db (gID m) (rcEmoji cmd)) (\<lambda>n.
       Inr \<lparr>rsMessageID = FormatInt (gID m), rsEmoji = rcEmoji cmd, rsCount = n\<rparr>)"

definition AddReaction :: "Env \<Rightarrow> ReactionCommand \<Rightarrow> ChatDB \<Rightarrow> (chat_error + ReactionResult) \<times> ChatDB" where
  "AddReaction env cmd db =
     prepare (react_checks env cmd db) (\<lambda>(m, i) db.
       finish (transact (nvFaults env) (react_tx env cmd m i) db)
         (\<lambda>_ db'. reaction_result (nvFaults env) cmd m db')) db"

definition unreact_tx :: "Env \<Rightarrow> ReactionCommand \<Rightarrow> Message \<Rightarrow> unit body" where
  "unreact_tx env cmd m db =
     (let fl = nvFaults env in
      rbind (ReactionRemove fl (gID m) (rcUserID cmd) (rcEmoji cmd) db) (\<lambda>(removed, db1).
      rbind (if removed then appendReactionEvent fl m (rcUserID cmd) (rcEmoji cmd) False db1 else Inr db1) (\<lambda>db2.
        commit () db2)))"

definition RemoveReaction :: "Env \<Rightarrow> ReactionCommand \<Rightarrow> ChatDB \<Rightarrow> (chat_error + ReactionResult) \<times> ChatDB" where
  "RemoveReaction env cmd db =
     prepare (rbind (reaction_target (nvFaults env) cmd db) (\<lambda>m.
                rbind (ensure (\<not> Deleted m) ErrMessageDeleted) (\<lambda>_. Inr m))) (\<lambda>m db.
       finish (transact (nvFaults env) (unreact_tx env cmd m) db)
         (\<lambda>_ db'. reaction_result (nvFaults env) cmd m db')) db"

definition ListReactions ::
  "faults \<Rightarrow> ReactionCommand \<Rightarrow> ChatDB \<Rightarrow> chat_error + (string \<times> (string \<times> string \<times> go_time) list)" where
  "ListReactions fl cmd db =
     rbind (reaction_target fl cmd db) (\<lambda>m.
     rbind (Reactors fl db (gID m) (rcEmoji cmd)) (\<lambda>reactors.
     rbind (if reactors \<noteq> [] then ListByIDs fl db (map fst reactors) else Inr []) (\<lambda>users.
       Inr (rcEmoji cmd, map (\<lambda>(u, at). (FormatInt u, displayNames users u, at)) reactors))))"

section \<open>Receipts\<close>

record MarkReadCommand =
  mkUserID :: go_int
  mkConversationID :: go_int
  mkReadSeq :: go_int
  mkDeliveredSeq :: "go_int option"

definition mark_checks :: "faults \<Rightarrow> MarkReadCommand \<Rightarrow> ChatDB \<Rightarrow> chat_error + (go_int \<times> go_int \<times> go_int)" where
  "mark_checks fl cmd db =
     rbind (ensure (\<not> mkReadSeq cmd \<le> 0) (ValidationError ''last_read_seq'' ''must_be_positive'')) (\<lambda>_.
     rbind (case mkDeliveredSeq cmd of
              None \<Rightarrow> Inr 0
            | Some d \<Rightarrow> rbind (ensure (\<not> d \<le> 0) (ValidationError ''deliver_up_to_seq'' ''must_be_positive'')) (\<lambda>_. Inr d)) (\<lambda>delivered.
     rbind (requireMember fl db (mkConversationID cmd) (mkUserID cmd)) (\<lambda>mem.
       Inr (delivered, mLastReadSeq mem, mLastDeliveredSeq mem))))"

definition read_event :: "MarkReadCommand \<Rightarrow> go_int \<Rightarrow> go_int list \<Rightarrow> go_time \<Rightarrow> ChangeLogEntry" where
  "read_event cmd effRead senders now =
     \<lparr>lEventType = EventReceiptRead, lConversationID = Some (mkConversationID cmd),
      lEntityID = Some (mkUserID cmd), lActorUserID = Some (mkUserID cmd), lAffectedUserIDs = senders,
      lPayload = JObj [(''conversation_id'', JInt (mkConversationID cmd)), (''user_id'', JInt (mkUserID cmd)),
        (''last_read_seq'', JInt effRead), (''at'', JTime now)]\<rparr>"

definition delivered_event :: "MarkReadCommand \<Rightarrow> go_int \<Rightarrow> ChangeLogEntry" where
  "delivered_event cmd effDelivered =
     \<lparr>lEventType = EventReceiptDelivered, lConversationID = Some (mkConversationID cmd),
      lEntityID = Some (mkUserID cmd), lActorUserID = Some (mkUserID cmd),
      lAffectedUserIDs = [mkUserID cmd],
      lPayload = JObj [(''conversation_id'', JInt (mkConversationID cmd)), (''user_id'', JInt (mkUserID cmd)),
        (''last_delivered_seq'', JInt effDelivered)]\<rparr>"

definition mark_tx :: "Env \<Rightarrow> MarkReadCommand \<Rightarrow> go_int \<Rightarrow> go_int \<Rightarrow> go_int \<Rightarrow> (string \<times> string) body" where
  "mark_tx env cmd delivered beforeRead beforeDelivered db =
     (let fl = nvFaults env; now = nvClock env 0; c = mkConversationID cmd;
          effRead = max beforeRead (mkReadSeq cmd);
          effDelivered = max beforeDelivered (max delivered (mkReadSeq cmd)) in
      rbind (MembershipMarkRead fl c (mkUserID cmd) (mkReadSeq cmd) delivered now db) (\<lambda>((advRead, advDelivered), db1).
      rbind (if advRead \<and> effRead > beforeRead
             then rbind (SenderIDsBetween fl db1 c beforeRead effRead) (\<lambda>senders.
                    if senders \<noteq> [] then ChangeLogAppend fl [read_event cmd effRead senders now] db1
                    else Inr db1)
             else Inr db1) (\<lambda>db2.
      rbind (if advDelivered \<and> effDelivered > beforeDelivered
             then ChangeLogAppend fl [delivered_event cmd effDelivered] db2 else Inr db2) (\<lambda>db3.
        commit (FormatInt effRead, FormatInt effDelivered) db3))))"

definition MarkRead :: "Env \<Rightarrow> MarkReadCommand \<Rightarrow> ChatDB \<Rightarrow> (chat_error + string \<times> string) \<times> ChatDB" where
  "MarkRead env cmd db =
     prepare (mark_checks (nvFaults env) cmd db) (\<lambda>(delivered, beforeRead, beforeDelivered) db.
       transact (nvFaults env) (mark_tx env cmd delivered beforeRead beforeDelivered) db) db"

record ReaderView =
  rdUserID :: string
  rdDisplayName :: string
  rdLastReadSeq :: string
  rdLastReadAt :: "go_time option"

definition GetReceipts ::
  "faults \<Rightarrow> go_int \<Rightarrow> go_int \<Rightarrow> ChatDB \<Rightarrow> chat_error + (string \<times> string option \<times> ReaderView list)" where
  "GetReceipts fl u c db =
     rbind (requireMember fl db c u) (\<lambda>_.
     rbind (ConversationFindByID fl db c) (\<lambda>conv.
     rbind (ListReceipts fl db c) (\<lambda>receipts.
     rbind (if receipts \<noteq> [] then ListByIDs fl db (map rrUserID receipts) else Inr []) (\<lambda>users.
       Inr (FormatInt c, seqString (cLastMessageSeq conv),
            map (\<lambda>r. \<lparr>rdUserID = FormatInt (rrUserID r), rdDisplayName = displayNames users (rrUserID r),
                      rdLastReadSeq = FormatInt (rrLastReadSeq r), rdLastReadAt = rrLastReadAt r\<rparr>) receipts)))))"

section \<open>History\<close>

record ListMessagesCommand =
  lsUserID :: go_int
  lsConversationID :: go_int
  lsCursor :: string
  lsBeforeSeq :: "go_int option"
  lsAfterGlobalSeq :: "go_int option"
  lsLimit :: int

record MessageListResult =
  lrItems :: "MessageView list"
  lrNext :: "string option"
  lrHasMore :: bool
  lrLimit :: nat

definition list_seek :: "ListMessagesCommand \<Rightarrow> chat_error + (go_int option \<times> go_int option)" where
  "list_seek cmd =
     rbind (if lsCursor cmd \<noteq> [] then decodeMessageCursor (lsCursor cmd)
            else Inr (lsBeforeSeq cmd, lsAfterGlobalSeq cmd)) (\<lambda>(before, after).
     rbind (ensure (\<not> (before \<noteq> None \<and> after \<noteq> None)) (ValidationError ''cursor'' ''incompatible_seeks'')) (\<lambda>_.
       Inr (before, after)))"

definition ListMessages :: "faults \<Rightarrow> ListMessagesCommand \<Rightarrow> ChatDB \<Rightarrow> chat_error + MessageListResult" where
  "ListMessages fl cmd db =
     rbind (ConversationFindByID fl db (lsConversationID cmd)) (\<lambda>_.
     rbind (requireMember fl db (lsConversationID cmd) (lsUserID cmd)) (\<lambda>_.
     rbind (list_seek cmd) (\<lambda>(before, after).
     let limit = clamp_limit (lsLimit cmd) in
     rbind (ListByConversation fl db
              \<lparr>qgConversationID = lsConversationID cmd, qgBeforeSeq = before, qgAfterGlobalSeq = after,
               qgLimit = limit + 1\<rparr>) (\<lambda>found.
     let hasMore = length found > limit;
         rows = (if hasMore then take limit found else found) in
     rbind (enrichPage fl db rows) (\<lambda>e.
       Inr (if after \<noteq> None
            then \<lparr>lrItems = map (\<lambda>m. messageView m e) rows,
                  lrNext = (if rows \<noteq> [] then Some (encodeMessageCursor ''g'' (gGlobalSeq (last rows))) else None),
                  lrHasMore = hasMore, lrLimit = limit\<rparr>
            else \<lparr>lrItems = map (\<lambda>m. messageView m e) (rev rows),
                  lrNext = (if hasMore \<and> rows \<noteq> [] then Some (encodeMessageCursor ''s'' (gSequence (last rows))) else None),
                  lrHasMore = hasMore, lrLimit = limit\<rparr>))))))"

definition GetMessage :: "faults \<Rightarrow> go_int \<Rightarrow> go_int \<Rightarrow> ChatDB \<Rightarrow> chat_error + MessageView" where
  "GetMessage fl u i db =
     rbind (MessageFindByID fl db i) (\<lambda>m.
     rbind (requireMember fl db (gConversationID m) u) (\<lambda>_. Inr (viewFor fl db m)))"

section \<open>Store steps\<close>

lemma edit_tx_step: "edit_tx env m old i db = Inr (r, Some db') \<Longrightarrow> store_step db db'"
  by (auto simp: edit_tx_def Let_def appendMessageEdited_def dest!: step_intros elim: store_step_trans)

lemma EditMessage_step: "store_step db (snd (EditMessage env cmd db))"
  unfolding EditMessage_def
  by (intro phase_steps) (auto intro: transact_step edit_tx_step split: prod.splits)

lemma delete_tx_step: "delete_tx env cmd m db = Inr (r, Some db') \<Longrightarrow> store_step db db'"
  by (auto simp: delete_tx_def Let_def appendMessageDeleted_def split: if_splits dest!: step_intros
      elim: store_step_trans)

lemma DeleteMessage_step: "store_step db (snd (DeleteMessage env cmd db))"
proof -
  have "store_step db (snd (prepare (delete_checks env cmd db) (\<lambda>target db.
             case target of
               None \<Rightarrow> (Inr (''all'', idStr), db)
             | Some m \<Rightarrow> finish (transact (nvFaults env) (delete_tx env cmd m) db)
                           (\<lambda>_ _. Inr (''all'', idStr))) db))" for idStr :: string
    by (intro phase_steps) (auto intro: transact_step delete_tx_step split: option.splits)
  then show ?thesis by (simp add: DeleteMessage_def Let_def)
qed

lemma react_tx_step: "react_tx env cmd m i db = Inr (r, Some db') \<Longrightarrow> store_step db db'"
  by (auto simp: react_tx_def Let_def appendReactionEvent_def split: if_splits dest!: step_intros
      elim: store_step_trans)

lemma AddReaction_step: "store_step db (snd (AddReaction env cmd db))"
  unfolding AddReaction_def
  by (intro phase_steps) (auto intro: transact_step react_tx_step split: prod.splits)

lemma unreact_tx_step: "unreact_tx env cmd m db = Inr (r, Some db') \<Longrightarrow> store_step db db'"
  by (auto simp: unreact_tx_def Let_def appendReactionEvent_def split: if_splits dest!: step_intros
      elim: store_step_trans)

lemma RemoveReaction_step: "store_step db (snd (RemoveReaction env cmd db))"
  unfolding RemoveReaction_def by (intro phase_steps) (erule unreact_tx_step)

lemma mark_tx_step: "mark_tx env cmd d a b db = Inr (r, Some db') \<Longrightarrow> store_step db db'"
  by (auto simp: mark_tx_def Let_def split: if_splits dest!: step_intros)
    (meson store_step_trans)+

lemma MarkRead_step: "store_step db (snd (MarkRead env cmd db))"
  unfolding MarkRead_def
  by (intro phase_steps) (auto intro: transact_step mark_tx_step split: prod.splits)

end
