(* ===== verification/ChatSystem.thy ===== *)
theory ChatSystem
  imports ChatMessages SendProofs
begin

text \<open>
  The chat module as a whole.  \<open>tx_step\<close> is every transaction any request can commit, with
  whatever an earlier read put into it, so its runs cover all interleavings of requests at the
  granularity of transactions; the invariants that hold of its runs hold whatever happens
  concurrently.  \<open>serve\<close> runs whole requests one after the other.
\<close>

section \<open>Every transaction\<close>

inductive tx_step :: "ChatDB \<Rightarrow> ChatDB \<Rightarrow> bool" where
  tx_create: "create_tx env cmd ctype others i db = Inr (x, Some db') \<Longrightarrow> tx_step db db'"
| tx_update: "update_tx env ucmd c affected db = Inr (x, Some db') \<Longrightarrow> tx_step db db'"
| tx_add: "add_tx env acmd added existing db = Inr (x, Some db') \<Longrightarrow> tx_step db db'"
| tx_remove: "remove_tx env rcmd db = Inr (x, Some db') \<Longrightarrow> tx_step db db'"
| tx_role: "role_tx env lcmd m db = Inr (y, Some db') \<Longrightarrow> tx_step db db'"
| tx_pref: "pref_tx env m db = Inr (m', Some db') \<Longrightarrow> tx_step db db'"
| tx_send: "gConversationID msg = smConversationID scmd \<Longrightarrow>
              send_tx at scmd msg db = Inr (z, Some db') \<Longrightarrow> tx_step db db'"
| tx_edit: "edit_tx env msg old i db = Inr (msg', Some db') \<Longrightarrow> tx_step db db'"
| tx_delete: "delete_tx env dcmd msg db = Inr (x, Some db') \<Longrightarrow> tx_step db db'"
| tx_react: "react_tx env tcmd msg i db = Inr (x, Some db') \<Longrightarrow> tx_step db db'"
| tx_unreact: "unreact_tx env tcmd msg db = Inr (x, Some db') \<Longrightarrow> tx_step db db'"
| tx_mark: "mark_tx env kcmd d b1 b2 db = Inr (y, Some db') \<Longrightarrow> tx_step db db'"
| tx_allocate: "nextFromPG c db = Inr (s, db') \<Longrightarrow> tx_step db db'"

lemma tx_step_store: "tx_step db db' \<Longrightarrow> store_step db db'"
  by (erule tx_step.cases)
    (auto simp: pref_tx_def dest: create_tx_step update_tx_step add_tx_step remove_tx_step role_tx_step
      send_tx_step edit_tx_step delete_tx_step react_tx_step unreact_tx_step mark_tx_step nextFromPG_step
      MembershipUpdate_step)

definition tx_run :: "ChatDB \<Rightarrow> ChatDB \<Rightarrow> bool" where
  "tx_run = tx_step\<^sup>*\<^sup>*"

lemma tx_run_refl [simp]: "tx_run db db"
  by (simp add: tx_run_def)

lemma tx_run_trans [trans]: "tx_run db db' \<Longrightarrow> tx_run db' db'' \<Longrightarrow> tx_run db db''"
  unfolding tx_run_def by (rule rtranclp_trans)

lemma tx_step_run: "tx_step db db' \<Longrightarrow> tx_run db db'"
  unfolding tx_run_def by (rule r_into_rtranclp)

lemma tx_run_invariant:
  assumes "tx_run db db'" and "P db" and "\<And>a b. tx_step a b \<Longrightarrow> P a \<Longrightarrow> P b"
  shows "P db'"
  using assms(1) unfolding tx_run_def
  by (induction rule: rtranclp_induct) (use assms in blast)+

lemma tx_run_store: "tx_run db db' \<Longrightarrow> store_step db db'"
  by (rule tx_run_invariant [where P = "store_step db"]) (auto intro: store_step_trans tx_step_store)

section \<open>Whole requests\<close>

datatype request =
    ReqCreate Env CreateConversationCommand
  | ReqUpdate Env UpdateConversationCommand
  | ReqAdd Env AddMembersCommand
  | ReqRemove Env RemoveMemberCommand
  | ReqRole Env ChangeMemberRoleCommand
  | ReqMute Env go_int go_int "go_time option"
  | ReqPin Env go_int go_int bool
  | ReqArchive Env go_int go_int bool
  | ReqSend SendEnv SendMessageCommand
  | ReqEdit Env EditMessageCommand
  | ReqDelete Env DeleteMessageCommand
  | ReqReact Env ReactionCommand
  | ReqUnreact Env ReactionCommand
  | ReqMarkRead Env MarkReadCommand
  | RedisRestart

definition on_db :: "(ChatDB \<Rightarrow> 'r \<times> ChatDB) \<Rightarrow> World \<Rightarrow> World" where
  "on_db f w = w\<lparr>wDB := snd (f (wDB w))\<rparr>"

lemma wDB_on_db [simp]: "wDB (on_db f w) = snd (f (wDB w))"
  by (simp add: on_db_def)

fun serve :: "request \<Rightarrow> World \<Rightarrow> World" where
  "serve (ReqCreate env cmd) w = on_db (CreateConversation env cmd) w"
| "serve (ReqUpdate env cmd) w = on_db (UpdateConversation env cmd) w"
| "serve (ReqAdd env cmd) w = on_db (AddMembers env cmd) w"
| "serve (ReqRemove env cmd) w = on_db (RemoveMember env cmd) w"
| "serve (ReqRole env cmd) w = on_db (ChangeMemberRole env cmd) w"
| "serve (ReqMute env u c t) w = on_db (SetMute env u c t) w"
| "serve (ReqPin env u c p) w = on_db (SetPin env u c p) w"
| "serve (ReqArchive env u c a) w = on_db (SetArchive env u c a) w"
| "serve (ReqSend env cmd) w = snd (SendMessage env cmd w)"
| "serve (ReqEdit env cmd) w = on_db (EditMessage env cmd) w"
| "serve (ReqDelete env cmd) w = on_db (DeleteMessage env cmd) w"
| "serve (ReqReact env cmd) w = on_db (AddReaction env cmd) w"
| "serve (ReqUnreact env cmd) w = on_db (RemoveReaction env cmd) w"
| "serve (ReqMarkRead env cmd) w = on_db (MarkRead env cmd) w"
| "serve RedisRestart w = redis_flush w"

definition serve_all :: "request list \<Rightarrow> World \<Rightarrow> World" where
  "serve_all rs w = fold serve rs w"

lemma serve_all_simps [simp]:
  "serve_all [] w = w" "serve_all (r # rs) w = serve_all rs (serve r w)"
  by (simp_all add: serve_all_def)

text \<open>A request is a run of transactions: what the invariants of \<open>tx_run\<close> need.\<close>

lemma prepare_run: "(\<And>x. p = Inr x \<Longrightarrow> tx_run db (snd (k x db))) \<Longrightarrow> tx_run db (snd (prepare p k db))"
  by (rule snd_prepare) simp_all

lemma transact_run:
  "(\<And>r db'. body db = Inr (r, Some db') \<Longrightarrow> tx_step db db') \<Longrightarrow> tx_run db (snd (transact fl body db))"
  by (rule snd_transact) (auto intro: tx_step_run)

lemma finish_run: "tx_run db (snd x) \<Longrightarrow> tx_run db (snd (finish x f))"
  by simp

lemmas phase_runs = prepare_run transact_run finish_run

lemma SequenceNext_run: "tx_run (wDB w) (wDB (snd (SequenceNext env c w)))"
  using SequenceNext_wDB [of env c w] by (auto intro: tx_step_run tx_allocate)

lemma sendOnce_run: "tx_run (wDB w) (wDB (snd (sendOnce at cmd mtype rp w)))"
proof -
  obtain res w1 where n: "SequenceNext (atSeq at) (smConversationID cmd) w = (res, w1)" by fastforce
  then have r: "tx_run (wDB w) (wDB w1)"
    using SequenceNext_run [of w "atSeq at" "smConversationID cmd"] by simp
  show ?thesis
  proof (cases res)
    case (Inl e)
    with n r show ?thesis by (simp add: sendOnce_def)
  next
    case (Inr seq)
    have "tx_run (wDB w1) (snd (prepare (NextID (atEnv at))
            (\<lambda>msgID db. finish (transact (nvFaults (atEnv at))
               (send_tx at cmd (new_message cmd mtype rp seq msgID (nvClock (atEnv at) 0))) db)
               (\<lambda>(m, created) db'. Inr \<lparr>srView = viewFor (nvFaults (atEnv at)) db' m, srCreated = created\<rparr>))
            (wDB w1)))"
      by (intro phase_runs) (erule tx_send [rotated], simp add: new_message_def)
    with n r Inr show ?thesis
      by (auto simp: sendOnce_def Let_def split: prod.splits intro: tx_run_trans)
  qed
qed

lemma send_loop_run: "tx_run (wDB w) (wDB (snd (send_loop n i env cmd mtype rp w)))"
proof (induction n arbitrary: i w)
  case 0
  then show ?case by simp
next
  case (Suc n)
  obtain res w1 where o: "sendOnce (seAttempt env i) cmd mtype rp w = (res, w1)" by fastforce
  then have s: "tx_run (wDB w) (wDB w1)"
    using sendOnce_run [of w "seAttempt env i" cmd mtype rp] by simp
  have "tx_run (wDB w) (wDB (snd (send_loop n (Suc i) env cmd mtype rp w1)))"
    using s Suc.IH by (rule tx_run_trans)
  with o s show ?case by (auto split: sum.splits)
qed

lemma set_pref_run: "tx_run db (snd (set_pref env m db))"
  unfolding set_pref_def by (intro phase_runs) (erule tx_pref)

lemma DeleteMessage_run: "tx_run db (snd (DeleteMessage env cmd db))"
proof -
  have "tx_run db (snd (prepare (delete_checks env cmd db) (\<lambda>target db.
             case target of
               None \<Rightarrow> (Inr (''all'', idStr), db)
             | Some m \<Rightarrow> finish (transact (nvFaults env) (delete_tx env cmd m) db)
                           (\<lambda>_ _. Inr (''all'', idStr))) db))" for idStr :: string
    by (intro phase_runs) (auto intro: transact_run tx_delete split: option.splits)
  then show ?thesis by (simp add: DeleteMessage_def Let_def)
qed

lemma serve_run: "tx_run (wDB w) (wDB (serve r w))"
proof (cases r)
  case (ReqCreate env cmd)
  show ?thesis
    unfolding ReqCreate serve.simps wDB_on_db CreateConversation_def create_commit_def
    by (intro phase_runs) (auto intro!: phase_runs intro: tx_create split: sum.splits)
next
  case (ReqUpdate env cmd)
  show ?thesis
    unfolding ReqUpdate serve.simps wDB_on_db UpdateConversation_def
    by (intro phase_runs) (auto intro!: transact_run intro: tx_update split: prod.splits)
next
  case (ReqAdd env cmd)
  show ?thesis
    unfolding ReqAdd serve.simps wDB_on_db AddMembers_def
    by (intro phase_runs) (auto intro!: transact_run intro: tx_add split: prod.splits)
next
  case (ReqRemove env cmd)
  show ?thesis
    unfolding ReqRemove serve.simps wDB_on_db RemoveMember_def
    by (intro phase_runs) (erule tx_remove)
next
  case (ReqRole env cmd)
  show ?thesis
    unfolding ReqRole serve.simps wDB_on_db ChangeMemberRole_def
    by (intro phase_runs) (erule tx_role)
next
  case (ReqSend env cmd)
  then show ?thesis by (auto simp: SendMessage_def send_loop_run split: sum.splits)
next
  case (ReqEdit env cmd)
  show ?thesis
    unfolding ReqEdit serve.simps wDB_on_db EditMessage_def
    by (intro phase_runs) (auto intro!: transact_run intro: tx_edit split: prod.splits)
next
  case (ReqReact env cmd)
  show ?thesis
    unfolding ReqReact serve.simps wDB_on_db AddReaction_def
    by (intro phase_runs) (auto intro!: transact_run intro: tx_react split: prod.splits)
next
  case (ReqUnreact env cmd)
  show ?thesis
    unfolding ReqUnreact serve.simps wDB_on_db RemoveReaction_def
    by (intro phase_runs) (erule tx_unreact)
next
  case (ReqMarkRead env cmd)
  show ?thesis
    unfolding ReqMarkRead serve.simps wDB_on_db MarkRead_def
    by (intro phase_runs) (auto intro!: transact_run intro: tx_mark split: prod.splits)
qed (simp_all add: SetMute_def SetPin_def SetArchive_def set_pref_run DeleteMessage_run redis_flush_def)

lemma serve_all_run: "tx_run (wDB w) (wDB (serve_all rs w))"
  by (induction rs arbitrary: w) (auto intro: tx_run_trans serve_run)

end
