(* ===== verification/ChatSafety.thy ===== *)
theory ChatSafety
  imports ChatSystem
begin

text \<open>
  Invariants of the chat module: of every interleaving of its transactions (the allocator's
  floor), and of requests served one after the other (member cap, reaction cap, direct chats).
\<close>

section \<open>The durable floor covers every message\<close>

definition floors_ok :: "ChatDB \<Rightarrow> bool" where
  "floors_ok db \<longleftrightarrow>
     (\<forall>m \<in> set (tMessages db). conversation_exists db (gConversationID m))
   \<and> (\<forall>c. conversation_exists db c \<longrightarrow> floor_covers db c)"

definition covered :: "(go_int \<times> go_int) list \<Rightarrow> (go_int \<times> go_int) list \<Rightarrow> go_int \<Rightarrow> bool" where
  "covered floors slots c \<longleftrightarrow>
     (\<exists>f. map_of floors c = Some f \<and> 0 \<le> f \<and> (\<forall>s \<in> set slots. fst s = c \<longrightarrow> snd s \<le> f))"

lemma floor_covers_covered: "floor_covers db c \<longleftrightarrow> covered (tSequences db) (map message_slot (tMessages db)) c"
  by (auto simp: floor_covers_def covered_def floor_of_def message_slot_def)

lemma floors_ok_iff:
  "floors_ok db \<longleftrightarrow>
     (\<forall>s \<in> set (map message_slot (tMessages db)). fst s \<in> set (map cID (tConversations db)))
   \<and> (\<forall>c \<in> set (map cID (tConversations db)). covered (tSequences db) (map message_slot (tMessages db)) c)"
  by (auto simp: floors_ok_def floor_covers_covered conversation_exists_def message_slot_def)

lemma floors_ok_cong:
  assumes "floors_ok db" and "map message_slot (tMessages db') = map message_slot (tMessages db)"
    and "map cID (tConversations db') = map cID (tConversations db)" and "tSequences db' = tSequences db"
  shows "floors_ok db'"
  using assms(1) unfolding floors_ok_iff assms(2-4) .

text \<open>Most statements touch neither messages' slots, nor conversations' ids, nor floors.\<close>

definition slots_kept :: "ChatDB \<Rightarrow> ChatDB \<Rightarrow> bool" where
  "slots_kept db db' \<longleftrightarrow>
     map message_slot (tMessages db') = map message_slot (tMessages db)
   \<and> map cID (tConversations db') = map cID (tConversations db) \<and> tSequences db' = tSequences db"

lemma slots_kept_trans: "slots_kept a b \<Longrightarrow> slots_kept b c \<Longrightarrow> slots_kept a c"
  by (simp add: slots_kept_def)

lemma slots_kept_floors: "slots_kept a b \<Longrightarrow> floors_ok a \<Longrightarrow> floors_ok b"
  by (auto simp: slots_kept_def intro: floors_ok_cong)

lemma slots_kept_statements:
  "ConversationUpdate fl c db = Inr d \<Longrightarrow> slots_kept db d"
  "ConversationTombstone fl i at db = Inr d \<Longrightarrow> slots_kept db d"
  "AddMany fl ms db = Inr d \<Longrightarrow> slots_kept db d"
  "MembershipUpdate fl m db = Inr d \<Longrightarrow> slots_kept db d"
  "MembershipRemove fl k u at db = Inr d \<Longrightarrow> slots_kept db d"
  "MembershipMarkRead fl k u r s at db = Inr (adv, d) \<Longrightarrow> slots_kept db d"
  "MessageEditRow fl i g old at db = Inr (b, d) \<Longrightarrow> slots_kept db d"
  "MessageTombstone fl i k at db = Inr (b, d) \<Longrightarrow> slots_kept db d"
  "ReactionAdd fl x db = Inr (b, d) \<Longrightarrow> slots_kept db d"
  "ReactionRemove fl i u e db = Inr (b, d) \<Longrightarrow> slots_kept db d"
  "ChangeLogAppend fl es db = Inr d \<Longrightarrow> slots_kept db d"
  by (auto simp: slots_kept_def ConversationUpdate_def ConversationTombstone_def AddMany_def
      MembershipUpdate_def MembershipRemove_def MembershipMarkRead_def MessageEditRow_def
      MessageTombstone_def ReactionAdd_def ReactionRemove_def ChangeLogAppend_def message_slot_def Let_def
      split: if_splits option.splits)

lemma tx_slots_kept:
  "update_tx env ucmd c affected db = Inr (x, Some db') \<Longrightarrow> slots_kept db db'"
  "add_tx env acmd added existing db = Inr (x, Some db') \<Longrightarrow> slots_kept db db'"
  "remove_tx env rcmd db = Inr (x, Some db') \<Longrightarrow> slots_kept db db'"
  "role_tx env lcmd m db = Inr (y, Some db') \<Longrightarrow> slots_kept db db'"
  "pref_tx env m db = Inr (m', Some db') \<Longrightarrow> slots_kept db db'"
  "edit_tx env msg old i db = Inr (msg', Some db') \<Longrightarrow> slots_kept db db'"
  "delete_tx env dcmd msg db = Inr (x, Some db') \<Longrightarrow> slots_kept db db'"
  "react_tx env tcmd msg i db = Inr (x, Some db') \<Longrightarrow> slots_kept db db'"
  "unreact_tx env tcmd msg db = Inr (x, Some db') \<Longrightarrow> slots_kept db db'"
  "mark_tx env kcmd d b1 b2 db = Inr (y, Some db') \<Longrightarrow> slots_kept db db'"
  by (auto simp: update_tx_def add_tx_def remove_tx_def role_tx_def pref_tx_def edit_tx_def delete_tx_def
      react_tx_def unreact_tx_def mark_tx_def Let_def appendMessageEdited_def appendMessageDeleted_def
      appendReactionEvent_def split: if_splits dest!: slots_kept_statements)
    (meson slots_kept_trans)+

lemma floors_ok_create:
  assumes "create_tx env cmd ctype others i db = Inr (x, Some db')" and "floors_ok db"
    and fresh: "\<And>f. map_of (tSequences db) i = Some f \<Longrightarrow> 0 \<le> f"
  shows "floors_ok db'"
proof -
  obtain d1 d2 d3 where s:
    "ConversationCreate (nvFaults env) (new_conversation cmd ctype i (nvClock env 0)) db = Inr d1"
    "AddMany (nvFaults env) (new_members cmd ctype others i (nvClock env 0)) d1 = Inr d2"
    "SequenceInit (nvFaults env) i d2 = Inr d3"
    "ChangeLogAppend (nvFaults env) (created_events cmd ctype others i (nvClock env 0)) d3 = Inr db'"
    using assms(1) by (auto simp: create_tx_def Let_def)
  have new: "\<not> conversation_exists db i" "map cID (tConversations d1) = map cID (tConversations db) @ [i]"
    "tMessages d1 = tMessages db" "tSequences d1 = tSequences db"
    using s(1) by (auto simp: ConversationCreate_def new_conversation_def)
  have k2: "slots_kept d1 d2" and k4: "slots_kept d3 db'"
    using slots_kept_statements(3) [OF s(2)] slots_kept_statements(11) [OF s(4)] .
  have ids: "map cID (tConversations d3) = map cID (tConversations db) @ [i]"
    "map message_slot (tMessages d3) = map message_slot (tMessages db)"
    "tSequences d3 = (if i \<in> fst ` set (tSequences db) then tSequences db else tSequences db @ [(i, 0)])"
    using s(3) k2 new by (simp_all add: SequenceInit_def slots_kept_def split: if_splits) force+
  have ex: "conversation_exists d3 c \<longleftrightarrow> conversation_exists db c \<or> c = i" for c
    using arg_cong [OF ids(1), of set] by (auto simp: conversation_exists_def)
  have none: "\<forall>s \<in> set (map message_slot (tMessages db)). fst s \<noteq> i"
    using assms(2) new(1) by (auto simp: floors_ok_def message_slot_def)
  have old: "covered (tSequences d3) (map message_slot (tMessages db)) c" if "conversation_exists db c" for c
  proof -
    have "covered (tSequences db) (map message_slot (tMessages db)) c"
      using assms(2) that by (simp add: floors_ok_def floor_covers_covered)
    then obtain f where "map_of (tSequences db) c = Some f" "0 \<le> f"
      "\<forall>s \<in> set (map message_slot (tMessages db)). fst s = c \<longrightarrow> snd s \<le> f"
      unfolding covered_def by blast
    then show ?thesis unfolding covered_def ids(3) by (intro exI [of _ f]) (simp add: map_add_def)
  qed
  have "covered (tSequences d3) (map message_slot (tMessages db)) i"
  proof (cases "map_of (tSequences db) i")
    case None
    then have "i \<notin> fst ` set (tSequences db)" by (simp add: map_of_eq_None_iff)
    then show ?thesis using none by (auto simp: covered_def ids(3) map_add_def None)
  next
    case (Some f)
    then have "i \<in> fst ` set (tSequences db)" by (metis map_of_eq_None_iff option.distinct(1))
    then show ?thesis using none Some fresh by (auto simp: covered_def ids(3))
  qed
  with old have "floor_covers d3 c" if "conversation_exists d3 c" for c
    using that by (auto simp: floor_covers_covered ids(2) ex)
  moreover have "\<forall>s \<in> set (map message_slot (tMessages d3)). conversation_exists d3 (fst s)"
    using assms(2) by (auto simp: ids(2) ex floors_ok_def message_slot_def)
  ultimately have "floors_ok d3" by (simp add: floors_ok_def message_slot_def)
  with k4 show ?thesis by (rule slots_kept_floors)
qed

lemma map_of_raise:
  "map_of (upd_where (\<lambda>r. fst r = d) (\<lambda>(k, n). (k, g (k, n))) floors) c
     = (if c = d then map_option (\<lambda>n. g (c, n)) (map_of floors c) else map_of floors c)"
  by (induction floors) auto

lemma covered_raise:
  assumes "covered floors slots c" and "\<And>k n. n \<le> g (k, n)"
  shows "covered (upd_where (\<lambda>r. fst r = d) (\<lambda>(k, n). (k, g (k, n))) floors) slots c"
  using assms by (fastforce simp: covered_def map_of_raise intro: order_trans)

lemma floors_ok_raise:
  assumes "floors_ok db" and "\<And>k n. n \<le> g (k, n)"
  shows "floors_ok (db\<lparr>tSequences := upd_where (\<lambda>r. fst r = d) (\<lambda>(k, n). (k, g (k, n))) (tSequences db)\<rparr>)"
  using assms covered_raise [of "tSequences db" _ _ g d]
  by (simp add: floors_ok_def floor_covers_covered conversation_exists_def)

lemma floors_ok_allocate: "nextFromPG c db = Inr (s, db') \<Longrightarrow> floors_ok db \<Longrightarrow> floors_ok db'"
  using floors_ok_raise [of db "\<lambda>(k, n). n + 1" c] by (auto simp: nextFromPG_def split: option.splits)

lemma floors_ok_send:
  assumes "send_tx at cmd msg db = Inr (x, Some db')" and "gConversationID msg = smConversationID cmd"
    and "floors_ok db"
  shows "floors_ok db'"
proof -
  note e = send_tx_effect [OF assms(1,2)]
  let ?c = "smConversationID cmd"
  let ?d = "db\<lparr>tSequences := upd_where (\<lambda>r. fst r = ?c) (\<lambda>(k, n). (k, max n (gSequence msg))) (tSequences db)\<rparr>"
  obtain ins d1 where "MessageInsert (nvFaults (atEnv at)) msg db = Inr (Some ins, d1)"
    using assms(1) by (auto elim: send_tx_Some)
  then have ex: "conversation_exists db ?c"
    using assms(2) by (auto simp: message_refs_def dest: MessageInsert_new)
  have ok: "floors_ok ?d" using floors_ok_raise [of db "\<lambda>(k, n). max n (gSequence msg)" ?c] assms(3) by simp
  have "map cID (tConversations db') = map cID (tConversations db)"
    unfolding e(6) by (rule map_upd_where_key) simp
  then have cex: "conversation_exists db' = conversation_exists db"
    by (intro ext) (metis conversation_exists_def list.set_map)
  have "covered (tSequences db') (map message_slot (tMessages db')) c" if "conversation_exists db c" for c
  proof -
    have "covered (tSequences db') (map message_slot (tMessages db)) c"
      using ok that by (simp add: floors_ok_def floor_covers_covered conversation_exists_def e(7))
    moreover have "gSequence msg \<le> f" if "c = ?c" "map_of (tSequences db') c = Some f" for f
    proof -
      have "map_option (\<lambda>n. max n (gSequence msg)) (map_of (tSequences db) ?c) = Some f"
        using that map_of_raise [of ?c "\<lambda>(k, n). max n (gSequence msg)" "tSequences db" ?c] by (simp add: e(7))
      then show ?thesis by auto
    qed
    ultimately show ?thesis
      by (auto simp: covered_def e(2) message_slot_def assms(2))
  qed
  then show ?thesis
    using assms(3) ex by (auto simp: floors_ok_def floor_covers_covered cex e(2) assms(2))
qed

definition floors_nonneg :: "ChatDB \<Rightarrow> bool" where
  "floors_nonneg db \<longleftrightarrow> (\<forall>r \<in> set (tSequences db). 0 \<le> snd r)"

lemma floors_nonneg_evolves:
  assumes "tx_step db db'" and "floors_nonneg db"
  shows "floors_nonneg db'"
  using assms
proof (cases rule: tx_step.cases)
  case (tx_create env cmd ctype others i x)
  then show ?thesis
    using assms(2) by (auto simp: create_tx_def Let_def floors_nonneg_def ConversationCreate_def AddMany_def
        SequenceInit_def ChangeLogAppend_def split: if_splits)
next
  case (tx_send msg scmd at z)
  then show ?thesis
    using assms(2) send_tx_effect(7) [OF tx_send(2,1)]
    by (auto simp: floors_nonneg_def set_upd_where split_beta)
next
  case (tx_allocate c s)
  then show ?thesis
    using assms(2)
    by (fastforce simp: nextFromPG_def floors_nonneg_def set_upd_where split: option.splits prod.splits if_splits)
qed (use assms(2) in \<open>auto simp: floors_nonneg_def slots_kept_def dest!: tx_slots_kept\<close>)

lemma tx_step_floors:
  assumes "tx_step db db'" and "floors_ok db" and "floors_nonneg db"
  shows "floors_ok db'"
  using assms(1)
proof (cases rule: tx_step.cases)
  case (tx_create env cmd ctype others i x)
  have "0 \<le> f" if "map_of (tSequences db) i = Some f" for f
    using assms(3) map_of_SomeD [OF that] by (force simp: floors_nonneg_def)
  with tx_create assms(2) show ?thesis by (blast intro: floors_ok_create)
next
  case (tx_send msg scmd at z)
  with assms(2) show ?thesis by (blast intro: floors_ok_send)
next
  case (tx_allocate c s)
  with assms(2) show ?thesis by (blast intro: floors_ok_allocate)
qed (use assms(2) in \<open>auto intro: slots_kept_floors dest!: tx_slots_kept\<close>)

lemma tx_run_floors:
  assumes "tx_run db db'" and "floors_ok db" "floors_nonneg db"
  shows "floors_ok db' \<and> floors_nonneg db'"
  by (rule tx_run_invariant [OF assms(1)]) (use assms tx_step_floors floors_nonneg_evolves in blast)+

text \<open>Whatever happened before, a lost Redis leaves an allocator that is fresh again.\<close>

lemma flush_allocator_ok:
  "floors_ok (wDB w) \<Longrightarrow> conversation_exists (wDB w) c \<Longrightarrow> allocator_ok (redis_flush w) c"
  by (simp add: allocator_ok_def floors_ok_def counter_warm_def redis_flush_def)

end
