(* ===== verification/ChatInvariants.thy ===== *)
theory ChatInvariants
  imports ChatSystem
begin

text \<open>
  Invariants of requests served one after the other: at most 500 active members in a
  conversation, at most 20 distinct emoji on a message, and direct chats that stay between their
  two members.  They rest on checks made before the transaction, so they are stated for
  \<open>serve\<close>, not for arbitrary interleavings.
\<close>

section \<open>What each transaction leaves alone\<close>

definition kinds :: "ChatDB \<Rightarrow> (go_int \<times> ConversationType \<times> Settings) list" where
  "kinds db = map (\<lambda>c. (cID c, cType c, cSettings c)) (tConversations db)"

lemma statement_frames:
  "ConversationUpdate fl c db = Inr d
     \<Longrightarrow> tMembers d = tMembers db \<and> tReactions d = tReactions db"
  "ConversationCreate fl c db = Inr d
     \<Longrightarrow> tMembers d = tMembers db \<and> tReactions d = tReactions db"
  "ConversationTombstone fl i at db = Inr d
     \<Longrightarrow> tMembers d = tMembers db \<and> tReactions d = tReactions db \<and> kinds d = kinds db"
  "SequenceInit fl i db = Inr d
     \<Longrightarrow> tMembers d = tMembers db \<and> tReactions d = tReactions db \<and> kinds d = kinds db"
  "SequencePersist fl i n db = Inr d
     \<Longrightarrow> tMembers d = tMembers db \<and> tReactions d = tReactions db \<and> kinds d = kinds db"
  "BumpLastMessage fl i n sn se at db = Inr (b, d)
     \<Longrightarrow> tMembers d = tMembers db \<and> tReactions d = tReactions db \<and> kinds d = kinds db"
  "MessageInsert fl g db = Inr (ins, d)
     \<Longrightarrow> tMembers d = tMembers db \<and> tReactions d = tReactions db \<and> kinds d = kinds db"
  "MessageEditRow fl i g old at db = Inr (b, d)
     \<Longrightarrow> tMembers d = tMembers db \<and> tReactions d = tReactions db \<and> kinds d = kinds db"
  "MessageTombstone fl i k at db = Inr (b, d)
     \<Longrightarrow> tMembers d = tMembers db \<and> tReactions d = tReactions db \<and> kinds d = kinds db"
  "ReactionAdd fl x db = Inr (b, d)
     \<Longrightarrow> tMembers d = tMembers db \<and> kinds d = kinds db"
  "ReactionRemove fl i u e db = Inr (b, d)
     \<Longrightarrow> tMembers d = tMembers db \<and> kinds d = kinds db"
  "ChangeLogAppend fl es db = Inr d
     \<Longrightarrow> tMembers d = tMembers db \<and> tReactions d = tReactions db \<and> kinds d = kinds db"
  "AddMany fl ms db = Inr d
     \<Longrightarrow> tReactions d = tReactions db \<and> kinds d = kinds db"
  "MembershipUpdate fl m db = Inr d
     \<Longrightarrow> tReactions d = tReactions db \<and> kinds d = kinds db"
  "MembershipRemove fl k u at db = Inr d
     \<Longrightarrow> tReactions d = tReactions db \<and> kinds d = kinds db"
  "MembershipMarkRead fl k u r s at db = Inr (adv, d)
     \<Longrightarrow> tReactions d = tReactions db \<and> kinds d = kinds db"
  by (auto simp: kinds_def ConversationUpdate_def ConversationCreate_def ConversationTombstone_def
      SequenceInit_def SequencePersist_def BumpLastMessage_def MessageInsert_def MessageEditRow_def
      MessageTombstone_def ReactionAdd_def ReactionRemove_def ChangeLogAppend_def AddMany_def
      MembershipUpdate_def MembershipRemove_def MembershipMarkRead_def Let_def
      split: if_splits option.splits)

lemma send_tx_frames:
  "send_tx at cmd msg db = Inr (x, Some db')
     \<Longrightarrow> tMembers db' = tMembers db \<and> tReactions db' = tReactions db \<and> kinds db' = kinds db"
  by (auto simp: appendMessageCreated_def elim!: send_tx_Some dest!: statement_frames)

lemma edit_tx_frames:
  "edit_tx env m old i db = Inr (y, Some db') \<Longrightarrow> tMembers db' = tMembers db \<and> tReactions db' = tReactions db \<and> kinds db' = kinds db"
  by (auto simp: edit_tx_def Let_def appendMessageEdited_def split: if_splits dest!: statement_frames)

lemma delete_tx_frames:
  "delete_tx env cmd m db = Inr (u, Some db') \<Longrightarrow> tMembers db' = tMembers db \<and> tReactions db' = tReactions db \<and> kinds db' = kinds db"
  by (auto simp: delete_tx_def Let_def appendMessageDeleted_def split: if_splits dest!: statement_frames)

lemma react_tx_frames:
  "react_tx env cmd m i db = Inr (u, Some db') \<Longrightarrow> tMembers db' = tMembers db \<and> kinds db' = kinds db"
  by (auto simp: react_tx_def Let_def appendReactionEvent_def split: if_splits dest!: statement_frames)

lemma unreact_tx_frames:
  "unreact_tx env cmd m db = Inr (u, Some db') \<Longrightarrow> tMembers db' = tMembers db \<and> kinds db' = kinds db"
  by (auto simp: unreact_tx_def Let_def appendReactionEvent_def split: if_splits dest!: statement_frames)

lemma update_tx_frames:
  "update_tx env cmd c affected db = Inr (u, Some db') \<Longrightarrow> tMembers db' = tMembers db \<and> tReactions db' = tReactions db"
  by (auto simp: update_tx_def Let_def  split: if_splits dest!: statement_frames)

lemma add_tx_frames:
  "add_tx env cmd added existing db = Inr (u, Some db') \<Longrightarrow> tReactions db' = tReactions db \<and> kinds db' = kinds db"
  by (auto simp: add_tx_def Let_def  split: if_splits dest!: statement_frames)

lemma remove_tx_frames:
  "remove_tx env cmd db = Inr (u, Some db') \<Longrightarrow> tReactions db' = tReactions db \<and> kinds db' = kinds db"
  by (auto simp: remove_tx_def Let_def  split: if_splits dest!: statement_frames)

lemma role_tx_frames:
  "role_tx env cmd t db = Inr (z, Some db') \<Longrightarrow> tReactions db' = tReactions db \<and> kinds db' = kinds db"
  by (auto simp: role_tx_def Let_def  split: if_splits dest!: statement_frames)

lemma pref_tx_frames:
  "pref_tx env t db = Inr (t', Some db') \<Longrightarrow> tReactions db' = tReactions db \<and> kinds db' = kinds db"
  by (auto simp: pref_tx_def Let_def  split: if_splits dest!: statement_frames)

lemma mark_tx_frames:
  "mark_tx env cmd d b1 b2 db = Inr (z, Some db') \<Longrightarrow> tReactions db' = tReactions db \<and> kinds db' = kinds db"
  by (auto simp: mark_tx_def Let_def  split: if_splits dest!: statement_frames)

section \<open>Counting active members\<close>

definition active_in :: "go_int \<Rightarrow> Membership \<Rightarrow> bool" where
  "active_in c m \<longleftrightarrow> mConversationID m = c \<and> mLeftAt m = None"

definition active_count :: "ChatDB \<Rightarrow> go_int \<Rightarrow> int" where
  "active_count db c = count_where (active_in c) (tMembers db)"

lemma length_active_ids: "int (length (active_ids db c)) = active_count db c"
  by (simp add: active_ids_def active_count_def count_where_def active_in_def [abs_def])

lemma count_where_upd_le:
  "(\<And>r. r \<in> set t \<Longrightarrow> P r \<Longrightarrow> Q (f r) \<Longrightarrow> Q r) \<Longrightarrow> count_where Q (upd_where P f t) \<le> count_where Q t"
proof (induction t)
  case Nil
  then show ?case by simp
next
  case (Cons r t)
  then have "count_where Q (upd_where P f t) \<le> count_where Q t" by simp
  with Cons.prems [of r] show ?case by (auto simp: count_where_def)
qed

lemma count_where_upd_one:
  assumes "distinct (map key t)"
  shows "count_where Q (upd_where (\<lambda>x. key x = k) f t) \<le> count_where Q t + 1"
  using assms
proof (induction t)
  case Nil
  then show ?case by simp
next
  case (Cons r t)
  show ?case
  proof (cases "key r = k")
    case True
    then have "upd_where (\<lambda>x. key x = k) f t = t"
      using Cons.prems by (intro upd_where_none) (auto simp: rev_image_eqI)
    with True show ?thesis by (simp add: count_where_def)
  next
    case False
    with Cons show ?thesis by (auto simp: count_where_def)
  qed
qed

lemma count_where_upsert:
  assumes "distinct (map mem_key t)"
  shows "count_where (active_in c) (upsert mem_key rejoin (inserted_member m) t)
           \<le> count_where (active_in c) t + (if mConversationID m = c then 1 else 0)"
proof (cases "mem_key m \<in> mem_key ` set t")
  case True
  then have u: "upsert mem_key rejoin (inserted_member m) t
      = upd_where (\<lambda>x. mem_key x = mem_key m) (\<lambda>x. rejoin x (inserted_member m)) t"
    by (simp add: upsert_def)
  show ?thesis
  proof (cases "mConversationID m = c")
    case True
    with u count_where_upd_one [OF assms, of "active_in c" "mem_key m"] show ?thesis by simp
  next
    case False
    then have "count_where (active_in c) (upd_where (\<lambda>x. mem_key x = mem_key m) (\<lambda>x. rejoin x (inserted_member m)) t)
        \<le> count_where (active_in c) t"
      by (intro count_where_upd_le) (auto simp: active_in_def mem_key_def)
    with u False show ?thesis by simp
  qed
next
  case False
  then show ?thesis by (simp add: upsert_def count_where_def active_in_def)
qed

lemma count_where_fold:
  assumes "members_ok t"
  shows "count_where (active_in c) (fold (\<lambda>m t. upsert mem_key rejoin (inserted_member m) t) ms t)
           \<le> count_where (active_in c) t + int (length (filter (\<lambda>m. mConversationID m = c) ms))"
  using assms
proof (induction ms arbitrary: t)
  case Nil
  then show ?case by simp
next
  case (Cons m ms)
  have "distinct (map mem_key t)" using Cons.prems by (simp add: members_ok_def)
  from count_where_upsert [OF this, of c m] Cons.IH [OF members_ok_upsert [OF Cons.prems, of m]]
  show ?case by (auto split: if_splits)
qed

lemma AddMany_count:
  assumes "AddMany fl ms db = Inr d" and "schema_ok db"
  shows "active_count d c \<le> active_count db c + int (length (filter (\<lambda>m. mConversationID m = c) ms))"
  using assms count_where_fold [of "tMembers db" c ms]
  by (auto simp: AddMany_def active_count_def schema_ok_def split: if_splits)

section \<open>The combined invariant\<close>

definition members_refer :: "ChatDB \<Rightarrow> bool" where
  "members_refer db \<longleftrightarrow> (\<forall>m \<in> set (tMembers db). conversation_exists db (mConversationID m))"

definition members_capped :: "ChatDB \<Rightarrow> bool" where
  "members_capped db \<longleftrightarrow> (\<forall>c. active_count db c \<le> 500)"

definition reactions_capped :: "ChatDB \<Rightarrow> bool" where
  "reactions_capped db \<longleftrightarrow> (\<forall>i. distinct_emoji db i \<le> maxDistinctReactions)"

text \<open>In a direct chat nobody outranks a plain member and nobody but an admin may add.\<close>

definition direct_closed :: "ChatDB \<Rightarrow> bool" where
  "direct_closed db \<longleftrightarrow>
     (\<forall>(c, t, s) \<in> set (kinds db). t = ConversationDirect \<longrightarrow>
        \<not> sAnyoneCanAdd s \<and> (\<forall>m \<in> set (tMembers db). mConversationID m = c \<longrightarrow> mRole m = RoleMember))"

definition chat_ok :: "ChatDB \<Rightarrow> bool" where
  "chat_ok db \<longleftrightarrow> schema_ok db \<and> members_refer db \<and> members_capped db \<and> reactions_capped db \<and> direct_closed db"

lemma conversation_exists_kinds: "conversation_exists db c \<longleftrightarrow> c \<in> fst ` set (kinds db)"
  by (force simp: conversation_exists_def kinds_def)

text \<open>A request that keeps members, reactions and kinds keeps the invariant with the schema.\<close>

lemma chat_ok_same:
  assumes "chat_ok db" and "store_step db db'"
    and "tMembers db' = tMembers db" "tReactions db' = tReactions db" "kinds db' = kinds db"
  shows "chat_ok db'"
  using assms
  by (simp add: chat_ok_def store_step_def members_refer_def members_capped_def reactions_capped_def
      direct_closed_def active_count_def distinct_emoji_def conversation_exists_kinds)

lemma chat_ok_empty:
  "chat_ok \<lparr>tConversations = [], tMembers = [], tSequences = [], tMessages = [], tEdits = [], tReactions = [],
     tChangeLog = [], tUsers = us, nMessageSeq = 1, nChangeSeq = 1\<rparr> \<longleftrightarrow> distinct (map uID us)"
  by (simp add: chat_ok_def schema_ok_def members_ok_def messages_ok_def client_keys_def reactions_ok_def
      outbox_ok_def members_refer_def members_capped_def reactions_capped_def direct_closed_def kinds_def
      active_count_def count_where_def distinct_emoji_def maxDistinctReactions_def List.map_filter_simps)

section \<open>Requests keep it\<close>

lemma chat_ok_prepare:
  "chat_ok db \<Longrightarrow> (\<And>x. p = Inr x \<Longrightarrow> chat_ok (snd (k x db))) \<Longrightarrow> chat_ok (snd (prepare p k db))"
  by (rule snd_prepare [where R = "\<lambda>_. chat_ok"]) simp_all

lemma chat_ok_transact:
  "chat_ok db \<Longrightarrow> (\<And>r db'. body db = Inr (r, Some db') \<Longrightarrow> chat_ok db') \<Longrightarrow> chat_ok (snd (transact fl body db))"
  by (rule snd_transact [where R = "\<lambda>_. chat_ok"]) simp_all

lemma chat_ok_finish: "chat_ok (snd x) \<Longrightarrow> chat_ok (snd (finish x f))"
  by simp

lemmas chat_ok_phases = chat_ok_prepare chat_ok_transact chat_ok_finish

lemma fold_upsert_member:
  "m \<in> set (fold (\<lambda>m t. upsert mem_key rejoin (inserted_member m) t) ms t) \<Longrightarrow>
     m \<in> set t \<or> (\<exists>n \<in> set ms. mem_key m = mem_key n \<and> mRole m = mRole n)"
proof (induction ms arbitrary: t)
  case Nil
  then show ?case by simp
next
  case (Cons n ms)
  from Cons.IH [of "upsert mem_key rejoin (inserted_member n) t"] Cons.prems
  have "m \<in> set (upsert mem_key rejoin (inserted_member n) t)
      \<or> (\<exists>k \<in> set ms. mem_key m = mem_key k \<and> mRole m = mRole k)" by simp
  then show ?case by (auto dest!: set_upsert_subset)
qed

lemma AddMany_members:
  "AddMany fl ms db = Inr d \<Longrightarrow> m \<in> set (tMembers d) \<Longrightarrow>
     m \<in> set (tMembers db) \<or> (\<exists>n \<in> set ms. mem_key m = mem_key n \<and> mRole m = mRole n)"
  by (auto simp: AddMany_def dest!: fold_upsert_member split: if_splits)

lemma mem_key_eq: "mem_key m = mem_key n \<longleftrightarrow> mConversationID m = mConversationID n \<and> mUserID m = mUserID n"
  by (auto simp: mem_key_def)

lemma FindByID_kinds:
  "ConversationFindByID fl db i = Inr c \<Longrightarrow> cID c = i \<and> (\<exists>s. (i, cType c, s) \<in> set (kinds db)
     \<and> sAnyoneCanAdd (cSettings c) = sAnyoneCanAdd s)"
  by (force simp: ConversationFindByID_def scanConversation_def settingsFromJSON_def kinds_def
      dest!: find_SomeD)

lemma kinds_unique:
  "schema_ok db \<Longrightarrow> (c, t, s) \<in> set (kinds db) \<Longrightarrow> (c, t', s') \<in> set (kinds db) \<Longrightarrow> t' = t \<and> s' = s"
  by (auto simp: schema_ok_def kinds_def dest: key_inj)

text \<open>Someone who may act as an admin, or add as a member, is not in a direct chat.\<close>

lemma admin_not_direct:
  assumes "direct_closed db" and "ConversationFindByID fl db i = Inr c"
    and "requireMember fl' db i u = Inr m" and "AtLeast (mRole m) RoleAdmin \<or> sAnyoneCanAdd (cSettings c)"
    and "schema_ok db" and "(i, t, s) \<in> set (kinds db)"
  shows "t \<noteq> ConversationDirect"
proof
  assume d: "t = ConversationDirect"
  obtain s' where k: "(i, cType c, s') \<in> set (kinds db)" "sAnyoneCanAdd (cSettings c) = sAnyoneCanAdd s'"
    using FindByID_kinds [OF assms(2)] by blast
  have "s' = s" using kinds_unique [OF assms(5,6) k(1)] by simp
  with assms(1,6) d requireMember_Inr [OF assms(3)] assms(4) k(2) show False
    by (fastforce simp: direct_closed_def)
qed

lemma chat_okI:
  assumes "chat_ok db" "store_step db db'"
    and "kinds db' = kinds db" and "tReactions db' = tReactions db"
    and "\<And>m. m \<in> set (tMembers db') \<Longrightarrow> conversation_exists db (mConversationID m)"
    and "\<And>c. active_count db' c \<le> 500"
    and "\<And>m s. m \<in> set (tMembers db') \<Longrightarrow> (mConversationID m, ConversationDirect, s) \<in> set (kinds db)
           \<Longrightarrow> mRole m = RoleMember"
  shows "chat_ok db'"
  using assms
  by (fastforce simp: chat_ok_def store_step_def members_refer_def members_capped_def reactions_capped_def
      direct_closed_def distinct_emoji_def conversation_exists_kinds)

lemma direct_role:
  "direct_closed db \<Longrightarrow> m \<in> set (tMembers db) \<Longrightarrow> (mConversationID m, ConversationDirect, s) \<in> set (kinds db)
     \<Longrightarrow> mRole m = RoleMember"
  by (fastforce simp: direct_closed_def)

lemma add_checks_Inr:
  assumes "add_checks fl cmd db = Inr (added, sk, ex)"
  shows "\<exists>conv m. ConversationFindByID fl db (amConversationID cmd) = Inr conv
    \<and> requireMember fl db (amConversationID cmd) (amUserID cmd) = Inr m
    \<and> (AtLeast (mRole m) RoleAdmin \<or> sAnyoneCanAdd (cSettings conv))
    \<and> length ex + length added \<le> 500 \<and> ex = active_ids db (amConversationID cmd)"
proof -
  from assms obtain conv m where s: "ConversationFindByID fl db (amConversationID cmd) = Inr conv"
    "requireMember fl db (cID conv) (amUserID cmd) = Inr m"
    "AtLeast (mRole m) RoleAdmin \<or> sAnyoneCanAdd (cSettings conv)"
    "length ex + length added \<le> 500" "ex = active_ids db (cID conv)"
    by (auto simp: add_checks_def Let_def ActiveUserIDs_def maxTotalMembers_def)
  moreover have "cID conv = amConversationID cmd" using FindByID_kinds [OF s(1)] by blast
  ultimately show ?thesis by (intro exI [of _ conv] exI [of _ m]) simp
qed

lemma AddMembers_chat_ok:
  assumes "chat_ok db"
  shows "chat_ok (snd (AddMembers env cmd db))"
proof -
  have "chat_ok db'"
    if c: "add_checks (nvFaults env) cmd db = Inr (added, sk, ex)"
      and t: "add_tx env cmd added ex db = Inr (r, Some db')" for added sk ex r db'
  proof -
    let ?i = "amConversationID cmd"
    let ?new = "map (\<lambda>(k, i). newMembership ?i i RoleMember (nvClock env k)) (enumerate 0 added)"
    obtain conv m where g: "ConversationFindByID (nvFaults env) db ?i = Inr conv"
      "requireMember (nvFaults env) db ?i (amUserID cmd) = Inr m"
      "AtLeast (mRole m) RoleAdmin \<or> sAnyoneCanAdd (cSettings conv)"
      and len: "length ex + length added \<le> 500" "ex = active_ids db ?i"
      using add_checks_Inr [OF c] by blast
    obtain d1 es where a: "AddMany (nvFaults env) ?new db = Inr d1"
      and "ChangeLogAppend (nvFaults env) es d1 = Inr db'"
      using t by (auto simp: add_tx_def Let_def)
    then have m1: "tMembers db' = tMembers d1" using statement_frames(12) by blast
    have new: "mConversationID n = ?i" if "n \<in> set ?new" for n
      using that by (auto simp: newMembership_def)
    have cnt: "active_count db' k \<le> 500" for k
    proof -
      have f: "filter (\<lambda>m. mConversationID m = k) ?new = (if k = ?i then ?new else [])"
      proof (cases "k = ?i")
        case True
        then have "\<forall>n \<in> set ?new. mConversationID n = k" using new by blast
        then show ?thesis using True by (simp only: if_True filter_id_conv simp_thms)
      next
        case False
        then have "\<forall>n \<in> set ?new. mConversationID n \<noteq> k" using new by blast
        then show ?thesis using False by (simp only: if_False filter_empty_conv simp_thms)
      qed
      have "active_count db' k = active_count d1 k" by (simp add: active_count_def m1)
      also have "\<dots> \<le> active_count db k + (if k = ?i then int (length added) else 0)"
        using AddMany_count [OF a, of k] assms by (simp add: chat_ok_def f split: if_splits)
      also have "\<dots> \<le> 500"
        using assms len length_active_ids [of db ?i] by (auto simp: chat_ok_def members_capped_def)
      finally show ?thesis .
    qed
    have mem: "\<forall>x \<in> set (tMembers db'). x \<in> set (tMembers db) \<or> mConversationID x = ?i"
      using AddMany_members [OF a] new unfolding m1 mem_key_eq by metis
    have ex: "conversation_exists db ?i"
      using FindByID_kinds [OF g(1)] by (force simp: conversation_exists_kinds)
    have nd: "(?i, ConversationDirect, s) \<notin> set (kinds db)" for s
      using admin_not_direct [OF _ g] assms by (auto simp: chat_ok_def)
    show ?thesis
      using assms add_tx_frames [OF t] add_tx_step [OF t] mem ex cnt nd
      by (intro chat_okI [OF assms]) (auto simp: chat_ok_def members_refer_def dest!: bspec [OF mem] dest: direct_role)
  qed
  then show ?thesis
    unfolding AddMembers_def
    by (intro chat_ok_phases assms) (auto intro!: chat_ok_transact assms split: prod.splits)
qed

lemma RemoveMember_chat_ok:
  assumes "chat_ok db"
  shows "chat_ok (snd (RemoveMember env cmd db))"
proof -
  have "chat_ok db'" if t: "remove_tx env cmd db = Inr (r, Some db')" for r db'
  proof -
    let ?P = "\<lambda>r. mem_key r = (rmConversationID cmd, rmTargetUserID cmd) \<and> mLeftAt r = None"
    have m: "tMembers db' = upd_where ?P (\<lambda>r. r\<lparr>mLeftAt := Some (nvClock env 0)\<rparr>) (tMembers db)"
      using t by (auto simp: remove_tx_def Let_def MembershipRemove_def split: if_splits dest!: statement_frames)
    have cnt: "active_count db' k \<le> 500" for k
    proof -
      have "active_count db' k \<le> active_count db k"
        unfolding active_count_def m by (rule count_where_upd_le) (simp add: active_in_def)
      also have "\<dots> \<le> 500" using assms by (simp add: chat_ok_def members_capped_def)
      finally show ?thesis .
    qed
    have mem: "\<forall>x \<in> set (tMembers db'). \<exists>y \<in> set (tMembers db).
        mConversationID x = mConversationID y \<and> mRole x = mRole y"
      by (auto simp: m set_upd_where)
    show ?thesis
      using assms remove_tx_frames [OF t] remove_tx_step [OF t] cnt mem
      by (intro chat_okI [OF assms]) (auto simp: chat_ok_def members_refer_def dest!: bspec [OF mem] intro: direct_role)
  qed
  then show ?thesis
    unfolding RemoveMember_def by (intro chat_ok_phases assms) auto
qed

text \<open>Rewriting the row of an active member with its key and an active state.\<close>

lemma MembershipUpdate_chat_ok:
  assumes "chat_ok db" and "store_step db db'" and "tMembers db' = tMembers d1"
    and "kinds db' = kinds db" "tReactions db' = tReactions db"
    and "MembershipUpdate fl new db = Inr d1" and "old \<in> set (tMembers db)" "mLeftAt old = None"
    and "mem_key new = mem_key old"
    and "mRole new = mRole old \<or> (\<forall>s. (mConversationID old, ConversationDirect, s) \<notin> set (kinds db))"
  shows "chat_ok db'"
proof -
  have m: "tMembers db' = upd_where (\<lambda>r. mem_key r = mem_key old) (\<lambda>r. new\<lparr>mJoinedAt := mJoinedAt r\<rparr>) (tMembers db)"
    using assms(3,6,9) by (auto simp: MembershipUpdate_def)
  have uniq: "r = old" if "r \<in> set (tMembers db)" "mem_key r = mem_key old" for r
    using assms(1,7) that by (auto simp: chat_ok_def schema_ok_def members_ok_def dest: key_inj)
  have cnt: "active_count db' k \<le> 500" for k
  proof -
    have "active_count db' k \<le> active_count db k"
      unfolding active_count_def m
      using uniq assms(8,9) by (intro count_where_upd_le) (auto simp: active_in_def mem_key_eq)
    also have "\<dots> \<le> 500" using assms(1) by (simp add: chat_ok_def members_capped_def)
    finally show ?thesis .
  qed
  have mem: "\<forall>x \<in> set (tMembers db'). \<exists>y \<in> set (tMembers db). mConversationID x = mConversationID y
      \<and> (mRole x = mRole y \<or> (\<forall>s. (mConversationID y, ConversationDirect, s) \<notin> set (kinds db)))"
    using assms(7,9,10) by (auto simp: m set_upd_where mem_key_eq)
  show ?thesis
    using assms(1,2,4,5) cnt mem
    by (intro chat_okI [OF assms(1)])
      (auto simp: chat_ok_def members_refer_def dest!: bspec [OF mem] intro: direct_role)
qed

end
