(* ===== verification/ChatServe.thy ===== *)
theory ChatServe
  imports ChatInvariants
begin

text \<open>Every request served on a store that satisfies \<open>chat_ok\<close> leaves one that does.\<close>

section \<open>Roles, preferences and receipts\<close>

lemma role_checks_Inr:
  assumes "role_checks fl cmd db = Inr t"
  shows "\<exists>conv caller target. ConversationFindByID fl db (crcConversationID cmd) = Inr conv
    \<and> requireMember fl db (crcConversationID cmd) (crcUserID cmd) = Inr caller
    \<and> requireMember fl db (crcConversationID cmd) (crcTargetUserID cmd) = Inr target
    \<and> ParseRole (crcRole cmd) = Inr (mRole t) \<and> t = target\<lparr>mRole := mRole t\<rparr>
    \<and> role_change_allowed caller target (mRole t) = Inr ()"
proof -
  from assms obtain conv caller role target where s:
    "ConversationFindByID fl db (crcConversationID cmd) = Inr conv"
    "requireMember fl db (cID conv) (crcUserID cmd) = Inr caller"
    "ParseRole (crcRole cmd) = Inr role" "requireMember fl db (cID conv) (crcTargetUserID cmd) = Inr target"
    "role_change_allowed caller target role = Inr ()" "t = target\<lparr>mRole := role\<rparr>"
    by (auto simp: role_checks_def split: sum.splits)
  moreover have "cID conv = crcConversationID cmd" using FindByID_kinds [OF s(1)] by blast
  ultimately show ?thesis by (intro exI [of _ conv] exI [of _ caller] exI [of _ target]) simp
qed

lemma ChangeMemberRole_chat_ok:
  assumes "chat_ok db"
  shows "chat_ok (snd (ChangeMemberRole env cmd db))"
proof -
  have "chat_ok db'"
    if c: "role_checks (nvFaults env) cmd db = Inr t" and x: "role_tx env cmd t db = Inr (r, Some db')" for t r db'
  proof -
    let ?i = "crcConversationID cmd"
    obtain conv caller target where g: "ConversationFindByID (nvFaults env) db ?i = Inr conv"
      "requireMember (nvFaults env) db ?i (crcUserID cmd) = Inr caller"
      "requireMember (nvFaults env) db ?i (crcTargetUserID cmd) = Inr target"
      "t = target\<lparr>mRole := mRole t\<rparr>" "role_change_allowed caller target (mRole t) = Inr ()"
      using role_checks_Inr [OF c] by blast
    have "AtLeast (mRole caller) RoleAdmin \<or> sAnyoneCanAdd (cSettings conv)"
      using g(5) by (auto simp: role_change_allowed_def split: if_splits)
    then have nd: "(?i, ConversationDirect, s) \<notin> set (kinds db)" for s
      using admin_not_direct [OF _ g(1,2)] assms by (auto simp: chat_ok_def)
    have tg: "target \<in> set (tMembers db)" "mLeftAt target = None" "mConversationID target = ?i"
      using requireMember_Inr [OF g(3)] by blast+
    obtain d1 es where u: "MembershipUpdate (nvFaults env) t db = Inr d1"
      and "ChangeLogAppend (nvFaults env) es d1 = Inr db'"
      using x by (auto simp: role_tx_def Let_def)
    then have m: "tMembers db' = tMembers d1" using statement_frames(12) by blast
    have "mem_key t = mem_key target" using g(4) by (metis mem_key_def Membership.select_convs(1,2)
        Membership.surjective Membership.update_convs(3))
    with tg nd show ?thesis
      using role_tx_frames [OF x]
      by (intro MembershipUpdate_chat_ok [OF assms role_tx_step [OF x] m _ _ u tg(1,2)]) auto
  qed
  then show ?thesis
    unfolding ChangeMemberRole_def by (intro chat_ok_phases assms) auto
qed

lemma set_pref_chat_ok:
  assumes "chat_ok db" and "\<And>m. p = Inr m \<Longrightarrow> \<exists>old \<in> set (tMembers db). mLeftAt old = None
      \<and> mem_key m = mem_key old \<and> mRole m = mRole old"
  shows "chat_ok (snd (set_pref env p db))"
proof -
  have "chat_ok db'" if p: "p = Inr m" and x: "pref_tx env m db = Inr (r, Some db')" for m r db'
  proof -
    obtain old where o: "old \<in> set (tMembers db)" "mLeftAt old = None" "mem_key m = mem_key old" "mRole m = mRole old"
      using assms(2) [OF p] by blast
    have u: "MembershipUpdate (nvFaults env) m db = Inr db'" using x by (auto simp: pref_tx_def)
    show ?thesis
      using statement_frames(14) [OF u] o(3,4)
      by (intro MembershipUpdate_chat_ok [OF assms(1) MembershipUpdate_step [OF u] refl _ _ u o(1,2)]) simp_all
  qed
  then show ?thesis unfolding set_pref_def by (intro chat_ok_phases assms(1)) auto
qed

lemma pref_member_Inr:
  "pref_member fl u c db = Inr m \<Longrightarrow> m \<in> set (tMembers db) \<and> mLeftAt m = None"
  by (auto simp: pref_member_def dest!: requireMember_Inr)

lemma SetPref_chat_ok:
  assumes "chat_ok db"
  shows "chat_ok (snd (SetMute env u c t db))" "chat_ok (snd (SetPin env u c p db))"
    "chat_ok (snd (SetArchive env u c p db))"
  unfolding SetMute_def SetPin_def SetArchive_def snd_finish
  by (rule set_pref_chat_ok [OF assms], force simp: muted_def pinned_def archived_def mem_key_def
      dest: pref_member_Inr)+

lemma MarkRead_chat_ok:
  assumes "chat_ok db"
  shows "chat_ok (snd (MarkRead env cmd db))"
proof -
  have "chat_ok db'" if x: "mark_tx env cmd d b1 b2 db = Inr (r, Some db')" for d b1 b2 r db'
  proof -
    let ?P = "\<lambda>m. mem_key m = (mkConversationID cmd, mkUserID cmd) \<and> mLeftAt m = None"
    obtain adv d1 where mk: "MembershipMarkRead (nvFaults env) (mkConversationID cmd) (mkUserID cmd) (mkReadSeq cmd) d
        (nvClock env 0) db = Inr (adv, d1)" and m: "tMembers db' = tMembers d1"
      using x by (auto simp: mark_tx_def Let_def split: if_splits dest!: statement_frames(12))
    let ?f = "\<lambda>m. m\<lparr>mLastReadSeq := max (mLastReadSeq m) (mkReadSeq cmd),
        mLastDeliveredSeq := max (mLastDeliveredSeq m) (max (mkReadSeq cmd) d), mLastReadAt := Some (nvClock env 0)\<rparr>"
    have t: "tMembers db' = upd_where ?P ?f (tMembers db) \<or> tMembers db' = tMembers db"
      using mk unfolding m by (auto simp: MembershipMarkRead_def Let_def split: option.splits)
    have cnt: "active_count db' k \<le> 500" for k
    proof -
      have "active_count db' k \<le> active_count db k"
        using t by (auto simp: active_count_def active_in_def intro!: count_where_upd_le)
      also have "\<dots> \<le> 500" using assms by (simp add: chat_ok_def members_capped_def)
      finally show ?thesis .
    qed
    have mem: "\<forall>x \<in> set (tMembers db'). \<exists>y \<in> set (tMembers db).
        mConversationID x = mConversationID y \<and> mRole x = mRole y"
    proof
      fix x assume "x \<in> set (tMembers db')"
      then have "\<exists>y \<in> set (tMembers db). x = y \<or> x = ?f y" using t by (auto simp: set_upd_where)
      then show "\<exists>y \<in> set (tMembers db). mConversationID x = mConversationID y \<and> mRole x = mRole y" by auto
    qed
    show ?thesis
      using assms mark_tx_frames [OF x] mark_tx_step [OF x] cnt mem
      by (intro chat_okI [OF assms])
        (auto simp: chat_ok_def members_refer_def dest!: bspec [OF mem] intro: direct_role)
  qed
  then show ?thesis
    unfolding MarkRead_def by (intro chat_ok_phases assms) (auto intro!: chat_ok_transact assms split: prod.splits)
qed

section \<open>Requests that keep members and kinds\<close>

lemma chat_ok_transact_same:
  assumes "chat_ok db"
    and "\<And>r db'. body db = Inr (r, Some db') \<Longrightarrow> store_step db db' \<and> tMembers db' = tMembers db
           \<and> tReactions db' = tReactions db \<and> kinds db' = kinds db"
  shows "chat_ok (snd (transact fl body db))"
  using assms by (intro chat_ok_transact) (auto intro: chat_ok_same)

lemma EditMessage_chat_ok: "chat_ok db \<Longrightarrow> chat_ok (snd (EditMessage env cmd db))"
  unfolding EditMessage_def
  by (intro chat_ok_phases)
    (auto intro!: chat_ok_transact_same edit_tx_step dest: edit_tx_frames split: prod.splits)

lemma DeleteMessage_chat_ok:
  assumes "chat_ok db"
  shows "chat_ok (snd (DeleteMessage env cmd db))"
proof -
  have "chat_ok (snd (prepare (delete_checks env cmd db) (\<lambda>target db.
             case target of
               None \<Rightarrow> (Inr (''all'', idStr), db)
             | Some m \<Rightarrow> finish (transact (nvFaults env) (delete_tx env cmd m) db)
                           (\<lambda>_ _. Inr (''all'', idStr))) db))" for idStr :: string
    by (intro chat_ok_phases assms)
      (auto intro!: chat_ok_transact_same assms delete_tx_step dest: delete_tx_frames split: option.splits)
  then show ?thesis using assms by (simp add: DeleteMessage_def Let_def)
qed

lemma SendMessage_chat_ok:
  assumes "chat_ok (wDB w)"
  shows "chat_ok (wDB (snd (SendMessage env cmd w)))"
proof -
  have floor: "chat_ok db'" if "only_floor db db'" "chat_ok db" "store_step db db'" for db db'
    using chat_ok_same [OF that(2,3)] only_floor_frame [OF that(1)] by (simp add: kinds_def)
  obtain res w' where r: "SendMessage env cmd w = (res, w')" by fastforce
  have st: "store_step (wDB w) (wDB w')" using SendMessage_step [of w env cmd] r by simp
  have "tMembers (wDB w') = tMembers (wDB w) \<and> tReactions (wDB w') = tReactions (wDB w) \<and> kinds (wDB w') = kinds (wDB w)"
  proof (cases res)
    case (Inl e)
    with r have "only_floor (wDB w) (wDB w')" by (simp add: SendMessage_Inl)
    then show ?thesis using only_floor_frame by (simp add: kinds_def)
  next
    case (Inr x)
    then obtain mtype rp j w1 where f: "only_floor (wDB w) (wDB w1)"
      and o: "sendOnce (seAttempt env j) cmd mtype rp w1 = (Inr x, w')"
      using r SendMessage_Inr by metis
    obtain db1 where d: "only_floor (wDB w1) db1" "wDB w' = db1
        \<or> (\<exists>seq z. send_tx (seAttempt env j) cmd (attempt_message (seAttempt env j) cmd mtype rp seq) db1
              = Inr (z, Some (wDB w')))"
      using sendOnce_wDB [of w1 "seAttempt env j" cmd mtype rp] o by auto
    have "only_floor (wDB w) db1" using f d(1) by (rule only_floor_trans)
    then have "tMembers db1 = tMembers (wDB w) \<and> tReactions db1 = tReactions (wDB w) \<and> kinds db1 = kinds (wDB w)"
      using only_floor_frame by (simp add: kinds_def)
    with d(2) show ?thesis by (auto dest: send_tx_frames)
  qed
  then show ?thesis using chat_ok_same [OF assms st] r by simp
qed

section \<open>Reactions\<close>

lemma distinct_emoji_card:
  "distinct_emoji db i = int (card (rEmoji ` {r \<in> set (tReactions db). rMessageID r = i}))"
proof -
  have "{r \<in> set (tReactions db). rMessageID r = i} = set (filter (\<lambda>r. rMessageID r = i) (tReactions db))" by auto
  then show ?thesis by (simp add: distinct_emoji_def length_remdups_card_conv)
qed

lemma chat_ok_reactions:
  assumes "chat_ok db" and "store_step db db'" "tMembers db' = tMembers db" "kinds db' = kinds db"
    and "\<And>i. distinct_emoji db' i \<le> maxDistinctReactions"
  shows "chat_ok db'"
  using assms
  by (simp add: chat_ok_def store_step_def members_refer_def members_capped_def reactions_capped_def
      direct_closed_def active_count_def conversation_exists_kinds)

lemma AddReaction_chat_ok:
  assumes "chat_ok db"
  shows "chat_ok (snd (AddReaction env cmd db))"
proof -
  have "chat_ok db'"
    if c: "react_checks env cmd db = Inr (m, i)" and x: "react_tx env cmd m i db = Inr (r, Some db')" for m i r db'
  proof -
    let ?row = "\<lparr>rID = i, rMessageID = gID m, rUserID = rcUserID cmd, rEmoji = rcEmoji cmd, rCreatedAt = nvClock env 0\<rparr>"
    let ?E = "\<lambda>k. rEmoji ` {r \<in> set (tReactions db). rMessageID r = k}"
    have cap: "int (card (?E k)) \<le> maxDistinctReactions" for k
      using assms by (simp add: chat_ok_def reactions_capped_def distinct_emoji_card)
    have room: "rcEmoji cmd \<in> ?E (gID m) \<or> int (card (?E (gID m))) < maxDistinctReactions"
      using c by (auto simp: react_checks_def Let_def ReactionCount_def DistinctEmoji_def reaction_count_def
          count_where_zero_iff distinct_emoji_card intro: rev_image_eqI split: if_splits)
    have t: "tReactions db' = tReactions db \<or> tReactions db' = tReactions db @ [?row]"
      using x by (auto simp: react_tx_def Let_def ReactionAdd_def appendReactionEvent_def
          split: if_splits dest!: statement_frames(12))
    have "distinct_emoji db' k \<le> maxDistinctReactions" for k
    proof (cases "tReactions db' = tReactions db")
      case True
      then show ?thesis using cap by (simp add: distinct_emoji_card)
    next
      case False
      with t have t': "tReactions db' = tReactions db @ [?row]" by blast
      show ?thesis
      proof (cases "k = gID m")
        case False
        then have "{r \<in> set (tReactions db'). rMessageID r = k} = {r \<in> set (tReactions db). rMessageID r = k}"
          by (auto simp: t')
        then show ?thesis using cap [of k] by (simp add: distinct_emoji_card)
      next
        case True
        then have "rEmoji ` {r \<in> set (tReactions db'). rMessageID r = k} = insert (rcEmoji cmd) (?E k)"
          by (force simp: t')
        moreover have "finite (?E k)" by simp
        ultimately show ?thesis
          using cap [of k] room True by (auto simp: distinct_emoji_card card_insert_if)
      qed
    qed
    then show ?thesis
      using react_tx_frames [OF x] by (intro chat_ok_reactions [OF assms react_tx_step [OF x]]) auto
  qed
  then show ?thesis
    unfolding AddReaction_def
    by (intro chat_ok_phases assms) (auto intro!: chat_ok_transact assms split: prod.splits)
qed

lemma RemoveReaction_chat_ok:
  assumes "chat_ok db"
  shows "chat_ok (snd (RemoveReaction env cmd db))"
proof -
  have "chat_ok db'" if x: "unreact_tx env cmd m db = Inr (r, Some db')" for m r db'
  proof -
    have sub: "set (tReactions db') \<subseteq> set (tReactions db)"
      using x by (auto simp: unreact_tx_def Let_def ReactionRemove_def appendReactionEvent_def del_where_def
          split: if_splits dest!: statement_frames(12))
    have "distinct_emoji db' k \<le> maxDistinctReactions" for k
    proof -
      have "card (rEmoji ` {r \<in> set (tReactions db'). rMessageID r = k})
          \<le> card (rEmoji ` {r \<in> set (tReactions db). rMessageID r = k})"
        using sub by (intro card_mono) auto
      moreover have "distinct_emoji db k \<le> maxDistinctReactions"
        using assms by (simp add: chat_ok_def reactions_capped_def)
      ultimately show ?thesis by (simp add: distinct_emoji_card)
    qed
    then show ?thesis
      using unreact_tx_frames [OF x] by (intro chat_ok_reactions [OF assms unreact_tx_step [OF x]]) auto
  qed
  then show ?thesis unfolding RemoveReaction_def by (intro chat_ok_phases assms) auto
qed

section \<open>Creating and updating conversations\<close>

lemma participants_loop_length: "validateParticipants fl db u t ids = Inr others \<Longrightarrow> others = ids \<and>
    (t = ConversationDirect \<longrightarrow> length ids = 1) \<and> length ids \<le> 499"
  by (auto simp: validateParticipants_def maxTotalMembers_def split: ConversationType.splits)

lemma create_checks_plan:
  "create_checks env cmd db = Inr (Inr (t, others)) \<Longrightarrow> length others \<le> 499"
  by (auto simp: create_checks_def Let_def dest!: participants_loop_length split: if_splits sum.splits)

lemma new_members_row:
  "n \<in> set (new_members cmd t others i now) \<Longrightarrow> mConversationID n = i \<and> (t = ConversationDirect \<longrightarrow> mRole n = RoleMember)"
  by (auto simp: new_members_def newMembership_def)

text \<open>A conversation created beside the others is as large as its list of members.\<close>

lemma AddMany_new_capped:
  assumes "AddMany fl (new_members cmd t others i now) d1 = Inr d2" and "schema_ok d1" and "length others \<le> 499"
    and "\<forall>m \<in> set (tMembers d1). mConversationID m \<noteq> i" and "members_capped d1"
  shows "members_capped d2"
  unfolding members_capped_def
proof
  fix c
  let ?new = "new_members cmd t others i now"
  have "active_count d2 c \<le> active_count d1 c + int (length (filter (\<lambda>m. mConversationID m = c) ?new))"
    by (rule AddMany_count [OF assms(1,2)])
  moreover have "active_count d1 i = 0"
    using assms(4) by (auto simp: active_count_def count_where_zero_iff active_in_def)
  moreover have "filter (\<lambda>m. mConversationID m = c) ?new = (if c = i then ?new else [])"
    using new_members_row by (cases "c = i") (simp_all only: if_True if_False filter_id_conv filter_empty_conv simp_thms, blast+)
  moreover have "length ?new \<le> 500" using assms(3) by (simp add: new_members_def)
  moreover have "active_count d1 c \<le> 500" using assms(5) by (simp add: members_capped_def)
  ultimately show "active_count d2 c \<le> 500" by (cases "c = i") auto
qed

lemma create_tx_chat_ok:
  assumes "chat_ok db" and "length others \<le> 499" and x: "create_tx env cmd t others i db = Inr (r, Some db')"
  shows "chat_ok db'"
proof -
  let ?new = "new_members cmd t others i (nvClock env 0)"
  obtain d1 d2 d3 where s:
    "ConversationCreate (nvFaults env) (new_conversation cmd t i (nvClock env 0)) db = Inr d1"
    "AddMany (nvFaults env) ?new d1 = Inr d2"
    "SequenceInit (nvFaults env) i d2 = Inr d3"
    "ChangeLogAppend (nvFaults env) (created_events cmd t others i (nvClock env 0)) d3 = Inr db'"
    using x by (auto simp: create_tx_def Let_def)
  have fresh: "\<not> conversation_exists db i" and k1: "kinds d1 = kinds db @ [(i, t, DefaultSettings)]"
    using s(1) by (auto simp: ConversationCreate_def new_conversation_def kinds_def)
  have m1: "tMembers d1 = tMembers db" "tReactions d1 = tReactions db" using statement_frames(2) [OF s(1)] by auto
  have m2: "tMembers db' = tMembers d2" "tReactions db' = tReactions db" "kinds db' = kinds d1"
    using statement_frames(4) [OF s(3)] statement_frames(12) [OF s(4)] statement_frames(13) [OF s(2)] m1 by auto
  have sch: "schema_ok d1" using ConversationCreate_schema [OF s(1)] assms(1) by (simp add: chat_ok_def)
  have none: "\<forall>m \<in> set (tMembers db). mConversationID m \<noteq> i"
    using assms(1) fresh by (auto simp: chat_ok_def members_refer_def)
  have mem: "m \<in> set (tMembers db)
      \<or> mConversationID m = i \<and> (t = ConversationDirect \<longrightarrow> mRole m = RoleMember)" if "m \<in> set (tMembers db')" for m
    using that AddMany_members [OF s(2)] new_members_row unfolding m2 m1 mem_key_eq by metis
  have "members_capped d1" using assms(1) by (simp add: chat_ok_def members_capped_def active_count_def m1)
  from AddMany_new_capped [OF s(2) sch assms(2) _ this] none have cap: "members_capped db'"
    by (simp add: members_capped_def active_count_def m1 m2)
  have dir: "direct_closed db'"
    unfolding direct_closed_def
  proof (clarify)
    fix c s assume k: "(c, ConversationDirect, s) \<in> set (kinds db')"
    show "\<not> sAnyoneCanAdd s \<and> (\<forall>m \<in> set (tMembers db'). mConversationID m = c \<longrightarrow> mRole m = RoleMember)"
    proof (cases "c = i")
      case True
      with k fresh have "s = DefaultSettings" "t = ConversationDirect" by (force simp: m2 k1 conversation_exists_kinds)+
      with mem none True show ?thesis by (auto simp: DefaultSettings_def)
    next
      case False
      with k have "(c, ConversationDirect, s) \<in> set (kinds db)" by (auto simp: m2 k1)
      with assms(1) mem False show ?thesis by (fastforce simp: chat_ok_def direct_closed_def)
    qed
  qed
  have "members_refer db'" unfolding members_refer_def conversation_exists_kinds m2 k1
    using mem assms(1) unfolding m2 by (force simp: chat_ok_def members_refer_def conversation_exists_kinds)
  moreover have "reactions_capped db'" using assms(1) by (simp add: chat_ok_def reactions_capped_def distinct_emoji_def m2)
  moreover have "schema_ok db'" using create_tx_step [OF x] assms(1) by (simp add: chat_ok_def store_step_def)
  ultimately show ?thesis using cap dir by (simp add: chat_ok_def)
qed

lemma CreateConversation_chat_ok:
  assumes "chat_ok db"
  shows "chat_ok (snd (CreateConversation env cmd db))"
proof -
  have "chat_ok (snd (create_commit env cmd t others db))"
    if "create_checks env cmd db = Inr (Inr (t, others))" for t others
    unfolding create_commit_def
    by (intro chat_ok_phases assms) (rule create_tx_chat_ok [OF assms create_checks_plan [OF that]])
  then show ?thesis
    unfolding CreateConversation_def
    by (intro chat_ok_phases assms) (auto simp: assms split: sum.splits)
qed

lemma patch_conversation_kind:
  "patch_conversation cmd c = Inr c' \<Longrightarrow> cID c' = cID c \<and> cType c' = cType c"
  by (auto simp: patch_conversation_def split: if_splits option.splits)

lemma update_checks_Inr:
  assumes "update_checks env cmd db = Inr (c, affected)"
  shows "\<exists>conv m. ConversationFindByID (nvFaults env) db (ucConversationID cmd) = Inr conv
    \<and> requireMember (nvFaults env) db (ucConversationID cmd) (ucUserID cmd) = Inr m
    \<and> AtLeast (mRole m) RoleAdmin \<and> cID c = ucConversationID cmd"
proof -
  from assms obtain conv m c1 where s: "ConversationFindByID (nvFaults env) db (ucConversationID cmd) = Inr conv"
    "requireAdmin (nvFaults env) db (cID conv) (ucUserID cmd) = Inr m" "patch_conversation cmd conv = Inr c1"
    "c = c1\<lparr>cUpdatedAt := nvClock env 0\<rparr>"
    by (auto simp: update_checks_def Let_def)
  then show ?thesis
    using FindByID_kinds [OF s(1)] patch_conversation_kind [OF s(3)]
    by (intro exI [of _ conv] exI [of _ m]) (auto simp: requireAdmin_def)
qed

lemma UpdateConversation_chat_ok:
  assumes "chat_ok db"
  shows "chat_ok (snd (UpdateConversation env cmd db))"
proof -
  have "chat_ok db'"
    if c: "update_checks env cmd db = Inr (c, affected)" and x: "update_tx env cmd c affected db = Inr (r, Some db')"
    for c affected r db'
  proof -
    let ?i = "ucConversationID cmd"
    obtain conv m where g: "ConversationFindByID (nvFaults env) db ?i = Inr conv"
      "requireMember (nvFaults env) db ?i (ucUserID cmd) = Inr m" "AtLeast (mRole m) RoleAdmin" "cID c = ?i"
      using update_checks_Inr [OF c] by blast
    have nd: "(?i, ConversationDirect, s) \<notin> set (kinds db)" for s
      using admin_not_direct [OF _ g(1,2)] g(3) assms by (auto simp: chat_ok_def)
    obtain d1 es where u: "ConversationUpdate (nvFaults env) c db = Inr d1"
      and l: "ChangeLogAppend (nvFaults env) es d1 = Inr db'"
      using x by (auto simp: update_tx_def Let_def)
    have "kinds d1 = map (\<lambda>(k, t, s). (k, t, if k = ?i then cSettings c else s)) (kinds db)"
      using u g(4) by (auto simp: ConversationUpdate_def kinds_def upd_where_def)
    then have k: "kinds db' = map (\<lambda>(k, t, s). (k, t, if k = ?i then cSettings c else s)) (kinds db)"
      using statement_frames(12) [OF l] by simp
    have ids: "fst ` set (kinds db') = fst ` set (kinds db)" by (force simp: k)
    have same: "tMembers db' = tMembers db" "tReactions db' = tReactions db"
      using update_tx_frames [OF x] by auto
    have was: "(c', ConversationDirect, s) \<in> set (kinds db') \<Longrightarrow> (c', ConversationDirect, s) \<in> set (kinds db)" for c' s
      using nd by (auto simp: k split: if_splits)
    have "direct_closed db'"
      unfolding direct_closed_def same
      using assms was by (fastforce simp: chat_ok_def direct_closed_def)
    then show ?thesis
      using assms update_tx_step [OF x]
      by (simp add: chat_ok_def store_step_def members_refer_def members_capped_def reactions_capped_def
          active_count_def distinct_emoji_def conversation_exists_kinds same ids)
  qed
  then show ?thesis
    unfolding UpdateConversation_def
    by (intro chat_ok_phases assms) (auto intro!: chat_ok_transact assms split: prod.splits)
qed

section \<open>All requests\<close>

lemma serve_chat_ok: "chat_ok (wDB w) \<Longrightarrow> chat_ok (wDB (serve r w))"
  by (cases r) (simp_all add: CreateConversation_chat_ok UpdateConversation_chat_ok AddMembers_chat_ok
      RemoveMember_chat_ok ChangeMemberRole_chat_ok SetPref_chat_ok SendMessage_chat_ok EditMessage_chat_ok
      DeleteMessage_chat_ok AddReaction_chat_ok RemoveReaction_chat_ok MarkRead_chat_ok redis_flush_def)

lemma serve_all_chat_ok: "chat_ok (wDB w) \<Longrightarrow> chat_ok (wDB (serve_all rs w))"
  by (induction rs arbitrary: w) (simp_all add: serve_chat_ok)

end
