(* ===== verification/ChatProperties.thy ===== *)
theory ChatProperties
  imports ChatSafety ChatServe
begin

text \<open>
  The properties of the chat module besides sending: invariants of all interleavings, invariants
  of served requests, who may do what, and what receipts, deletion and role changes mean.
\<close>

section \<open>Example facts\<close>

lemma demo_run: "tx_run demo_db (snd (projr (nextFromPG 1 demo_db)))"
  by (rule tx_step_run, rule tx_allocate [of 1 _ 1]) (simp add: nextFromPG_def demo_db_def floor_of_def)

lemma demo_floors: "floors_ok demo_db" "floors_nonneg demo_db"
  by (auto simp: floors_ok_def floors_nonneg_def demo_db_def floor_covers_def conversation_exists_def
      floor_of_def demo_conversation_def)

lemma demo_chat_ok: "chat_ok demo_db"
proof -
  have "active_count demo_db c \<le> 500" for c
    by (simp add: active_count_def demo_db_def count_where_def demo_member_def active_in_def)
  then show ?thesis
    using demo_schema
    by (simp add: chat_ok_def members_refer_def members_capped_def reactions_capped_def direct_closed_def kinds_def
        conversation_exists_def distinct_emoji_def demo_db_def demo_member_def demo_conversation_def
        DefaultSettings_def maxDistinctReactions_def)
qed

section \<open>All interleavings\<close>

text \<open>
  C5. Whatever transactions commit, in whatever order and with whatever stale data in them, the
  keys and checks of the schema hold, the outbox and the edit history only grow, every message
  keeps its identity and its place in the conversation, and a tombstoned message never changes.
\<close>

theorem every_interleaving_keeps_history:
  assumes "tx_run db db'" and "schema_ok db"
  shows "schema_ok db' \<and> evolves db db'"
  using tx_run_store [OF assms(1)] assms(2) by (simp_all add: store_step_def)

theorem every_interleaving_keeps_history_witness:
  "schema_ok (snd (projr (nextFromPG 1 demo_db))) \<and> evolves demo_db (snd (projr (nextFromPG 1 demo_db)))"
  using every_interleaving_keeps_history [OF demo_run demo_schema] by simp



text \<open>
  Allocations of one conversation never repeat: however many are made in a row on the Redis
  path, they are distinct, positive and above every message stored so far.
\<close>

lemma allocations_distinct:
  assumes "allocator_ok w c" and "redis_seq.alloc_many k (w, c) = (ns, s)"
  shows "distinct ns \<and> (\<forall>n \<in> set ns. \<forall>m \<in> set (tMessages (wDB w)). gConversationID m = c \<longrightarrow> gSequence m < n)"
proof (intro conjI ballI impI)
  have a: "distinct ns" "set ns \<inter> used_sequences (w, c) = {}"
    using redis_seq.alloc_many_fresh [of "(w, c)" k ns s] assms by auto
  show "distinct ns" by (rule a(1))
  fix n m assume n: "n \<in> set ns" and m: "m \<in> set (tMessages (wDB w))" "gConversationID m = c"
  obtain f where f: "floor_of (wDB w) c = Some f" "gSequence m \<le> f"
    using assms(1) m by (auto simp: allocator_ok_def floor_covers_def)
  have "n \<notin> used_sequences (w, c)" using a(2) n by blast
  with assms(1) f show "gSequence m < n"
    by (cases "wRedis w c") (auto simp: used_sequences_def allocator_ok_def counter_warm_def)
qed

lemma allocations_distinct_example:
  "distinct (fst (redis_seq.alloc_many 3 (demo_world, 1)))"
  using allocations_distinct [OF demo_allocator] by (metis prod.collapse)

section \<open>Requests served in turn\<close>

text \<open>
  C7. The caps: however the requests come, no conversation gets more than 500 active members and
  no message more than 20 distinct emoji.
\<close>

theorem caps_hold:
  assumes "chat_ok (wDB w)"
  shows "active_count (wDB (serve_all rs w)) c \<le> 500 \<and> distinct_emoji (wDB (serve_all rs w)) i \<le> 20"
  using serve_all_chat_ok [OF assms, of rs]
  by (simp_all add: chat_ok_def members_capped_def reactions_capped_def maxDistinctReactions_def)

theorem caps_hold_witness:
  "active_count (wDB (serve_all [ReqPin (healthy_env 5 1) 10 1 True] demo_world)) 1 \<le> 500
   \<and> distinct_emoji (wDB (serve_all [ReqPin (healthy_env 5 1) 10 1 True] demo_world)) 7 \<le> 20"
proof -
  have "chat_ok (wDB demo_world)" using demo_chat_ok by (simp add: demo_world_def)
  from caps_hold [OF this] show ?thesis by blast
qed

text \<open>
  C8. A direct chat stays between its members: nobody can be added to it, it has no settings or
  title to change and no roles to hand out, whoever asks.
\<close>

theorem direct_chat_is_closed:
  assumes "chat_ok db" and "(c, ConversationDirect, s) \<in> set (kinds db)"
    and "amConversationID acmd = c" "ucConversationID ucmd = c" "crcConversationID rcmd = c"
  shows "(\<exists>e. AddMembers env acmd db = (Inl e, db)) \<and> (\<exists>e. UpdateConversation env ucmd db = (Inl e, db))
       \<and> (\<exists>e. ChangeMemberRole env rcmd db = (Inl e, db))"
proof (intro conjI)
  have no: "\<not> (AtLeast (mRole m) RoleAdmin \<or> sAnyoneCanAdd (cSettings conv))"
    if "ConversationFindByID fl db c = Inr conv" "requireMember fl' db c v = Inr m" for fl fl' conv v m
    using admin_not_direct [OF _ that] assms by (auto simp: chat_ok_def)
  show "\<exists>e. AddMembers env acmd db = (Inl e, db)"
  proof -
    have "add_checks (nvFaults env) acmd db \<noteq> Inr (a, b, x)" for a b x
      using add_checks_Inr [of "nvFaults env" acmd db a b x] no assms(3) by metis
    then show ?thesis by (cases "add_checks (nvFaults env) acmd db") (auto simp: AddMembers_def)
  qed
  show "\<exists>e. UpdateConversation env ucmd db = (Inl e, db)"
  proof -
    have "update_checks env ucmd db \<noteq> Inr (x, y)" for x y
      using update_checks_Inr [of env ucmd db x y] no assms(4) by metis
    then show ?thesis by (cases "update_checks env ucmd db") (auto simp: UpdateConversation_def)
  qed
  show "\<exists>e. ChangeMemberRole env rcmd db = (Inl e, db)"
  proof -
    have "role_checks (nvFaults env) rcmd db \<noteq> Inr x" for x
    proof
      assume "role_checks (nvFaults env) rcmd db = Inr x"
      then obtain conv caller target where "ConversationFindByID (nvFaults env) db c = Inr conv"
        "requireMember (nvFaults env) db c (crcUserID rcmd) = Inr caller"
        "role_change_allowed caller target (mRole x) = Inr ()"
        using role_checks_Inr assms(5) by blast
      with no show False by (fastforce simp: role_change_allowed_def split: if_splits)
    qed
    then show ?thesis by (cases "role_checks (nvFaults env) rcmd db") (auto simp: ChangeMemberRole_def)
  qed
qed

theorem direct_chat_is_closed_witness:
  "\<exists>e. AddMembers (healthy_env 5 1) \<lparr>amUserID = 10, amConversationID = 2, amUserIDs = [12]\<rparr> demo_db = (Inl e, demo_db)"
proof -
  have "(2, ConversationDirect, DefaultSettings) \<in> set (kinds demo_db)"
    by (simp add: kinds_def demo_db_def demo_conversation_def)
  from direct_chat_is_closed [OF demo_chat_ok this, of
      "\<lparr>amUserID = 10, amConversationID = 2, amUserIDs = [12]\<rparr>"
      "\<lparr>ucUserID = 10, ucConversationID = 2, ucTitle = None, ucTitleSet = False, ucAvatarMediaID = None,
        ucAvatarSet = False, ucAvatarCleared = False, ucSettings = None\<rparr>"
      "\<lparr>crcUserID = 10, crcConversationID = 2, crcTargetUserID = 11, crcRole = ''admin''\<rparr>" "healthy_env 5 1"]
  show ?thesis by simp
qed

end
