(* ===== verification/ChatRules.thy ===== *)
theory ChatRules
  imports ChatProperties
begin

text \<open>
  Who may do what, and what the membership, receipt and deletion use cases mean, with the places
  where the code departs from what it documents.
\<close>

section \<open>The membership gate\<close>

lemma outsider_gate: "\<not> active_member db c u \<Longrightarrow> \<exists>e. requireMember fl db c u = Inl e"
  using requireMember_outsider by blast

lemma reaction_target_outsider:
  assumes "\<not> active_member db (gConversationID m) (rcUserID cmd)"
    and "find (\<lambda>x. gID x = rcMessageID cmd) (tMessages db) = Some m"
  shows "\<exists>e. reaction_target fl cmd db = Inl e"
proof (cases "reaction_target fl cmd db")
  case (Inr x)
  with assms show ?thesis
    by (auto simp: reaction_target_def MessageFindByID_def dest: requireMember_active)
qed simp


text \<open>One message of the example, by user 10, in the group.\<close>

definition demo_message :: Message where
  "demo_message = (new_message (demo_text 10 1 ''a'') MessageTypeText None 1 100 5)\<lparr>gGlobalSeq := 1\<rparr>"

definition demo_db2 :: ChatDB where
  "demo_db2 = demo_db\<lparr>tMessages := [demo_message], tSequences := [(1, 1), (2, 0)], nMessageSeq := 2\<rparr>"

lemma demo_message_simps [simp]:
  "gID demo_message = 100" "gConversationID demo_message = 1" "gSequence demo_message = 1"
  "gSenderID demo_message = Some 10" "gDeletedAt demo_message = None" "gContent demo_message = Some ''hello''"
  "gCreatedAt demo_message = 5" "gType demo_message = MessageTypeText" "gEditedAt demo_message = None"
  "gClientMsgID demo_message = Some ''a''"
  by (simp_all add: demo_message_def new_message_def demo_text_def)

lemma demo_db2_simps [simp]:
  "tMessages demo_db2 = [demo_message]" "tMembers demo_db2 = tMembers demo_db" "tUsers demo_db2 = tUsers demo_db"
  "tConversations demo_db2 = tConversations demo_db" "tEdits demo_db2 = []" "tChangeLog demo_db2 = []"
  by (simp_all add: demo_db2_def demo_db_def)

lemma demo_outsider: "\<not> active_member demo_db2 1 12"
  by (simp add: active_member_def demo_db_def demo_member_def)




end
