(* ===== verification/ChatBehaviour.thy ===== *)
theory ChatBehaviour
  imports ChatRules
begin

text \<open>
  What the membership, receipt, edit and delete use cases do to the store, and two interleavings
  in which a stale read overwrites what another request committed.
\<close>

section \<open>Membership\<close>

lemma remove_checks_Inr:
  assumes "remove_checks fl cmd db = Inr ()"
  shows "\<exists>caller target. requireMember fl db (rmConversationID cmd) (rmUserID cmd) = Inr caller
    \<and> requireMember fl db (rmConversationID cmd) (rmTargetUserID cmd) = Inr target
    \<and> (rmTargetUserID cmd = rmUserID cmd \<or> remove_allowed caller target = Inr ())"
proof -
  from assms obtain conv caller target where s: "ConversationFindByID fl db (rmConversationID cmd) = Inr conv"
    "requireMember fl db (cID conv) (rmUserID cmd) = Inr caller"
    "requireMember fl db (cID conv) (rmTargetUserID cmd) = Inr target"
    "rmTargetUserID cmd = rmUserID cmd \<or> remove_allowed caller target = Inr ()"
    by (auto simp: remove_checks_def split: if_splits)
  moreover have "cID conv = rmConversationID cmd" using FindByID_kinds [OF s(1)] by blast
  ultimately show ?thesis by (intro exI [of _ caller] exI [of _ target]) simp
qed

lemma remove_tx_effect:
  assumes "remove_tx env cmd db = Inr (r, Some db')" and "active_member db (rmConversationID cmd) v"
  shows "tConversations db' = tConversations db"
    and "tMembers db' = upd_where (\<lambda>m. mem_key m = (rmConversationID cmd, rmTargetUserID cmd) \<and> mLeftAt m = None)
           (\<lambda>m. m\<lparr>mLeftAt := Some (nvClock env 0)\<rparr>) (tMembers db)"
    and "\<exists>row. tChangeLog db' = tChangeLog db @ [row] \<and> lEventType row = EventConversationMembership
           \<and> lAffectedUserIDs row = active_ids db' (rmConversationID cmd)"
proof -
  have pos: "count_where (\<lambda>m. mConversationID m = rmConversationID cmd \<and> mLeftAt m = None) (tMembers db) \<noteq> 0"
    using assms(2) by (auto simp: count_where_zero_iff active_member_def)
  then show "tConversations db' = tConversations db"
    and "tMembers db' = upd_where (\<lambda>m. mem_key m = (rmConversationID cmd, rmTargetUserID cmd) \<and> mLeftAt m = None)
           (\<lambda>m. m\<lparr>mLeftAt := Some (nvClock env 0)\<rparr>) (tMembers db)"
    and "\<exists>row. tChangeLog db' = tChangeLog db @ [row] \<and> lEventType row = EventConversationMembership
           \<and> lAffectedUserIDs row = active_ids db' (rmConversationID cmd)"
    using assms(1)
    by (auto simp: remove_tx_def Let_def MembershipRemove_def CountActive_def ChangeLogAppend_def
        ActiveUserIDs_def membership_event_def active_ids_def)
qed



text \<open>
  C12. Changing a role: only an admin or the owner may, an owner's own role never changes, an
  admin's only by the owner, and only an owner makes an owner.  Exactly the target's role changes.
\<close>

theorem role_change_authority:
  assumes "ChangeMemberRole env cmd db = (Inr out, db')"
  shows "\<exists>caller target r. requireMember (nvFaults env) db (crcConversationID cmd) (crcUserID cmd) = Inr caller
           \<and> requireMember (nvFaults env) db (crcConversationID cmd) (crcTargetUserID cmd) = Inr target
           \<and> ParseRole (crcRole cmd) = Inr r
           \<and> RoleMember \<noteq> mRole caller \<and> mRole target \<noteq> RoleOwner
           \<and> (mRole target = RoleAdmin \<longrightarrow> mRole caller = RoleOwner)
           \<and> (r = RoleOwner \<longrightarrow> mRole caller = RoleOwner)
           \<and> tMembers db' = upd_where (\<lambda>m. mem_key m = mem_key target)
                (\<lambda>m. target\<lparr>mRole := r, mJoinedAt := mJoinedAt m\<rparr>) (tMembers db)"
proof -
  obtain t where c: "role_checks (nvFaults env) cmd db = Inr t"
    and x: "transact (nvFaults env) (role_tx env cmd t) db = (Inr out, db')"
    using assms by (auto simp: ChangeMemberRole_def prepare_Inr_iff)
  obtain caller target where g: "requireMember (nvFaults env) db (crcConversationID cmd) (crcUserID cmd) = Inr caller"
    "requireMember (nvFaults env) db (crcConversationID cmd) (crcTargetUserID cmd) = Inr target"
    "ParseRole (crcRole cmd) = Inr (mRole t)" "t = target\<lparr>mRole := mRole t\<rparr>"
    "role_change_allowed caller target (mRole t) = Inr ()"
    using role_checks_Inr [OF c] by blast
  have "\<exists>d1 es. MembershipUpdate (nvFaults env) t db = Inr d1 \<and> ChangeLogAppend (nvFaults env) es d1 = Inr db'"
    using x by (auto simp: transact_Inr_iff role_tx_def Let_def)
  then obtain d1 es where u: "MembershipUpdate (nvFaults env) t db = Inr d1" "ChangeLogAppend (nvFaults env) es d1 = Inr db'"
    by blast
  have "mem_key t = mem_key target" using g(4) by (metis mem_key_def Membership.select_convs(1,2)
        Membership.surjective Membership.update_convs(3))
  then have "tMembers db' = upd_where (\<lambda>m. mem_key m = mem_key target)
        (\<lambda>m. target\<lparr>mRole := mRole t, mJoinedAt := mJoinedAt m\<rparr>) (tMembers db)"
    using u(1) statement_frames(12) [OF u(2)] g(4) by (auto simp: MembershipUpdate_def)
  with g show ?thesis
    by (intro exI [of _ caller] exI [of _ target] exI [of _ "mRole t"])
      (auto simp: role_change_allowed_def split: if_splits)
qed

theorem role_change_authority_witness:
  "\<exists>out db' target. ChangeMemberRole (healthy_env 5 1)
       \<lparr>crcUserID = 10, crcConversationID = 1, crcTargetUserID = 11, crcRole = ''admin''\<rparr> demo_db = (Inr out, db')
     \<and> tMembers db' = upd_where (\<lambda>m. mem_key m = mem_key target)
         (\<lambda>m. target\<lparr>mRole := RoleAdmin, mJoinedAt := mJoinedAt m\<rparr>) (tMembers demo_db)"
proof -
  let ?cmd = "\<lparr>crcUserID = 10, crcConversationID = 1, crcTargetUserID = 11, crcRole = ''admin''\<rparr>"
  obtain out db' where r: "ChangeMemberRole (healthy_env 5 1) ?cmd demo_db = (Inr out, db')"
    by (simp add: ChangeMemberRole_def role_checks_def ConversationFindByID_def requireMember_def FindActive_def
        role_change_allowed_def demo_db_def demo_conversation_def demo_member_def scanConversation_def settingsFromJSON_def
        DefaultSettings_def HistoryVisibleAll_def transact_def role_tx_def MembershipUpdate_def ParseRole_def
        mem_key_def mem_check_def ActiveUserIDs_def ChangeLogAppend_def commit_def no_faults_def)
  obtain target role where "ParseRole (crcRole ?cmd) = Inr role" "tMembers db' = upd_where (\<lambda>m. mem_key m = mem_key target)
         (\<lambda>m. target\<lparr>mRole := role, mJoinedAt := mJoinedAt m\<rparr>) (tMembers demo_db)"
    using role_change_authority [OF r] by blast
  with r show ?thesis by (auto simp: ParseRole_def)
qed

section \<open>Receipts\<close>

definition advance :: "go_int \<Rightarrow> go_int \<Rightarrow> go_time \<Rightarrow> Membership \<Rightarrow> Membership" where
  "advance readSeq delivered now m =
     m\<lparr>mLastReadSeq := max (mLastReadSeq m) readSeq,
       mLastDeliveredSeq := max (mLastDeliveredSeq m) (max readSeq delivered), mLastReadAt := Some now\<rparr>"

lemma optional_append_members:
  assumes "(if b then ChangeLogAppend fl es db1 else Inr db1) = Inr db2"
  shows "tMembers db2 = tMembers db1"
  using assms by (auto split: if_splits dest: statement_frames(12))

lemma optional_read_append_members:
  assumes "(if b then rbind q (\<lambda>ss. if ss \<noteq> [] then ChangeLogAppend fl (f ss) db1 else Inr db1) else Inr db1) = Inr db2"
  shows "tMembers db2 = tMembers db1"
  using assms by (auto split: if_splits dest: statement_frames(12))

lemma mark_tx_Inr:
  assumes "mark_tx env cmd d r0 d0 db = Inr (res, Some db')"
  shows "\<exists>adv d1. MembershipMarkRead (nvFaults env) (mkConversationID cmd) (mkUserID cmd) (mkReadSeq cmd) d (nvClock env 0) db
        = Inr (adv, d1) \<and> tMembers db' = tMembers d1
      \<and> res = (FormatInt (max r0 (mkReadSeq cmd)), FormatInt (max d0 (max d (mkReadSeq cmd))))"
proof -
  let ?m = "MembershipMarkRead (nvFaults env) (mkConversationID cmd) (mkUserID cmd) (mkReadSeq cmd) d (nvClock env 0) db"
  obtain a b d1 where k: "?m = Inr ((a, b), d1)"
    using assms by (cases ?m) (auto simp: mark_tx_def Let_def)
  have "tMembers db' = tMembers d1 \<and> res = (FormatInt (max r0 (mkReadSeq cmd)), FormatInt (max d0 (max d (mkReadSeq cmd))))"
    using assms unfolding mark_tx_def Let_def k
    by (auto simp only: rbind_Inr_iff rbind_simps prod.case commit_Inr option.inject
        dest!: optional_read_append_members optional_append_members)
  with k show ?thesis by (intro exI [of _ "(a, b)"] exI [of _ d1]) simp
qed

lemma MarkRead_Inr:
  assumes "MarkRead env cmd db = (Inr (rs, ds), db')" and "schema_ok db"
  shows "\<exists>m delivered. m \<in> set (tMembers db) \<and> mem_key m = (mkConversationID cmd, mkUserID cmd) \<and> mLeftAt m = None
    \<and> delivered = (case mkDeliveredSeq cmd of None \<Rightarrow> 0 | Some d \<Rightarrow> d)
    \<and> rs = FormatInt (max (mLastReadSeq m) (mkReadSeq cmd))
    \<and> ds = FormatInt (max (mLastDeliveredSeq m) (max delivered (mkReadSeq cmd)))
    \<and> tMembers db' = upd_where (\<lambda>x. mem_key x = (mkConversationID cmd, mkUserID cmd) \<and> mLeftAt x = None)
         (advance (mkReadSeq cmd) delivered (nvClock env 0)) (tMembers db)"
proof -
  let ?c = "mkConversationID cmd" and ?u = "mkUserID cmd" and ?fl = "nvFaults env"
  obtain d r0 d0 where c: "mark_checks ?fl cmd db = Inr (d, r0, d0)"
    and t: "transact ?fl (mark_tx env cmd d r0 d0) db = (Inr (rs, ds), db')"
    using assms(1) by (auto simp: MarkRead_def prepare_Inr_iff)
  obtain m where m: "requireMember ?fl db ?c ?u = Inr m" "r0 = mLastReadSeq m" "d0 = mLastDeliveredSeq m"
    and d: "d = (case mkDeliveredSeq cmd of None \<Rightarrow> 0 | Some d \<Rightarrow> d)"
    using c by (auto simp: mark_checks_def split: option.splits)
  have mm: "m \<in> set (tMembers db)" "mem_key m = (?c, ?u)" "mLeftAt m = None"
    using requireMember_Inr [OF m(1)] by (auto simp: mem_key_def)
  have "mark_tx env cmd d r0 d0 db \<noteq> Inr (x, None)" for x
    by (simp add: mark_tx_def Let_def commit_def)
  with t have tx: "mark_tx env cmd d r0 d0 db = Inr ((rs, ds), Some db')" by (auto simp: transact_Inr_iff)
  have "\<exists>adv d1. MembershipMarkRead ?fl ?c ?u (mkReadSeq cmd) d (nvClock env 0) db = Inr (adv, d1)
      \<and> tMembers db' = tMembers d1 \<and> rs = FormatInt (max r0 (mkReadSeq cmd))
      \<and> ds = FormatInt (max d0 (max d (mkReadSeq cmd)))"
    using mark_tx_Inr [OF tx] by auto
  then obtain adv d1 where k: "MembershipMarkRead ?fl ?c ?u (mkReadSeq cmd) d (nvClock env 0) db = Inr (adv, d1)"
    and e: "tMembers db' = tMembers d1" "rs = FormatInt (max r0 (mkReadSeq cmd))"
      "ds = FormatInt (max d0 (max d (mkReadSeq cmd)))" by blast
  have "find (\<lambda>m. mem_key m = (?c, ?u) \<and> mLeftAt m = None) (tMembers db) \<noteq> None"
    using mm by (auto simp: find_None_iff)
  then have "tMembers d1 = upd_where (\<lambda>x. mem_key x = (?c, ?u) \<and> mLeftAt x = None)
      (advance (mkReadSeq cmd) d (nvClock env 0)) (tMembers db)"
    using k by (auto simp: MembershipMarkRead_def Let_def advance_def [abs_def])
  with mm e m d show ?thesis by (intro exI [of _ m] exI [of _ d]) simp
qed


definition demo_mark :: MarkReadCommand where
  "demo_mark = \<lparr>mkUserID = 11, mkConversationID = 1, mkReadSeq = 3, mkDeliveredSeq = None\<rparr>"

lemma demo_mark_read: "\<exists>rs ds db'. MarkRead (healthy_env 5 1) demo_mark demo_db = (Inr (rs, ds), db')"
  by (simp add: MarkRead_def mark_checks_def requireMember_def FindActive_def demo_db_def demo_member_def
      demo_mark_def transact_def mark_tx_def MembershipMarkRead_def mem_key_def mem_check_def SenderIDsBetween_def
      senders_between_def conversation_messages_def ChangeLogAppend_def commit_def no_faults_def
      List.map_filter_simps Let_def)


text \<open>
  The cursors are not safe from the preference endpoints: a pin, archive or mute whose
  membership was read before a concurrent mark-read committed writes the old cursors back, so the
  committed read position is lost.
\<close>

lemma preferences_lose_receipts:
  assumes "pref_member fl u c db = Inr m" and "schema_ok db"
    and "MarkRead env1 cmd db = (Inr out, db1)" "mkUserID cmd = u" "mkConversationID cmd = c"
    and "mLastReadSeq m < mkReadSeq cmd"
    and "transact (nvFaults env2) (pref_tx env2 (pinned env2 p m)) db1 = (Inr out', db2)"
  shows "(\<exists>r \<in> set (tMembers db1). mem_key r = mem_key m \<and> mLastReadSeq r = mkReadSeq cmd)
       \<and> (\<forall>r \<in> set (tMembers db2). mem_key r = mem_key m \<longrightarrow> mLastReadSeq r = mLastReadSeq m)"
proof -
  obtain rs ds where out: "out = (rs, ds)" by fastforce
  obtain conv where "ConversationFindByID fl db c = Inr conv" "requireMember fl db (cID conv) u = Inr m"
    using assms(1) by (auto simp: pref_member_def)
  then have g: "requireMember fl db c u = Inr m" using FindByID_kinds by metis
  have m: "m \<in> set (tMembers db)" "mem_key m = (c, u)"
    using requireMember_Inr [OF g] by (auto simp: mem_key_def)
  obtain x d where x: "x \<in> set (tMembers db)" "mem_key x = (c, u)" "mLeftAt x = None"
    and t: "tMembers db1 = upd_where (\<lambda>x. mem_key x = (c, u) \<and> mLeftAt x = None)
         (advance (mkReadSeq cmd) d (nvClock env1 0)) (tMembers db)"
    using MarkRead_Inr [OF assms(3) [unfolded out] assms(2)] assms(4,5) by blast
  have "x = m" using assms(2) x m by (auto simp: schema_ok_def members_ok_def dest: key_inj)
  with x have "advance (mkReadSeq cmd) d (nvClock env1 0) m \<in> set (tMembers db1)" by (auto simp: t set_upd_where)
  moreover have "mem_key (advance (mkReadSeq cmd) d (nvClock env1 0) m) = mem_key m"
    "mLastReadSeq (advance (mkReadSeq cmd) d (nvClock env1 0) m) = mkReadSeq cmd"
    using assms(6) by (simp_all add: advance_def mem_key_def)
  moreover have "MembershipUpdate (nvFaults env2) (pinned env2 p m) db1 = Inr db2"
    using assms(7) by (auto simp: transact_Inr_iff pref_tx_def)
  then have "tMembers db2 = upd_where (\<lambda>r. mem_key r = mem_key (pinned env2 p m))
      (\<lambda>r. (pinned env2 p m)\<lparr>mJoinedAt := mJoinedAt r\<rparr>) (tMembers db1)"
    by (auto simp: MembershipUpdate_def)
  then have "\<forall>r \<in> set (tMembers db2). mem_key r = mem_key m \<longrightarrow> mLastReadSeq r = mLastReadSeq m"
    by (auto simp: set_upd_where pinned_def mem_key_def)
  ultimately show ?thesis by metis
qed

lemma preferences_lose_receipts_example:
  "\<exists>out db1 out' db2. MarkRead (healthy_env 5 1) demo_mark demo_db = (Inr out, db1)
     \<and> transact no_faults (pref_tx (healthy_env 6 2) (pinned (healthy_env 6 2) True (demo_member 1 11 RoleMember))) db1
         = (Inr out', db2)
     \<and> (\<exists>r \<in> set (tMembers db1). mem_key r = (1, 11) \<and> mLastReadSeq r = 3)
     \<and> (\<forall>r \<in> set (tMembers db2). mem_key r = (1, 11) \<longrightarrow> mLastReadSeq r = 0)"
proof -
  let ?m = "demo_member 1 11 RoleMember" and ?e = "healthy_env 6 2"
  obtain rs ds db1 where r: "MarkRead (healthy_env 5 1) demo_mark demo_db = (Inr (rs, ds), db1)"
    using demo_mark_read by blast
  have k: "mem_key (pinned ?e True ?m) = (1, 11)" "mem_key ?m = (1, 11)" "mem_check (pinned ?e True ?m)" "mLastReadSeq ?m = 0"
    by (simp_all add: pinned_def demo_member_def mem_key_def mem_check_def)
  obtain db2 where "pref_tx ?e (pinned ?e True ?m) db1 = Inr (pinned ?e True ?m, Some db2)"
    using k by (auto simp: pref_tx_def MembershipUpdate_def no_faults_def)
  then obtain out' db2 where t: "transact no_faults (pref_tx ?e (pinned ?e True ?m)) db1 = (Inr out', db2)"
    by (auto simp: transact_Inr_iff no_faults_def)
  have p: "pref_member no_faults 11 1 demo_db = Inr ?m"
    by (simp add: pref_member_def ConversationFindByID_def requireMember_def FindActive_def demo_db_def
        demo_member_def demo_conversation_def scanConversation_def settingsFromJSON_def DefaultSettings_def
        HistoryVisibleAll_def)
  from preferences_lose_receipts [OF p demo_schema r _ _ _ t [folded healthy_env_simps(3) [of 6 2]]] r t k
  show ?thesis by (auto simp: demo_mark_def)
qed

end
