(* ===== verification/ChatPaging.thy ===== *)
theory ChatPaging
  imports ChatMessages ChatConversations ChatMembers Scenario
begin

text \<open>
  The list endpoints as seen by a client that follows their cursors: message history (newest
  first), catch-up after a global sequence, the conversation list and the member list.  Each is
  an interpretation of \<open>cursor_endpoint\<close> on the use case itself, so the completeness of the
  walk is the locale's lemma.
\<close>

section \<open>Shared facts\<close>

lemma enrichPage_ok: "\<exists>e. enrichPage no_faults db rows = Inr e"
  by (simp add: enrichPage_def ListByIDs_def CursorsByConversation_def ListReceipts_def no_faults_def Let_def)

lemma gate_ok:
  assumes "live_conversation db c" and "active_member db c u"
  shows "(\<exists>conv. ConversationFindByID no_faults db c = Inr conv \<and> cID conv = c)"
    and "(\<exists>m. requireMember no_faults db c u = Inr m)"
  using assms FindByID_live [OF assms(1)] requireMember_ok [of no_faults, OF _ assms(2)]
  by (fastforce simp: ConversationFindByID_def no_faults_def scanConversation_def dest: find_SomeD)+

text \<open>One page and the flag of a further one, from \<open>limit + 1\<close> fetched rows.\<close>

lemma take_page: "(if length xs > n then take n xs else xs) = take n xs"
  by simp

section \<open>History\<close>

type_synonym history = "ChatDB \<times> ListMessagesCommand"

definition history_ok :: "history \<Rightarrow> bool" where
  "history_ok = (\<lambda>(db, cmd). schema_ok db \<and> live_conversation db (lsConversationID cmd)
     \<and> active_member db (lsConversationID cmd) (lsUserID cmd)
     \<and> (\<forall>m \<in> set (tMessages db). 0 < gSequence m \<and> gSequence m < 2 ^ 63 \<and> 0 < gGlobalSeq m \<and> gGlobalSeq m < 2 ^ 63))"

definition conversation_of :: "history \<Rightarrow> Message list" where
  "conversation_of = (\<lambda>(db, cmd). conversation_messages db (lsConversationID cmd))"

definition fetch_history :: "history \<Rightarrow> go_int option \<Rightarrow> nat \<Rightarrow> Message list" where
  "fetch_history = (\<lambda>(db, cmd) cur n. projr (ListByConversation no_faults db
     \<lparr>qgConversationID = lsConversationID cmd, qgBeforeSeq = cur, qgAfterGlobalSeq = None, qgLimit = n\<rparr>))"

definition fetch_after :: "history \<Rightarrow> go_int option \<Rightarrow> nat \<Rightarrow> Message list" where
  "fetch_after = (\<lambda>(db, cmd) cur n. projr (ListByConversation no_faults db
     \<lparr>qgConversationID = lsConversationID cmd, qgBeforeSeq = None,
      qgAfterGlobalSeq = (if cur = None then lsAfterGlobalSeq cmd else cur), qgLimit = n\<rparr>))"

text \<open>A request for one page, as the ids it shows from the newest to the oldest, or in order.\<close>

definition history_request :: "history \<Rightarrow> string \<Rightarrow> chat_error + string list \<times> string option" where
  "history_request = (\<lambda>(db, cmd) cursor.
     rbind (ListMessages no_faults (cmd\<lparr>lsCursor := cursor\<rparr>) db) (\<lambda>r.
       Inr (rev (map vID (lrItems r)), lrNext r)))"

definition after_request :: "history \<Rightarrow> string \<Rightarrow> chat_error + string list \<times> string option" where
  "after_request = (\<lambda>(db, cmd) cursor.
     rbind (ListMessages no_faults (cmd\<lparr>lsCursor := cursor\<rparr>) db) (\<lambda>r.
       Inr (map vID (lrItems r), lrNext r)))"

lemma vID_messageView [simp]: "vID (messageView m e) = FormatInt (gID m)"
  by (simp add: messageView_def)

lemma ListMessages_page:
  assumes "history_ok (db, cmd)" and "list_seek cmd = Inr (before, after)"
  shows "\<exists>e rows hasMore. ListByConversation no_faults db
        \<lparr>qgConversationID = lsConversationID cmd, qgBeforeSeq = before, qgAfterGlobalSeq = after,
         qgLimit = clamp_limit (lsLimit cmd) + 1\<rparr> = Inr rows
      \<and> hasMore = (clamp_limit (lsLimit cmd) < length rows)
      \<and> ListMessages no_faults cmd db = Inr
        (let page = take (clamp_limit (lsLimit cmd)) rows in
         if after \<noteq> None
         then \<lparr>lrItems = map (\<lambda>m. messageView m e) page,
               lrNext = (if page \<noteq> [] then Some (encodeMessageCursor ''g'' (gGlobalSeq (last page))) else None),
               lrHasMore = hasMore, lrLimit = clamp_limit (lsLimit cmd)\<rparr>
         else \<lparr>lrItems = map (\<lambda>m. messageView m e) (rev page),
               lrNext = (if hasMore \<and> page \<noteq> [] then Some (encodeMessageCursor ''s'' (gSequence (last page))) else None),
               lrHasMore = hasMore, lrLimit = clamp_limit (lsLimit cmd)\<rparr>)"
proof -
  let ?n = "clamp_limit (lsLimit cmd)"
  obtain conv m where g: "ConversationFindByID no_faults db (lsConversationID cmd) = Inr conv"
    "requireMember no_faults db (lsConversationID cmd) (lsUserID cmd) = Inr m"
    using gate_ok [of db "lsConversationID cmd" "lsUserID cmd"] assms(1) by (auto simp: history_ok_def)
  obtain rows where rows: "ListByConversation no_faults db
        \<lparr>qgConversationID = lsConversationID cmd, qgBeforeSeq = before, qgAfterGlobalSeq = after, qgLimit = ?n + 1\<rparr> = Inr rows"
    by (simp add: ListByConversation_def no_faults_def)
  obtain e where e: "enrichPage no_faults db (take ?n rows) = Inr e" using enrichPage_ok by blast
  have "ListMessages no_faults cmd db = Inr (let page = take ?n rows; hasMore = ?n < length rows in
         if after \<noteq> None
         then \<lparr>lrItems = map (\<lambda>m. messageView m e) page,
               lrNext = (if page \<noteq> [] then Some (encodeMessageCursor ''g'' (gGlobalSeq (last page))) else None),
               lrHasMore = hasMore, lrLimit = ?n\<rparr>
         else \<lparr>lrItems = map (\<lambda>m. messageView m e) (rev page),
               lrNext = (if hasMore \<and> page \<noteq> [] then Some (encodeMessageCursor ''s'' (gSequence (last page))) else None),
               lrHasMore = hasMore, lrLimit = ?n\<rparr>)"
    by (simp only: ListMessages_def g rows e assms(2) rbind_simps Let_def take_page prod.case)
  with rows show ?thesis by (metis (no_types, lifting))
qed


lemma history_positions: "history_ok (db, cmd) \<Longrightarrow> distinct (map gSequence (conversation_messages db c))"
  by (auto simp: history_ok_def schema_ok_def messages_ok_def conversation_messages_def distinct_map inj_on_def
      message_slot_def)

lemma global_positions: "history_ok (db, cmd) \<Longrightarrow> distinct (map gGlobalSeq (filter P (conversation_messages db c)))"
  by (auto simp: history_ok_def schema_ok_def messages_ok_def conversation_messages_def distinct_map inj_on_def)

lemma message_cursor_nonempty: "encodeMessageCursor p n \<noteq> []"
  by (simp add: encodeMessageCursor_def)

lemma list_seek_first: "list_seek (cmd\<lparr>lsCursor := []\<rparr>) = Inr (lsBeforeSeq cmd, lsAfterGlobalSeq cmd)"
  if "lsBeforeSeq cmd = None \<or> lsAfterGlobalSeq cmd = None"
  using that by (auto simp: list_seek_def)

lemma list_seek_cursor:
  assumes "0 < n" "n < 2 ^ 63"
  shows "list_seek (cmd\<lparr>lsCursor := encodeMessageCursor ''s'' n\<rparr>) = Inr (Some n, None)"
    and "list_seek (cmd\<lparr>lsCursor := encodeMessageCursor ''g'' n\<rparr>) = Inr (None, Some n)"
  using message_cursor_roundtrip [OF assms] by (simp_all add: list_seek_def message_cursor_nonempty)

definition newest_first :: "history \<Rightarrow> Message list" where
  "newest_first s = rev (sort_key gSequence (conversation_of s))"

definition scrolling :: "history \<Rightarrow> bool" where
  "scrolling s \<longleftrightarrow> history_ok s \<and> lsBeforeSeq (snd s) = None \<and> lsAfterGlobalSeq (snd s) = None"

lemma fetch_history_page: "fetch_history (db, cmd) cur n = page_desc gSequence cur n (conversation_messages db (lsConversationID cmd))"
  by (simp add: fetch_history_def ListByConversation_def no_faults_def)

interpretation history: keyset_reader scrolling newest_first gSequence fetch_history
  by unfold_locales
    (auto simp: scrolling_def newest_first_def conversation_of_def fetch_history_page page_desc_first
      history_positions page_desc_beyond)

lemma ListByConversation_history:
  "ListByConversation no_faults db \<lparr>qgConversationID = lsConversationID cmd, qgBeforeSeq = cur,
     qgAfterGlobalSeq = None, qgLimit = n\<rparr> = Inr (fetch_history (db, cmd) cur n)"
  by (simp add: fetch_history_def ListByConversation_def no_faults_def)

lemma fetch_history_cmd [simp]: "fetch_history (db, cmd\<lparr>lsCursor := x\<rparr>) = fetch_history (db, cmd)"
  by (simp add: fetch_history_def)

lemma history_request_page:
  assumes "history_ok (db, cmd)" and "list_seek (cmd\<lparr>lsCursor := cursor\<rparr>) = Inr (cur, None)"
  shows "\<exists>next. history_request (db, cmd) cursor
        = Inr (map (\<lambda>m. FormatInt (gID m)) (history.page (db, cmd) cur (clamp_limit (lsLimit cmd))), next)
      \<and> (next = None \<and> \<not> history.has_more (db, cmd) cur (clamp_limit (lsLimit cmd))
          \<or> history.page (db, cmd) cur (clamp_limit (lsLimit cmd)) \<noteq> []
            \<and> next = Some (encodeMessageCursor ''s''
                (gSequence (last (history.page (db, cmd) cur (clamp_limit (lsLimit cmd)))))))"
proof -
  let ?n = "clamp_limit (lsLimit cmd)" and ?rows = "fetch_history (db, cmd) cur (Suc (clamp_limit (lsLimit cmd)))"
  have "history_ok (db, cmd\<lparr>lsCursor := cursor\<rparr>)" using assms(1) by (simp add: history_ok_def)
  then obtain e where r: "ListMessages no_faults (cmd\<lparr>lsCursor := cursor\<rparr>) db = Inr
      \<lparr>lrItems = map (\<lambda>m. messageView m e) (rev (take ?n ?rows)),
       lrNext = (if ?n < length ?rows \<and> take ?n ?rows \<noteq> []
         then Some (encodeMessageCursor ''s'' (gSequence (last (take ?n ?rows)))) else None),
       lrHasMore = ?n < length ?rows, lrLimit = ?n\<rparr>"
    using ListMessages_page [OF _ assms(2), of db]
      ListByConversation_history [of db "cmd\<lparr>lsCursor := cursor\<rparr>" cur "Suc ?n"]
    by (auto simp: Let_def)
  have "0 < ?n" using clamp_limit_bounds by blast
  then show ?thesis
    by (auto simp: history_request_def r history.page_def history.has_more_def rev_map o_def)
qed

interpretation scroll: cursor_endpoint scrolling newest_first gSequence fetch_history
  "\<lambda>s. clamp_limit (lsLimit (snd s))" "encodeMessageCursor ''s''" "\<lambda>_ m. FormatInt (gID m)" history_request
proof unfold_locales
  fix s assume s: "scrolling s"
  obtain db cmd where p: "s = (db, cmd)" by fastforce
  show "0 < clamp_limit (lsLimit (snd s))" using clamp_limit_bounds by blast
  have seek: "list_seek (cmd\<lparr>lsCursor := []\<rparr>) = Inr (None, None)"
    using s list_seek_first [of cmd] by (simp add: scrolling_def p)
  show "\<exists>next. history_request s [] = Inr (map (\<lambda>m. FormatInt (gID m)) (history.page s None (clamp_limit (lsLimit (snd s)))), next)
      \<and> (next = None \<and> \<not> history.has_more s None (clamp_limit (lsLimit (snd s)))
        \<or> history.page s None (clamp_limit (lsLimit (snd s))) \<noteq> []
          \<and> next = Some (encodeMessageCursor ''s'' (gSequence (last (history.page s None (clamp_limit (lsLimit (snd s))))))))"
    using history_request_page [OF _ seek] s by (simp add: p scrolling_def)
  fix r assume r: "r \<in> set (newest_first s)"
  then have "r \<in> set (tMessages db)" by (simp add: newest_first_def conversation_of_def conversation_messages_def p)
  with s have "0 < gSequence r" "gSequence r < 2 ^ 63" by (auto simp: scrolling_def history_ok_def p)
  note seek = list_seek_cursor(1) [OF this, of cmd]
  show "\<exists>next. history_request s (encodeMessageCursor ''s'' (gSequence r))
        = Inr (map (\<lambda>m. FormatInt (gID m)) (history.page s (Some (gSequence r)) (clamp_limit (lsLimit (snd s)))), next)
      \<and> (next = None \<and> \<not> history.has_more s (Some (gSequence r)) (clamp_limit (lsLimit (snd s)))
        \<or> history.page s (Some (gSequence r)) (clamp_limit (lsLimit (snd s))) \<noteq> []
          \<and> next = Some (encodeMessageCursor ''s''
              (gSequence (last (history.page s (Some (gSequence r)) (clamp_limit (lsLimit (snd s))))))))"
    using history_request_page [OF _ seek] s by (simp add: p scrolling_def)
qed

section \<open>Catch-up\<close>

text \<open>
  After a reconnect a client asks for what it missed: the messages beyond the last global sequence
  it saw, in that order.  Here every non-empty page carries a cursor and the walk ends at an empty
  one.
\<close>

definition missed :: "history \<Rightarrow> Message list" where
  "missed s = sort_key gGlobalSeq
     (filter (\<lambda>m. \<forall>a. lsAfterGlobalSeq (snd s) = Some a \<longrightarrow> a < gGlobalSeq m) (conversation_of s))"

definition catching_up :: "history \<Rightarrow> bool" where
  "catching_up s \<longleftrightarrow> history_ok s \<and> lsBeforeSeq (snd s) = None \<and> lsAfterGlobalSeq (snd s) \<noteq> None"

lemma fetch_after_page:
  "lsAfterGlobalSeq cmd = Some a \<Longrightarrow> fetch_after (db, cmd) cur n =
     page_asc gGlobalSeq (Some (case cur of None \<Rightarrow> a | Some k \<Rightarrow> k)) n (conversation_messages db (lsConversationID cmd))"
  by (auto simp: fetch_after_def ListByConversation_def no_faults_def split: option.splits)

lemma ListByConversation_after:
  "lsAfterGlobalSeq cmd = Some a \<Longrightarrow> ListByConversation no_faults db \<lparr>qgConversationID = lsConversationID cmd,
     qgBeforeSeq = None, qgAfterGlobalSeq = Some (case cur of None \<Rightarrow> a | Some k \<Rightarrow> k), qgLimit = n\<rparr>
   = Inr (fetch_after (db, cmd) cur n)"
  by (auto simp: fetch_after_def ListByConversation_def no_faults_def split: option.splits)

interpretation missing: keyset_reader catching_up missed gGlobalSeq fetch_after
proof unfold_locales
  fix s :: history and n assume s: "catching_up s"
  obtain db cmd a where p: "s = (db, cmd)" "lsAfterGlobalSeq cmd = Some a"
    using s by (cases s) (auto simp: catching_up_def)
  show "fetch_after s None n = take n (missed s)"
    by (simp add: p fetch_after_page page_asc_def missed_def conversation_of_def)
  fix xs r ys assume e: "missed s = xs @ r # ys"
  then have "r \<in> set (missed s)" by simp
  then have a: "a < gGlobalSeq r" by (simp add: missed_def p)
  let ?rows = "filter (\<lambda>m. a < gGlobalSeq m) (conversation_messages db (lsConversationID cmd))"
  have "sort_key gGlobalSeq ?rows = xs @ r # ys" using e by (simp add: missed_def p conversation_of_def)
  moreover have "history_ok (db, cmd)" using s by (simp add: catching_up_def p)
  then have "distinct (map gGlobalSeq ?rows)" by (rule global_positions)
  ultimately have "page_asc gGlobalSeq (Some (gGlobalSeq r)) n ?rows = take n ys" by (intro page_asc_beyond)
  moreover have "filter (\<lambda>m. gGlobalSeq r < gGlobalSeq m) ?rows
      = filter (\<lambda>m. gGlobalSeq r < gGlobalSeq m) (conversation_messages db (lsConversationID cmd))"
    using a by (auto intro: filter_cong)
  ultimately show "fetch_after s (Some (gGlobalSeq r)) n = take n ys"
    by (simp add: p fetch_after_page page_asc_def)
qed

lemma after_request_page:
  assumes "history_ok (db, cmd)" and "lsAfterGlobalSeq cmd = Some a"
    and "list_seek (cmd\<lparr>lsCursor := cursor\<rparr>) = Inr (None, Some (case cur of None \<Rightarrow> a | Some k \<Rightarrow> k))"
  shows "\<exists>next. after_request (db, cmd) cursor
        = Inr (map (\<lambda>m. FormatInt (gID m)) (missing.page (db, cmd) cur (clamp_limit (lsLimit cmd))), next)
      \<and> (next = None \<and> \<not> missing.has_more (db, cmd) cur (clamp_limit (lsLimit cmd))
          \<or> missing.page (db, cmd) cur (clamp_limit (lsLimit cmd)) \<noteq> []
            \<and> next = Some (encodeMessageCursor ''g''
                (gGlobalSeq (last (missing.page (db, cmd) cur (clamp_limit (lsLimit cmd)))))))"
proof -
  let ?n = "clamp_limit (lsLimit cmd)" and ?rows = "fetch_after (db, cmd) cur (Suc (clamp_limit (lsLimit cmd)))"
  have "history_ok (db, cmd\<lparr>lsCursor := cursor\<rparr>)" using assms(1) by (simp add: history_ok_def)
  moreover have "fetch_after (db, cmd\<lparr>lsCursor := cursor\<rparr>) = fetch_after (db, cmd)"
    by (simp add: fetch_after_def cong: if_cong)
  ultimately obtain e where r: "ListMessages no_faults (cmd\<lparr>lsCursor := cursor\<rparr>) db = Inr
      \<lparr>lrItems = map (\<lambda>m. messageView m e) (take ?n ?rows),
       lrNext = (if take ?n ?rows \<noteq> []
         then Some (encodeMessageCursor ''g'' (gGlobalSeq (last (take ?n ?rows)))) else None),
       lrHasMore = ?n < length ?rows, lrLimit = ?n\<rparr>"
    using ListMessages_page [OF _ assms(3), of db] assms(2)
      ListByConversation_after [of "cmd\<lparr>lsCursor := cursor\<rparr>" a db cur "Suc ?n"]
    by (auto simp: Let_def)
  have "0 < ?n" using clamp_limit_bounds by blast
  then show ?thesis
    by (auto simp: after_request_def r missing.page_def missing.has_more_def o_def)
qed

interpretation catch_up: cursor_endpoint catching_up missed gGlobalSeq fetch_after
  "\<lambda>s. clamp_limit (lsLimit (snd s))" "encodeMessageCursor ''g''" "\<lambda>_ m. FormatInt (gID m)" after_request
proof unfold_locales
  fix s assume s: "catching_up s"
  obtain db cmd a where p: "s = (db, cmd)" "lsAfterGlobalSeq cmd = Some a"
    using s by (cases s) (auto simp: catching_up_def)
  show "0 < clamp_limit (lsLimit (snd s))" using clamp_limit_bounds by blast
  have h: "history_ok (db, cmd)" using s by (simp add: catching_up_def p)
  have "list_seek (cmd\<lparr>lsCursor := []\<rparr>) = Inr (None, Some (case None of None \<Rightarrow> a | Some k \<Rightarrow> k))"
    using s list_seek_first [of cmd] by (simp add: catching_up_def p)
  from after_request_page [OF h p(2) this]
  show "\<exists>next. after_request s [] = Inr (map (\<lambda>m. FormatInt (gID m)) (missing.page s None (clamp_limit (lsLimit (snd s)))), next)
      \<and> (next = None \<and> \<not> missing.has_more s None (clamp_limit (lsLimit (snd s)))
        \<or> missing.page s None (clamp_limit (lsLimit (snd s))) \<noteq> []
          \<and> next = Some (encodeMessageCursor ''g'' (gGlobalSeq (last (missing.page s None (clamp_limit (lsLimit (snd s))))))))"
    by (simp add: p)
  fix r assume r: "r \<in> set (missed s)"
  then have "r \<in> set (tMessages db)" by (simp add: missed_def conversation_of_def conversation_messages_def p)
  with h have "0 < gGlobalSeq r" "gGlobalSeq r < 2 ^ 63" by (auto simp: history_ok_def)
  from list_seek_cursor(2) [OF this, of cmd]
  have "list_seek (cmd\<lparr>lsCursor := encodeMessageCursor ''g'' (gGlobalSeq r)\<rparr>)
      = Inr (None, Some (case Some (gGlobalSeq r) of None \<Rightarrow> a | Some k \<Rightarrow> k))" by simp
  from after_request_page [OF h p(2) this]
  show "\<exists>next. after_request s (encodeMessageCursor ''g'' (gGlobalSeq r))
        = Inr (map (\<lambda>m. FormatInt (gID m)) (missing.page s (Some (gGlobalSeq r)) (clamp_limit (lsLimit (snd s)))), next)
      \<and> (next = None \<and> \<not> missing.has_more s (Some (gGlobalSeq r)) (clamp_limit (lsLimit (snd s)))
        \<or> missing.page s (Some (gGlobalSeq r)) (clamp_limit (lsLimit (snd s))) \<noteq> []
          \<and> next = Some (encodeMessageCursor ''g''
              (gGlobalSeq (last (missing.page s (Some (gGlobalSeq r)) (clamp_limit (lsLimit (snd s))))))))"
    by (simp add: p)
qed

section \<open>Members\<close>

type_synonym member_reader = "ChatDB \<times> ListMembersCommand \<times> (string \<Rightarrow> string \<Rightarrow> bool)"

definition roster_of :: "member_reader \<Rightarrow> MemberRow list" where
  "roster_of = (\<lambda>(db, cmd, ilike). member_rows ilike db (lmConversationID cmd) (lmQ cmd))"

definition newest_members :: "member_reader \<Rightarrow> MemberRow list" where
  "newest_members s = rev (sort_key member_position (roster_of s))"

definition roster_ok :: "member_reader \<Rightarrow> bool" where
  "roster_ok = (\<lambda>(db, cmd, ilike). schema_ok db \<and> live_conversation db (lmConversationID cmd)
     \<and> active_member db (lmConversationID cmd) (lmUserID cmd)
     \<and> (\<forall>m \<in> set (tMembers db). int64 (mJoinedAt m) \<and> int64 (mUserID m)))"

definition fetch_members :: "member_reader \<Rightarrow> (go_time \<times> go_int) option \<Rightarrow> nat \<Rightarrow> MemberRow list" where
  "fetch_members = (\<lambda>(db, cmd, ilike) cur n. projr (MemberList no_faults ilike db (lmConversationID cmd)
     \<lparr>qmLimit = n, qmCursor = cur, qmQ = lmQ cmd\<rparr>))"

definition members_request :: "member_reader \<Rightarrow> string \<Rightarrow> chat_error + string list \<times> string option" where
  "members_request = (\<lambda>(db, cmd, ilike) cursor.
     rbind (ListMembers no_faults ilike (cmd\<lparr>lmCursor := cursor\<rparr>) db) (\<lambda>r.
       Inr (map mvUserID (mlItems r), mlNext r)))"

lemma roster_positions:
  assumes "schema_ok db"
  shows "distinct (map member_position (member_rows ilike db c q))"
proof -
  let ?ps = "filter (\<lambda>(m, u). uID u = mUserID m \<and> mConversationID m = c \<and> mLeftAt m = None
      \<and> (q \<noteq> [] \<longrightarrow> ilike (uDisplayName u) (filter_pattern q))) (List.product (tMembers db) (tUsers db))"
  have u: "distinct (tMembers db)" "distinct (tUsers db)" "inj_on mem_key (set (tMembers db))"
    "inj_on uID (set (tUsers db))"
    using assms by (auto simp: schema_ok_def members_ok_def distinct_map)
  then have "distinct ?ps" by (simp add: distinct_product)
  moreover have "inj_on (member_position \<circ> (\<lambda>(m, u). \<lparr>mrUserID = mUserID m, mrDisplayName = uDisplayName u,
      mrRole = mRole m, mrJoinedAt = mJoinedAt m\<rparr>)) (set ?ps)"
    using u(3,4) by (fastforce simp: inj_on_def member_position_def mem_key_def)
  ultimately show ?thesis by (simp add: member_rows_def distinct_map)
qed

lemma fetch_members_page:
  "fetch_members (db, cmd, ilike) cur n
     = page_desc member_position cur n (member_rows ilike db (lmConversationID cmd) (lmQ cmd))"
  by (simp add: fetch_members_def MemberList_def no_faults_def)

interpretation roster: keyset_reader roster_ok newest_members member_position fetch_members
  by unfold_locales
    (auto simp: roster_ok_def newest_members_def roster_of_def fetch_members_page page_desc_first
      roster_positions page_desc_beyond)

lemma members_request_page:
  assumes "roster_ok (db, cmd, ilike)" and "decodeMemberCursor cursor = Inr cur"
  shows "\<exists>next. members_request (db, cmd, ilike) cursor
        = Inr (map (\<lambda>r. FormatInt (mrUserID r)) (roster.page (db, cmd, ilike) cur (clamp_limit (lmLimit cmd))), next)
      \<and> (next = None \<and> \<not> roster.has_more (db, cmd, ilike) cur (clamp_limit (lmLimit cmd))
          \<or> roster.page (db, cmd, ilike) cur (clamp_limit (lmLimit cmd)) \<noteq> []
            \<and> next = Some (memberCursor
                (member_position (last (roster.page (db, cmd, ilike) cur (clamp_limit (lmLimit cmd)))))))"
proof -
  let ?n = "clamp_limit (lmLimit cmd)" and ?rows = "fetch_members (db, cmd, ilike) cur (Suc (clamp_limit (lmLimit cmd)))"
  obtain conv m where g: "ConversationFindByID no_faults db (lmConversationID cmd) = Inr conv"
    "cID conv = lmConversationID cmd" "requireMember no_faults db (lmConversationID cmd) (lmUserID cmd) = Inr m"
    using gate_ok [of db "lmConversationID cmd" "lmUserID cmd"] assms(1) by (auto simp: roster_ok_def)
  have f: "MemberList no_faults ilike db (lmConversationID cmd) \<lparr>qmLimit = Suc ?n, qmCursor = cur, qmQ = lmQ cmd\<rparr>
      = Inr ?rows" by (simp add: fetch_members_def MemberList_def no_faults_def)
  have "0 < ?n" using clamp_limit_bounds by blast
  then show ?thesis
    using g f assms(2)
    by (auto simp: members_request_def ListMembers_def Let_def roster.page_def roster.has_more_def o_def)
qed

lemma member_cursor_roundtrip:
  "int64 (fst k) \<Longrightarrow> int64 (snd k) \<Longrightarrow> decodeMemberCursor (memberCursor k) = Inr (Some k)"
  by (simp add: decodeMemberCursor_def memberCursor_def encodeCursor_nonempty cursor_roundtrip)

interpretation member_pages: cursor_endpoint roster_ok newest_members member_position fetch_members
  "\<lambda>s. clamp_limit (lmLimit (fst (snd s)))" memberCursor "\<lambda>_ r. FormatInt (mrUserID r)" members_request
proof unfold_locales
  fix s assume s: "roster_ok s"
  obtain db cmd ilike where p: "s = (db, cmd, ilike)" by (cases s) auto
  show "0 < clamp_limit (lmLimit (fst (snd s)))" using clamp_limit_bounds by blast
  have "decodeMemberCursor [] = Inr None" by (simp add: decodeMemberCursor_def)
  from members_request_page [OF s [unfolded p] this]
  show "\<exists>next. members_request s [] = Inr (map (\<lambda>r. FormatInt (mrUserID r))
          (roster.page s None (clamp_limit (lmLimit (fst (snd s))))), next)
      \<and> (next = None \<and> \<not> roster.has_more s None (clamp_limit (lmLimit (fst (snd s))))
        \<or> roster.page s None (clamp_limit (lmLimit (fst (snd s)))) \<noteq> []
          \<and> next = Some (memberCursor (member_position (last (roster.page s None (clamp_limit (lmLimit (fst (snd s)))))))))"
    by (simp add: p)
  fix r assume "r \<in> set (newest_members s)"
  then have "int64 (mrJoinedAt r)" "int64 (mrUserID r)"
    using s by (auto simp: newest_members_def roster_of_def member_rows_def roster_ok_def p)
  then have "decodeMemberCursor (memberCursor (member_position r)) = Inr (Some (member_position r))"
    by (intro member_cursor_roundtrip) (simp_all add: member_position_def)
  from members_request_page [OF s [unfolded p] this]
  show "\<exists>next. members_request s (memberCursor (member_position r)) = Inr (map (\<lambda>r. FormatInt (mrUserID r))
          (roster.page s (Some (member_position r)) (clamp_limit (lmLimit (fst (snd s))))), next)
      \<and> (next = None \<and> \<not> roster.has_more s (Some (member_position r)) (clamp_limit (lmLimit (fst (snd s))))
        \<or> roster.page s (Some (member_position r)) (clamp_limit (lmLimit (fst (snd s)))) \<noteq> []
          \<and> next = Some (memberCursor (member_position
              (last (roster.page s (Some (member_position r)) (clamp_limit (lmLimit (fst (snd s)))))))))"
    by (simp add: p)
qed

section \<open>Conversations\<close>

type_synonym inbox_reader = "ChatDB \<times> ListConversationsCommand"

definition inbox_query :: "ListConversationsCommand \<Rightarrow> ConversationListQuery" where
  "inbox_query cmd = \<lparr>qlUserID = lcUserID cmd, qlFilter = (if lcFilter cmd = [] then ''all'' else lcFilter cmd),
     qlUnreadOnly = lcUnreadOnly cmd, qlLimit = 0, qlCursor = None\<rparr>"

definition inbox_of :: "inbox_reader \<Rightarrow> ConversationRow list" where
  "inbox_of = (\<lambda>(db, cmd). rev (sort_key row_position (conversation_rows db (inbox_query cmd))))"

definition inbox_ok :: "inbox_reader \<Rightarrow> bool" where
  "inbox_ok = (\<lambda>(db, cmd). schema_ok db
     \<and> qlFilter (inbox_query cmd) \<in> {''all'', ''pinned'', ''archived'', ''groups'', ''direct''}
     \<and> (\<forall>c \<in> set (tConversations db). int64 (LastActivity c) \<and> int64 (cID c)))"

definition fetch_inbox :: "inbox_reader \<Rightarrow> (go_time \<times> go_int) option \<Rightarrow> nat \<Rightarrow> ConversationRow list" where
  "fetch_inbox = (\<lambda>(db, cmd) cur n. projr (ConversationList no_faults db
     ((inbox_query cmd)\<lparr>qlLimit := n, qlCursor := cur\<rparr>)))"

definition inbox_request :: "inbox_reader \<Rightarrow> string \<Rightarrow> chat_error + string list \<times> string option" where
  "inbox_request = (\<lambda>(db, cmd) cursor.
     rbind (ListConversations no_faults (cmd\<lparr>lcCursor := cursor\<rparr>) db) (\<lambda>r.
       Inr (map cvID (clItems r), clNext r)))"

lemma inbox_positions:
  assumes "schema_ok db"
  shows "distinct (map row_position (conversation_rows db q))"
proof -
  let ?ps = "filter (\<lambda>(c, m). list_matches q c m) (List.product (tConversations db) (tMembers db))"
  have u: "distinct (tMembers db)" "distinct (tConversations db)" "inj_on mem_key (set (tMembers db))"
    "inj_on cID (set (tConversations db))"
    using assms by (auto simp: schema_ok_def members_ok_def distinct_map)
  then have "distinct ?ps" by (simp add: distinct_product)
  moreover have "inj_on (row_position \<circ> (\<lambda>(c, m). \<lparr>crConversation = scanConversation c, crMembership = m,
      crCounterpartID = counterpart db (cID c) (qlUserID q)\<rparr>)) (set ?ps)"
    using u(3,4) by (fastforce simp: inj_on_def row_position_def scanConversation_def mem_key_def list_matches_def)
  ultimately show ?thesis by (simp add: conversation_rows_def distinct_map)
qed

lemma scanConversation_activity:
  "LastActivity (scanConversation c) = LastActivity c" "cID (scanConversation c) = cID c"
  by (simp_all add: scanConversation_def LastActivity_def split: option.split)

lemma conversation_rows_query [simp]:
  "conversation_rows db (q\<lparr>qlLimit := n, qlCursor := cur\<rparr>) = conversation_rows db q"
  by (simp add: conversation_rows_def list_matches_def [abs_def])

lemma fetch_inbox_page:
  "fetch_inbox (db, cmd) cur n = page_desc row_position cur n (conversation_rows db (inbox_query cmd))"
  by (simp add: fetch_inbox_def ConversationList_def no_faults_def)

interpretation inbox: keyset_reader inbox_ok inbox_of row_position fetch_inbox
  by unfold_locales
    (auto simp: inbox_ok_def inbox_of_def fetch_inbox_page page_desc_first inbox_positions page_desc_beyond)

lemma inbox_request_page:
  assumes "inbox_ok (db, cmd)" and "decodeConversationCursor cursor = Inr cur"
  shows "\<exists>next. inbox_request (db, cmd) cursor
        = Inr (map (\<lambda>r. FormatInt (cID (crConversation r))) (inbox.page (db, cmd) cur (clamp_limit (lcLimit cmd))), next)
      \<and> (next = None \<and> \<not> inbox.has_more (db, cmd) cur (clamp_limit (lcLimit cmd))
          \<or> inbox.page (db, cmd) cur (clamp_limit (lcLimit cmd)) \<noteq> []
            \<and> next = Some (conversationCursor
                (row_position (last (inbox.page (db, cmd) cur (clamp_limit (lcLimit cmd)))))))"
proof -
  let ?n = "clamp_limit (lcLimit cmd)" and ?rows = "fetch_inbox (db, cmd) cur (Suc (clamp_limit (lcLimit cmd)))"
  have lim: "lcLimit (cmd\<lparr>lcCursor := cursor\<rparr>) = lcLimit cmd" by simp
  have q: "list_query (cmd\<lparr>lcCursor := cursor\<rparr>) = Inr ((inbox_query cmd)\<lparr>qlLimit := Suc ?n, qlCursor := cur\<rparr>)"
    using assms by (auto simp: list_query_def inbox_query_def inbox_ok_def Let_def split: if_splits)
  have f: "ConversationList no_faults db ((inbox_query cmd)\<lparr>qlLimit := Suc ?n, qlCursor := cur\<rparr>) = Inr ?rows"
    by (simp add: fetch_inbox_def ConversationList_def no_faults_def)
  have nm: "\<exists>names. (if counterpart_ids rs \<noteq> [] then rbind (ListByIDs no_faults db (counterpart_ids rs))
        (\<lambda>users. Inr (displayNames users)) else Inr (\<lambda>_. [])) = Inr names" for rs
    by (simp add: ListByIDs_def no_faults_def)
  obtain names where names: "(if counterpart_ids (take ?n ?rows) \<noteq> []
      then rbind (ListByIDs no_faults db (counterpart_ids (take ?n ?rows))) (\<lambda>users. Inr (displayNames users))
      else Inr (\<lambda>_. [])) = Inr names" using nm by blast
  have r: "ListConversations no_faults (cmd\<lparr>lcCursor := cursor\<rparr>) db = Inr
      \<lparr>clItems = map (\<lambda>r. buildListView r names) (take ?n ?rows),
       clNext = (if ?n < length ?rows \<and> take ?n ?rows \<noteq> [] then Some (conversationCursor (row_position (last (take ?n ?rows)))) else None),
       clHasMore = ?n < length ?rows, clLimit = ?n\<rparr>"
    by (simp only: ListConversations_def Let_def q f rbind_simps take_page names lim)
  have "0 < ?n" using clamp_limit_bounds by blast
  then show ?thesis
    by (auto simp: inbox_request_def r inbox.page_def inbox.has_more_def o_def buildListView_def Let_def)
qed

lemma conversation_cursor_roundtrip:
  "int64 (fst k) \<Longrightarrow> int64 (snd k) \<Longrightarrow> decodeConversationCursor (conversationCursor k) = Inr (Some k)"
  by (simp add: decodeConversationCursor_def conversationCursor_def encodeCursor_nonempty cursor_roundtrip)

interpretation inbox_pages: cursor_endpoint inbox_ok inbox_of row_position fetch_inbox
  "\<lambda>s. clamp_limit (lcLimit (snd s))" conversationCursor "\<lambda>_ r. FormatInt (cID (crConversation r))" inbox_request
proof unfold_locales
  fix s assume s: "inbox_ok s"
  obtain db cmd where p: "s = (db, cmd)" by (cases s) auto
  show "0 < clamp_limit (lcLimit (snd s))" using clamp_limit_bounds by blast
  have "decodeConversationCursor [] = Inr None" by (simp add: decodeConversationCursor_def)
  from inbox_request_page [OF s [unfolded p] this]
  show "\<exists>next. inbox_request s [] = Inr (map (\<lambda>r. FormatInt (cID (crConversation r)))
          (inbox.page s None (clamp_limit (lcLimit (snd s)))), next)
      \<and> (next = None \<and> \<not> inbox.has_more s None (clamp_limit (lcLimit (snd s)))
        \<or> inbox.page s None (clamp_limit (lcLimit (snd s))) \<noteq> []
          \<and> next = Some (conversationCursor (row_position (last (inbox.page s None (clamp_limit (lcLimit (snd s))))))))"
    by (simp add: p)
  fix r assume "r \<in> set (inbox_of s)"
  then obtain c where "c \<in> set (tConversations db)" "crConversation r = scanConversation c"
    by (auto simp: inbox_of_def conversation_rows_def p)
  then have "int64 (LastActivity (crConversation r))" "int64 (cID (crConversation r))"
    using s by (simp_all add: inbox_ok_def p scanConversation_activity)
  then have "decodeConversationCursor (conversationCursor (row_position r)) = Inr (Some (row_position r))"
    by (intro conversation_cursor_roundtrip) (simp_all add: row_position_def)
  from inbox_request_page [OF s [unfolded p] this]
  show "\<exists>next. inbox_request s (conversationCursor (row_position r)) = Inr (map (\<lambda>r. FormatInt (cID (crConversation r)))
          (inbox.page s (Some (row_position r)) (clamp_limit (lcLimit (snd s)))), next)
      \<and> (next = None \<and> \<not> inbox.has_more s (Some (row_position r)) (clamp_limit (lcLimit (snd s)))
        \<or> inbox.page s (Some (row_position r)) (clamp_limit (lcLimit (snd s))) \<noteq> []
          \<and> next = Some (conversationCursor
              (row_position (last (inbox.page s (Some (row_position r)) (clamp_limit (lcLimit (snd s))))))))"
    by (simp add: p)
qed

section \<open>What a client sees\<close>

text \<open>Three messages in the example group and requests for two at a time.\<close>

definition demo_post :: "go_int \<Rightarrow> Message" where
  "demo_post n = (new_message (demo_text 10 1 ''a'') MessageTypeText None n (100 + n) n)
     \<lparr>gGlobalSeq := n, gClientMsgID := None\<rparr>"

definition demo_thread :: ChatDB where
  "demo_thread = demo_db\<lparr>tMessages := [demo_post 2, demo_post 1, demo_post 3], nMessageSeq := 4\<rparr>"

definition demo_scroll :: "go_int option \<Rightarrow> ListMessagesCommand" where
  "demo_scroll after = \<lparr>lsUserID = 10, lsConversationID = 1, lsCursor = [], lsBeforeSeq = None,
     lsAfterGlobalSeq = after, lsLimit = 2\<rparr>"

lemma demo_thread_schema: "schema_ok demo_thread"
  by code_simp

lemma demo_history_ok: "history_ok (demo_thread, demo_scroll a)"
proof -
  have "live_conversation demo_thread 1" "active_member demo_thread 1 10" by code_simp+
  moreover have "\<forall>m \<in> set (tMessages demo_thread). 0 < gSequence m \<and> gSequence m < 2 ^ 63
      \<and> 0 < gGlobalSeq m \<and> gGlobalSeq m < 2 ^ 63"
    by (simp add: demo_thread_def demo_post_def new_message_def)
  ultimately show ?thesis using demo_thread_schema by (simp add: history_ok_def demo_scroll_def)
qed

text \<open>
  C14. Scrolling back through a conversation: following \<open>next\<close> from the newest page shows every message
  of the conversation exactly once, from the newest sequence to the oldest, whatever the page size.
\<close>

theorem history_scroll_complete:
  assumes "history_ok (db, cmd)" and "lsBeforeSeq cmd = None" "lsAfterGlobalSeq cmd = None"
    and "length (conversation_messages db (lsConversationID cmd)) < fuel"
  shows "follow fuel (history_request (db, cmd)) []
       = map (\<lambda>m. FormatInt (gID m)) (rev (sort_key gSequence (conversation_messages db (lsConversationID cmd))))"
  using scroll.follow_complete [of "(db, cmd)" fuel] assms
  by (simp add: scrolling_def newest_first_def conversation_of_def)

theorem history_scroll_complete_witness:
  "follow 4 (history_request (demo_thread, demo_scroll None)) [] = [FormatInt 103, FormatInt 102, FormatInt 101]"
proof -
  have "rev (sort_key gSequence (conversation_messages demo_thread 1)) = [demo_post 3, demo_post 2, demo_post 1]"
    by code_simp
  moreover have "length (conversation_messages demo_thread 1) < 4" by code_simp
  ultimately show ?thesis
    using history_scroll_complete [OF demo_history_ok [of None], of 4]
    by (simp add: demo_scroll_def demo_post_def new_message_def)
qed



text \<open>
  C16. The conversation list and the member list: following their base64 cursors shows every row that
  matches the filter exactly once, most recent activity (newest member) first, ties by id.
\<close>

theorem lists_complete:
  assumes "inbox_ok (db, lc)" and "length (conversation_rows db (inbox_query lc)) < fuel"
    and "roster_ok (db, lm, ilike)" and "length (member_rows ilike db (lmConversationID lm) (lmQ lm)) < fuel"
  shows "follow fuel (inbox_request (db, lc)) []
           = map (\<lambda>r. FormatInt (cID (crConversation r))) (rev (sort_key row_position (conversation_rows db (inbox_query lc))))
       \<and> follow fuel (members_request (db, lm, ilike)) []
           = map (\<lambda>r. FormatInt (mrUserID r))
               (rev (sort_key member_position (member_rows ilike db (lmConversationID lm) (lmQ lm))))"
  using inbox_pages.follow_complete [of "(db, lc)" fuel] member_pages.follow_complete [of "(db, lm, ilike)" fuel] assms
  by (simp add: inbox_of_def newest_members_def roster_of_def)

theorem lists_complete_witness:
  "follow 5 (inbox_request (demo_db, \<lparr>lcUserID = 10, lcFilter = [], lcUnreadOnly = False, lcLimit = 1, lcCursor = []\<rparr>)) []
     = [FormatInt 2, FormatInt 1]
   \<and> follow 5 (members_request (demo_db,
        \<lparr>lmUserID = 10, lmConversationID = 1, lmLimit = 1, lmCursor = [], lmQ = []\<rparr>, \<lambda>_ _. True)) []
     = [FormatInt 11, FormatInt 10]"
proof -
  let ?lc = "\<lparr>lcUserID = 10, lcFilter = [], lcUnreadOnly = False, lcLimit = 1, lcCursor = []\<rparr>"
  let ?lm = "\<lparr>lmUserID = 10, lmConversationID = 1, lmLimit = 1, lmCursor = [], lmQ = []\<rparr>"
  have i: "inbox_ok (demo_db, ?lc)"
    using demo_schema by (simp add: inbox_ok_def inbox_query_def demo_db_def demo_conversation_def LastActivity_def int64_def)
  have r: "roster_ok (demo_db, ?lm, \<lambda>_ _. True)"
    using demo_schema demo_live demo_members
    by (simp add: roster_ok_def) (simp add: demo_db_def demo_member_def int64_def)
  have "map (\<lambda>r. cID (crConversation r)) (rev (sort_key row_position (conversation_rows demo_db (inbox_query ?lc)))) = [2, 1]"
    "map mrUserID (rev (sort_key member_position (member_rows (\<lambda>_ _. True) demo_db 1 []))) = [11, 10]"
    by code_simp+
  moreover have "length (conversation_rows demo_db (inbox_query ?lc)) < 5" "length (member_rows (\<lambda>_ _. True) demo_db 1 []) < 5"
    by code_simp+
  ultimately show ?thesis
    using lists_complete [OF i _ r, of 5] by (simp add: map_eq_Cons_conv) auto
qed

end
