(* ===== verification/ChatContent.thy ===== *)
theory ChatContent
  imports ChatRules
begin

text \<open>
  What editing and deleting do to the content of a message: who may, what is kept, what readers
  see afterwards, and what other devices are told.
\<close>

section \<open>Facts\<close>

lemma log_row_payload [simp]: "lPayload (log_row e n) = lPayload e"
  by (cases e) (simp add: log_row_def ChangeLogEntry.defs ChangeLogRow.defs)

lemma upd_where_cong:
  "(\<And>x. x \<in> set t \<Longrightarrow> P x = Q x) \<Longrightarrow> upd_where P f t = upd_where Q f t"
  by (simp add: upd_where_def)

lemma find_by_id:
  assumes "schema_ok db" and "m \<in> set (tMessages db)"
  shows "find (\<lambda>x. gID x = gID m) (tMessages db) = Some m"
proof -
  have "distinct (map gID (tMessages db))" using assms(1) by (simp add: schema_ok_def messages_ok_def)
  with assms(2) obtain m' where "find (\<lambda>x. gID x = gID m) (tMessages db) = Some m'" "m' \<in> set (tMessages db)" "gID m' = gID m"
    by (cases "find (\<lambda>x. gID x = gID m) (tMessages db)") (auto simp: find_None_iff dest: find_SomeD)
  moreover from this have "m' = m"
    using \<open>distinct (map gID (tMessages db))\<close> assms(2) by (auto simp: distinct_map inj_on_def)
  ultimately show ?thesis by simp
qed

lemma tombstone_stays:
  assumes "m \<in> set (tMessages db)" and "Deleted m" and "store_step db db'"
  shows "m \<in> set (tMessages db')"
  using assms by (auto simp: store_step_def evolves_def message_evolves_def dest!: grows_by_member)

lemma GetMessage_view:
  "GetMessage fl u i db = Inr v \<Longrightarrow> \<exists>m e. find (\<lambda>x. gID x = i) (tMessages db) = Some m \<and> v = messageView m e"
  by (auto simp: GetMessage_def MessageFindByID_def viewFor_def)

lemma live_message_count:
  assumes "schema_ok db" and "m \<in> set (tMessages db)" "\<not> Deleted m"
  shows "count_where (live_message (gID m)) (tMessages db) = 1"
proof -
  have "distinct (map gID (tMessages db))" using assms(1) by (simp add: schema_ok_def messages_ok_def)
  then have "filter (\<lambda>r. gID r = gID m) (tMessages db) = [m]" using assms(2) by (rule filter_one)
  moreover have "filter (live_message (gID m)) (tMessages db) = filter (\<lambda>r. gDeletedAt r = None) (filter (\<lambda>r. gID r = gID m) (tMessages db))"
    by (auto simp: live_message_def [abs_def] conj_commute)
  ultimately show ?thesis using assms(3) by (simp add: count_where_def Deleted_def)
qed

lemma delete_tx_Some:
  assumes "delete_tx env cmd m db = Inr (u, Some db')"
  shows "tConversations db' = tConversations db
       \<and> tMessages db' = upd_where (live_message (gID m))
           (\<lambda>r. r\<lparr>gDeletedAt := Some (nvClock env 0), gDeletedBy := Some (dmUserID cmd)\<rparr>) (tMessages db)"
  using assms
  by (auto simp: delete_tx_def Let_def MessageTombstone_def appendMessageDeleted_def roll_back_def ChangeLogAppend_def
      simp del: append_log.simps split: if_splits)

lemma delete_tx_None:
  assumes "delete_tx env cmd m db = Inr (u, None)"
  shows "count_where (live_message (gID m)) (tMessages db) \<noteq> 1"
  using assms by (auto simp: delete_tx_def Let_def MessageTombstone_def commit_def split: if_splits)

text \<open>A delete for all that answers leaves the message a tombstone.\<close>

lemma DeleteMessage_Inr:
  assumes "DeleteMessage env cmd db = (Inr (''all'', i), db')" and "schema_ok db"
  shows "\<exists>m r. m \<in> set (tMessages db) \<and> gID m = dmMessageID cmd
           \<and> requireMember (nvFaults env) db (gConversationID m) (dmUserID cmd) = Inr r
           \<and> (gSenderID m = Some (dmUserID cmd) \<or> AtLeast (mRole r) RoleAdmin)
           \<and> tConversations db' = tConversations db
           \<and> (\<exists>d \<in> set (tMessages db'). gID d = dmMessageID cmd \<and> Deleted d)"
proof -
  obtain t where t: "delete_checks env cmd db = Inr t"
    and fin: "(case t of None \<Rightarrow> (Inr (''all'', FormatInt (dmMessageID cmd)), db)
             | Some m \<Rightarrow> finish (transact (nvFaults env) (delete_tx env cmd m) db)
                           (\<lambda>_ _. Inr (''all'', FormatInt (dmMessageID cmd)))) = (Inr (''all'', i), db')"
    using assms(1) by (auto simp: DeleteMessage_def Let_def prepare_Inr_iff split: if_splits)
  obtain m r where m: "find (\<lambda>x. gID x = dmMessageID cmd) (tMessages db) = Some m"
    "requireMember (nvFaults env) db (gConversationID m) (dmUserID cmd) = Inr r"
    "gSenderID m = Some (dmUserID cmd) \<or> AtLeast (mRole r) RoleAdmin"
    "t = (if Deleted m then None else Some m)"
    using t by (auto simp: delete_checks_def MessageFindByID_def SenderOf_iff)
  then have mm: "m \<in> set (tMessages db)" "gID m = dmMessageID cmd" by (auto dest: find_SomeD)
  show ?thesis
  proof (cases "Deleted m")
    case True
    then show ?thesis using fin m mm by auto
  next
    case False
    with fin m(4) have "fst (transact (nvFaults env) (delete_tx env cmd m) db) = Inr ()"
      "db' = snd (transact (nvFaults env) (delete_tx env cmd m) db)"
      by (auto simp: finish_def split: prod.splits sum.splits)
    then have "transact (nvFaults env) (delete_tx env cmd m) db = (Inr (), db')" by (metis prod.collapse)
    then have tx: "delete_tx env cmd m db = Inr ((), Some db')"
      using live_message_count [OF assms(2) mm(1) False] by (auto simp: transact_Inr_iff dest!: delete_tx_None)
    have "m\<lparr>gDeletedAt := Some (nvClock env 0), gDeletedBy := Some (dmUserID cmd)\<rparr> \<in> set (tMessages db')"
      using mm False delete_tx_Some [OF tx] by (auto simp: set_upd_where live_message_def Deleted_def)
    then have "\<exists>d \<in> set (tMessages db'). gID d = dmMessageID cmd \<and> Deleted d"
      by (rule rev_bexI) (simp add: Deleted_def mm)
    with m mm delete_tx_Some [OF tx] show ?thesis by blast
  qed
qed

section \<open>Deleting\<close>



section \<open>Editing\<close>

lemma edit_checks_Inr:
  assumes "edit_checks env cmd db = Inr (m, old)"
  shows "\<exists>m0. find (\<lambda>x. gID x = emMessageID cmd) (tMessages db) = Some m0
           \<and> gSenderID m0 = Some (emUserID cmd) \<and> \<not> Deleted m0 \<and> nvClock env 0 < gCreatedAt m0 + EditWindow
           \<and> gContent m0 = Some old \<and> m = m0\<lparr>gContent := Some (TrimSpace (emNewText cmd))\<rparr>
           \<and> TrimSpace (emNewText cmd) \<noteq> [] \<and> rune_count (TrimSpace (emNewText cmd)) \<le> MaxMessageTextLen"
  using assms by (auto simp: edit_checks_def MessageFindByID_def Let_def SenderOf_iff Editable_def)

lemma edit_tx_Inr:
  assumes "edit_tx env m old i db = Inr (m', Some db')"
  shows "\<exists>row. tMessages db' = upd_where (live_message (gID m))
              (\<lambda>r. r\<lparr>gContent := gContent m, gEditCount := gEditCount r + 1, gEditedAt := Some (nvClock env 1)\<rparr>) (tMessages db)
       \<and> tEdits db' = tEdits db @ [\<lparr>eID = i, eMessageID = gID m, eEditedBy = SenderIDOrZero m,
              eOldContent = old, eEditedAt = nvClock env 1\<rparr>]
       \<and> tChangeLog db' = tChangeLog db @ [row] \<and> lEventType row = EventMessageEdited
       \<and> lEntityID row = Some (gID m) \<and> lAffectedUserIDs row = active_ids db (gConversationID m)
       \<and> jfield ''edited_at'' (lPayload row) = Some (jopt JTime (gEditedAt m))
       \<and> m' = m\<lparr>gEditCount := gEditCount m + 1, gEditedAt := Some (nvClock env 1)\<rparr>"
  using assms
  by (auto simp: edit_tx_def Let_def MessageEditRow_def appendMessageEdited_def ActiveUserIDs_def active_ids_def
      ChangeLogAppend_def split: if_splits)

text \<open>
  C18. Editing: only the sender can, only within the edit window and only a message that has text; the
  stored message gets the trimmed text, every other message keeps its row, the replaced text is
  kept in the edit history, the active members are notified once, and the caller is shown the new
  text with the time of the edit.  The notification itself carries the previous edit time of the
  message (none, for a first edit), not the one stored.
\<close>

theorem edit_effect:
  assumes "EditMessage env cmd db = (Inr v, db')" and "schema_ok db"
  shows "\<exists>m old i row. m \<in> set (tMessages db) \<and> gID m = emMessageID cmd \<and> gSenderID m = Some (emUserID cmd)
           \<and> \<not> Deleted m \<and> nvClock env 0 < gCreatedAt m + EditWindow \<and> gContent m = Some old
           \<and> tMessages db' = upd_where (\<lambda>r. gID r = emMessageID cmd) (\<lambda>r. r\<lparr>gContent := Some (TrimSpace (emNewText cmd)),
                gEditCount := gEditCount r + 1, gEditedAt := Some (nvClock env 1)\<rparr>) (tMessages db)
           \<and> tEdits db' = tEdits db @ [\<lparr>eID = i, eMessageID = emMessageID cmd, eEditedBy = emUserID cmd,
                eOldContent = old, eEditedAt = nvClock env 1\<rparr>]
           \<and> tChangeLog db' = tChangeLog db @ [row] \<and> lEventType row = EventMessageEdited
           \<and> lAffectedUserIDs row = active_ids db (gConversationID m)
           \<and> jfield ''edited_at'' (lPayload row) = Some (jopt JTime (gEditedAt m))
           \<and> vContent v = Some (TrimSpace (emNewText cmd)) \<and> vEditedAt v = Some (nvClock env 1)"
proof -
  obtain m old i where c: "edit_checks env cmd db = Inr (m, old)"
    and f: "finish (transact (nvFaults env) (edit_tx env m old i) db)
            (\<lambda>m' db'. Inr (viewFor (nvFaults env) db' m')) = (Inr v, db')"
    using assms(1) by (auto simp: EditMessage_def prepare_Inr_iff)
  obtain m0 where m0: "find (\<lambda>x. gID x = emMessageID cmd) (tMessages db) = Some m0" "gSenderID m0 = Some (emUserID cmd)"
    "\<not> Deleted m0" "nvClock env 0 < gCreatedAt m0 + EditWindow" "gContent m0 = Some old"
    "m = m0\<lparr>gContent := Some (TrimSpace (emNewText cmd))\<rparr>"
    using edit_checks_Inr [OF c] by blast
  then have mm: "m0 \<in> set (tMessages db)" "gID m0 = emMessageID cmd" by (auto dest: find_SomeD)
  obtain m' where t: "transact (nvFaults env) (edit_tx env m old i) db = (Inr m', db')"
    and v: "v = viewFor (nvFaults env) db' m'" using f by (auto simp: finish_Inr)
  have "edit_tx env m old i db \<noteq> Inr (m', None)" by (simp add: edit_tx_def Let_def commit_def)
  with t have "edit_tx env m old i db = Inr (m', Some db')" by (auto simp: transact_Inr_iff)
  from edit_tx_Inr [OF this] obtain row where r: "tMessages db' = upd_where (live_message (gID m))
        (\<lambda>r. r\<lparr>gContent := gContent m, gEditCount := gEditCount r + 1, gEditedAt := Some (nvClock env 1)\<rparr>) (tMessages db)"
    "tEdits db' = tEdits db @ [\<lparr>eID = i, eMessageID = gID m, eEditedBy = SenderIDOrZero m, eOldContent = old, eEditedAt = nvClock env 1\<rparr>]"
    "tChangeLog db' = tChangeLog db @ [row]" "lEventType row = EventMessageEdited"
    "lAffectedUserIDs row = active_ids db (gConversationID m)"
    "jfield ''edited_at'' (lPayload row) = Some (jopt JTime (gEditedAt m))"
    "m' = m\<lparr>gEditCount := gEditCount m + 1, gEditedAt := Some (nvClock env 1)\<rparr>" by blast
  have "upd_where (live_message (gID m)) g (tMessages db) = upd_where (\<lambda>r. gID r = emMessageID cmd) g (tMessages db)" for g
  proof (rule upd_where_cong)
    fix x assume x: "x \<in> set (tMessages db)"
    have "x = m0" if "gID x = emMessageID cmd"
      using find_by_id [OF assms(2) x] m0(1) that by simp
    then show "live_message (gID m) x \<longleftrightarrow> gID x = emMessageID cmd"
      using m0(3,6) mm by (auto simp: live_message_def Deleted_def)
  qed
  with r m0 mm v show ?thesis
    by (intro exI [of _ m0] exI [of _ old] exI [of _ i] exI [of _ row])
      (simp add: SenderIDOrZero_def viewFor_def messageView_def Deleted_def)
qed

theorem edit_effect_witness:
  "\<exists>v db'. EditMessage (healthy_env 9 1) \<lparr>emUserID = 10, emMessageID = 100, emNewText = ''bye''\<rparr> demo_db2 = (Inr v, db')
     \<and> vContent v = Some ''bye'' \<and> tEdits db' = [\<lparr>eID = 1, eMessageID = 100, eEditedBy = 10, eOldContent = ''hello'', eEditedAt = 9\<rparr>]"
proof -
  let ?cmd = "\<lparr>emUserID = 10, emMessageID = 100, emNewText = ''bye''\<rparr>"
  have "plain ''bye''" by (simp add: byte_def)
  then have t: "TrimSpace ''bye'' = ''bye''" "rune_count ''bye'' = 3"
    by (simp_all add: TrimSpace_plain rune_count_plain)
  have c: "edit_checks (healthy_env 9 1) ?cmd demo_db2 = Inr (demo_message\<lparr>gContent := Some ''bye''\<rparr>, ''hello'')"
    by (simp add: Let_def edit_checks_def MessageFindByID_def t SenderOf_def Deleted_def Editable_def
        EditWindow_def MaxMessageTextLen_def no_faults_def)
  obtain m' db' where tx: "edit_tx (healthy_env 9 1) (demo_message\<lparr>gContent := Some ''bye''\<rparr>) ''hello'' 1 demo_db2 = Inr (m', Some db')"
    by (simp add: Let_def edit_tx_def MessageEditRow_def count_where_def live_message_def message_check_def
        appendMessageEdited_def ActiveUserIDs_def ChangeLogAppend_def user_exists_def demo_user_def demo_db_def
        SenderIDOrZero_def commit_def no_faults_def)
  have e: "tEdits db' = [\<lparr>eID = 1, eMessageID = 100, eEditedBy = 10, eOldContent = ''hello'', eEditedAt = 9\<rparr>]"
    using edit_tx_Inr [OF tx] by (auto simp: SenderIDOrZero_def)
  obtain v where r: "EditMessage (healthy_env 9 1) ?cmd demo_db2 = (Inr v, db')"
    by (simp add: EditMessage_def c NextID_def transact_def tx finish_def no_faults_def)
  have "schema_ok demo_db2" by code_simp
  from edit_effect [OF r this] r e show ?thesis by (auto simp: t)
qed

end
