(* ===== verification/ChatRaces.thy ===== *)
theory ChatRaces
  imports ChatServe ChatContent
begin

text \<open>
  Where one request's reads are older than its writes.  Served in turn, a direct chat is created
  once; two creates that both looked before either wrote make two.  A settings update writes the
  preview columns it read, so a message sent in between disappears from the chat list.
\<close>

section \<open>Creating a direct chat\<close>

lemma fold_upsert_fresh:
  assumes "distinct (map mem_key ms)" and "mem_key ` set ms \<inter> mem_key ` set t = {}"
  shows "fold (\<lambda>m t. upsert mem_key rejoin (inserted_member m) t) ms t = t @ map inserted_member ms"
  using assms
proof (induction ms arbitrary: t)
  case Nil
  then show ?case by simp
next
  case (Cons m ms)
  have k: "mem_key (inserted_member m) = mem_key m" by (simp add: inserted_member_def mem_key_def)
  have "upsert mem_key rejoin (inserted_member m) t = t @ [inserted_member m]"
    using Cons.prems by (auto simp: upsert_def k)
  then show ?case using Cons.IH [of "t @ [inserted_member m]"] Cons.prems by (auto simp: k)
qed

lemma create_tx_direct:
  assumes "create_tx env cmd ConversationDirect [u'] i db = Inr (x, Some db')" and "members_refer db"
  shows "\<exists>row. tConversations db' = tConversations db @ [row] \<and> cID row = i \<and> i \<notin> cID ` set (tConversations db)
           \<and> direct_pair db' (ccUserID cmd) u' row \<and> members_refer db'
           \<and> (\<forall>m \<in> set (tMembers db). m \<in> set (tMembers db'))
           \<and> (\<forall>m \<in> set (tMembers db'). mConversationID m = i \<or> m \<in> set (tMembers db))"
proof -
  let ?ms = "new_members cmd ConversationDirect [u'] i (nvClock env 0)"
  obtain d1 d2 d3 where s: "ConversationCreate (nvFaults env) (new_conversation cmd ConversationDirect i (nvClock env 0)) db = Inr d1"
    "AddMany (nvFaults env) ?ms d1 = Inr d2" "SequenceInit (nvFaults env) i d2 = Inr d3"
    "ChangeLogAppend (nvFaults env) (created_events cmd ConversationDirect [u'] i (nvClock env 0)) d3 = Inr db'"
    using assms(1) by (auto simp: create_tx_def Let_def)
  have c: "tConversations d1 = tConversations db @ [new_conversation cmd ConversationDirect i (nvClock env 0)]"
    "i \<notin> cID ` set (tConversations db)" "tMembers d1 = tMembers db"
    using s(1) by (auto simp: ConversationCreate_def new_conversation_def conversation_exists_def)
  have fresh: "\<forall>m \<in> set (tMembers db). mConversationID m \<noteq> i"
    using assms(2) c(2) by (auto simp: members_refer_def conversation_exists_def)
  have keys: "mem_key ` set ?ms \<inter> mem_key ` set (tMembers d1) = {}"
    using fresh by (auto simp: c new_members_def newMembership_def mem_key_def)
  have "distinct (map mem_key ?ms)" using s(2) by (auto simp: AddMany_def new_members_def split: if_splits)
  then have m: "tMembers d2 = tMembers db @ map inserted_member ?ms" "tConversations d2 = tConversations d1"
    using s(2) fold_upsert_fresh [OF _ keys] by (auto simp: AddMany_def c(3) new_members_def split: if_splits)
  have t: "tMembers db' = tMembers d2" "tConversations db' = tConversations d2"
    using s(3,4) by (auto simp: SequenceInit_def ChangeLogAppend_def simp del: append_log.simps split: if_splits)
  have "direct_pair db' (ccUserID cmd) u' (new_conversation cmd ConversationDirect i (nvClock env 0))"
    using fresh by (auto simp: direct_pair_def active_member_def t m new_conversation_def new_members_def
        newMembership_def inserted_member_def)
  moreover have "members_refer db'"
    using assms(2) by (auto simp: members_refer_def conversation_exists_def t m c new_members_def newMembership_def
        inserted_member_def new_conversation_def)
  ultimately show ?thesis
    by (intro exI [of _ "new_conversation cmd ConversationDirect i (nvClock env 0)"])
      (auto simp: t m c new_conversation_def new_members_def newMembership_def inserted_member_def)
qed

lemma direct_pair_sym: "direct_pair db a b c \<longleftrightarrow> direct_pair db b a c"
  by (auto simp: direct_pair_def insert_commute)

lemma create_checks_direct:
  assumes "create_checks env cmd db = Inr plan" and "ccType cmd = ''direct''"
  shows "\<exists>u'. ccParticipantIDs cmd = [u'] \<and>
           (if \<exists>c \<in> set (tConversations db). direct_pair db (ccUserID cmd) u' c then \<exists>v. plan = Inl v
            else plan = Inr (ConversationDirect, [u']))"
proof -
  have ty: "ParseConversationType (ccType cmd) = Inr ConversationDirect"
    using assms(2) by (simp add: ParseConversationType_def)
  obtain u' where u: "ccParticipantIDs cmd = [u']" "validateParticipants (nvFaults env) db (ccUserID cmd) ConversationDirect [u'] = Inr [u']"
    using assms(1) ty by (auto simp: create_checks_def Let_def validateParticipants_def length_Suc_conv)
  show ?thesis
  proof (cases "find (direct_pair db (ccUserID cmd) u') (tConversations db)")
    case None
    then have no: "\<not> (\<exists>c \<in> set (tConversations db). direct_pair db (ccUserID cmd) u' c)"
      by (simp add: find_None_iff)
    have "FindDirectPair (nvFaults env) db (ccUserID cmd) u'
        = Inl (if nvFaults env CallFindDirectPair then InfraError CallFindDirectPair else ErrConversationNotFound)"
      by (simp add: FindDirectPair_def None call_def)
    with assms(1) ty u no show ?thesis by (auto simp: create_checks_def Let_def split: if_splits)
  next
    case (Some c)
    then have yes: "\<exists>c \<in> set (tConversations db). direct_pair db (ccUserID cmd) u' c" by (auto dest: find_SomeD)
    have "nvFaults env CallFindDirectPair \<or> FindDirectPair (nvFaults env) db (ccUserID cmd) u' = Inr (scanConversation c)"
      by (simp add: FindDirectPair_def Some)
    then have "\<exists>v. plan = Inl v"
      using assms(1) ty u by (auto simp: create_checks_def Let_def FindDirectPair_def call_def split: if_splits)
    with u(1) yes show ?thesis by auto
  qed
qed

lemma create_commit_Inr:
  assumes "create_commit env cmd t others db = (Inr r, db')"
  shows "\<exists>i x. create_tx env cmd t others i db = Inr (x, Some db') \<and> ccrCreated r"
proof -
  obtain i where f: "finish (transact (nvFaults env) (create_tx env cmd t others i) db) (\<lambda>_ db'.
         rbind (ListByIDs (nvFaults env) db' (ccUserID cmd # others)) (\<lambda>users.
           Inr \<lparr>ccrView = buildListView
                 \<lparr>crConversation = new_conversation cmd t i (nvClock env 0),
                  crMembership = hd (new_members cmd t others i (nvClock env 0)),
                  crCounterpartID = (if t = ConversationDirect then Some (hd others) else None)\<rparr>
                 (displayNames users),
               ccrCreated = True\<rparr>)) = (Inr r, db')"
    using assms by (auto simp: create_commit_def prepare_Inr_iff)
  then obtain x where x: "transact (nvFaults env) (create_tx env cmd t others i) db = (Inr x, db')" and "ccrCreated r"
    by (auto simp: finish_Inr)
  have "create_tx env cmd t others i db \<noteq> Inr (x, None)" by (simp add: create_tx_def Let_def commit_def)
  with x \<open>ccrCreated r\<close> show ?thesis by (auto simp: transact_Inr_iff)
qed

definition demo_direct :: "go_int \<Rightarrow> go_int \<Rightarrow> CreateConversationCommand" where
  "demo_direct u p = \<lparr>ccUserID = u, ccType = ''direct'', ccParticipantIDs = [p], ccTitle = None, ccAvatarMediaID = None\<rparr>"

lemmas create_evaluation = CreateConversation_def create_checks_def demo_direct_def ParseConversationType_def
  validateParticipants_def ListByIDs_def demo_db_def demo_user_def FindDirectPair_def direct_pair_def active_member_def
  demo_member_def demo_conversation_def create_commit_def NextID_def transact_def create_tx_def ConversationCreate_def
  new_conversation_def conversation_exists_def user_exists_def AddMany_def new_members_def newMembership_def
  mem_key_def SequenceInit_def ChangeLogAppend_def created_events_def commit_def no_faults_def finish_def

lemma demo_create: "\<exists>r db'. CreateConversation (healthy_env 5 7) (demo_direct 10 12) demo_db = (Inr r, db')"
  by (simp add: create_evaluation)

lemma demo_plan:
  "create_checks (healthy_env 5 7) (demo_direct 10 12) demo_db = Inr (Inr (ConversationDirect, [12]))"
  "create_checks (healthy_env 5 8) (demo_direct 12 10) demo_db = Inr (Inr (ConversationDirect, [10]))"
  by (simp_all add: create_evaluation)

definition demo_created :: ChatDB where
  "demo_created = snd (CreateConversation (healthy_env 5 7) (demo_direct 10 12) demo_db)"

lemma demo_create_again:
  "\<exists>r. CreateConversation (healthy_env 6 8) (demo_direct 12 10) demo_created = (Inr r, demo_created)"
  by (simp add: demo_created_def create_evaluation conversationListView_def FindActive_def first_members_def MemberList_def
      scanConversation_def inserted_member_def upsert_def Let_def split: option.splits)

lemma demo_create_race:
  "\<exists>r2 db2. create_commit (healthy_env 5 8) (demo_direct 12 10) ConversationDirect [10] demo_created = (Inr r2, db2)"
  by (simp add: demo_created_def create_evaluation upsert_def inserted_member_def)

text \<open>
  C19. Opening a direct chat with the same person again finds the chat that is there: whoever of the
  two asks second gets the existing conversation, nothing is created and nothing is written.
\<close>

theorem direct_chat_once:
  assumes "chat_ok db" and "ccType cmd1 = ''direct''" "ccType cmd2 = ''direct''"
    and "ccParticipantIDs cmd1 = [b]" "ccUserID cmd1 = a"
    and "(ccUserID cmd2 = a \<and> ccParticipantIDs cmd2 = [b]) \<or> (ccUserID cmd2 = b \<and> ccParticipantIDs cmd2 = [a])"
    and "CreateConversation env1 cmd1 db = (Inr r1, db1)" and "CreateConversation env2 cmd2 db1 = (Inr r2, db2)"
  shows "\<not> ccrCreated r2 \<and> db2 = db1"
proof -
  obtain p1 where p1: "create_checks env1 cmd1 db = Inr p1"
    and k1: "(case p1 of Inl view \<Rightarrow> (Inr \<lparr>ccrView = view, ccrCreated = False\<rparr>, db)
       | Inr (ctype, others) \<Rightarrow> create_commit env1 cmd1 ctype others db) = (Inr r1, db1)"
    using assms(7) by (auto simp: CreateConversation_def prepare_Inr_iff)
  obtain p2 where p2: "create_checks env2 cmd2 db1 = Inr p2"
    and k2: "(case p2 of Inl view \<Rightarrow> (Inr \<lparr>ccrView = view, ccrCreated = False\<rparr>, db1)
       | Inr (ctype, others) \<Rightarrow> create_commit env2 cmd2 ctype others db1) = (Inr r2, db2)"
    using assms(8) by (auto simp: CreateConversation_def prepare_Inr_iff)
  have "\<exists>c \<in> set (tConversations db1). direct_pair db1 a b c"
  proof (cases "\<exists>c \<in> set (tConversations db). direct_pair db a b c")
    case True
    then obtain v where "p1 = Inl v" using create_checks_direct [OF p1 assms(2)] assms(4,5) by auto
    with k1 True show ?thesis by auto
  next
    case False
    then have "p1 = Inr (ConversationDirect, [b])" using create_checks_direct [OF p1 assms(2)] assms(4,5) by auto
    with k1 obtain i x where "create_tx env1 cmd1 ConversationDirect [b] i db = Inr (x, Some db1)"
      by (auto dest: create_commit_Inr)
    moreover have "members_refer db" using assms(1) by (simp add: chat_ok_def)
    ultimately show ?thesis using create_tx_direct assms(5) by fastforce
  qed
  then have "\<exists>c \<in> set (tConversations db1). direct_pair db1 (ccUserID cmd2) (hd (ccParticipantIDs cmd2)) c"
    using assms(6) direct_pair_sym [of db1 a b] by auto
  with create_checks_direct [OF p2 assms(3)] have "\<exists>v. p2 = Inl v" by (metis list.sel(1))
  then obtain v where "p2 = Inl v" by blast
  with k2 show ?thesis by auto
qed

theorem direct_chat_once_witness:
  "\<exists>r1 r2. CreateConversation (healthy_env 5 7) (demo_direct 10 12) demo_db = (Inr r1, demo_created)
     \<and> CreateConversation (healthy_env 6 8) (demo_direct 12 10) demo_created = (Inr r2, demo_created) \<and> \<not> ccrCreated r2"
proof -
  obtain r1 where r1: "CreateConversation (healthy_env 5 7) (demo_direct 10 12) demo_db = (Inr r1, demo_created)"
    using demo_create by (metis demo_created_def snd_conv)
  obtain r2 where r2: "CreateConversation (healthy_env 6 8) (demo_direct 12 10) demo_created = (Inr r2, demo_created)"
    using demo_create_again by blast
  have "\<not> ccrCreated r2 \<and> demo_created = demo_created"
    by (rule direct_chat_once [where a = 10 and b = 12, OF demo_chat_ok _ _ _ _ _ r1 r2]) (simp_all add: demo_direct_def)
  with r1 r2 show ?thesis by blast
qed

text \<open>
  Two requests at once are not caught: when each looks before the other has written, both create,
  and the pair has two direct chats from then on.
\<close>

lemma direct_chat_race:
  assumes "chat_ok db" and "ccType cmd1 = ''direct''" "ccType cmd2 = ''direct''"
    and "ccUserID cmd1 = a" "ccParticipantIDs cmd1 = [b]" "ccUserID cmd2 = b" "ccParticipantIDs cmd2 = [a]"
    and "create_checks env1 cmd1 db = Inr (Inr (t1, os1))" and "create_checks env2 cmd2 db = Inr (Inr (t2, os2))"
    and "create_commit env1 cmd1 t1 os1 db = (Inr r1, db1)" and "create_commit env2 cmd2 t2 os2 db1 = (Inr r2, db2)"
  shows "\<exists>c1 \<in> set (tConversations db2). \<exists>c2 \<in> set (tConversations db2).
           cID c1 \<noteq> cID c2 \<and> direct_pair db2 a b c1 \<and> direct_pair db2 a b c2"
proof -
  have plan: "(t1, os1) = (ConversationDirect, [b])" "(t2, os2) = (ConversationDirect, [a])"
    using create_checks_direct [OF assms(8,2)] create_checks_direct [OF assms(9,3)] assms(5,7)
    by (auto split: if_splits)
  obtain i1 x1 where "create_tx env1 cmd1 ConversationDirect [b] i1 db = Inr (x1, Some db1)"
    using create_commit_Inr [OF assms(10)] plan by auto
  from create_tx_direct [OF this] assms(1,4) obtain c1 where c1:
    "tConversations db1 = tConversations db @ [c1]" "direct_pair db1 a b c1" "members_refer db1"
    by (auto simp: chat_ok_def)
  obtain i2 x2 where "create_tx env2 cmd2 ConversationDirect [a] i2 db1 = Inr (x2, Some db2)"
    using create_commit_Inr [OF assms(11)] plan by auto
  from create_tx_direct [OF this c1(3)] assms(6) obtain c2 where c2:
    "tConversations db2 = tConversations db1 @ [c2]" "cID c2 = i2" "i2 \<notin> cID ` set (tConversations db1)"
    "direct_pair db2 b a c2" "\<forall>m \<in> set (tMembers db1). m \<in> set (tMembers db2)"
    "\<forall>m \<in> set (tMembers db2). mConversationID m = i2 \<or> m \<in> set (tMembers db1)"
    by auto
  have ne: "cID c1 \<noteq> cID c2" using c1(1) c2(2,3) by auto
  then have "direct_pair db2 a b c1"
    using c1(2) c2(2,5,6) by (auto simp: direct_pair_def active_member_def)
  with c1(1) c2(1,4) ne show ?thesis by (auto simp: direct_pair_sym [of db2 a b])
qed

lemma direct_chat_race_example:
  "\<exists>r2 db2. create_commit (healthy_env 5 8) (demo_direct 12 10) ConversationDirect [10] demo_created = (Inr r2, db2)
     \<and> (\<exists>c1 \<in> set (tConversations db2). \<exists>c2 \<in> set (tConversations db2).
           cID c1 \<noteq> cID c2 \<and> direct_pair db2 10 12 c1 \<and> direct_pair db2 10 12 c2)"
proof -
  obtain r2 db2 where r2: "create_commit (healthy_env 5 8) (demo_direct 12 10) ConversationDirect [10] demo_created = (Inr r2, db2)"
    using demo_create_race by blast
  obtain r1 db1 where c: "CreateConversation (healthy_env 5 7) (demo_direct 10 12) demo_db = (Inr r1, db1)"
    using demo_create by blast
  then have r1: "create_commit (healthy_env 5 7) (demo_direct 10 12) ConversationDirect [12] demo_db = (Inr r1, demo_created)"
    by (simp add: CreateConversation_def demo_plan(1) demo_created_def)
  from direct_chat_race [OF demo_chat_ok _ _ _ _ _ _ demo_plan r1 r2] r2 show ?thesis
    by (auto simp: demo_direct_def)
qed

section \<open>Settings and the preview\<close>

text \<open>
  A settings update rewinds the preview: the row it writes is the one it read, preview columns
  included.  Whatever was committed between its reads and its transaction, afterwards the chat list
  shows the last message the update had read.
\<close>

lemma settings_update_rewinds_preview:
  assumes "update_checks env cmd db = Inr (c, affected)"
    and "transact (nvFaults env) (update_tx env cmd c affected) db1 = (Inr u, db2)"
  shows "\<exists>r0 \<in> set (tConversations db). cID r0 = ucConversationID cmd
       \<and> (\<forall>r \<in> set (tConversations db2). cID r = ucConversationID cmd \<longrightarrow>
             cLastMessageSeq r = cLastMessageSeq r0 \<and> cLastMessageAt r = cLastMessageAt r0
           \<and> cLastMessageSnippet r = cLastMessageSnippet r0 \<and> cLastSenderID r = cLastSenderID r0)
       \<and> tMessages db2 = tMessages db1"
proof -
  obtain conv where c: "ConversationFindByID (nvFaults env) db (ucConversationID cmd) = Inr conv"
    and p: "\<exists>c1. patch_conversation cmd conv = Inr c1 \<and> c = c1\<lparr>cUpdatedAt := nvClock env 0\<rparr>"
    using assms(1) by (auto simp: update_checks_def Let_def)
  obtain r0 where r0: "r0 \<in> set (tConversations db)" "cID r0 = ucConversationID cmd" "conv = scanConversation r0"
    using c by (auto simp: ConversationFindByID_def dest: find_SomeD)
  have k: "cID c = cID conv \<and> cLastMessageSeq c = cLastMessageSeq conv \<and> cLastMessageAt c = cLastMessageAt conv
      \<and> cLastMessageSnippet c = cLastMessageSnippet conv \<and> cLastSenderID c = cLastSenderID conv"
    using p by (auto simp: patch_conversation_def split: if_splits option.splits)
  have "update_tx env cmd c affected db1 \<noteq> Inr (u, None)" by (simp add: update_tx_def Let_def commit_def)
  then obtain d1 where d: "ConversationUpdate (nvFaults env) c db1 = Inr d1"
    "tConversations db2 = tConversations d1" "tMessages db2 = tMessages d1"
    using assms(2) by (auto simp: transact_Inr_iff update_tx_def Let_def ChangeLogAppend_def simp del: append_log.simps)
  then have "\<forall>r \<in> set (tConversations db2). cID r = ucConversationID cmd \<longrightarrow>
             cLastMessageSeq r = cLastMessageSeq r0 \<and> cLastMessageAt r = cLastMessageAt r0
           \<and> cLastMessageSnippet r = cLastMessageSnippet r0 \<and> cLastSenderID r = cLastSenderID r0"
    using k r0 by (auto simp: ConversationUpdate_def set_upd_where scanConversation_def)
  moreover have "tMessages db2 = tMessages db1" using d by (auto simp: ConversationUpdate_def)
  ultimately show ?thesis using r0 by blast
qed

definition demo_rename :: UpdateConversationCommand where
  "demo_rename = \<lparr>ucUserID = 10, ucConversationID = 1, ucTitle = Some ''crew'', ucTitleSet = True, ucAvatarMediaID = None,
     ucAvatarSet = False, ucAvatarCleared = False, ucSettings = None\<rparr>"

text \<open>Between the reads and the write of the update, the first message arrives.\<close>

lemma settings_update_rewinds_preview_example:
  "\<exists>c affected db1 db2 u. update_checks (healthy_env 5 1) demo_rename demo_db = Inr (c, affected)
     \<and> BumpLastMessage no_faults 1 1 (Some ''hi'') (Some 11) 6 demo_db = Inr (True, db1)
     \<and> (\<exists>r \<in> set (tConversations db1). cID r = 1 \<and> cLastMessageSeq r = Some 1)
     \<and> transact no_faults (update_tx (healthy_env 5 1) demo_rename c affected) db1 = (Inr u, db2)
     \<and> (\<forall>r \<in> set (tConversations db2). cID r = 1 \<longrightarrow> cLastMessageSeq r = None)"
proof -
  have "plain ''crew''" by (simp add: byte_def)
  then have t: "TrimSpace ''crew'' = ''crew''" by (simp add: TrimSpace_plain)
  obtain c affected where c: "update_checks (healthy_env 5 1) demo_rename demo_db = Inr (c, affected)"
    and title: "cTitle c \<noteq> None" "cID c = 1"
    by (simp add: update_checks_def ConversationFindByID_def requireAdmin_def requireMember_def FindActive_def
        patch_conversation_def ActiveUserIDs_def demo_rename_def demo_db_def demo_conversation_def demo_member_def
        scanConversation_def no_faults_def t Let_def)
  obtain db1 where b: "BumpLastMessage no_faults 1 1 (Some ''hi'') (Some 11) 6 demo_db = Inr (True, db1)"
    "\<exists>r \<in> set (tConversations db1). cID r = 1 \<and> cLastMessageSeq r = Some 1"
    by (simp add: BumpLastMessage_def bump_guard_def demo_db_def demo_conversation_def no_faults_def count_where_def)
  obtain db2 where u: "transact no_faults (update_tx (healthy_env 5 1) demo_rename c affected) db1 = (Inr (), db2)"
    using title by (simp add: transact_def update_tx_def ConversationUpdate_def ChangeLogAppend_def commit_def no_faults_def Let_def)
  have "\<forall>r \<in> set (tConversations db2). cID r = 1 \<longrightarrow> cLastMessageSeq r = None"
    using settings_update_rewinds_preview [OF c u [folded healthy_env_simps(3) [of 5 1]]]
    by (auto simp: demo_rename_def demo_db_def demo_conversation_def)
  with c b u show ?thesis by blast
qed

end
