(* ===== verification/ChatSearch.thy ===== *)
theory ChatSearch
  imports ChatMembers "HOL-Library.Sublist"
begin

text \<open>
  The name filter of the member list (\<open>escapeLike\<close> and \<open>ListMembers\<close> of \<open>membership_repo.go\<close>): whatever
  the user types is matched literally.  The syntax of a LIKE pattern is PostgreSQL's documented one.
\<close>

section \<open>Patterns\<close>

datatype like_token = AnyText | AnyChar | Exactly char

fun like_tokens :: "string \<Rightarrow> like_token list option" where
  "like_tokens [] = Some []"
| "like_tokens (c # cs) =
     (if c = CHR ''%'' then map_option ((#) AnyText) (like_tokens cs)
      else if c = CHR ''_'' then map_option ((#) AnyChar) (like_tokens cs)
      else if c = CHR 0x5C then (case cs of [] \<Rightarrow> None | d # ds \<Rightarrow> map_option ((#) (Exactly d)) (like_tokens ds))
      else map_option ((#) (Exactly c)) (like_tokens cs))"

text \<open>Three passes escape each byte once: the backslashes of the later ones are not escaped again.\<close>

lemma ReplaceAll_simps [simp]:
  "ReplaceAll old new [] = []"
  "ReplaceAll old new (c # s) = (if c = old then new else [c]) @ ReplaceAll old new s"
  by (simp_all add: ReplaceAll_def)

lemma ReplaceAll_append [simp]: "ReplaceAll old new (s @ t) = ReplaceAll old new s @ ReplaceAll old new t"
  by (simp add: ReplaceAll_def)

lemma escapeLike_simps [simp]:
  "escapeLike [] = []"
  "escapeLike (c # s) = (if c \<in> {CHR 0x5C, CHR ''%'', CHR ''_''} then [CHR 0x5C, c] else [c]) @ escapeLike s"
  by (auto simp: escapeLike_def Let_def)

lemma escaped_tokens: "like_tokens (escapeLike q @ rest) = map_option ((@) (map Exactly q)) (like_tokens rest)"
  by (induction q) (auto simp: option.map_comp comp_def option.map_ident)

lemma filter_pattern_literal: "like_tokens (filter_pattern q) = Some (AnyText # map Exactly q @ [AnyText])"
  by (simp add: filter_pattern_def escaped_tokens)

lemma escapeLike_inj: "escapeLike q = escapeLike r \<longleftrightarrow> q = r"
proof
  assume "escapeLike q = escapeLike r"
  then have "like_tokens (escapeLike q) = like_tokens (escapeLike r)" by simp
  then show "q = r" by (simp add: escaped_tokens [where rest = "[]", simplified] inj_map_eq_map inj_def)
qed simp

section \<open>The filter\<close>

text \<open>
  Of ILIKE the code relies on one thing: a pattern that reads as literal text between two wildcards
  accepts the names that contain the text, both folded to lower case by the rules of the database.
\<close>

definition like_laws :: "(string \<Rightarrow> string) \<Rightarrow> (string \<Rightarrow> string \<Rightarrow> bool) \<Rightarrow> bool" where
  "like_laws lower ilike \<longleftrightarrow>
     (\<forall>name pattern text. like_tokens pattern = Some (AnyText # map Exactly text @ [AnyText])
        \<longrightarrow> ilike name pattern = sublist (lower text) (lower name))"

lemma like_laws_satisfiable: "\<exists>ilike. like_laws lower ilike"
proof
  show "like_laws lower (\<lambda>name pattern. \<exists>text. like_tokens pattern = Some (AnyText # map Exactly text @ [AnyText])
      \<and> sublist (lower text) (lower name))"
    by (auto simp: like_laws_def inj_map_eq_map inj_def)
qed

text \<open>The list with a filter is the list without one, less the names that do not contain the text.\<close>

lemma member_filter:
  assumes "like_laws lower ilike" and "q \<noteq> []"
  shows "member_rows ilike db c q
    = filter (\<lambda>r. sublist (lower q) (lower (mrDisplayName r))) (member_rows ilike db c [])"
  using assms(1)[unfolded like_laws_def, rule_format, OF filter_pattern_literal] assms(2)
  by (simp add: member_rows_def filter_map comp_def case_prod_unfold conj_ac)

text \<open>A filter of wildcards finds the names that contain them, not everybody.\<close>

lemma wildcards_are_text:
  assumes "like_laws id ilike" and "\<forall>u \<in> set (tUsers db). CHR ''%'' \<notin> set (uDisplayName u)"
  shows "member_rows ilike db c ''%'' = []"
proof -
  have "CHR ''%'' \<in> set t" if "sublist ''%'' t" for t :: string
    using that by (auto simp: sublist_def)
  then show ?thesis using assms
    by (subst member_filter [OF assms(1)]) (auto simp: filter_empty_conv member_rows_def)
qed

end
