(* ===== verification/IdGen.thy ===== *)
theory IdGen
  imports Prelude "HOL-Library.Word"
begin

text \<open>
  The identifier generator (\<open>platform/idgen/idgen.go\<close>): 41 bits of milliseconds since the
  epoch, 10 bits of node, 12 bits of sequence, assembled on 64-bit words.  The clock is a
  function from the number of readings made so far to the millisecond it shows; \<open>Generator_NextID\<close>
  returns the number of readings it has consumed, so that successive calls see successive
  readings.  The wait for the next millisecond is a loop that ends only when the clock moves.
\<close>

unbundle bit_operations_syntax

section \<open>The generator\<close>

definition nodeBits :: nat where "nodeBits = 10"
definition seqBits :: nat where "seqBits = 12"
definition maxNodeID :: int where "maxNodeID = 2 ^ nodeBits - 1"
definition maxSeq :: int where "maxSeq = 2 ^ seqBits - 1"

text \<open>2020-01-01T00:00:00Z in milliseconds since the Unix epoch.\<close>

definition DefaultEpoch :: int where "DefaultEpoch = 1577836800000"

record Generator =
  igNodeID :: "64 word"
  igEpoch :: int
  igLast :: int
  igSeq :: int

datatype id_error = NodeOutOfRange int | ClockMovedBackwards int int | OutOfWindow int

definition New :: "int \<Rightarrow> int \<Rightarrow> id_error + Generator" where
  "New nodeID epoch =
     (if nodeID < 0 \<or> maxNodeID < nodeID then Inl (NodeOutOfRange nodeID)
      else Inr \<lparr>igNodeID = word_of_int nodeID, igEpoch = epoch, igLast = 0, igSeq = 0\<rparr>)"

text \<open>The wait: sleep and read again until the clock is past \<open>prev\<close>.\<close>

partial_function (option) burn :: "(nat \<Rightarrow> int) \<Rightarrow> int \<Rightarrow> nat \<Rightarrow> (int \<times> nat) option" where
  "burn clock prev i = (if clock i \<le> prev then burn clock prev (Suc i) else Some (clock i, Suc i))"

definition assemble :: "int \<Rightarrow> 64 word \<Rightarrow> int \<Rightarrow> 64 word" where
  "assemble elapsed node seq =
     push_bit (nodeBits + seqBits) (word_of_int elapsed) OR push_bit seqBits node OR word_of_int seq"

text \<open>The end of \<open>Generator_NextID\<close>, at the time and sequence it has settled on.\<close>

definition issue :: "Generator \<Rightarrow> int \<Rightarrow> int \<Rightarrow> (id_error + int) \<times> Generator" where
  "issue g now seq =
     (let g1 = g\<lparr>igSeq := seq, igLast := now\<rparr>; elapsed = now - igEpoch g in
      if elapsed < 0 \<or> 2 ^ 41 \<le> elapsed then (Inl (OutOfWindow elapsed), g1)
      else (Inr (sint (assemble elapsed (igNodeID g) seq)), g1))"

text \<open>\<open>None\<close>: the call never returns (it waits for a clock that stands still).\<close>

definition Generator_NextID :: "(nat \<Rightarrow> int) \<Rightarrow> nat \<Rightarrow> Generator \<Rightarrow> ((id_error + int) \<times> Generator \<times> nat) option" where
  "Generator_NextID clock i g =
     (let now = clock i in
      if now < igLast g then Some (Inl (ClockMovedBackwards (igLast g) now), g, Suc i)
      else if now = igLast g then
        let seq = igSeq g + 1 in
        if maxSeq < seq then
          (case burn clock (igLast g) (Suc i) of
             None \<Rightarrow> None
           | Some (now', j) \<Rightarrow> let (r, g') = issue g now' 0 in Some (r, g', j))
        else let (r, g') = issue g now seq in Some (r, g', Suc i)
      else let (r, g') = issue g now 0 in Some (r, g', Suc i))"

section \<open>The wait\<close>

lemma burn_step:
  "clock i \<le> prev \<Longrightarrow> burn clock prev i = burn clock prev (Suc i)"
  "\<not> clock i \<le> prev \<Longrightarrow> burn clock prev i = Some (clock i, Suc i)"
  by (subst burn.simps, simp)+

lemma burn_returns:
  "\<lbrakk>\<forall>j < k. clock (i + j) \<le> prev; prev < clock (i + k)\<rbrakk> \<Longrightarrow> burn clock prev i = Some (clock (i + k), Suc (i + k))"
proof (induction k arbitrary: i)
  case 0
  then show ?case by (simp add: burn_step)
next
  case (Suc k)
  have "\<forall>j < k. clock (Suc i + j) \<le> prev"
  proof (intro allI impI)
    fix j assume "j < k"
    then show "clock (Suc i + j) \<le> prev" using Suc.prems(1) [rule_format, of "Suc j"] by simp
  qed
  moreover have "clock i \<le> prev" using Suc.prems(1) [rule_format, of 0] by simp
  ultimately show ?case using Suc.IH [of "Suc i"] Suc.prems(2) by (simp add: burn_step)
qed

lemma burn_ends:
  assumes "\<exists>j \<ge> i. prev < clock j"
  shows "\<exists>n j. burn clock prev i = Some (n, j)"
proof -
  define k where "k = (LEAST k. prev < clock (i + k))"
  have ex: "\<exists>k. prev < clock (i + k)" using assms by (metis le_Suc_ex)
  have "prev < clock (i + k)" unfolding k_def by (rule LeastI_ex [OF ex])
  moreover have "\<forall>j < k. clock (i + j) \<le> prev" unfolding k_def by (meson not_less_Least not_le)
  ultimately show ?thesis using burn_returns by blast
qed

lemma burn_result_pair:
  assumes "burn clock prev i = Some r"
  shows "prev < fst r \<and> i < snd r \<and> (\<exists>k < snd r. i \<le> k \<and> fst r = clock k)"
proof (rule burn.raw_induct [where P = "\<lambda>clock prev i r. prev < fst r \<and> i < snd r \<and> (\<exists>k < snd r. i \<le> k \<and> fst r = clock k)",
      OF _ assms])
  fix self and clock :: "nat \<Rightarrow> int" and prev i r
  assume ih: "\<And>clock prev i r. self clock prev i = Some r \<Longrightarrow> prev < fst r \<and> i < snd r \<and> (\<exists>k < snd r. i \<le> k \<and> fst r = clock k)"
    and step: "(if clock i \<le> prev then self clock prev (Suc i) else Some (clock i, Suc i)) = Some r"
  show "prev < fst r \<and> i < snd r \<and> (\<exists>k < snd r. i \<le> k \<and> fst r = clock k)"
  proof (cases "clock i \<le> prev")
    case True
    with step ih [of clock prev "Suc i" r] show ?thesis by (auto dest: Suc_leD)
  next
    case False
    with step show ?thesis by auto
  qed
qed

lemmas burn_result = burn_result_pair [of clock prev i "(n, j)" for clock prev i n j, simplified]

section \<open>The layout\<close>

lemma bit_small:
  assumes "0 \<le> x" "x < 2 ^ n" and "bit (word_of_int x :: 64 word) m"
  shows "m < n"
proof -
  have "bit x m" using assms(3) by (simp add: bit_word_of_int_iff)
  moreover have "take_bit n x = x" using assms(1,2) by (simp add: take_bit_int_eq_self)
  ultimately show ?thesis by (metis bit_take_bit_iff)
qed

lemma bit_high: "bit (push_bit n w :: 64 word) m \<Longrightarrow> n \<le> m"
  by (simp add: bit_push_bit_iff)

lemma sint_small: "0 \<le> k \<Longrightarrow> k < 2 ^ 63 \<Longrightarrow> sint (word_of_int k :: 64 word) = k"
  by (simp add: sint_sbintrunc' signed_take_bit_int_eq_self)

text \<open>The three fields sit in disjoint bits, so the word is their sum and is not negative.\<close>

lemma assemble_value:
  assumes "0 \<le> t" "t < 2 ^ 41" "0 \<le> k" "k < 2 ^ 10" "0 \<le> s" "s < 2 ^ 12"
  shows "sint (assemble t (word_of_int k) s) = t * 2 ^ 22 + k * 2 ^ 12 + s"
proof -
  let ?a = "push_bit 22 (word_of_int t :: 64 word)" and ?b = "push_bit 12 (word_of_int k :: 64 word)"
    and ?c = "word_of_int s :: 64 word"
  have b: "bit ?b m \<Longrightarrow> 12 \<le> m \<and> m < 22" for m
    using bit_small [OF assms(3,4), of "m - 12"] by (auto simp: bit_push_bit_iff)
  have ab: "?a + ?b = ?a OR ?b"
    by (rule disjunctive_add) (use b bit_high [of 22 "word_of_int t"] in fastforce)
  have c: "?a OR ?b OR ?c = (?a OR ?b) + ?c"
  proof -
    have "(?a OR ?b) + ?c = (?a OR ?b) OR ?c"
    proof (rule disjunctive_add)
      fix m
      show "\<not> bit (?a OR ?b) m \<or> \<not> bit ?c m"
        using bit_high [of 22 "word_of_int t" m] b [of m] bit_small [OF assms(5,6), of m]
        by (auto simp: bit_or_iff)
    qed
    then show ?thesis by (simp add: or.assoc)
  qed
  have "assemble t (word_of_int k) s = ?a + ?b + ?c"
    by (simp add: assemble_def nodeBits_def seqBits_def c ab)
  also have "\<dots> = word_of_int (t * 2 ^ 22 + k * 2 ^ 12 + s)"
    by (simp add: push_bit_eq_mult)
  finally have w: "assemble t (word_of_int k) s = word_of_int (t * 2 ^ 22 + k * 2 ^ 12 + s)" .
  have "t * 2 ^ 22 + k * 2 ^ 12 + s < 2 ^ 63" "0 \<le> t * 2 ^ 22 + k * 2 ^ 12 + s" using assms by simp_all
  then show ?thesis unfolding w by (rule sint_small [rotated])
qed

text \<open>Reading the fields back from an id.\<close>

definition id_time :: "int \<Rightarrow> int" where "id_time i = i div 2 ^ 22"
definition id_node :: "int \<Rightarrow> int" where "id_node i = i div 2 ^ 12 mod 2 ^ 10"
definition id_seq :: "int \<Rightarrow> int" where "id_seq i = i mod 2 ^ 12"

lemma fields_of_sum:
  assumes "0 \<le> k" "k < 2 ^ 10" "0 \<le> s" "s < 2 ^ 12"
  shows "id_time (t * 2 ^ 22 + k * 2 ^ 12 + s) = t" and "id_node (t * 2 ^ 22 + k * 2 ^ 12 + s) = k"
    and "id_seq (t * 2 ^ 22 + k * 2 ^ 12 + s) = s"
proof -
  have "t * 2 ^ 22 + k * 2 ^ 12 + s = s + (t * 1024 + k) * 4096" by simp
  then have d: "(t * 2 ^ 22 + k * 2 ^ 12 + s) div 4096 = t * 1024 + k" "(t * 2 ^ 22 + k * 2 ^ 12 + s) mod 4096 = s"
    using assms(3,4) by (simp_all only: div_mult_self1 mod_mult_self1 mod_pos_pos_trivial div_pos_pos_trivial) simp_all
  have "(t * 1024 + k) div 1024 = t" "(t * 1024 + k) mod 1024 = k" using assms(1,2) by simp_all
  moreover have "(t * 2 ^ 22 + k * 2 ^ 12 + s) div 2 ^ 22 = (t * 2 ^ 22 + k * 2 ^ 12 + s) div 4096 div 1024"
    by (simp only: zdiv_zmult2_eq [symmetric]) simp
  ultimately show "id_time (t * 2 ^ 22 + k * 2 ^ 12 + s) = t" "id_node (t * 2 ^ 22 + k * 2 ^ 12 + s) = k"
    "id_seq (t * 2 ^ 22 + k * 2 ^ 12 + s) = s"
    using d by (simp_all add: id_time_def id_node_def id_seq_def)
qed

section \<open>Successive calls\<close>

definition gen_ok :: "Generator \<Rightarrow> int \<Rightarrow> bool" where
  "gen_ok g k \<longleftrightarrow> igNodeID g = word_of_int k \<and> 0 \<le> k \<and> k < 2 ^ 10 \<and> 0 \<le> igSeq g \<and> igSeq g < 2 ^ 12"

text \<open>The id the generator would assemble from its current time and sequence.\<close>

definition position :: "Generator \<Rightarrow> int \<Rightarrow> int" where
  "position g k = (igLast g - igEpoch g) * 2 ^ 22 + k * 2 ^ 12 + igSeq g"

lemma New_ok: "New nodeID epoch = Inr g \<Longrightarrow> gen_ok g nodeID \<and> igEpoch g = epoch"
  by (auto simp: New_def gen_ok_def maxNodeID_def nodeBits_def split: if_splits)

lemma issue_ok:
  assumes "gen_ok g k" "0 \<le> seq" "seq < 2 ^ 12" and "issue g now seq = (r, g')"
  shows "gen_ok g' k \<and> igEpoch g' = igEpoch g \<and> igLast g' = now \<and> igSeq g' = seq
       \<and> (\<forall>x. r = Inr x \<longrightarrow> x = position g' k \<and> 0 \<le> x)"
  using assms
  by (auto simp: issue_def gen_ok_def position_def Let_def assemble_value split: if_splits)

lemma NextID_cases:
  assumes "gen_ok g k" and "Generator_NextID clock i g = Some (r, g', j)"
  shows "gen_ok g' k \<and> igEpoch g' = igEpoch g \<and> i < j
       \<and> (g' = g \<and> (\<exists>e. r = Inl e) \<or> position g k < position g' k \<and> igLast g \<le> igLast g'
            \<and> (\<exists>n < j. i \<le> n \<and> igLast g' = clock n) \<and> (\<forall>x. r = Inr x \<longrightarrow> x = position g' k \<and> 0 \<le> x))"
proof -
  have mono: "position g k < position h k"
    if "igEpoch h = igEpoch g" "igLast g < igLast h \<or> igLast g = igLast h \<and> igSeq g < igSeq h" "0 \<le> igSeq h" for h
  proof (cases "igLast g < igLast h")
    case True
    then have "(igLast g - igEpoch g + 1) * 2 ^ 22 \<le> (igLast h - igEpoch g) * 2 ^ 22" by (intro mult_right_mono) auto
    with that assms(1) show ?thesis by (simp add: position_def gen_ok_def)
  next
    case False
    with that show ?thesis by (simp add: position_def)
  qed
  have settled: ?thesis if "issue g t s = (r, g')" "0 \<le> s" "s < 2 ^ 12"
    and later: "igLast g < t \<or> igLast g = t \<and> igSeq g < s" and j: "i < j" "\<exists>n < j. i \<le> n \<and> t = clock n" for t s
  proof -
    note h = issue_ok [OF assms(1) that(2,3,1)]
    have "position g k < position g' k" by (rule mono) (use h later that(2) in auto)
    moreover have "igLast g \<le> igLast g'" using h later by auto
    ultimately show ?thesis using h j by blast
  qed
  consider (skew) "clock i < igLast g" | (same) "clock i = igLast g" "igSeq g + 1 \<le> maxSeq"
    | (full) "clock i = igLast g" "maxSeq < igSeq g + 1" | (later) "igLast g < clock i" by linarith
  then show ?thesis
  proof cases
    case skew
    with assms show ?thesis by (auto simp: Generator_NextID_def)
  next
    case same
    then have u: "issue g (clock i) (igSeq g + 1) = (r, g')" "j = Suc i"
      using assms(2) by (auto simp: Generator_NextID_def Let_def split: prod.splits)
    show ?thesis
      by (rule settled [OF u(1)]) (use same assms(1) u(2) in \<open>auto simp: gen_ok_def maxSeq_def seqBits_def\<close>)
  next
    case full
    then obtain now' where b: "burn clock (igLast g) (Suc i) = Some (now', j)" "issue g now' 0 = (r, g')"
      using assms(2) by (auto simp: Generator_NextID_def Let_def split: prod.splits option.splits)
    show ?thesis
      by (rule settled [OF b(2)]) (use burn_result [OF b(1)] in \<open>auto dest: Suc_leD\<close>)
  next
    case later
    then have u: "issue g (clock i) 0 = (r, g')" "j = Suc i"
      using assms(2) by (auto simp: Generator_NextID_def Let_def split: prod.splits)
    show ?thesis
      by (rule settled [OF u(1)]) (use later u(2) in auto)
  qed
qed

text \<open>A number of calls in a row, collecting the ids of those that succeed.\<close>

fun run_ids :: "nat \<Rightarrow> (nat \<Rightarrow> int) \<Rightarrow> nat \<Rightarrow> Generator \<Rightarrow> int list option" where
  "run_ids 0 clock i g = Some []"
| "run_ids (Suc n) clock i g =
     (case Generator_NextID clock i g of
        None \<Rightarrow> None
      | Some (r, g', j) \<Rightarrow>
          map_option (\<lambda>xs. case r of Inl _ \<Rightarrow> xs | Inr x \<Rightarrow> x # xs) (run_ids n clock j g'))"

lemma run_ids_sorted:
  assumes "gen_ok g k" and "run_ids n clock i g = Some ids"
  shows "sorted_wrt (<) ids \<and> (\<forall>x \<in> set ids. position g k < x \<and> 0 \<le> x \<and> id_node x = k)"
  using assms
proof (induction n arbitrary: g i ids)
  case 0
  then show ?case by simp
next
  case (Suc n)
  obtain r g' j where n: "Generator_NextID clock i g = Some (r, g', j)"
    using Suc.prems(2) by (cases "Generator_NextID clock i g") auto
  obtain xs where xs: "run_ids n clock j g' = Some xs" "ids = (case r of Inl _ \<Rightarrow> xs | Inr x \<Rightarrow> x # xs)"
    using Suc.prems(2) n by auto
  note c = NextID_cases [OF Suc.prems(1) n]
  have ih: "sorted_wrt (<) xs \<and> (\<forall>x \<in> set xs. position g' k < x \<and> 0 \<le> x \<and> id_node x = k)"
    using Suc.IH [OF _ xs(1)] c by blast
  have le: "position g k \<le> position g' k" using c by auto
  show ?case
  proof (cases r)
    case (Inl e)
    with xs ih le show ?thesis by fastforce
  next
    case (Inr x)
    then have x: "x = position g' k" "0 \<le> x" "position g k < position g' k" using c by auto
    have "id_node x = k"
      using c fields_of_sum(2) [of k "igSeq g'" "igLast g' - igEpoch g'"] x(1) by (simp add: gen_ok_def position_def)
    with Inr x xs ih show ?thesis by fastforce
  qed
qed

section \<open>Properties\<close>

definition demo_clock :: "nat \<Rightarrow> int" where
  "demo_clock i = DefaultEpoch + int (i div 2)"

text \<open>
  C30. Ids are unique and time-ordered: the ids a generator hands out in any number of calls, whatever
  the clock does, are strictly increasing, not negative and carry its node; two generators with
  different nodes never hand out the same id.
\<close>

theorem ids_unique:
  assumes "New n1 epoch1 = Inr g1" and "run_ids k1 clock1 0 g1 = Some ids1"
    and "New n2 epoch2 = Inr g2" and "run_ids k2 clock2 0 g2 = Some ids2" and "n1 \<noteq> n2"
  shows "sorted_wrt (<) ids1 \<and> (\<forall>x \<in> set ids1. 0 \<le> x \<and> id_node x = n1) \<and> set ids1 \<inter> set ids2 = {}"
  using run_ids_sorted [OF _ assms(2), of n1] run_ids_sorted [OF _ assms(4), of n2] New_ok [OF assms(1)]
    New_ok [OF assms(3)] assms(5) by fastforce

definition demo_generator :: "int \<Rightarrow> Generator" where
  "demo_generator n = \<lparr>igNodeID = word_of_int n, igEpoch = DefaultEpoch, igLast = 0, igSeq = 0\<rparr>"

lemma demo_run_ids: "\<exists>ids. run_ids 3 demo_clock 0 (demo_generator n) = Some ids \<and> length ids = 3"
  by (simp add: numeral_3_eq_3 Generator_NextID_def issue_def demo_clock_def demo_generator_def DefaultEpoch_def maxSeq_def
      seqBits_def Let_def)

theorem ids_unique_witness:
  "\<exists>ids1 ids2. run_ids 3 demo_clock 0 (demo_generator 5) = Some ids1 \<and> run_ids 3 demo_clock 0 (demo_generator 6) = Some ids2
     \<and> length ids1 = 3 \<and> sorted_wrt (<) ids1 \<and> set ids1 \<inter> set ids2 = {}"
proof -
  obtain ids1 ids2 where ids: "run_ids 3 demo_clock 0 (demo_generator 5) = Some ids1" "length ids1 = 3"
    "run_ids 3 demo_clock 0 (demo_generator 6) = Some ids2"
    using demo_run_ids [of 5] demo_run_ids [of 6] by blast
  have n: "New 5 DefaultEpoch = Inr (demo_generator 5)" "New 6 DefaultEpoch = Inr (demo_generator 6)"
    by (simp_all add: New_def demo_generator_def maxNodeID_def nodeBits_def)
  have "(5 :: int) \<noteq> 6" by simp
  from ids_unique [OF n(1) ids(1) n(2) ids(3) this] ids show ?thesis by blast
qed

text \<open>
  An id can be taken apart again: its fields are the clock reading it was issued at, relative to
  the epoch, the node, and the sequence within the millisecond.
\<close>

lemma id_fields_roundtrip:
  assumes "gen_ok g k" and "Generator_NextID clock i g = Some (Inr x, g', j)"
  shows "id_time x + igEpoch g = igLast g' \<and> id_node x = k \<and> id_seq x = igSeq g' \<and> igSeq g' \<le> maxSeq
       \<and> (\<exists>n < j. i \<le> n \<and> igLast g' = clock n)"
proof -
  have c: "gen_ok g' k" "igEpoch g' = igEpoch g" "x = position g' k" "\<exists>n < j. i \<le> n \<and> igLast g' = clock n"
    using NextID_cases [OF assms] by auto
  then show ?thesis
    using fields_of_sum [of k "igSeq g'" "igLast g' - igEpoch g'"]
    by (simp add: gen_ok_def position_def maxSeq_def seqBits_def)
qed

lemma id_fields_roundtrip_example:
  "\<exists>x g' j. Generator_NextID (\<lambda>_. DefaultEpoch + 7) 0 \<lparr>igNodeID = word_of_int 5, igEpoch = DefaultEpoch, igLast = 0, igSeq = 0\<rparr>
        = Some (Inr x, g', j) \<and> id_time x = 7 \<and> id_node x = 5 \<and> id_seq x = 0"
proof -
  let ?g = "\<lparr>igNodeID = word_of_int 5, igEpoch = DefaultEpoch, igLast = 0, igSeq = 0\<rparr>"
  have ok: "gen_ok ?g 5" by (simp add: gen_ok_def)
  obtain x g' where n: "Generator_NextID (\<lambda>_. DefaultEpoch + 7) 0 ?g = Some (Inr x, g', 1)" "igLast g' = DefaultEpoch + 7" "igSeq g' = 0"
    by (simp add: Generator_NextID_def issue_def DefaultEpoch_def Let_def)
  from id_fields_roundtrip [OF ok n(1)] n show ?thesis by auto
qed

text \<open>
  C31. \<open>Generator_NextID\<close> returns as soon as the clock moves: if it eventually shows a time past the last one
  used, the call ends, also when the millisecond is exhausted and it has to wait.
\<close>

theorem next_id_returns:
  assumes "\<exists>j \<ge> i. igLast g < clock j"
  shows "\<exists>r g' j. Generator_NextID clock i g = Some (r, g', j)"
proof (cases "clock i = igLast g \<and> maxSeq < igSeq g + 1")
  case True
  then have "\<exists>j \<ge> Suc i. igLast g < clock j"
    using assms by (metis Suc_leI le_neq_implies_less less_irrefl)
  then obtain n j where "burn clock (igLast g) (Suc i) = Some (n, j)" using burn_ends by blast
  then show ?thesis using True by (auto simp: Generator_NextID_def Let_def split: prod.splits)
next
  case False
  then show ?thesis by (auto simp: Generator_NextID_def Let_def split: prod.splits)
qed

theorem next_id_returns_witness:
  "\<exists>r g' j. Generator_NextID (\<lambda>i. if i < 3 then 1000 else 1001) 0 \<lparr>igNodeID = 1, igEpoch = 0, igLast = 1000, igSeq = 4095\<rparr> = Some (r, g', j)"
  by (rule next_id_returns) (auto intro: exI [of _ 3])

end
