(* ===== verification/RateLimit.thy ===== *)
theory RateLimit
  imports GoStrings Complex_Main
begin

text \<open>
  The frame budgets of a socket (\<open>realtime/delivery/ws/rate_limit.go\<close>): token buckets per class
  and key, and the counter of violations that marks a connection as abusive.  Times are
  microseconds of the monotonic clock; the bucket's float64 arithmetic is taken as exact, on
  rationals, so rounding is not modelled.
\<close>

section \<open>Buckets\<close>

record tokenBucket =
  bkCapacity :: rat
  bkInterval :: int
  bkTokens :: rat
  bkLast :: "go_time option"   \<comment> \<open>\<open>None\<close>: the zero time\<close>

definition newTokenBucket :: "rat \<Rightarrow> int \<Rightarrow> tokenBucket" where
  "newTokenBucket capacity interval =
     \<lparr>bkCapacity = capacity, bkInterval = interval, bkTokens = capacity, bkLast = None\<rparr>"

definition refilled :: "go_time \<Rightarrow> tokenBucket \<Rightarrow> rat" where
  "refilled now b =
     (let elapsed = (case bkLast b of None \<Rightarrow> bkInterval b | Some l \<Rightarrow> now - l);
          tokens = bkTokens b + rat_of_int elapsed / rat_of_int (bkInterval b) * bkCapacity b in
      if tokens > bkCapacity b then bkCapacity b else tokens)"

definition take_token :: "go_time \<Rightarrow> tokenBucket \<Rightarrow> bool \<times> tokenBucket" where
  "take_token now b =
     (let tokens = refilled now b in
      if tokens \<ge> 1 then (True, b\<lparr>bkTokens := tokens - 1, bkLast := Some now\<rparr>)
      else (False, b\<lparr>bkTokens := tokens, bkLast := Some now\<rparr>))"

record budget =
  bgCapacity :: rat
  bgInterval :: int

definition budgetFor :: "string \<Rightarrow> budget option" where
  "budgetFor cls =
     (if cls = ''typing'' then Some \<lparr>bgCapacity = 1, bgInterval = 2000000\<rparr>
      else if cls = ''presence'' then Some \<lparr>bgCapacity = 1, bgInterval = 1000000\<rparr>
      else if cls = ''read'' then Some \<lparr>bgCapacity = 1, bgInterval = 500000\<rparr>
      else if cls = ''standard'' then Some \<lparr>bgCapacity = 300, bgInterval = 60000000\<rparr>
      else None)"

section \<open>The limiter of one connection\<close>

text \<open>A map from \<open>class:key\<close> to its bucket; a bucket is made on first use.\<close>

type_synonym limiter = "string \<Rightarrow> tokenBucket option"

definition newLimiter :: limiter where
  "newLimiter = (\<lambda>_. None)"

definition bucket_key :: "string \<Rightarrow> string \<Rightarrow> string" where
  "bucket_key cls key = cls @ '':'' @ key"

definition limiter_allow :: "string \<Rightarrow> string \<Rightarrow> go_time \<Rightarrow> limiter \<Rightarrow> bool \<times> limiter" where
  "limiter_allow cls key now l =
     (case budgetFor cls of
        None \<Rightarrow> (True, l)
      | Some cfg \<Rightarrow>
          let b = (case l (bucket_key cls key) of
                     None \<Rightarrow> newTokenBucket (bgCapacity cfg) (bgInterval cfg) | Some b \<Rightarrow> b);
              (ok, b') = take_token now b in
          (ok, l(bucket_key cls key \<mapsto> b')))"

definition rateLimitMaxViolations :: int where "rateLimitMaxViolations = 10"
definition rateLimitViolationWindow :: int where "rateLimitViolationWindow = 30000000"

record connRate =
  crLimiter :: limiter
  crViolations :: int
  crFirstAt :: go_time

definition newConnRate :: connRate where
  "newConnRate = \<lparr>crLimiter = newLimiter, crViolations = 0, crFirstAt = 0\<rparr>"

text \<open>
  \<open>now\<close> is the reading of the limiter, \<open>t\<close> the one a violation is stamped with.
\<close>

definition rate_allow :: "string \<Rightarrow> string \<Rightarrow> go_time \<Rightarrow> go_time \<Rightarrow> connRate \<Rightarrow> bool \<times> connRate" where
  "rate_allow cls key now t r =
     (let (ok, l) = limiter_allow cls key now (crLimiter r) in
      if ok then (True, r\<lparr>crLimiter := l\<rparr>)
      else (False, r\<lparr>crLimiter := l, crFirstAt := (if crViolations r = 0 then t else crFirstAt r),
                     crViolations := crViolations r + 1\<rparr>))"

definition abusing :: "go_time \<Rightarrow> connRate \<Rightarrow> bool \<times> connRate" where
  "abusing now r =
     (if now - crFirstAt r > rateLimitViolationWindow then (False, r\<lparr>crViolations := 0\<rparr>)
      else (crViolations r \<ge> rateLimitMaxViolations, r))"

section \<open>Buckets keep their bounds\<close>

definition bucket_ok :: "tokenBucket \<Rightarrow> bool" where
  "bucket_ok b \<longleftrightarrow> 0 < bkInterval b \<and> 0 \<le> bkTokens b \<and> bkTokens b \<le> bkCapacity b"

definition not_before :: "tokenBucket \<Rightarrow> go_time \<Rightarrow> bool" where
  "not_before b now \<longleftrightarrow> (case bkLast b of None \<Rightarrow> True | Some l \<Rightarrow> l \<le> now)"

lemma refilled_bounds:
  assumes "bucket_ok b" "not_before b now"
  shows "0 \<le> refilled now b \<and> refilled now b \<le> bkCapacity b"
proof -
  have "0 \<le> rat_of_int (case bkLast b of None \<Rightarrow> bkInterval b | Some l \<Rightarrow> now - l) / rat_of_int (bkInterval b) * bkCapacity b"
    using assms by (intro mult_nonneg_nonneg divide_nonneg_pos) (auto simp: bucket_ok_def not_before_def split: option.splits)
  with assms show ?thesis by (auto simp: refilled_def bucket_ok_def Let_def)
qed

lemma take_token_ok:
  assumes "bucket_ok b" "not_before b now" and "take_token now b = (ok, b')"
  shows "bucket_ok b' \<and> bkLast b' = Some now \<and> bkCapacity b' = bkCapacity b \<and> bkInterval b' = bkInterval b
       \<and> bkTokens b' + (if ok then 1 else 0) = refilled now b"
  using refilled_bounds [OF assms(1,2)] assms(1,3)
  by (auto simp: take_token_def bucket_ok_def Let_def split: if_splits)

lemma newTokenBucket_ok: "0 \<le> c \<Longrightarrow> 0 < i \<Longrightarrow> bucket_ok (newTokenBucket c i)"
  by (simp add: newTokenBucket_def bucket_ok_def)

lemma budget_ok: "budgetFor cls = Some cfg \<Longrightarrow> 1 \<le> bgCapacity cfg \<and> 0 < bgInterval cfg"
  by (auto simp: budgetFor_def split: if_splits)

section \<open>How much gets through\<close>

text \<open>The answers of a bucket to a sequence of frames at the given times.\<close>

fun run_bucket :: "go_time list \<Rightarrow> tokenBucket \<Rightarrow> bool list \<times> tokenBucket" where
  "run_bucket [] b = ([], b)"
| "run_bucket (t # ts) b =
     (let (ok, b1) = take_token t b; (oks, b2) = run_bucket ts b1 in (ok # oks, b2))"

definition admitted :: "bool list \<Rightarrow> nat" where
  "admitted oks = length (filter (\<lambda>x. x) oks)"

lemma admitted_simps [simp]: "admitted [] = 0" "admitted (x # xs) = (if x then 1 else 0) + admitted xs"
  by (simp_all add: admitted_def)

text \<open>Once a bucket has been used, what it admits is paid for by its tokens and the time that passes.\<close>

lemma run_bucket_paid:
  assumes "bucket_ok b" "bkLast b = Some l" "sorted (l # ts)" and "run_bucket ts b = (oks, b')"
  shows "rat_of_nat (admitted oks) \<le> bkTokens b + rat_of_int (last (l # ts) - l) / rat_of_int (bkInterval b) * bkCapacity b"
  using assms
proof (induction ts arbitrary: b l oks)
  case Nil
  then show ?case by (simp add: bucket_ok_def)
next
  case (Cons t ts)
  obtain ok b1 oks' where r: "take_token t b = (ok, b1)" "run_bucket ts b1 = (oks', b')" "oks = ok # oks'"
    using Cons.prems(4) by (auto split: prod.splits)
  have nb: "not_before b t" using Cons.prems(2,3) by (simp add: not_before_def)
  note k = take_token_ok [OF Cons.prems(1) nb r(1)]
  have ih: "rat_of_nat (admitted oks') \<le> bkTokens b1 + rat_of_int (last (t # ts) - t) / rat_of_int (bkInterval b) * bkCapacity b"
    using Cons.IH [of b1 t oks'] k Cons.prems(3) r(2) by simp
  have "refilled t b \<le> bkTokens b + rat_of_int (t - l) / rat_of_int (bkInterval b) * bkCapacity b"
    by (simp add: refilled_def Let_def Cons.prems(2))
  moreover have "rat_of_nat (admitted oks) = (if ok then 1 else 0) + rat_of_nat (admitted oks')" by (simp add: r(3))
  moreover have "bkTokens b1 + (if ok then 1 else 0) = refilled t b" using k by blast
  ultimately have "rat_of_nat (admitted oks) \<le> bkTokens b + rat_of_int (t - l) / rat_of_int (bkInterval b) * bkCapacity b
      + rat_of_int (last (t # ts) - t) / rat_of_int (bkInterval b) * bkCapacity b"
    using ih by linarith
  also have "\<dots> = bkTokens b + rat_of_int (last (l # t # ts) - l) / rat_of_int (bkInterval b) * bkCapacity b"
    by (simp add: field_simps add_divide_distrib [symmetric] diff_divide_distrib)
  finally show ?case .
qed

text \<open>The same from a bucket's first frame on: at most the burst and the refill of the time since.\<close>

lemma run_bucket_bound:
  assumes "bucket_ok b" "bkLast b = None" "sorted ts" "ts \<noteq> []" and "run_bucket ts b = (oks, b')"
  shows "rat_of_nat (admitted oks) \<le> bkCapacity b + rat_of_int (last ts - hd ts) / rat_of_int (bkInterval b) * bkCapacity b"
proof -
  obtain t us where ts: "ts = t # us" using assms(4) by (cases ts) auto
  obtain ok b1 oks' where r: "take_token t b = (ok, b1)" "run_bucket us b1 = (oks', b')" "oks = ok # oks'"
    using assms(5) by (auto simp: ts split: prod.splits)
  have nb: "not_before b t" using assms(2) by (simp add: not_before_def)
  note k = take_token_ok [OF assms(1) nb r(1)]
  have "rat_of_nat (admitted oks') \<le> bkTokens b1 + rat_of_int (last (t # us) - t) / rat_of_int (bkInterval b) * bkCapacity b"
    using run_bucket_paid [of b1 t us oks' b'] k assms(3) r(2) by (simp add: ts)
  moreover have "bkTokens b1 + (if ok then 1 else 0) = refilled t b" using k by blast
  moreover have "rat_of_nat (admitted oks) = (if ok then 1 else 0) + rat_of_nat (admitted oks')" by (simp add: r(3))
  moreover have "refilled t b \<le> bkCapacity b" using refilled_bounds [OF assms(1) nb] by blast
  ultimately have "rat_of_nat (admitted oks) \<le> bkCapacity b + rat_of_int (last (t # us) - t) / rat_of_int (bkInterval b) * bkCapacity b"
    by linarith
  then show ?thesis by (simp add: ts)
qed

section \<open>The limiter of a connection\<close>

text \<open>The frames of one connection, as class, key and time.\<close>

fun run_limiter :: "(string \<times> string \<times> go_time) list \<Rightarrow> limiter \<Rightarrow> bool list \<times> limiter" where
  "run_limiter [] l = ([], l)"
| "run_limiter ((cls, key, t) # fs) l =
     (let (ok, l1) = limiter_allow cls key t l; (oks, l2) = run_limiter fs l1 in (ok # oks, l2))"

definition of_bucket :: "string \<Rightarrow> string \<times> string \<times> go_time \<Rightarrow> bool" where
  "of_bucket k f \<longleftrightarrow> bucket_key (fst f) (fst (snd f)) = k \<and> budgetFor (fst f) \<noteq> None"

definition times_of :: "string \<Rightarrow> (string \<times> string \<times> go_time) list \<Rightarrow> go_time list" where
  "times_of k fs = map (\<lambda>f. snd (snd f)) (filter (of_bucket k) fs)"

definition answers_of :: "string \<Rightarrow> (string \<times> string \<times> go_time) list \<Rightarrow> bool list \<Rightarrow> bool list" where
  "answers_of k fs oks = map snd (filter (\<lambda>(f, ok). of_bucket k f) (zip fs oks))"

definition bucket_or_new :: "limiter \<Rightarrow> string \<Rightarrow> budget \<Rightarrow> tokenBucket" where
  "bucket_or_new l k cfg = (case l k of None \<Rightarrow> newTokenBucket (bgCapacity cfg) (bgInterval cfg) | Some b \<Rightarrow> b)"

text \<open>Class names hold no colon, so a bucket key belongs to one class.\<close>

lemma bucket_key_class:
  assumes "bucket_key c1 k1 = bucket_key c2 k2" "budgetFor c1 \<noteq> None" "budgetFor c2 \<noteq> None"
  shows "c1 = c2"
  using assms by (auto simp: bucket_key_def budgetFor_def split: if_splits)

text \<open>Frames of other buckets do not matter: a bucket sees the run of its own frames only.\<close>

lemma run_limiter_bucket:
  assumes "budgetFor cls = Some cfg" and "run_limiter fs l = (oks, l')"
  shows "answers_of (bucket_key cls key) fs oks
       = fst (run_bucket (times_of (bucket_key cls key) fs) (bucket_or_new l (bucket_key cls key) cfg))"
  using assms(2)
proof (induction fs arbitrary: l oks)
  case Nil
  then show ?case by (simp add: answers_of_def times_of_def)
next
  case (Cons f fs)
  obtain c k t where f: "f = (c, k, t)" by (cases f)
  obtain ok l1 oks' where r: "limiter_allow c k t l = (ok, l1)" "run_limiter fs l1 = (oks', l')" "oks = ok # oks'"
    using Cons.prems by (auto simp: f split: prod.splits)
  let ?K = "bucket_key cls key"
  show ?case
  proof (cases "of_bucket ?K f")
    case True
    then have "budgetFor c \<noteq> None" "bucket_key c k = ?K" by (auto simp: of_bucket_def f)
    then have c: "c = cls" "bucket_key c k = ?K" "budgetFor c = Some cfg"
      using bucket_key_class [of c k cls key] assms(1) by auto
    obtain b1 where t: "take_token t (bucket_or_new l ?K cfg) = (ok, b1)" "l1 = l(?K \<mapsto> b1)"
      using r(1) c by (auto simp: limiter_allow_def bucket_or_new_def Let_def split: prod.splits)
    have "bucket_or_new l1 ?K cfg = b1" by (simp add: bucket_or_new_def t(2))
    with Cons.IH [OF r(2)] True t(1) show ?thesis
      by (simp add: answers_of_def times_of_def r(3) f split: prod.splits)
  next
    case False
    have "l1 ?K = l ?K"
      using r(1) False assms(1)
      by (auto simp: limiter_allow_def of_bucket_def f Let_def split: option.splits prod.splits)
    then have "bucket_or_new l1 ?K cfg = bucket_or_new l ?K cfg" by (simp add: bucket_or_new_def)
    with Cons.IH [OF r(2)] False show ?thesis by (simp add: answers_of_def times_of_def r(3) f)
  qed
qed

text \<open>
  C28. The frame budgets: of the frames of one class and key, in any stretch of a connection from its
  start, no more are let through than the burst capacity plus what the elapsed time refills,
  whatever other frames come in between and however they are spaced.
\<close>

theorem frame_budget_bound:
  assumes "budgetFor cls = Some cfg" and "run_limiter fs newLimiter = (oks, l')"
    and "sorted (map (\<lambda>f. snd (snd f)) fs)" and "times_of (bucket_key cls key) fs \<noteq> []"
  shows "rat_of_nat (admitted (answers_of (bucket_key cls key) fs oks))
       \<le> bgCapacity cfg + rat_of_int (last (times_of (bucket_key cls key) fs) - hd (times_of (bucket_key cls key) fs))
           / rat_of_int (bgInterval cfg) * bgCapacity cfg"
proof -
  let ?ts = "times_of (bucket_key cls key) fs" and ?b = "newTokenBucket (bgCapacity cfg) (bgInterval cfg)"
  obtain oks' b' where r: "run_bucket ?ts ?b = (oks', b')" by fastforce
  have "answers_of (bucket_key cls key) fs oks = oks'"
    using run_limiter_bucket [OF assms(1,2), of key] r by (simp add: bucket_or_new_def newLimiter_def)
  moreover have "sorted ?ts" using assms(3) by (simp add: times_of_def sorted_filter)
  moreover have "bucket_ok ?b" using budget_ok [OF assms(1)] by (intro newTokenBucket_ok) auto
  ultimately show ?thesis
    using run_bucket_bound [OF _ _ _ assms(4) r] by (simp add: newTokenBucket_def)
qed

theorem frame_budget_bound_witness:
  "admitted (answers_of (bucket_key ''typing'' ''7'')
      [(''typing'', ''7'', 0), (''standard'', [], 5), (''typing'', ''7'', 10)]
      (fst (run_limiter [(''typing'', ''7'', 0), (''standard'', [], 5), (''typing'', ''7'', 10)] newLimiter))) < 2"
proof -
  let ?fs = "[(''typing'', ''7'', 0 :: int), (''standard'', [], 5), (''typing'', ''7'', 10)]"
  have b: "budgetFor ''typing'' = Some \<lparr>bgCapacity = 1, bgInterval = 2000000\<rparr>" by (simp add: budgetFor_def)
  have t: "times_of (bucket_key ''typing'' ''7'') ?fs = [0, 10]"
    by (simp add: times_of_def of_bucket_def bucket_key_def budgetFor_def)
  obtain oks l where r: "run_limiter ?fs newLimiter = (oks, l)" by fastforce
  from frame_budget_bound [OF b r, of "''7''"] t r show ?thesis by simp
qed

end
