(* ===== verification/RtDomain.thy ===== *)
theory RtDomain
  imports ChatDomain Cursor
begin

text \<open>
  The realtime protocol (\<open>realtime/domain/event.go\<close>, \<open>protocol.go\<close>): the backplane event and its
  JSON, the frame envelope and its validation, the event vocabulary and the close codes.  JSON text
  is represented by the value it parses to (\<open>None\<close>: text that does not parse), and decoding
  follows \<open>encoding/json\<close> on values: unknown members are ignored, absent ones leave the zero value,
  names match without regard to case, the last of several wins, a type mismatch is an error.
  The bytes of a payload are represented by the JSON value they hold.
\<close>

section \<open>Decoding members of an object\<close>

definition lower_char :: "char \<Rightarrow> char" where
  "lower_char c = (if 65 \<le> byte c \<and> byte c \<le> 90 then char_of (byte c + 32) else c)"

definition same_name :: "string \<Rightarrow> string \<Rightarrow> bool" where
  "same_name a b \<longleftrightarrow> map lower_char a = map lower_char b"

text \<open>\<open>set\<close> stores a JSON value over the old one, or fails.\<close>

fun decode_member :: "(json \<Rightarrow> 'a \<Rightarrow> 'a option) \<Rightarrow> string \<Rightarrow> (string \<times> json) list \<Rightarrow> 'a \<Rightarrow> 'a option" where
  "decode_member upd k [] a = Some a"
| "decode_member upd k ((n, v) # kvs) a =
     (if same_name n k then
        (case upd v a of None \<Rightarrow> None | Some a' \<Rightarrow> decode_member upd k kvs a')
      else decode_member upd k kvs a)"

definition get_int :: "json \<Rightarrow> go_int \<Rightarrow> go_int option" where
  "get_int v a = (case v of JNull \<Rightarrow> Some a | JInt n \<Rightarrow> if int64 n then Some n else None | _ \<Rightarrow> None)"

definition get_string :: "json \<Rightarrow> string \<Rightarrow> string option" where
  "get_string v a = (case v of JNull \<Rightarrow> Some a | JStr s \<Rightarrow> Some s | _ \<Rightarrow> None)"

definition get_bool :: "json \<Rightarrow> bool \<Rightarrow> bool option" where
  "get_bool v a = (case v of JNull \<Rightarrow> Some a | JBool b \<Rightarrow> Some b | _ \<Rightarrow> None)"

definition get_time :: "json \<Rightarrow> go_time \<Rightarrow> go_time option" where
  "get_time v a = (case v of JNull \<Rightarrow> Some a | JTime t \<Rightarrow> Some t | _ \<Rightarrow> None)"

text \<open>A pointer is nil on null; a slice is decoded element by element.\<close>

definition get_ptr :: "(json \<Rightarrow> 'a \<Rightarrow> 'a option) \<Rightarrow> 'a \<Rightarrow> json \<Rightarrow> 'a option \<Rightarrow> 'a option option" where
  "get_ptr upd zero v a =
     (if v = JNull then Some None else map_option Some (upd v (case a of None \<Rightarrow> zero | Some x \<Rightarrow> x)))"

fun decode_elems :: "(json \<Rightarrow> 'a \<Rightarrow> 'a option) \<Rightarrow> 'a \<Rightarrow> json list \<Rightarrow> 'a list option" where
  "decode_elems upd zero [] = Some []"
| "decode_elems upd zero (v # vs) =
     (case upd v zero of None \<Rightarrow> None
      | Some x \<Rightarrow> map_option ((#) x) (decode_elems upd zero vs))"

definition get_list :: "(json \<Rightarrow> 'a \<Rightarrow> 'a option) \<Rightarrow> 'a \<Rightarrow> json \<Rightarrow> 'a list \<Rightarrow> 'a list option" where
  "get_list upd zero v a =
     (case v of JNull \<Rightarrow> Some [] | JArr vs \<Rightarrow> decode_elems upd zero vs | _ \<Rightarrow> None)"

lemma get_simps [simp]:
  "get_int JNull a = Some a" "get_int (JInt n) a = (if int64 n then Some n else None)"
  "get_string JNull s = Some s" "get_string (JStr t) s = Some t"
  "get_bool JNull b = Some b" "get_bool (JBool c) b = Some c"
  "get_time JNull w = Some w" "get_time (JTime u) w = Some u"
  by (simp_all add: get_int_def get_string_def get_bool_def get_time_def)

section \<open>Events\<close>

record Event =
  evGlobalSeq :: go_int
  evEventType :: string
  evConversationID :: "go_int option"
  evEntityID :: "go_int option"
  evActorUserID :: "go_int option"
  evAffectedUserIDs :: "go_int list"
  evPayload :: json

datatype rt_error =
    BadJSON | EventMissingType | UnsupportedVersion | FrameMissingType | DataNotObject
  | MissingData | InvalidData | NegativeCursors | MissingConversation | MissingDelivered
  | UnknownFrame string | RateLimitAbuse
  | NotText | NotHello | MissingToken | MissingDevice

definition omitempty :: "string \<Rightarrow> ('a \<Rightarrow> json) \<Rightarrow> 'a option \<Rightarrow> (string \<times> json) list" where
  "omitempty k f x = (case x of None \<Rightarrow> [] | Some a \<Rightarrow> [(k, f a)])"

definition Event_Encode :: "Event \<Rightarrow> json" where
  "Event_Encode e = JObj (
     [(''global_seq'', JInt (evGlobalSeq e)), (''event_type'', JStr (evEventType e))]
     @ omitempty ''conversation_id'' JInt (evConversationID e)
     @ omitempty ''entity_id'' JInt (evEntityID e)
     @ omitempty ''actor_user_id'' JInt (evActorUserID e)
     @ omitempty ''affected_user_ids'' (\<lambda>xs. JArr (map JInt xs))
         (if evAffectedUserIDs e = [] then None else Some (evAffectedUserIDs e))
     @ [(''payload'', evPayload e)])"

definition obind :: "'a option \<Rightarrow> ('a \<Rightarrow> 'b option) \<Rightarrow> 'b option" where
  "obind x f = (case x of None \<Rightarrow> None | Some a \<Rightarrow> f a)"

lemma obind_simps [simp]: "obind None f = None" "obind (Some a) f = f a"
  by (simp_all add: obind_def)

lemma obind_Some_iff: "obind x f = Some b \<longleftrightarrow> (\<exists>a. x = Some a \<and> f a = Some b)"
  by (cases x) auto

definition zero_event :: Event where
  "zero_event = \<lparr>evGlobalSeq = 0, evEventType = [], evConversationID = None, evEntityID = None,
     evActorUserID = None, evAffectedUserIDs = [], evPayload = JNull\<rparr>"

definition unmarshal_event :: "json \<Rightarrow> Event option" where
  "unmarshal_event j = (case j of
     JNull \<Rightarrow> Some zero_event
   | JObj kvs \<Rightarrow>
       obind (decode_member get_int ''global_seq'' kvs 0) (\<lambda>g.
       obind (decode_member get_string ''event_type'' kvs []) (\<lambda>t.
       obind (decode_member (get_ptr get_int 0) ''conversation_id'' kvs None) (\<lambda>c.
       obind (decode_member (get_ptr get_int 0) ''entity_id'' kvs None) (\<lambda>i.
       obind (decode_member (get_ptr get_int 0) ''actor_user_id'' kvs None) (\<lambda>a.
       obind (decode_member (get_list get_int 0) ''affected_user_ids'' kvs []) (\<lambda>us.
       obind (decode_member (\<lambda>v _. Some v) ''payload'' kvs JNull) (\<lambda>p.
         Some \<lparr>evGlobalSeq = g, evEventType = t, evConversationID = c, evEntityID = i,
               evActorUserID = a, evAffectedUserIDs = us, evPayload = p\<rparr>)))))))
   | _ \<Rightarrow> None)"

definition DecodeEvent :: "json option \<Rightarrow> rt_error + Event" where
  "DecodeEvent text =
     rbind (from_opt BadJSON (obind text unmarshal_event)) (\<lambda>e.
     rbind (ensure (\<not> evEventType e = []) EventMissingType) (\<lambda>_. Inr e))"

section \<open>Vocabulary\<close>

text \<open>The names that are the same on the change log and on the wire need no constant of their own.\<close>

definition EventTypeToWire :: "string \<Rightarrow> string option" where
  "EventTypeToWire t =
     (if t = ''message.created'' then Some ''message.created''
      else if t = ''message.edited'' then Some ''message.edited''
      else if t = ''message.deleted'' then Some ''message.deleted''
      else if t = ''receipt.read'' then Some ''receipt.read''
      else if t = ''receipt.delivered'' then Some ''receipt.delivered''
      else if t = ''conversation.created'' then Some ''conversation.created''
      else if t = ''conversation.membership'' then Some ''membership.changed''
      else if t = ''conversation.settings'' then Some ''conversation.updated''
      else if t = ''media.ready'' then Some ''media.ready''
      else if t = ''user.updated'' then Some ''settings.updated''
      else None)"

definition IsEphemeral :: "string \<Rightarrow> bool" where
  "IsEphemeral t \<longleftrightarrow> t = ''presence.changed'' \<or> t = ''typing.indicator''"

datatype CloseCode =
    CloseAuthInvalid | CloseSessionRevoked | CloseRateLimit | CloseProtocol | CloseSlowConsumer
  | CloseServerRestart | ClosePolicy

fun close_code :: "CloseCode \<Rightarrow> int" where
  "close_code CloseAuthInvalid = 4401"
| "close_code CloseSessionRevoked = 4403"
| "close_code CloseRateLimit = 4501"
| "close_code CloseProtocol = 4502"
| "close_code CloseSlowConsumer = 4510"
| "close_code CloseServerRestart = 1012"
| "close_code ClosePolicy = 1008"

fun close_string :: "CloseCode \<Rightarrow> string" where
  "close_string CloseAuthInvalid = ''auth/token invalid''"
| "close_string CloseSessionRevoked = ''session revoked''"
| "close_string CloseRateLimit = ''rate limit abuse''"
| "close_string CloseProtocol = ''invalid frame / protocol violation''"
| "close_string CloseSlowConsumer = ''slow consumer''"
| "close_string CloseServerRestart = ''server restart''"
| "close_string ClosePolicy = ''policy violation''"

section \<open>Frames\<close>

definition ProtocolVersion :: int where "ProtocolVersion = 1"

text \<open>\<open>fmData\<close>: \<open>None\<close> when the member is absent; an explicit null is the raw text "null".\<close>

record Frame =
  fmVersion :: int
  fmID :: string
  fmType :: string
  fmSeq :: "go_int option"
  fmAt :: go_time
  fmData :: "json option"

definition unmarshal_frame :: "json \<Rightarrow> Frame option" where
  "unmarshal_frame j = (case j of
     JNull \<Rightarrow> Some \<lparr>fmVersion = 0, fmID = [], fmType = [], fmSeq = None, fmAt = 0, fmData = None\<rparr>
   | JObj kvs \<Rightarrow>
       obind (decode_member get_int ''v'' kvs 0) (\<lambda>v.
       obind (decode_member get_string ''id'' kvs []) (\<lambda>i.
       obind (decode_member get_string ''type'' kvs []) (\<lambda>t.
       obind (decode_member (get_ptr get_int 0) ''seq'' kvs None) (\<lambda>s.
       obind (decode_member get_time ''at'' kvs 0) (\<lambda>at.
       obind (decode_member (\<lambda>d _. Some (Some d)) ''data'' kvs None) (\<lambda>d.
         Some \<lparr>fmVersion = v, fmID = i, fmType = t, fmSeq = s, fmAt = at, fmData = d\<rparr>))))))
   | _ \<Rightarrow> None)"

definition is_object :: "json \<Rightarrow> bool" where
  "is_object j \<longleftrightarrow> (case j of JNull \<Rightarrow> True | JObj _ \<Rightarrow> True | _ \<Rightarrow> False)"

definition Frame_Decode :: "json option \<Rightarrow> rt_error + Frame" where
  "Frame_Decode text =
     rbind (from_opt BadJSON (obind text unmarshal_frame)) (\<lambda>f.
     rbind (ensure (\<not> fmVersion f \<noteq> ProtocolVersion) UnsupportedVersion) (\<lambda>_.
     rbind (ensure (\<not> fmType f = []) FrameMissingType) (\<lambda>_.
     rbind (case fmData f of None \<Rightarrow> Inr () | Some d \<Rightarrow> ensure (is_object d) DataNotObject) (\<lambda>_.
       Inr f))))"

section \<open>Facts\<close>

lemma same_name_eval [simp]: "same_name a a" by (simp add: same_name_def)

lemma decode_member_one: "same_name n k \<Longrightarrow> decode_member upd k [(n, v)] a = upd v a"
  by (simp split: option.splits)

lemma decode_elems_ints: "\<forall>x \<in> set xs. int64 x \<Longrightarrow> decode_elems get_int 0 (map JInt xs) = Some xs"
  by (induction xs) simp_all

lemma decode_member_append [simp]:
  "decode_member upd k (xs @ ys) a = obind (decode_member upd k xs a) (\<lambda>b. decode_member upd k ys b)"
  by (induction xs arbitrary: a) (auto split: option.splits)

lemma decode_member_omitempty [simp]:
  "decode_member upd k (omitempty n f x) a =
     (if same_name n k then (case x of None \<Rightarrow> Some a | Some y \<Rightarrow> upd (f y) a) else Some a)"
  by (auto simp: omitempty_def split: option.splits)

text \<open>The member names of an event are their own lower case.\<close>

lemma lower_names:
  "map lower_char ''global_seq'' = ''global_seq''" "map lower_char ''event_type'' = ''event_type''"
  "map lower_char ''conversation_id'' = ''conversation_id''" "map lower_char ''entity_id'' = ''entity_id''"
  "map lower_char ''actor_user_id'' = ''actor_user_id''"
  "map lower_char ''affected_user_ids'' = ''affected_user_ids''" "map lower_char ''payload'' = ''payload''"
  by code_simp+

definition event_int64 :: "Event \<Rightarrow> bool" where
  "event_int64 e \<longleftrightarrow> int64 (evGlobalSeq e) \<and> pred_option int64 (evConversationID e)
     \<and> pred_option int64 (evEntityID e) \<and> pred_option int64 (evActorUserID e)
     \<and> (\<forall>u \<in> set (evAffectedUserIDs e). int64 u)"

lemma get_ptr_int [simp]: "int64 n \<Longrightarrow> get_ptr get_int 0 (JInt n) a = Some (Some n)"
  by (simp add: get_ptr_def)

lemma unmarshal_encoded:
  assumes "event_int64 e"
  shows "unmarshal_event (Event_Encode e) = Some e"
proof -
  have u: "get_list get_int 0 (JArr (map JInt (evAffectedUserIDs e))) [] = Some (evAffectedUserIDs e)"
    using assms by (simp add: get_list_def decode_elems_ints event_int64_def)
  have o: "(case x of None \<Rightarrow> Some None | Some n \<Rightarrow> get_ptr get_int 0 (JInt n) None) = Some x"
    if "pred_option int64 x" for x
    using that by (cases x) auto
  show ?thesis
    using assms u o
    by (simp add: unmarshal_event_def Event_Encode_def same_name_def lower_names event_int64_def del: list.map)
qed

text \<open>
  What the relay puts on the backplane is what the dispatcher reads: encoding an event and decoding
  it gives the event back, with every optional member absent or present as it was.
\<close>

lemma event_roundtrip:
  assumes "event_int64 e" and "evEventType e \<noteq> []"
  shows "DecodeEvent (Some (Event_Encode e)) = Inr e"
  using assms by (simp add: DecodeEvent_def unmarshal_encoded)

lemma event_roundtrip_example:
  "DecodeEvent (Some (Event_Encode \<lparr>evGlobalSeq = 7, evEventType = ''message.created'', evConversationID = Some 1,
     evEntityID = None, evActorUserID = Some 10, evAffectedUserIDs = [10, 11], evPayload = JObj []\<rparr>))
   = Inr \<lparr>evGlobalSeq = 7, evEventType = ''message.created'', evConversationID = Some 1,
     evEntityID = None, evActorUserID = Some 10, evAffectedUserIDs = [10, 11], evPayload = JObj []\<rparr>"
  by (rule event_roundtrip) (simp_all add: event_int64_def int64_def)

end
