(* ===== verification/RtReplay.thy ===== *)
theory RtReplay
  imports RtDomain "HOL-Library.Sublist" "HOL-Library.AList"
begin

text \<open>
  The replay buffer of the dispatcher (\<open>replayBuffer\<close> in \<open>dispatcher.go\<close>): per conversation a ring of
  the recent events, bounded in number and age, that a reconnecting socket is served from.  The Go
  map of rings is an association list; times are microseconds.
\<close>

section \<open>The buffer\<close>

definition added_flag :: "json \<Rightarrow> bool option" where
  "added_flag payload = (case payload of
     JNull \<Rightarrow> Some False
   | JObj kvs \<Rightarrow> decode_member get_bool ''added'' kvs False
   | _ \<Rightarrow> None)"

definition eventWireType :: "Event \<Rightarrow> string" where
  "eventWireType e =
     (if evEventType e = ''message.reaction''
      then (case added_flag (evPayload e) of
              None \<Rightarrow> []
            | Some added \<Rightarrow> if added then ''reaction.added'' else ''reaction.removed'')
      else (case EventTypeToWire (evEventType e) of None \<Rightarrow> [] | Some t \<Rightarrow> t))"

record ReplayConfig =
  rcMaxEvents :: nat
  rcTTL :: int

definition DefaultReplayConfig :: ReplayConfig where
  "DefaultReplayConfig = \<lparr>rcMaxEvents = 500, rcTTL = 30000000\<rparr>"

record replayEvent =
  rvSeq :: go_int
  rvWire :: string
  rvPayload :: json
  rvAt :: go_time

record replayBuffer =
  rbCfg :: ReplayConfig
  rbEvents :: "(go_int \<times> replayEvent list) list"

definition newReplayBuffer :: "ReplayConfig \<Rightarrow> replayBuffer" where
  "newReplayBuffer cfg = \<lparr>rbCfg = cfg, rbEvents = []\<rparr>"

definition ring_of :: "replayBuffer \<Rightarrow> go_int \<Rightarrow> replayEvent list" where
  "ring_of b c = (case map_of (rbEvents b) c of None \<Rightarrow> [] | Some r \<Rightarrow> r)"

definition pruned :: "ReplayConfig \<Rightarrow> go_time \<Rightarrow> replayEvent list \<Rightarrow> replayEvent list" where
  "pruned cfg now ring =
     (let kept = filter (\<lambda>ev. now - rvAt ev \<le> rcTTL cfg) ring in
      if length kept \<ge> rcMaxEvents cfg then drop (length kept - rcMaxEvents cfg + 1) kept else kept)"

definition replay_entry :: "Event \<Rightarrow> go_time \<Rightarrow> replayEvent" where
  "replay_entry e now = \<lparr>rvSeq = evGlobalSeq e, rvWire = eventWireType e, rvPayload = evPayload e, rvAt = now\<rparr>"

definition replay_append :: "Event \<Rightarrow> go_time \<Rightarrow> replayBuffer \<Rightarrow> replayBuffer" where
  "replay_append e now b =
     (case evConversationID e of
        None \<Rightarrow> b
      | Some conv \<Rightarrow>
          if eventWireType e = [] then b
          else b\<lparr>rbEvents := AList.update conv (pruned (rbCfg b) now (ring_of b conv) @ [replay_entry e now])
                              (rbEvents b)\<rparr>)"

definition replay_since :: "replayBuffer \<Rightarrow> go_int \<Rightarrow> go_int \<Rightarrow> replayEvent list" where
  "replay_since b conv seen = filter (\<lambda>ev. rvSeq ev > seen) (ring_of b conv)"

definition CanReplay :: "replayBuffer \<Rightarrow> go_int \<Rightarrow> bool" where
  "CanReplay b lastGlobalSeq \<longleftrightarrow>
     rbEvents b \<noteq> [] \<and>
     (\<forall>(c, ring) \<in> set (rbEvents b). ring = [] \<or> \<not> lastGlobalSeq + 1 < rvSeq (hd ring))"

record ReplayFrame =
  rfSeq :: go_int
  rfType :: string
  rfAt :: go_time
  rfData :: json

definition replay_frame :: "replayEvent \<Rightarrow> ReplayFrame" where
  "replay_frame ev = \<lparr>rfSeq = rvSeq ev, rfType = rvWire ev, rfAt = rvAt ev, rfData = rvPayload ev\<rparr>"

definition ReplaySince :: "replayBuffer \<Rightarrow> go_int \<Rightarrow> ReplayFrame list" where
  "ReplaySince b lastGlobalSeq =
     sort_key rfSeq (map replay_frame
       (concat (map (\<lambda>(c, ring). filter (\<lambda>ev. rvSeq ev > lastGlobalSeq) ring) (rbEvents b))))"

section \<open>What a ring holds\<close>

text \<open>A dispatcher's past: the durable events it handled with the clock at each.\<close>

definition replay_all :: "(Event \<times> go_time) list \<Rightarrow> replayBuffer \<Rightarrow> replayBuffer" where
  "replay_all es b = fold (\<lambda>(e, t). replay_append e t) es b"

definition replayable :: "Event \<Rightarrow> bool" where
  "replayable e \<longleftrightarrow> evConversationID e \<noteq> None \<and> eventWireType e \<noteq> []"

definition entries :: "(Event \<times> go_time) list \<Rightarrow> replayEvent list" where
  "entries es = map (\<lambda>(e, t). replay_entry e t) (filter (\<lambda>(e, t). replayable e) es)"

definition entries_of :: "go_int \<Rightarrow> (Event \<times> go_time) list \<Rightarrow> replayEvent list" where
  "entries_of c es = entries (filter (\<lambda>(e, t). evConversationID e = Some c) es)"

lemma suffix_filter_sorted:
  assumes "sorted (map f xs)" and "\<And>x y. P x \<Longrightarrow> f x \<le> f y \<Longrightarrow> P y"
  shows "suffix (filter P xs) xs"
  using assms(1)
proof (induction xs)
  case (Cons x xs)
  show ?case
  proof (cases "P x")
    case True
    then have "\<forall>y \<in> set xs. P y" using Cons.prems assms(2) by auto
    with True show ?thesis by simp
  next
    case False
    with Cons show ?thesis by (auto intro: suffix_ConsI)
  qed
qed simp

lemma suffix_pruned:
  assumes "sorted (map rvAt ring)"
  shows "suffix (pruned cfg now ring) ring"
proof -
  have k: "suffix (filter (\<lambda>ev. now - rvAt ev \<le> rcTTL cfg) ring) ring" (is "suffix ?k ring")
    by (rule suffix_filter_sorted [OF assms]) linarith
  have "suffix (drop n ?k) ring" for n using suffix_drop k by (rule suffix_order.trans)
  with k show ?thesis by (simp add: pruned_def Let_def)
qed

text \<open>
  After any past with a clock that does not step back, each conversation with a replayable event has
  one ring, a non-empty final piece of its events.
\<close>

definition rings_ok :: "(Event \<times> go_time) list \<Rightarrow> replayBuffer \<Rightarrow> bool" where
  "rings_ok es b \<longleftrightarrow> distinct (map fst (rbEvents b)) \<and> fst ` set (rbEvents b) = {c. entries_of c es \<noteq> []}
     \<and> (\<forall>(c, ring) \<in> set (rbEvents b). ring \<noteq> [] \<and> suffix ring (entries_of c es))"

lemma entries_simps [simp]:
  "entries [] = []" "entries (xs @ ys) = entries xs @ entries ys"
  "entries [(e, t)] = (if replayable e then [replay_entry e t] else [])"
  "entries_of c [] = []" "entries_of c (xs @ ys) = entries_of c xs @ entries_of c ys"
  "entries_of c [(e, t)] = (if replayable e \<and> evConversationID e = Some c then [replay_entry e t] else [])"
  by (simp_all add: entries_def entries_of_def)

lemma entries_of_times: "sorted (map snd es) \<Longrightarrow> sorted (map rvAt (entries_of c es))"
proof (induction es rule: rev_induct)
  case (snoc x es)
  obtain e t where x: "x = (e, t)" by fastforce
  have "\<forall>r \<in> set (entries_of c es). rvAt r \<in> snd ` set es"
    by (auto simp: entries_of_def entries_def replay_entry_def image_iff) force
  with snoc show ?case by (fastforce simp: x sorted_append replay_entry_def)
qed simp

lemma rings_ok_append:
  assumes "rings_ok es b" and "sorted (map snd (es @ [(e, t)]))"
  shows "rings_ok (es @ [(e, t)]) (replay_append e t b)"
proof (cases "replayable e")
  case False
  then have "replay_append e t b = b" by (auto simp: replay_append_def replayable_def split: option.splits)
  with assms(1) False show ?thesis by (simp add: rings_ok_def)
next
  case True
  then obtain c where c: "evConversationID e = Some c" "eventWireType e \<noteq> []" by (auto simp: replayable_def)
  let ?r = "pruned (rbCfg b) t (ring_of b c) @ [replay_entry e t]"
  have e: "rbEvents (replay_append e t b) = AList.update c ?r (rbEvents b)" by (simp add: replay_append_def c)
  have d: "distinct (map fst (rbEvents b))" using assms(1) by (simp add: rings_ok_def)
  have s: "suffix (ring_of b c) (entries_of c es)"
  proof (cases "map_of (rbEvents b) c")
    case (Some r)
    then have "(c, r) \<in> set (rbEvents b)" by (rule map_of_SomeD)
    with assms(1) Some show ?thesis by (auto simp: rings_ok_def ring_of_def)
  qed (simp add: ring_of_def)
  then obtain pre where "entries_of c es = pre @ ring_of b c" by (auto simp: suffix_def)
  moreover have "sorted (map rvAt (entries_of c es))" using assms(2) entries_of_times [of es c] by (simp add: sorted_append)
  ultimately have "sorted (map rvAt (ring_of b c))" by (simp add: sorted_append)
  then have "suffix (pruned (rbCfg b) t (ring_of b c)) (entries_of c es)"
    using suffix_pruned s suffix_order.trans by blast
  then have n: "suffix ?r (entries_of c (es @ [(e, t)]))" using True c by (simp add: suffix_append)
  have d': "distinct (map fst (AList.update c ?r (rbEvents b)))" using d by (rule distinct_update)
  have ring: "(k, ring) \<in> set (AList.update c ?r (rbEvents b)) \<longleftrightarrow>
      (if k = c then ring = ?r else (k, ring) \<in> set (rbEvents b))" for k ring
    unfolding map_of_eq_Some_iff [OF d', symmetric] map_of_eq_Some_iff [OF d, symmetric]
    by (simp only: update_conv) auto
  have keys: "fst ` set (AList.update c ?r (rbEvents b)) = insert c (fst ` set (rbEvents b))"
    by (simp add: dom_map_of_conv_image_fst [symmetric] update_conv')
  show ?thesis
    unfolding rings_ok_def e keys
    using assms(1) True c d' n by (auto simp: rings_ok_def ring split: if_splits)
qed

lemma rings_ok_all:
  "sorted (map snd es) \<Longrightarrow> rings_ok es (replay_all es (newReplayBuffer cfg))"
proof (induction es rule: rev_induct)
  case Nil
  then show ?case by (simp add: rings_ok_def replay_all_def newReplayBuffer_def)
next
  case (snoc x es)
  obtain e t where x: "x = (e, t)" by fastforce
  have "rings_ok es (replay_all es (newReplayBuffer cfg))" using snoc by (simp add: sorted_append)
  then show ?case using rings_ok_append snoc.prems by (simp add: x replay_all_def)
qed

section \<open>Resuming\<close>

definition seqs_sorted :: "(Event \<times> go_time) list \<Rightarrow> bool" where
  "seqs_sorted es \<longleftrightarrow> sorted_wrt (<) (map (\<lambda>(e, t). evGlobalSeq e) es)"

lemma entries_of_event:
  "r \<in> set (entries_of c es) \<Longrightarrow> \<exists>e t. (e, t) \<in> set es \<and> evConversationID e = Some c \<and> rvSeq r = evGlobalSeq e"
  by (force simp: entries_of_def entries_def replay_entry_def)

lemma set_entries: "set (entries es) = (\<Union>c. set (entries_of c es))"
  by (force simp: entries_def entries_of_def replayable_def image_iff)

lemma entries_sorted: "seqs_sorted es \<Longrightarrow> sorted_wrt (<) (map rvSeq (entries es))"
proof (induction es rule: rev_induct)
  case (snoc x es)
  obtain e t where x: "x = (e, t)" by fastforce
  have "\<forall>r \<in> set (entries es). \<exists>(e', t') \<in> set es. rvSeq r = evGlobalSeq e'"
    by (force simp: entries_def replay_entry_def)
  with snoc show ?case by (fastforce simp: x seqs_sorted_def sorted_wrt_append replay_entry_def)
qed simp

lemma entries_of_filter: "entries_of c es = entries (filter (\<lambda>(e, t). evConversationID e = Some c) es)"
  by (simp add: entries_of_def)

lemma entries_of_sorted: "seqs_sorted es \<Longrightarrow> sorted_wrt (<) (map rvSeq (entries_of c es))"
  unfolding entries_of_filter
  by (rule entries_sorted) (auto simp: seqs_sorted_def sorted_wrt_map intro: sorted_wrt_filter)

lemma seqs_sorted_inj:
  "seqs_sorted es \<Longrightarrow> (e, t) \<in> set es \<Longrightarrow> (e', t') \<in> set es \<Longrightarrow> evGlobalSeq e = evGlobalSeq e' \<Longrightarrow> e = e'"
  by (induction es) (auto simp: seqs_sorted_def)

lemma distinct_rings:
  assumes "distinct (map fst al)" and "\<And>c r. (c, r) \<in> set al \<Longrightarrow> distinct (map f r)"
    and "\<And>c r d s. (c, r) \<in> set al \<Longrightarrow> (d, s) \<in> set al \<Longrightarrow> c \<noteq> d \<Longrightarrow> f ` set r \<inter> f ` set s = {}"
  shows "distinct (map f (concat (map (\<lambda>(c, r). filter P r) al)))"
  using assms
proof (induction al)
  case (Cons a al)
  obtain c r where a: "a = (c, r)" by fastforce
  have "distinct (map f (concat (map (\<lambda>(c, r). filter P r) al)))"
  proof (rule Cons.IH)
    show "distinct (map fst al)" using Cons.prems(1) by (simp add: a)
    show "distinct (map f s)" if "(d, s) \<in> set al" for d s using Cons.prems(2) that by (meson list.set_intros(2))
    show "f ` set s \<inter> f ` set s' = {}" if "(d, s) \<in> set al" "(d', s') \<in> set al" "d \<noteq> d'" for d d' s s'
      using Cons.prems(3) that by (meson list.set_intros(2))
  qed
  moreover have "distinct (map f (filter P r))" using Cons.prems(2) [of c r] by (simp add: a distinct_map_filter)
  moreover have "f ` set r \<inter> f ` set s = {}" if "(d, s) \<in> set al" for d s
    using that Cons.prems(1) Cons.prems(3) [of c r d s] by (force simp: a)
  then have "f ` set (filter P r) \<inter> f ` set (concat (map (\<lambda>(c, r). filter P r) al)) = {}" by fastforce
  ultimately show ?case by (simp add: a)
qed simp

text \<open>What is in no ring any more lies before the first element of one.\<close>

lemma retained:
  assumes "rings_ok received b" and "seqs_sorted (missed @ received)" and "CanReplay b cursor"
    and "r \<in> set (entries (missed @ received))" and "cursor < rvSeq r"
  shows "\<exists>(c, ring) \<in> set (rbEvents b). r \<in> set ring"
proof -
  have first: "rvSeq (hd ring) \<le> cursor + 1" "suffix ring (entries_of c received)" "ring \<noteq> []"
    if "(c, ring) \<in> set (rbEvents b)" for c ring
  proof -
    have "ring \<noteq> [] \<and> suffix ring (entries_of c received)" using assms(1) that by (auto simp: rings_ok_def)
    then show "suffix ring (entries_of c received)" "ring \<noteq> []" by simp_all
    then show "rvSeq (hd ring) \<le> cursor + 1" using assms(3) that by (auto simp: CanReplay_def not_less)
  qed
  have s: "sorted_wrt (<) (map rvSeq (entries missed @ entries received))"
    using entries_sorted [OF assms(2)] by simp
  consider "r \<in> set (entries missed)" | c where "r \<in> set (entries_of c received)"
    using assms(4) by (auto simp: set_entries)
  then show ?thesis
  proof cases
    case 1
    obtain c ring where cr: "(c, ring) \<in> set (rbEvents b)"
      using assms(3) by (cases "rbEvents b") (auto simp: CanReplay_def)
    note f = first [OF cr]
    then have "hd ring \<in> set (entries_of c received)" by (meson hd_in_set set_mono_suffix subsetD)
    then have "hd ring \<in> set (entries received)" by (auto simp: set_entries)
    then have "rvSeq r < rvSeq (hd ring)" using s 1 by (auto simp: sorted_wrt_append)
    with f(1) assms(5) show ?thesis by simp
  next
    case 2
    then have "c \<in> fst ` set (rbEvents b)" using assms(1) by (auto simp: rings_ok_def)
    then obtain ring where cr: "(c, ring) \<in> set (rbEvents b)" by auto
    note f = first [OF cr]
    obtain pre where p: "entries_of c received = pre @ ring" using f(2) by (auto simp: suffix_def)
    have "seqs_sorted received" using assms(2) by (simp add: seqs_sorted_def sorted_wrt_append)
    then have "sorted_wrt (<) (map rvSeq (pre @ ring))" using entries_of_sorted p by metis
    then have "\<forall>x \<in> set pre. rvSeq x < rvSeq (hd ring)" using f(3) by (auto simp: sorted_wrt_append)
    then have "r \<in> set ring" using 2 f(1) assms(5) by (force simp: p)
    with cr show ?thesis by blast
  qed
qed

lemma frame_seqs: "map rfSeq (map replay_frame xs) = map rvSeq xs"
  by (simp add: replay_frame_def)

text \<open>What the rings hold beyond a cursor: all the events if the cursor is admitted, each once.\<close>

definition beyond :: "go_int \<Rightarrow> replayBuffer \<Rightarrow> replayEvent list" where
  "beyond cursor b = concat (map (\<lambda>(c, ring). filter (\<lambda>r. cursor < rvSeq r) ring) (rbEvents b))"

lemma ring_entries: "rings_ok received b \<Longrightarrow> (c, r) \<in> set (rbEvents b) \<Longrightarrow> set r \<subseteq> set (entries_of c received)"
  by (force simp: rings_ok_def dest: set_mono_suffix)

lemma beyond_set:
  assumes "rings_ok received b" and "seqs_sorted (missed @ received)" and "CanReplay b cursor"
  shows "set (beyond cursor b) = set (filter (\<lambda>r. cursor < rvSeq r) (entries (missed @ received)))"
proof (intro equalityI subsetI)
  fix r assume "r \<in> set (beyond cursor b)"
  then show "r \<in> set (filter (\<lambda>r. cursor < rvSeq r) (entries (missed @ received)))"
    using ring_entries [OF assms(1)] by (fastforce simp: set_entries beyond_def)
next
  fix r assume "r \<in> set (filter (\<lambda>r. cursor < rvSeq r) (entries (missed @ received)))"
  then show "r \<in> set (beyond cursor b)" using retained [OF assms(1,2)] assms(3) by (fastforce simp: beyond_def)
qed

lemma beyond_distinct:
  assumes ok: "rings_ok received b" and rs: "seqs_sorted received"
  shows "distinct (map rvSeq (beyond cursor b))"
  unfolding beyond_def
proof (rule distinct_rings)
  show "distinct (map fst (rbEvents b))" using ok by (simp add: rings_ok_def)
  fix c r assume cr: "(c, r) \<in> set (rbEvents b)"
  then obtain pre where "entries_of c received = pre @ r" using ok by (force simp: rings_ok_def suffix_def)
  then have "sorted_wrt (<) (map rvSeq r)" using entries_of_sorted [OF rs, of c] by (simp add: sorted_wrt_append)
  then show "distinct (map rvSeq r)" by (simp add: strict_sorted_iff)
  fix d s assume ds: "(d, s) \<in> set (rbEvents b)" "c \<noteq> d"
  show "rvSeq ` set r \<inter> rvSeq ` set s = {}"
  proof (rule ccontr)
    assume "rvSeq ` set r \<inter> rvSeq ` set s \<noteq> {}"
    then obtain x y where "x \<in> set r" "y \<in> set s" "rvSeq x = rvSeq y" by auto
    then obtain e t e' t' where
      "(e, t) \<in> set received" "evConversationID e = Some c" "rvSeq x = evGlobalSeq e"
      "(e', t') \<in> set received" "evConversationID e' = Some d" "rvSeq y = evGlobalSeq e'"
      using ring_entries [OF ok cr] ring_entries [OF ok ds(1)] entries_of_event [of x c received] entries_of_event [of y d received]
      by (auto dest!: subsetD)
    with seqs_sorted_inj [OF rs] ds(2) \<open>rvSeq x = rvSeq y\<close> show False by (metis option.inject)
  qed
qed


definition demo_event :: "go_int \<Rightarrow> go_int \<Rightarrow> Event" where
  "demo_event c n = \<lparr>evGlobalSeq = n, evEventType = ''message.created'', evConversationID = Some c,
     evEntityID = None, evActorUserID = Some 10, evAffectedUserIDs = [10, 11], evPayload = JObj []\<rparr>"

definition demo_stream :: "(Event \<times> go_time) list" where
  "demo_stream = [(demo_event 1 5, 0), (demo_event 2 6, 10), (demo_event 1 7, 20), (demo_event 1 9, 40000000)]"

lemma demo_stream_seqs: "seqs_sorted ([(demo_event 1 3, 0)] @ demo_stream)" "sorted (map snd demo_stream)"
  by (simp_all add: seqs_sorted_def demo_stream_def demo_event_def)

lemma demo_stream_rings:
  "rbEvents (replay_all demo_stream (newReplayBuffer DefaultReplayConfig)) =
     [(1, [replay_entry (demo_event 1 9) 40000000]), (2, [replay_entry (demo_event 2 6) 10])]"
  by (simp add: replay_all_def demo_stream_def replay_append_def demo_event_def eventWireType_def EventTypeToWire_def
      newReplayBuffer_def ring_of_def pruned_def DefaultReplayConfig_def replay_entry_def)


text \<open>
  The converse fails: here nothing has been evicted, yet the cursor 3 is turned away because the
  only event of conversation 2 is newer.
\<close>

lemma resume_overrejects:
  "let past = [(demo_event 1 4, 0), (demo_event 1 5, 5), (demo_event 2 6, 10)]; b = replay_all past (newReplayBuffer DefaultReplayConfig) in
   concat (map snd (rbEvents b)) = entries past \<and> \<not> CanReplay b 3"
  by code_simp

end
