(* ===== verification/RtConnection.thy ===== *)
theory RtConnection
  imports RtReplay RateLimit
begin

text \<open>
  One socket (\<open>realtime/delivery/ws/connection.go\<close>): the stamped and bounded send queue, the close
  request, and what the two pumps do.  \<open>cnWire\<close> is what the socket has been handed so far.  The
  operations are atomic here except \<open>sendEvent\<close>, which the code splits: \<open>stamp\<close> runs under the
  sequence lock, \<open>enqueue\<close> after it is released.
\<close>

definition SendBufferSize :: nat where "SendBufferSize = 256"

record Connection =
  cnID :: string
  cnUserID :: go_int
  cnSessionID :: go_int
  cnDeviceID :: string
  cnSubscribed :: "go_int list"
  cnSeq :: go_int
  cnQueue :: "Frame list"               \<comment> \<open>the channel \<open>send\<close>\<close>
  cnClosing :: "CloseCode option"       \<comment> \<open>\<open>closing\<close> with \<open>closeCode\<close>\<close>
  cnDropped :: bool                     \<comment> \<open>the socket was aborted\<close>
  cnWriting :: bool                     \<comment> \<open>the write pump is running\<close>
  cnWire :: "Frame list"
  cnCloseFrame :: "CloseCode option"    \<comment> \<open>the close frame sent\<close>
  cnRate :: connRate

definition newConnection :: "string \<Rightarrow> go_int \<Rightarrow> go_int \<Rightarrow> string \<Rightarrow> Connection" where
  "newConnection i userID sessionID deviceID =
     \<lparr>cnID = i, cnUserID = userID, cnSessionID = sessionID, cnDeviceID = deviceID, cnSubscribed = [],
      cnSeq = 0, cnQueue = [], cnClosing = None, cnDropped = False, cnWriting = True, cnWire = [],
      cnCloseFrame = None, cnRate = newConnRate\<rparr>"

definition isBound :: "Connection \<Rightarrow> bool" where
  "isBound c \<longleftrightarrow> cnUserID c > 0 \<and> cnSessionID c > 0"

definition isClosing :: "Connection \<Rightarrow> bool" where
  "isClosing c \<longleftrightarrow> cnClosing c \<noteq> None"

text \<open>Only the first close request counts.\<close>

definition closeWith :: "CloseCode \<Rightarrow> Connection \<Rightarrow> Connection" where
  "closeWith code c = (if isClosing c then c else c\<lparr>cnClosing := Some code\<rparr>)"

definition drop_socket :: "Connection \<Rightarrow> Connection" where
  "drop_socket c = c\<lparr>cnDropped := True\<rparr>"

section \<open>Sending\<close>

definition stamp :: "string \<Rightarrow> json \<Rightarrow> go_time \<Rightarrow> Connection \<Rightarrow> Frame \<times> Connection" where
  "stamp typ data now c =
     (let c' = c\<lparr>cnSeq := cnSeq c + 1\<rparr> in
      (\<lparr>fmVersion = ProtocolVersion, fmID = [], fmType = typ, fmSeq = Some (cnSeq c'), fmAt = now, fmData = Some data\<rparr>, c'))"

definition enqueue :: "Frame \<Rightarrow> Connection \<Rightarrow> bool \<times> Connection" where
  "enqueue f c =
     (if isClosing c then (False, c)
      else if length (cnQueue c) < SendBufferSize then (True, c\<lparr>cnQueue := cnQueue c @ [f]\<rparr>)
      else (False, drop_socket (closeWith CloseSlowConsumer c)))"

definition sendEvent :: "string \<Rightarrow> json \<Rightarrow> go_time \<Rightarrow> Connection \<Rightarrow> bool \<times> Connection" where
  "sendEvent typ data now c = (let (f, c1) = stamp typ data now c in enqueue f c1)"

definition ack_data :: "string \<Rightarrow> json \<Rightarrow> string \<Rightarrow> json" where
  "ack_data i result errCode =
     (if errCode = [] then JObj [(''id'', JStr i), (''result'', result)]
      else JObj [(''error'', JObj [(''code'', JStr errCode)]), (''id'', JStr i)])"

definition ack :: "string \<Rightarrow> json \<Rightarrow> string \<Rightarrow> go_time \<Rightarrow> Connection \<Rightarrow> Connection" where
  "ack i result errCode now c = snd (sendEvent ''ack'' (ack_data i result errCode) now c)"

text \<open>The replayed frames are numbered after the acknowledgement that carries them.\<close>

fun number_replay :: "go_int \<Rightarrow> ReplayFrame list \<Rightarrow> json list \<times> go_int" where
  "number_replay n [] = ([], n)"
| "number_replay n (ev # evs) =
     (let (rest, k) = number_replay (n + 1) evs in
      (JObj ([(''type'', JStr (rfType ev)), (''seq'', JInt (n + 1)), (''at'', JTime (rfAt ev)), (''data'', rfData ev)]) # rest, k))"

definition sendResumeAck :: "go_int \<Rightarrow> go_int \<Rightarrow> ReplayFrame list \<Rightarrow> go_time \<Rightarrow> Connection \<Rightarrow> bool \<times> Connection" where
  "sendResumeAck fromSeq globalSeq replay now c =
     (let ackSeq = cnSeq c + 1;
          (replayed, k) = number_replay ackSeq replay;
          c1 = c\<lparr>cnSeq := k\<rparr>;
          data = JObj [(''connection_id'', JStr (cnID c)), (''from_seq'', JInt fromSeq), (''global_seq'', JInt globalSeq),
                       (''replay'', JArr replayed), (''session_id'', JInt (cnSessionID c))]
      in enqueue \<lparr>fmVersion = ProtocolVersion, fmID = ''resume-'' @ cnID c, fmType = ''resume_ack'', fmSeq = Some ackSeq,
                   fmAt = now, fmData = Some data\<rparr> c1)"

section \<open>The write pump\<close>

text \<open>One frame off the queue; a write that fails aborts the socket and ends the pump.\<close>

definition write_one :: "bool \<Rightarrow> Connection \<Rightarrow> Connection" where
  "write_one ok c =
     (case cnQueue c of
        [] \<Rightarrow> c
      | f # fs \<Rightarrow>
          if ok \<and> \<not> cnDropped c then c\<lparr>cnQueue := fs, cnWire := cnWire c @ [f]\<rparr>
          else (drop_socket c)\<lparr>cnQueue := fs, cnWriting := False\<rparr>)"

text \<open>\<open>drain\<close>: as many frames as the socket still takes; the one whose write fails is lost.\<close>

definition drain_queue :: "nat \<Rightarrow> Connection \<Rightarrow> Connection" where
  "drain_queue n c = c\<lparr>cnWire := cnWire c @ take n (cnQueue c), cnQueue := drop (Suc n) (cnQueue c)\<rparr>"

definition gracefulClose :: "bool \<Rightarrow> Connection \<Rightarrow> Connection" where
  "gracefulClose ok c =
     (if ok \<and> \<not> cnDropped c then c\<lparr>cnCloseFrame := cnClosing c\<rparr> else drop_socket c)"

text \<open>What the write pump does once a close is requested.\<close>

definition close_writer :: "nat \<Rightarrow> bool \<Rightarrow> Connection \<Rightarrow> Connection" where
  "close_writer n ok c =
     (gracefulClose ok (drain_queue (if cnDropped c then 0 else n) c))\<lparr>cnWriting := False\<rparr>"

definition heartbeat_lost :: "Connection \<Rightarrow> Connection" where
  "heartbeat_lost c = (drop_socket (closeWith CloseProtocol c))\<lparr>cnWriting := False\<rparr>"

section \<open>Steps of a connection\<close>

text \<open>
  What can happen to a socket between its creation and its end: sends from any goroutine, the
  writer, close requests.  The frame types of \<open>sendEvent\<close> are never that of the resume answer.
\<close>

inductive conn_step :: "Connection \<Rightarrow> Connection \<Rightarrow> bool" where
  step_send: "typ \<noteq> ''resume_ack'' \<Longrightarrow> conn_step c (snd (sendEvent typ data now c))"
| step_resume: "conn_step c (snd (sendResumeAck fromSeq globalSeq replay now c))"
| step_write: "cnWriting c \<Longrightarrow> cnClosing c = None \<Longrightarrow> conn_step c (write_one ok c)"
| step_closed: "cnWriting c \<Longrightarrow> cnClosing c \<noteq> None \<Longrightarrow> conn_step c (close_writer n ok c)"
| step_heartbeat: "cnWriting c \<Longrightarrow> conn_step c (heartbeat_lost c)"
| step_close: "conn_step c (closeWith code c)"
| step_drop: "conn_step c (drop_socket c)"
| step_writer_ends: "conn_step c (c\<lparr>cnWriting := False\<rparr>)"
| step_subscribed: "conn_step c (c\<lparr>cnSubscribed := cs\<rparr>)"
| step_rate: "conn_step c (c\<lparr>cnRate := r\<rparr>)"

definition conn_run :: "Connection \<Rightarrow> Connection \<Rightarrow> bool" where
  "conn_run = conn_step\<^sup>*\<^sup>*"

text \<open>The sequence numbers a frame carries: its own and those of the frames embedded in it.\<close>

fun embedded :: "json \<Rightarrow> go_int list" where
  "embedded (JArr (JObj kvs # rest)) =
     (case map_of kvs ''seq'' of Some (JInt n) \<Rightarrow> n # embedded (JArr rest) | _ \<Rightarrow> embedded (JArr rest))"
| "embedded _ = []"

definition carried :: "Frame \<Rightarrow> go_int list" where
  "carried f =
     (case fmSeq f of None \<Rightarrow> [] | Some n \<Rightarrow> [n])
     @ (if fmType f = ''resume_ack''
        then (case fmData f of None \<Rightarrow> [] | Some d \<Rightarrow>
                (case jfield ''replay'' d of None \<Rightarrow> [] | Some a \<Rightarrow> embedded a)) else [])"

definition carried_all :: "Frame list \<Rightarrow> go_int list" where
  "carried_all fs = concat (map carried fs)"

lemma carried_all_simps [simp]:
  "carried_all [] = []" "carried_all (f # fs) = carried f @ carried_all fs"
  "carried_all (fs @ gs) = carried_all fs @ carried_all gs"
  by (simp_all add: carried_all_def)

section \<open>The stream of a connection\<close>

lemma number_replay_carries:
  "number_replay n evs = (js, k) \<Longrightarrow> k = n + int (length evs) \<and> embedded (JArr js) = [n + 1..k]"
proof (induction evs arbitrary: n js k)
  case (Cons ev evs)
  obtain rest k' where r: "number_replay (n + 1) evs = (rest, k')" by fastforce
  from Cons.IH [OF r] Cons.prems r show ?case by (auto simp: upto_rec1)
qed simp

text \<open>
  What is on the wire and in the queue carries the numbers 1, 2, .. without a gap, up to the last
  one stamped while the socket is open; once a close is requested nothing more enters.  The writer
  of a socket that failed has lost the frame it was writing, so only the wire is claimed there.
\<close>

definition gapless :: "go_int list \<Rightarrow> bool" where
  "gapless ns \<longleftrightarrow> ns = [1..int (length ns)]"

definition stream_ok :: "Connection \<Rightarrow> bool" where
  "stream_ok c \<longleftrightarrow> 0 \<le> cnSeq c \<and> length (cnQueue c) \<le> SendBufferSize
     \<and> gapless (carried_all (cnWire c))
     \<and> (cnWriting c \<longrightarrow> gapless (carried_all (cnWire c @ cnQueue c)))
     \<and> (cnWriting c \<and> cnClosing c = None \<longrightarrow> int (length (carried_all (cnWire c @ cnQueue c))) = cnSeq c)"

lemma gapless_append:
  "gapless (xs @ ys) \<longleftrightarrow> gapless xs \<and> ys = [int (length xs) + 1..int (length xs) + int (length ys)]"
proof -
  have "[1..int a + int b] = [1..int a] @ [int a + 1..int a + int b]" for a b
  proof (cases a)
    case (Suc n)
    show ?thesis by (rule upto_split2) (simp_all add: Suc)
  qed simp
  then have "[1..int (length (xs @ ys))] = [1..int (length xs)] @ [int (length xs) + 1..int (length xs) + int (length ys)]"
    by simp
  then show ?thesis by (simp add: gapless_def)
qed

lemma gapless_prefix: "gapless (xs @ ys) \<Longrightarrow> gapless xs"
  by (simp add: gapless_append)

lemma stamp_carried:
  "typ \<noteq> ''resume_ack'' \<Longrightarrow> stamp typ data now c = (f, c') \<Longrightarrow> carried f = [cnSeq c + 1] \<and> c' = c\<lparr>cnSeq := cnSeq c + 1\<rparr>"
  by (auto simp: stamp_def carried_def Let_def)

lemma enqueue_stream:
  assumes "stream_ok c" and "carried f = [cnSeq c + 1..k]" and "cnSeq c < k"
  shows "stream_ok (snd (enqueue f (c\<lparr>cnSeq := k\<rparr>)))"
proof (cases "isClosing c \<or> \<not> length (cnQueue c) < SendBufferSize")
  case True
  with assms(1,3) show ?thesis
    by (auto simp: enqueue_def stream_ok_def isClosing_def closeWith_def drop_socket_def)
next
  case False
  then have o: "cnClosing c = None" "length (cnQueue c) < SendBufferSize" by (auto simp: isClosing_def)
  let ?all = "carried_all (cnWire c @ cnQueue c)"
  have "gapless (?all @ carried f)" "int (length (?all @ carried f)) = k" if w: "cnWriting c"
  proof -
    have "gapless ?all" "int (length ?all) = cnSeq c" using assms(1) o w by (auto simp: stream_ok_def)
    then show "gapless (?all @ carried f)" "int (length (?all @ carried f)) = k"
      using assms(2,3) unfolding gapless_append by simp_all
  qed
  with assms(1,3) o show ?thesis
    by (simp add: enqueue_def isClosing_def stream_ok_def)
qed

lemma sendEvent_stream: "stream_ok c \<Longrightarrow> typ \<noteq> ''resume_ack'' \<Longrightarrow> stream_ok (snd (sendEvent typ data now c))"
proof -
  assume a: "stream_ok c" "typ \<noteq> ''resume_ack''"
  obtain f c' where s: "stamp typ data now c = (f, c')" by fastforce
  with stamp_carried [OF a(2) s] enqueue_stream [OF a(1), of f "cnSeq c + 1"] show ?thesis
    by (simp add: sendEvent_def)
qed

lemma sendResumeAck_stream:
  assumes "stream_ok c"
  shows "stream_ok (snd (sendResumeAck fromSeq globalSeq replay now c))"
proof -
  obtain js k where r: "number_replay (cnSeq c + 1) replay = (js, k)" by fastforce
  note n = number_replay_carries [OF r]
  then have "[cnSeq c + 1..k] = (cnSeq c + 1) # embedded (JArr js)" by (subst upto_rec1) auto
  then show ?thesis
    unfolding sendResumeAck_def Let_def r prod.case
    by (intro enqueue_stream [OF assms]) (use n in \<open>simp_all add: carried_def\<close>)
qed

lemma stream_step: "conn_step c c' \<Longrightarrow> stream_ok c \<Longrightarrow> stream_ok c'"
proof (induction rule: conn_step.induct)
  case (step_write c ok)
  show ?case
  proof (cases "cnQueue c")
    case Nil
    with step_write show ?thesis by (simp add: write_one_def)
  next
    case (Cons f fs)
    have "gapless ((carried_all (cnWire c) @ carried f) @ carried_all fs)"
      using step_write Cons by (simp add: stream_ok_def)
    then have "gapless (carried_all (cnWire c) @ carried f)" by (rule gapless_prefix)
    with step_write Cons show ?thesis by (auto simp: write_one_def stream_ok_def drop_socket_def)
  qed
next
  case (step_closed c n ok)
  have "gapless (carried_all (cnWire c @ take m (cnQueue c)) @ carried_all (drop m (cnQueue c)))" for m
    using step_closed unfolding carried_all_simps [symmetric] append_assoc append_take_drop_id by (simp add: stream_ok_def)
  then have "gapless (carried_all (cnWire c @ take m (cnQueue c)))" for m using gapless_prefix by blast
  moreover have "length (drop m (cnQueue c)) \<le> SendBufferSize" for m using step_closed by (auto simp: stream_ok_def)
  ultimately show ?case
    using step_closed by (simp add: close_writer_def gracefulClose_def drain_queue_def stream_ok_def drop_socket_def)
qed (auto simp: sendEvent_stream sendResumeAck_stream, auto simp: stream_ok_def heartbeat_lost_def closeWith_def drop_socket_def isClosing_def)

lemma stream_run: "conn_run c c' \<Longrightarrow> stream_ok c \<Longrightarrow> stream_ok c'"
  unfolding conn_run_def by (induction rule: rtranclp_induct) (auto intro: stream_step)

lemma stream_new: "stream_ok (newConnection i u s d)"
  by (simp add: stream_ok_def newConnection_def gapless_def)

text \<open>
  As long as no two senders overtake each other between the stamp and the enqueue, whatever else happens
  to a socket, what the client has been sent carries the sequence numbers 1, 2, .. without a gap or a
  repetition, the frames inside a resume answer included, and never more than 256 frames wait.
  (\<open>RtStream\<close> says what is left when senders do overtake each other.)
\<close>

lemma socket_stream_gapless:
  assumes "conn_run (newConnection i u s d) c"
  shows "carried_all (cnWire c) = [1..int (length (carried_all (cnWire c)))] \<and> length (cnQueue c) \<le> 256"
  using stream_run [OF assms stream_new] by (simp add: stream_ok_def gapless_def SendBufferSize_def)

definition demo_socket :: Connection where
  "demo_socket = newConnection ''c-1'' 10 7001 ''phone''"

definition demo_served :: Connection where
  "demo_served =
     write_one True (write_one True
       (snd (sendResumeAck 4 9 [replay_frame (replay_entry (demo_event 1 9) 5)] 6 (snd (sendEvent ''pong'' (JObj []) 5 demo_socket)))))"

lemma demo_served_run: "conn_run demo_socket demo_served"
proof -
  have a: "conn_run demo_socket (snd (sendEvent ''pong'' (JObj []) 5 demo_socket))" (is "conn_run _ ?c1")
    unfolding conn_run_def by (rule r_into_rtranclp, rule step_send) simp
  let ?c2 = "snd (sendResumeAck 4 9 [replay_frame (replay_entry (demo_event 1 9) 5)] 6 ?c1)"
  have b: "conn_step ?c1 ?c2" by (rule step_resume)
  have c: "conn_step ?c2 (write_one True ?c2)" "conn_step (write_one True ?c2) demo_served"
    unfolding demo_served_def
    by (rule step_write; simp add: write_one_def sendResumeAck_def sendEvent_def stamp_def enqueue_def Let_def isClosing_def
        SendBufferSize_def demo_socket_def newConnection_def)+
  from a b c show ?thesis unfolding conn_run_def by (meson rtranclp.rtrancl_into_rtrancl)
qed

lemma socket_stream_gapless_witness:
  "carried_all (cnWire demo_served) = [1..3] \<and> length (cnQueue demo_served) \<le> 256"
proof -
  have "carried_all (cnWire demo_served) = [1, 2, 3]"
    by (simp add: demo_served_def write_one_def sendResumeAck_def sendEvent_def stamp_def enqueue_def Let_def isClosing_def
        SendBufferSize_def demo_socket_def newConnection_def carried_def)
  moreover note socket_stream_gapless [OF demo_served_run [unfolded demo_socket_def]]
  ultimately show ?thesis by simp
qed

text \<open>
  The numbering rests on the stamp and the enqueue happening together, which the code does not
  ensure: two sends that are stamped in one order and enqueued in the other reach the client swapped.
\<close>

lemma stamp_enqueue_race:
  "let (f1, c1) = stamp ''message.created'' d1 t demo_socket; (f2, c2) = stamp ''message.edited'' d2 t c1;
       c3 = snd (enqueue f1 (snd (enqueue f2 c2)))
   in carried_all (cnQueue c3) = [2, 1]"
  by (simp add: stamp_def enqueue_def Let_def isClosing_def SendBufferSize_def demo_socket_def newConnection_def carried_def)

section \<open>What a step keeps\<close>

text \<open>The identity of a socket never changes, and a requested close is never taken back.\<close>

lemma conn_step_keeps:
  "conn_step c c' \<Longrightarrow> cnID c' = cnID c \<and> cnUserID c' = cnUserID c \<and> cnSessionID c' = cnSessionID c \<and> cnDeviceID c' = cnDeviceID c
     \<and> (isClosing c \<longrightarrow> cnClosing c' = cnClosing c)"
  by (induction rule: conn_step.induct)
    (auto simp: sendEvent_def stamp_def enqueue_def closeWith_def drop_socket_def sendResumeAck_def Let_def write_one_def
      close_writer_def gracefulClose_def drain_queue_def heartbeat_lost_def isClosing_def split: list.splits prod.splits)

end
