(* ===== verification/RtStream.thy ===== *)
theory RtStream
  imports RtConnection "HOL-Library.Multiset"
begin

text \<open>
  The numbering of a socket under concurrent senders (\<open>sendEvent\<close> of
  \<open>realtime/delivery/ws/connection.go\<close>): between the stamp, made under the sequence lock, and the
  enqueue, made after it, other senders run.  \<open>ps\<close> are the frames stamped and not yet enqueued.
\<close>

inductive socket_step :: "Frame list \<times> Connection \<Rightarrow> Frame list \<times> Connection \<Rightarrow> bool" where
  socket_stamp: "typ \<noteq> ''resume_ack'' \<Longrightarrow> stamp typ data now c = (f, c') \<Longrightarrow> socket_step (ps, c) (f # ps, c')"
| socket_enqueue: "f \<in> set ps \<Longrightarrow> socket_step (ps, c) (remove1 f ps, snd (enqueue f c))"
| socket_whole: "conn_step c c' \<Longrightarrow> socket_step (ps, c) (ps, c')"

definition socket_run :: "Frame list \<times> Connection \<Rightarrow> Frame list \<times> Connection \<Rightarrow> bool" where
  "socket_run = socket_step\<^sup>*\<^sup>*"

text \<open>The numbers on the wire and in the queue, and those that a step took out of use.\<close>

definition used :: "Connection \<Rightarrow> go_int multiset" where
  "used c = mset (carried_all (cnWire c @ cnQueue c))"

definition open_socket_now :: "Connection \<Rightarrow> bool" where
  "open_socket_now c \<longleftrightarrow> cnWriting c \<and> cnClosing c = None"

definition spent :: "Connection \<Rightarrow> Connection \<Rightarrow> go_int multiset \<Rightarrow> bool" where
  "spent c c' new \<longleftrightarrow> (\<exists>lost. used c' + lost = used c + new \<and> (open_socket_now c' \<longrightarrow> lost = {#} \<and> open_socket_now c))"

lemma mset_numbers: "mset [a..b] = mset_set {a..b :: int}"
  using mset_set_set [of "[a..b]"] by simp

lemma enqueue_spent: "spent c (snd (enqueue f c)) (mset (carried f)) \<and> cnSeq (snd (enqueue f c)) = cnSeq c"
proof -
  consider "isClosing c" | "\<not> isClosing c" "length (cnQueue c) < SendBufferSize"
    | "\<not> isClosing c" "\<not> length (cnQueue c) < SendBufferSize" by blast
  then show ?thesis
    by cases (auto simp: spent_def enqueue_def used_def open_socket_now_def isClosing_def closeWith_def drop_socket_def)
qed

lemma spent_stamped: "spent (c\<lparr>cnSeq := k\<rparr>) c' new = spent c c' new"
  by (simp add: spent_def used_def open_socket_now_def)

text \<open>A step of a connection spends the numbers it stamps, once each.\<close>

definition spends :: "Connection \<Rightarrow> Connection \<Rightarrow> bool" where
  "spends c c' \<longleftrightarrow> cnSeq c \<le> cnSeq c' \<and> spent c c' (mset_set {cnSeq c + 1..cnSeq c'})"

lemma spends_unchanged:
  assumes "cnSeq c' = cnSeq c" and "\<exists>lost. used c' + lost = used c \<and> (open_socket_now c' \<longrightarrow> lost = {#} \<and> open_socket_now c)"
  shows "spends c c'"
  using assms by (simp add: spends_def spent_def)

lemma carried_write: "mset (carried_all (w @ q)) = mset (carried_all w) + mset (carried_all q)"
  by simp

lemma conn_step_spends: "conn_step c c' \<Longrightarrow> spends c c'"
proof (induction rule: conn_step.induct)
  case (step_send ty c data now)
  obtain f c' where s: "stamp ty data now c = (f, c')" by fastforce
  note f = stamp_carried [OF step_send s]
  with enqueue_spent [of c' f] show ?case
    by (simp add: s sendEvent_def spends_def spent_stamped)
next
  case (step_resume c fromSeq globalSeq replay now)
  obtain js k where r: "number_replay (cnSeq c + 1) replay = (js, k)" by fastforce
  note n = number_replay_carries [OF r]
  then have "[cnSeq c + 1..k] = (cnSeq c + 1) # embedded (JArr js)" by (subst upto_rec1) auto
  then have m: "mset ((cnSeq c + 1) # embedded (JArr js)) = mset_set {cnSeq c + 1..k}" using mset_numbers by metis
  let ?f = "\<lparr>fmVersion = ProtocolVersion, fmID = ''resume-'' @ cnID c, fmType = ''resume_ack'', fmSeq = Some (cnSeq c + 1), fmAt = now,
      fmData = Some (JObj [(''connection_id'', JStr (cnID c)), (''from_seq'', JInt fromSeq), (''global_seq'', JInt globalSeq),
                       (''replay'', JArr js), (''session_id'', JInt (cnSessionID c))])\<rparr>"
  have "carried ?f = (cnSeq c + 1) # embedded (JArr js)" by (simp add: carried_def)
  then show ?case
    using enqueue_spent [of "c\<lparr>cnSeq := k\<rparr>" ?f] m n
    by (simp add: sendResumeAck_def Let_def r spends_def spent_stamped)
next
  case (step_write c ok)
  show ?case
  proof (cases "cnQueue c")
    case Nil
    then show ?thesis by (intro spends_unchanged) (auto simp: write_one_def)
  next
    case (Cons f fs)
    show ?thesis
    proof (cases "ok \<and> \<not> cnDropped c")
      case True
      with Cons show ?thesis
        by (intro spends_unchanged) (auto simp: write_one_def used_def open_socket_now_def)
    next
      case False
      with Cons show ?thesis
        by (intro spends_unchanged exI [of _ "mset (carried f)"])
          (auto simp: write_one_def used_def open_socket_now_def drop_socket_def)
    qed
  qed
next
  case (step_closed c n ok)
  let ?n = "if cnDropped c then 0 else n"
  have "carried_all (cnQueue c) = carried_all (take ?n (cnQueue c)) @ carried_all (take 1 (drop ?n (cnQueue c)))
      @ carried_all (drop (Suc ?n) (cnQueue c))"
    unfolding carried_all_simps [symmetric] drop_Suc [of ?n] by (metis append_take_drop_id drop_Suc drop_drop plus_1_eq_Suc drop_tl)
  then show ?case
    by (intro spends_unchanged exI [of _ "mset (carried_all (take 1 (drop ?n (cnQueue c))))"])
      (auto simp: close_writer_def gracefulClose_def drain_queue_def used_def open_socket_now_def drop_socket_def)
qed (auto intro!: spends_unchanged simp: used_def open_socket_now_def heartbeat_lost_def closeWith_def drop_socket_def isClosing_def)

text \<open>Every number stamped so far is on the wire, in the queue, with its sender or given up.\<close>

definition numbers_ok :: "Frame list \<times> Connection \<Rightarrow> bool" where
  "numbers_ok = (\<lambda>(ps, c). 0 \<le> cnSeq c
     \<and> (\<exists>lost. used c + mset (carried_all ps) + lost = mset_set {1..cnSeq c} \<and> (open_socket_now c \<longrightarrow> lost = {#})))"

lemma numbers_split: "0 \<le> a \<Longrightarrow> a \<le> b \<Longrightarrow> mset_set {1..b :: int} = mset_set {1..a} + mset_set {a + 1..b}"
proof -
  assume a: "0 \<le> a" "a \<le> b"
  then have "{1..b} = {1..a} \<union> {a + 1..b}" by auto
  then show ?thesis by (simp add: mset_set_Union)
qed

lemma numbers_spent:
  assumes "numbers_ok (ps, c)" and "cnSeq c \<le> cnSeq c'" and "spent c c' new"
    and "new + mset (carried_all ps') = mset (carried_all ps) + mset_set {cnSeq c + 1..cnSeq c'}"
  shows "numbers_ok (ps', c')"
proof -
  obtain lost where l: "used c + mset (carried_all ps) + lost = mset_set {1..cnSeq c}" "open_socket_now c \<longrightarrow> lost = {#}" "0 \<le> cnSeq c"
    using assms(1) by (auto simp: numbers_ok_def)
  obtain lost' where l': "used c' + lost' = used c + new" "open_socket_now c' \<longrightarrow> lost' = {#} \<and> open_socket_now c"
    using assms(3) by (auto simp: spent_def)
  have "used c' + mset (carried_all ps') + (lost + lost') = (used c' + lost') + mset (carried_all ps') + lost" by simp
  also have "\<dots> = used c + (new + mset (carried_all ps')) + lost" unfolding l'(1) by simp
  also have "\<dots> = (used c + mset (carried_all ps) + lost) + mset_set {cnSeq c + 1..cnSeq c'}" unfolding assms(4) by simp
  also have "\<dots> = mset_set {1..cnSeq c'}" unfolding l(1) using numbers_split [OF l(3) assms(2)] by simp
  finally show ?thesis using l(2,3) l'(2) assms(2) by (auto simp: numbers_ok_def)
qed

lemma carried_remove1: "f \<in> set ps \<Longrightarrow> mset (carried_all ps) = mset (carried f) + mset (carried_all (remove1 f ps))"
  by (induction ps) auto

lemma numbers_step: "socket_step x y \<Longrightarrow> numbers_ok x \<Longrightarrow> numbers_ok y"
proof (induction rule: socket_step.induct)
  case (socket_stamp ty data now c f c' ps)
  have s: "carried f = [cnSeq c + 1]" "c' = c\<lparr>cnSeq := cnSeq c + 1\<rparr>"
    using stamp_carried [OF socket_stamp(1,2)] by simp_all
  show ?case
    by (rule numbers_spent [OF socket_stamp(3), of _ "{#}"]) (auto simp: s spent_def used_def open_socket_now_def)
next
  case (socket_enqueue f ps c)
  then show ?case
    using enqueue_spent [of c f] carried_remove1 [OF socket_enqueue(1)]
    by (intro numbers_spent [OF socket_enqueue(2), of _ "mset (carried f)"]) auto
next
  case (socket_whole c c' ps)
  then show ?case
    using conn_step_spends [OF socket_whole(1)]
    by (intro numbers_spent [OF socket_whole(2), of _ "mset_set {cnSeq c + 1..cnSeq c'}"]) (auto simp: spends_def)
qed

lemma numbers_run: "socket_run x y \<Longrightarrow> numbers_ok x \<Longrightarrow> numbers_ok y"
  unfolding socket_run_def by (induction rule: rtranclp_induct) (auto intro: numbers_step)

text \<open>
  C22. Sequence numbers are never reused: however the senders of a socket interleave, no number is on the
  wire or in the queue twice, and as long as the socket is open every number handed out is on the
  wire, in the queue or still with its sender, so that the client can tell a lost frame by its
  number.  The order of the numbers on the wire is not part of it.
\<close>

theorem socket_numbers_unique:
  assumes "socket_run ([], newConnection i u s d) (ps, c)"
  shows "distinct (carried_all (cnWire c @ cnQueue c) @ carried_all ps)
       \<and> set (carried_all (cnWire c @ cnQueue c) @ carried_all ps) \<subseteq> {1..cnSeq c}
       \<and> (cnWriting c \<and> cnClosing c = None \<longrightarrow>
            set (carried_all (cnWire c @ cnQueue c) @ carried_all ps) = {1..cnSeq c})"
proof -
  let ?ns = "carried_all (cnWire c @ cnQueue c) @ carried_all ps"
  have "numbers_ok ([], newConnection i u s d)"
    by (simp add: numbers_ok_def used_def newConnection_def)
  from numbers_run [OF assms this] obtain lost where
    "used c + mset (carried_all ps) + lost = mset_set {1..cnSeq c}" and o: "open_socket_now c \<longrightarrow> lost = {#}"
    unfolding numbers_ok_def by blast
  then have l: "mset ?ns + lost = mset_set {1..cnSeq c}" by (simp add: used_def ac_simps)
  then have sub: "mset ?ns \<subseteq># mset_set {1..cnSeq c}" by (metis mset_subset_eq_add_left)
  have "distinct ?ns"
  proof -
    have one: "count (mset ?ns) x \<le> 1" for x
    proof -
      have "count (mset ?ns) x \<le> count (mset_set {1..cnSeq c}) x" by (rule mset_subset_eq_count [OF sub])
      also have "\<dots> \<le> 1" by (simp add: count_mset_set')
      finally show ?thesis .
    qed
    have "count (mset ?ns) x = (if x \<in> set ?ns then 1 else 0)" for x
    proof (cases "x \<in> set ?ns")
      case True
      then have "0 < count (mset ?ns) x" by (simp only: count_greater_zero_iff set_mset_mset)
      with one [of x] True show ?thesis by (simp only: if_True)
    next
      case False
      then show ?thesis by (simp only: count_eq_zero_iff set_mset_mset not_False_eq_True if_False)
    qed
    then show ?thesis unfolding distinct_count_atmost_1 by blast
  qed
  moreover have "set ?ns \<subseteq> {1..cnSeq c}" using set_mset_mono [OF sub] by simp
  moreover have "set ?ns = {1..cnSeq c}" if "open_socket_now c"
  proof -
    have "mset ?ns = mset_set {1..cnSeq c}" using l o that by simp
    then show ?thesis by (metis finite_atLeastAtMost_int finite_set_mset_mset_set set_mset_mset)
  qed
  ultimately show ?thesis by (simp add: open_socket_now_def)
qed

text \<open>Two sends that overtake each other.\<close>

definition demo_overtaken :: Connection where
  "demo_overtaken =
     (let (f1, c1) = stamp ''message.created'' (JObj []) 5 demo_socket; (f2, c2) = stamp ''message.edited'' (JObj []) 5 c1
      in snd (enqueue f1 (snd (enqueue f2 c2))))"

lemma demo_overtaken_run: "socket_run ([], demo_socket) ([], demo_overtaken)"
proof -
  obtain f1 c1 where s1: "stamp ''message.created'' (JObj []) 5 demo_socket = (f1, c1)" by fastforce
  obtain f2 c2 where s2: "stamp ''message.edited'' (JObj []) 5 c1 = (f2, c2)" by fastforce
  have "f1 \<noteq> f2" using s1 s2 by (auto simp: stamp_def Let_def)
  then have "socket_step ([], demo_socket) ([f1], c1)" "socket_step ([f1], c1) ([f2, f1], c2)"
    "socket_step ([f2, f1], c2) ([f1], snd (enqueue f2 c2))"
    "socket_step ([f1], snd (enqueue f2 c2)) ([], snd (enqueue f1 (snd (enqueue f2 c2))))"
    using socket_stamp [OF _ s1, of "[]"] socket_stamp [OF _ s2, of "[f1]"] socket_enqueue [of f2 "[f2, f1]" c2]
      socket_enqueue [of f1 "[f1]"] by simp_all
  moreover have "demo_overtaken = snd (enqueue f1 (snd (enqueue f2 c2)))" by (simp add: demo_overtaken_def s1 s2)
  ultimately show ?thesis unfolding socket_run_def by (metis converse_rtranclp_into_rtranclp rtranclp.rtrancl_refl)
qed

theorem socket_numbers_unique_witness:
  "carried_all (cnQueue demo_overtaken) = [2, 1] \<and> cnSeq demo_overtaken = 2 \<and> {1 .. cnSeq demo_overtaken} = {1, 2}"
proof -
  have e: "carried_all (cnQueue demo_overtaken) = [2, 1]" "cnSeq demo_overtaken = 2" "cnWire demo_overtaken = []"
    "cnWriting demo_overtaken" "cnClosing demo_overtaken = None"
    by (simp_all add: demo_overtaken_def stamp_def enqueue_def Let_def isClosing_def SendBufferSize_def demo_socket_def
        newConnection_def carried_def)
  from socket_numbers_unique [OF demo_overtaken_run [unfolded demo_socket_def]] e show ?thesis by auto
qed

end
