(* ===== verification/RtHub.thy ===== *)
theory RtHub
  imports RtConnection
begin

text \<open>
  The hub (\<open>realtime/delivery/ws/hub.go\<close>, \<open>session_revoke.go\<close>): the live sockets of a gateway
  and the indexes that route to them.  The sockets are shared objects, so they live in a store
  \<open>gwConns\<close> by id; the registry holds ids.  Each operation is one step under the hub's lock, the
  deliveries to the sockets of one snapshot included.
\<close>

section \<open>The registry\<close>

record Gateway =
  gwConns :: "string \<Rightarrow> Connection option"       \<comment> \<open>every socket object\<close>
  gwRegistered :: "string set"                   \<comment> \<open>\<open>conns\<close>\<close>
  gwByUser :: "go_int \<Rightarrow> string set option"
  gwByConv :: "go_int \<Rightarrow> string set option"
  gwConnSeq :: int
  gwClosed :: bool

definition NewHub :: Gateway where
  "NewHub = \<lparr>gwConns = (\<lambda>_. None), gwRegistered = {}, gwByUser = (\<lambda>_. None), gwByConv = (\<lambda>_. None),
     gwConnSeq = 0, gwClosed = False\<rparr>"

definition setAdd :: "go_int \<Rightarrow> string \<Rightarrow> (go_int \<Rightarrow> string set option) \<Rightarrow> go_int \<Rightarrow> string set option" where
  "setAdd key i m = m(key := Some (insert i (case m key of None \<Rightarrow> {} | Some s \<Rightarrow> s)))"

definition setDelete :: "go_int \<Rightarrow> string \<Rightarrow> (go_int \<Rightarrow> string set option) \<Rightarrow> go_int \<Rightarrow> string set option" where
  "setDelete key i m =
     (case m key of
        None \<Rightarrow> m
      | Some s \<Rightarrow> let s' = s - {i} in if s' = {} then m(key := None) else m(key := Some s'))"

definition NextConnID :: "Gateway \<Rightarrow> string \<times> Gateway" where
  "NextConnID g = (let n = gwConnSeq g + 1 in (''c-'' @ FormatInt n, g\<lparr>gwConnSeq := n\<rparr>))"

text \<open>A socket that is handed over becomes part of the store.\<close>

definition register :: "Connection \<Rightarrow> Gateway \<Rightarrow> Gateway" where
  "register c g =
     g\<lparr>gwConns := (gwConns g)(cnID c := Some c), gwRegistered := insert (cnID c) (gwRegistered g),
       gwByUser := setAdd (cnUserID c) (cnID c) (gwByUser g),
       gwByConv := fold (\<lambda>k m. setAdd k (cnID c) m) (cnSubscribed c) (gwByConv g)\<rparr>"

definition unregister :: "string \<Rightarrow> Gateway \<Rightarrow> Gateway" where
  "unregister i g =
     (case gwConns g i of
        None \<Rightarrow> g
      | Some c \<Rightarrow>
          if i \<notin> gwRegistered g then g
          else g\<lparr>gwRegistered := gwRegistered g - {i},
                 gwByUser := setDelete (cnUserID c) i (gwByUser g),
                 gwByConv := fold (\<lambda>k m. setDelete k i m) (cnSubscribed c) (gwByConv g)\<rparr>)"

definition ConnCount :: "Gateway \<Rightarrow> nat" where
  "ConnCount g = card (gwRegistered g)"

definition OnlineUsers :: "Gateway \<Rightarrow> go_int set" where
  "OnlineUsers g = dom (gwByUser g)"

definition on_conns :: "string set \<Rightarrow> (Connection \<Rightarrow> Connection) \<Rightarrow> Gateway \<Rightarrow> Gateway" where
  "on_conns ids f g = g\<lparr>gwConns := (\<lambda>i. if i \<in> ids then map_option f (gwConns g i) else gwConns g i)\<rparr>"

definition Subscribe :: "string \<Rightarrow> go_int \<Rightarrow> Gateway \<Rightarrow> Gateway" where
  "Subscribe i convID g =
     (on_conns {i} (\<lambda>c. c\<lparr>cnSubscribed := List.insert convID (cnSubscribed c)\<rparr>) g)
       \<lparr>gwByConv := setAdd convID i (gwByConv g)\<rparr>"

definition Unsubscribe :: "string \<Rightarrow> go_int \<Rightarrow> Gateway \<Rightarrow> Gateway" where
  "Unsubscribe i convID g =
     (on_conns {i} (\<lambda>c. c\<lparr>cnSubscribed := removeAll convID (cnSubscribed c)\<rparr>) g)
       \<lparr>gwByConv := setDelete convID i (gwByConv g)\<rparr>"

definition members_of :: "(go_int \<Rightarrow> string set option) \<Rightarrow> go_int \<Rightarrow> string set" where
  "members_of m k = (case m k of None \<Rightarrow> {} | Some s \<Rightarrow> s)"

definition DeliverToConversation :: "go_int \<Rightarrow> string \<Rightarrow> json \<Rightarrow> go_time \<Rightarrow> Gateway \<Rightarrow> Gateway" where
  "DeliverToConversation convID typ data now g =
     on_conns (members_of (gwByConv g) convID) (\<lambda>c. snd (sendEvent typ data now c)) g"

definition DeliverToUser :: "go_int \<Rightarrow> string \<Rightarrow> json \<Rightarrow> go_time \<Rightarrow> Gateway \<Rightarrow> Gateway" where
  "DeliverToUser userID typ data now g =
     on_conns (members_of (gwByUser g) userID) (\<lambda>c. snd (sendEvent typ data now c)) g"

definition session_conns :: "go_int \<Rightarrow> Gateway \<Rightarrow> string set" where
  "session_conns sessionID g =
     {i \<in> gwRegistered g. case gwConns g i of None \<Rightarrow> False | Some c \<Rightarrow> cnSessionID c = sessionID}"

definition CloseSession :: "go_int \<Rightarrow> Gateway \<Rightarrow> Gateway" where
  "CloseSession sessionID g = on_conns (session_conns sessionID g) (closeWith CloseSessionRevoked) g"

definition CloseUser :: "go_int \<Rightarrow> Gateway \<Rightarrow> Gateway" where
  "CloseUser userID g = on_conns (members_of (gwByUser g) userID) (closeWith CloseSessionRevoked) g"

text \<open>The revocation watcher: one message of the channel.\<close>

definition revoke_message :: "string \<Rightarrow> Gateway \<Rightarrow> Gateway" where
  "revoke_message payload g =
     (case ParseInt payload of
        None \<Rightarrow> g
      | Some sessionID \<Rightarrow> if sessionID \<le> 0 then g else CloseSession sessionID g)"

text \<open>
  \<open>Shutdown\<close> closes every registered socket after a last event; \<open>finished\<close> are the sockets whose
  pumps end within the drain time, so that no close is requested of them.
\<close>

definition shutdown_notice :: json where
  "shutdown_notice = JObj [(''reason'', JStr ''maintenance''), (''retry_after_ms'', JInt 15000)]"

definition Shutdown :: "string set \<Rightarrow> go_time \<Rightarrow> Gateway \<Rightarrow> Gateway" where
  "Shutdown finished now g =
     (if gwClosed g then g
      else
        let conns = gwRegistered g;
            g1 = on_conns conns (\<lambda>c. snd (sendEvent ''server.shutdown'' shutdown_notice now c)) (g\<lparr>gwClosed := True\<rparr>);
            g2 = on_conns (conns - finished) (closeWith CloseServerRestart) g1
        in on_conns conns drop_socket g2)"

section \<open>The invariant of the registry\<close>

text \<open>The indexes list exactly the registered sockets of a user and of a conversation, and no empty set.\<close>

definition index_of :: "(go_int \<Rightarrow> string set option) \<Rightarrow> (go_int \<Rightarrow> string set) \<Rightarrow> bool" where
  "index_of m ids \<longleftrightarrow> (\<forall>k. m k = (if ids k = {} then None else Some (ids k)))"

definition with_conn :: "Gateway \<Rightarrow> (Connection \<Rightarrow> bool) \<Rightarrow> string set" where
  "with_conn g P = {i \<in> gwRegistered g. \<exists>c. gwConns g i = Some c \<and> P c}"

definition store_ok :: "Gateway \<Rightarrow> bool" where
  "store_ok g \<longleftrightarrow> gwRegistered g \<subseteq> dom (gwConns g)
   \<and> (\<forall>i c. gwConns g i = Some c \<longrightarrow> cnID c = i \<and> stream_ok c)
   \<and> 0 \<le> gwConnSeq g \<and> (\<forall>i \<in> dom (gwConns g). \<exists>n. 0 < n \<and> n \<le> gwConnSeq g \<and> i = ''c-'' @ FormatInt n)"

definition registry_ok :: "Gateway \<Rightarrow> bool" where
  "registry_ok g \<longleftrightarrow> store_ok g
   \<and> index_of (gwByUser g) (\<lambda>u. with_conn g (\<lambda>c. cnUserID c = u))
   \<and> index_of (gwByConv g) (\<lambda>k. with_conn g (\<lambda>c. k \<in> set (cnSubscribed c)))"

lemma index_of_cong: "index_of m ids \<Longrightarrow> (\<And>k. ids k = ids' k) \<Longrightarrow> index_of m ids'"
  by (simp add: index_of_def)

lemma index_of_members: "index_of m ids \<Longrightarrow> members_of m k = ids k"
  by (simp add: index_of_def members_of_def)

lemma setAdd_index: "index_of m ids \<Longrightarrow> index_of (setAdd key i m) (\<lambda>k. if k = key then insert i (ids k) else ids k)"
  by (auto simp: index_of_def setAdd_def)

lemma setDelete_index: "index_of m ids \<Longrightarrow> index_of (setDelete key i m) (\<lambda>k. if k = key then ids k - {i} else ids k)"
  by (auto simp: index_of_def setDelete_def Let_def split: option.splits)

lemma setAdd_fold_index:
  "index_of m ids \<Longrightarrow> index_of (fold (\<lambda>k m. setAdd k i m) ks m) (\<lambda>k. if k \<in> set ks then insert i (ids k) else ids k)"
proof (induction ks arbitrary: m ids)
  case (Cons key ks)
  from Cons.IH [OF setAdd_index [OF Cons.prems, of key i]] show ?case
    by (auto simp: index_of_def elim!: allE split: if_splits)
qed simp

lemma setDelete_fold_index:
  "index_of m ids \<Longrightarrow> index_of (fold (\<lambda>k m. setDelete k i m) ks m) (\<lambda>k. if k \<in> set ks then ids k - {i} else ids k)"
proof (induction ks arbitrary: m ids)
  case (Cons key ks)
  have "index_of (fold (\<lambda>k m. setDelete k i m) (key # ks) m)
      (\<lambda>k. if k \<in> set ks then (if k = key then ids k - {i} else ids k) - {i} else if k = key then ids k - {i} else ids k)"
    using Cons.IH [OF setDelete_index [OF Cons.prems, of key i]] by simp
  then show ?case by (rule index_of_cong) auto
qed simp

lemma registry_new: "registry_ok NewHub"
  by (simp add: registry_ok_def store_ok_def NewHub_def index_of_def with_conn_def)

text \<open>An operation on sockets that keeps who they are and what they subscribe to keeps the registry.\<close>

definition conn_keeps :: "(Connection \<Rightarrow> Connection) \<Rightarrow> bool" where
  "conn_keeps f \<longleftrightarrow> (\<forall>c. cnID (f c) = cnID c \<and> cnUserID (f c) = cnUserID c \<and> cnSubscribed (f c) = cnSubscribed c
     \<and> (stream_ok c \<longrightarrow> stream_ok (f c)))"

lemma with_conn_on_conns:
  "conn_keeps f \<Longrightarrow> with_conn (on_conns ids f g) (\<lambda>c. cnUserID c = u) = with_conn g (\<lambda>c. cnUserID c = u)
     \<and> with_conn (on_conns ids f g) (\<lambda>c. k \<in> set (cnSubscribed c)) = with_conn g (\<lambda>c. k \<in> set (cnSubscribed c))"
  by (auto simp: with_conn_def on_conns_def conn_keeps_def)

lemma dom_on_conns: "dom (gwConns (on_conns ids f g)) = dom (gwConns g)"
  by (auto simp: on_conns_def split: if_splits)

lemma on_conns_frame [simp]:
  "gwRegistered (on_conns ids f g) = gwRegistered g" "gwByUser (on_conns ids f g) = gwByUser g"
  "gwByConv (on_conns ids f g) = gwByConv g" "gwConnSeq (on_conns ids f g) = gwConnSeq g"
  by (simp_all add: on_conns_def)

lemma store_on_conns: "store_ok g \<Longrightarrow> conn_keeps f \<Longrightarrow> store_ok (on_conns ids f g)"
  unfolding store_ok_def by (simp add: dom_on_conns) (auto simp: on_conns_def conn_keeps_def)

lemma registry_on_conns: "registry_ok g \<Longrightarrow> conn_keeps f \<Longrightarrow> registry_ok (on_conns ids f g)"
  by (simp add: registry_ok_def with_conn_on_conns store_on_conns)

lemma sendEvent_keeps: "typ \<noteq> ''resume_ack'' \<Longrightarrow> conn_keeps (\<lambda>c. snd (sendEvent typ data now c))"
  using sendEvent_stream by (auto simp: conn_keeps_def sendEvent_def stamp_def enqueue_def closeWith_def drop_socket_def Let_def)

lemma close_keeps: "conn_keeps (closeWith code)" "conn_keeps drop_socket"
  by (auto simp: conn_keeps_def closeWith_def drop_socket_def stream_ok_def isClosing_def)

section \<open>Steps of a gateway\<close>

text \<open>A socket is accepted: the endpoint names it, wires it and registers it.\<close>

definition open_socket :: "go_int \<Rightarrow> go_int \<Rightarrow> string \<Rightarrow> Gateway \<Rightarrow> string \<times> Gateway" where
  "open_socket userID sessionID deviceID g =
     (let (i, g1) = NextConnID g in (i, register (newConnection i userID sessionID deviceID) g1))"

text \<open>
  What a gateway does with its sockets: everything the code calls on the hub, and the steps of the
  single sockets in between.  A socket subscribes only from its own read pump, that is before it is
  unregistered.
\<close>

inductive gw_step :: "Gateway \<Rightarrow> Gateway \<Rightarrow> bool" where
  gw_open: "gw_step g (snd (open_socket userID sessionID deviceID g))"
| gw_subscribe: "i \<in> gwRegistered g \<Longrightarrow> gw_step g (Subscribe i convID g)"
| gw_unsubscribe: "i \<in> gwRegistered g \<Longrightarrow> gw_step g (Unsubscribe i convID g)"
| gw_conversation: "typ \<noteq> ''resume_ack'' \<Longrightarrow> gw_step g (DeliverToConversation convID typ data now g)"
| gw_user: "typ \<noteq> ''resume_ack'' \<Longrightarrow> gw_step g (DeliverToUser userID typ data now g)"
| gw_session: "gw_step g (CloseSession sessionID g)"
| gw_close_user: "gw_step g (CloseUser userID g)"
| gw_socket: "conn_step c c' \<Longrightarrow> cnSubscribed c' = cnSubscribed c \<Longrightarrow> gwConns g i = Some c \<Longrightarrow>
                gw_step g (on_conns {i} (\<lambda>_. c') g)"
| gw_unregister: "gw_step g (unregister i g)"
| gw_shutdown: "gw_step g (Shutdown finished now g)"

definition gw_run :: "Gateway \<Rightarrow> Gateway \<Rightarrow> bool" where
  "gw_run = gw_step\<^sup>*\<^sup>*"

lemma registry_open:
  assumes "registry_ok g"
  shows "registry_ok (snd (open_socket u s d g))"
proof -
  let ?i = "''c-'' @ FormatInt (gwConnSeq g + 1)"
  let ?g = "snd (open_socket u s d g)"
  have ok: "store_ok g" using assms by (simp add: registry_ok_def)
  have nr: "?i \<notin> gwRegistered g" using ok by (auto simp: store_ok_def dest!: bspec dest: FormatInt_inj)
  have g: "?g = register (newConnection ?i u s d) (g\<lparr>gwConnSeq := gwConnSeq g + 1\<rparr>)"
    by (simp add: open_socket_def NextConnID_def Let_def)
  have conns: "gwConns ?g = (gwConns g)(?i := Some (newConnection ?i u s d))" "gwConnSeq ?g = gwConnSeq g + 1"
    "gwRegistered ?g = insert ?i (gwRegistered g)" "gwByUser ?g = setAdd u ?i (gwByUser g)" "gwByConv ?g = gwByConv g"
    by (simp_all add: g register_def newConnection_def)
  have new: "cnUserID (newConnection ?i u s d) = u" "cnID (newConnection ?i u s d) = ?i" "cnSubscribed (newConnection ?i u s d) = []"
    by (simp_all add: newConnection_def)
  have w: "with_conn ?g P = (if P (newConnection ?i u s d) then insert ?i (with_conn g P) else with_conn g P)" for P
    unfolding with_conn_def conns using nr by auto
  have "index_of (gwByUser ?g) (\<lambda>k. with_conn ?g (\<lambda>c. cnUserID c = k))"
    using setAdd_index [of "gwByUser g" "\<lambda>k. with_conn g (\<lambda>c. cnUserID c = k)" u ?i] assms
    unfolding w conns new by (auto simp: registry_ok_def elim!: index_of_cong)
  moreover have "index_of (gwByConv ?g) (\<lambda>k. with_conn ?g (\<lambda>c. k \<in> set (cnSubscribed c)))"
    using assms unfolding w conns new by (simp add: registry_ok_def)
  moreover have "store_ok ?g"
    unfolding store_ok_def conns
  proof (intro conjI allI ballI impI)
    show "insert ?i (gwRegistered g) \<subseteq> dom ((gwConns g)(?i := Some (newConnection ?i u s d)))" "0 \<le> gwConnSeq g + 1"
      using ok by (auto simp: store_ok_def)
    fix i c assume "((gwConns g)(?i := Some (newConnection ?i u s d))) i = Some c"
    then have "i = ?i \<and> c = newConnection ?i u s d \<or> gwConns g i = Some c" by (auto split: if_splits)
    then show "cnID c = i" "stream_ok c" using ok new stream_new [of ?i u s d] by (auto simp: store_ok_def)
  next
    fix i assume "i \<in> dom ((gwConns g)(?i := Some (newConnection ?i u s d)))"
    then consider "i = ?i" | "i \<in> dom (gwConns g)" by (auto split: if_splits)
    then show "\<exists>n. 0 < n \<and> n \<le> gwConnSeq g + 1 \<and> i = ''c-'' @ FormatInt n"
    proof cases
      case 1
      then show ?thesis using ok by (intro exI [of _ "gwConnSeq g + 1"]) (simp add: store_ok_def)
    next
      case 2
      then obtain n where "0 < n" "n \<le> gwConnSeq g" "i = ''c-'' @ FormatInt n" using ok unfolding store_ok_def by blast
      then show ?thesis by (intro exI [of _ n]) simp
    qed
  qed
  ultimately show ?thesis by (simp add: registry_ok_def)
qed

text \<open>Changing what one registered socket subscribes to, with the index following.\<close>

lemma registry_resubscribe:
  assumes "registry_ok g" and "i \<in> gwRegistered g"
    and "\<And>xs. set (h xs) = (if on then insert k (set xs) else set xs - {k})"
  shows "registry_ok ((on_conns {i} (\<lambda>c. c\<lparr>cnSubscribed := h (cnSubscribed c)\<rparr>) g)
           \<lparr>gwByConv := (if on then setAdd k i else setDelete k i) (gwByConv g)\<rparr>)" (is "registry_ok ?g")
proof -
  have ok: "store_ok g" using assms by (simp add: registry_ok_def)
  obtain c where c: "gwConns g i = Some c" using ok assms(2) by (auto simp: store_ok_def)
  have conns: "gwConns ?g = (gwConns g)(i := Some (c\<lparr>cnSubscribed := h (cnSubscribed c)\<rparr>))" "gwRegistered ?g = gwRegistered g"
    "gwConnSeq ?g = gwConnSeq g"
    using c by (auto simp: on_conns_def)
  have u: "with_conn ?g (\<lambda>c. cnUserID c = x) = with_conn g (\<lambda>c. cnUserID c = x)" for x
    unfolding with_conn_def conns using c by auto
  have v: "with_conn ?g (\<lambda>c. x \<in> set (cnSubscribed c)) = (if x = k
      then (if on then insert i (with_conn g (\<lambda>c. x \<in> set (cnSubscribed c))) else with_conn g (\<lambda>c. x \<in> set (cnSubscribed c)) - {i})
      else with_conn g (\<lambda>c. x \<in> set (cnSubscribed c)))" for x
    unfolding with_conn_def conns using c assms(2,3) by auto
  have i: "index_of (gwByConv g) (\<lambda>x. with_conn g (\<lambda>c. x \<in> set (cnSubscribed c)))" using assms(1) by (simp add: registry_ok_def)
  have "index_of (gwByConv ?g) (\<lambda>x. with_conn ?g (\<lambda>c. x \<in> set (cnSubscribed c)))"
    unfolding v using setAdd_index [OF i, of k i] setDelete_index [OF i, of k i] by (cases on) (simp_all cong: if_cong)
  moreover have "index_of (gwByUser ?g) (\<lambda>x. with_conn ?g (\<lambda>c. cnUserID c = x))"
    unfolding u using assms(1) by (simp add: registry_ok_def)
  moreover have "stream_ok (cc\<lparr>cnSubscribed := xs\<rparr>) = stream_ok cc" for cc xs by (simp add: stream_ok_def)
  then have "store_ok ?g" using ok c unfolding store_ok_def conns by (auto split: if_splits)
  ultimately show ?thesis by (simp add: registry_ok_def)
qed

lemma registry_Subscribe: "registry_ok g \<Longrightarrow> i \<in> gwRegistered g \<Longrightarrow> registry_ok (Subscribe i k g)"
  using registry_resubscribe [of g i "List.insert k" True k] by (simp add: Subscribe_def)

lemma registry_Unsubscribe: "registry_ok g \<Longrightarrow> i \<in> gwRegistered g \<Longrightarrow> registry_ok (Unsubscribe i k g)"
  using registry_resubscribe [of g i "removeAll k" False k] by (simp add: Unsubscribe_def)

lemma registry_unregister:
  assumes "registry_ok g"
  shows "registry_ok (unregister i g)"
proof (cases "i \<in> gwRegistered g")
  case True
  then obtain c where c: "gwConns g i = Some c" using assms by (auto simp: registry_ok_def store_ok_def)
  let ?g = "unregister i g"
  have w: "with_conn ?g P = with_conn g P - {i}" for P
    using True c by (auto simp: with_conn_def unregister_def)
  have u: "with_conn g (\<lambda>c. cnUserID c = k) - {i}
      = (if k = cnUserID c then with_conn g (\<lambda>c. cnUserID c = k) - {i} else with_conn g (\<lambda>c. cnUserID c = k))"
    and v: "with_conn g (\<lambda>c. k \<in> set (cnSubscribed c)) - {i}
      = (if k \<in> set (cnSubscribed c) then with_conn g (\<lambda>c. k \<in> set (cnSubscribed c)) - {i}
         else with_conn g (\<lambda>c. k \<in> set (cnSubscribed c)))" for k
    using c by (auto simp: with_conn_def)
  have "index_of (gwByUser ?g) (\<lambda>k. with_conn ?g (\<lambda>c. cnUserID c = k))"
    unfolding w
  proof (rule index_of_cong)
    show "index_of (gwByUser ?g) (\<lambda>k. if k = cnUserID c then with_conn g (\<lambda>c. cnUserID c = k) - {i} else with_conn g (\<lambda>c. cnUserID c = k))"
      using setDelete_index [of "gwByUser g" "\<lambda>k. with_conn g (\<lambda>c. cnUserID c = k)" "cnUserID c" i] assms True c
      by (simp add: unregister_def registry_ok_def)
  qed (rule u [symmetric])
  moreover have "index_of (gwByConv ?g) (\<lambda>k. with_conn ?g (\<lambda>c. k \<in> set (cnSubscribed c)))"
    unfolding w
  proof (rule index_of_cong)
    show "index_of (gwByConv ?g) (\<lambda>k. if k \<in> set (cnSubscribed c) then with_conn g (\<lambda>c. k \<in> set (cnSubscribed c)) - {i}
        else with_conn g (\<lambda>c. k \<in> set (cnSubscribed c)))"
      using setDelete_fold_index [of "gwByConv g" "\<lambda>k. with_conn g (\<lambda>c. k \<in> set (cnSubscribed c))" i "cnSubscribed c"] assms True c
      by (simp add: unregister_def registry_ok_def)
  qed (rule v [symmetric])
  moreover have "store_ok ?g" using assms True c by (auto simp: registry_ok_def store_ok_def unregister_def)
  ultimately show ?thesis by (simp add: registry_ok_def)
next
  case False
  then show ?thesis using assms by (auto simp: unregister_def split: option.splits)
qed

lemma registry_step: "gw_step g g' \<Longrightarrow> registry_ok g \<Longrightarrow> registry_ok g'"
proof (induction rule: gw_step.induct)
  case (gw_socket c c' g i)
  have e: "on_conns {i} (\<lambda>_. c') g = on_conns {i} (\<lambda>d. if d = c then c' else d) g"
    using gw_socket by (simp add: on_conns_def fun_eq_iff)
  show ?case unfolding e
  proof (rule registry_on_conns [OF gw_socket.prems])
    show "conn_keeps (\<lambda>d. if d = c then c' else d)"
      using gw_socket conn_step_keeps stream_step by (auto simp: conn_keeps_def)
  qed
next
  case (gw_shutdown g finished now)
  have "registry_ok (g\<lparr>gwClosed := True\<rparr>)" using gw_shutdown by (simp add: registry_ok_def store_ok_def with_conn_def)
  then show ?case using gw_shutdown unfolding Shutdown_def Let_def
    by (auto intro!: registry_on_conns sendEvent_keeps close_keeps)
qed (auto simp: DeliverToConversation_def DeliverToUser_def CloseSession_def CloseUser_def
      intro!: registry_open registry_Subscribe registry_Unsubscribe registry_unregister registry_on_conns sendEvent_keeps close_keeps)

lemma registry_run: "gw_run g g' \<Longrightarrow> registry_ok g \<Longrightarrow> registry_ok g'"
  unfolding gw_run_def by (induction rule: rtranclp_induct) (auto intro: registry_step)

section \<open>Routing\<close>

text \<open>
  C23. However sockets come, subscribe, unsubscribe and go, the hub routes exactly: the fan-out of a
  conversation is the registered sockets that subscribe to it, the fan-out of a user the registered
  sockets of that user, and a user is online exactly with a registered socket.
\<close>

theorem routing_is_exact:
  assumes "gw_run NewHub g"
  shows "members_of (gwByConv g) k = {i \<in> gwRegistered g. \<exists>c. gwConns g i = Some c \<and> k \<in> set (cnSubscribed c)}
       \<and> members_of (gwByUser g) u = {i \<in> gwRegistered g. \<exists>c. gwConns g i = Some c \<and> cnUserID c = u}
       \<and> OnlineUsers g = {u. \<exists>i \<in> gwRegistered g. \<exists>c. gwConns g i = Some c \<and> cnUserID c = u}"
proof -
  have ok: "registry_ok g" using registry_run [OF assms registry_new] .
  then have u: "index_of (gwByUser g) (\<lambda>u. with_conn g (\<lambda>c. cnUserID c = u))" by (simp add: registry_ok_def)
  then have "OnlineUsers g = {u. with_conn g (\<lambda>c. cnUserID c = u) \<noteq> {}}"
    by (auto simp: OnlineUsers_def index_of_def dom_def)
  then have "OnlineUsers g = {u. \<exists>i \<in> gwRegistered g. \<exists>c. gwConns g i = Some c \<and> cnUserID c = u}"
    by (auto simp: with_conn_def)
  with index_of_members [OF u, of u] ok show ?thesis
    using index_of_members [of "gwByConv g" "\<lambda>k. with_conn g (\<lambda>c. k \<in> set (cnSubscribed c))" k]
    by (simp add: registry_ok_def with_conn_def)
qed

definition demo_hub :: Gateway where
  "demo_hub = snd (open_socket 11 7002 ''laptop'' (Subscribe ''c-1'' 1 (snd (open_socket 10 7001 ''phone'' NewHub))))"

lemma c1: "''c-'' @ FormatInt 1 = ''c-1''" "''c-'' @ FormatInt 2 = ''c-2''"
  by code_simp+

lemma demo_hub_eval:
  "gwConns demo_hub ''c-1'' = Some ((newConnection ''c-1'' 10 7001 ''phone'')\<lparr>cnSubscribed := [1]\<rparr>)"
  "gwConns demo_hub ''c-2'' = Some (newConnection ''c-2'' 11 7002 ''laptop'')"
  "gwRegistered demo_hub = {''c-1'', ''c-2''}" "members_of (gwByConv demo_hub) 1 = {''c-1''}"
  using c1 by (auto simp: demo_hub_def open_socket_def NextConnID_def Let_def NewHub_def register_def Subscribe_def
      on_conns_def newConnection_def setAdd_def members_of_def)

lemma demo_hub_run: "gw_run NewHub demo_hub"
proof -
  let ?g1 = "snd (open_socket 10 7001 ''phone'' NewHub)"
  have "''c-1'' \<in> gwRegistered ?g1"
    using c1 by (simp add: open_socket_def NextConnID_def Let_def NewHub_def register_def newConnection_def)
  then have "gw_step NewHub ?g1" "gw_step ?g1 (Subscribe ''c-1'' 1 ?g1)" "gw_step (Subscribe ''c-1'' 1 ?g1) demo_hub"
    by (auto simp: demo_hub_def intro: gw_step.intros)
  then show ?thesis unfolding gw_run_def by (meson r_into_rtranclp rtranclp.rtrancl_into_rtrancl)
qed

theorem routing_is_exact_witness:
  "members_of (gwByConv demo_hub) 1 = {''c-1''} \<and> OnlineUsers demo_hub = {10, 11}"
proof -
  have "{u. \<exists>i \<in> gwRegistered demo_hub. \<exists>c. gwConns demo_hub i = Some c \<and> cnUserID c = u} = {10, 11}"
    by (auto simp: demo_hub_eval newConnection_def)
  with routing_is_exact [OF demo_hub_run] demo_hub_eval(4) show ?thesis by auto
qed

section \<open>Revocation\<close>

text \<open>A socket goes through every step of the gateway as a run of its own steps.\<close>

lemma conn_run_refl [simp]: "conn_run c c"
  by (simp add: conn_run_def)

lemma conn_run_trans: "conn_run a b \<Longrightarrow> conn_run b c \<Longrightarrow> conn_run a c"
  unfolding conn_run_def by (rule rtranclp_trans)

lemma conn_run_step: "conn_step a b \<Longrightarrow> conn_run a b"
  unfolding conn_run_def by (rule r_into_rtranclp)

definition reaches :: "Gateway \<Rightarrow> string \<Rightarrow> Connection \<Rightarrow> bool" where
  "reaches g i c \<longleftrightarrow> (\<exists>c'. gwConns g i = Some c' \<and> conn_run c c')"

lemma reaches_on_conns: "reaches g i c \<Longrightarrow> (\<And>c. conn_run c (f c)) \<Longrightarrow> reaches (on_conns ids f g) i c"
  by (auto simp: reaches_def on_conns_def intro: conn_run_trans)

lemma reaches_self: "gwConns g i = Some c \<Longrightarrow> reaches g i c"
  by (simp add: reaches_def)

lemma send_run: "typ \<noteq> ''resume_ack'' \<Longrightarrow> conn_run c (snd (sendEvent typ data now c))"
  "conn_run c (closeWith code c)" "conn_run c (drop_socket c)" "conn_run c (c\<lparr>cnSubscribed := cs\<rparr>)"
  by (auto intro!: conn_run_step intro: conn_step.intros)

lemma gw_step_conn: "gw_step g g' \<Longrightarrow> registry_ok g \<Longrightarrow> gwConns g i = Some c \<Longrightarrow> reaches g' i c"
proof (induction rule: gw_step.induct)
  case (gw_open g u s d)
  have "i \<noteq> ''c-'' @ FormatInt (gwConnSeq g + 1)"
  proof
    assume "i = ''c-'' @ FormatInt (gwConnSeq g + 1)"
    moreover obtain n where "n \<le> gwConnSeq g" "i = ''c-'' @ FormatInt n"
      using gw_open unfolding registry_ok_def store_ok_def by blast
    ultimately show False using FormatInt_inj [of "gwConnSeq g + 1" n] by simp
  qed
  with gw_open show ?case by (simp add: reaches_def open_socket_def NextConnID_def Let_def register_def newConnection_def)
next
  case (gw_shutdown g finished now)
  then have "reaches g i c" "reaches (g\<lparr>gwClosed := True\<rparr>) i c" by (simp_all add: reaches_def)
  then show ?case unfolding Shutdown_def Let_def by (simp add: reaches_on_conns send_run)
next
  case (gw_socket c0 c' g j)
  then show ?case by (cases "i = j") (auto simp: reaches_def on_conns_def intro: conn_run_step)
next
  case (gw_unregister g j)
  then show ?case by (auto simp: reaches_def unregister_def split: option.splits)
next
  case (gw_subscribe j g k)
  then have "reaches (on_conns {j} (\<lambda>c. c\<lparr>cnSubscribed := List.insert k (cnSubscribed c)\<rparr>) g) i c"
    by (intro reaches_on_conns reaches_self send_run)
  then show ?case by (simp add: Subscribe_def reaches_def)
next
  case (gw_unsubscribe j g k)
  then have "reaches (on_conns {j} (\<lambda>c. c\<lparr>cnSubscribed := removeAll k (cnSubscribed c)\<rparr>) g) i c"
    by (intro reaches_on_conns reaches_self send_run)
  then show ?case by (simp add: Unsubscribe_def reaches_def)
qed (simp_all add: DeliverToConversation_def DeliverToUser_def CloseSession_def CloseUser_def
      reaches_on_conns [OF reaches_self] send_run)

lemma gw_run_conn:
  "gw_run g g' \<Longrightarrow> registry_ok g \<Longrightarrow> gwConns g i = Some c \<Longrightarrow> reaches g' i c"
  unfolding gw_run_def
proof (induction rule: rtranclp_induct)
  case (step a b)
  then obtain c1 where c1: "gwConns a i = Some c1" "conn_run c c1" by (auto simp: reaches_def)
  have "registry_ok a" using registry_run [of g a] step(1,4) by (simp add: gw_run_def)
  from gw_step_conn [OF step(2) this c1(1)] c1(2) show ?case by (auto simp: reaches_def intro: conn_run_trans)
qed (rule reaches_self)

text \<open>Once a close is requested nothing new gets to the client.\<close>

lemma closing_step:
  "conn_step c c' \<Longrightarrow> isClosing c \<Longrightarrow> isClosing c' \<and> set (cnWire c' @ cnQueue c') \<subseteq> set (cnWire c @ cnQueue c)"
proof (induction rule: conn_step.induct)
  case (step_closed c n ok)
  then show ?case
    by (auto simp: close_writer_def gracefulClose_def drain_queue_def isClosing_def drop_socket_def
        dest: in_set_takeD in_set_dropD split: if_splits)
qed (auto simp: sendEvent_def stamp_def enqueue_def closeWith_def drop_socket_def sendResumeAck_def Let_def isClosing_def
      heartbeat_lost_def split: prod.splits)

lemma closing_run:
  "conn_run c c' \<Longrightarrow> isClosing c \<Longrightarrow> isClosing c' \<and> set (cnWire c' @ cnQueue c') \<subseteq> set (cnWire c @ cnQueue c)"
  unfolding conn_run_def
proof (induction rule: rtranclp_induct)
  case (step b d)
  then show ?case using closing_step [of b d] by blast
qed auto



end
