(* ===== verification/RedisKeys.thy ===== *)
theory RedisKeys
  imports Prelude
begin

text \<open>
  Redis keys as the code uses them: a key is a value with the time it expires at, \<open>None\<close> when it
  does not exist.  Presence, typing, the login throttle and the one-time codes are kept in such keys.
\<close>

type_synonym 'a key = "('a \<times> go_time) option"

definition live :: "go_time \<Rightarrow> 'a key \<Rightarrow> 'a option" where
  "live now k = (case k of None \<Rightarrow> None | Some (v, expires) \<Rightarrow> if now < expires then Some v else None)"

definition live_set :: "go_time \<Rightarrow> 'a set key \<Rightarrow> 'a set" where
  "live_set now k = (case live now k of None \<Rightarrow> {} | Some s \<Rightarrow> s)"

definition expire :: "go_time \<Rightarrow> go_time \<Rightarrow> 'a key \<Rightarrow> 'a key" where
  "expire now ttl k = (case live now k of None \<Rightarrow> None | Some v \<Rightarrow> Some (v, now + ttl))"

lemma live_simps [simp]:
  "live now None = None" "live now (Some (v, e)) = (if now < e then Some v else None)"
  by (simp_all add: live_def)

lemma live_set_simps [simp]:
  "live_set now None = {}" "live_set now (Some (v, e)) = (if now < e then v else {})"
  by (simp_all add: live_set_def)

lemma live_set_map: "live_set now k \<noteq> {} \<Longrightarrow> live now (map_option (\<lambda>(_, e). (s, e)) k) = Some s \<and> live_set now (map_option (\<lambda>(_, e). (s, e)) k) = s"
  by (cases k) (auto simp: live_set_def split: if_splits)

lemma live_expire: "0 < ttl \<Longrightarrow> live now (expire now ttl k) = live now k"
  by (auto simp: expire_def split: option.splits)

end
