(* ===== verification/RtPresence.thy ===== *)
theory RtPresence
  imports RtDomain RedisKeys
begin

text \<open>
  Presence (\<open>realtime/presence\<close>, and the notifier of \<open>delivery/ws/ephemeral.go\<close>): who is online, kept
  in Redis by every gateway instance under keys with a time to live.  A key is a value with the
  time it expires at; the scripts run atomically on the server.  The last part refines the store to
  the set of live connections it stands for.
\<close>

record PresenceConfig =
  pcTTL :: go_time
  pcLastSeenTTL :: go_time
  pcConvsTTL :: go_time

definition presence_defaults :: PresenceConfig where
  "presence_defaults = \<lparr>pcTTL = 60 * 1000000, pcLastSeenTTL = 30 * 24 * 3600 * 1000000, pcConvsTTL = 24 * 3600 * 1000000\<rparr>"

text \<open>The hash of instances keeps its field names; every value of it is "1".\<close>

record PresenceStore =
  psOnline :: "go_int \<Rightarrow> string set key"
  psConns :: "go_int \<Rightarrow> string \<Rightarrow> string set key"
  psConvs :: "go_int \<Rightarrow> go_int set key"
  psMeta :: "go_int \<Rightarrow> (string \<times> string) key"
  psLastSeen :: "go_int \<Rightarrow> go_time key"

definition empty_presence :: PresenceStore where
  "empty_presence = \<lparr>psOnline = (\<lambda>_. None), psConns = (\<lambda>_ _. None), psConvs = (\<lambda>_. None), psMeta = (\<lambda>_. None),
     psLastSeen = (\<lambda>_. None)\<rparr>"

datatype Change = ChangeNone | ChangeOnline | ChangeOffline

text \<open>The last-seen instant is written in RFC 3339, to the second.\<close>

definition rfc3339 :: "go_time \<Rightarrow> go_time" where
  "rfc3339 t = t - t mod 1000000"

definition set_conns :: "go_int \<Rightarrow> string \<Rightarrow> string set key \<Rightarrow> PresenceStore \<Rightarrow> PresenceStore" where
  "set_conns u inst k st = st\<lparr>psConns := (\<lambda>v i. if v = u \<and> i = inst then k else psConns st v i)\<rparr>"

definition set_online :: "go_int \<Rightarrow> string set key \<Rightarrow> PresenceStore \<Rightarrow> PresenceStore" where
  "set_online u k st = st\<lparr>psOnline := (psOnline st)(u := k)\<rparr>"

text \<open>\<open>connectScript\<close>\<close>

definition Store_Connect ::
  "PresenceConfig \<Rightarrow> go_time \<Rightarrow> go_int \<Rightarrow> string \<Rightarrow> string \<Rightarrow> PresenceStore \<Rightarrow> Change \<times> PresenceStore" where
  "Store_Connect cfg now u connID inst st =
     (let was = live now (psOnline st u);
          conns = Some (insert connID (live_set now (psConns st u inst)), now + pcTTL cfg);
          online = Some (insert inst (live_set now (psOnline st u)), now + pcTTL cfg)
      in (if was = None then ChangeOnline else ChangeNone, set_online u online (set_conns u inst conns st)))"

text \<open>\<open>disconnectScript\<close>; an emptied set or hash is no key any more.\<close>

definition Store_Disconnect ::
  "PresenceConfig \<Rightarrow> go_time \<Rightarrow> go_int \<Rightarrow> string \<Rightarrow> string \<Rightarrow> PresenceStore \<Rightarrow> Change \<times> PresenceStore" where
  "Store_Disconnect cfg now u connID inst st =
     (let conns = live_set now (psConns st u inst) in
      if connID \<notin> conns then (ChangeNone, st)
      else if conns - {connID} \<noteq> {}
      then (ChangeNone, set_conns u inst (map_option (\<lambda>(_, e). (conns - {connID}, e)) (psConns st u inst)) st)
      else
        let st1 = set_conns u inst None st;
            left = live_set now (psOnline st1 u) - {inst} in
        if left = {}
        then (ChangeOffline, (set_online u None st1)
                \<lparr>psLastSeen := (psLastSeen st1)(u := Some (rfc3339 now, now + pcLastSeenTTL cfg))\<rparr>)
        else (ChangeNone, set_online u (map_option (\<lambda>(_, e). (left, e)) (psOnline st1 u)) st1))"

definition Store_Touch :: "PresenceConfig \<Rightarrow> go_time \<Rightarrow> go_int \<Rightarrow> string \<Rightarrow> PresenceStore \<Rightarrow> PresenceStore" where
  "Store_Touch cfg now u inst st =
     set_conns u inst (expire now (pcTTL cfg) (psConns st u inst))
       (set_online u (expire now (pcTTL cfg) (psOnline st u)) st)"

definition Store_IsOnline :: "go_time \<Rightarrow> go_int \<Rightarrow> PresenceStore \<Rightarrow> bool" where
  "Store_IsOnline now u st \<longleftrightarrow> live now (psOnline st u) \<noteq> None"

definition SetMeta :: "PresenceConfig \<Rightarrow> go_time \<Rightarrow> go_int \<Rightarrow> string \<Rightarrow> string \<Rightarrow> PresenceStore \<Rightarrow> PresenceStore" where
  "SetMeta cfg now u status custom st = st\<lparr>psMeta := (psMeta st)(u := Some ((status, custom), now + pcTTL cfg))\<rparr>"

definition GetMeta :: "go_time \<Rightarrow> go_int \<Rightarrow> PresenceStore \<Rightarrow> string \<times> string" where
  "GetMeta now u st = (case live now (psMeta st u) of None \<Rightarrow> ([], []) | Some m \<Rightarrow> m)"

definition SetLastSeen :: "PresenceConfig \<Rightarrow> go_time \<Rightarrow> go_int \<Rightarrow> go_time \<Rightarrow> PresenceStore \<Rightarrow> PresenceStore" where
  "SetLastSeen cfg now u t st = st\<lparr>psLastSeen := (psLastSeen st)(u := Some (rfc3339 t, now + pcLastSeenTTL cfg))\<rparr>"

definition GetLastSeen :: "go_time \<Rightarrow> go_int \<Rightarrow> PresenceStore \<Rightarrow> go_time option" where
  "GetLastSeen now u st = live now (psLastSeen st u)"

definition ConvsAdd :: "PresenceConfig \<Rightarrow> go_time \<Rightarrow> go_int \<Rightarrow> go_int \<Rightarrow> PresenceStore \<Rightarrow> PresenceStore" where
  "ConvsAdd cfg now u c st =
     st\<lparr>psConvs := (psConvs st)(u := Some (insert c (live_set now (psConvs st u)), now + pcConvsTTL cfg))\<rparr>"

definition ConvsRemove :: "go_time \<Rightarrow> go_int \<Rightarrow> go_int \<Rightarrow> PresenceStore \<Rightarrow> PresenceStore" where
  "ConvsRemove now u c st =
     (let s = live_set now (psConvs st u) - {c} in
      st\<lparr>psConvs := (psConvs st)(u := (if s = {} then None else map_option (\<lambda>(_, e). (s, e)) (psConvs st u)))\<rparr>)"

definition Convs :: "go_time \<Rightarrow> go_int \<Rightarrow> PresenceStore \<Rightarrow> go_int set" where
  "Convs now u st = live_set now (psConvs st u)"

section \<open>The service\<close>

text \<open>
  A call meets the clock, the instance's name and, when Redis is down, nothing but an error: the
  store is then unchanged and the operation gives up.  What it publishes is the list of events;
  \<open>SMEMBERS\<close> gives the conversations in an order of its own, here ascending.
\<close>

record PresenceEnv =
  peNow :: go_time
  peInstance :: string
  peDown :: bool

definition presence_payload :: "go_int \<Rightarrow> string \<Rightarrow> string \<Rightarrow> go_time option \<Rightarrow> json" where
  "presence_payload u status custom lastSeen = JObj
     [(''last_seen_at'', jopt (\<lambda>t. JTime (rfc3339 t)) lastSeen),
      (''presence'', JObj [(''custom_status'', JStr custom), (''status'', JStr status)]),
      (''user_id'', JStr (FormatInt u))]"

definition NotifyPresence :: "go_int \<Rightarrow> string \<Rightarrow> string \<Rightarrow> go_time option \<Rightarrow> go_int list \<Rightarrow> Event list" where
  "NotifyPresence u status custom lastSeen convs =
     map (\<lambda>c. \<lparr>evGlobalSeq = 0, evEventType = ''presence.changed'', evConversationID = Some c, evEntityID = None,
               evActorUserID = Some u, evAffectedUserIDs = [], evPayload = presence_payload u status custom lastSeen\<rparr>) convs"

definition resolveStatus :: "PresenceEnv \<Rightarrow> go_int \<Rightarrow> string \<Rightarrow> PresenceStore \<Rightarrow> string \<times> string" where
  "resolveStatus env u status st = (if peDown env then (status, []) else (status, snd (GetMeta (peNow env) u st)))"

definition presence_broadcast :: "PresenceConfig \<Rightarrow> PresenceEnv \<Rightarrow> go_int \<Rightarrow> string \<Rightarrow> go_time option \<Rightarrow> PresenceStore \<Rightarrow> Event list" where
  "presence_broadcast cfg env u status lastSeen st =
     (let (shown, custom) = resolveStatus env u status st in
      NotifyPresence u shown custom lastSeen (sorted_list_of_set (Convs (peNow env) u st)))"

definition presence_Connect :: "PresenceConfig \<Rightarrow> PresenceEnv \<Rightarrow> go_int \<Rightarrow> string \<Rightarrow> PresenceStore \<Rightarrow> bool \<times> Event list \<times> PresenceStore" where
  "presence_Connect cfg env u connID st =
     (if peDown env then (False, [], st)
      else let (ch, st1) = Store_Connect cfg (peNow env) u connID (peInstance env) st in
           (True, if ch = ChangeOnline then presence_broadcast cfg env u ''online'' None st1 else [], st1))"

definition presence_Disconnect :: "PresenceConfig \<Rightarrow> PresenceEnv \<Rightarrow> go_int \<Rightarrow> string \<Rightarrow> PresenceStore \<Rightarrow> bool \<times> Event list \<times> PresenceStore" where
  "presence_Disconnect cfg env u connID st =
     (if peDown env then (False, [], st)
      else let (ch, st1) = Store_Disconnect cfg (peNow env) u connID (peInstance env) st in
           if ch = ChangeOffline then
             let st2 = SetLastSeen cfg (peNow env) u (peNow env) st1 in
             (True, presence_broadcast cfg env u ''offline'' (Some (peNow env)) st2, st2)
           else (False, [], st1))"

definition presence_Touch :: "PresenceConfig \<Rightarrow> PresenceEnv \<Rightarrow> go_int \<Rightarrow> PresenceStore \<Rightarrow> PresenceStore" where
  "presence_Touch cfg env u st = (if peDown env then st else Store_Touch cfg (peNow env) u (peInstance env) st)"

definition presence_Update :: "PresenceConfig \<Rightarrow> PresenceEnv \<Rightarrow> go_int \<Rightarrow> string \<Rightarrow> string \<Rightarrow> PresenceStore \<Rightarrow> Event list \<times> PresenceStore" where
  "presence_Update cfg env u status custom st =
     (let status = (if status = [] then ''online'' else status) in
      if peDown env then ([], st)
      else let st1 = SetMeta cfg (peNow env) u status custom st in (presence_broadcast cfg env u status None st1, st1))"

definition SetConversation :: "PresenceConfig \<Rightarrow> PresenceEnv \<Rightarrow> go_int \<Rightarrow> go_int \<Rightarrow> PresenceStore \<Rightarrow> PresenceStore" where
  "SetConversation cfg env u c st = (if peDown env then st else ConvsAdd cfg (peNow env) u c st)"

definition DropConversation :: "PresenceEnv \<Rightarrow> go_int \<Rightarrow> go_int \<Rightarrow> PresenceStore \<Rightarrow> PresenceStore" where
  "DropConversation env u c st = (if peDown env then st else ConvsRemove (peNow env) u c st)"

definition presence_IsOnline :: "PresenceEnv \<Rightarrow> go_int \<Rightarrow> PresenceStore \<Rightarrow> bool" where
  "presence_IsOnline env u st \<longleftrightarrow> \<not> peDown env \<and> Store_IsOnline (peNow env) u st"

text \<open>\<open>None\<close>: the zero time.\<close>

definition presence_LastSeen :: "PresenceEnv \<Rightarrow> go_int \<Rightarrow> PresenceStore \<Rightarrow> unit + go_time option" where
  "presence_LastSeen env u st = (if peDown env then Inl () else Inr (GetLastSeen (peNow env) u st))"

text \<open>One tick of the sweeper: the users with a local socket are touched.\<close>

definition sweep :: "PresenceConfig \<Rightarrow> PresenceEnv \<Rightarrow> go_int list \<Rightarrow> PresenceStore \<Rightarrow> PresenceStore" where
  "sweep cfg env users st = fold (presence_Touch cfg env) users st"

section \<open>Refinement to the set of live connections\<close>

text \<open>
  The abstract state is the set of (user, instance, connection) that are connected.  The store
  stands for it as long as no key it needs lapses, which is the sweepers' job.
\<close>

type_synonym sockets = "(go_int \<times> string \<times> string) set"

definition conns_at :: "sockets \<Rightarrow> go_int \<Rightarrow> string \<Rightarrow> string set" where
  "conns_at A u inst = {c. (u, inst, c) \<in> A}"

definition insts_of :: "sockets \<Rightarrow> go_int \<Rightarrow> string set" where
  "insts_of A u = {inst. conns_at A u inst \<noteq> {}}"

definition stands_for :: "go_time \<Rightarrow> PresenceStore \<Rightarrow> sockets \<Rightarrow> bool" where
  "stands_for now st A \<longleftrightarrow>
     (\<forall>u. live now (psOnline st u) = (if insts_of A u = {} then None else Some (insts_of A u)))
   \<and> (\<forall>u inst. live_set now (psConns st u inst) = conns_at A u inst)"

lemma conns_at_simps:
  "conns_at (insert (u, inst, c) A) v i = (if v = u \<and> i = inst then insert c (conns_at A v i) else conns_at A v i)"
  "conns_at (A - {(u, inst, c)}) v i = (if v = u \<and> i = inst then conns_at A v i - {c} else conns_at A v i)"
  by (auto simp: conns_at_def)

lemma insts_insert: "insts_of (insert (u, inst, c) A) v = (if v = u then insert inst (insts_of A v) else insts_of A v)"
  by (auto simp: insts_of_def conns_at_simps split: if_splits)

lemma insts_remove:
  "insts_of (A - {(u, inst, c)}) v = (if v = u \<and> conns_at A u inst \<subseteq> {c} then insts_of A v - {inst} else insts_of A v)"
  by (auto simp: insts_of_def conns_at_simps split: if_splits)

lemma connect_refines:
  assumes "stands_for now st A" and "0 < pcTTL cfg" and "Store_Connect cfg now u c inst st = (ch, st')"
  shows "stands_for now st' (insert (u, inst, c) A) \<and> (ch = ChangeOnline \<longleftrightarrow> insts_of A u = {})"
  using assms
  by (auto simp: stands_for_def Store_Connect_def Let_def set_online_def set_conns_def conns_at_simps insts_insert live_set_def
      split: if_splits)

lemma disconnect_refines:
  assumes "stands_for now st A" and "Store_Disconnect cfg now u c inst st = (ch, st')"
  shows "stands_for now st' (A - {(u, inst, c)})
       \<and> (ch = ChangeOffline \<longleftrightarrow> (u, inst, c) \<in> A \<and> insts_of (A - {(u, inst, c)}) u = {})"
proof -
  have on: "live now (psOnline st v) = (if insts_of A v = {} then None else Some (insts_of A v))"
    and conns: "live_set now (psConns st v i) = conns_at A v i" for v i
    using assms(1) by (simp_all add: stands_for_def)
  have onset: "live_set now (psOnline st u) = insts_of A u" by (simp add: live_set_def on)
  show ?thesis
  proof (cases "(u, inst, c) \<in> A")
    case False
    then have "c \<notin> conns_at A u inst" "A - {(u, inst, c)} = A" by (auto simp: conns_at_def)
    with False assms show ?thesis by (auto simp: Store_Disconnect_def Let_def conns)
  next
    case True
    then have c: "c \<in> conns_at A u inst" by (simp add: conns_at_def)
    then have i: "inst \<in> insts_of A u" by (auto simp: insts_of_def)
    show ?thesis
    proof (cases "conns_at A u inst - {c} = {}")
      case False
      then have st': "ch = ChangeNone" "st' = set_conns u inst (map_option (\<lambda>(_, e). (conns_at A u inst - {c}, e)) (psConns st u inst)) st"
        using assms(2) c by (auto simp: Store_Disconnect_def Let_def conns)
      have ne: "\<not> conns_at A u inst \<subseteq> {c}" using False by auto
      have "live_set now (psConns st u inst) \<noteq> {}" using c by (auto simp: conns)
      note m = live_set_map [OF this, of "conns_at A u inst - {c}"]
      show ?thesis
        using i ne m on conns by (auto simp: st' stands_for_def set_conns_def conns_at_simps insts_remove)
    next
      case e: True
      let ?left = "insts_of A u - {inst}"
      have sub: "conns_at A u inst \<subseteq> {c}" using e by auto
      have rest: "insts_of (A - {(u, inst, c)}) v = (if v = u then ?left else insts_of A v)" for v
        using sub by (simp add: insts_remove)
      show ?thesis
      proof (cases "?left = {}")
        case True
        then have st': "ch = ChangeOffline" "st' = (set_online u None (set_conns u inst None st))
            \<lparr>psLastSeen := (psLastSeen st)(u := Some (rfc3339 now, now + pcLastSeenTTL cfg))\<rparr>"
          using assms(2) c e by (auto simp: Store_Disconnect_def Let_def conns onset set_conns_def set_online_def)
        show ?thesis
          using True on conns \<open>(u, inst, c) \<in> A\<close> e
          by (auto simp: st' stands_for_def set_conns_def set_online_def rest conns_at_simps)
      next
        case False
        then have st': "ch = ChangeNone" "st' = set_online u (map_option (\<lambda>(_, e). (?left, e)) (psOnline st u)) (set_conns u inst None st)"
          using assms(2) c e by (auto simp: Store_Disconnect_def Let_def conns onset set_conns_def)
        have "live_set now (psOnline st u) \<noteq> {}" using i by (auto simp: onset)
        note m = live_set_map [OF this, of ?left]
        show ?thesis
          using False on conns m e by (auto simp: st' stands_for_def set_conns_def set_online_def rest conns_at_simps)
      qed
    qed
  qed
qed

lemma touch_refines: "stands_for now st A \<Longrightarrow> 0 < pcTTL cfg \<Longrightarrow> stands_for now (Store_Touch cfg now u inst st) A"
  by (auto simp: stands_for_def Store_Touch_def set_conns_def set_online_def live_expire live_set_def)

text \<open>What the gateways do to the store, and time passing.\<close>

datatype presence_op =
    PConnect string go_int string | PDisconnect string go_int string | PTouch string go_int | PTick go_time

fun presence_exec :: "PresenceConfig \<Rightarrow> presence_op list \<Rightarrow> go_time \<times> PresenceStore \<Rightarrow> Change list \<times> go_time \<times> PresenceStore" where
  "presence_exec cfg [] s = ([], s)"
| "presence_exec cfg (PConnect inst u c # ops) (now, st) =
     (let (ch, st1) = Store_Connect cfg now u c inst st; (chs, s) = presence_exec cfg ops (now, st1) in (ch # chs, s))"
| "presence_exec cfg (PDisconnect inst u c # ops) (now, st) =
     (let (ch, st1) = Store_Disconnect cfg now u c inst st; (chs, s) = presence_exec cfg ops (now, st1) in (ch # chs, s))"
| "presence_exec cfg (PTouch inst u # ops) (now, st) = presence_exec cfg ops (now, Store_Touch cfg now u inst st)"
| "presence_exec cfg (PTick dt # ops) (now, st) = presence_exec cfg ops (now + dt, st)"

text \<open>The specification: a set of connections, and the changes of "some connection at all".\<close>

definition has_socket :: "sockets \<Rightarrow> go_int \<Rightarrow> bool" where
  "has_socket A u \<longleftrightarrow> (\<exists>inst c. (u, inst, c) \<in> A)"

fun sockets_exec :: "presence_op list \<Rightarrow> sockets \<Rightarrow> Change list \<times> sockets" where
  "sockets_exec [] A = ([], A)"
| "sockets_exec (PConnect inst u c # ops) A =
     (let (chs, B) = sockets_exec ops (insert (u, inst, c) A) in ((if has_socket A u then ChangeNone else ChangeOnline) # chs, B))"
| "sockets_exec (PDisconnect inst u c # ops) A =
     (let A1 = A - {(u, inst, c)}; (chs, B) = sockets_exec ops A1 in
      ((if (u, inst, c) \<in> A \<and> \<not> has_socket A1 u then ChangeOffline else ChangeNone) # chs, B))"
| "sockets_exec (PTouch inst u # ops) A = sockets_exec ops A"
| "sockets_exec (PTick dt # ops) A = sockets_exec ops A"

text \<open>No key of a connected user lapses while time passes: it is touched in time.\<close>

definition kept :: "go_time \<Rightarrow> go_time \<Rightarrow> PresenceStore \<Rightarrow> bool" where
  "kept now now' st \<longleftrightarrow> (\<forall>u. live now' (psOnline st u) = live now (psOnline st u))
     \<and> (\<forall>u inst. live now' (psConns st u inst) = live now (psConns st u inst))"

fun touched_in_time :: "PresenceConfig \<Rightarrow> presence_op list \<Rightarrow> go_time \<times> PresenceStore \<Rightarrow> bool" where
  "touched_in_time cfg [] s = True"
| "touched_in_time cfg (op # ops) (now, st) =
     ((case op of PTick dt \<Rightarrow> kept now (now + dt) st | _ \<Rightarrow> True)
      \<and> touched_in_time cfg ops (snd (presence_exec cfg [op] (now, st))))"

lemma has_socket_insts: "has_socket A u \<longleftrightarrow> insts_of A u \<noteq> {}"
  by (auto simp: has_socket_def insts_of_def conns_at_def)

lemma change_of_Connect: "Store_Connect cfg now u c inst st = (ch, st') \<Longrightarrow> ch = ChangeNone \<or> ch = ChangeOnline"
  by (auto simp: Store_Connect_def Let_def split: if_splits)

lemma change_of_Disconnect: "Store_Disconnect cfg now u c inst st = (ch, st') \<Longrightarrow> ch = ChangeNone \<or> ch = ChangeOffline"
  by (auto simp: Store_Disconnect_def Let_def split: if_splits)

lemma presence_simulation:
  assumes "0 < pcTTL cfg"
  shows "stands_for now st A \<Longrightarrow> touched_in_time cfg ops (now, st) \<Longrightarrow> presence_exec cfg ops (now, st) = (chs, now', st')
    \<Longrightarrow> sockets_exec ops A = (chs', B) \<Longrightarrow> chs = chs' \<and> stands_for now' st' B"
proof (induction ops arbitrary: now st A chs chs' now' st' B)
  case Nil
  then show ?case by simp
next
  case (Cons op ops)
  show ?case
  proof (cases op)
    case (PConnect inst u c)
    obtain ch st1 where o: "Store_Connect cfg now u c inst st = (ch, st1)" by fastforce
    obtain cs t2 st2 where r: "presence_exec cfg ops (now, st1) = (cs, t2, st2)" by (metis prod.exhaust)
    obtain cs' B' where r': "sockets_exec ops (insert (u, inst, c) A) = (cs', B')" by fastforce
    note f = connect_refines [OF Cons.prems(1) assms o]
    have "cs = cs' \<and> stands_for t2 st2 B'"
      using Cons.IH [OF _ _ r r'] f Cons.prems(2) o by (simp add: PConnect)
    then show ?thesis using Cons.prems(3,4) o r r' f change_of_Connect [OF o] by (auto simp: PConnect has_socket_insts)
  next
    case (PDisconnect inst u c)
    obtain ch st1 where o: "Store_Disconnect cfg now u c inst st = (ch, st1)" by fastforce
    obtain cs t2 st2 where r: "presence_exec cfg ops (now, st1) = (cs, t2, st2)" by (metis prod.exhaust)
    obtain cs' B' where r': "sockets_exec ops (A - {(u, inst, c)}) = (cs', B')" by fastforce
    note f = disconnect_refines [OF Cons.prems(1) o]
    have "cs = cs' \<and> stands_for t2 st2 B'"
      using Cons.IH [OF _ _ r r'] f Cons.prems(2) o by (simp add: PDisconnect)
    then show ?thesis using Cons.prems(3,4) o r r' f change_of_Disconnect [OF o] by (auto simp: PDisconnect has_socket_insts)
  next
    case (PTouch inst u)
    from Cons.IH [OF touch_refines [OF Cons.prems(1) assms], of u inst chs now' st' chs' B] Cons.prems(2-4)
    show ?thesis by (simp add: PTouch)
  next
    case (PTick dt)
    then have "kept now (now + dt) st" using Cons.prems(2) by simp
    then have "stands_for (now + dt) st A" using Cons.prems(1) by (simp add: stands_for_def kept_def live_set_def)
    from Cons.IH [OF this, of chs now' st' chs' B] Cons.prems(2-4) show ?thesis by (simp add: PTick)
  qed
qed

lemma empty_stands: "stands_for now empty_presence {}"
  by (simp add: stands_for_def empty_presence_def insts_of_def conns_at_def)

text \<open>
  C25. Presence over many gateways: as long as the keys in use are touched in time, the store tells
  exactly whether a user has a connection on any instance, and the online and offline transitions
  it reports are exactly the first connection and the last one gone, a repeated or stale
  disconnect included.
\<close>

theorem presence_refines:
  assumes "0 < pcTTL cfg" and "touched_in_time cfg ops (t0, empty_presence)"
    and "presence_exec cfg ops (t0, empty_presence) = (chs, now, st)" and "sockets_exec ops {} = (chs', A)"
  shows "chs = chs' \<and> (Store_IsOnline now u st \<longleftrightarrow> has_socket A u)"
  using presence_simulation [OF assms(1) empty_stands assms(2-4)]
  by (auto simp: Store_IsOnline_def stands_for_def has_socket_insts)

definition demo_presence :: "presence_op list" where
  "demo_presence = [PConnect ''a'' 10 ''c-1'', PConnect ''b'' 10 ''c-1'', PTick 30000000, PTouch ''a'' 10, PTouch ''b'' 10,
     PTick 40000000, PDisconnect ''a'' 10 ''c-1'', PDisconnect ''a'' 10 ''c-1'', PDisconnect ''b'' 10 ''c-1'']"

lemma has_socket_simps [simp]:
  "has_socket {} u = False" "has_socket (insert (v, i, c) A) u = (v = u \<or> has_socket A u)"
  by (auto simp: has_socket_def)

lemma store_lookups [simp]:
  "psOnline (set_conns u inst k st) = psOnline st" "psConns (set_online u k st) = psConns st"
  "psOnline (set_online u k st) v = (if v = u then k else psOnline st v)"
  "psConns (set_conns u inst k st) v i = (if v = u \<and> i = inst then k else psConns st v i)"
  "psOnline empty_presence v = None" "psConns empty_presence v i = None"
  by (simp_all add: set_conns_def set_online_def empty_presence_def)

lemma store_lookups_last [simp]:
  "psOnline (psLastSeen_update f st) = psOnline st" "psConns (psLastSeen_update f st) = psConns st"
  by simp_all

lemma demo_presence_touched: "touched_in_time presence_defaults demo_presence (0, empty_presence)"
  by (simp add: demo_presence_def presence_defaults_def Store_Connect_def Store_Disconnect_def Store_Touch_def
      Let_def expire_def kept_def)

theorem presence_refines_witness:
  "fst (presence_exec presence_defaults demo_presence (0, empty_presence))
     = [ChangeOnline, ChangeNone, ChangeNone, ChangeNone, ChangeOffline]"
proof -
  have e: "sockets_exec demo_presence {} = ([ChangeOnline, ChangeNone, ChangeNone, ChangeNone, ChangeOffline], {})"
    by (simp add: demo_presence_def Let_def insert_Diff_if)
  have "0 < pcTTL presence_defaults" by (simp add: presence_defaults_def)
  from presence_refines [OF this demo_presence_touched _ e] show ?thesis
    by (cases "presence_exec presence_defaults demo_presence (0, empty_presence)") auto
qed

text \<open>
  A crashed instance stops touching its connections but not its field of the online hash, which the
  other instances keep alive: here instance b is gone and its connection key has lapsed, yet after
  the last live connection goes the user stays online and no offline transition is reported.
\<close>

lemma crashed_instance_ghost:
  "let ops = [PConnect ''b'' 10 ''c-1'', PConnect ''a'' 10 ''c-1'', PTick 40000000, PTouch ''a'' 10, PTick 40000000,
              PTouch ''a'' 10, PDisconnect ''a'' 10 ''c-1''];
       (chs, now, st) = presence_exec presence_defaults ops (0, empty_presence)
   in last chs = ChangeNone \<and> Store_IsOnline now 10 st \<and> (\<forall>inst. live now (psConns st 10 inst) = None)"
  by (simp add: presence_defaults_def Store_Connect_def Store_Disconnect_def Store_Touch_def
      Let_def expire_def Store_IsOnline_def)

end
