(* ===== verification/RtTyping.thy ===== *)
theory RtTyping
  imports RtPresence
begin

text \<open>
  Typing indicators (\<open>realtime/typing\<close>, and the notifier of \<open>delivery/ws/ephemeral.go\<close>): a hash per
  conversation with the time of each user's last broadcast, and a set per user of the conversations
  to clean up, both in Redis with a time to live.
\<close>

record TypingConfig =
  tcExpiry :: go_time
  tcThrottle :: int      \<comment> \<open>milliseconds\<close>

definition typing_defaults :: TypingConfig where
  "typing_defaults = \<lparr>tcExpiry = 10 * 1000000, tcThrottle = 2000\<rparr>"

record TypingStore =
  tsConv :: "go_int \<Rightarrow> (go_int \<Rightarrow> int option) key"
  tsUser :: "go_int \<Rightarrow> go_int set key"

definition empty_typing :: TypingStore where
  "empty_typing = \<lparr>tsConv = (\<lambda>_. None), tsUser = (\<lambda>_. None)\<rparr>"

definition live_hash :: "go_time \<Rightarrow> ('k \<Rightarrow> 'v option) key \<Rightarrow> 'k \<Rightarrow> 'v option" where
  "live_hash now k = (case live now k of None \<Rightarrow> (\<lambda>_. None) | Some h \<Rightarrow> h)"

definition set_key :: "'k \<Rightarrow> 'a key \<Rightarrow> ('k \<Rightarrow> 'a key) \<Rightarrow> 'k \<Rightarrow> 'a key" where
  "set_key k v m = m(k := v)"

text \<open>\<open>broadcastScript\<close>; the server's clock in milliseconds.\<close>

definition now_ms :: "go_time \<Rightarrow> int" where
  "now_ms now = now div 1000"

definition typing_throttled :: "TypingConfig \<Rightarrow> go_time \<Rightarrow> go_int \<Rightarrow> go_int \<Rightarrow> TypingStore \<Rightarrow> bool" where
  "typing_throttled cfg now u c st \<longleftrightarrow>
     (case live_hash now (tsConv st c) u of None \<Rightarrow> False | Some l \<Rightarrow> now_ms now - l < tcThrottle cfg)"

definition Store_Broadcast :: "TypingConfig \<Rightarrow> go_time \<Rightarrow> go_int \<Rightarrow> go_int \<Rightarrow> TypingStore \<Rightarrow> bool \<times> TypingStore" where
  "Store_Broadcast cfg now u c st =
     (if typing_throttled cfg now u c st
      then (False, st\<lparr>tsConv := set_key c (expire now (tcExpiry cfg) (tsConv st c)) (tsConv st),
                      tsUser := set_key u (expire now (tcExpiry cfg) (tsUser st u)) (tsUser st)\<rparr>)
      else (True, st\<lparr>
        tsConv := set_key c (Some ((live_hash now (tsConv st c))(u := Some (now_ms now)), now + tcExpiry cfg)) (tsConv st),
        tsUser := set_key u (Some (insert c (live_set now (tsUser st u)), now + tcExpiry cfg)) (tsUser st)\<rparr>))"

text \<open>HDEL and SREM keep the time to live and remove the key with its last element.\<close>

definition hdel :: "go_time \<Rightarrow> 'k \<Rightarrow> ('k \<Rightarrow> 'v option) key \<Rightarrow> ('k \<Rightarrow> 'v option) key" where
  "hdel now f k = (let h = (live_hash now k)(f := None) in
     if \<forall>x. h x = None then None else map_option (\<lambda>(_, e). (h, e)) k)"

definition srem :: "go_time \<Rightarrow> 'a \<Rightarrow> 'a set key \<Rightarrow> 'a set key" where
  "srem now x k = (let s = live_set now k - {x} in if s = {} then None else map_option (\<lambda>(_, e). (s, e)) k)"

definition Store_Stop :: "go_time \<Rightarrow> go_int \<Rightarrow> go_int \<Rightarrow> TypingStore \<Rightarrow> bool \<times> TypingStore" where
  "Store_Stop now u c st =
     (live_hash now (tsConv st c) u \<noteq> None,
      st\<lparr>tsConv := set_key c (hdel now u (tsConv st c)) (tsConv st), tsUser := set_key u (srem now c (tsUser st u)) (tsUser st)\<rparr>)"

definition Store_CleanupUser :: "go_time \<Rightarrow> go_int \<Rightarrow> TypingStore \<Rightarrow> go_int set \<times> TypingStore" where
  "Store_CleanupUser now u st =
     (let convs = live_set now (tsUser st u) in
      (convs, st\<lparr>tsConv := (\<lambda>c. if c \<in> convs then hdel now u (tsConv st c) else tsConv st c),
                tsUser := set_key u None (tsUser st)\<rparr>))"

definition Store_IsTyping :: "go_time \<Rightarrow> go_int \<Rightarrow> go_int \<Rightarrow> TypingStore \<Rightarrow> bool" where
  "Store_IsTyping now u c st \<longleftrightarrow> live_hash now (tsConv st c) u \<noteq> None"

section \<open>The service\<close>

definition NotifyTyping :: "go_int \<Rightarrow> go_int \<Rightarrow> string \<Rightarrow> Event" where
  "NotifyTyping u c status =
     \<lparr>evGlobalSeq = 0, evEventType = ''typing.indicator'', evConversationID = Some c, evEntityID = None,
      evActorUserID = Some u, evAffectedUserIDs = [],
      evPayload = JObj [(''conversation_id'', JStr (FormatInt c)), (''status'', JStr status), (''user_id'', JStr (FormatInt u))]\<rparr>"

definition typing_Start :: "TypingConfig \<Rightarrow> PresenceEnv \<Rightarrow> go_int \<Rightarrow> go_int \<Rightarrow> TypingStore \<Rightarrow> Event list \<times> TypingStore" where
  "typing_Start cfg env u c st =
     (if peDown env then ([], st)
      else let (allowed, st1) = Store_Broadcast cfg (peNow env) u c st in
           (if allowed then [NotifyTyping u c ''typing''] else [], st1))"

definition typing_Stop :: "PresenceEnv \<Rightarrow> go_int \<Rightarrow> go_int \<Rightarrow> TypingStore \<Rightarrow> Event list \<times> TypingStore" where
  "typing_Stop env u c st =
     (if peDown env then ([], st)
      else let (existed, st1) = Store_Stop (peNow env) u c st in
           (if existed then [NotifyTyping u c ''stopped''] else [], st1))"

definition typing_CleanupUser :: "PresenceEnv \<Rightarrow> go_int \<Rightarrow> TypingStore \<Rightarrow> Event list \<times> TypingStore" where
  "typing_CleanupUser env u st =
     (if peDown env then ([], st)
      else let (convs, st1) = Store_CleanupUser (peNow env) u st in
           (map (\<lambda>c. NotifyTyping u c ''stopped'') (sorted_list_of_set convs), st1))"

definition typing_IsTyping :: "PresenceEnv \<Rightarrow> go_int \<Rightarrow> go_int \<Rightarrow> TypingStore \<Rightarrow> bool" where
  "typing_IsTyping env u c st \<longleftrightarrow> \<not> peDown env \<and> Store_IsTyping (peNow env) u c st"

section \<open>The throttle\<close>

text \<open>The times at which a row of typing frames of one user in one conversation is broadcast.\<close>

fun broadcasts :: "TypingConfig \<Rightarrow> go_int \<Rightarrow> go_int \<Rightarrow> go_time list \<Rightarrow> TypingStore \<Rightarrow> go_time list" where
  "broadcasts cfg u c [] st = []"
| "broadcasts cfg u c (t # ts) st =
     (let (allowed, st1) = Store_Broadcast cfg t u c st in (if allowed then [t] else []) @ broadcasts cfg u c ts st1)"

lemma live_hash_simps [simp]:
  "live_hash now None = (\<lambda>_. None)" "live_hash now (Some (h, e)) = (if now < e then h else (\<lambda>_. None))"
  by (simp_all add: live_hash_def)

lemma live_hash_expire: "0 < ttl \<Longrightarrow> live_hash now (expire now ttl k) = live_hash now k"
  by (simp add: live_hash_def live_expire)

text \<open>After a broadcast at \<open>b\<close> the hash shows it until the throttle is over, as long as frames keep coming.\<close>

definition hash_shows :: "go_int \<Rightarrow> go_int \<Rightarrow> go_time \<Rightarrow> go_time \<Rightarrow> TypingConfig \<Rightarrow> TypingStore \<Rightarrow> bool" where
  "hash_shows u c b lim cfg st \<longleftrightarrow> (\<exists>h e. tsConv st c = Some (h, e) \<and> h u = Some (now_ms b) \<and> lim + tcExpiry cfg \<le> e)"

lemma spaced:
  assumes "tcThrottle cfg * 1000 < tcExpiry cfg"
  shows "sorted (b # ts) \<Longrightarrow> hash_shows u c b b cfg st \<Longrightarrow> \<forall>t \<in> set (broadcasts cfg u c ts st). tcThrottle cfg * 1000 - 1000 < t - b"
proof (induction ts arbitrary: st)
  case (Cons t ts)
  obtain h e where k: "tsConv st c = Some (h, e)" "h u = Some (now_ms b)" "b + tcExpiry cfg \<le> e"
    using Cons.prems(2) by (auto simp: hash_shows_def)
  have le: "b \<le> t" "sorted (b # ts)" using Cons.prems(1) by auto
  show ?case
  proof (cases "typing_throttled cfg t u c st")
    case True
    then have l: "t < e" by (auto simp: typing_throttled_def k split: if_splits)
    then have "hash_shows u c b b cfg (snd (Store_Broadcast cfg t u c st))"
      using True le(1) k(2) by (auto simp: Store_Broadcast_def hash_shows_def set_key_def k expire_def)
    from Cons.IH [OF le(2) this] True show ?thesis by (simp add: Store_Broadcast_def)
  next
    case False
    have gap: "tcThrottle cfg * 1000 - 1000 < t - b"
    proof (cases "t < e")
      case True
      then have "tcThrottle cfg \<le> now_ms t - now_ms b" using False by (simp add: typing_throttled_def k not_less)
      then show ?thesis unfolding now_ms_def by linarith
    next
      case False
      with k(3) assms show ?thesis by linarith
    qed
    have "\<forall>x \<in> set ts. t \<le> x" using Cons.prems(1) by simp
    moreover have "set (broadcasts cfg u c ts st') \<subseteq> set ts" for st'
      by (induction ts arbitrary: st') (auto simp: Let_def split: prod.splits if_splits)
    ultimately have "\<forall>x \<in> set (broadcasts cfg u c ts st'). t \<le> x" for st' by blast
    then show ?thesis using gap by (fastforce split: prod.splits)
  qed
qed simp

text \<open>
  However fast a user types into a conversation, two indicators are at least the throttle apart
  (two seconds by default, less the millisecond the server's clock is cut to).
\<close>

lemma typing_throttle:
  assumes "tcThrottle cfg * 1000 < tcExpiry cfg" and "0 < tcExpiry cfg" and "sorted ts"
  shows "sorted_wrt (\<lambda>a b. tcThrottle cfg * 1000 - 1000 < b - a) (broadcasts cfg u c ts st)"
  using assms(3)
proof (induction ts arbitrary: st)
  case (Cons t ts)
  show ?case
  proof (cases "typing_throttled cfg t u c st")
    case True
    with Cons show ?thesis by (simp add: Store_Broadcast_def)
  next
    case False
    then have "hash_shows u c t t cfg (snd (Store_Broadcast cfg t u c st))"
      by (simp add: Store_Broadcast_def hash_shows_def set_key_def)
    with spaced [OF assms(1) Cons.prems, of u c] Cons False show ?thesis by (simp add: Store_Broadcast_def)
  qed
qed simp

text \<open>
  The clean-up of a user works from the user's set, which only that user's own frames keep alive,
  while the hash of the conversation lives on with anybody's: here user 10 went silent, user 11 kept
  typing, and after user 10's clean-up the store still says user 10 is typing.
\<close>

lemma typing_stuck:
  "let s1 = snd (Store_Broadcast typing_defaults 0 10 1 empty_typing);
       s2 = snd (Store_Broadcast typing_defaults 8000000 11 1 s1);
       (convs, s3) = Store_CleanupUser 12000000 10 s2
   in convs = {} \<and> Store_IsTyping 12000000 10 1 s3"
  by (simp add: Store_Broadcast_def typing_throttled_def typing_defaults_def empty_typing_def set_key_def
      Store_CleanupUser_def Store_IsTyping_def Let_def now_ms_def)

end
