(* ===== verification/RtFrames.thy ===== *)
theory RtFrames
  imports RtDomain ChatSend ChatMessages RateLimit
begin

text \<open>
  The client frames (\<open>realtime/delivery/ws/handler.go\<close>): the payload of each event and its decoding,
  the classes the frames are rate limited by, the wire errors, and the JSON of what an
  acknowledgement carries.
\<close>

section \<open>Payloads\<close>

record helloPayload =
  hpAccessToken :: string
  hpDeviceID :: string
  hpSessionID :: go_int
  hpClientVersion :: string
  hpLastSeq :: "go_int option"
  hpLastGlobalSeq :: "go_int option"

record resumePayload =
  rpLastSeq :: go_int
  rpLastGlobalSeq :: go_int
  rpSessionID :: go_int

record sendMessagePayload =
  spClientMsgID :: string
  spConversationID :: go_int
  spType :: string
  spText :: "string option"
  spMedia :: "Attachment list"
  spReplyToSeq :: "go_int option"
  spMentions :: "go_int list"

record editMessagePayload =
  epMessageID :: go_int
  epConversationID :: go_int
  epText :: string

record deleteMessagePayload =
  dpMessageID :: go_int
  dpConversationID :: go_int
  dpMode :: string

record reactionPayload =
  xpMessageID :: go_int
  xpConversationID :: go_int
  xpEmoji :: string

record receiptPayload =
  cpConversationID :: go_int
  cpLastReadSeq :: go_int

record presenceUpdatePayload =
  ppStatus :: string
  ppCustomStatus :: string

text \<open>
  \<open>decodeData\<close>: no data is a protocol error, null decodes to the zero value, anything but an object
  fails.  A member is decoded by \<open>int_field\<close> and its like; what they return fails as a whole.
\<close>

definition payload_members :: "json option \<Rightarrow> (string \<times> json) list option" where
  "payload_members data = (case data of Some JNull \<Rightarrow> Some [] | Some (JObj kvs) \<Rightarrow> Some kvs | _ \<Rightarrow> None)"

definition decodeData :: "((string \<times> json) list \<Rightarrow> 'a option) \<Rightarrow> Frame \<Rightarrow> rt_error + 'a" where
  "decodeData fields_of frame =
     rbind (ensure (fmData frame \<noteq> None) MissingData) (\<lambda>_.
       from_opt InvalidData (obind (payload_members (fmData frame)) fields_of))"

abbreviation int_field :: "string \<Rightarrow> (string \<times> json) list \<Rightarrow> go_int option" where
  "int_field k kvs \<equiv> decode_member get_int k kvs 0"

abbreviation string_field :: "string \<Rightarrow> (string \<times> json) list \<Rightarrow> string option" where
  "string_field k kvs \<equiv> decode_member get_string k kvs []"

abbreviation int_ptr_field :: "string \<Rightarrow> (string \<times> json) list \<Rightarrow> go_int option option" where
  "int_ptr_field k kvs \<equiv> decode_member (get_ptr get_int 0) k kvs None"

definition hello_fields :: "(string \<times> json) list \<Rightarrow> helloPayload option" where
  "hello_fields kvs =
     obind (string_field ''access_token'' kvs) (\<lambda>t. obind (string_field ''device_id'' kvs) (\<lambda>d.
     obind (int_field ''session_id'' kvs) (\<lambda>s. obind (string_field ''client_version'' kvs) (\<lambda>v.
     obind (int_ptr_field ''last_seq'' kvs) (\<lambda>l. obind (int_ptr_field ''last_global_seq'' kvs) (\<lambda>g.
       Some \<lparr>hpAccessToken = t, hpDeviceID = d, hpSessionID = s, hpClientVersion = v, hpLastSeq = l, hpLastGlobalSeq = g\<rparr>))))))"

definition resume_fields :: "(string \<times> json) list \<Rightarrow> resumePayload option" where
  "resume_fields kvs =
     obind (int_field ''last_seq'' kvs) (\<lambda>l. obind (int_field ''last_global_seq'' kvs) (\<lambda>g.
     obind (int_field ''session_id'' kvs) (\<lambda>s.
       Some \<lparr>rpLastSeq = l, rpLastGlobalSeq = g, rpSessionID = s\<rparr>)))"

definition subscribe_fields :: "(string \<times> json) list \<Rightarrow> go_int list option" where
  "subscribe_fields kvs = decode_member (get_list get_int 0) ''conversation_ids'' kvs []"

definition conversation_field :: "(string \<times> json) list \<Rightarrow> go_int option" where
  "conversation_field kvs = int_field ''conversation_id'' kvs"

definition decode_attachment :: "json \<Rightarrow> Attachment \<Rightarrow> Attachment option" where
  "decode_attachment v a = (case v of
     JNull \<Rightarrow> Some a
   | JObj kvs \<Rightarrow>
       obind (decode_member get_string ''media_id'' kvs (aMediaID a)) (\<lambda>m. obind (decode_member get_string ''kind'' kvs (aKind a)) (\<lambda>k.
       obind (decode_member get_string ''url'' kvs (aURL a)) (\<lambda>u. obind (decode_member get_string ''thumb'' kvs (aThumb a)) (\<lambda>t.
       obind (decode_member (get_ptr get_int 0) ''size'' kvs (aSize a)) (\<lambda>s. obind (decode_member (get_ptr get_int 0) ''width'' kvs (aWidth a)) (\<lambda>w.
       obind (decode_member (get_ptr get_int 0) ''height'' kvs (aHeight a)) (\<lambda>h. obind (decode_member get_string ''caption'' kvs (aCaption a)) (\<lambda>c.
         Some \<lparr>aMediaID = m, aKind = k, aURL = u, aThumb = t, aSize = s, aWidth = w, aHeight = h, aCaption = c\<rparr>))))))))
   | _ \<Rightarrow> None)"

definition no_attachment :: Attachment where
  "no_attachment = \<lparr>aMediaID = [], aKind = [], aURL = [], aThumb = [], aSize = None, aWidth = None, aHeight = None, aCaption = []\<rparr>"

definition send_fields :: "(string \<times> json) list \<Rightarrow> sendMessagePayload option" where
  "send_fields kvs =
     obind (string_field ''client_msg_id'' kvs) (\<lambda>i. obind (int_field ''conversation_id'' kvs) (\<lambda>c.
     obind (string_field ''type'' kvs) (\<lambda>t. obind (decode_member (get_ptr get_string []) ''text'' kvs None) (\<lambda>x.
     obind (decode_member (get_list decode_attachment no_attachment) ''media'' kvs []) (\<lambda>m.
     obind (int_ptr_field ''reply_to_seq'' kvs) (\<lambda>r. obind (decode_member (get_list get_int 0) ''mentions'' kvs []) (\<lambda>ms.
       Some \<lparr>spClientMsgID = i, spConversationID = c, spType = t, spText = x, spMedia = m, spReplyToSeq = r, spMentions = ms\<rparr>)))))))"

text \<open>\<open>content\<close> is an inline struct: its members are decoded into the ones already there.\<close>

definition decode_content :: "json \<Rightarrow> string \<Rightarrow> string option" where
  "decode_content v t = (case v of JNull \<Rightarrow> Some t | JObj kvs \<Rightarrow> decode_member get_string ''text'' kvs t | _ \<Rightarrow> None)"

definition edit_fields :: "(string \<times> json) list \<Rightarrow> editMessagePayload option" where
  "edit_fields kvs =
     obind (int_field ''message_id'' kvs) (\<lambda>m. obind (int_field ''conversation_id'' kvs) (\<lambda>c.
     obind (decode_member decode_content ''content'' kvs []) (\<lambda>t.
       Some \<lparr>epMessageID = m, epConversationID = c, epText = t\<rparr>)))"

definition delete_fields :: "(string \<times> json) list \<Rightarrow> deleteMessagePayload option" where
  "delete_fields kvs =
     obind (int_field ''message_id'' kvs) (\<lambda>m. obind (int_field ''conversation_id'' kvs) (\<lambda>c.
     obind (string_field ''mode'' kvs) (\<lambda>d.
       Some \<lparr>dpMessageID = m, dpConversationID = c, dpMode = d\<rparr>)))"

definition reaction_fields :: "(string \<times> json) list \<Rightarrow> reactionPayload option" where
  "reaction_fields kvs =
     obind (int_field ''message_id'' kvs) (\<lambda>m. obind (int_field ''conversation_id'' kvs) (\<lambda>c.
     obind (string_field ''emoji'' kvs) (\<lambda>e.
       Some \<lparr>xpMessageID = m, xpConversationID = c, xpEmoji = e\<rparr>)))"

definition receipt_fields :: "(string \<times> json) list \<Rightarrow> receiptPayload option" where
  "receipt_fields kvs =
     obind (int_field ''conversation_id'' kvs) (\<lambda>c. obind (int_field ''last_read_seq'' kvs) (\<lambda>s.
       Some \<lparr>cpConversationID = c, cpLastReadSeq = s\<rparr>))"

definition presence_fields :: "(string \<times> json) list \<Rightarrow> presenceUpdatePayload option" where
  "presence_fields kvs =
     obind (string_field ''status'' kvs) (\<lambda>s. obind (string_field ''custom_status'' kvs) (\<lambda>c.
       Some \<lparr>ppStatus = s, ppCustomStatus = c\<rparr>))"

definition validPresenceStatus :: "string \<Rightarrow> bool" where
  "validPresenceStatus s \<longleftrightarrow> s \<in> {''online'', ''offline'', ''away'', ''busy''}"

section \<open>Rate classes\<close>

text \<open>The key is read without minding errors: a member that does not decode leaves the value before it.\<close>

fun lax_int :: "string \<Rightarrow> (string \<times> json) list \<Rightarrow> go_int \<Rightarrow> go_int" where
  "lax_int k [] a = a"
| "lax_int k ((n, v) # kvs) a =
     lax_int k kvs (if same_name n k then (case get_int v a of None \<Rightarrow> a | Some b \<Rightarrow> b) else a)"

definition rate_target :: "Frame \<Rightarrow> string" where
  "rate_target frame =
     FormatInt (case payload_members (fmData frame) of None \<Rightarrow> 0 | Some kvs \<Rightarrow> lax_int ''conversation_id'' kvs 0)"

definition rateClass :: "Frame \<Rightarrow> string \<times> string" where
  "rateClass frame =
     (let t = fmType frame in
      if t = ''ping'' \<or> t = ''pong'' \<or> t = ''ack'' then ([], [])
      else if t = ''typing.start'' then (''typing'', rate_target frame)
      else if t = ''typing.stop'' then ([], [])
      else if t = ''presence.update'' then (''presence'', [])
      else if t = ''receipt.read'' \<or> t = ''receipt.delivered'' then (''read'', rate_target frame)
      else (''standard'', []))"

section \<open>Errors on the wire\<close>

record wireError =
  weCode :: string
  weRetryable :: bool

fun chatErrorCode :: "chat_error \<Rightarrow> wireError option" where
  "chatErrorCode ErrNotMember = Some \<lparr>weCode = ''NOT_A_MEMBER'', weRetryable = False\<rparr>"
| "chatErrorCode ErrConversationNotFound = Some \<lparr>weCode = ''CONVERSATION_NOT_FOUND'', weRetryable = True\<rparr>"
| "chatErrorCode ErrMessageNotFound = Some \<lparr>weCode = ''MESSAGE_NOT_FOUND'', weRetryable = False\<rparr>"
| "chatErrorCode ErrEditWindowExpired = Some \<lparr>weCode = ''EDIT_WINDOW_EXPIRED'', weRetryable = False\<rparr>"
| "chatErrorCode ErrNotSender = Some \<lparr>weCode = ''FORBIDDEN'', weRetryable = False\<rparr>"
| "chatErrorCode ErrInsufficientRole = Some \<lparr>weCode = ''INSUFFICIENT_ROLE'', weRetryable = False\<rparr>"
| "chatErrorCode _ = None"

definition ackChatError_code :: "chat_error \<Rightarrow> string" where
  "ackChatError_code e = (case chatErrorCode e of None \<Rightarrow> ''INTERNAL'' | Some we \<Rightarrow> weCode we)"

section \<open>The JSON of results\<close>

definition text_json :: "string option \<Rightarrow> json" where
  "text_json t = JObj [(''text'', jopt JStr t)]"

definition reply_json :: "ReplyToView \<Rightarrow> json" where
  "reply_json r = JObj [(''id'', JStr (rvID r)), (''sender_id'', jopt JStr (rvSenderID r)), (''content'', text_json (rvText r))]"

definition reaction_json :: "Reaction \<Rightarrow> json" where
  "reaction_json r = JObj [(''emoji'', JStr (reEmoji r)), (''count'', JInt (reCount r)), (''user_ids'', JArr (map JInt (reUserIDs r)))]"

definition message_view_json :: "MessageView \<Rightarrow> json" where
  "message_view_json v = JObj
     [(''id'', JStr (vID v)), (''conversation_id'', JStr (vConversationID v)), (''sequence'', JStr (vSequence v)),
      (''sender_id'', jopt JStr (vSenderID v)),
      (''sender'', jopt (\<lambda>n. JObj [(''display_name'', JStr n), (''avatar'', JNull)]) (vSender v)),
      (''type'', JStr (vType v)), (''content'', jopt (\<lambda>t. text_json (Some t)) (vContent v)),
      (''media'', JArr (map attachment_json (vMedia v))), (''client_msg_id'', jopt JStr (vClientMsgID v)),
      (''created_at'', JTime (vCreatedAt v)), (''edited_at'', jopt JTime (vEditedAt v)), (''status'', JStr (vStatus v)),
      (''reply_to'', jopt reply_json (vReplyTo v)), (''mentions'', JArr (map JStr (vMentions v))),
      (''reactions'', JArr (map reaction_json (vReactions v))),
      (''read_by'', JArr (map (\<lambda>(u, t). JObj [(''user_id'', JStr u), (''at'', jopt JTime t)]) (vReadBy v))),
      (''global_seq'', JStr (vGlobalSeq v))]"

definition reaction_result_json :: "ReactionResult \<Rightarrow> json" where
  "reaction_result_json r =
     JObj [(''message_id'', JStr (rsMessageID r)), (''emoji'', JStr (rsEmoji r)), (''count'', JInt (rsCount r))]"

definition delete_result_json :: "string \<times> string \<Rightarrow> json" where
  "delete_result_json r = JObj [(''deleted'', JStr (fst r)), (''message_id'', JStr (snd r))]"

section \<open>Facts\<close>

lemma decodeData_Inr: "decodeData d frame = Inr p \<longleftrightarrow> (\<exists>kvs. payload_members (fmData frame) = Some kvs \<and> d kvs = Some p)"
  by (cases "fmData frame") (auto simp: decodeData_def obind_Some_iff payload_members_def)

text \<open>The ids of the documented payloads are JSON strings, which no int64 field decodes.\<close>

lemma decode_member_string_id:
  "map_of kvs k = Some (JStr s) \<Longrightarrow> decode_member get_int k kvs a = None"
proof (induction kvs arbitrary: a)
  case (Cons kv kvs)
  obtain n v where kv: "kv = (n, v)" by fastforce
  show ?case
  proof (cases "n = k")
    case True
    with Cons.prems show ?thesis by (simp add: kv get_int_def)
  next
    case False
    with Cons show ?thesis by (auto simp: kv split: option.splits)
  qed
qed simp

end
