(* ===== verification/RtHandler.thy ===== *)
theory RtHandler
  imports RtFrames RtHub RtTyping ChatSystem Scenario
begin

text \<open>
  The frame handler and the handshake (\<open>realtime/delivery/ws/handler.go\<close>, \<open>endpoint.go\<close>) on the state
  of a gateway: its sockets, the chat module it calls, the replay buffer, presence and typing.  An
  error is a protocol violation that closes the socket; everything else is acknowledged.
\<close>

section \<open>State and environment\<close>

record Server =
  svGateway :: Gateway
  svWorld :: World
  svReplay :: replayBuffer
  svPresence :: PresenceStore
  svTyping :: TypingStore
  svPublished :: "Event list"       \<comment> \<open>what the notifiers put on the backplane\<close>

text \<open>
  What one frame meets: the clock (0 to 2 for the rate limiter, 3 for the frame sent, 4 for pong), the
  chat module's environment of each call, the head of the change log when it can be read, and Redis.
\<close>

record FrameEnv =
  fvClock :: "nat \<Rightarrow> go_time"
  fvChat :: "nat \<Rightarrow> Env"
  fvSend :: SendEnv
  fvHead :: "go_int option"
  fvEphemeral :: "nat \<Rightarrow> PresenceEnv"

type_synonym outcome = "(rt_error + unit) \<times> Server"

definition on_gateway :: "(Gateway \<Rightarrow> Gateway) \<Rightarrow> Server \<Rightarrow> Server" where
  "on_gateway f s = s\<lparr>svGateway := f (svGateway s)\<rparr>"

definition on_socket :: "Connection \<Rightarrow> (Connection \<Rightarrow> Connection) \<Rightarrow> Server \<Rightarrow> Server" where
  "on_socket c f = on_gateway (on_conns {cnID c} f)"

definition on_chat :: "(ChatDB \<Rightarrow> 'r \<times> ChatDB) \<Rightarrow> Server \<Rightarrow> 'r \<times> Server" where
  "on_chat f s = (let (r, db) = f (wDB (svWorld s)) in (r, s\<lparr>svWorld := (svWorld s)\<lparr>wDB := db\<rparr>\<rparr>))"

definition finished :: "Server \<Rightarrow> outcome" where
  "finished s = (Inr (), s)"

definition protocol_error :: "rt_error \<Rightarrow> Server \<Rightarrow> outcome" where
  "protocol_error e s = (Inl e, s)"

definition ack_ok :: "FrameEnv \<Rightarrow> Connection \<Rightarrow> string \<Rightarrow> json \<Rightarrow> Server \<Rightarrow> Server" where
  "ack_ok env c i result = on_socket c (ack i result [] (fvClock env 3))"

definition ackError :: "FrameEnv \<Rightarrow> Connection \<Rightarrow> string \<Rightarrow> string \<Rightarrow> Server \<Rightarrow> Server" where
  "ackError env c i code = on_socket c (ack i JNull code (fvClock env 3))"

definition ackChatError :: "FrameEnv \<Rightarrow> Connection \<Rightarrow> string \<Rightarrow> chat_error \<Rightarrow> Server \<Rightarrow> Server" where
  "ackChatError env c i e = ackError env c i (ackChatError_code e)"

text \<open>The result of a chat call is acknowledged, with its rendering or with the code of its error.\<close>

definition ack_result :: "FrameEnv \<Rightarrow> Connection \<Rightarrow> string \<Rightarrow> ('r \<Rightarrow> json) \<Rightarrow> chat_error + 'r \<Rightarrow> Server \<Rightarrow> outcome" where
  "ack_result env c i render r s =
     finished (case r of Inl e \<Rightarrow> ackChatError env c i e s | Inr x \<Rightarrow> ack_ok env c i (render x) s)"

definition status_ok :: json where
  "status_ok = JObj [(''status'', JStr ''ok'')]"

definition with_payload :: "((string \<times> json) list \<Rightarrow> 'p option) \<Rightarrow> Frame \<Rightarrow> ('p \<Rightarrow> Server \<Rightarrow> outcome) \<Rightarrow> Server \<Rightarrow> outcome" where
  "with_payload fields_of frame k s =
     (case decodeData fields_of frame of Inl e \<Rightarrow> protocol_error e s | Inr p \<Rightarrow> k p s)"

section \<open>Frames\<close>

definition head_seq :: "go_int option \<Rightarrow> go_int" where
  "head_seq h = (case h of None \<Rightarrow> 0 | Some n \<Rightarrow> n)"

definition rejected :: "string \<Rightarrow> json" where
  "rejected reason = JObj [(''reason'', JStr reason)]"

definition handleResume :: "FrameEnv \<Rightarrow> Connection \<Rightarrow> Frame \<Rightarrow> Server \<Rightarrow> outcome" where
  "handleResume env c frame = with_payload resume_fields frame (\<lambda>p s.
     if rpLastSeq p < 0 \<or> rpLastGlobalSeq p < 0 then protocol_error NegativeCursors s
     else if rpSessionID p \<noteq> 0 \<and> rpSessionID p \<noteq> cnSessionID c
     then finished (on_socket c (\<lambda>d. snd (sendEvent ''resume_rejected'' (rejected ''session_revoked'') (fvClock env 3) d)) s)
     else if \<not> CanReplay (svReplay s) (rpLastGlobalSeq p)
     then finished (on_socket c (\<lambda>d. snd (sendEvent ''resume_rejected'' (rejected ''buffer_expired'') (fvClock env 3) d)) s)
     else finished (on_socket c (\<lambda>d. snd (sendResumeAck (rpLastSeq p) (head_seq (fvHead env))
            (ReplaySince (svReplay s) (rpLastGlobalSeq p)) (fvClock env 3) d)) s))"

text \<open>The conversations in turn: a stranger's is skipped, any other failure ends the frame.\<close>

fun subscribe_loop :: "FrameEnv \<Rightarrow> Connection \<Rightarrow> nat \<Rightarrow> go_int list \<Rightarrow> Server \<Rightarrow> go_int list option \<times> Server" where
  "subscribe_loop env c k [] s = (Some [], s)"
| "subscribe_loop env c k (convID # ids) s =
     (case GetConversation (fvChat env k) (cnUserID c) convID (wDB (svWorld s)) of
        Inl e \<Rightarrow> if e = ErrNotMember then subscribe_loop env c (Suc k) ids s else (None, s)
      | Inr _ \<Rightarrow>
          let s1 = on_gateway (Subscribe (cnID c) convID) s;
              s2 = s1\<lparr>svPresence := SetConversation presence_defaults (fvEphemeral env k) (cnUserID c) convID (svPresence s1)\<rparr>;
              (r, s3) = subscribe_loop env c (Suc k) ids s2
          in (map_option ((#) convID) r, s3))"

definition handleSubscribe :: "FrameEnv \<Rightarrow> Connection \<Rightarrow> Frame \<Rightarrow> Server \<Rightarrow> outcome" where
  "handleSubscribe env c frame = with_payload subscribe_fields frame (\<lambda>ids s.
     case subscribe_loop env c 0 ids s of
       (None, s1) \<Rightarrow> finished (ackError env c (fmID frame) ''CONVERSATION_NOT_FOUND'' s1)
     | (Some subscribed, s1) \<Rightarrow> finished (ack_ok env c (fmID frame) (JObj [(''subscribed'', JArr (map JInt subscribed))]) s1))"

definition handleUnsubscribe :: "FrameEnv \<Rightarrow> Connection \<Rightarrow> Frame \<Rightarrow> Server \<Rightarrow> outcome" where
  "handleUnsubscribe env c frame = with_payload conversation_field frame (\<lambda>convID s.
     let s1 = on_gateway (Unsubscribe (cnID c) convID) s;
         s2 = s1\<lparr>svPresence := DropConversation (fvEphemeral env 0) (cnUserID c) convID (svPresence s1)\<rparr>
     in finished (ack_ok env c (fmID frame) (JObj [(''unsubscribed'', JInt convID)]) s2))"

definition handleMessageSend :: "FrameEnv \<Rightarrow> Connection \<Rightarrow> Frame \<Rightarrow> Server \<Rightarrow> outcome" where
  "handleMessageSend env c frame = with_payload send_fields frame (\<lambda>p s.
     let (r, w) = SendMessage (fvSend env)
           \<lparr>smUserID = cnUserID c, smConversationID = spConversationID p, smClientMsgID = spClientMsgID p, smType = spType p,
            smText = spText p, smMedia = spMedia p, smReplyToSeq = spReplyToSeq p, smMentions = spMentions p\<rparr> (svWorld s)
     in ack_result env c (fmID frame) (\<lambda>x. JObj [(''message'', message_view_json (srView x)), (''status'', JStr ''sent'')]) r
          (s\<lparr>svWorld := w\<rparr>))"

definition handleMessageEdit :: "FrameEnv \<Rightarrow> Connection \<Rightarrow> Frame \<Rightarrow> Server \<Rightarrow> outcome" where
  "handleMessageEdit env c frame = with_payload edit_fields frame (\<lambda>p s.
     let (r, s1) = on_chat (EditMessage (fvChat env 0) \<lparr>emUserID = cnUserID c, emMessageID = epMessageID p, emNewText = epText p\<rparr>) s
     in ack_result env c (fmID frame) (\<lambda>v. JObj [(''message'', message_view_json v), (''status'', JStr ''edited'')]) r s1)"

definition handleMessageDelete :: "FrameEnv \<Rightarrow> Connection \<Rightarrow> Frame \<Rightarrow> Server \<Rightarrow> outcome" where
  "handleMessageDelete env c frame = with_payload delete_fields frame (\<lambda>p s.
     let mode = (if dpMode p = [] then ''all'' else dpMode p);
         (r, s1) = on_chat (DeleteMessage (fvChat env 0) \<lparr>dmUserID = cnUserID c, dmMessageID = dpMessageID p, dmMode = mode\<rparr>) s
     in ack_result env c (fmID frame) (\<lambda>v. JObj [(''result'', delete_result_json v), (''status'', JStr ''deleted'')]) r s1)"

definition handleReaction :: "FrameEnv \<Rightarrow> Connection \<Rightarrow> Frame \<Rightarrow> bool \<Rightarrow> Server \<Rightarrow> outcome" where
  "handleReaction env c frame add = with_payload reaction_fields frame (\<lambda>p s.
     let cmd = \<lparr>rcUserID = cnUserID c, rcMessageID = xpMessageID p, rcEmoji = xpEmoji p\<rparr>;
         (r, s1) = on_chat (if add then AddReaction (fvChat env 0) cmd else RemoveReaction (fvChat env 0) cmd) s
     in ack_result env c (fmID frame) (\<lambda>x. JObj [(''reaction'', reaction_result_json x), (''status'', JStr ''ok'')]) r s1)"

definition handleReceiptRead :: "FrameEnv \<Rightarrow> Connection \<Rightarrow> Frame \<Rightarrow> Server \<Rightarrow> outcome" where
  "handleReceiptRead env c frame = with_payload receipt_fields frame (\<lambda>p s.
     let (r, s1) = on_chat (MarkRead (fvChat env 0)
           \<lparr>mkUserID = cnUserID c, mkConversationID = cpConversationID p, mkReadSeq = cpLastReadSeq p, mkDeliveredSeq = None\<rparr>) s
     in ack_result env c (fmID frame) (\<lambda>_. status_ok) r s1)"

definition handleReceiptDelivered :: "FrameEnv \<Rightarrow> Connection \<Rightarrow> Frame \<Rightarrow> Server \<Rightarrow> outcome" where
  "handleReceiptDelivered env c frame = with_payload receipt_fields frame (\<lambda>p s.
     if cpLastReadSeq p \<le> 0 then protocol_error MissingDelivered s
     else finished (ack_ok env c (fmID frame) status_ok s))"

definition handleTyping :: "FrameEnv \<Rightarrow> Connection \<Rightarrow> Frame \<Rightarrow> string \<Rightarrow> Server \<Rightarrow> outcome" where
  "handleTyping env c frame status = with_payload conversation_field frame (\<lambda>convID s.
     if convID \<le> 0 then protocol_error MissingConversation s
     else case GetConversation (fvChat env 0) (cnUserID c) convID (wDB (svWorld s)) of
       Inl e \<Rightarrow> finished (ackChatError env c (fmID frame) e s)
     | Inr _ \<Rightarrow>
         let (events, ty) = (if status = ''stopped'' then typing_Stop (fvEphemeral env 0) (cnUserID c) convID (svTyping s)
                             else typing_Start typing_defaults (fvEphemeral env 0) (cnUserID c) convID (svTyping s))
         in finished (ack_ok env c (fmID frame) status_ok (s\<lparr>svTyping := ty, svPublished := svPublished s @ events\<rparr>)))"

definition handlePresenceUpdate :: "FrameEnv \<Rightarrow> Connection \<Rightarrow> Frame \<Rightarrow> Server \<Rightarrow> outcome" where
  "handlePresenceUpdate env c frame = with_payload presence_fields frame (\<lambda>p s.
     let status = (if ppStatus p = [] then ''online'' else ppStatus p) in
     if \<not> validPresenceStatus status then finished (ackError env c (fmID frame) ''VALIDATION_ERROR'' s)
     else let (events, ps) = presence_Update presence_defaults (fvEphemeral env 0) (cnUserID c) status (ppCustomStatus p) (svPresence s)
          in finished (ack_ok env c (fmID frame) status_ok (s\<lparr>svPresence := ps, svPublished := svPublished s @ events\<rparr>)))"

definition dispatch_frame :: "FrameEnv \<Rightarrow> Connection \<Rightarrow> Frame \<Rightarrow> Server \<Rightarrow> outcome" where
  "dispatch_frame env c frame s =
     (let t = fmType frame in
      if t = ''ping'' then
        finished (on_socket c (\<lambda>d. snd (sendEvent ''pong'' (JObj [(''ts'', JInt (fvClock env 4 div 1000))]) (fvClock env 3) d)) s)
      else if t = ''resume'' then handleResume env c frame s
      else if t = ''subscribe'' then handleSubscribe env c frame s
      else if t = ''unsubscribe'' then handleUnsubscribe env c frame s
      else if t = ''message.send'' then handleMessageSend env c frame s
      else if t = ''message.edit'' then handleMessageEdit env c frame s
      else if t = ''message.delete'' then handleMessageDelete env c frame s
      else if t = ''reaction.add'' then handleReaction env c frame True s
      else if t = ''reaction.remove'' then handleReaction env c frame False s
      else if t = ''receipt.read'' then handleReceiptRead env c frame s
      else if t = ''receipt.delivered'' then handleReceiptDelivered env c frame s
      else if t = ''typing.start'' then handleTyping env c frame ''typing'' s
      else if t = ''typing.stop'' then handleTyping env c frame ''stopped'' s
      else if t = ''presence.update'' then handlePresenceUpdate env c frame s
      else if t = ''ack'' then finished s
      else protocol_error (UnknownFrame t) s)"

text \<open>Only the read pump of a socket touches its rate limiter, so the value at the call is current.\<close>

definition HandleFrame :: "FrameEnv \<Rightarrow> Connection \<Rightarrow> Frame \<Rightarrow> Server \<Rightarrow> outcome" where
  "HandleFrame env c frame s =
     (let (cls, key) = rateClass frame in
      if cls = [] then dispatch_frame env c frame s
      else
        let (ok, r) = rate_allow cls key (fvClock env 0) (fvClock env 1) (cnRate c);
            s1 = on_socket c (\<lambda>d. d\<lparr>cnRate := r\<rparr>) s in
        if ok then dispatch_frame env c frame s1
        else
          let s2 = ackError env c (fmID frame) ''RATE_LIMITED'' s1;
              (bad, r') = abusing (fvClock env 2) r;
              s3 = on_socket c (\<lambda>d. d\<lparr>cnRate := r'\<rparr>) s2
          in if bad then protocol_error RateLimitAbuse s3 else finished s3)"

text \<open>
  The body of the read pump for one message of a socket: \<open>Inl\<close> stands for a read that failed.
\<close>

datatype ws_message = TextMessage "json option" | BinaryMessage | ReadFailed

definition read_message :: "FrameEnv \<Rightarrow> string \<Rightarrow> ws_message \<Rightarrow> Server \<Rightarrow> Server" where
  "read_message env i msg s =
     (case gwConns (svGateway s) i of
        None \<Rightarrow> s
      | Some c \<Rightarrow>
          if isClosing c then s
          else
            case msg of
              TextMessage b \<Rightarrow>
                (case Frame_Decode b of
                   Inl _ \<Rightarrow> on_socket c (closeWith CloseProtocol) s
                 | Inr frame \<Rightarrow>
                     (case HandleFrame env c frame s of
                        (Inl _, s1) \<Rightarrow> on_socket c (closeWith CloseProtocol) s1
                      | (Inr _, s1) \<Rightarrow> s1))
            | _ \<Rightarrow> on_socket c (closeWith CloseProtocol) s)"

end
