(* ===== verification/RtHandlerProofs.thy ===== *)
theory RtHandlerProofs
  imports RtHandler ChatRules
begin

text \<open>
  What the frames of a socket do: every accepted frame is answered once, a socket subscribes only
  to conversations its user is a member of, the chat store changes only by transactions of the chat
  module, and what the documented payloads lead to.
\<close>

section \<open>Sockets under the operations of the handler\<close>

definition socket :: "Server \<Rightarrow> string \<Rightarrow> Connection option" where
  "socket s i = gwConns (svGateway s) i"

lemma socket_updates [simp]:
  "socket (s\<lparr>svWorld := w\<rparr>) i = socket s i" "socket (s\<lparr>svPresence := p\<rparr>) i = socket s i"
  "socket (s\<lparr>svTyping := t\<rparr>) i = socket s i" "socket (s\<lparr>svPublished := e\<rparr>) i = socket s i"
  by (simp_all add: socket_def)

lemma socket_on_socket: "socket (on_socket c f s) i = (if i = cnID c then map_option f (socket s i) else socket s i)"
  by (simp add: socket_def on_socket_def on_gateway_def on_conns_def)

lemma socket_subscribe:
  "socket (on_gateway (Subscribe i k) s) j =
     (if j = i then map_option (\<lambda>c. c\<lparr>cnSubscribed := List.insert k (cnSubscribed c)\<rparr>) (socket s j) else socket s j)"
  "socket (on_gateway (Unsubscribe i k) s) j =
     (if j = i then map_option (\<lambda>c. c\<lparr>cnSubscribed := removeAll k (cnSubscribed c)\<rparr>) (socket s j) else socket s j)"
  by (simp_all add: socket_def on_gateway_def Subscribe_def Unsubscribe_def on_conns_def)

lemma world_on_socket [simp]: "svWorld (on_socket c f s) = svWorld s" "svWorld (on_gateway h s) = svWorld s"
  by (simp_all add: on_socket_def on_gateway_def)

lemma on_chat_frame: "on_chat f s = (r, s1) \<Longrightarrow> (\<forall>i. socket s1 i = socket s i) \<and> wRedis (svWorld s1) = wRedis (svWorld s)"
  by (auto simp: on_chat_def Let_def socket_def split: prod.splits)

lemma with_payload_cases:
  assumes "\<And>e. Q (protocol_error e s)" and "\<And>p. Q (k p s)"
  shows "Q (with_payload d frame k s)"
  using assms by (simp add: with_payload_def split: sum.splits)

section \<open>Answers\<close>

text \<open>
  \<open>answered\<close>: the socket, if open and with room, has one more frame in its queue, an acknowledgement
  naming the frame it answers.  \<open>quiet\<close>: its queue is as it was.
\<close>

definition answered :: "string \<Rightarrow> string \<Rightarrow> Server \<Rightarrow> Server \<Rightarrow> bool" where
  "answered i fid s s' \<longleftrightarrow>
     (\<forall>d. socket s i = Some d \<and> cnClosing d = None \<and> length (cnQueue d) < SendBufferSize \<longrightarrow>
        (\<exists>d' f. socket s' i = Some d' \<and> cnClosing d' = None \<and> cnQueue d' = cnQueue d @ [f]
           \<and> (fmType f = ''ack'' \<longrightarrow> (\<exists>x. fmData f = Some x \<and> jfield ''id'' x = Some (JStr fid)))))"

definition quiet :: "string \<Rightarrow> Server \<Rightarrow> Server \<Rightarrow> bool" where
  "quiet i s s' \<longleftrightarrow> (\<forall>d. socket s i = Some d \<longrightarrow>
     (\<exists>d'. socket s' i = Some d' \<and> cnClosing d' = cnClosing d \<and> cnQueue d' = cnQueue d))"

lemma quiet_answered: "quiet i s s1 \<Longrightarrow> answered i fid s1 s2 \<Longrightarrow> answered i fid s s2"
  unfolding quiet_def answered_def by metis

lemma quiet_refl [simp]: "quiet i s s"
  by (simp add: quiet_def)

lemma quiet_trans: "quiet i s s1 \<Longrightarrow> quiet i s1 s2 \<Longrightarrow> quiet i s s2"
  unfolding quiet_def by metis

lemma quiet_same: "(\<And>j. socket s1 j = socket s j) \<Longrightarrow> quiet i s s1"
  by (simp add: quiet_def)

lemma answered_send:
  "typ \<noteq> ''ack'' \<Longrightarrow> answered (cnID c) fid s (on_socket c (\<lambda>d. snd (sendEvent typ data now d)) s)"
  by (auto simp: answered_def socket_on_socket sendEvent_def stamp_def enqueue_def isClosing_def Let_def)

lemma answered_ack: "answered (cnID c) fid s (on_socket c (ack fid result code now) s)"
  by (auto simp: answered_def socket_on_socket ack_def ack_data_def sendEvent_def stamp_def enqueue_def isClosing_def Let_def)

lemma answered_resume: "answered (cnID c) fid s (on_socket c (\<lambda>d. snd (sendResumeAck a b evs now d)) s)"
  by (auto simp: answered_def socket_on_socket sendResumeAck_def enqueue_def isClosing_def Let_def split: prod.splits)

lemmas answers = answered_send answered_ack answered_resume

text \<open>An outcome is answered when it is an error or its state is.\<close>

definition outcome_answered :: "Connection \<Rightarrow> Frame \<Rightarrow> Server \<Rightarrow> outcome \<Rightarrow> bool" where
  "outcome_answered c frame s x \<longleftrightarrow> (case x of (Inl _, _) \<Rightarrow> True | (Inr _, s') \<Rightarrow> answered (cnID c) (fmID frame) s s')"

lemma outcome_simps [simp]:
  "outcome_answered c frame s (protocol_error e s')"
  "outcome_answered c frame s (finished s') = answered (cnID c) (fmID frame) s s'"
  by (simp_all add: outcome_answered_def protocol_error_def finished_def)

lemma outcome_result: "quiet (cnID c) s s' \<Longrightarrow> outcome_answered c frame s (ack_result env c (fmID frame) render r s')"
  by (auto simp: ack_result_def ackChatError_def ackError_def ack_ok_def intro: quiet_answered answers split: sum.splits)

lemma answered_ok: "quiet (cnID c) s s' \<Longrightarrow> answered (cnID c) fid s (ack_ok env c fid j s')"
  unfolding ack_ok_def by (rule quiet_answered [OF _ answered_ack])

lemma answered_fail: "quiet (cnID c) s s' \<Longrightarrow> answered (cnID c) fid s (ackError env c fid code s')"
  unfolding ackError_def by (rule quiet_answered [OF _ answered_ack])

lemma outcome_payload:
  "(\<And>p. outcome_answered c frame s (k p s)) \<Longrightarrow> outcome_answered c frame s (with_payload d frame k s)"
  by (rule with_payload_cases) simp_all

lemma subscribe_loop_quiet: "subscribe_loop env c k ids s = (r, s') \<Longrightarrow> quiet (cnID c) s s'"
proof (induction env c k ids s arbitrary: r s' rule: subscribe_loop.induct)
  case (2 env c k convID ids s)
  show ?case
  proof (cases "GetConversation (fvChat env k) (cnUserID c) convID (wDB (svWorld s))")
    case (Inl e)
    with 2 show ?thesis by (auto split: if_splits)
  next
    case (Inr x)
    define s1 where "s1 = on_gateway (Subscribe (cnID c) convID) s"
    define s2 where "s2 = s1\<lparr>svPresence := SetConversation presence_defaults (fvEphemeral env k) (cnUserID c) convID (svPresence s1)\<rparr>"
    obtain r2 where r: "subscribe_loop env c (Suc k) ids s2 = (r2, s')"
      using 2(3) Inr by (auto simp: Let_def s1_def s2_def split: prod.splits)
    have "quiet (cnID c) s s2" by (auto simp: quiet_def s1_def s2_def socket_subscribe)
    moreover have "quiet (cnID c) s2 s'" using 2(2) [OF Inr refl refl] r by (simp add: s1_def s2_def)
    ultimately show ?thesis by (rule quiet_trans)
  qed
qed simp

lemma dispatch_answered:
  assumes "fmType frame \<noteq> ''ack''"
  shows "outcome_answered c frame s (dispatch_frame env c frame s)"
proof -
  have resume: "outcome_answered c frame s (handleResume env c frame s)"
    unfolding handleResume_def by (rule outcome_payload) (auto intro: answers)
  have subscribe: "outcome_answered c frame s (handleSubscribe env c frame s)"
    unfolding handleSubscribe_def
    by (rule outcome_payload)
      (auto intro: answered_ok answered_fail subscribe_loop_quiet split: prod.splits option.splits)
  have unsubscribe: "outcome_answered c frame s (handleUnsubscribe env c frame s)"
    unfolding handleUnsubscribe_def Let_def
    by (rule outcome_payload) (auto simp: quiet_def socket_subscribe intro!: answered_ok)
  have send: "outcome_answered c frame s (handleMessageSend env c frame s)"
    unfolding handleMessageSend_def
    by (rule outcome_payload) (auto simp: Let_def intro!: outcome_result quiet_same split: prod.splits)
  have chat: "outcome_answered c frame s (handleMessageEdit env c frame s)"
    "outcome_answered c frame s (handleMessageDelete env c frame s)"
    "outcome_answered c frame s (handleReaction env c frame add s)"
    "outcome_answered c frame s (handleReceiptRead env c frame s)" for add
    unfolding handleMessageEdit_def handleMessageDelete_def handleReaction_def handleReceiptRead_def
    by (rule outcome_payload, auto simp: Let_def intro!: outcome_result quiet_same dest: on_chat_frame split: prod.splits)+
  have rest: "outcome_answered c frame s (handleReceiptDelivered env c frame s)"
    "outcome_answered c frame s (handleTyping env c frame status s)"
    "outcome_answered c frame s (handlePresenceUpdate env c frame s)" for status
    unfolding handleReceiptDelivered_def handleTyping_def handlePresenceUpdate_def ackChatError_def
    by (rule outcome_payload, auto simp: Let_def intro!: answered_ok answered_fail quiet_same split: prod.splits sum.splits)+
  from resume subscribe unsubscribe send chat rest assms show ?thesis
    unfolding dispatch_frame_def Let_def by (simp add: answered_send)
qed

lemma limited_answered:
  assumes "rateClass frame = (cls, key)" and "cls \<noteq> []"
    and "rate_allow cls key (fvClock env 0) (fvClock env 1) (cnRate c) = (ok, r)"
  shows "outcome_answered c frame s (HandleFrame env c frame s)"
proof -
  let ?s1 = "on_socket c (\<lambda>d. d\<lparr>cnRate := r\<rparr>) s"
  have q: "quiet (cnID c) s ?s1" by (auto simp: quiet_def socket_on_socket)
  have "fmType frame \<noteq> ''ack''" using assms(1,2) by (auto simp: rateClass_def)
  note d = dispatch_answered [OF this, of c ?s1 env]
  obtain x s2 where x: "dispatch_frame env c frame ?s1 = (x, s2)" by fastforce
  show ?thesis
  proof (cases ok)
    case True
    with assms x d q show ?thesis
      by (auto simp: HandleFrame_def outcome_answered_def intro: quiet_answered split: sum.splits)
  next
    case False
    let ?s2 = "ackError env c (fmID frame) ''RATE_LIMITED'' ?s1"
    obtain bad r' where b: "abusing (fvClock env 2) r = (bad, r')" by fastforce
    have "answered (cnID c) (fmID frame) s ?s2" unfolding ackError_def by (rule quiet_answered [OF q answered_ack])
    then have "answered (cnID c) (fmID frame) s (on_socket c (\<lambda>d. d\<lparr>cnRate := r'\<rparr>) ?s2)"
      unfolding answered_def socket_on_socket by fastforce
    with assms False b show ?thesis by (simp add: HandleFrame_def Let_def)
  qed
qed

lemma exempt_answered:
  assumes "rateClass frame = ([], key)" and "fmType frame \<noteq> ''ack''"
  shows "outcome_answered c frame s (HandleFrame env c frame s)"
  using dispatch_answered [OF assms(2)] assms(1) by (simp add: HandleFrame_def)


section \<open>What a socket subscribes to\<close>

definition subscriptions :: "Server \<Rightarrow> string \<Rightarrow> go_int set" where
  "subscriptions s i = (case socket s i of None \<Rightarrow> {} | Some c \<Rightarrow> set (cnSubscribed c))"

text \<open>\<open>admits u s s'\<close>: the subscriptions of \<open>s'\<close> beyond those of \<open>s\<close> are of the socket, to conversations of its user.\<close>

definition admits :: "Connection \<Rightarrow> Server \<Rightarrow> Server \<Rightarrow> bool" where
  "admits c s s' \<longleftrightarrow> (\<forall>j k. k \<in> subscriptions s' j \<longrightarrow>
     k \<in> subscriptions s j \<or> j = cnID c \<and> active_member (wDB (svWorld s)) k (cnUserID c))"

lemma admits_same: "(\<And>j. subscriptions s' j \<subseteq> subscriptions s j) \<Longrightarrow> admits c s s'"
  by (auto simp: admits_def)

lemma admits_refl [simp]: "admits c s s"
  by (rule admits_same) simp

lemma admits_trans: "admits c s s1 \<Longrightarrow> svWorld s1 = svWorld s \<Longrightarrow> admits c s1 s2 \<Longrightarrow> admits c s s2"
  unfolding admits_def by metis

lemma subscriptions_on_socket:
  "(\<And>d. set (cnSubscribed (f d)) \<subseteq> set (cnSubscribed d)) \<Longrightarrow> subscriptions (on_socket c f s) j \<subseteq> subscriptions s j"
  by (auto simp: subscriptions_def socket_on_socket split: option.splits)

lemma subscriptions_updates [simp]:
  "subscriptions (s\<lparr>svWorld := w\<rparr>) i = subscriptions s i" "subscriptions (s\<lparr>svPresence := p\<rparr>) i = subscriptions s i"
  "subscriptions (s\<lparr>svTyping := t\<rparr>) i = subscriptions s i" "subscriptions (s\<lparr>svPublished := e\<rparr>) i = subscriptions s i"
  by (simp_all add: subscriptions_def)

lemma send_subscribed [simp]:
  "cnSubscribed (snd (sendEvent typ data now d)) = cnSubscribed d" "cnSubscribed (ack i r e now d) = cnSubscribed d"
  "cnSubscribed (snd (sendResumeAck a b evs now d)) = cnSubscribed d" "cnSubscribed (closeWith code d) = cnSubscribed d"
  by (auto simp: ack_def sendEvent_def stamp_def enqueue_def closeWith_def drop_socket_def sendResumeAck_def Let_def
      split: prod.splits)

lemma subscriptions_acks [simp]:
  "subscriptions (ack_ok env c i r s) j \<subseteq> subscriptions s j" "subscriptions (ackError env c i code s) j \<subseteq> subscriptions s j"
  "subscriptions (ackChatError env c i e s) j \<subseteq> subscriptions s j"
  by (auto simp: ack_ok_def ackError_def ackChatError_def intro: subscriptions_on_socket [THEN subsetD, rotated])

lemma subscriptions_marks [simp]:
  "subscriptions (on_socket c (closeWith code) s) j \<subseteq> subscriptions s j"
  "subscriptions (on_socket c (\<lambda>d. d\<lparr>cnRate := r\<rparr>) s) j \<subseteq> subscriptions s j"
  by (rule subscriptions_on_socket, simp)+

lemma admits_then: "admits c s s1 \<Longrightarrow> (\<And>j. subscriptions s2 j \<subseteq> subscriptions s1 j) \<Longrightarrow> admits c s s2"
  unfolding admits_def by blast

lemma GetConversation_active: "GetConversation env u k db = Inr x \<Longrightarrow> active_member db k u"
  by (auto simp: GetConversation_def conversationDetailFor_def Let_def
      dest!: requireMember_active FindByID_kinds)

lemma subscribe_admits:
  "admits c s (on_gateway (Subscribe (cnID c) k) s)" if "active_member (wDB (svWorld s)) k (cnUserID c)"
  using that by (auto simp: admits_def subscriptions_def socket_subscribe split: option.splits if_splits)

lemma subscribe_loop_admits: "subscribe_loop env c n ids s = (r, s') \<Longrightarrow> admits c s s' \<and> svWorld s' = svWorld s"
proof (induction env c n ids s arbitrary: r s' rule: subscribe_loop.induct)
  case (2 env c n k ids s)
  show ?case
  proof (cases "GetConversation (fvChat env n) (cnUserID c) k (wDB (svWorld s))")
    case (Inl e)
    with 2 show ?thesis by (auto split: if_splits)
  next
    case (Inr x)
    define s1 where "s1 = on_gateway (Subscribe (cnID c) k) s"
    define s2 where "s2 = s1\<lparr>svPresence := SetConversation presence_defaults (fvEphemeral env n) (cnUserID c) k (svPresence s1)\<rparr>"
    obtain r2 where r: "subscribe_loop env c (Suc n) ids s2 = (r2, s')"
      using 2(3) Inr by (auto simp: Let_def s1_def s2_def split: prod.splits)
    have "admits c s s1" unfolding s1_def by (rule subscribe_admits [OF GetConversation_active [OF Inr]])
    then have a: "admits c s s2" by (rule admits_then) (simp add: s2_def)
    have w: "svWorld s2 = svWorld s" by (simp add: s2_def s1_def)
    have "admits c s2 s' \<and> svWorld s' = svWorld s2" using 2(2) [OF Inr refl refl] r by (simp add: s1_def s2_def)
    then show ?thesis using admits_trans [OF a w] w by simp
  qed
qed simp

lemma admits_ack: "(\<And>j. subscriptions s' j \<subseteq> subscriptions s j) \<Longrightarrow> admits c s (ack_ok env c i r s')"
  "(\<And>j. subscriptions s' j \<subseteq> subscriptions s j) \<Longrightarrow> admits c s (ackError env c i code s')"
  by (rule admits_then [OF admits_same subscriptions_acks(1)], assumption,
      rule admits_then [OF admits_same subscriptions_acks(2)], assumption)

lemma admits_result: "(\<And>j. subscriptions s' j = subscriptions s j) \<Longrightarrow> admits c s (snd (ack_result env c i render r s'))"
  by (cases r) (simp_all add: ack_result_def finished_def ackChatError_def admits_ack)

lemma admits_send: "admits c s (on_socket c (\<lambda>d. snd (sendEvent typ data now d)) s)"
  "admits c s (on_socket c (\<lambda>d. snd (sendResumeAck a b evs now d)) s)"
  "admits c s (on_socket c (closeWith code) s)" "admits c s (on_socket c (\<lambda>d. d\<lparr>cnRate := r\<rparr>) s)"
  by (rule admits_same, rule subscriptions_on_socket, simp)+

lemma snd_outcome [simp]: "snd (finished s) = s" "snd (protocol_error e s) = s"
  by (simp_all add: finished_def protocol_error_def)

lemma subscriptions_on_chat: "on_chat f s = (r, s1) \<Longrightarrow> subscriptions s1 j = subscriptions s j"
  using on_chat_frame by (fastforce simp: subscriptions_def)

lemma admits_payload: "(\<And>p. admits c s (snd (k p s))) \<Longrightarrow> admits c s (snd (with_payload d frame k s))"
  by (rule with_payload_cases) simp_all

lemma dispatch_admits: "admits c s (snd (dispatch_frame env c frame s))"
proof -
  have resume: "admits c s (snd (handleResume env c frame s))"
    unfolding handleResume_def by (rule admits_payload) (simp add: admits_send)
  have subscribe: "admits c s (snd (handleSubscribe env c frame s))"
    unfolding handleSubscribe_def
  proof (rule admits_payload)
    fix ids
    obtain r s1 where l: "subscribe_loop env c 0 ids s = (r, s1)" by fastforce
    then have "admits c s s1" using subscribe_loop_admits by blast
    then show "admits c s (snd (case subscribe_loop env c 0 ids s of
        (None, s1) \<Rightarrow> finished (ackError env c (fmID frame) ''CONVERSATION_NOT_FOUND'' s1)
      | (Some subscribed, s1) \<Rightarrow> finished (ack_ok env c (fmID frame) (JObj [(''subscribed'', JArr (map JInt subscribed))]) s1)))"
      by (cases r) (simp_all add: l admits_then [OF _ subscriptions_acks(1)] admits_then [OF _ subscriptions_acks(2)])
  qed
  have unsubscribe: "admits c s (snd (handleUnsubscribe env c frame s))"
    unfolding handleUnsubscribe_def Let_def snd_outcome
    by (rule admits_payload, simp, rule admits_ack)
      (auto simp: subscriptions_def socket_subscribe split: option.splits if_splits)
  have send: "admits c s (snd (handleMessageSend env c frame s))"
    unfolding handleMessageSend_def by (rule admits_payload) (auto simp: Let_def intro!: admits_result split: prod.splits)
  have chat: "admits c s (snd (handleMessageEdit env c frame s))"
    "admits c s (snd (handleMessageDelete env c frame s))" "admits c s (snd (handleReaction env c frame add s))"
    "admits c s (snd (handleReceiptRead env c frame s))" for add
    unfolding handleMessageEdit_def handleMessageDelete_def handleReaction_def handleReceiptRead_def
    by (rule admits_payload, auto simp: Let_def intro!: admits_result dest: subscriptions_on_chat split: prod.splits)+
  have rest: "admits c s (snd (handleReceiptDelivered env c frame s))"
    "admits c s (snd (handleTyping env c frame status s))" "admits c s (snd (handlePresenceUpdate env c frame s))" for status
    unfolding handleReceiptDelivered_def handleTyping_def handlePresenceUpdate_def ackChatError_def
    by (rule admits_payload, auto simp: Let_def intro!: admits_ack split: prod.splits sum.splits)+
  from resume subscribe unsubscribe send chat rest show ?thesis
    unfolding dispatch_frame_def Let_def by (simp add: admits_send)
qed

lemma HandleFrame_admits: "admits c s (snd (HandleFrame env c frame s))"
proof -
  obtain cls key where k: "rateClass frame = (cls, key)" by fastforce
  obtain ok r where r: "rate_allow cls key (fvClock env 0) (fvClock env 1) (cnRate c) = (ok, r)" by fastforce
  obtain bad r' where b: "abusing (fvClock env 2) r = (bad, r')" by fastforce
  let ?s1 = "on_socket c (\<lambda>d. d\<lparr>cnRate := r\<rparr>) s"
  have a: "admits c s ?s1" by (rule admits_send)
  have "admits c s (snd (dispatch_frame env c frame ?s1))"
    using admits_trans [OF a _ dispatch_admits] by simp
  moreover have "admits c s (on_socket c (\<lambda>d. d\<lparr>cnRate := r'\<rparr>) (ackError env c (fmID frame) ''RATE_LIMITED'' ?s1))"
    by (rule admits_then [OF admits_then [OF a subscriptions_acks(2)] subscriptions_marks(2)])
  ultimately show ?thesis using k r b dispatch_admits by (simp add: HandleFrame_def Let_def)
qed

text \<open>
  C27. Only members listen: whatever message comes in on a socket, a conversation it adds to the
  subscriptions of any socket is one the socket's own user is an active member of at that time, and
  no other socket gains any.
\<close>

theorem only_members_subscribe:
  assumes "gwConns (svGateway s) i = Some c" "cnID c = i"
    and "gwConns (svGateway (read_message env i msg s)) j = Some d" and "k \<in> set (cnSubscribed d)"
  shows "(\<exists>d0. gwConns (svGateway s) j = Some d0 \<and> k \<in> set (cnSubscribed d0))
       \<or> (j = i \<and> active_member (wDB (svWorld s)) k (cnUserID c))"
proof -
  have close: "admits c s' s'' \<Longrightarrow> admits c s' (on_socket c (closeWith CloseProtocol) s'')" for s' s''
    by (rule admits_then [OF _ subscriptions_marks(1)])
  have "admits c s (read_message env i msg s)"
    using HandleFrame_admits [of c s env] assms(1)
    by (auto simp: read_message_def intro!: close split: ws_message.splits sum.splits prod.splits)
      (metis snd_conv)+
  moreover have "k \<in> subscriptions (read_message env i msg s) j" using assms(3,4) by (simp add: subscriptions_def socket_def)
  ultimately have "k \<in> subscriptions s j \<or> j = i \<and> active_member (wDB (svWorld s)) k (cnUserID c)"
    using assms(2) by (auto simp: admits_def)
  then show ?thesis by (auto simp: subscriptions_def socket_def split: option.splits)
qed

section \<open>Examples\<close>

definition demo_server :: Server where
  "demo_server = \<lparr>svGateway = demo_hub, svWorld = demo_world, svReplay = newReplayBuffer DefaultReplayConfig,
     svPresence = empty_presence, svTyping = empty_typing, svPublished = []\<rparr>"

definition demo_frame_env :: FrameEnv where
  "demo_frame_env = \<lparr>fvClock = (\<lambda>_. 1000000), fvChat = (\<lambda>_. healthy_env 5 1), fvSend = healthy_send 5 100,
     fvHead = Some 9, fvEphemeral = (\<lambda>_. \<lparr>peNow = 0, peInstance = ''a'', peDown = False\<rparr>)\<rparr>"

definition client_frame :: "string \<Rightarrow> json \<Rightarrow> Frame" where
  "client_frame typ data = \<lparr>fmVersion = 1, fmID = ''m-1'', fmType = typ, fmSeq = None, fmAt = 0, fmData = Some data\<rparr>"

definition laptop :: Connection where
  "laptop = newConnection ''c-2'' 11 7002 ''laptop''"

lemma laptop_socket: "gwConns (svGateway demo_server) ''c-2'' = Some laptop" "socket demo_server ''c-2'' = Some laptop"
  by (simp_all add: socket_def demo_server_def demo_hub_eval laptop_def)

lemma laptop_simps [simp]:
  "cnID laptop = ''c-2''" "cnUserID laptop = 11" "cnSubscribed laptop = []" "cnClosing laptop = None" "cnQueue laptop = []"
  "cnRate laptop = newConnRate"
  by (simp_all add: laptop_def newConnection_def)

lemma standard_allowed:
  "\<exists>r. rate_allow ''standard'' [] t u newConnRate = (True, r)"
  by (simp add: rate_allow_def newConnRate_def limiter_allow_def newLimiter_def budgetFor_def take_token_def refilled_def
      newTokenBucket_def Let_def)

lemma demo_conversation_open:
  "\<exists>x. GetConversation (healthy_env t i) 11 1 demo_db = Inr x"
proof -
  obtain conv where f: "ConversationFindByID no_faults demo_db 1 = Inr conv" using FindByID_live [OF demo_live(1)] by blast
  then have i: "cID conv = 1" using FindByID_kinds by blast
  obtain m where m: "requireMember no_faults demo_db 1 11 = Inr m"
    using requireMember_ok [OF _ demo_members(2), of no_faults] by (auto simp: no_faults_def)
  have "call no_faults k = Inr ()" for k by (simp add: call_def no_faults_def)
  then show ?thesis
    by (simp add: GetConversation_def f conversationDetailFor_def i m CountActive_def first_members_def MemberList_def Let_def)
qed

definition demo_subscribe :: "json" where
  "demo_subscribe = JObj [(''v'', JInt 1), (''id'', JStr ''m-1''), (''type'', JStr ''subscribe''),
     (''data'', JObj [(''conversation_ids'', JArr [JInt 1])])]"


lemma demo_subscribe_frame:
  "Frame_Decode (Some demo_subscribe) = Inr (client_frame ''subscribe'' (JObj [(''conversation_ids'', JArr [JInt 1])]))"
  by code_simp

lemma subscribe_payload:
  "decodeData subscribe_fields (client_frame ''subscribe'' (JObj [(''conversation_ids'', JArr [JInt 1])])) = Inr [1]"
  by code_simp

text \<open>User 11 subscribes the laptop to the group; the frame is answered.\<close>

lemma demo_subscribed:
  obtains r where "HandleFrame demo_frame_env laptop (client_frame ''subscribe'' (JObj [(''conversation_ids'', JArr [JInt 1])])) demo_server
      = (Inr (), r)" and "1 \<in> subscriptions r ''c-2''"
proof -
  let ?f = "client_frame ''subscribe'' (JObj [(''conversation_ids'', JArr [JInt 1])])"
  obtain q where q: "rate_allow ''standard'' [] 1000000 1000000 newConnRate = (True, q)" using standard_allowed by blast
  let ?s1 = "on_socket laptop (\<lambda>d. d\<lparr>cnRate := q\<rparr>) demo_server"
  obtain x where g: "GetConversation (healthy_env 5 1) 11 1 demo_db = Inr x" using demo_conversation_open by blast
  have w: "wDB (svWorld ?s1) = demo_db" by (simp add: demo_server_def demo_world_def)
  obtain s2 where l: "subscribe_loop demo_frame_env laptop 0 [1] ?s1 = (Some [1], s2)" and "1 \<in> subscriptions s2 ''c-2''"
    using g w laptop_socket(2) by (simp add: demo_frame_env_def Let_def subscriptions_def socket_subscribe socket_on_socket)
  moreover have "subscriptions (ack_ok demo_frame_env laptop ''m-1'' j s2) ''c-2'' = subscriptions s2 ''c-2''" for j
    by (simp add: subscriptions_def ack_ok_def socket_on_socket split: option.splits)
  ultimately show ?thesis
    using that subscribe_payload q
    by (simp add: HandleFrame_def rateClass_def client_frame_def [of "''subscribe''"] dispatch_frame_def handleSubscribe_def with_payload_def
        demo_frame_env_def finished_def)
qed


theorem only_members_subscribe_witness:
  "\<exists>d. gwConns (svGateway (read_message demo_frame_env ''c-2'' (TextMessage (Some demo_subscribe)) demo_server)) ''c-2'' = Some d
     \<and> 1 \<in> set (cnSubscribed d) \<and> active_member (wDB (svWorld demo_server)) 1 (cnUserID laptop)"
proof (rule demo_subscribed)
  fix r
  assume h: "HandleFrame demo_frame_env laptop (client_frame ''subscribe'' (JObj [(''conversation_ids'', JArr [JInt 1])])) demo_server
      = (Inr (), r)" and s: "1 \<in> subscriptions r ''c-2''"
  have e: "read_message demo_frame_env ''c-2'' (TextMessage (Some demo_subscribe)) demo_server = r"
    using laptop_socket h by (simp add: read_message_def isClosing_def demo_subscribe_frame)
  obtain d where d: "gwConns (svGateway r) ''c-2'' = Some d" "1 \<in> set (cnSubscribed d)"
    using s by (auto simp: subscriptions_def socket_def split: option.splits)
  from only_members_subscribe [OF laptop_socket(1) _ d(1) [folded e] d(2)] laptop_socket(1) d e show ?thesis by auto
qed

section \<open>The documented payloads\<close>

text \<open>
  The API documents the ids of a frame as JSON strings.  No int64 member takes one, so a frame as
  documented, if it is not turned away by its budget, is a protocol error and closes the socket.
\<close>

definition sends_string_id :: "Frame \<Rightarrow> bool" where
  "sends_string_id frame \<longleftrightarrow> (\<exists>kvs x. fmData frame = Some (JObj kvs)
     \<and> map_of kvs ''conversation_id'' = Some (JStr x)
     \<and> fmType frame \<in> {''unsubscribe'', ''message.send'', ''message.edit'', ''message.delete'', ''reaction.add'', ''reaction.remove'',
          ''receipt.read'', ''receipt.delivered'', ''typing.start'', ''typing.stop''})"

lemma string_id_fails:
  assumes "fmData frame = Some (JObj kvs)" and "map_of kvs ''conversation_id'' = Some (JStr x)"
  shows "decodeData conversation_field frame = Inl InvalidData" "decodeData send_fields frame = Inl InvalidData"
    "decodeData edit_fields frame = Inl InvalidData" "decodeData delete_fields frame = Inl InvalidData"
    "decodeData reaction_fields frame = Inl InvalidData" "decodeData receipt_fields frame = Inl InvalidData"
proof -
  have f: "decode_member get_int ''conversation_id'' kvs a = None" for a by (rule decode_member_string_id [OF assms(2)])
  then have "conversation_field kvs = None" "send_fields kvs = None" "edit_fields kvs = None" "delete_fields kvs = None"
    "reaction_fields kvs = None" "receipt_fields kvs = None"
    by (simp_all add: conversation_field_def send_fields_def edit_fields_def delete_fields_def reaction_fields_def receipt_fields_def
        obind_def split: option.splits)
  then show "decodeData conversation_field frame = Inl InvalidData" "decodeData send_fields frame = Inl InvalidData"
    "decodeData edit_fields frame = Inl InvalidData" "decodeData delete_fields frame = Inl InvalidData"
    "decodeData reaction_fields frame = Inl InvalidData" "decodeData receipt_fields frame = Inl InvalidData"
    by (simp_all add: decodeData_def assms(1) payload_members_def)
qed

lemma documented_ids_close_socket:
  assumes "gwConns (svGateway s) i = Some c" "cnID c = i" "cnClosing c = None"
    and "Frame_Decode text = Inr frame" "sends_string_id frame"
    and "fst (rate_allow (fst (rateClass frame)) (snd (rateClass frame)) (fvClock env 0) (fvClock env 1) (cnRate c))"
  shows "\<exists>d. gwConns (svGateway (read_message env i (TextMessage text) s)) i = Some d \<and> cnClosing d = Some CloseProtocol
       \<and> svWorld (read_message env i (TextMessage text) s) = svWorld s"
proof -
  obtain kvs x where k: "fmData frame = Some (JObj kvs)" "map_of kvs ''conversation_id'' = Some (JStr x)"
    and t: "fmType frame \<in> {''unsubscribe'', ''message.send'', ''message.edit'', ''message.delete'', ''reaction.add'', ''reaction.remove'',
          ''receipt.read'', ''receipt.delivered'', ''typing.start'', ''typing.stop''}"
    using assms(5) by (auto simp: sends_string_id_def)
  note f = string_id_fails [OF k]
  have d: "dispatch_frame env c frame s' = (Inl InvalidData, s')" for s'
    using t f by (auto simp: dispatch_frame_def with_payload_def protocol_error_def handleUnsubscribe_def handleMessageSend_def
        handleMessageEdit_def handleMessageDelete_def handleReaction_def handleReceiptRead_def handleReceiptDelivered_def handleTyping_def)
  obtain cls key where r: "rateClass frame = (cls, key)" by fastforce
  obtain q where q: "rate_allow cls key (fvClock env 0) (fvClock env 1) (cnRate c) = (True, q)"
    using assms(6) r by (cases "rate_allow cls key (fvClock env 0) (fvClock env 1) (cnRate c)") auto
  obtain s1 where h: "HandleFrame env c frame s = (Inl InvalidData, s1)" "svWorld s1 = svWorld s"
    and c1: "socket s1 i = Some c \<or> socket s1 i = Some (c\<lparr>cnRate := q\<rparr>)"
  proof (cases "cls = []")
    case True
    with that d r assms(1) show ?thesis by (simp add: HandleFrame_def socket_def)
  next
    case False
    with that [of "on_socket c (\<lambda>d. d\<lparr>cnRate := q\<rparr>) s"] d r q assms(1,2) show ?thesis
      by (simp add: HandleFrame_def socket_on_socket) (simp add: socket_def)
  qed
  have e: "read_message env i (TextMessage text) s = on_socket c (closeWith CloseProtocol) s1"
    using assms(1,3,4) h by (simp add: read_message_def isClosing_def)
  obtain d where "socket s1 i = Some d" "cnClosing d = None" using c1 assms(3) by auto
  then have "socket (on_socket c (closeWith CloseProtocol) s1) i = Some (d\<lparr>cnClosing := Some CloseProtocol\<rparr>)"
    using assms(2) by (simp add: socket_on_socket closeWith_def isClosing_def)
  then show ?thesis using h(2) unfolding e socket_def by simp
qed

definition documented_receipt :: json where
  "documented_receipt = JObj [(''v'', JInt 1), (''id'', JStr ''m-2''), (''type'', JStr ''receipt.delivered''),
     (''data'', JObj [(''conversation_id'', JStr ''2001''), (''last_delivered_seq'', JStr ''410'')])]"

lemma documented_receipt_frame:
  "Frame_Decode (Some documented_receipt) =
     Inr \<lparr>fmVersion = 1, fmID = ''m-2'', fmType = ''receipt.delivered'', fmSeq = None, fmAt = 0,
          fmData = Some (JObj [(''conversation_id'', JStr ''2001''), (''last_delivered_seq'', JStr ''410'')])\<rparr>"
  by code_simp

lemma documented_ids_close_socket_example:
  "\<exists>d. gwConns (svGateway (read_message demo_frame_env ''c-2'' (TextMessage (Some documented_receipt)) demo_server)) ''c-2'' = Some d
     \<and> cnClosing d = Some CloseProtocol"
proof -
  let ?f = "\<lparr>fmVersion = 1, fmID = ''m-2'', fmType = ''receipt.delivered'', fmSeq = None, fmAt = 0,
          fmData = Some (JObj [(''conversation_id'', JStr ''2001''), (''last_delivered_seq'', JStr ''410'')])\<rparr>"
  have "fst (rate_allow (fst (rateClass ?f)) (snd (rateClass ?f)) (fvClock demo_frame_env 0) (fvClock demo_frame_env 1) (cnRate laptop))"
    by (simp add: rateClass_def rate_allow_def newConnRate_def limiter_allow_def newLimiter_def budgetFor_def take_token_def
        refilled_def newTokenBucket_def Let_def)
  moreover have "sends_string_id ?f" by (simp add: sends_string_id_def)
  ultimately show ?thesis
    using documented_ids_close_socket [OF laptop_socket(1) _ _ documented_receipt_frame] by fastforce
qed

end
