(* ===== verification/RtDedupe.thy ===== *)
theory RtDedupe
  imports Prelude "HOL-Library.Sublist"
begin

text \<open>
  The dedupe window of the dispatcher (\<open>dedupeSet\<close> in \<open>dispatcher.go\<close>): a bounded first-in
  first-out memory of the global sequences seen.  \<open>duplicate_filter\<close> is the contract a consumer
  of an at-least-once stream needs of such a memory, its client the exactly-once lemma.
\<close>

section \<open>The window\<close>

record dedupeSet =
  dsSeen :: "go_int set"
  dsOrder :: "go_int list"
  dsMax :: nat

definition newDedupeSet :: "nat \<Rightarrow> dedupeSet" where
  "newDedupeSet mx = \<lparr>dsSeen = {}, dsOrder = [], dsMax = mx\<rparr>"

definition dedupe_add :: "go_int \<Rightarrow> dedupeSet \<Rightarrow> bool \<times> dedupeSet" where
  "dedupe_add s d =
     (if s \<in> dsSeen d then (False, d)
      else
        let seen = insert s (dsSeen d); order = dsOrder d @ [s] in
        if length order > dsMax d
        then (True, d\<lparr>dsSeen := seen - {hd order}, dsOrder := tl order\<rparr>)
        else (True, d\<lparr>dsSeen := seen, dsOrder := order\<rparr>))"

definition dedupe_ok :: "dedupeSet \<Rightarrow> bool" where
  "dedupe_ok d \<longleftrightarrow> dsSeen d = set (dsOrder d) \<and> distinct (dsOrder d) \<and> length (dsOrder d) \<le> dsMax d"

text \<open>The specification: the last \<open>n\<close> accepted sequences.\<close>

definition take_last :: "nat \<Rightarrow> 'a list \<Rightarrow> 'a list" where
  "take_last n xs = drop (length xs - n) xs"

definition remember :: "nat \<Rightarrow> 'a \<Rightarrow> 'a list \<Rightarrow> 'a list" where
  "remember n x xs = (if x \<in> set xs then xs else take_last n (xs @ [x]))"

lemma dedupe_new_ok: "dedupe_ok (newDedupeSet mx)"
  by (simp add: newDedupeSet_def dedupe_ok_def)

lemma dedupe_add_spec:
  assumes "dedupe_ok d" and "dedupe_add s d = (new, d')"
  shows "dedupe_ok d' \<and> new = (s \<notin> set (dsOrder d)) \<and> dsOrder d' = remember (dsMax d) s (dsOrder d) \<and> dsMax d' = dsMax d"
proof (cases "s \<in> set (dsOrder d)")
  case True
  with assms show ?thesis by (auto simp: dedupe_add_def dedupe_ok_def remember_def)
next
  case new: False
  show ?thesis
  proof (cases "dsMax d < Suc (length (dsOrder d))")
    case True
    then have l: "length (dsOrder d) = dsMax d" using assms(1) by (simp add: dedupe_ok_def)
    define ord where "ord = dsOrder d @ [s]"
    have d': "new = True" "d' = d\<lparr>dsSeen := insert s (dsSeen d) - {hd ord}, dsOrder := tl ord\<rparr>"
      using assms True new by (auto simp: dedupe_add_def dedupe_ok_def Let_def ord_def)
    have do: "distinct ord" using assms(1) new by (simp add: dedupe_ok_def ord_def)
    obtain a xs where ax: "ord = a # xs" by (cases ord) (auto simp: ord_def)
    have e: "insert s (set (dsOrder d)) = set ord" by (simp add: ord_def)
    have "insert s (set (dsOrder d)) - {hd ord} = set (tl ord)" "distinct (tl ord)"
      using do unfolding e ax by simp_all
    moreover have "length (tl ord) = dsMax d" by (simp add: ord_def l)
    moreover have "length ord - dsMax d = Suc 0" using l by (simp add: ord_def)
    then have "tl ord = take_last (dsMax d) ord" by (simp only: take_last_def drop_Suc drop_0)
    moreover have "dsSeen d = set (dsOrder d)" using assms(1) by (simp add: dedupe_ok_def)
    ultimately show ?thesis
      using new by (simp only: d' dedupe_ok_def remember_def ord_def [symmetric]) simp
  next
    case False
    have d': "new = True" "d' = d\<lparr>dsSeen := insert s (dsSeen d), dsOrder := dsOrder d @ [s]\<rparr>"
      using assms False new by (auto simp: dedupe_add_def dedupe_ok_def Let_def)
    have "take_last (dsMax d) (dsOrder d @ [s]) = dsOrder d @ [s]" using False by (simp add: take_last_def)
    with assms(1) new False show ?thesis by (simp add: d' dedupe_ok_def remember_def)
  qed
qed

section \<open>Consuming an at-least-once stream\<close>

text \<open>The elements a consumer lets through, one decision after the other.\<close>

fun accepted :: "('s \<Rightarrow> 'd \<Rightarrow> bool \<times> 'd) \<Rightarrow> 's list \<Rightarrow> 'd \<Rightarrow> 's list \<times> 'd" where
  "accepted add [] d = ([], d)"
| "accepted add (s # ss) d =
     (let (new, d1) = add s d; (rest, d2) = accepted add ss d1 in (if new then s # rest else rest, d2))"

locale duplicate_filter =
  fixes invar :: "'d \<Rightarrow> bool"
    and memory :: "'d \<Rightarrow> 's::linorder list"
    and add :: "'s \<Rightarrow> 'd \<Rightarrow> bool \<times> 'd"
  assumes add_new: "invar d \<Longrightarrow> add s d = (new, d') \<Longrightarrow> new \<longleftrightarrow> s \<notin> set (memory d)"
    and add_invar: "invar d \<Longrightarrow> add s d = (new, d') \<Longrightarrow> invar d'"
    and add_bounded: "invar d \<Longrightarrow> add s d = (new, d') \<Longrightarrow> set (memory d') \<subseteq> insert s (set (memory d))"
    and add_remembers: "invar d \<Longrightarrow> add s d = (True, d') \<Longrightarrow> s \<in> set (memory d')"
    and add_old: "invar d \<Longrightarrow> add s d = (False, d') \<Longrightarrow> memory d' = memory d"
begin

text \<open>
  A stream that only repeats its latest element is let through exactly once: what passes are the
  elements in order without the repetitions.
\<close>

lemma accepted_sorted:
  assumes "invar d" and "sorted (m # ss)" and "\<forall>x \<in> set (memory d). x \<le> m" and "m \<in> set (memory d)"
  shows "m # fst (accepted add ss d) = remdups_adj (m # ss)"
  using assms
proof (induction ss arbitrary: m d)
  case Nil
  then show ?case by simp
next
  case (Cons s ss)
  obtain new d1 where a: "add s d = (new, d1)" by fastforce
  obtain rest d2 where r: "accepted add ss d1 = (rest, d2)" by fastforce
  show ?case
  proof (cases "s = m")
    case True
    then have n: "\<not> new" using add_new [OF Cons.prems(1) a] Cons.prems(4) by simp
    then have "memory d1 = memory d" using add_old [OF Cons.prems(1)] a by (metis (full_types))
    then have "m # fst (accepted add ss d1) = remdups_adj (m # ss)"
      using Cons.IH [of d1 m] Cons.prems add_invar [OF Cons.prems(1) a] by simp
    with a n r True show ?thesis by simp
  next
    case False
    then have gt: "m < s" using Cons.prems(2) by (auto simp: order_less_le)
    then have "s \<notin> set (memory d)" using Cons.prems(3) by force
    then have n: "new" using add_new [OF Cons.prems(1) a] by simp
    have "\<forall>x \<in> set (memory d1). x \<le> s" using add_bounded [OF Cons.prems(1) a] Cons.prems(3) gt by force
    moreover have "s \<in> set (memory d1)" using add_remembers [OF Cons.prems(1), of s d1] a n by simp
    ultimately have "s # fst (accepted add ss d1) = remdups_adj (s # ss)"
      using Cons.IH [of d1 s] Cons.prems(2) add_invar [OF Cons.prems(1) a] by simp
    with a n r False show ?thesis by simp
  qed
qed

lemma accepted_stream:
  assumes "invar d" and "sorted ss" and "\<forall>x \<in> set (memory d). \<forall>s \<in> set ss. x < s"
  shows "fst (accepted add ss d) = remdups_adj ss"
proof (cases ss)
  case Nil
  then show ?thesis by simp
next
  case (Cons s rest)
  obtain new d1 where a: "add s d = (new, d1)" by fastforce
  have n: "new" using add_new [OF assms(1) a] assms(3) Cons by auto
  have "\<forall>x \<in> set (memory d1). x \<le> s" using add_bounded [OF assms(1) a] assms(3) Cons by force
  moreover have "s \<in> set (memory d1)" using add_remembers [OF assms(1), of s d1] a n by simp
  ultimately have "s # fst (accepted add rest d1) = remdups_adj (s # rest)"
    using accepted_sorted [OF add_invar [OF assms(1) a]] assms(2) Cons by simp
  then show ?thesis using a n Cons by (auto split: prod.splits)
qed

end

definition window_ok :: "dedupeSet \<Rightarrow> bool" where
  "window_ok d \<longleftrightarrow> dedupe_ok d \<and> 0 < dsMax d"

interpretation dedupe: duplicate_filter window_ok dsOrder dedupe_add
proof unfold_locales
  fix d d' s new assume w: "window_ok d" and a: "dedupe_add s d = (new, d')"
  note spec = dedupe_add_spec [of d s new d'] w a
  show "new \<longleftrightarrow> s \<notin> set (dsOrder d)" "window_ok d'" using spec by (auto simp: window_ok_def)
  show "set (dsOrder d') \<subseteq> insert s (set (dsOrder d))"
    using spec by (auto simp: window_ok_def remember_def take_last_def dest: in_set_dropD)
next
  fix d d' s assume w: "window_ok d" and a: "dedupe_add s d = (True, d')"
  have "dsOrder d' = take_last (dsMax d) (dsOrder d @ [s])"
    using dedupe_add_spec [of d s True d'] w a by (simp add: window_ok_def remember_def)
  moreover have "last (take_last (dsMax d) (dsOrder d @ [s])) = s" "take_last (dsMax d) (dsOrder d @ [s]) \<noteq> []"
    using w by (simp_all add: take_last_def window_ok_def last_drop)
  ultimately show "s \<in> set (dsOrder d')" by (metis last_in_set)
next
  fix d d' s assume w: "window_ok d" and a: "dedupe_add s d = (False, d')"
  then show "dsOrder d' = dsOrder d" by (auto simp: dedupe_add_def Let_def split: if_splits)
qed

section \<open>How far back a duplicate is caught\<close>

text \<open>As long as fewer than \<open>dsMax\<close> other sequences have come since, a repetition is caught.\<close>

lemma window_keeps:
  assumes "dedupe_ok d" and "dsOrder d = pre @ s # post" and "card ((set post \<union> set ss) - {s}) < dsMax d"
  shows "s \<in> set (dsOrder (snd (accepted dedupe_add ss d))) \<and> s \<notin> set (fst (accepted dedupe_add ss d))"
  using assms
proof (induction ss arbitrary: d pre post)
  case Nil
  then show ?case by simp
next
  case (Cons t ss)
  obtain new d1 where a: "dedupe_add t d = (new, d1)" by fastforce
  note sp = dedupe_add_spec [OF Cons.prems(1) a]
  obtain pre' post' where o1: "dsOrder d1 = pre' @ s # post'" "set post' \<subseteq> insert t (set post)" and nt: "t = s \<longrightarrow> \<not> new"
  proof (cases "t \<in> set (dsOrder d)")
    case True
    then have "dsOrder d1 = pre @ s # post" using sp Cons.prems(2) by (simp add: remember_def)
    then show ?thesis using that sp True by blast
  next
    case False
    have d: "distinct (post @ [t])" "s \<notin> set post" "t \<noteq> s"
      using Cons.prems(1,2) False by (auto simp: dedupe_ok_def)
    have "length (post @ [t]) = card (set (post @ [t]))" by (metis d(1) distinct_card)
    also have "\<dots> \<le> card ((set post \<union> set (t # ss)) - {s})" using d by (intro card_mono) auto
    finally have len: "length post + 1 < dsMax d" using Cons.prems(3) by simp
    have o2: "dsOrder d1 = drop (length pre + length post + 2 - dsMax d) (pre @ s # post @ [t])"
      using sp False Cons.prems(2) by (simp add: remember_def take_last_def)
    have "length pre + length post + 2 - dsMax d \<le> length pre" using len by simp
    then have "dsOrder d1 = drop (length pre + length post + 2 - dsMax d) pre @ s # (post @ [t])"
      using o2 by simp
    then show ?thesis using that d(3) by fastforce
  qed
  have "card ((set post' \<union> set ss) - {s}) \<le> card ((set post \<union> set (t # ss)) - {s})"
    using o1(2) by (intro card_mono) auto
  then have "card ((set post' \<union> set ss) - {s}) < dsMax d1" using Cons.prems(3) sp by simp
  from Cons.IH [OF _ o1(1) this] sp have
    "s \<in> set (dsOrder (snd (accepted dedupe_add ss d1))) \<and> s \<notin> set (fst (accepted dedupe_add ss d1))" by simp
  then show ?case using a nt by (auto split: prod.splits)
qed

text \<open>
  The window refines its specification, and a repetition that fewer than \<open>dsMax\<close> other sequences
  separate from the first sighting is never let through a second time.
\<close>

lemma dedupe_window:
  assumes "dedupe_ok d" and "s \<notin> set (dsOrder d)" and "card (set ss - {s}) < dsMax d"
  shows "fst (dedupe_add s d) \<and> dsOrder (snd (dedupe_add s d)) = remember (dsMax d) s (dsOrder d)
       \<and> s \<notin> set (fst (accepted dedupe_add ss (snd (dedupe_add s d))))"
proof -
  obtain new d1 where a: "dedupe_add s d = (new, d1)" by fastforce
  note sp = dedupe_add_spec [OF assms(1) a]
  have "0 < dsMax d" using assms(3) by simp
  then obtain pre where "dsOrder d1 = pre @ s # []"
    using sp assms(2) by (auto simp: remember_def take_last_def)
  with window_keeps [of d1 pre s "[]" ss] sp assms(3) have "s \<notin> set (fst (accepted dedupe_add ss d1))" by simp
  with a sp assms(2) show ?thesis by simp
qed

lemma dedupe_window_example:
  "7 \<notin> set (fst (accepted dedupe_add [8, 7, 9, 7] (snd (dedupe_add 7 (newDedupeSet 4096)))))"
proof -
  have "card (set [8, 7, 9, 7 :: int] - {7}) < dsMax (newDedupeSet 4096)"
    by (simp add: newDedupeSet_def insert_Diff_if)
  from dedupe_window [OF dedupe_new_ok _ this] show ?thesis by (simp add: newDedupeSet_def)
qed

end
