(* ===== verification/RtRelay.thy ===== *)
theory RtRelay
  imports ChatSystem RtDomain RtDedupe Scenario
begin

text \<open>
  The outbox relay (\<open>realtime/infra/relay.go\<close>): it polls the change log beyond its cursor and
  publishes each row in order, moving the cursor over every row the backplane acknowledged.  A
  publish may fail before or after the message got out; the next poll starts at the cursor again.
\<close>

section \<open>Polling\<close>

definition relay_batch :: nat where "relay_batch = 500"

datatype publish = Published | NotPublished | PublishedUnacked

definition relay_event :: "ChangeLogRow \<Rightarrow> Event" where
  "relay_event row =
     \<lparr>evGlobalSeq = lGlobalSeq row, evEventType = event_type_string (lEventType row),
      evConversationID = lConversationID row, evEntityID = lEntityID row, evActorUserID = lActorUserID row,
      evAffectedUserIDs = lAffectedUserIDs row, evPayload = lPayload row\<rparr>"

text \<open>
  One pass over the fetched rows: what reaches the channel, and the new cursor.  \<open>net\<close> says how
  each publish of the pass ends.
\<close>

fun pump_rows :: "(nat \<Rightarrow> publish) \<Rightarrow> nat \<Rightarrow> ChangeLogRow list \<Rightarrow> go_int \<Rightarrow> ChangeLogRow list \<times> go_int" where
  "pump_rows net i [] cursor = ([], cursor)"
| "pump_rows net i (row # rows) cursor =
     (case net i of
        Published \<Rightarrow> (let (out, cur) = pump_rows net (Suc i) rows (lGlobalSeq row) in (row # out, cur))
      | NotPublished \<Rightarrow> ([], cursor)
      | PublishedUnacked \<Rightarrow> ([row], cursor))"

text \<open>What a poll meets: the committed log, whether the query succeeds, and the network.\<close>

record Poll =
  plLog :: "ChangeLogRow list"
  plListOK :: bool
  plNet :: "nat \<Rightarrow> publish"

definition pump :: "Poll \<Rightarrow> go_int \<Rightarrow> ChangeLogRow list \<times> go_int" where
  "pump p cursor =
     (if plListOK p then pump_rows (plNet p) 0 (page_asc lGlobalSeq (Some cursor) relay_batch (plLog p)) cursor
      else ([], cursor))"

fun polls :: "Poll list \<Rightarrow> go_int \<Rightarrow> ChangeLogRow list \<times> go_int" where
  "polls [] cursor = ([], cursor)"
| "polls (p # ps) cursor =
     (let (out, cur) = pump p cursor; (rest, cur') = polls ps cur in (out @ rest, cur'))"

section \<open>One pass\<close>

definition cursor_of :: "go_int \<Rightarrow> ChangeLogRow list \<Rightarrow> go_int" where
  "cursor_of c rows = (if rows = [] then c else lGlobalSeq (last rows))"

text \<open>
  A pass publishes an initial piece of the fetched rows; the cursor covers all of it but, at most,
  a last unacknowledged row.
\<close>

lemma pump_rows_prefix:
  "pump_rows net i rows cursor = (out, cur) \<Longrightarrow>
     \<exists>acked extra rest. rows = acked @ extra @ rest \<and> out = acked @ extra \<and> length extra \<le> 1 \<and> cur = cursor_of cursor acked"
proof (induction rows arbitrary: i cursor out cur)
  case Nil
  then show ?case by (simp add: cursor_of_def)
next
  case (Cons row rows)
  show ?case
  proof (cases "net i")
    case Published
    obtain out' where r: "pump_rows net (Suc i) rows (lGlobalSeq row) = (out', cur)" "out = row # out'"
      using Cons.prems Published by (auto split: prod.splits)
    from Cons.IH [OF r(1)] obtain acked extra rest where
      "rows = acked @ extra @ rest" "out' = acked @ extra" "length extra \<le> 1" "cur = cursor_of (lGlobalSeq row) acked" by blast
    then show ?thesis
      by (intro exI [of _ "row # acked"] exI [of _ extra] exI [of _ rest]) (simp add: r(2) cursor_of_def)
  next
    case NotPublished
    with Cons.prems have "row # rows = [] @ [] @ row # rows \<and> out = [] @ [] \<and> length ([] :: ChangeLogRow list) \<le> 1
        \<and> cur = cursor_of cursor []" by (simp add: cursor_of_def)
    then show ?thesis by blast
  next
    case PublishedUnacked
    with Cons.prems have "out = [row]" "cur = cursor" by simp_all
    then have "row # rows = [] @ [row] @ rows \<and> out = [] @ [row] \<and> length [row] \<le> 1
        \<and> cur = cursor_of cursor []" by (simp add: cursor_of_def)
    then show ?thesis by blast
  qed
qed

definition after :: "go_int \<Rightarrow> ChangeLogRow list \<Rightarrow> ChangeLogRow list" where
  "after c log = filter (\<lambda>r. c < lGlobalSeq r) log"

definition log_sorted :: "ChangeLogRow list \<Rightarrow> bool" where
  "log_sorted log \<longleftrightarrow> sorted_wrt (<) (map lGlobalSeq log)"

lemma page_after:
  assumes "log_sorted log"
  shows "page_asc lGlobalSeq (Some c) n log = take n (after c log)"
proof -
  have "sorted (map lGlobalSeq (after c log))"
    using assms by (auto simp: log_sorted_def after_def strict_sorted_iff intro: sorted_filter)
  then have "sort_key lGlobalSeq (after c log) = after c log" by (rule sort_key_id_if_sorted)
  then show ?thesis by (simp add: page_asc_def after_def)
qed

lemma after_prefix: "prefix p log \<Longrightarrow> prefix (after c p) (after c log)"
  by (auto simp: prefix_def after_def)

lemma log_sorted_prefix: "log_sorted log \<Longrightarrow> prefix p log \<Longrightarrow> log_sorted p"
  by (auto simp: log_sorted_def prefix_def sorted_wrt_append)

lemma after_sorted: "log_sorted log \<Longrightarrow> log_sorted (after c log)"
  by (auto simp: log_sorted_def after_def sorted_wrt_map intro: sorted_wrt_filter)

lemma sorted_le_last: "log_sorted xs \<Longrightarrow> r \<in> set xs \<Longrightarrow> lGlobalSeq r \<le> lGlobalSeq (last xs)"
  by (induction xs rule: rev_induct) (auto simp: log_sorted_def sorted_wrt_append)

text \<open>Moving the cursor over the first pending rows leaves the others pending.\<close>

lemma after_acked:
  assumes "log_sorted log" and "after c log = acked @ rest"
  shows "after (cursor_of c acked) log = rest"
proof (cases "acked = []")
  case True
  with assms(2) show ?thesis by (simp add: cursor_of_def)
next
  case False
  have s: "log_sorted (acked @ rest)" using after_sorted [OF assms(1), of c] assms(2) by simp
  have "c < lGlobalSeq (last acked)"
  proof -
    have "last acked \<in> set (after c log)" using False assms(2) by simp
    then show ?thesis by (simp add: after_def)
  qed
  then have "after (lGlobalSeq (last acked)) log = after (lGlobalSeq (last acked)) (after c log)"
    by (auto simp: after_def intro: filter_cong)
  also have "\<dots> = after (lGlobalSeq (last acked)) acked @ after (lGlobalSeq (last acked)) rest"
    by (simp add: assms(2)) (simp add: after_def)
  also have "after (lGlobalSeq (last acked)) acked = []"
  proof -
    have "log_sorted acked" using s by (simp add: log_sorted_def sorted_wrt_append)
    then have "\<forall>r \<in> set acked. lGlobalSeq r \<le> lGlobalSeq (last acked)" using sorted_le_last by blast
    then show ?thesis by (auto simp: after_def filter_empty_conv not_less)
  qed
  also have "after (lGlobalSeq (last acked)) rest = rest"
    using s False by (auto simp: after_def filter_id_conv log_sorted_def sorted_wrt_append)
  finally show ?thesis using False by (simp add: cursor_of_def)
qed

section \<open>All passes\<close>

text \<open>
  What has been published so far, against the whole log: in order, nothing skipped up to the cursor,
  nothing beyond the first row that is still pending.
\<close>

definition published_ok :: "ChangeLogRow list \<Rightarrow> go_int \<Rightarrow> go_int \<Rightarrow> ChangeLogRow list \<Rightarrow> bool" where
  "published_ok log start cur pub \<longleftrightarrow>
     start \<le> cur \<and> sorted (map lGlobalSeq pub) \<and> set pub \<subseteq> set (after start log)
   \<and> (\<forall>r \<in> set (after start log). lGlobalSeq r \<le> cur \<longrightarrow> r \<in> set pub)
   \<and> (\<forall>r \<in> set pub. \<forall>r' \<in> set (after cur log). lGlobalSeq r \<le> lGlobalSeq r')"

lemma cursor_of_after: "after cur log = acked @ rest \<Longrightarrow> cur \<le> cursor_of cur acked"
proof (cases "acked = []")
  case False
  assume "after cur log = acked @ rest"
  with False have "last acked \<in> set (after cur log)" by simp
  then show ?thesis using False by (auto simp: cursor_of_def after_def)
qed (simp add: cursor_of_def)

lemma published_below_pending:
  assumes "sorted_wrt (<) (map lGlobalSeq (acked @ extra @ rest))" and "length extra \<le> 1"
    and r: "r \<in> set (acked @ extra)" and n: "r' \<in> set (extra @ rest)"
  shows "lGlobalSeq r \<le> lGlobalSeq r'"
proof (cases "r \<in> set acked")
  case True
  then show ?thesis using assms(1) n by (auto simp: sorted_wrt_append intro: less_imp_le)
next
  case False
  with r assms(2) have "extra = [r]" by (cases extra) auto
  then show ?thesis using assms(1) n by (auto simp: sorted_wrt_append intro: less_imp_le)
qed

lemma published_pass:
  assumes "log_sorted log" and "published_ok log start cur pub"
    and "after cur log = acked @ extra @ rest" "length extra \<le> 1"
  shows "published_ok log start (cursor_of cur acked) (pub @ acked @ extra)"
proof -
  let ?cur = "cursor_of cur acked"
  have s: "sorted_wrt (<) (map lGlobalSeq (acked @ extra @ rest))"
    using after_sorted [OF assms(1), of cur] by (simp only: assms(3) log_sorted_def)
  have a: "after ?cur log = extra @ rest" using after_acked [OF assms(1), of cur acked "extra @ rest"] assms(3) by simp
  have le: "cur \<le> ?cur" by (rule cursor_of_after [OF assms(3)])
  have old: "start \<le> cur" "sorted (map lGlobalSeq pub)" "set pub \<subseteq> set (after start log)"
    "\<forall>r \<in> set (after start log). lGlobalSeq r \<le> cur \<longrightarrow> r \<in> set pub"
    "\<forall>r \<in> set pub. \<forall>r' \<in> set (after cur log). lGlobalSeq r \<le> lGlobalSeq r'"
    using assms(2) by (auto simp: published_ok_def)
  have "set (after cur log) \<subseteq> set (after start log)" using old(1) by (auto simp: after_def)
  then have sub: "set (pub @ acked @ extra) \<subseteq> set (after start log)" using old(3) by (auto simp: assms(3))
  have "sorted (map lGlobalSeq (acked @ extra @ rest))" by (rule strict_sorted_imp_sorted [OF s])
  then have "sorted (map lGlobalSeq (acked @ extra))" by (simp add: sorted_append)
  then have srt: "sorted (map lGlobalSeq (pub @ acked @ extra))" using old(2,5) by (auto simp: sorted_append assms(3))
  have cover: "r \<in> set (pub @ acked @ extra)" if r: "r \<in> set (after start log)" "lGlobalSeq r \<le> ?cur" for r
  proof (cases "lGlobalSeq r \<le> cur")
    case False
    then have "r \<in> set (after cur log)" "r \<notin> set (after ?cur log)" using r by (auto simp: after_def)
    then show ?thesis unfolding a assms(3) by auto
  qed (use old(4) r(1) in simp)
  have "lGlobalSeq r \<le> lGlobalSeq r'" if "r \<in> set (pub @ acked @ extra)" "r' \<in> set (after ?cur log)" for r r'
    using that old(5) published_below_pending [OF s assms(4), of r r'] unfolding a assms(3) by auto
  with old(1) le srt sub cover show ?thesis unfolding published_ok_def by auto
qed

lemma pump_published:
  assumes "log_sorted log" and "published_ok log start cur pub" and "prefix (plLog p) log" and "pump p cur = (out, cur')"
  shows "published_ok log start cur' (pub @ out)"
proof (cases "plListOK p")
  case False
  with assms(2,4) show ?thesis by (simp add: pump_def)
next
  case True
  then have "pump_rows (plNet p) 0 (take relay_batch (after cur (plLog p))) cur = (out, cur')"
    using assms(4) page_after [OF log_sorted_prefix [OF assms(1,3)], of cur relay_batch] by (simp add: pump_def)
  from pump_rows_prefix [OF this] obtain acked extra rest where
    r: "take relay_batch (after cur (plLog p)) = acked @ extra @ rest" "out = acked @ extra" "length extra \<le> 1"
      "cur' = cursor_of cur acked" by blast
  have "prefix (take relay_batch (after cur (plLog p))) (after cur log)"
    using after_prefix [OF assms(3), of cur] by (meson prefix_order.trans take_is_prefix)
  then obtain more where "after cur log = (acked @ extra @ rest) @ more" unfolding r(1) by (auto simp: prefix_def)
  then have "after cur log = acked @ extra @ (rest @ more)" by simp
  from published_pass [OF assms(1,2) this r(3)] show ?thesis by (simp add: r)
qed

lemma polls_published:
  assumes "log_sorted log" and "published_ok log start cur pub" and "\<forall>p \<in> set ps. prefix (plLog p) log"
    and "polls ps cur = (out, cur')"
  shows "published_ok log start cur' (pub @ out)"
  using assms(2-)
proof (induction ps arbitrary: cur pub out cur')
  case Nil
  then show ?case by simp
next
  case (Cons p ps)
  obtain o1 c1 where p: "pump p cur = (o1, c1)" by fastforce
  obtain o2 c2 where q: "polls ps c1 = (o2, c2)" by fastforce
  have "published_ok log start c1 (pub @ o1)" using pump_published [OF assms(1) Cons.prems(1) _ p] Cons.prems(2) by simp
  from Cons.IH [OF this _ q] Cons.prems(2,3) p q show ?case by simp
qed


section \<open>What the dispatcher lets through\<close>

lemma prefix_sorted_down:
  fixes xs ys :: "'a::linorder list"
  assumes "sorted_wrt (<) xs" "sorted_wrt (<) ys" "set xs \<subseteq> set ys"
    and "\<And>x y. x \<in> set xs \<Longrightarrow> y \<in> set ys \<Longrightarrow> y < x \<Longrightarrow> y \<in> set xs"
  shows "prefix xs ys"
  using assms
proof (induction ys arbitrary: xs)
  case Nil
  then show ?case by simp
next
  case (Cons y ys)
  show ?case
  proof (cases xs)
    case Nil
    then show ?thesis by simp
  next
    case (Cons x xs')
    have "x = y"
    proof (rule ccontr)
      assume "x \<noteq> y"
      then have "x \<in> set ys" using Cons.prems(3) Cons by auto
      then have lt: "y < x" using Cons.prems(2) by simp
      then have "y \<in> set xs'" using Cons.prems(4) [of x y] Cons by auto
      then have "x < y" using Cons.prems(1) Cons by simp
      with lt show False by simp
    qed
    moreover have "prefix xs' ys"
    proof (rule Cons.IH)
      show "sorted_wrt (<) xs'" "sorted_wrt (<) ys" using Cons.prems(1,2) Cons by simp_all
      show "set xs' \<subseteq> set ys" using Cons.prems(1,3) Cons \<open>x = y\<close> by auto
      fix a b assume ab: "a \<in> set xs'" "b \<in> set ys" "b < a"
      then have "b \<in> set xs" using Cons.prems(4) [of a b] Cons by simp
      moreover have "y < b" using Cons.prems(2) ab(2) by simp
      ultimately show "b \<in> set xs'" using Cons \<open>x = y\<close> by auto
    qed
    ultimately show ?thesis using Cons by simp
  qed
qed

lemma remdups_adj_strict: "sorted (xs :: 'a::linorder list) \<Longrightarrow> sorted_wrt (<) (remdups_adj xs)"
  by (induction xs rule: remdups_adj.induct) (auto simp: order_less_le)

lemma published_accepted:
  assumes "log_sorted log" and "published_ok log start cur pub"
  defines "got \<equiv> fst (accepted dedupe_add (map lGlobalSeq pub) (newDedupeSet 4096))"
  shows "got = remdups_adj (map lGlobalSeq pub)" and "prefix got (map lGlobalSeq (after start log))"
proof -
  have s: "sorted (map lGlobalSeq pub)" using assms(2) by (simp add: published_ok_def)
  show g: "got = remdups_adj (map lGlobalSeq pub)"
    unfolding got_def
  proof (rule dedupe.accepted_stream [OF _ s])
    show "window_ok (newDedupeSet 4096)" using dedupe_new_ok by (simp add: window_ok_def newDedupeSet_def)
  qed (simp add: newDedupeSet_def)
  show "prefix got (map lGlobalSeq (after start log))"
  proof (rule prefix_sorted_down)
    show "sorted_wrt (<) got" unfolding g by (rule remdups_adj_strict [OF s])
    show "sorted_wrt (<) (map lGlobalSeq (after start log))"
      using after_sorted [OF assms(1)] by (simp add: log_sorted_def)
    show "set got \<subseteq> set (map lGlobalSeq (after start log))"
      using assms(2) by (auto simp: g published_ok_def)
  next
    fix x y assume "x \<in> set got" "y \<in> set (map lGlobalSeq (after start log))" "y < x"
    then obtain r r' where r: "r \<in> set pub" "x = lGlobalSeq r" "r' \<in> set (after start log)" "y = lGlobalSeq r'"
      by (auto simp: g)
    have "r' \<notin> set (after cur log)" using assms(2) r \<open>y < x\<close> by (fastforce simp: published_ok_def)
    then have "lGlobalSeq r' \<le> cur" using r(3) by (simp add: after_def)
    then show "y \<in> set got" using assms(2) r by (auto simp: g published_ok_def)
  qed
qed

text \<open>A poll that meets no failure takes the cursor over the whole page.\<close>

definition healthy_poll :: "ChangeLogRow list \<Rightarrow> Poll" where
  "healthy_poll log = \<lparr>plLog = log, plListOK = True, plNet = (\<lambda>_. Published)\<rparr>"

lemma pump_rows_healthy: "pump_rows (\<lambda>_. Published) i rows c = (rows, cursor_of c rows)"
  by (induction rows arbitrary: i c) (auto simp: cursor_of_def)

lemma healthy_pump:
  assumes "log_sorted log" and "pump (healthy_poll log) cur = (out, cur')"
  shows "after cur' log = drop relay_batch (after cur log)"
proof -
  have "cur' = cursor_of cur (take relay_batch (after cur log))"
    using assms(2) by (auto simp: pump_def healthy_poll_def pump_rows_healthy page_after [OF assms(1)])
  then show ?thesis using after_acked [OF assms(1)] by (metis append_take_drop_id)
qed

lemma healthy_polls:
  assumes "log_sorted log"
  shows "polls (replicate n (healthy_poll log)) cur = (out, cur') \<Longrightarrow> after cur' log = drop (n * relay_batch) (after cur log)"
proof (induction n arbitrary: cur out cur')
  case 0
  then show ?case by simp
next
  case (Suc n)
  obtain o1 c1 where p: "pump (healthy_poll log) cur = (o1, c1)" by fastforce
  obtain o2 c2 where q: "polls (replicate n (healthy_poll log)) c1 = (o2, c2)" by fastforce
  show ?case using Suc.IH [OF q] healthy_pump [OF assms p] Suc.prems p q by (simp add: add.commute drop_drop)
qed

lemma polls_append:
  "polls (ps @ qs) cur = (let (out, c1) = polls ps cur; (rest, c2) = polls qs c1 in (out @ rest, c2))"
  by (induction ps arbitrary: cur) (auto split: prod.splits)

lemma length_after: "a \<le> b \<Longrightarrow> length (after b log) \<le> length (after a log)"
  by (induction log) (auto simp: after_def)

lemma published_start: "published_ok log start start []"
  by (auto simp: published_ok_def after_def)

section \<open>The store, the relay and the window together\<close>

text \<open>A poll of a relay that runs beside the chat module: it sees the log of a committed state.\<close>

definition polls_between :: "ChatDB \<Rightarrow> ChatDB \<Rightarrow> Poll \<Rightarrow> bool" where
  "polls_between db0 db p \<longleftrightarrow> (\<exists>d. tx_run db0 d \<and> tx_run d db \<and> plLog p = tChangeLog d)"

lemma polls_between_prefix:
  assumes "schema_ok db0" and "polls_between db0 db p"
  shows "prefix (plLog p) (tChangeLog db)"
proof -
  obtain d where d: "tx_run db0 d" "tx_run d db" "plLog p = tChangeLog d"
    using assms(2) by (auto simp: polls_between_def)
  have "schema_ok d" using tx_run_store [OF d(1)] assms(1) by (simp add: store_step_def)
  then show ?thesis using tx_run_store [OF d(2)] d(3) by (simp add: store_step_def evolves_def)
qed

lemma run_log_sorted:
  assumes "schema_ok db0" and "tx_run db0 db"
  shows "log_sorted (tChangeLog db)"
  using tx_run_store [OF assms(2)] assms(1) by (simp add: store_step_def schema_ok_def outbox_ok_def log_sorted_def)

text \<open>A deployment with three rows in its outbox, and polls that meet every failure.\<close>

definition demo_row :: "go_int \<Rightarrow> ChangeLogRow" where
  "demo_row n = \<lparr>lEventType = EventMessageCreated, lConversationID = Some 1, lEntityID = Some n,
     lActorUserID = Some 10, lAffectedUserIDs = [10, 11], lPayload = JObj [], lGlobalSeq = n\<rparr>"

definition demo_log_db :: ChatDB where
  "demo_log_db = demo_db\<lparr>tChangeLog := [demo_row 5, demo_row 6, demo_row 8], nChangeSeq := 9\<rparr>"

definition demo_polls :: "Poll list" where
  "demo_polls =
     [(healthy_poll (tChangeLog demo_log_db))\<lparr>plNet := (\<lambda>_. PublishedUnacked)\<rparr>,
      (healthy_poll (tChangeLog demo_log_db))\<lparr>plListOK := False\<rparr>,
      (healthy_poll (tChangeLog demo_log_db))\<lparr>plNet := (\<lambda>i. if i = 0 then Published else NotPublished)\<rparr>]"

lemma demo_polls_between: "\<forall>p \<in> set demo_polls. polls_between demo_log_db demo_log_db p"
  by (auto simp: demo_polls_def healthy_poll_def polls_between_def intro: tx_run_refl)

lemma demo_log_schema: "schema_ok demo_log_db"
  by code_simp

text \<open>
  Whatever the chat module commits while the relay polls, and however its queries and publishes
  fail, the dispatcher lets through the rows committed after the start of the relay in log order,
  each once and none skipped, and at least all the rows the relay has moved its cursor over.
\<close>

lemma relay_exactly_once:
  assumes "schema_ok db0" "tx_run db0 db" and "\<forall>p \<in> set ps. polls_between db0 db p"
    and "polls ps start = (pub, cur)"
  shows "prefix (fst (accepted dedupe_add (map lGlobalSeq pub) (newDedupeSet 4096)))
                (map lGlobalSeq (after start (tChangeLog db)))
       \<and> (\<forall>r \<in> set (after start (tChangeLog db)). lGlobalSeq r \<le> cur \<longrightarrow>
            lGlobalSeq r \<in> set (fst (accepted dedupe_add (map lGlobalSeq pub) (newDedupeSet 4096))))"
proof -
  note s = run_log_sorted [OF assms(1,2)]
  have "published_ok (tChangeLog db) start cur ([] @ pub)"
    using assms(3) polls_between_prefix [OF assms(1)] by (intro polls_published [OF s published_start _ assms(4)]) blast
  then have ok: "published_ok (tChangeLog db) start cur pub" by simp
  show ?thesis
    using published_accepted [OF s ok] ok by (auto simp: published_ok_def)
qed

text \<open>
  Once polls succeed again, enough of them bring the relay up to date: the dispatcher has then let
  through every row committed since the start, in order and each once.
\<close>

lemma relay_catches_up:
  assumes "schema_ok db0" "tx_run db0 db" and "\<forall>p \<in> set ps. polls_between db0 db p"
    and "length (after start (tChangeLog db)) \<le> n * relay_batch"
    and "polls (ps @ replicate n (healthy_poll (tChangeLog db))) start = (pub, cur)"
  shows "fst (accepted dedupe_add (map lGlobalSeq pub) (newDedupeSet 4096)) = map lGlobalSeq (after start (tChangeLog db))"
proof -
  note s = run_log_sorted [OF assms(1,2)]
  let ?all = "ps @ replicate n (healthy_poll (tChangeLog db))"
  have "\<forall>p \<in> set ?all. prefix (plLog p) (tChangeLog db)"
    using assms(3) polls_between_prefix [OF assms(1)] by (auto simp: healthy_poll_def)
  then have "published_ok (tChangeLog db) start cur ([] @ pub)"
    by (intro polls_published [OF s published_start _ assms(5)])
  then have ok: "published_ok (tChangeLog db) start cur pub" by simp
  obtain o1 c1 where p: "polls ps start = (o1, c1)" by fastforce
  obtain o2 c2 where q: "polls (replicate n (healthy_poll (tChangeLog db))) c1 = (o2, c2)" by fastforce
  have "published_ok (tChangeLog db) start c1 ([] @ o1)"
    using assms(3) polls_between_prefix [OF assms(1)] by (intro polls_published [OF s published_start _ p]) blast
  then have "start \<le> c1" by (simp add: published_ok_def)
  then have "length (after c1 (tChangeLog db)) \<le> length (after start (tChangeLog db))" by (rule length_after)
  then have "after cur (tChangeLog db) = []"
    using healthy_polls [OF s q] assms(4,5) p q by (simp add: polls_append)
  then have all: "set (after start (tChangeLog db)) \<subseteq> set pub"
    using ok by (auto simp: published_ok_def after_def filter_empty_conv not_less)
  note g = published_accepted [OF s ok]
  have "sorted_wrt (<) (map lGlobalSeq (after start (tChangeLog db)))" using after_sorted [OF s] by (simp add: log_sorted_def)
  moreover have "set (map lGlobalSeq (after start (tChangeLog db))) = set (remdups_adj (map lGlobalSeq pub))"
    using all ok by (auto simp: published_ok_def)
  ultimately show ?thesis
    unfolding g(1) using remdups_adj_strict [of "map lGlobalSeq pub"] ok
    by (intro sorted_distinct_set_unique) (auto simp: strict_sorted_iff published_ok_def)
qed

lemma demo_polls_run: "polls demo_polls 0 = ([demo_row 5, demo_row 5], 5)"
  by (simp add: demo_polls_def healthy_poll_def pump_def page_asc_def relay_batch_def demo_row_def demo_log_db_def)

lemma relay_exactly_once_example:
  "prefix (fst (accepted dedupe_add (map lGlobalSeq (fst (polls demo_polls 0))) (newDedupeSet 4096)))
          (map lGlobalSeq (after 0 (tChangeLog demo_log_db)))
   \<and> fst (polls demo_polls 0) = [demo_row 5, demo_row 5]"
  using relay_exactly_once [OF demo_log_schema tx_run_refl demo_polls_between demo_polls_run] demo_polls_run by simp

lemma relay_catches_up_witness:
  "fst (accepted dedupe_add (map lGlobalSeq (fst (polls (demo_polls @ [healthy_poll (tChangeLog demo_log_db)]) 0)))
     (newDedupeSet 4096)) = [5, 6, 8]"
proof -
  have a: "map lGlobalSeq (after 0 (tChangeLog demo_log_db)) = [5, 6, 8]"
    by (simp add: after_def demo_log_db_def demo_row_def)
  then have "length (after 0 (tChangeLog demo_log_db)) \<le> 1 * relay_batch"
    by (simp add: relay_batch_def after_def demo_log_db_def demo_row_def)
  from relay_catches_up [OF demo_log_schema tx_run_refl demo_polls_between this prod.collapse [symmetric]] a
  show ?thesis by simp
qed

end
