(* ===== verification/RtDispatch.thy ===== *)
theory RtDispatch
  imports RtRelay RtHandlerProofs
begin

text \<open>
  The dispatcher (\<open>realtime/delivery/ws/dispatcher.go\<close>): it reads the backplane, drops the duplicates,
  remembers what a reconnecting socket may ask for and fans out to the local sockets.  The last part
  puts the store, the relay, the backplane and the dispatcher together.
\<close>

section \<open>Dispatching one event\<close>

definition user_scoped :: "string \<Rightarrow> bool" where
  "user_scoped t \<longleftrightarrow> t \<in> {''conversation.created'', ''conversation.membership'', ''conversation.settings'', ''receipt.read'',
     ''receipt.delivered'', ''user.updated''}"

definition deliver_conversation :: "go_time \<Rightarrow> Event \<Rightarrow> string \<Rightarrow> Gateway \<Rightarrow> Gateway" where
  "deliver_conversation now e typ g =
     (case evConversationID e of None \<Rightarrow> g | Some k \<Rightarrow> DeliverToConversation k typ (evPayload e) now g)"

definition deliver_users :: "go_time \<Rightarrow> Event \<Rightarrow> string \<Rightarrow> Gateway \<Rightarrow> Gateway" where
  "deliver_users now e typ g =
     (if user_scoped (evEventType e) then fold (\<lambda>u. DeliverToUser u typ (evPayload e) now) (evAffectedUserIDs e) g else g)"

definition dispatch :: "go_time \<Rightarrow> Event \<Rightarrow> dedupeSet \<times> Server \<Rightarrow> dedupeSet \<times> Server" where
  "dispatch now e = (\<lambda>(d, s).
     let (new, d1) = (if evGlobalSeq e > 0 then dedupe_add (evGlobalSeq e) d else (True, d)) in
     if \<not> new then (d1, s)
     else if IsEphemeral (evEventType e) then (d1, on_gateway (deliver_conversation now e (evEventType e)) s)
     else
       let wireType = eventWireType e in
       if wireType = [] then (d1, s)
       else
         let s1 = s\<lparr>svReplay := replay_append e now (svReplay s)\<rparr> in
         (d1, on_gateway (deliver_users now e wireType) (on_gateway (deliver_conversation now e wireType) s1)))"

text \<open>A message of the channel; what does not decode is skipped.\<close>

definition receive :: "go_time \<Rightarrow> json option \<Rightarrow> dedupeSet \<times> Server \<Rightarrow> dedupeSet \<times> Server" where
  "receive now text x = (case DecodeEvent text of Inl _ \<Rightarrow> x | Inr e \<Rightarrow> dispatch now e x)"

definition receive_all :: "(go_time \<times> json option) list \<Rightarrow> dedupeSet \<times> Server \<Rightarrow> dedupeSet \<times> Server" where
  "receive_all ms x = fold (\<lambda>(t, m). receive t m) ms x"

section \<open>What one socket gets\<close>

definition content :: "Frame \<Rightarrow> string \<times> json option" where
  "content f = (fmType f, fmData f)"

definition gains :: "Connection \<Rightarrow> Event \<Rightarrow> (string \<times> json option) list" where
  "gains c e =
     (let heard = (case evConversationID e of None \<Rightarrow> False | Some k \<Rightarrow> k \<in> set (cnSubscribed c)); w = eventWireType e in
      if IsEphemeral (evEventType e) then (if heard then [(evEventType e, Some (evPayload e))] else [])
      else if w = [] then []
      else (if heard then [(w, Some (evPayload e))] else [])
         @ (if user_scoped (evEventType e)
            then replicate (count_list (evAffectedUserIDs e) (cnUserID c)) (w, Some (evPayload e)) else []))"

text \<open>\<open>took c xs c'\<close>: the open socket has \<open>xs\<close> at the end of its queue and is otherwise as it was.\<close>

definition took :: "Connection \<Rightarrow> (string \<times> json option) list \<Rightarrow> Connection \<Rightarrow> bool" where
  "took c xs c' \<longleftrightarrow> cnClosing c' = None \<and> cnSubscribed c' = cnSubscribed c \<and> cnUserID c' = cnUserID c
     \<and> map content (cnQueue c') = map content (cnQueue c) @ xs"

lemma took_trans: "took a xs b \<Longrightarrow> took b ys c \<Longrightarrow> took a (xs @ ys) c"
  by (simp add: took_def)

lemma took_nil: "cnClosing c = None \<Longrightarrow> took c [] c"
  by (simp add: took_def)

lemma gains_took: "took c xs c' \<Longrightarrow> gains c' = gains c"
proof (rule ext)
  fix e assume "took c xs c'"
  then have "cnSubscribed c' = cnSubscribed c" "cnUserID c' = cnUserID c" by (simp_all add: took_def)
  then show "gains c' e = gains c e" unfolding gains_def by (simp only:)
qed

lemma took_length: "took c xs c' \<Longrightarrow> length (cnQueue c') = length (cnQueue c) + length xs"
  unfolding took_def by (metis length_append length_map)

lemma sendEvent_took:
  "cnClosing c = None \<Longrightarrow> length (cnQueue c) < SendBufferSize \<Longrightarrow> took c [(typ, Some data)] (snd (sendEvent typ data now c))"
  by (simp add: took_def sendEvent_def stamp_def enqueue_def isClosing_def Let_def content_def)

text \<open>\<open>served\<close>: an open registered socket of a consistent gateway.\<close>

definition served :: "Gateway \<Rightarrow> string \<Rightarrow> Connection \<Rightarrow> bool" where
  "served g i c \<longleftrightarrow> registry_ok g \<and> i \<in> gwRegistered g \<and> gwConns g i = Some c \<and> cnClosing c = None"

lemma members_conversation:
  "served g i c \<Longrightarrow> i \<in> members_of (gwByConv g) k \<longleftrightarrow> k \<in> set (cnSubscribed c)"
  using index_of_members [of "gwByConv g" "\<lambda>k. with_conn g (\<lambda>c. k \<in> set (cnSubscribed c))" k]
  by (auto simp: served_def registry_ok_def with_conn_def)

lemma members_user: "served g i c \<Longrightarrow> i \<in> members_of (gwByUser g) u \<longleftrightarrow> cnUserID c = u"
  using index_of_members [of "gwByUser g" "\<lambda>u. with_conn g (\<lambda>c. cnUserID c = u)" u]
  by (auto simp: served_def registry_ok_def with_conn_def)

lemma send_to:
  assumes "served g i c" and "typ \<noteq> ''resume_ack''" and "i \<in> ids \<Longrightarrow> length (cnQueue c) < SendBufferSize"
  shows "\<exists>c'. served (on_conns ids (\<lambda>c. snd (sendEvent typ data now c)) g) i c'
           \<and> took c (if i \<in> ids then [(typ, Some data)] else []) c'"
proof -
  have ok: "registry_ok (on_conns ids (\<lambda>c. snd (sendEvent typ data now c)) g)"
    using assms(1,2) registry_on_conns sendEvent_keeps by (auto simp: served_def)
  show ?thesis
  proof (cases "i \<in> ids")
    case True
    then have "took c [(typ, Some data)] (snd (sendEvent typ data now c))"
      using assms sendEvent_took by (simp add: served_def)
    with True assms(1) ok show ?thesis
      by (intro exI [of _ "snd (sendEvent typ data now c)"]) (simp add: served_def took_def on_conns_def)
  next
    case False
    with assms(1) ok show ?thesis by (intro exI [of _ c]) (simp add: served_def took_nil on_conns_def)
  qed
qed

lemma deliver_users_took:
  assumes "typ \<noteq> ''resume_ack''"
  shows "served g i c \<Longrightarrow> length (cnQueue c) + count_list us (cnUserID c) \<le> SendBufferSize \<Longrightarrow>
     \<exists>c'. served (fold (\<lambda>u. DeliverToUser u typ data now) us g) i c' \<and> took c (replicate (count_list us (cnUserID c)) (typ, Some data)) c'"
proof (induction us arbitrary: g c)
  case Nil
  then show ?case by (auto simp: served_def intro: took_nil)
next
  case (Cons u us)
  have m: "i \<in> members_of (gwByUser g) u \<longleftrightarrow> cnUserID c = u" by (rule members_user [OF Cons.prems(1)])
  obtain c1 where c1: "served (DeliverToUser u typ data now g) i c1"
    "took c (if cnUserID c = u then [(typ, Some data)] else []) c1"
    using send_to [OF Cons.prems(1) assms, of "members_of (gwByUser g) u" data now] m Cons.prems(2)
    by (auto simp: DeliverToUser_def split: if_splits)
  have u: "cnUserID c1 = cnUserID c" using c1(2) by (simp add: took_def)
  have "length (cnQueue c1) + count_list us (cnUserID c1) \<le> SendBufferSize"
    using took_length [OF c1(2)] Cons.prems(2) u by (auto split: if_splits)
  from Cons.IH [OF c1(1) this] obtain c2 where
    "served (fold (\<lambda>u. DeliverToUser u typ data now) us (DeliverToUser u typ data now g)) i c2"
    "took c1 (replicate (count_list us (cnUserID c1)) (typ, Some data)) c2" by blast
  with took_trans [OF c1(2)] u show ?case by (force split: if_splits)
qed

lemma wire_not_resume: "eventWireType e \<noteq> ''resume_ack''"
  by (auto simp: eventWireType_def EventTypeToWire_def split: option.splits)

lemma dispatch_new:
  assumes "served (svGateway s) i c" and "length (cnQueue c) + length (gains c e) \<le> SendBufferSize"
    and "dispatch now e (d, s) = (d', s')" and "evGlobalSeq e > 0 \<longrightarrow> fst (dedupe_add (evGlobalSeq e) d)"
  shows "\<exists>c'. served (svGateway s') i c' \<and> took c (gains c e) c'"
proof -
  let ?heard = "case evConversationID e of None \<Rightarrow> False | Some k \<Rightarrow> k \<in> set (cnSubscribed c)"
  have conv: "\<exists>c1. served (deliver_conversation now e ty (svGateway s)) i c1 \<and> took c (if ?heard then [(ty, Some (evPayload e))] else []) c1"
    if "ty \<noteq> ''resume_ack''" "?heard \<longrightarrow> length (cnQueue c) < SendBufferSize" for ty
  proof (cases "evConversationID e")
    case None
    then show ?thesis using assms(1) took_nil by (auto simp: deliver_conversation_def served_def)
  next
    case (Some k)
    with send_to [OF assms(1) that(1), of "members_of (gwByConv (svGateway s)) k"] members_conversation [OF assms(1), of k] that(2)
    show ?thesis by (simp add: deliver_conversation_def DeliverToConversation_def)
  qed
  obtain d1 where d1: "(if evGlobalSeq e > 0 then dedupe_add (evGlobalSeq e) d else (True, d)) = (True, d1)"
    using assms(4) that by (cases "evGlobalSeq e > 0"; cases "dedupe_add (evGlobalSeq e) d") auto
  consider "IsEphemeral (evEventType e)" | "\<not> IsEphemeral (evEventType e)" "eventWireType e = []"
    | "\<not> IsEphemeral (evEventType e)" "eventWireType e \<noteq> []" by blast
  then show ?thesis
  proof cases
    case 1
    then have "evEventType e \<noteq> ''resume_ack''" by (auto simp: IsEphemeral_def)
    with conv [OF this] 1 assms(2,3) d1 show ?thesis
      by (auto simp: dispatch_def gains_def on_gateway_def Let_def split: if_splits)
  next
    case 2
    with assms d1 show ?thesis by (auto simp: dispatch_def gains_def Let_def served_def intro: took_nil)
  next
    case 3
    let ?w = "eventWireType e" let ?one = "if ?heard then [(?w, Some (evPayload e))] else []"
    let ?users = "if user_scoped (evEventType e) then replicate (count_list (evAffectedUserIDs e) (cnUserID c)) (?w, Some (evPayload e)) else []"
    have g: "gains c e = ?one @ ?users" using 3 by (simp add: gains_def Let_def)
    have "?heard \<longrightarrow> length (cnQueue c) < SendBufferSize" using assms(2) unfolding g by auto
    from conv [OF wire_not_resume this] obtain c1 where
      c1: "served (deliver_conversation now e ?w (svGateway s)) i c1" "took c ?one c1" by blast
    have u: "cnUserID c1 = cnUserID c" using c1(2) by (simp add: took_def)
    have "\<exists>c2. served (deliver_users now e ?w (deliver_conversation now e ?w (svGateway s))) i c2 \<and> took c1 ?users c2"
    proof (cases "user_scoped (evEventType e)")
      case True
      have "length (cnQueue c1) + count_list (evAffectedUserIDs e) (cnUserID c1) \<le> SendBufferSize"
        using took_length [OF c1(2)] assms(2) True unfolding g u by simp
      from deliver_users_took [OF wire_not_resume c1(1) this] True u show ?thesis by (simp add: deliver_users_def)
    next
      case False
      with c1 show ?thesis by (auto simp: deliver_users_def served_def intro: took_nil)
    qed
    then obtain c2 where c2: "served (deliver_users now e ?w (deliver_conversation now e ?w (svGateway s))) i c2" "took c1 ?users c2" by blast
    have "s' = on_gateway (deliver_users now e ?w) (on_gateway (deliver_conversation now e ?w)
        (s\<lparr>svReplay := replay_append e now (svReplay s)\<rparr>))"
      using 3 assms(3) d1 by (auto simp: dispatch_def Let_def)
    with c2 took_trans [OF c1(2) c2(2)] show ?thesis unfolding g by (auto simp: on_gateway_def)
  qed
qed

section \<open>A stream of events\<close>

text \<open>The events of a stream the dispatcher lets through.\<close>

fun let_through :: "Event list \<Rightarrow> dedupeSet \<Rightarrow> Event list" where
  "let_through [] d = []"
| "let_through (e # es) d =
     (let (new, d1) = dedupe_add (evGlobalSeq e) d in (if new then [e] else []) @ let_through es d1)"

lemma let_through_seqs: "map evGlobalSeq (let_through es d) = fst (accepted dedupe_add (map evGlobalSeq es) d)"
  by (induction es arbitrary: d) (auto simp: Let_def split: prod.splits)

lemma set_let_through: "set (let_through es d) \<subseteq> set es"
  by (induction es arbitrary: d) (auto simp: Let_def split: prod.splits if_splits)

definition dispatch_all :: "(Event \<times> go_time) list \<Rightarrow> dedupeSet \<times> Server \<Rightarrow> dedupeSet \<times> Server" where
  "dispatch_all es x = fold (\<lambda>(e, t). dispatch t e) es x"

lemma dispatch_stream:
  assumes "\<forall>(e, t) \<in> set es. evGlobalSeq e > 0"
  shows "served (svGateway s) i c \<Longrightarrow>
     length (cnQueue c) + length (concat (map (gains c) (let_through (map fst es) d))) \<le> SendBufferSize \<Longrightarrow>
     dispatch_all es (d, s) = (d', s') \<Longrightarrow>
     \<exists>c'. served (svGateway s') i c' \<and> took c (concat (map (gains c) (let_through (map fst es) d))) c'"
  using assms
proof (induction es arbitrary: s c d)
  case Nil
  then show ?case by (auto simp: dispatch_all_def served_def intro: took_nil)
next
  case (Cons x es)
  obtain e t where x: "x = (e, t)" by fastforce
  have pos: "evGlobalSeq e > 0" using Cons.prems(4) by (simp add: x)
  obtain new d1 where a: "dedupe_add (evGlobalSeq e) d = (new, d1)" by fastforce
  obtain d2 s2 where st: "dispatch t e (d, s) = (d2, s2)" by fastforce
  then have d2: "d2 = d1" using a pos by (auto simp: dispatch_def Let_def split: if_splits)
  have rest: "dispatch_all es (d1, s2) = (d', s')" using Cons.prems(3) st d2 by (simp add: dispatch_all_def x)
  show ?case
  proof (cases new)
    case False
    then have "s2 = s" using st a pos by (simp add: dispatch_def Let_def)
    with Cons.IH [of s c d1] Cons.prems rest a False show ?thesis by (simp add: x)
  next
    case True
    have len: "length (cnQueue c) + length (gains c e) + length (concat (map (gains c) (let_through (map fst es) d1))) \<le> SendBufferSize"
      using Cons.prems(2) a True by (simp add: x)
    obtain c1 where c1: "served (svGateway s2) i c1" "took c (gains c e) c1"
      using dispatch_new [OF Cons.prems(1) _ st] len a True by auto
    have same: "gains c1 = gains c" using c1(2) by (rule gains_took)
    have "length (cnQueue c1) + length (concat (map (gains c1) (let_through (map fst es) d1))) \<le> SendBufferSize"
      using len took_length [OF c1(2)] by (simp add: same)
    from Cons.IH [OF c1(1) this rest] Cons.prems(4) obtain c2 where
      "served (svGateway s') i c2" "took c1 (concat (map (gains c1) (let_through (map fst es) d1))) c2" by auto
    with took_trans [OF c1(2)] a True show ?thesis by (auto simp: x same)
  qed
qed

section \<open>From the commit to the socket\<close>

lemma head_not_negative: "0 \<le> ChangeLogHead db"
proof -
  have "a \<le> fold max xs a" for a :: go_int and xs
    by (induction xs arbitrary: a) (simp, metis fold_simps(2) max.bounded_iff)
  then show ?thesis by (simp add: ChangeLogHead_def)
qed

lemma map_subset: "set ys \<subseteq> f ` A \<Longrightarrow> \<exists>xs. ys = map f xs \<and> set xs \<subseteq> A"
proof (induction ys)
  case Nil
  then show ?case by simp
next
  case (Cons y ys)
  then obtain xs a where "ys = map f xs" "set xs \<subseteq> A" "y = f a" "a \<in> A" by auto
  then show ?case by (intro exI [of _ "a # xs"]) simp
qed

lemma relay_event_wire: "evGlobalSeq (relay_event r) = lGlobalSeq r"
  by (simp add: relay_event_def)

text \<open>What comes through the window is a first piece of the log, of what was published.\<close>

lemma through_is_prefix:
  assumes srt: "log_sorted clog" and ok: "published_ok clog start cur pub"
  shows "\<exists>rows. let_through (map relay_event pub) (newDedupeSet 4096) = map relay_event rows \<and> prefix rows (after start clog)
    \<and> set rows \<subseteq> set pub \<and> (\<forall>r \<in> set (after start clog). lGlobalSeq r \<le> cur \<longrightarrow> r \<in> set rows)"
proof -
  let ?tail = "after start clog" let ?through = "let_through (map relay_event pub) (newDedupeSet 4096)"
  have sub: "set pub \<subseteq> set ?tail" using ok by (simp add: published_ok_def)
  note acc = published_accepted [OF srt ok]
  have seqs: "map evGlobalSeq ?through = fst (accepted dedupe_add (map lGlobalSeq pub) (newDedupeSet 4096))"
    unfolding let_through_seqs by (simp add: relay_event_wire comp_def)
  have "set ?through \<subseteq> relay_event ` set pub" using set_let_through by fastforce
  from map_subset [OF this] obtain rows where rows: "?through = map relay_event rows" "set rows \<subseteq> set pub" by blast
  have rs: "map lGlobalSeq rows = fst (accepted dedupe_add (map lGlobalSeq pub) (newDedupeSet 4096))"
    using seqs unfolding rows by (simp add: relay_event_wire comp_def)
  have inj: "inj_on lGlobalSeq (set ?tail)"
    using after_sorted [OF srt, of start] by (simp add: log_sorted_def strict_sorted_iff distinct_map)
  have "prefix (map lGlobalSeq rows) (map lGlobalSeq ?tail)" using acc(2) rs by simp
  then have "map lGlobalSeq rows = map lGlobalSeq (take (length rows) ?tail)"
    by (metis length_map prefix_def append_eq_conv_conj take_map)
  then have "rows = take (length rows) ?tail"
    using inj rows(2) sub by (intro map_inj_on [of lGlobalSeq]) (auto intro: inj_on_subset dest: in_set_takeD)
  then have pre: "prefix rows ?tail" by (metis take_is_prefix)
  have "r \<in> set rows" if r: "r \<in> set ?tail" "lGlobalSeq r \<le> cur" for r
  proof -
    have "r \<in> set pub" using ok r by (simp add: published_ok_def)
    then have "lGlobalSeq r \<in> set (map lGlobalSeq rows)" using acc(1) rs by simp
    then obtain r' where "r' \<in> set rows" "lGlobalSeq r' = lGlobalSeq r" by auto
    with inj r(1) rows(2) sub show "r \<in> set rows" by (metis inj_onD subsetD)
  qed
  with rows pre show ?thesis by blast
qed

lemma relayed_positive:
  assumes "0 \<le> start" and "set pub \<subseteq> set (after start clog)"
  shows "\<forall>(e, t) \<in> set (zip (map relay_event pub) clk). evGlobalSeq e > 0"
proof
  fix x assume "x \<in> set (zip (map relay_event pub) clk)"
  then obtain e t where x: "x = (e, t)" "e \<in> relay_event ` set pub" by (metis prod.exhaust set_map set_zip_leftD)
  then obtain r where "e = relay_event r" "r \<in> set (after start clog)" using assms(2) by auto
  then show "case x of (e, t) \<Rightarrow> evGlobalSeq e > 0" using assms(1) x(1) by (auto simp: relay_event_wire after_def)
qed


definition phone :: Connection where
  "phone = (newConnection ''c-1'' 10 7001 ''phone'')\<lparr>cnSubscribed := [1]\<rparr>"

lemma phone_simps: "cnSubscribed phone = [1]" "cnUserID phone = 10" "cnClosing phone = None" "cnQueue phone = []"
  by (simp_all add: phone_def newConnection_def)

lemma phone_gains:
  "gains phone (relay_event (demo_row n)) = [(event_type_string EventMessageCreated, Some (JObj []))]"
proof -
  have t: "eventWireType (relay_event (demo_row n)) = event_type_string EventMessageCreated"
    "\<not> IsEphemeral (event_type_string EventMessageCreated)" "event_type_string EventMessageCreated \<noteq> []"
    "\<not> user_scoped (event_type_string EventMessageCreated)"
    "evEventType (relay_event (demo_row n)) = event_type_string EventMessageCreated"
    "evConversationID (relay_event (demo_row n)) = Some 1" "evPayload (relay_event (demo_row n)) = JObj []"
    by (simp_all add: eventWireType_def relay_event_def demo_row_def IsEphemeral_def user_scoped_def
        EventTypeToWire_def)
  show ?thesis unfolding gains_def t Let_def by (simp add: t phone_simps del: event_type_string.simps)
qed


end
