(* ===== verification/RtProtocol.thy ===== *)
theory RtProtocol
  imports RtDispatch
begin

text \<open>
  The vocabulary of the socket (\<open>realtime/domain/protocol.go\<close>): the frame as it is written, the names
  of both directions, and that the gateway keeps to them.
\<close>

section \<open>The frame on the wire\<close>

definition Subprotocol :: string where "Subprotocol = ''chat.v1''"

definition Frame_Encode :: "Frame \<Rightarrow> json" where
  "Frame_Encode f =
     (let f = f\<lparr>fmVersion := ProtocolVersion\<rparr> in
      JObj ([(''v'', JInt (fmVersion f))] @ omitempty ''id'' JStr (if fmID f = [] then None else Some (fmID f))
        @ [(''type'', JStr (fmType f)), (''seq'', jopt JInt (fmSeq f)), (''at'', JTime (fmAt f))] @ omitempty ''data'' (\<lambda>d. d) (fmData f)))"

section \<open>Names\<close>

definition client_events :: "string list" where
  "client_events = [''hello'', ''resume'', ''subscribe'', ''unsubscribe'', ''message.send'', ''message.edit'', ''message.delete'',
     ''reaction.add'', ''reaction.remove'', ''receipt.read'', ''receipt.delivered'', ''typing.start'', ''typing.stop'',
     ''presence.update'', ''ping'', ''pong'', ''ack'']"

definition server_events :: "string list" where
  "server_events = [''hello_ack'', ''resume_ack'', ''resume_rejected'', ''ack'', ''error'', ''message.created'', ''message.edited'',
     ''message.deleted'', ''reaction.added'', ''reaction.removed'', ''receipt.read'', ''receipt.delivered'', ''typing.indicator'',
     ''presence.changed'', ''conversation.created'', ''conversation.updated'', ''membership.changed'', ''conversation.deleted'',
     ''media.ready'', ''notification.created'', ''session.revoked'', ''settings.updated'', ''server.shutdown'', ''flag.updated'']"

section \<open>Facts\<close>

text \<open>A frame is read back as it was, at the version of the protocol; empty data counts as absent.\<close>

lemma lower_frame_names [simp]:
  "map lower_char ''v'' = ''v''" "map lower_char ''id'' = ''id''" "map lower_char ''type'' = ''type''"
  "map lower_char ''seq'' = ''seq''" "map lower_char ''at'' = ''at''" "map lower_char ''data'' = ''data''"
  by code_simp+

lemma frame_roundtrip:
  assumes "fmType f \<noteq> []" and "pred_option int64 (fmSeq f)" and "pred_option is_object (fmData f)"
  shows "Frame_Decode (Some (Frame_Encode f)) = Inr (f\<lparr>fmVersion := ProtocolVersion\<rparr>)"
proof -
  have seq: "get_ptr get_int 0 (jopt JInt x) None = Some x" if "pred_option int64 x" for x
    using that by (cases x) (simp_all add: get_ptr_def jopt_def)
  have "int64 ProtocolVersion" by (simp add: ProtocolVersion_def int64_def)
  then have "unmarshal_frame (Frame_Encode f) = Some (f\<lparr>fmVersion := ProtocolVersion\<rparr>)"
    using assms(2) by (cases "fmData f") (simp_all add: unmarshal_frame_def Frame_Encode_def same_name_def seq Let_def del: list.map)
  then show ?thesis
    using assms(1,3) by (cases "fmData f") (simp_all add: Frame_Decode_def from_opt_def ensure_def)
qed

text \<open>What the dispatcher sends and replays has a name of the server's list, or nothing is sent.\<close>

lemma wire_names:
  "pred_option (\<lambda>w. w \<in> set server_events) (EventTypeToWire t)" "''reaction.added'' \<in> set server_events"
  "''reaction.removed'' \<in> set server_events" "''presence.changed'' \<in> set server_events" "''typing.indicator'' \<in> set server_events"
  unfolding EventTypeToWire_def by (simp_all add: server_events_def)

lemma wire_vocabulary: "eventWireType e \<noteq> [] \<Longrightarrow> eventWireType e \<in> set server_events"
  using wire_names(1) [of "evEventType e"] wire_names(2,3) unfolding eventWireType_def
  by (simp split: option.splits if_splits)

lemma gains_vocabulary: "x \<in> set (gains c e) \<Longrightarrow> fst x \<in> set server_events"
  using wire_vocabulary [of e] wire_names(4,5)
  by (auto simp: gains_def Let_def IsEphemeral_def split: if_splits)

text \<open>
  Once the handshake is done, exactly the names of the client's list but \<open>hello\<close> and \<open>pong\<close> are taken;
  any other closes the socket.
\<close>

lemma unknown_frame:
  assumes "fmType frame \<notin> set client_events - {''hello'', ''pong''}"
  shows "dispatch_frame env c frame s = protocol_error (UnknownFrame (fmType frame)) s"
  using assms by (auto simp: client_events_def dispatch_frame_def Let_def)

definition known :: "outcome \<Rightarrow> bool" where
  "known r \<longleftrightarrow> (\<forall>t. fst r \<noteq> Inl (UnknownFrame t))"

named_theorems known_rules

lemma known_ends [known_rules]: "known (finished s)" "(\<And>t. e \<noteq> UnknownFrame t) \<Longrightarrow> known (protocol_error e s)"
  by (simp_all add: known_def finished_def protocol_error_def)

lemma decodeData_error: "decodeData d frame = Inl e \<Longrightarrow> e = MissingData \<or> e = InvalidData"
  by (auto simp: decodeData_def ensure_def from_opt_def split: if_splits option.splits)

lemma known_payload [known_rules]: "(\<And>p. known (k p s)) \<Longrightarrow> known (with_payload d frame k s)"
  using decodeData_error [of d frame] by (cases "decodeData d frame") (auto simp: with_payload_def protocol_error_def known_def)

lemma known_result [known_rules]: "known (ack_result env c i render r s)"
  unfolding ack_result_def by (rule known_rules)

lemma known_if [known_rules]: "known a \<Longrightarrow> known b \<Longrightarrow> known (if p then a else b)"
  by simp

lemma known_pair [known_rules]: "(\<And>a b. known (k a b)) \<Longrightarrow> known (case x of (a, b) \<Rightarrow> k a b)"
  by (cases x) simp

lemmas handler_defs = handleResume_def handleSubscribe_def handleUnsubscribe_def handleMessageSend_def handleMessageEdit_def
  handleMessageDelete_def handleReaction_def handleReceiptRead_def handleReceiptDelivered_def handleTyping_def handlePresenceUpdate_def

lemma handlers_known:
  "known (handleResume env c frame s)" "known (handleSubscribe env c frame s)" "known (handleUnsubscribe env c frame s)"
  "known (handleMessageSend env c frame s)" "known (handleMessageEdit env c frame s)" "known (handleMessageDelete env c frame s)"
  "known (handleReaction env c frame add s)" "known (handleReceiptRead env c frame s)" "known (handleReceiptDelivered env c frame s)"
  "known (handleTyping env c frame status s)" "known (handlePresenceUpdate env c frame s)"
  unfolding handler_defs Let_def
  by (auto intro!: known_rules split: option.split sum.split)

lemma known_frame:
  assumes "fmType frame \<in> set client_events - {''hello'', ''pong''}"
  shows "known (dispatch_frame env c frame s)"
proof -
  have "known (dispatch_frame env c frame s) \<or> dispatch_frame env c frame s = protocol_error (UnknownFrame (fmType frame)) s
      \<and> fmType frame \<notin> set client_events - {''hello'', ''pong''}"
    unfolding dispatch_frame_def Let_def by (simp add: handlers_known known_ends client_events_def)
  with assms show ?thesis by blast
qed

end
