(* ===== verification/AuthDomain.thy ===== *)
theory AuthDomain
  imports ChatDomain RedisKeys "HOL-Library.Sublist"
begin

text \<open>
  The domain of authentication (\<open>auth/domain\<close>, and the value objects of \<open>user/domain\<close>): accounts,
  credentials, sessions, tokens, the errors callers branch on, and the validation of identifiers,
  passwords, names and device ids.  An error that is wrapped with more context is represented by the
  sentinel \<open>errors.Is\<close> finds in it; an error of a collaborator without a sentinel is \<open>AuthIO\<close>.
\<close>

section \<open>Errors\<close>

datatype auth_error =
    ValidationError string string      \<comment> \<open>field and reason\<close>
  | ErrOTPInvalid | ErrOTPExpired
  | ErrInvalidCredentials | ErrAccountSuspended | ErrUnsupportedLoginMethod
  | ErrSessionNotFound | ErrRefreshTokenInvalid | ErrRefreshTokenReuse | ErrSessionNotOwned
  | ErrRecoveryTokenInvalid | ErrStepUpRequired | ErrAccountAlreadyDeleted
  | ErrAccountDeleted | ErrTokenExpired | ErrTokenInvalid | ErrTokenRevoked | ErrSessionRevoked
  | AccountLockedError go_time         \<comment> \<open>the time to wait\<close>
  | ErrUserNotFound | ErrIdentifierTaken | ErrUsernameTaken
  | UserAlreadyDeleted | UserRestoreExpired
  | AuthIO

section \<open>Case\<close>

text \<open>
  \<open>strings.ToLower\<close> on runes.  Only two runes outside ASCII have an ASCII lower case, the dotted I
  and the Kelvin sign; no check of the code looks at the case of the others, which are left alone.
\<close>

definition lower_rune :: "nat \<times> string \<Rightarrow> string" where
  "lower_rune = (\<lambda>(cp, bs).
     if 65 \<le> cp \<and> cp \<le> 90 then [char_of (cp + 32)]
     else if cp = 304 then ''i'' else if cp = 8490 then ''k'' else bs)"

definition ToLower :: "string \<Rightarrow> string" where
  "ToLower s = concat (map lower_rune (runes s))"

definition is_lower :: "char \<Rightarrow> bool" where
  "is_lower c \<longleftrightarrow> 97 \<le> byte c \<and> byte c \<le> 122"

definition is_upper :: "char \<Rightarrow> bool" where
  "is_upper c \<longleftrightarrow> 65 \<le> byte c \<and> byte c \<le> 90"

fun contains_part :: "string \<Rightarrow> string \<Rightarrow> bool" where
  "contains_part [] t \<longleftrightarrow> t = []"
| "contains_part (c # s) t \<longleftrightarrow> prefix t (c # s) \<or> contains_part s t"

section \<open>Identifiers\<close>

datatype IdentifierType = IdentifierPhone | IdentifierEmail | OtherIdentifier string

record Identifier =
  idType :: IdentifierType
  idValue :: string

text \<open>
  \<open>NormalizePhone\<close>: the separators are ASCII, so dropping bytes is dropping runes (an invalid byte,
  which Go would replace, makes the result invalid either way).
\<close>

definition NormalizePhone :: "string \<Rightarrow> string" where
  "NormalizePhone raw =
     (let s = filter (\<lambda>c. c \<notin> set '' -().'') (TrimSpace raw) in
      if take 2 s = ''00'' then CHR ''+'' # drop 2 s else s)"

definition NormalizeEmail :: "string \<Rightarrow> string" where
  "NormalizeEmail raw = ToLower (TrimSpace raw)"

text \<open>\<open>phoneRe\<close>: a plus, a digit that is not zero, six to fourteen digits more.\<close>

definition phoneRe :: "string \<Rightarrow> bool" where
  "phoneRe s =
     (case s of
        p # d # ds \<Rightarrow> p = CHR ''+'' \<and> is_digit d \<and> d \<noteq> CHR ''0'' \<and> (\<forall>c \<in> set ds. is_digit c)
                       \<and> 6 \<le> length ds \<and> length ds \<le> 14
      | _ \<Rightarrow> False)"

definition email_local :: "char \<Rightarrow> bool" where
  "email_local c \<longleftrightarrow> is_lower c \<or> is_digit c \<or> c \<in> set ''.!#$%&*+/=?^_`{|}~-'' \<or> byte c = 39"

definition domain_label :: "string \<Rightarrow> bool" where
  "domain_label l \<longleftrightarrow> l \<noteq> [] \<and> length l \<le> 63 \<and> (\<forall>c \<in> set l. is_lower c \<or> is_digit c \<or> c = CHR ''-'')
     \<and> hd l \<noteq> CHR ''-'' \<and> last l \<noteq> CHR ''-''"

fun split_on :: "char \<Rightarrow> string \<Rightarrow> string list" where
  "split_on sep [] = [[]]"
| "split_on sep (c # cs) =
     (if c = sep then [] # split_on sep cs
      else case split_on sep cs of [] \<Rightarrow> [[c]] | w # ws \<Rightarrow> (c # w) # ws)"

text \<open>\<open>emailRe\<close>: a local part, an at sign, two or more labels between dots.\<close>

definition emailRe :: "string \<Rightarrow> bool" where
  "emailRe s =
     (case Cut s (CHR ''@'') of
        None \<Rightarrow> False
      | Some (l, d) \<Rightarrow> l \<noteq> [] \<and> (\<forall>c \<in> set l. email_local c)
                       \<and> 2 \<le> length (split_on (CHR ''.'') d) \<and> (\<forall>w \<in> set (split_on (CHR ''.'') d). domain_label w))"

definition NewIdentifier :: "IdentifierType \<Rightarrow> string \<Rightarrow> auth_error + Identifier" where
  "NewIdentifier ty raw =
     (case ty of
        IdentifierPhone \<Rightarrow>
          (let v = NormalizePhone raw in
           if \<not> phoneRe v then Inl (ValidationError ''identifier'' ''invalid_phone'') else Inr \<lparr>idType = ty, idValue = v\<rparr>)
      | IdentifierEmail \<Rightarrow>
          (let v = NormalizeEmail raw in
           if \<not> emailRe v then Inl (ValidationError ''identifier'' ''invalid_email'') else Inr \<lparr>idType = ty, idValue = v\<rparr>)
      | OtherIdentifier _ \<Rightarrow> Inl (ValidationError ''identifier_type'' ''unsupported''))"

section \<open>Names\<close>

definition displayNameMaxLen :: nat where "displayNameMaxLen = 64"

definition NewDisplayName :: "string \<Rightarrow> auth_error + string" where
  "NewDisplayName raw =
     (let s = TrimSpace raw in
      if s = [] then Inl (ValidationError ''display_name'' ''must_not_be_blank'')
      else if rune_count s > displayNameMaxLen then Inl (ValidationError ''display_name'' ''too_long'')
      else Inr s)"

definition usernameMinLen :: nat where "usernameMinLen = 3"
definition usernameMaxLen :: nat where "usernameMaxLen = 30"

definition usernameRe :: "string \<Rightarrow> bool" where
  "usernameRe s \<longleftrightarrow> s \<noteq> [] \<and> (\<forall>c \<in> set s. is_lower c \<or> is_digit c \<or> c = CHR ''.'' \<or> c = CHR ''_'')"

definition reservedUsernames :: "string list" where
  "reservedUsernames =
     [''admin'', ''administrator'', ''support'', ''help'', ''system'', ''root'', ''moderator'', ''official'', ''staff'',
      ''team'', ''api'', ''info'', ''service'', ''security'', ''privacy'']"

definition NewUsername :: "string \<Rightarrow> auth_error + string" where
  "NewUsername raw =
     (let s = ToLower (TrimSpace raw); n = rune_count s in
      if n < usernameMinLen \<or> n > usernameMaxLen then Inl (ValidationError ''username'' ''length'')
      else if \<not> usernameRe s then Inl (ValidationError ''username'' ''invalid_chars'')
      else if hd s \<in> {CHR ''.'', CHR ''_''} \<or> last s \<in> {CHR ''.'', CHR ''_''} then Inl (ValidationError ''username'' ''invalid_edges'')
      else if s \<in> set reservedUsernames then Inl (ValidationError ''username'' ''reserved'')
      else Inr s)"

section \<open>Passwords and opaque tokens\<close>

definition passwordMinLen :: nat where "passwordMinLen = 8"

definition ValidatePassword :: "string \<Rightarrow> string \<Rightarrow> auth_error + unit" where
  "ValidatePassword password identifier =
     (if length password < passwordMinLen then Inl (ValidationError ''password'' ''too_short'')
      else if length password > 1024 then Inl (ValidationError ''password'' ''too_long'')
      else if identifier \<noteq> [] \<and> contains_part (ToLower password) (ToLower identifier)
      then Inl (ValidationError ''password'' ''contains_identifier'')
      else if ToLower password \<in> {''password'', ''password123'', ''12345678'', ''qwertyui'', ''letmein1''}
      then Inl (ValidationError ''password'' ''too_common'')
      else Inr ())"

definition OpaqueTokenLen :: nat where "OpaqueTokenLen = 43"

definition base64url :: "char \<Rightarrow> bool" where
  "base64url c \<longleftrightarrow> is_upper c \<or> is_lower c \<or> is_digit c \<or> c = CHR ''-'' \<or> c = CHR ''_''"

text \<open>\<open>base64.RawURLEncoding.DecodeString\<close> succeeds: line breaks are skipped, one left-over digit is an error.\<close>

definition raw_url_decodes :: "string \<Rightarrow> bool" where
  "raw_url_decodes s =
     (let t = filter (\<lambda>c. byte c \<noteq> 10 \<and> byte c \<noteq> 13) s in (\<forall>c \<in> set t. base64url c) \<and> length t mod 4 \<noteq> 1)"

definition IsOpaqueTokenShape :: "string \<Rightarrow> bool" where
  "IsOpaqueTokenShape token \<longleftrightarrow> length token = OpaqueTokenLen \<and> raw_url_decodes token"

section \<open>Devices and sessions\<close>

record DeviceInfo =
  dvID :: string
  dvName :: "string option"
  dvPlatform :: "string option"
  dvAppVersion :: "string option"

definition ValidateDeviceID :: "string \<Rightarrow> auth_error + unit" where
  "ValidateDeviceID i =
     (if i = [] then Inl (ValidationError ''device_id'' ''required'')
      else if length i > 64 then Inl (ValidationError ''device_id'' ''too_long'')
      else if \<exists>c \<in> set i. \<not> (is_lower c \<or> is_upper c \<or> is_digit c \<or> c \<in> set ''._-'')
      then Inl (ValidationError ''device_id'' ''invalid_charset'')
      else Inr ())"

definition ValidateDeviceName :: "string \<Rightarrow> auth_error + unit" where
  "ValidateDeviceName name =
     (if name = [] then Inl (ValidationError ''device_name'' ''required'')
      else if length name > 64 then Inl (ValidationError ''device_name'' ''too_long'')
      else Inr ())"

datatype SessionState = SessionActive | SessionRevoked | SessionExpired | SessionSuspended

text \<open>The hashes are empty and \<open>seRefreshExpiresAt\<close> is \<open>None\<close> where the row has NULL.\<close>

record Session =
  seID :: go_int
  seUserID :: go_int
  seDevice :: DeviceInfo
  sePushToken :: "string option"
  seFamily :: go_int
  seHash :: string
  sePreviousHash :: string
  seRefreshExpiresAt :: "go_time option"
  seIPAddress :: "string option"
  seUserAgent :: "string option"
  seLastActiveAt :: go_time
  seState :: SessionState
  seCreatedAt :: go_time
  seUpdatedAt :: go_time

section \<open>Credentials and recovery tokens\<close>

datatype CredentialMethod = MethodPassword | MethodPasskey | MethodOAuth

text \<open>\<open>crData\<close> is the JSON payload of the row.\<close>

record Credential =
  crID :: go_int
  crUserID :: go_int
  crMethod :: CredentialMethod
  crProvider :: "string option"
  crData :: json
  crRevokedAt :: "go_time option"
  crCreatedAt :: go_time
  crUpdatedAt :: go_time

definition password_data :: "string \<Rightarrow> json" where
  "password_data hash = JObj [(''hash'', JStr hash)]"

definition Credential_PasswordHash :: "Credential \<Rightarrow> auth_error + string" where
  "Credential_PasswordHash c =
     (case jfield ''hash'' (crData c) of
        Some (JStr h) \<Rightarrow> if h = [] then Inl ErrInvalidCredentials else Inr h
      | _ \<Rightarrow> Inl ErrInvalidCredentials)"

definition NewPasswordCredential :: "go_int \<Rightarrow> go_int \<Rightarrow> string \<Rightarrow> go_time \<Rightarrow> Credential" where
  "NewPasswordCredential i userID hash now =
     \<lparr>crID = i, crUserID = userID, crMethod = MethodPassword, crProvider = None, crData = password_data hash,
      crRevokedAt = None, crCreatedAt = now, crUpdatedAt = now\<rparr>"

datatype TokenPurpose = PurposePasswordReset | PurposeEmailChange | PurposePhoneChange

record AuthToken =
  atID :: go_int
  atUserID :: go_int
  atPurpose :: TokenPurpose
  atTokenHash :: string
  atData :: json
  atExpiresAt :: go_time
  atUsedAt :: "go_time option"
  atCreatedAt :: go_time

definition pendingValue :: "string \<Rightarrow> AuthToken \<Rightarrow> string option" where
  "pendingValue k t =
     (case jfield k (atData t) of Some (JStr v) \<Rightarrow> if v = [] then None else Some v | _ \<Rightarrow> None)"

definition PendingEmail :: "AuthToken \<Rightarrow> string option" where "PendingEmail = pendingValue ''email''"
definition PendingPhone :: "AuthToken \<Rightarrow> string option" where "PendingPhone = pendingValue ''phone''"

section \<open>Access tokens\<close>

record AccessClaims =
  acUserID :: go_int
  acSessionID :: go_int
  acDeviceID :: string
  acScopes :: "string list"
  acJTI :: string
  acTokenVersion :: go_int
  acExpiresAt :: go_time

record TokenPair =
  tpAccessToken :: string
  tpRefreshToken :: string
  tpJTI :: string
  tpAccessExpiresAt :: go_time
  tpRefreshExpiresAt :: go_time

section \<open>Login\<close>

datatype LoginMethod = LoginMethodPassword | LoginMethodOTP | LoginMethodPasskey | OtherMethod string

fun method_string :: "LoginMethod \<Rightarrow> string" where
  "method_string LoginMethodPassword = ''password''"
| "method_string LoginMethodOTP = ''otp''"
| "method_string LoginMethodPasskey = ''passkey''"
| "method_string (OtherMethod s) = s"

record LoginPolicy =
  lpMaxFailures :: int
  lpLockoutDuration :: go_time

definition DefaultLoginPolicy :: LoginPolicy where
  "DefaultLoginPolicy = \<lparr>lpMaxFailures = 5, lpLockoutDuration = 5 * 60 * 1000000\<rparr>"

record LoginEvent =
  leID :: go_int
  leUserID :: "go_int option"
  leIdentifier :: string
  leMethod :: LoginMethod
  leSuccess :: bool
  leNewDevice :: bool
  leDeviceID :: string
  leIPAddress :: "string option"
  leUserAgent :: "string option"
  leCreatedAt :: go_time

record AuditEvent =
  aeActorUserID :: "go_int option"
  aeAction :: string
  aeResourceType :: string
  aeResourceID :: "go_int option"
  aeIPAddress :: "string option"
  aeDetails :: "(string \<times> string) list"

record RiskDecision =
  rdStepUp :: bool
  rdNotify :: bool

definition PermissiveRisk :: RiskDecision where
  "PermissiveRisk = \<lparr>rdStepUp = False, rdNotify = False\<rparr>"

text \<open>A row of \<open>users\<close> has a deletion time beside the fields of the entity.\<close>

record Account = User +
  uDeletedAt :: "go_time option"

definition user_of :: "Account \<Rightarrow> User" where
  "user_of a = User.truncate a"

end
