(* ===== verification/AuthStore.thy ===== *)
theory AuthStore
  imports AuthDomain Cursor
begin

text \<open>
  The stores of authentication: the tables \<open>users\<close>, \<open>user_credentials\<close>, \<open>user_sessions\<close> and
  \<open>auth_tokens\<close> with their keys (\<open>auth/infra/postgres\<close>), and the Redis login throttle and one-time
  codes (\<open>auth/infra/throttle\<close>, \<open>auth/infra/otp\<close>).  Every operation first meets the fault the
  environment holds for its call.  A UPDATE sets \<open>updated_at\<close> through the trigger of its table.
  \<open>auReferenced\<close> are the accounts other tables of the schema refer to without a cascade.
\<close>

record AuthDB =
  auUsers :: "Account list"
  auCredentials :: "Credential list"
  auSessions :: "Session list"
  auTokens :: "AuthToken list"
  auNextToken :: go_int
  auReferenced :: "go_int list"

datatype auth_call =
    CallFindUser | CallTaken | CallCreateUser | CallBumpVersion | CallSetIdentifier | CallMarkDeleted | CallRestore
  | CallFindDeleted | CallPurgeUsers | CallFindPassword | CallCreateCredential | CallReplacePassword
  | CallSessionByDevice | CallSessionByHash | CallSessionByPrevious | CallSessionByID | CallSessionList
  | CallSessionCreate | CallSessionUpdate | CallSessionRotate | CallSessionState | CallSessionRename
  | CallSessionExpire | CallSessionPurge | CallTokenCreate | CallTokenConsume | CallHistoryList
  | CallBeginAuth | CallCommitAuth | CallSessionID | CallUserID | CallCredentialID | CallRandom | CallIssue | CallHash
  | CallRisk | CallLockout | CallRecordFailure | CallClear | CallOTP | CallHistory | CallAudit

type_synonym auth_faults = "auth_call \<Rightarrow> bool"

definition acall :: "auth_faults \<Rightarrow> auth_call \<Rightarrow> auth_error + unit" where
  "acall fl k = (if fl k then Inl AuthIO else Inr ())"

lemma acall_Inr [simp]: "acall fl k = Inr u \<longleftrightarrow> \<not> fl k"
  by (simp add: acall_def)

section \<open>Users\<close>

definition unique_on :: "('r \<Rightarrow> 'k option) \<Rightarrow> 'k option \<Rightarrow> 'r list \<Rightarrow> bool" where
  "unique_on key k t \<longleftrightarrow> k = None \<or> (\<forall>r \<in> set t. key r \<noteq> k)"

definition User_FindByID :: "auth_faults \<Rightarrow> AuthDB \<Rightarrow> go_int \<Rightarrow> auth_error + User" where
  "User_FindByID fl db i =
     rbind (acall fl CallFindUser) (\<lambda>_.
     rbind (from_opt ErrUserNotFound (find (\<lambda>a. uID a = i) (auUsers db))) (\<lambda>a.
     if uAccountState a = AccountDeleted then Inl ErrUserNotFound else Inr (user_of a)))"

text \<open>\<open>findActiveOrSuspended\<close>, \<open>taken\<close> and \<open>findDeleted\<close>, by column.\<close>

definition find_live_by :: "auth_faults \<Rightarrow> AuthDB \<Rightarrow> (Account \<Rightarrow> string option) \<Rightarrow> string \<Rightarrow> auth_error + User" where
  "find_live_by fl db col v =
     rbind (acall fl CallFindUser) (\<lambda>_.
     rbind (from_opt ErrUserNotFound (find (\<lambda>a. col a = Some v \<and> uAccountState a \<noteq> AccountDeleted) (auUsers db)))
       (\<lambda>a. Inr (user_of a)))"

definition FindByPhone :: "auth_faults \<Rightarrow> AuthDB \<Rightarrow> string \<Rightarrow> auth_error + User" where
  "FindByPhone fl db = find_live_by fl db uPhoneNumber"

definition FindByEmail :: "auth_faults \<Rightarrow> AuthDB \<Rightarrow> string \<Rightarrow> auth_error + User" where
  "FindByEmail fl db = find_live_by fl db uEmail"

definition taken_by :: "auth_faults \<Rightarrow> AuthDB \<Rightarrow> (Account \<Rightarrow> string option) \<Rightarrow> string \<Rightarrow> auth_error + bool" where
  "taken_by fl db col v =
     rbind (acall fl CallTaken) (\<lambda>_. Inr (\<exists>a \<in> set (auUsers db). col a = Some v \<and> uAccountState a \<noteq> AccountDeleted))"

definition PhoneTaken :: "auth_faults \<Rightarrow> AuthDB \<Rightarrow> string \<Rightarrow> auth_error + bool" where
  "PhoneTaken fl db = taken_by fl db uPhoneNumber"

definition EmailTaken :: "auth_faults \<Rightarrow> AuthDB \<Rightarrow> string \<Rightarrow> auth_error + bool" where
  "EmailTaken fl db = taken_by fl db uEmail"

definition UsernameTaken :: "auth_faults \<Rightarrow> AuthDB \<Rightarrow> string \<Rightarrow> auth_error + bool" where
  "UsernameTaken fl db = taken_by fl db uUsername"

definition find_deleted_by :: "auth_faults \<Rightarrow> AuthDB \<Rightarrow> (Account \<Rightarrow> string option) \<Rightarrow> string \<Rightarrow> auth_error + User" where
  "find_deleted_by fl db col v =
     rbind (acall fl CallFindDeleted) (\<lambda>_.
     rbind (from_opt ErrUserNotFound (find (\<lambda>a. col a = Some v \<and> uAccountState a = AccountDeleted) (auUsers db)))
       (\<lambda>a. Inr (user_of a)))"

text \<open>The unique keys: id, phone and email over all rows, username over the rows not deleted.\<close>

definition live_username :: "Account \<Rightarrow> string option" where
  "live_username a = (if uDeletedAt a = None then uUsername a else None)"

definition user_unique :: "User \<Rightarrow> AuthDB \<Rightarrow> bool" where
  "user_unique u db \<longleftrightarrow> uID u \<notin> uID ` set (auUsers db) \<and> unique_on uPhoneNumber (uPhoneNumber u) (auUsers db)
     \<and> unique_on uEmail (uEmail u) (auUsers db) \<and> unique_on live_username (uUsername u) (auUsers db)"

definition User_Create :: "auth_faults \<Rightarrow> User \<Rightarrow> AuthDB \<Rightarrow> auth_error + (unit \<times> AuthDB)" where
  "User_Create fl u db =
     rbind (acall fl CallCreateUser) (\<lambda>_.
     if \<not> user_unique u db then Inl ErrIdentifierTaken
     else Inr ((), db\<lparr>auUsers := auUsers db @ [User.extend u (Account.fields None)]\<rparr>))"

definition upd_account :: "go_time \<Rightarrow> go_int \<Rightarrow> (Account \<Rightarrow> Account) \<Rightarrow> AuthDB \<Rightarrow> AuthDB" where
  "upd_account now i f db = db\<lparr>auUsers := upd_where (\<lambda>a. uID a = i) (\<lambda>a. (f a)\<lparr>uUpdatedAt := now\<rparr>) (auUsers db)\<rparr>"

definition BumpTokenVersion :: "auth_faults \<Rightarrow> go_time \<Rightarrow> go_int \<Rightarrow> AuthDB \<Rightarrow> auth_error + (go_int \<times> AuthDB)" where
  "BumpTokenVersion fl now i db =
     rbind (acall fl CallBumpVersion) (\<lambda>_.
     rbind (from_opt ErrUserNotFound (find (\<lambda>a. uID a = i) (auUsers db))) (\<lambda>a.
     if \<not> int64 (uTokenVersion a + 1) then Inl AuthIO
     else Inr (uTokenVersion a + 1, upd_account now i (\<lambda>a. a\<lparr>uTokenVersion := uTokenVersion a + 1\<rparr>) db)))"

definition set_column ::
  "auth_faults \<Rightarrow> go_time \<Rightarrow> (Account \<Rightarrow> string option) \<Rightarrow> (string option \<Rightarrow> Account \<Rightarrow> Account) \<Rightarrow> go_int \<Rightarrow> string \<Rightarrow> AuthDB \<Rightarrow> auth_error + (unit \<times> AuthDB)" where
  "set_column fl now col upd i v db =
     rbind (acall fl CallSetIdentifier) (\<lambda>_.
     if (\<exists>a \<in> set (auUsers db). uID a = i) \<and> \<not> unique_on col (Some v) (filter (\<lambda>a. uID a \<noteq> i) (auUsers db)) then Inl ErrIdentifierTaken
     else Inr ((), upd_account now i (upd (Some v)) db))"

definition SetEmail :: "auth_faults \<Rightarrow> go_time \<Rightarrow> go_int \<Rightarrow> string \<Rightarrow> AuthDB \<Rightarrow> auth_error + (unit \<times> AuthDB)" where
  "SetEmail fl now = set_column fl now uEmail (\<lambda>v a. a\<lparr>uEmail := v\<rparr>)"

definition SetPhone :: "auth_faults \<Rightarrow> go_time \<Rightarrow> go_int \<Rightarrow> string \<Rightarrow> AuthDB \<Rightarrow> auth_error + (unit \<times> AuthDB)" where
  "SetPhone fl now = set_column fl now uPhoneNumber (\<lambda>v a. a\<lparr>uPhoneNumber := v\<rparr>)"

definition MarkDeleted :: "auth_faults \<Rightarrow> go_time \<Rightarrow> go_int \<Rightarrow> go_time \<Rightarrow> AuthDB \<Rightarrow> auth_error + (unit \<times> AuthDB)" where
  "MarkDeleted fl now i deletedAt db =
     rbind (acall fl CallMarkDeleted) (\<lambda>_.
     if \<not> (\<exists>a \<in> set (auUsers db). uID a = i \<and> uAccountState a \<noteq> AccountDeleted) then Inl UserAlreadyDeleted
     else Inr ((), upd_account now i (\<lambda>a. a\<lparr>uAccountState := AccountDeleted, uDeletedAt := Some deletedAt\<rparr>) db))"

text \<open>A username that somebody took while the account was deleted violates its index.\<close>

definition Restore :: "auth_faults \<Rightarrow> go_time \<Rightarrow> go_int \<Rightarrow> go_time \<Rightarrow> AuthDB \<Rightarrow> auth_error + (unit \<times> AuthDB)" where
  "Restore fl now i graceCutoff db =
     rbind (acall fl CallRestore) (\<lambda>_.
     case find (\<lambda>a. uID a = i) (auUsers db) of
       None \<Rightarrow> Inl UserRestoreExpired
     | Some a \<Rightarrow>
         if \<not> (uAccountState a = AccountDeleted \<and> (case uDeletedAt a of None \<Rightarrow> False | Some d \<Rightarrow> graceCutoff \<le> d)) then Inl UserRestoreExpired
         else if \<not> unique_on live_username (uUsername a) (filter (\<lambda>b. uID b \<noteq> i) (auUsers db)) then Inl AuthIO
         else Inr ((), upd_account now i (\<lambda>a. a\<lparr>uAccountState := AccountActive, uDeletedAt := None\<rparr>) db))"

text \<open>One transaction; a reference from another table fails the delete and with it all of them.\<close>

definition purge_due :: "go_time \<Rightarrow> AuthDB \<Rightarrow> go_int list" where
  "purge_due cutoff db =
     map uID (filter (\<lambda>a. uAccountState a = AccountDeleted \<and> (case uDeletedAt a of None \<Rightarrow> False | Some d \<Rightarrow> d \<le> cutoff)) (auUsers db))"

definition PurgeDeleted :: "auth_faults \<Rightarrow> go_time \<Rightarrow> AuthDB \<Rightarrow> auth_error + (int \<times> AuthDB)" where
  "PurgeDeleted fl cutoff db =
     (let ids = purge_due cutoff db in
      rbind (acall fl CallPurgeUsers) (\<lambda>_.
      if \<exists>i \<in> set ids. i \<in> set (auReferenced db) then Inl AuthIO
      else Inr (int (length ids),
        db\<lparr>auTokens := del_where (\<lambda>t. atUserID t \<in> set ids) (auTokens db),
           auSessions := del_where (\<lambda>s. seUserID s \<in> set ids) (auSessions db),
           auCredentials := del_where (\<lambda>c. crUserID c \<in> set ids) (auCredentials db),
           auUsers := del_where (\<lambda>a. uID a \<in> set ids) (auUsers db)\<rparr>)))"

section \<open>Credentials\<close>

text \<open>Unique (user, method, provider); a NULL provider never conflicts.\<close>

definition Credential_Create :: "auth_faults \<Rightarrow> Credential \<Rightarrow> AuthDB \<Rightarrow> auth_error + (unit \<times> AuthDB)" where
  "Credential_Create fl c db =
     rbind (acall fl CallCreateCredential) (\<lambda>_.
     if crID c \<in> crID ` set (auCredentials db) \<or> crUserID c \<notin> uID ` set (auUsers db)
       \<or> (crProvider c \<noteq> None \<and> (\<exists>d \<in> set (auCredentials db). crUserID d = crUserID c \<and> crMethod d = crMethod c \<and> crProvider d = crProvider c))
     then Inl AuthIO
     else Inr ((), db\<lparr>auCredentials := auCredentials db @ [c]\<rparr>))"

definition latest :: "Credential list \<Rightarrow> Credential option" where
  "latest cs = (case sort_key (\<lambda>c. - crCreatedAt c) cs of [] \<Rightarrow> None | c # _ \<Rightarrow> Some c)"

definition FindPassword :: "auth_faults \<Rightarrow> AuthDB \<Rightarrow> go_int \<Rightarrow> auth_error + Credential" where
  "FindPassword fl db i =
     rbind (acall fl CallFindPassword) (\<lambda>_.
     from_opt ErrInvalidCredentials
       (latest (filter (\<lambda>c. crUserID c = i \<and> crMethod c = MethodPassword \<and> crRevokedAt c = None) (auCredentials db))))"

definition ReplacePassword :: "auth_faults \<Rightarrow> go_time \<Rightarrow> go_int \<Rightarrow> string \<Rightarrow> AuthDB \<Rightarrow> auth_error + (unit \<times> AuthDB)" where
  "ReplacePassword fl now i hash db =
     rbind (acall fl CallReplacePassword) (\<lambda>_.
     Inr ((), db\<lparr>auCredentials := upd_where (\<lambda>c. crUserID c = i \<and> crMethod c = MethodPassword)
       (\<lambda>c. c\<lparr>crData := password_data hash, crRevokedAt := None, crUpdatedAt := now\<rparr>) (auCredentials db)\<rparr>))"

section \<open>Sessions\<close>

definition nullIfEmpty :: "string option \<Rightarrow> string option" where
  "nullIfEmpty p = (if p = Some [] then None else p)"

definition device_row :: "DeviceInfo \<Rightarrow> DeviceInfo" where
  "device_row d = d\<lparr>dvName := nullIfEmpty (dvName d), dvPlatform := nullIfEmpty (dvPlatform d), dvAppVersion := nullIfEmpty (dvAppVersion d)\<rparr>"

text \<open>\<open>inet\<close> says which texts PostgreSQL takes for an address.\<close>

definition inet_ok :: "(string \<Rightarrow> bool) \<Rightarrow> string option \<Rightarrow> bool" where
  "inet_ok inet ip \<longleftrightarrow> (case nullIfEmpty ip of None \<Rightarrow> True | Some a \<Rightarrow> inet a)"

definition Session_Create ::
  "auth_faults \<Rightarrow> (string \<Rightarrow> bool) \<Rightarrow> go_time \<Rightarrow> Session \<Rightarrow> AuthDB \<Rightarrow> auth_error + (unit \<times> AuthDB)" where
  "Session_Create fl inet now s db =
     rbind (acall fl CallSessionCreate) (\<lambda>_.
     if seID s \<in> seID ` set (auSessions db) \<or> seUserID s \<notin> uID ` set (auUsers db)
       \<or> (\<exists>r \<in> set (auSessions db). seUserID r = seUserID s \<and> dvID (seDevice r) = dvID (seDevice s)) \<or> \<not> inet_ok inet (seIPAddress s)
     then Inl AuthIO
     else Inr ((), db\<lparr>auSessions := auSessions db @
       [s\<lparr>seDevice := device_row (seDevice s), seIPAddress := nullIfEmpty (seIPAddress s), seCreatedAt := now, seUpdatedAt := now\<rparr>]\<rparr>))"

definition Session_FindByDeviceID :: "auth_faults \<Rightarrow> AuthDB \<Rightarrow> go_int \<Rightarrow> string \<Rightarrow> auth_error + Session" where
  "Session_FindByDeviceID fl db u d =
     rbind (acall fl CallSessionByDevice) (\<lambda>_.
     from_opt ErrSessionNotFound (find (\<lambda>s. seUserID s = u \<and> dvID (seDevice s) = d) (auSessions db)))"

definition Session_Update ::
  "auth_faults \<Rightarrow> (string \<Rightarrow> bool) \<Rightarrow> go_time \<Rightarrow> Session \<Rightarrow> AuthDB \<Rightarrow> auth_error + (unit \<times> AuthDB)" where
  "Session_Update fl inet now s db =
     rbind (acall fl CallSessionUpdate) (\<lambda>_.
     if \<not> inet_ok inet (seIPAddress s) then Inl AuthIO
     else Inr ((), db\<lparr>auSessions := upd_where (\<lambda>r. seID r = seID s)
       (\<lambda>r. r\<lparr>seDevice := (device_row (seDevice s))\<lparr>dvID := dvID (seDevice r)\<rparr>, sePushToken := sePushToken s, seFamily := seFamily s,
              seHash := seHash s, sePreviousHash := sePreviousHash s, seRefreshExpiresAt := seRefreshExpiresAt s,
              seIPAddress := nullIfEmpty (seIPAddress s), seUserAgent := seUserAgent s, seLastActiveAt := seLastActiveAt s,
              seState := seState s, seUpdatedAt := now\<rparr>) (auSessions db)\<rparr>))"

text \<open>A NULL hash (here the empty one) matches nothing.\<close>

definition Session_FindByHash :: "auth_faults \<Rightarrow> AuthDB \<Rightarrow> string \<Rightarrow> auth_error + Session" where
  "Session_FindByHash fl db h =
     rbind (acall fl CallSessionByHash) (\<lambda>_. from_opt ErrSessionNotFound (find (\<lambda>s. seHash s = h \<and> seHash s \<noteq> []) (auSessions db)))"

definition Session_FindByPreviousHash :: "auth_faults \<Rightarrow> AuthDB \<Rightarrow> string \<Rightarrow> auth_error + Session" where
  "Session_FindByPreviousHash fl db h =
     rbind (acall fl CallSessionByPrevious) (\<lambda>_.
     from_opt ErrSessionNotFound (find (\<lambda>s. sePreviousHash s = h \<and> sePreviousHash s \<noteq> []) (auSessions db)))"

definition Session_FindByID :: "auth_faults \<Rightarrow> AuthDB \<Rightarrow> go_int \<Rightarrow> auth_error + Session" where
  "Session_FindByID fl db i =
     rbind (acall fl CallSessionByID) (\<lambda>_. from_opt ErrSessionNotFound (find (\<lambda>s. seID s = i) (auSessions db)))"

text \<open>Compare and swap on the presented hash.\<close>

definition Session_Rotate :: "auth_faults \<Rightarrow> go_time \<Rightarrow> Session \<Rightarrow> string \<Rightarrow> AuthDB \<Rightarrow> auth_error + (unit \<times> AuthDB)" where
  "Session_Rotate fl now s presented db =
     (let P = (\<lambda>r. seID r = seID s \<and> seHash r = presented \<and> seHash r \<noteq> [] \<and> seState r = SessionActive) in
      rbind (acall fl CallSessionRotate) (\<lambda>_.
      if \<not> (\<exists>r \<in> set (auSessions db). P r) then Inl ErrSessionNotFound
      else Inr ((), db\<lparr>auSessions := upd_where P
        (\<lambda>r. r\<lparr>sePreviousHash := presented, seHash := seHash s, seFamily := seFamily r + 1, seRefreshExpiresAt := seRefreshExpiresAt s,
               seLastActiveAt := seLastActiveAt s, seUpdatedAt := now\<rparr>) (auSessions db)\<rparr>)))"

definition set_state :: "go_time \<Rightarrow> SessionState \<Rightarrow> (Session \<Rightarrow> bool) \<Rightarrow> AuthDB \<Rightarrow> AuthDB" where
  "set_state now st P db = db\<lparr>auSessions := upd_where P (\<lambda>r. r\<lparr>seState := st, seUpdatedAt := now\<rparr>) (auSessions db)\<rparr>"

definition state_of_others ::
  "auth_faults \<Rightarrow> go_time \<Rightarrow> SessionState \<Rightarrow> (Session \<Rightarrow> bool) \<Rightarrow> AuthDB \<Rightarrow> auth_error + (unit \<times> AuthDB)" where
  "state_of_others fl now st P db = rbind (acall fl CallSessionState) (\<lambda>_. Inr ((), set_state now st P db))"

definition RevokeAllByUserID :: "auth_faults \<Rightarrow> go_time \<Rightarrow> go_int \<Rightarrow> AuthDB \<Rightarrow> auth_error + (unit \<times> AuthDB)" where
  "RevokeAllByUserID fl now u = state_of_others fl now SessionRevoked (\<lambda>s. seUserID s = u \<and> seState s \<noteq> SessionRevoked)"

definition RevokeOthersByUserID :: "auth_faults \<Rightarrow> go_time \<Rightarrow> go_int \<Rightarrow> go_int \<Rightarrow> AuthDB \<Rightarrow> auth_error + (unit \<times> AuthDB)" where
  "RevokeOthersByUserID fl now u k =
     state_of_others fl now SessionRevoked (\<lambda>s. seUserID s = u \<and> seID s \<noteq> k \<and> seState s \<noteq> SessionRevoked)"

definition SuspendOthersByUserID :: "auth_faults \<Rightarrow> go_time \<Rightarrow> go_int \<Rightarrow> go_int \<Rightarrow> AuthDB \<Rightarrow> auth_error + (unit \<times> AuthDB)" where
  "SuspendOthersByUserID fl now u k =
     state_of_others fl now SessionSuspended (\<lambda>s. seUserID s = u \<and> seID s \<noteq> k \<and> seState s = SessionActive)"

definition SuspendAllByUserID :: "auth_faults \<Rightarrow> go_time \<Rightarrow> go_int \<Rightarrow> AuthDB \<Rightarrow> auth_error + (unit \<times> AuthDB)" where
  "SuspendAllByUserID fl now u = state_of_others fl now SessionSuspended (\<lambda>s. seUserID s = u \<and> seState s = SessionActive)"

definition RevokeByID :: "auth_faults \<Rightarrow> go_time \<Rightarrow> go_int \<Rightarrow> go_int \<Rightarrow> AuthDB \<Rightarrow> auth_error + (unit \<times> AuthDB)" where
  "RevokeByID fl now u i db =
     (let P = (\<lambda>s. seID s = i \<and> seUserID s = u \<and> seState s \<noteq> SessionRevoked) in
      rbind (acall fl CallSessionState) (\<lambda>_.
      if \<exists>s \<in> set (auSessions db). P s then Inr ((), set_state now SessionRevoked P db) else Inl ErrSessionNotFound))"

definition Session_ListByUser :: "auth_faults \<Rightarrow> AuthDB \<Rightarrow> go_int \<Rightarrow> auth_error + Session list" where
  "Session_ListByUser fl db u =
     rbind (acall fl CallSessionList) (\<lambda>_.
     Inr (sort_key (\<lambda>s. - seLastActiveAt s) (sort_key (\<lambda>s. - seID s)
            (filter (\<lambda>s. seUserID s = u \<and> seState s = SessionActive) (auSessions db)))))"

definition Session_Rename :: "auth_faults \<Rightarrow> go_time \<Rightarrow> go_int \<Rightarrow> go_int \<Rightarrow> string \<Rightarrow> AuthDB \<Rightarrow> auth_error + (unit \<times> AuthDB)" where
  "Session_Rename fl now u i name db =
     (let P = (\<lambda>s. seID s = i \<and> seUserID s = u \<and> seState s = SessionActive) in
      rbind (acall fl CallSessionRename) (\<lambda>_.
      if \<not> (\<exists>s \<in> set (auSessions db). P s) then Inl ErrSessionNotFound
      else Inr ((), db\<lparr>auSessions := upd_where P (\<lambda>s. s\<lparr>seDevice := (seDevice s)\<lparr>dvName := Some name\<rparr>, seUpdatedAt := now\<rparr>) (auSessions db)\<rparr>)))"

definition idle_expired :: "go_time \<Rightarrow> go_time \<Rightarrow> Session \<Rightarrow> bool" where
  "idle_expired now idleTimeout s \<longleftrightarrow> seState s = SessionActive
     \<and> (seLastActiveAt s \<le> now - idleTimeout \<or> (case seRefreshExpiresAt s of None \<Rightarrow> False | Some e \<Rightarrow> e \<le> now))"

definition ExpireIdle :: "auth_faults \<Rightarrow> go_time \<Rightarrow> go_time \<Rightarrow> go_time \<Rightarrow> AuthDB \<Rightarrow> auth_error + (int \<times> AuthDB)" where
  "ExpireIdle fl dbnow now idleTimeout db =
     rbind (acall fl CallSessionExpire) (\<lambda>_.
     Inr (count_where (idle_expired now idleTimeout) (auSessions db), set_state dbnow SessionExpired (idle_expired now idleTimeout) db))"

definition purgeable :: "go_time \<Rightarrow> Session \<Rightarrow> bool" where
  "purgeable cutoff s \<longleftrightarrow> seState s \<in> {SessionRevoked, SessionExpired} \<and> seUpdatedAt s \<le> cutoff"

definition Session_Purge :: "auth_faults \<Rightarrow> go_time \<Rightarrow> AuthDB \<Rightarrow> auth_error + (int \<times> AuthDB)" where
  "Session_Purge fl cutoff db =
     rbind (acall fl CallSessionPurge) (\<lambda>_.
     Inr (count_where (purgeable cutoff) (auSessions db), db\<lparr>auSessions := del_where (purgeable cutoff) (auSessions db)\<rparr>))"

section \<open>Recovery tokens\<close>

definition Token_Create :: "auth_faults \<Rightarrow> AuthToken \<Rightarrow> AuthDB \<Rightarrow> auth_error + (unit \<times> AuthDB)" where
  "Token_Create fl t db =
     rbind (acall fl CallTokenCreate) (\<lambda>_.
     if atTokenHash t \<in> atTokenHash ` set (auTokens db) \<or> atUserID t \<notin> uID ` set (auUsers db) then Inl AuthIO
     else Inr ((), db\<lparr>auTokens := auTokens db @ [t\<lparr>atID := auNextToken db, atUsedAt := None\<rparr>], auNextToken := auNextToken db + 1\<rparr>))"

definition claimable :: "go_time \<Rightarrow> string \<Rightarrow> AuthToken \<Rightarrow> bool" where
  "claimable now h t \<longleftrightarrow> atTokenHash t = h \<and> atUsedAt t = None \<and> now < atExpiresAt t"

definition Consume :: "auth_faults \<Rightarrow> go_time \<Rightarrow> string \<Rightarrow> AuthDB \<Rightarrow> auth_error + (AuthToken \<times> AuthDB)" where
  "Consume fl now h db =
     rbind (acall fl CallTokenConsume) (\<lambda>_.
     rbind (from_opt ErrRecoveryTokenInvalid (find (claimable now h) (auTokens db))) (\<lambda>t.
     Inr (t\<lparr>atUsedAt := Some now\<rparr>,
          db\<lparr>auTokens := upd_where (claimable now h) (\<lambda>t. t\<lparr>atUsedAt := Some now\<rparr>) (auTokens db)\<rparr>)))"

section \<open>The login throttle\<close>

text \<open>The counter of an identifier; every failure slides its time to live to the lockout duration.\<close>

definition Failures :: "go_time \<Rightarrow> int key \<Rightarrow> int" where
  "Failures now k = (case live now k of None \<Rightarrow> 0 | Some n \<Rightarrow> n)"

definition RecordFailure :: "LoginPolicy \<Rightarrow> go_time \<Rightarrow> int key \<Rightarrow> int key" where
  "RecordFailure pol now k =
     (let n = Failures now k + 1 in if n \<le> 0 then None else Some (n, now + lpLockoutDuration pol))"

text \<open>Redis reports a time to live in seconds, rounded to the nearest.\<close>

definition ttl_seconds :: "go_time \<Rightarrow> go_time \<Rightarrow> int" where
  "ttl_seconds now expires = ((expires - now) div 1000 + 500) div 1000"

definition LockoutRemaining :: "LoginPolicy \<Rightarrow> go_time \<Rightarrow> int key \<Rightarrow> go_time" where
  "LockoutRemaining pol now k =
     (if Failures now k < lpMaxFailures pol then 0
      else case k of
             None \<Rightarrow> 0
           | Some (_, e) \<Rightarrow> if now < e then ttl_seconds now e * 1000000 else 0)"

section \<open>One-time codes\<close>

definition codeTTL :: go_time where "codeTTL = 5 * 60 * 1000000"

text \<open>GETDEL: the code is gone after the first look at it.\<close>

definition OTP_Verify :: "(string \<Rightarrow> string) \<Rightarrow> go_time \<Rightarrow> string \<Rightarrow> string key \<Rightarrow> (auth_error + unit) \<times> string key" where
  "OTP_Verify hash now code k =
     ((case live now k of None \<Rightarrow> Inl ErrOTPExpired
       | Some stored \<Rightarrow> if stored = hash code then Inr () else Inl ErrOTPInvalid), None)"

definition OTP_Store :: "(string \<Rightarrow> string) \<Rightarrow> go_time \<Rightarrow> string \<Rightarrow> string key" where
  "OTP_Store hash now code = Some (hash code, now + codeTTL)"

end
