(* ===== verification/AuthService.thy ===== *)
theory AuthService
  imports AuthStore
begin

text \<open>
  How an authentication use case runs (\<open>auth/application\<close>, \<open>auth/infra/security/token.go\<close>): the
  state it works on, what the outside decides during one request, the cryptography, and the steps
  use cases share: transactions, the audit trail, token issue and verification.
\<close>

section \<open>State and environment\<close>

record AuthState =
  asDB :: AuthDB
  asThrottle :: "string \<Rightarrow> int key"
  asOTP :: "Identifier \<Rightarrow> string key"
  asHistory :: "LoginEvent list"
  asAudit :: "AuditEvent list"
  asNotices :: "(go_int \<times> string \<times> (string \<times> string) list) list"

record RiskContext =
  rkUserID :: go_int
  rkDeviceID :: string
  rkNewDevice :: bool
  rkIPAddress :: "string option"
  rkUserAgent :: "string option"
  rkMethod :: LoginMethod

text \<open>
  The service clock, the clocks of the database and of Redis, what the generators hand out, the
  salted hash a password gets in this request, the failing calls, and the risk hook.
\<close>

record AuthEnv =
  avClock :: go_time
  avDBNow :: go_time
  avRedisNow :: go_time
  avUserID :: go_int
  avCredentialID :: go_int
  avSessionID :: go_int
  avToken :: string              \<comment> \<open>a fresh opaque token\<close>
  avJTI :: string
  avPasswordHash :: string
  avInet :: "string \<Rightarrow> bool"
  avRisk :: "RiskContext \<Rightarrow> RiskDecision"
  avFaults :: auth_faults

text \<open>
  Code that is not in the repository: SHA-256, Argon2id verification (\<open>None\<close>: it fails), and signing
  and parsing of JWTs with the deployment's key.  A parse is told the issuer and the audience to expect;
  the token factory has one of each.
\<close>

record RawClaims =
  rcSubject :: string
  rcSessionID :: go_int
  rcDeviceID :: string
  rcScopes :: "string list"
  rcTokenVersion :: go_int
  rcJTI :: string
  rcIssuer :: string
  rcAudience :: "string list"
  rcIssuedAt :: go_time
  rcNotBefore :: go_time
  rcExpiresAt :: go_time

datatype jwt_result = JwtExpired | JwtBad | JwtClaims RawClaims

record Crypto =
  kHash :: "string \<Rightarrow> string"
  kVerify :: "string \<Rightarrow> string \<Rightarrow> bool option"
  kSign :: "RawClaims \<Rightarrow> string"
  kParse :: "string \<Rightarrow> string \<Rightarrow> go_time \<Rightarrow> string \<Rightarrow> jwt_result"
  kIssuer :: string
  kAudience :: string

record AuthConfig =
  cfPolicy :: LoginPolicy
  cfAccessTTL :: go_time
  cfRefreshTTL :: go_time
  cfSessionIdleTimeout :: go_time
  cfSessionRetention :: go_time
  cfPasswordResetTTL :: go_time
  cfChangeTTL :: go_time
  cfDeletionGrace :: go_time

section \<open>Steps\<close>

type_synonym 'a auth = "AuthState \<Rightarrow> (auth_error + 'a) \<times> AuthState"

definition areturn :: "'a \<Rightarrow> 'a auth" where
  "areturn x s = (Inr x, s)"

definition afail :: "auth_error \<Rightarrow> 'a auth" where
  "afail e s = (Inl e, s)"

definition abind :: "'a auth \<Rightarrow> ('a \<Rightarrow> 'b auth) \<Rightarrow> 'b auth" where
  "abind m f s = (case m s of (Inl e, s1) \<Rightarrow> (Inl e, s1) | (Inr x, s1) \<Rightarrow> f x s1)"

text \<open>A check or a read on the pool.\<close>

definition aread :: "(AuthDB \<Rightarrow> auth_error + 'a) \<Rightarrow> 'a auth" where
  "aread f s = (f (asDB s), s)"

definition alift :: "auth_error + 'a \<Rightarrow> 'a auth" where
  "alift r s = (r, s)"

definition aupdate :: "(AuthState \<Rightarrow> AuthState) \<Rightarrow> unit auth" where
  "aupdate g s = (Inr (), g s)"

text \<open>A transaction: an error rolls it back, and so does a commit that fails.\<close>

definition in_tx :: "auth_faults \<Rightarrow> (AuthDB \<Rightarrow> auth_error + ('a \<times> AuthDB)) \<Rightarrow> 'a auth" where
  "in_tx fl body s =
     (if fl CallBeginAuth then (Inl AuthIO, s)
      else case body (asDB s) of
             Inl e \<Rightarrow> (Inl e, s)
           | Inr (x, db) \<Rightarrow> if fl CallCommitAuth then (Inl AuthIO, s) else (Inr x, s\<lparr>asDB := db\<rparr>))"

lemma step_simps [simp]:
  "areturn x s = (Inr x, s)" "afail e s = (Inl e, s)" "aread f s = (f (asDB s), s)" "alift r s = (r, s)"
  "aupdate g s = (Inr (), g s)"
  by (simp_all add: areturn_def afail_def aread_def alift_def aupdate_def)

lemma abind_Inr: "abind m f s = (Inr y, s2) \<longleftrightarrow> (\<exists>x s1. m s = (Inr x, s1) \<and> f x s1 = (Inr y, s2))"
  by (auto simp: abind_def split: prod.splits sum.splits)

lemma abind_Inl:
  "abind m f s = (Inl e, s2) \<longleftrightarrow> m s = (Inl e, s2) \<or> (\<exists>x s1. m s = (Inr x, s1) \<and> f x s1 = (Inl e, s2))"
  by (auto simp: abind_def split: prod.splits sum.splits)

lemma abind_simps [simp]:
  "m s = (Inr x, s1) \<Longrightarrow> abind m f s = f x s1" "m s = (Inl e, s1) \<Longrightarrow> abind m f s = (Inl e, s1)"
  by (simp_all add: abind_def)

lemma in_tx_Inr:
  "in_tx fl body s = (Inr x, s2) \<longleftrightarrow>
     \<not> fl CallBeginAuth \<and> \<not> fl CallCommitAuth \<and> (\<exists>db. body (asDB s) = Inr (x, db) \<and> s2 = s\<lparr>asDB := db\<rparr>)"
  by (auto simp: in_tx_def split: sum.splits prod.splits)

lemma in_tx_Inl: "in_tx fl body s = (Inl e, s2) \<Longrightarrow> s2 = s"
  by (auto simp: in_tx_def split: sum.splits prod.splits if_splits)

section \<open>Audit, history, notices\<close>

text \<open>Best effort: the stores' failures are logged and swallowed.\<close>

definition AuditLog_Log :: "AuthEnv \<Rightarrow> AuditEvent \<Rightarrow> unit auth" where
  "AuditLog_Log env e =
     aupdate (\<lambda>s. if avFaults env CallAudit \<or> \<not> inet_ok (avInet env) (aeIPAddress e) then s
       else s\<lparr>asAudit := asAudit s @ [e\<lparr>aeResourceType := (if aeResourceType e = [] then ''user'' else aeResourceType e),
         aeIPAddress := nullIfEmpty (aeIPAddress e)\<rparr>]\<rparr>)"

definition LoginHistory_Record :: "AuthEnv \<Rightarrow> LoginEvent \<Rightarrow> unit auth" where
  "LoginHistory_Record env e =
     aupdate (\<lambda>s. if avFaults env CallHistory \<or> \<not> inet_ok (avInet env) (leIPAddress e) then s
       else s\<lparr>asHistory := asHistory s @ [e\<lparr>leID := int (length (asHistory s)) + 1, leIPAddress := nullIfEmpty (leIPAddress e)\<rparr>]\<rparr>)"

declare AuditLog_Log_def [simp] LoginHistory_Record_def [simp]

definition audit ::
  "AuthEnv \<Rightarrow> go_int option \<Rightarrow> string \<Rightarrow> go_int option \<Rightarrow> string option \<Rightarrow> (string \<times> string) list \<Rightarrow> unit auth" where
  "audit env actor action resourceID ip details =
     AuditLog_Log env \<lparr>aeActorUserID = actor, aeAction = action, aeResourceType = ''user'',
       aeResourceID = resourceID, aeIPAddress = ip, aeDetails = details\<rparr>"

definition notify :: "go_int \<Rightarrow> string \<Rightarrow> (string \<times> string) list \<Rightarrow> unit auth" where
  "notify u event details = aupdate (\<lambda>s. s\<lparr>asNotices := asNotices s @ [(u, event, details)]\<rparr>)"

definition recordLogin ::
  "AuthEnv \<Rightarrow> go_int option \<Rightarrow> string \<Rightarrow> LoginMethod \<Rightarrow> bool \<Rightarrow> bool \<Rightarrow> string \<Rightarrow> string option \<Rightarrow> string option \<Rightarrow> unit auth" where
  "recordLogin env u ident method success newDevice deviceID ip ua =
     LoginHistory_Record env \<lparr>leID = 0, leUserID = u, leIdentifier = ident, leMethod = method,
       leSuccess = success, leNewDevice = newDevice, leDeviceID = deviceID, leIPAddress = ip, leUserAgent = ua,
       leCreatedAt = avClock env\<rparr>"

definition boolStr :: "bool \<Rightarrow> string" where
  "boolStr b = (if b then ''true'' else ''false'')"

section \<open>Access tokens\<close>

text \<open>Dates in a JWT are whole seconds.\<close>

definition numeric_date :: "go_time \<Rightarrow> go_time" where
  "numeric_date t = t - t mod 1000000"

definition access_claims :: "Crypto \<Rightarrow> AuthConfig \<Rightarrow> string \<Rightarrow> go_int \<Rightarrow> go_int \<Rightarrow> string \<Rightarrow> go_int \<Rightarrow> go_time \<Rightarrow> RawClaims" where
  "access_claims k cfg jti sessionID userID deviceID tokenVersion now =
     \<lparr>rcSubject = FormatInt userID, rcSessionID = sessionID, rcDeviceID = deviceID, rcScopes = [''user''],
      rcTokenVersion = tokenVersion, rcJTI = jti, rcIssuer = kIssuer k, rcAudience = [kAudience k],
      rcIssuedAt = numeric_date now, rcNotBefore = numeric_date now,
      rcExpiresAt = numeric_date (now + cfAccessTTL cfg)\<rparr>"

definition IssuePair ::
  "Crypto \<Rightarrow> AuthConfig \<Rightarrow> AuthEnv \<Rightarrow> go_int \<Rightarrow> go_int \<Rightarrow> string \<Rightarrow> go_int \<Rightarrow> go_time \<Rightarrow> auth_error + TokenPair" where
  "IssuePair k cfg env sessionID userID deviceID tokenVersion now =
     rbind (acall (avFaults env) CallIssue) (\<lambda>_.
     Inr \<lparr>tpAccessToken = kSign k (access_claims k cfg (avJTI env) sessionID userID deviceID tokenVersion now),
          tpRefreshToken = avToken env, tpJTI = avJTI env,
          tpAccessExpiresAt = now + cfAccessTTL cfg, tpRefreshExpiresAt = now + cfRefreshTTL cfg\<rparr>)"

text \<open>\<open>Sscanf\<close> with %d: blanks, a sign, digits up to the first other byte.\<close>

definition parseSubject :: "string \<Rightarrow> go_int option" where
  "parseSubject s =
     (let t = dropWhile (\<lambda>c. byte c \<in> {9, 11, 12, 32}) s;
          neg = (case t of c # _ \<Rightarrow> c = CHR ''-'' | [] \<Rightarrow> False);
          body = (case t of c # cs \<Rightarrow> if c = CHR ''-'' \<or> c = CHR ''+'' then cs else t | [] \<Rightarrow> []);
          ds = takeWhile is_digit body
      in if ds = [] \<or> neg then None
         else case parse_digits 0 ds of None \<Rightarrow> None | Some n \<Rightarrow> if 0 < n \<and> int64 (int n) then Some (int n) else None)"

definition VerifyAccess :: "Crypto \<Rightarrow> go_time \<Rightarrow> string \<Rightarrow> auth_error + AccessClaims" where
  "VerifyAccess k now token =
     (case kParse k (kIssuer k) (kAudience k) now token of
        JwtExpired \<Rightarrow> Inl ErrTokenExpired
      | JwtBad \<Rightarrow> Inl ErrTokenInvalid
      | JwtClaims r \<Rightarrow>
          (case parseSubject (rcSubject r) of
             None \<Rightarrow> Inl AuthIO
           | Some uid \<Rightarrow> Inr \<lparr>acUserID = uid, acSessionID = rcSessionID r, acDeviceID = rcDeviceID r, acScopes = rcScopes r,
               acJTI = rcJTI r, acTokenVersion = rcTokenVersion r, acExpiresAt = rcExpiresAt r\<rparr>))"

text \<open>
  What the JWT library documents: a token it has signed parses to its claims within its dates, for its
  issuer and one of its audiences; that it has expired is reported whatever else is wrong.
\<close>

definition jwt_sound :: "Crypto \<Rightarrow> bool" where
  "jwt_sound k \<longleftrightarrow> (\<forall>c iss aud now. kParse k iss aud now (kSign k c) =
     (if rcExpiresAt c \<le> now then JwtExpired
      else if now < rcNotBefore c \<or> rcIssuer c \<noteq> iss \<or> aud \<notin> set (rcAudience c) then JwtBad else JwtClaims c))"

section \<open>The gateway check\<close>

definition AuthenticateClaims ::
  "Crypto \<Rightarrow> AuthEnv \<Rightarrow> string \<Rightarrow> string \<Rightarrow> AuthDB \<Rightarrow> auth_error + (User \<times> AccessClaims)" where
  "AuthenticateClaims k env token deviceID db =
     (case VerifyAccess k (avClock env) token of
        Inl e \<Rightarrow> Inl (if e \<in> {ErrTokenExpired, ErrTokenInvalid, ErrTokenRevoked} then e else ErrTokenInvalid)
      | Inr claims \<Rightarrow>
          (case User_FindByID (avFaults env) db (acUserID claims) of
             Inl e \<Rightarrow> Inl (if e = ErrUserNotFound then ErrTokenRevoked else e)
           | Inr user \<Rightarrow>
               if uAccountState user = AccountSuspended then Inl ErrAccountSuspended
               else if uAccountState user = AccountDeleted then Inl ErrAccountDeleted
               else if acTokenVersion claims \<noteq> uTokenVersion user then Inl ErrTokenRevoked
               else
                 (case Session_FindByDeviceID (avFaults env) db (uID user) deviceID of
                    Inl e \<Rightarrow> Inl (if e = ErrSessionNotFound then ErrSessionRevoked else e)
                  | Inr sess \<Rightarrow>
                      if seID sess \<noteq> acSessionID claims then Inl ErrSessionRevoked
                      else if seState sess \<noteq> SessionActive then Inl ErrSessionRevoked
                      else Inr (user, claims))))"

definition Authenticate :: "Crypto \<Rightarrow> AuthEnv \<Rightarrow> string \<Rightarrow> string \<Rightarrow> AuthDB \<Rightarrow> auth_error + User" where
  "Authenticate k env token deviceID db = rbind (AuthenticateClaims k env token deviceID db) (\<lambda>(user, _). Inr user)"

end
