(* ===== verification/AuthToken.thy ===== *)
theory AuthToken
  imports AuthService
begin

text \<open>
  The token factory's construction and the tokens it draws (\<open>auth/infra/security/token.go\<close>,
  \<open>auth/domain/token.go\<close>).  Random bytes come from the environment, \<open>None\<close> when there are none; the
  use cases draw the finished tokens (\<open>avToken\<close>, \<open>avJTI\<close>).
\<close>

section \<open>The factory\<close>

record TokenConfig =
  tcSigningKey :: "nat list"
  tcIssuer :: string
  tcAudience :: string
  tcAccessTTL :: int
  tcRefreshTTL :: int

datatype token_error = SigningKeyLength nat | IssuerAndAudienceRequired | TTLsNotPositive | AccessNotShorter

text \<open>The length of an ed25519 private key.\<close>

definition PrivateKeySize :: nat where "PrivateKeySize = 64"

definition NewTokenFactory :: "TokenConfig \<Rightarrow> token_error + TokenConfig" where
  "NewTokenFactory c =
     (if length (tcSigningKey c) \<noteq> PrivateKeySize then Inl (SigningKeyLength (length (tcSigningKey c)))
      else if tcIssuer c = [] \<or> tcAudience c = [] then Inl IssuerAndAudienceRequired
      else if tcAccessTTL c \<le> 0 \<or> tcRefreshTTL c \<le> 0 then Inl TTLsNotPositive
      else if tcAccessTTL c \<ge> tcRefreshTTL c then Inl AccessNotShorter
      else Inr c)"

section \<open>Random tokens\<close>

definition hex_digit :: "nat \<Rightarrow> char" where
  "hex_digit d = char_of (if d < 10 then d + 48 else d + 87)"

definition hex_encode :: "nat list \<Rightarrow> string" where
  "hex_encode bs = concat (map (\<lambda>b. [hex_digit (b div 16), hex_digit (b mod 16)]) bs)"

definition newJTI :: "nat list option \<Rightarrow> auth_error + string" where
  "newJTI random = rbind (from_opt AuthIO random) (\<lambda>b. Inr (''jt_'' @ hex_encode b))"

definition newRefreshToken :: "nat list option \<Rightarrow> auth_error + string" where
  "newRefreshToken random = rbind (from_opt AuthIO random) (\<lambda>b. Inr (EncodeToString b))"

definition GenerateOpaqueToken :: "nat list option \<Rightarrow> auth_error + string" where
  "GenerateOpaqueToken random = rbind (from_opt AuthIO random) (\<lambda>b. Inr (EncodeToString b))"

section \<open>What the gates accept\<close>

lemma length_sextets: "length (sextets bs) = (length bs * 4 + 2) div 3"
  by (induction bs rule: sextets.induct) auto

lemma enc6_ends: "enc6 62 = CHR ''-''" "enc6 63 = CHR ''_''" "byte CHR ''-'' = 45" "byte CHR ''_'' = 95"
  by code_simp+

lemma base64url_enc6:
  assumes "i < 64"
  shows "base64url (enc6 i) \<and> byte (enc6 i) \<noteq> 10 \<and> byte (enc6 i) \<noteq> 13"
proof -
  consider "i < 62" | "i = 62" | "i = 63" using assms by linarith
  then show ?thesis
    using assms by cases (auto simp: base64url_def is_upper_def is_lower_def is_digit_def byte_enc6 enc6_ends)
qed

text \<open>
  A token the server draws passes the shape check of the endpoints it is presented to, and two draws
  of different randomness are different tokens.
\<close>

lemma drawn_token_shape:
  assumes "length bs = 32" and "\<forall>b \<in> set bs. b < 256"
  shows "\<exists>t. newRefreshToken (Some bs) = Inr t \<and> GenerateOpaqueToken (Some bs) = Inr t \<and> IsOpaqueTokenShape t
    \<and> DecodeString t = Some bs"
proof -
  have "\<forall>s \<in> set (sextets bs). base64url (enc6 s) \<and> byte (enc6 s) \<noteq> 10 \<and> byte (enc6 s) \<noteq> 13"
    using sextets_lt [OF assms(2)] base64url_enc6 by blast
  then have "raw_url_decodes (EncodeToString bs)" "length (EncodeToString bs) = OpaqueTokenLen"
    using assms(1) by (auto simp: raw_url_decodes_def EncodeToString_def length_sextets OpaqueTokenLen_def Let_def
        filter_id_conv)
  then show ?thesis
    using base64_roundtrip [OF assms(2)] by (simp add: newRefreshToken_def GenerateOpaqueToken_def IsOpaqueTokenShape_def from_opt_def)
qed

end
