(* ===== verification/AuthPassword.thy ===== *)
theory AuthPassword
  imports AuthDomain Cursor
begin

text \<open>
  Password hashes (\<open>auth/infra/security/argon2id.go\<close>): the parameters, the PHC string a password is
  stored as, and its verification.  The key derivation is the argon2 package, a parameter: password,
  salt, iterations, memory, parallelism and key length give the bytes of the key.
\<close>

type_synonym kdf = "string \<Rightarrow> nat list \<Rightarrow> nat \<Rightarrow> nat \<Rightarrow> nat \<Rightarrow> nat \<Rightarrow> nat list"

record Argon2Params =
  arMemory :: nat          \<comment> \<open>uint32, KiB\<close>
  arIterations :: nat      \<comment> \<open>uint32\<close>
  arParallelism :: nat     \<comment> \<open>uint8\<close>
  arSaltLen :: nat         \<comment> \<open>uint32\<close>
  arKeyLen :: nat          \<comment> \<open>uint32\<close>

definition DefaultArgon2Params :: Argon2Params where
  "DefaultArgon2Params = \<lparr>arMemory = 64 * 1024, arIterations = 3, arParallelism = 4, arSaltLen = 16, arKeyLen = 32\<rparr>"

datatype argon_error =
    LowMemory | NoIterations | BadParallelism | ShortSalt | ShortKey
  | EmptyPassword | NoSalt | EmptyStoredHash | MalformedPHC | MalformedParams | IncompleteParams | BadSaltText | BadKeyText

definition NewArgon2ID :: "Argon2Params \<Rightarrow> argon_error + Argon2Params" where
  "NewArgon2ID p =
     (if arMemory p < 8 * arParallelism p then Inl LowMemory
      else if arIterations p < 1 then Inl NoIterations
      else if arParallelism p < 1 \<or> arParallelism p > 255 then Inl BadParallelism
      else if arSaltLen p < 8 then Inl ShortSalt
      else if arKeyLen p < 16 then Inl ShortKey
      else Inr p)"

section \<open>base64.RawStdEncoding\<close>

text \<open>The standard alphabet has plus and slash where the URL alphabet has minus and underscore.\<close>

definition std_char :: "char \<Rightarrow> char" where
  "std_char c = (if c = CHR ''-'' then CHR ''+'' else if c = CHR ''_'' then CHR ''/'' else c)"

definition url_char :: "char \<Rightarrow> char" where
  "url_char c = (if c = CHR ''+'' then CHR ''-'' else if c = CHR ''/'' then CHR ''_''
     else if c = CHR ''-'' \<or> c = CHR ''_'' then CHR ''!'' else c)"

definition std_encode :: "nat list \<Rightarrow> string" where
  "std_encode bs = map std_char (EncodeToString bs)"

definition std_decode :: "string \<Rightarrow> nat list option" where
  "std_decode s = DecodeString (map url_char s)"

section \<open>Hashing\<close>

text \<open>The salt is what the random source gives, or nothing when it fails.\<close>

definition phc_params :: "nat \<Rightarrow> nat \<Rightarrow> nat \<Rightarrow> string" where
  "phc_params m t p = ''m='' @ format_nat m @ '',t='' @ format_nat t @ '',p='' @ format_nat p"

definition phc_string :: "nat \<Rightarrow> nat \<Rightarrow> nat \<Rightarrow> nat list \<Rightarrow> nat list \<Rightarrow> string" where
  "phc_string m t p salt key =
     ''$argon2id$v=19$'' @ phc_params m t p @ ''$'' @ std_encode salt @ ''$'' @ std_encode key"

definition Hash :: "kdf \<Rightarrow> Argon2Params \<Rightarrow> nat list option \<Rightarrow> string \<Rightarrow> argon_error + string" where
  "Hash idkey a salt plaintext =
     (if plaintext = [] then Inl EmptyPassword
      else (case salt of
              None \<Rightarrow> Inl NoSalt
            | Some s \<Rightarrow> Inr (phc_string (arMemory a) (arIterations a) (arParallelism a) s
                (idkey plaintext s (arIterations a) (arMemory a) (arParallelism a) (arKeyLen a)))))"

section \<open>Verification\<close>

fun Split :: "char \<Rightarrow> string \<Rightarrow> string list" where
  "Split sep [] = [[]]"
| "Split sep (c # s) =
     (if c = sep then [] # Split sep s
      else (case Split sep s of [] \<Rightarrow> [[c]] | w # ws \<Rightarrow> (c # w) # ws))"

text \<open>\<open>fmt.Sscanf\<close> with one decimal: leading space, digits, the rest of the text is not looked at.\<close>

definition skip_space :: "string \<Rightarrow> string" where
  "skip_space s = concat (map snd (dropWhile (\<lambda>r. is_space (fst r) \<and> fst r \<noteq> 10) (runes s)))"

definition scan_digits :: "string \<Rightarrow> nat option" where
  "scan_digits s = (let ds = takeWhile is_digit s in if ds = [] then None else parse_digits 0 ds)"

definition Sscan_uint32 :: "string \<Rightarrow> nat option" where
  "Sscan_uint32 s = (case scan_digits (skip_space s) of None \<Rightarrow> None | Some n \<Rightarrow> if n < 2 ^ 32 then Some n else None)"

definition Sscan_int :: "string \<Rightarrow> int option" where
  "Sscan_int s =
     (let t = skip_space s;
          neg = (case t of c # _ \<Rightarrow> c = CHR ''-'' | [] \<Rightarrow> False);
          body = (case t of c # cs \<Rightarrow> if c = CHR ''-'' \<or> c = CHR ''+'' then cs else t | [] \<Rightarrow> [])
      in case scan_digits body of
           None \<Rightarrow> None
         | Some n \<Rightarrow> let i = (if neg then - int n else int n) in if int64 i then Some i else None)"

definition parse_param :: "string \<Rightarrow> nat \<times> nat \<times> nat \<Rightarrow> argon_error + nat \<times> nat \<times> nat" where
  "parse_param pair = (\<lambda>(m, t, p).
     case Cut pair (CHR ''='') of
       None \<Rightarrow> Inl MalformedParams
     | Some (k, v) \<Rightarrow>
         if k = ''m'' then rbind (from_opt MalformedParams (Sscan_uint32 v)) (\<lambda>n. Inr (n, t, p))
         else if k = ''t'' then rbind (from_opt MalformedParams (Sscan_uint32 v)) (\<lambda>n. Inr (m, n, p))
         else if k = ''p'' then
           rbind (from_opt MalformedParams (Sscan_int v)) (\<lambda>pl.
             if pl < 1 \<or> pl > 255 then Inl MalformedParams else Inr (m, t, nat pl))
         else Inr (m, t, p))"

fun parse_params :: "string list \<Rightarrow> nat \<times> nat \<times> nat \<Rightarrow> argon_error + nat \<times> nat \<times> nat" where
  "parse_params [] acc = Inr acc"
| "parse_params (pair # pairs) acc = rbind (parse_param pair acc) (parse_params pairs)"

definition parsePHCParams :: "string \<Rightarrow> argon_error + nat \<times> nat \<times> nat" where
  "parsePHCParams s =
     rbind (parse_params (Split (CHR '','') s) (0, 0, 0)) (\<lambda>(m, t, p).
       if m = 0 \<or> t = 0 \<or> p = 0 then Inl IncompleteParams else Inr (m, t, p))"

definition Verify :: "kdf \<Rightarrow> string \<Rightarrow> string \<Rightarrow> argon_error + bool" where
  "Verify idkey phc plaintext =
     (if phc = [] then Inl EmptyStoredHash
      else (case Split (CHR ''$'') phc of
        [_, algorithm, _, params, saltText, keyText] \<Rightarrow>
          if algorithm \<noteq> ''argon2id'' then Inl MalformedPHC
          else rbind (parsePHCParams params) (\<lambda>(m, t, p).
               rbind (from_opt BadSaltText (std_decode saltText)) (\<lambda>salt.
               rbind (from_opt BadKeyText (std_decode keyText)) (\<lambda>want.
                 Inr (idkey plaintext salt t m p (length want) = want))))
      | _ \<Rightarrow> Inl MalformedPHC))"

section \<open>Facts\<close>

lemma Split_append: "sep \<notin> set w \<Longrightarrow> Split sep (w @ sep # s) = w # Split sep s"
  by (induction w) auto

lemma Split_last: "sep \<notin> set w \<Longrightarrow> Split sep w = [w]"
  by (induction w) auto

lemma format_nat_digits: "c \<in> set (format_nat n) \<Longrightarrow> is_digit c"
proof (induction n rule: format_nat.induct)
  case (1 n)
  show ?case
  proof (cases "n < 10")
    case True
    with "1.prems" show ?thesis by (simp add: format_nat.simps [of n])
  next
    case False
    with "1.prems" have "c \<in> set (format_nat (n div 10)) \<or> c = digit (n mod 10)" by (auto simp: format_nat.simps [of n])
    with "1.IH" [OF False] show ?thesis by auto
  qed
qed

lemma format_nat_nonempty [simp]: "format_nat n \<noteq> []"
  by (subst format_nat.simps) simp

lemma digit_byte: "is_digit c \<Longrightarrow> 48 \<le> byte c \<and> byte c \<le> 57"
  by (simp add: is_digit_def)

lemma format_nat_plain: "plain (format_nat n)"
  by (auto simp: plain_def dest!: format_nat_digits digit_byte)

lemma skip_space_plain: "plain s \<Longrightarrow> skip_space s = s"
proof -
  assume p: "plain s"
  have single: "concat (map (\<lambda>c. [c]) s) = s" by (induction s) simp_all
  have "dropWhile (\<lambda>r. is_space (fst r) \<and> fst r \<noteq> 10) (map (\<lambda>c. (byte c, [c])) s) = map (\<lambda>c. (byte c, [c])) s"
    using p by (cases s) (auto simp: is_space_def)
  with p single show ?thesis by (simp add: skip_space_def runes_ascii plain_ascii comp_def)
qed

lemma scan_format: "scan_digits (format_nat n) = Some n"
proof -
  have "takeWhile is_digit (format_nat n) = format_nat n" using format_nat_digits by (auto simp: takeWhile_eq_all_conv)
  then show ?thesis unfolding scan_digits_def Let_def by (simp only: parse_format_nat format_nat_nonempty if_False)
qed

lemma Sscan_uint32_format: "n < 2 ^ 32 \<Longrightarrow> Sscan_uint32 (format_nat n) = Some n"
  by (simp add: Sscan_uint32_def skip_space_plain format_nat_plain scan_format)

lemma Sscan_int_format: "n < 2 ^ 32 \<Longrightarrow> Sscan_int (format_nat n) = Some (int n)"
proof -
  assume n: "n < 2 ^ 32"
  obtain c cs where c: "format_nat n = c # cs" "c \<noteq> CHR ''-''" "c \<noteq> CHR ''+''" using format_nat_Cons by blast
  then show ?thesis
    using n scan_format [of n] skip_space_plain [OF format_nat_plain, of n] by (simp add: Sscan_int_def int64_def)
qed

definition byte_list :: "nat list \<Rightarrow> bool" where
  "byte_list bs \<longleftrightarrow> (\<forall>b \<in> set bs. b < 256)"

definition url_alphabet :: "char \<Rightarrow> bool" where
  "url_alphabet c \<longleftrightarrow> (\<exists>i < 64. c = enc6 i)"

lemma url_alphabet_byte: "url_alphabet c \<Longrightarrow> byte c \<in> {45, 95} \<union> {48..57} \<union> {65..90} \<union> {97..122}"
  by (auto simp: url_alphabet_def byte_enc6 split: if_splits)

lemma byte_inj: "byte c = byte d \<Longrightarrow> c = d"
  by (simp add: byte_def)

lemma url_std_char: "url_alphabet c \<Longrightarrow> url_char (std_char c) = c"
proof -
  assume "url_alphabet c"
  then have "byte c \<noteq> byte (CHR ''+'')" "byte c \<noteq> byte (CHR ''/'')" by (auto dest: url_alphabet_byte simp: byte_def)
  then have "c \<noteq> CHR ''+''" "c \<noteq> CHR ''/''" by blast+
  then show ?thesis by (simp add: url_char_def std_char_def)
qed

lemma encode_alphabet: "byte_list bs \<Longrightarrow> c \<in> set (EncodeToString bs) \<Longrightarrow> url_alphabet c"
  using sextets_lt [of bs] by (auto simp: EncodeToString_def url_alphabet_def byte_list_def)

lemma std_roundtrip: "byte_list bs \<Longrightarrow> std_decode (std_encode bs) = Some bs"
proof -
  assume bs: "byte_list bs"
  then have "map url_char (map std_char (EncodeToString bs)) = EncodeToString bs"
    by (simp add: map_idI encode_alphabet url_std_char)
  then show ?thesis
    using base64_roundtrip [of bs] bs by (simp add: std_decode_def std_encode_def byte_list_def)
qed

lemma std_encode_no_dollar: "byte_list bs \<Longrightarrow> CHR ''$'' \<notin> set (std_encode bs)"
proof
  assume bs: "byte_list bs" and "CHR ''$'' \<in> set (std_encode bs)"
  then obtain c where c: "url_alphabet c" "CHR ''$'' = std_char c"
    by (auto simp: std_encode_def dest: encode_alphabet)
  then have "c = CHR ''$''" by (auto simp: std_char_def split: if_splits)
  with c(1) show False by (auto dest: url_alphabet_byte simp: byte_def)
qed

lemma format_nat_no_sep:
  "CHR ''$'' \<notin> set (format_nat n)" "CHR '','' \<notin> set (format_nat n)" "CHR ''='' \<notin> set (format_nat n)"
  by (auto dest!: format_nat_digits simp: is_digit_def byte_def)

lemma phc_params_parse:
  assumes "0 < m" "m < 2 ^ 32" "0 < t" "t < 2 ^ 32" "1 \<le> p" "p \<le> 255"
  shows "parsePHCParams (phc_params m t p) = Inr (m, t, p)"
proof -
  have "Split (CHR '','') (phc_params m t p) = [''m='' @ format_nat m, ''t='' @ format_nat t, ''p='' @ format_nat p]"
    using Split_append [of "CHR '',''" "''m='' @ format_nat m"] Split_append [of "CHR '',''" "''t='' @ format_nat t"]
      Split_last [of "CHR '',''" "''p='' @ format_nat p"]
    by (simp add: phc_params_def format_nat_no_sep)
  moreover have "Cut (''m='' @ s) (CHR ''='') = Some (''m'', s)" "Cut (''t='' @ s) (CHR ''='') = Some (''t'', s)"
    "Cut (''p='' @ s) (CHR ''='') = Some (''p'', s)" for s by simp_all
  ultimately show ?thesis
    using assms by (simp add: parsePHCParams_def parse_param_def Sscan_uint32_format Sscan_int_format)
qed

lemma phc_split:
  assumes "byte_list salt" "byte_list key"
  shows "Split (CHR ''$'') (phc_string m t p salt key) =
    [[], ''argon2id'', ''v=19'', phc_params m t p, std_encode salt, std_encode key]"
proof -
  have "CHR ''$'' \<notin> set (phc_params m t p)" by (simp add: phc_params_def format_nat_no_sep)
  then show ?thesis
    using Split_append [of "CHR ''$''" "phc_params m t p"] Split_append [of "CHR ''$''" "std_encode salt"]
      Split_last [of "CHR ''$''" "std_encode key"] std_encode_no_dollar [OF assms(1)] std_encode_no_dollar [OF assms(2)]
    by (simp add: phc_string_def)
qed

text \<open>What the argon2 package documents: the key has the length asked for.\<close>

definition kdf_ok :: "kdf \<Rightarrow> bool" where
  "kdf_ok idkey \<longleftrightarrow> (\<forall>w s t m p n. length (idkey w s t m p n) = n \<and> byte_list (idkey w s t m p n))"

text \<open>
  C40.  A stored password verifies: the PHC string of a hash made with accepted parameters is read back
  exactly, so a password is accepted if and only if it derives the same key from the stored salt and
  parameters; the password it was made from is.
\<close>

theorem password_hash_roundtrip:
  assumes "NewArgon2ID a = Inr a'" and "arMemory a < 2 ^ 32" "arIterations a < 2 ^ 32" and "kdf_ok idkey"
    and "byte_list salt" and "Hash idkey a' (Some salt) plaintext = Inr phc"
  shows "Verify idkey phc guess = Inr (idkey guess salt (arIterations a) (arMemory a) (arParallelism a) (arKeyLen a)
     = idkey plaintext salt (arIterations a) (arMemory a) (arParallelism a) (arKeyLen a))
     \<and> Verify idkey phc plaintext = Inr True"
proof -
  let ?key = "idkey plaintext salt (arIterations a) (arMemory a) (arParallelism a) (arKeyLen a)"
  from assms(1) have a: "a' = a" "0 < arMemory a" "0 < arIterations a" "1 \<le> arParallelism a" "arParallelism a \<le> 255"
    by (auto simp: NewArgon2ID_def split: if_splits)
  with assms(6) have phc: "phc = phc_string (arMemory a) (arIterations a) (arParallelism a) salt ?key"
    by (auto simp: Hash_def split: if_splits)
  have key: "byte_list ?key" "length ?key = arKeyLen a" using assms(4) by (simp_all add: kdf_ok_def)
  have "phc \<noteq> []" by (simp add: phc phc_string_def)
  then have "Verify idkey phc g = Inr (idkey g salt (arIterations a) (arMemory a) (arParallelism a) (arKeyLen a) = ?key)" for g
    unfolding Verify_def using phc_split [OF assms(5) key(1)] phc_params_parse [OF a(2) assms(2) a(3) assms(3) a(4,5)]
    by (simp add: phc std_roundtrip key assms(5))
  then show ?thesis by simp
qed

definition demo_kdf :: kdf where
  "demo_kdf w s t m p n = map (\<lambda>i. (length w + i) mod 256) [0..<n]"

lemma demo_kdf_ok: "kdf_ok demo_kdf"
  by (auto simp: kdf_ok_def demo_kdf_def byte_list_def)

theorem password_hash_roundtrip_witness:
  "\<exists>phc. Hash demo_kdf DefaultArgon2Params (Some (replicate 16 7)) ''secret'' = Inr phc \<and> Verify demo_kdf phc ''secret'' = Inr True
     \<and> Verify demo_kdf phc ''guess'' = Inr False"
proof -
  obtain phc where h: "Hash demo_kdf DefaultArgon2Params (Some (replicate 16 7)) ''secret'' = Inr phc"
    by (simp add: Hash_def)
  have p: "NewArgon2ID DefaultArgon2Params = Inr DefaultArgon2Params"
    by (simp add: NewArgon2ID_def DefaultArgon2Params_def)
  have bounds: "arMemory DefaultArgon2Params < 2 ^ 32" "arIterations DefaultArgon2Params < 2 ^ 32" "byte_list (replicate 16 7)"
    by (simp_all add: DefaultArgon2Params_def byte_list_def)
  have "demo_kdf ''guess'' (replicate 16 7) 3 65536 4 32 \<noteq> demo_kdf ''secret'' (replicate 16 7) 3 65536 4 32"
    by (auto simp: demo_kdf_def intro: exI [of _ 0])
  with password_hash_roundtrip [OF p bounds(1,2) demo_kdf_ok bounds(3) h, of "''guess''"] h show ?thesis
    unfolding DefaultArgon2Params_def Argon2Params.simps by auto
qed

end
