(* ===== verification/RtWorkers.thy ===== *)
theory RtWorkers
  imports RtDispatch RtPresence Config
begin

text \<open>
  The workers the process runs beside its server (\<open>supervise\<close> in \<open>app.go\<close>, the loops of
  \<open>dispatcher.go\<close>, \<open>session_revoke.go\<close>, \<open>relay.go\<close> and the presence sweeper): what they hear of a
  channel whose subscription may break, and how they are restarted.
\<close>

section \<open>A supervised subscription\<close>

text \<open>
  What happens around a subscriber, in order.  Redis keeps nothing for a subscriber that is away: what
  arrives between the end of a subscription and the next is lost.
\<close>

datatype 'm feed = Arrives 'm | FeedEnds | BackoffOver | Cancelled

text \<open>The phase carries the back-off of the next failure.\<close>

datatype phase = Serving int | Waiting int | Ended

definition next_backoff :: "int \<Rightarrow> int" where
  "next_backoff b = (if b * 2 > 5 * second then 5 * second else b * 2)"

fun worker_step :: "('m \<Rightarrow> 's \<Rightarrow> 's) \<Rightarrow> 'm feed \<Rightarrow> phase \<times> 's \<Rightarrow> phase \<times> 's" where
  "worker_step handle (Arrives m) (Serving b, s) = (Serving b, handle m s)"
| "worker_step handle FeedEnds (Serving b, s) = (Waiting b, s)"
| "worker_step handle BackoffOver (Waiting b, s) = (Serving (next_backoff b), s)"
| "worker_step handle Cancelled (p, s) = (Ended, s)"
| "worker_step handle _ x = x"

definition supervised :: "('m \<Rightarrow> 's \<Rightarrow> 's) \<Rightarrow> 'm feed list \<Rightarrow> phase \<times> 's \<Rightarrow> phase \<times> 's" where
  "supervised handle feed x = fold (worker_step handle) feed x"

definition first_phase :: phase where
  "first_phase = Serving (second div 4)"

text \<open>The messages that are heard.\<close>

fun heard :: "'m feed list \<Rightarrow> phase \<Rightarrow> 'm list" where
  "heard [] p = []"
| "heard (Arrives m # feed) (Serving b) = m # heard feed (Serving b)"
| "heard (x # feed) p = heard feed (fst (worker_step (\<lambda>_ s. s) x (p, ())))"

lemma supervised_simps [simp]:
  "supervised handle [] x = x" "supervised handle (f # fs) x = supervised handle fs (worker_step handle f x)"
  by (simp_all add: supervised_def)

lemma worker_phase: "fst (worker_step handle f (p, s)) = fst (worker_step (\<lambda>_ s. s) f (p, ()))"
  by (cases f; cases p) auto

text \<open>A worker is the fold of its handler over what it hears.\<close>

lemma supervised_heard: "snd (supervised handle feed (p, s)) = fold handle (heard feed p) s"
proof (induction feed arbitrary: p s)
  case (Cons f feed)
  then show ?case by (cases f; cases p) simp_all
qed simp

text \<open>With a subscription that holds it hears everything; it ends only when the process cancels it.\<close>

lemma heard_all: "heard (map Arrives ms) (Serving b) = ms"
  by (induction ms) simp_all

lemma never_ends: "Cancelled \<notin> set feed \<Longrightarrow> p \<noteq> Ended \<Longrightarrow> fst (supervised handle feed (p, s)) \<noteq> Ended"
proof (induction feed arbitrary: p s)
  case (Cons f feed)
  have "fst (worker_step handle f (p, s)) \<noteq> Ended" using Cons.prems by (cases f; cases p) auto
  then show ?case using Cons by (cases "worker_step handle f (p, s)") simp
qed simp

text \<open>What arrives while it waits is lost, and only that.\<close>

lemma heard_append: "heard (xs @ ys) p = heard xs p @ heard ys (fst (supervised (\<lambda>_ s. s) xs (p, ())))"
proof (induction xs arbitrary: p)
  case (Cons x xs)
  then show ?case by (cases x; cases p) simp_all
qed simp

lemma heard_waiting: "heard (map Arrives ms @ BackoffOver # feed) (Waiting b) = heard feed (Serving (next_backoff b))"
  by (induction ms) simp_all

lemma lost_while_waiting:
  "heard (map Arrives ms @ FeedEnds # map Arrives lost @ BackoffOver # feed) (Serving b)
     = ms @ heard feed (Serving (next_backoff b))"
  by (induction ms) (simp_all add: heard_waiting)

text \<open>The waits are those of \<open>supervise\<close>: a quarter of a second, doubled up to five seconds.\<close>

fun waits :: "'m feed list \<Rightarrow> phase \<Rightarrow> int list" where
  "waits [] p = []"
| "waits (FeedEnds # feed) (Serving b) = b # waits feed (Waiting b)"
| "waits (x # feed) p = waits feed (fst (worker_step (\<lambda>_ s. s) x (p, ())))"

lemma waits_backoffs:
  "\<exists>n. waits feed p = (case p of Serving b \<Rightarrow> backoffs n b | Waiting b \<Rightarrow> backoffs n (next_backoff b) | Ended \<Rightarrow> [])"
proof (induction feed arbitrary: p)
  case Nil
  show ?case by (intro exI [of _ 0]) (simp split: phase.split)
next
  case (Cons f feed)
  have fails: "\<exists>n. b # waits feed (Waiting b) = backoffs n b" for b
  proof -
    obtain n where "waits feed (Waiting b) = backoffs n (next_backoff b)" using Cons.IH [of "Waiting b"] by auto
    then have "b # waits feed (Waiting b) = backoffs (Suc n) b" by (simp add: next_backoff_def)
    then show ?thesis by blast
  qed
  show ?case using Cons.IH [of "fst (worker_step (\<lambda>_ s. s) f (p, ()))"] fails
    by (cases f; cases p) (auto intro: exI [of _ 0])
qed

lemma waits_supervise: "\<exists>n. waits feed first_phase = supervise n"
  using waits_backoffs [of feed first_phase] by (simp add: first_phase_def supervise_def)

lemma waits_bounded: "b \<in> set (waits feed first_phase) \<Longrightarrow> 0 < b \<and> b \<le> 5 * second"
  using waits_supervise supervise_bounded by metis

section \<open>What a worker keeps\<close>

text \<open>A handler that keeps an invariant keeps it through every failure and restart of its worker.\<close>

locale worker_contract =
  fixes handle :: "'m \<Rightarrow> 's \<Rightarrow> 's" and good :: "'s \<Rightarrow> bool"
  assumes handle_keeps: "good s \<Longrightarrow> good (handle m s)"
begin

lemma handled_keeps: "good s \<Longrightarrow> good (fold handle ms s)"
  by (induction ms arbitrary: s) (simp_all add: handle_keeps)

lemma worker_keeps: "good s \<Longrightarrow> good (snd (supervised handle feed (p, s)))"
  unfolding supervised_heard by (rule handled_keeps)

end

lemma ephemeral_not_resume: "IsEphemeral t \<Longrightarrow> t \<noteq> ''resume_ack''"
  by (auto simp: IsEphemeral_def)

lemma registry_deliver:
  "registry_ok g \<Longrightarrow> typ \<noteq> ''resume_ack'' \<Longrightarrow> registry_ok (deliver_conversation now e typ g)"
  "registry_ok g \<Longrightarrow> typ \<noteq> ''resume_ack'' \<Longrightarrow> registry_ok (deliver_users now e typ g)"
proof -
  show "registry_ok g \<Longrightarrow> typ \<noteq> ''resume_ack'' \<Longrightarrow> registry_ok (deliver_conversation now e typ g)"
    by (auto simp: deliver_conversation_def intro: registry_step gw_conversation split: option.split)
  have "registry_ok (fold (\<lambda>u. DeliverToUser u typ (evPayload e) now) us g)" if "registry_ok g" "typ \<noteq> ''resume_ack''" for us
    using that by (induction us arbitrary: g) (auto intro: registry_step gw_user)
  then show "registry_ok g \<Longrightarrow> typ \<noteq> ''resume_ack'' \<Longrightarrow> registry_ok (deliver_users now e typ g)"
    by (simp add: deliver_users_def)
qed

definition dispatcher_ok :: "dedupeSet \<times> Server \<Rightarrow> bool" where
  "dispatcher_ok x \<longleftrightarrow> dedupe_ok (fst x) \<and> registry_ok (svGateway (snd x))"

lemma dispatch_keeps:
  assumes "dispatcher_ok x"
  shows "dispatcher_ok (dispatch now e x)"
proof (cases x)
  case (Pair d s)
  have "dedupe_ok (snd (dedupe_add (evGlobalSeq e) d))"
    using dedupe_add_spec [of d "evGlobalSeq e"] assms Pair by (cases "dedupe_add (evGlobalSeq e) d") (simp add: dispatcher_ok_def)
  moreover have "registry_ok (svGateway s)" using assms Pair by (simp add: dispatcher_ok_def)
  ultimately show ?thesis
    using assms Pair by (auto simp: dispatch_def dispatcher_ok_def on_gateway_def Let_def wire_not_resume
        intro!: registry_deliver dest: ephemeral_not_resume split: prod.split)
qed

lemma receive_keeps: "dispatcher_ok x \<Longrightarrow> dispatcher_ok (receive now m x)"
  by (simp add: receive_def dispatch_keeps split: sum.split)

definition dispatcher_handle :: "go_time \<times> json option \<Rightarrow> dedupeSet \<times> Server \<Rightarrow> dedupeSet \<times> Server" where
  "dispatcher_handle m = receive (fst m) (snd m)"

interpretation dispatcher_worker: worker_contract dispatcher_handle dispatcher_ok
  by unfold_locales (simp add: dispatcher_handle_def receive_keeps)

interpretation revoke_worker: worker_contract revoke_message registry_ok
  by unfold_locales (auto simp: revoke_message_def intro: registry_step gw_session split: option.split)

text \<open>The dispatcher of \<open>RtDispatch\<close> is the worker whose subscription holds.\<close>

lemma dispatcher_receive_all: "snd (supervised dispatcher_handle (map Arrives ms) (first_phase, x)) = receive_all ms x"
  unfolding supervised_heard first_phase_def heard_all receive_all_def dispatcher_handle_def by (simp add: case_prod_unfold)

section \<open>A gap\<close>

text \<open>
  A broken subscription leaves a gap the replay buffer does not know of: the message at 6 was published
  while the dispatcher waited, and a socket that has seen 5 is let resume and is sent 7 alone.
\<close>

definition gap_feed :: "(go_time \<times> json option) feed list" where
  "gap_feed = [Arrives (10, Some (Event_Encode (demo_event 1 5))), FeedEnds, Arrives (20, Some (Event_Encode (demo_event 1 6))),
     BackoffOver, Arrives (30, Some (Event_Encode (demo_event 1 7)))]"

lemma dispatch_replay:
  assumes "0 < n" and "n \<notin> dsSeen d"
  shows "svReplay (snd (dispatch now (demo_event c n) (d, s))) = replay_append (demo_event c n) now (svReplay s)"
    and "dsSeen (fst (dispatch now (demo_event c n) (d, s))) \<subseteq> insert n (dsSeen d)"
  using assms
  by (auto simp: dispatch_def dedupe_add_def demo_event_def IsEphemeral_def eventWireType_def EventTypeToWire_def
      on_gateway_def user_scoped_def deliver_users_def deliver_conversation_def Let_def)

lemma gap_resumes_silently:
  "let b = svReplay (snd (snd (supervised dispatcher_handle gap_feed (first_phase, (newDedupeSet 4096, demo_server)))))
   in CanReplay b 5 \<and> map rfSeq (ReplaySince b 5) = [7]"
proof -
  let ?x = "dispatch 10 (demo_event 1 5) (newDedupeSet 4096, demo_server)"
  have dec: "DecodeEvent (Some (Event_Encode (demo_event 1 n))) = Inr (demo_event 1 n)" if "n \<in> {5, 7}" for n
    using that by (intro event_roundtrip) (auto simp: event_int64_def demo_event_def int64_def)
  have h: "heard gap_feed first_phase = [(10, Some (Event_Encode (demo_event 1 5))), (30, Some (Event_Encode (demo_event 1 7)))]"
    by (simp add: gap_feed_def first_phase_def)
  have "7 \<notin> dsSeen (fst ?x)"
    using dispatch_replay(2) [of 5 "newDedupeSet 4096" 10 1 demo_server] by (auto simp: newDedupeSet_def)
  then have "svReplay (snd (dispatch 30 (demo_event 1 7) ?x))
      = replay_append (demo_event 1 7) 30 (replay_append (demo_event 1 5) 10 (newReplayBuffer DefaultReplayConfig))"
    using dispatch_replay(1) [of 7 "fst ?x" 30 1 "snd ?x"] dispatch_replay(1) [of 5 "newDedupeSet 4096" 10 1 demo_server]
    by (simp add: newDedupeSet_def demo_server_def)
  then have "svReplay (snd (snd (supervised dispatcher_handle gap_feed (first_phase, (newDedupeSet 4096, demo_server)))))
      = replay_append (demo_event 1 7) 30 (replay_append (demo_event 1 5) 10 (newReplayBuffer DefaultReplayConfig))"
    unfolding supervised_heard h by (simp add: dispatcher_handle_def receive_def dec)
  moreover have "let b = replay_append (demo_event 1 7) 30 (replay_append (demo_event 1 5) 10 (newReplayBuffer DefaultReplayConfig))
      in CanReplay b 5 \<and> map rfSeq (ReplaySince b 5) = [7]" by code_simp
  ultimately show ?thesis by simp
qed

section \<open>The relay and the sweeper\<close>

text \<open>
  The relay starts at the head of the log; when that read fails it returns, and nothing restarts it.
\<close>

definition relay_Run :: "go_int option \<Rightarrow> Poll list \<Rightarrow> (ChangeLogRow list \<times> go_int) option" where
  "relay_Run head ps = map_option (polls ps) head"

lemma relay_never_starts: "relay_Run None ps = None"
  by (simp add: relay_Run_def)

text \<open>Microseconds between two sweeps.\<close>

definition sweep_interval :: "PresenceConfig \<Rightarrow> go_time" where
  "sweep_interval cfg = (let interval = pcTTL cfg div 2 in if interval < 1000000 then 1000000 else interval)"

text \<open>
  With a TTL above a second, what a sweep touched is alive at the next one, so a user with an open
  socket stays online as long as Redis answers.
\<close>

lemma sweep_in_time:
  assumes "1000000 < pcTTL cfg" and "live now (psOnline st u) = Some insts" "live now (psConns st u inst) = Some conns"
    and "now' \<le> now + sweep_interval cfg"
  shows "live now' (psOnline (Store_Touch cfg now u inst st) u) = Some insts
     \<and> live now' (psConns (Store_Touch cfg now u inst st) u inst) = Some conns"
proof -
  have "sweep_interval cfg < pcTTL cfg" using assms(1) by (auto simp: sweep_interval_def Let_def)
  then show ?thesis using assms(2-4) by (auto simp: Store_Touch_def set_conns_def set_online_def expire_def)
qed

end
