(* ===== verification/AuthRows.thy ===== *)
theory AuthRows
  imports AuthStore
begin

text \<open>
  The rows behind the session store (\<open>session_repo.go\<close>): what an insert writes and what a scan reads.
  The tables of \<open>AuthStore\<close> hold the scanned values; this theory shows that this is the same table,
  NULLs included.
\<close>

section \<open>Rows\<close>

record SessionRow =
  srID :: go_int
  srUserID :: go_int
  srDeviceID :: string
  srDeviceName :: "string option"
  srPlatform :: "string option"
  srAppVersion :: "string option"
  srPushToken :: "string option"
  srFamily :: go_int
  srHash :: "string option"
  srPreviousHash :: "string option"
  srIPAddress :: "string option"
  srUserAgent :: "string option"
  srLastActiveAt :: go_time
  srState :: SessionState
  srCreatedAt :: go_time
  srUpdatedAt :: go_time
  srRefreshExpiresAt :: "go_time option"

definition strOrNil :: "string \<Rightarrow> string option" where
  "strOrNil s = (if s = [] then None else Some s)"

text \<open>The columns of \<open>Create\<close>; the creation times are the defaults of the table.\<close>

definition session_row :: "go_time \<Rightarrow> Session \<Rightarrow> SessionRow" where
  "session_row now s =
     \<lparr>srID = seID s, srUserID = seUserID s, srDeviceID = dvID (seDevice s), srDeviceName = nullIfEmpty (dvName (seDevice s)),
      srPlatform = nullIfEmpty (dvPlatform (seDevice s)), srAppVersion = nullIfEmpty (dvAppVersion (seDevice s)),
      srPushToken = sePushToken s, srFamily = seFamily s, srHash = strOrNil (seHash s), srPreviousHash = strOrNil (sePreviousHash s),
      srIPAddress = nullIfEmpty (seIPAddress s), srUserAgent = seUserAgent s, srLastActiveAt = seLastActiveAt s,
      srState = seState s, srCreatedAt = now, srUpdatedAt = now, srRefreshExpiresAt = seRefreshExpiresAt s\<rparr>"

text \<open>\<open>inet_text\<close> is how PostgreSQL prints the address it was given (\<open>ip_address::text\<close>).\<close>

definition scanSession :: "(string \<Rightarrow> string) \<Rightarrow> SessionRow option \<Rightarrow> auth_error + Session" where
  "scanSession inet_text row =
     (case row of None \<Rightarrow> Inl ErrSessionNotFound
      | Some r \<Rightarrow> Inr
          \<lparr>seID = srID r, seUserID = srUserID r,
           seDevice = \<lparr>dvID = srDeviceID r, dvName = srDeviceName r, dvPlatform = srPlatform r, dvAppVersion = srAppVersion r\<rparr>,
           sePushToken = srPushToken r, seFamily = srFamily r,
           seHash = (case srHash r of None \<Rightarrow> [] | Some h \<Rightarrow> h), sePreviousHash = (case srPreviousHash r of None \<Rightarrow> [] | Some h \<Rightarrow> h),
           seRefreshExpiresAt = srRefreshExpiresAt r, seIPAddress = map_option inet_text (srIPAddress r), seUserAgent = srUserAgent r,
           seLastActiveAt = srLastActiveAt r, seState = srState r, seCreatedAt = srCreatedAt r, seUpdatedAt = srUpdatedAt r\<rparr>)"

section \<open>The same table\<close>

text \<open>A table of rows read as a table of sessions, and the rows \<open>strOrNil\<close> can have written.\<close>

definition scanned :: "(string \<Rightarrow> string) \<Rightarrow> SessionRow \<Rightarrow> Session" where
  "scanned inet_text r = projr (scanSession inet_text (Some r))"

definition row_ok :: "SessionRow \<Rightarrow> bool" where
  "row_ok r \<longleftrightarrow> srHash r \<noteq> Some [] \<and> srPreviousHash r \<noteq> Some []"

lemma session_row_ok: "row_ok (session_row now s)"
  by (simp add: row_ok_def session_row_def strOrNil_def)

text \<open>A session that is created is read back as \<open>AuthStore\<close> stores it, its address as the database prints it.\<close>

lemma create_scan:
  assumes "Session_Create fl inet now s db = Inr ((), db')"
  shows "\<exists>r. auSessions db' = auSessions db @ [r]
     \<and> scanSession inet_text (Some (session_row now s)) = Inr (r\<lparr>seIPAddress := map_option inet_text (seIPAddress r)\<rparr>)"
  using assms
  by (auto simp: Session_Create_def acall_def scanSession_def session_row_def device_row_def strOrNil_def nullIfEmpty_def split: if_splits)

lemma find_map_row: "find P (map f rows) = map_option f (find (P \<circ> f) rows)"
  by (induction rows) simp_all

lemma scan_find:
  assumes "\<forall>r \<in> set rows. P (scanned inet_text r) = Q r"
  shows "scanSession inet_text (find Q rows) = from_opt ErrSessionNotFound (find P (map (scanned inet_text) rows))"
proof -
  have "find (P \<circ> scanned inet_text) rows = find Q rows" using assms by (induction rows) simp_all
  then show ?thesis
    unfolding find_map_row by (cases "find Q rows") (simp_all add: from_opt_def scanned_def scanSession_def)
qed

text \<open>
  An SQL comparison with NULL is not true: looking a hash up in the rows is looking it up among the
  sessions with a hash.  The empty text, which no token hashes to, is not even stored.
\<close>

lemma hash_lookup:
  assumes "\<forall>r \<in> set rows. row_ok r"
  shows "scanSession inet_text (find (\<lambda>r. srHash r = Some h) rows)
      = Session_FindByHash (\<lambda>_. False) (db\<lparr>auSessions := map (scanned inet_text) rows\<rparr>) h"
    and "scanSession inet_text (find (\<lambda>r. srPreviousHash r = Some h) rows)
      = Session_FindByPreviousHash (\<lambda>_. False) (db\<lparr>auSessions := map (scanned inet_text) rows\<rparr>) h"
proof -
  have "scanSession inet_text (find (\<lambda>r. srHash r = Some h) rows)
      = from_opt ErrSessionNotFound (find (\<lambda>s. seHash s = h \<and> seHash s \<noteq> []) (map (scanned inet_text) rows))"
    using assms by (intro scan_find) (auto simp: scanned_def scanSession_def row_ok_def split: option.split)
  then show "scanSession inet_text (find (\<lambda>r. srHash r = Some h) rows)
      = Session_FindByHash (\<lambda>_. False) (db\<lparr>auSessions := map (scanned inet_text) rows\<rparr>) h"
    by (simp add: Session_FindByHash_def acall_def)
  have "scanSession inet_text (find (\<lambda>r. srPreviousHash r = Some h) rows)
      = from_opt ErrSessionNotFound (find (\<lambda>s. sePreviousHash s = h \<and> sePreviousHash s \<noteq> []) (map (scanned inet_text) rows))"
    using assms by (intro scan_find) (auto simp: scanned_def scanSession_def row_ok_def split: option.split)
  then show "scanSession inet_text (find (\<lambda>r. srPreviousHash r = Some h) rows)
      = Session_FindByPreviousHash (\<lambda>_. False) (db\<lparr>auSessions := map (scanned inet_text) rows\<rparr>) h"
    by (simp add: Session_FindByPreviousHash_def acall_def)
qed

text \<open>Updates are made on the rows and seen on the sessions: one that sets the hashes keeps the rows well formed.\<close>

definition update_row :: "go_time \<Rightarrow> Session \<Rightarrow> SessionRow \<Rightarrow> SessionRow" where
  "update_row now s r = r\<lparr>srDeviceName := nullIfEmpty (dvName (seDevice s)), srPlatform := nullIfEmpty (dvPlatform (seDevice s)),
     srAppVersion := nullIfEmpty (dvAppVersion (seDevice s)), srPushToken := sePushToken s, srFamily := seFamily s,
     srHash := strOrNil (seHash s), srPreviousHash := strOrNil (sePreviousHash s), srRefreshExpiresAt := seRefreshExpiresAt s,
     srIPAddress := nullIfEmpty (seIPAddress s), srUserAgent := seUserAgent s, srLastActiveAt := seLastActiveAt s,
     srState := seState s, srUpdatedAt := now\<rparr>"

lemma update_scan:
  assumes "Session_Update fl inet now s (db\<lparr>auSessions := map (scanned id) rows\<rparr>) = Inr ((), db')"
  shows "auSessions db' = map (scanned id) (upd_where (\<lambda>r. srID r = seID s) (update_row now s) rows)"
    and "\<forall>r \<in> set rows. row_ok r \<Longrightarrow> \<forall>r \<in> set (upd_where (\<lambda>r. srID r = seID s) (update_row now s) rows). row_ok r"
  using assms
  by (auto simp: Session_Update_def acall_def scanned_def scanSession_def update_row_def upd_where_def device_row_def
      strOrNil_def row_ok_def option.map_id split: if_splits)

end
