(* ===== verification/HttpErrors.thy ===== *)
theory HttpErrors
  imports RtDomain AuthDomain
begin

text \<open>
  The error contract of the REST surface (\<open>platform/apierr\<close>, \<open>httpapi/errors.go\<close>): the codes with the
  status and title derived from them, the classified error, the mapping of every domain error, and the
  problem document a response carries.
\<close>

section \<open>Codes\<close>

datatype Code =
    CodeValidationError | CodeUnauthorized | CodeForbidden | CodeNotFound | CodeConflict
  | CodeRateLimited | CodePayloadTooLarge | CodeInternal | CodeServiceUnavailable
  | CodeTokenExpired | CodeTokenRevoked | CodeSessionRevoked | CodeAccountSuspended | CodeAccountDeleted
  | CodeUserNotFound | CodeConversationNotFound | CodeMessageNotFound | CodeBlocked | CodeNotAMember
  | CodeInsufficientRole | CodeDirectExists | CodeQuotaExceeded

fun code_string :: "Code \<Rightarrow> string" where
  "code_string CodeValidationError = ''VALIDATION_ERROR''"
| "code_string CodeUnauthorized = ''UNAUTHORIZED''"
| "code_string CodeForbidden = ''FORBIDDEN''"
| "code_string CodeNotFound = ''NOT_FOUND''"
| "code_string CodeConflict = ''CONFLICT''"
| "code_string CodeRateLimited = ''RATE_LIMITED''"
| "code_string CodePayloadTooLarge = ''PAYLOAD_TOO_LARGE''"
| "code_string CodeInternal = ''INTERNAL_ERROR''"
| "code_string CodeServiceUnavailable = ''SERVICE_UNAVAILABLE''"
| "code_string CodeTokenExpired = ''TOKEN_EXPIRED''"
| "code_string CodeTokenRevoked = ''TOKEN_REVOKED''"
| "code_string CodeSessionRevoked = ''SESSION_REVOKED''"
| "code_string CodeAccountSuspended = ''ACCOUNT_SUSPENDED''"
| "code_string CodeAccountDeleted = ''ACCOUNT_DELETED''"
| "code_string CodeUserNotFound = ''USER_NOT_FOUND''"
| "code_string CodeConversationNotFound = ''CONVERSATION_NOT_FOUND''"
| "code_string CodeMessageNotFound = ''MESSAGE_NOT_FOUND''"
| "code_string CodeBlocked = ''BLOCKED''"
| "code_string CodeNotAMember = ''NOT_A_MEMBER''"
| "code_string CodeInsufficientRole = ''INSUFFICIENT_ROLE''"
| "code_string CodeDirectExists = ''DIRECT_EXISTS''"
| "code_string CodeQuotaExceeded = ''QUOTA_EXCEEDED''"

record codeMeta =
  cmStatus :: int
  cmTitle :: string

fun metaByCode :: "Code \<Rightarrow> codeMeta" where
  "metaByCode CodeValidationError = \<lparr>cmStatus = 422, cmTitle = ''Validation Error''\<rparr>"
| "metaByCode CodeUnauthorized = \<lparr>cmStatus = 401, cmTitle = ''Unauthorized''\<rparr>"
| "metaByCode CodeForbidden = \<lparr>cmStatus = 403, cmTitle = ''Forbidden''\<rparr>"
| "metaByCode CodeNotFound = \<lparr>cmStatus = 404, cmTitle = ''Not Found''\<rparr>"
| "metaByCode CodeConflict = \<lparr>cmStatus = 409, cmTitle = ''Conflict''\<rparr>"
| "metaByCode CodeRateLimited = \<lparr>cmStatus = 429, cmTitle = ''Rate Limited''\<rparr>"
| "metaByCode CodePayloadTooLarge = \<lparr>cmStatus = 413, cmTitle = ''Payload Too Large''\<rparr>"
| "metaByCode CodeInternal = \<lparr>cmStatus = 500, cmTitle = ''Internal Error''\<rparr>"
| "metaByCode CodeServiceUnavailable = \<lparr>cmStatus = 503, cmTitle = ''Service Unavailable''\<rparr>"
| "metaByCode CodeTokenExpired = \<lparr>cmStatus = 401, cmTitle = ''Token Expired''\<rparr>"
| "metaByCode CodeTokenRevoked = \<lparr>cmStatus = 401, cmTitle = ''Token Revoked''\<rparr>"
| "metaByCode CodeSessionRevoked = \<lparr>cmStatus = 401, cmTitle = ''Session Revoked''\<rparr>"
| "metaByCode CodeAccountSuspended = \<lparr>cmStatus = 403, cmTitle = ''Account Suspended''\<rparr>"
| "metaByCode CodeAccountDeleted = \<lparr>cmStatus = 403, cmTitle = ''Account Deleted''\<rparr>"
| "metaByCode CodeUserNotFound = \<lparr>cmStatus = 404, cmTitle = ''User Not Found''\<rparr>"
| "metaByCode CodeConversationNotFound = \<lparr>cmStatus = 404, cmTitle = ''Conversation Not Found''\<rparr>"
| "metaByCode CodeMessageNotFound = \<lparr>cmStatus = 404, cmTitle = ''Message Not Found''\<rparr>"
| "metaByCode CodeBlocked = \<lparr>cmStatus = 403, cmTitle = ''Blocked''\<rparr>"
| "metaByCode CodeNotAMember = \<lparr>cmStatus = 403, cmTitle = ''Not A Member''\<rparr>"
| "metaByCode CodeInsufficientRole = \<lparr>cmStatus = 403, cmTitle = ''Insufficient Role''\<rparr>"
| "metaByCode CodeDirectExists = \<lparr>cmStatus = 409, cmTitle = ''Direct Conversation Exists''\<rparr>"
| "metaByCode CodeQuotaExceeded = \<lparr>cmStatus = 429, cmTitle = ''Quota Exceeded''\<rparr>"

section \<open>Classified errors\<close>

record FieldError =
  feField :: string
  feReason :: string

text \<open>The cause of an error is only logged, so it is not part of the model.\<close>

record ApiError =
  apCode :: Code
  apDetail :: string
  apRetryable :: bool
  apFields :: "FieldError list"

definition api_error :: "Code \<Rightarrow> string \<Rightarrow> bool \<Rightarrow> ApiError" where
  "api_error code detail retryable = \<lparr>apCode = code, apDetail = detail, apRetryable = retryable, apFields = []\<rparr>"

definition Status :: "ApiError \<Rightarrow> int" where
  "Status e = cmStatus (metaByCode (apCode e))"

definition Title :: "ApiError \<Rightarrow> string" where
  "Title e = cmTitle (metaByCode (apCode e))"

definition Validation :: "string \<Rightarrow> FieldError list \<Rightarrow> ApiError" where
  "Validation detail fs = \<lparr>apCode = CodeValidationError, apDetail = detail, apRetryable = False, apFields = fs\<rparr>"

definition invalid_field :: "string \<Rightarrow> string \<Rightarrow> string \<Rightarrow> ApiError" where
  "invalid_field detail field reason = Validation detail [\<lparr>feField = field, feReason = reason\<rparr>]"

definition Unauthorized :: "string \<Rightarrow> ApiError" where
  "Unauthorized detail = api_error CodeUnauthorized detail False"

definition Forbidden :: "string \<Rightarrow> ApiError" where
  "Forbidden detail = api_error CodeForbidden detail False"

definition NotFound :: "string \<Rightarrow> ApiError" where
  "NotFound detail = api_error CodeNotFound detail False"

definition Conflict :: "string \<Rightarrow> ApiError" where
  "Conflict detail = api_error CodeConflict detail False"

definition TokenExpired :: "string \<Rightarrow> ApiError" where
  "TokenExpired detail = api_error CodeTokenExpired detail True"

definition TokenRevoked :: "string \<Rightarrow> ApiError" where
  "TokenRevoked detail = api_error CodeTokenRevoked detail False"

definition SessionRevoked :: "string \<Rightarrow> ApiError" where
  "SessionRevoked detail = api_error CodeSessionRevoked detail False"

definition AccountSuspendedError :: "string \<Rightarrow> ApiError" where
  "AccountSuspendedError detail = api_error CodeAccountSuspended detail False"

definition AccountDeletedError :: "string \<Rightarrow> ApiError" where
  "AccountDeletedError detail = api_error CodeAccountDeleted detail False"

definition UserNotFound :: "string \<Rightarrow> ApiError" where
  "UserNotFound detail = api_error CodeUserNotFound detail False"

definition ConversationNotFound :: "string \<Rightarrow> ApiError" where
  "ConversationNotFound detail = api_error CodeConversationNotFound detail False"

definition MessageNotFound :: "string \<Rightarrow> ApiError" where
  "MessageNotFound detail = api_error CodeMessageNotFound detail False"

definition NotAMember :: "string \<Rightarrow> ApiError" where
  "NotAMember detail = api_error CodeNotAMember detail False"

definition InsufficientRole :: "string \<Rightarrow> ApiError" where
  "InsufficientRole detail = api_error CodeInsufficientRole detail False"

definition DirectExists :: "string \<Rightarrow> ApiError" where
  "DirectExists detail = api_error CodeDirectExists detail False"

definition PayloadTooLarge :: "string \<Rightarrow> ApiError" where
  "PayloadTooLarge detail = api_error CodePayloadTooLarge detail False"

definition QuotaExceeded :: "string \<Rightarrow> ApiError" where
  "QuotaExceeded detail = api_error CodeQuotaExceeded detail False"

definition RateLimitedError :: "string \<Rightarrow> ApiError" where
  "RateLimitedError detail = api_error CodeRateLimited detail True"

definition BlockedError :: "string \<Rightarrow> ApiError" where
  "BlockedError detail = api_error CodeBlocked detail False"

definition ServiceUnavailable :: "string \<Rightarrow> ApiError" where
  "ServiceUnavailable detail = api_error CodeServiceUnavailable detail True"

definition Internal :: "string \<Rightarrow> ApiError" where
  "Internal detail = api_error CodeInternal detail True"

definition Wrap :: "string \<Rightarrow> ApiError" where
  "Wrap detail = api_error CodeInternal detail True"

section \<open>The mapping of domain errors\<close>

text \<open>What a handler can pass to \<open>WriteError\<close>: a classified error or one of the two modules'.\<close>

datatype app_error = Api ApiError | ChatErr chat_error | AuthErr auth_error

fun map_chat_error :: "chat_error \<Rightarrow> ApiError" where
  "map_chat_error (ChatDomain.ValidationError field reason) = invalid_field ''one or more fields failed validation'' field reason"
| "map_chat_error ErrConversationNotFound = ConversationNotFound ''conversation not found''"
| "map_chat_error ErrNotMember = NotAMember ''caller is not a member of this conversation''"
| "map_chat_error ErrInsufficientRole = InsufficientRole ''insufficient role for this operation''"
| "map_chat_error ErrOnlyOwnerMayChangeOwner = InsufficientRole ''insufficient role for this operation''"
| "map_chat_error ErrDirectExists = DirectExists ''a direct conversation already exists''"
| "map_chat_error ErrCannotRemoveOwner = Forbidden ''the conversation owner cannot be removed or demoted''"
| "map_chat_error ErrCannotDemoteOwner = Forbidden ''the conversation owner cannot be removed or demoted''"
| "map_chat_error ErrConversationFull = invalid_field ''conversation is full'' ''user_ids'' ''conversation_full''"
| "map_chat_error ErrUnknownParticipant = invalid_field ''unknown participant'' ''participant_ids'' ''unknown_user''"
| "map_chat_error ErrGroupTitleRequired = invalid_field ''group title is required'' ''title'' ''required''"
| "map_chat_error ErrInvalidConversationType = invalid_field ''invalid conversation type'' ''type'' ''invalid_type''"
| "map_chat_error ErrInvalidRole = invalid_field ''invalid role'' ''role'' ''invalid_role''"
| "map_chat_error ErrInvalidHistoryVisible = invalid_field ''invalid history_visible setting'' ''settings.history_visible'' ''invalid_value''"
| "map_chat_error ErrInvalidCursor = invalid_field ''invalid pagination cursor'' ''cursor'' ''invalid_cursor''"
| "map_chat_error ErrMembershipNotFound = invalid_field ''membership not found'' ''user_id'' ''not_a_member''"
| "map_chat_error ErrMessageNotFound = MessageNotFound ''message not found''"
| "map_chat_error ErrNotSender = Forbidden ''this message cannot be modified''"
| "map_chat_error ErrEditWindowExpired = Forbidden ''this message cannot be modified''"
| "map_chat_error ErrMessageDeleted = Forbidden ''this message cannot be modified''"
| "map_chat_error ErrMessageNotEditable = Forbidden ''this message cannot be modified''"
| "map_chat_error ErrReactionLimit = invalid_field ''reaction limit reached'' ''emoji'' ''reaction_limit''"
| "map_chat_error ErrInvalidEmoji = invalid_field ''invalid reaction emoji'' ''emoji'' ''invalid_emoji''"
| "map_chat_error ErrMentionNotMember = invalid_field ''mention is not a conversation member'' ''mentions'' ''not_a_member''"
| "map_chat_error ErrReplyNotFound = invalid_field ''reply target not found'' ''reply_to_seq'' ''invalid_reply_target''"
| "map_chat_error _ = Wrap ''an internal error occurred''"

fun map_auth_error :: "auth_error \<Rightarrow> ApiError" where
  "map_auth_error ErrUserNotFound = UserNotFound ''user not found''"
| "map_auth_error ErrTokenExpired = TokenExpired ''access token expired''"
| "map_auth_error ErrTokenRevoked = TokenRevoked ''access token revoked''"
| "map_auth_error ErrSessionRevoked = SessionRevoked ''session revoked''"
| "map_auth_error ErrAccountSuspended = AccountSuspendedError ''account suspended''"
| "map_auth_error ErrAccountDeleted = AccountDeletedError ''account deleted''"
| "map_auth_error ErrTokenInvalid = Unauthorized ''invalid access token''"
| "map_auth_error _ = Wrap ''an internal error occurred''"

fun mapError :: "app_error \<Rightarrow> ApiError" where
  "mapError (Api e) = e"
| "mapError (ChatErr e) = map_chat_error e"
| "mapError (AuthErr e) = map_auth_error e"

section \<open>Problem documents\<close>

definition typeSlug :: "Code \<Rightarrow> string" where
  "typeSlug code = map lower_char (map (\<lambda>c. if c = CHR ''_'' then CHR ''-'' else c) (code_string code))"

definition baseErrorTypeURL :: string where
  "baseErrorTypeURL = ''https://api.socialmedia.example/errors/''"

definition envelope :: "string \<Rightarrow> string \<Rightarrow> ApiError \<Rightarrow> json" where
  "envelope path requestID e = JObj (
     [(''type'', JStr (baseErrorTypeURL @ typeSlug (apCode e))), (''title'', JStr (Title e)), (''status'', JInt (Status e)),
      (''detail'', JStr (if apDetail e = [] then ''an error occurred'' else apDetail e)), (''code'', JStr (code_string (apCode e))),
      (''instance'', JStr path), (''request_id'', JStr requestID), (''retryable'', JBool (apRetryable e))]
     @ omitempty ''errors''
         (\<lambda>fs. JArr (map (\<lambda>f. JObj [(''field'', JStr (feField f)), (''reason'', JStr (feReason f))]) fs))
         (if apFields e = [] then None else Some (apFields e)))"

section \<open>Facts\<close>

lemmas api_error_defs = api_error_def Status_def Title_def Validation_def invalid_field_def Unauthorized_def Forbidden_def
  NotFound_def Conflict_def TokenExpired_def TokenRevoked_def SessionRevoked_def AccountSuspendedError_def AccountDeletedError_def
  UserNotFound_def ConversationNotFound_def MessageNotFound_def NotAMember_def InsufficientRole_def DirectExists_def
  PayloadTooLarge_def QuotaExceeded_def RateLimitedError_def BlockedError_def ServiceUnavailable_def Internal_def Wrap_def

text \<open>The errors that are the server's fault to a client: infrastructure, and the sentinels without a case.\<close>

fun chat_fault :: "chat_error \<Rightarrow> bool" where
  "chat_fault (InfraError _) = True"
| "chat_fault e = (e \<in> {ErrInvalidMessageType, ErrMessageContentRequired, ErrMessageMediaLimit, ErrSequenceConflict, ErrClientMsgIDConflict})"

lemma map_chat_error_status: "500 \<le> Status (map_chat_error e) \<longleftrightarrow> chat_fault e"
  by (cases e) (simp_all add: api_error_defs)

lemma Status_range: "400 \<le> Status e \<and> Status e \<le> 503"
  by (cases "apCode e") (simp_all add: Status_def)

text \<open>
  A client that retries what is marked retryable retries what can pass: among the errors a constructor
  makes, exactly the server's faults, an expired access token and a rate limit.
\<close>

lemma retryable_errors:
  "apRetryable (Internal d) \<and> apRetryable (Wrap d) \<and> apRetryable (ServiceUnavailable d) \<and> apRetryable (TokenExpired d)
   \<and> apRetryable (RateLimitedError d)"
  "e \<in> {Validation d fs, Unauthorized d, Forbidden d, NotFound d, Conflict d, TokenRevoked d, SessionRevoked d,
     AccountSuspendedError d, AccountDeletedError d, UserNotFound d, ConversationNotFound d, MessageNotFound d, BlockedError d,
     NotAMember d, InsufficientRole d, DirectExists d, QuotaExceeded d, PayloadTooLarge d} \<Longrightarrow> \<not> apRetryable e \<and> Status e < 500"
  by (auto simp: api_error_defs)

end
