(* ===== verification/HttpApi.thy ===== *)
theory HttpApi
  imports HttpErrors AuthService
begin

text \<open>
  The shared delivery layer of the REST handlers (\<open>platform/httpapi\<close>): requests and responses, the
  parsing of path, query and body, the response writers, the bearer-token gateway and the
  Idempotency-Key middleware on its Redis keys.
\<close>

section \<open>Requests and responses\<close>

text \<open>
  The first JSON value of a body, when it can be read within the 64 KiB a handler looks at: what
  follows the value is never read.  An empty body does not parse.
\<close>

datatype http_body = BodyTooLarge | BodyMalformed | BodyValue json

record HttpRequest =
  rqMethod :: string
  rqPath :: "string list"              \<comment> \<open>the decoded segments\<close>
  rqQuery :: "string \<Rightarrow> string"          \<comment> \<open>empty when the parameter is missing\<close>
  rqHeader :: "string \<Rightarrow> string"
  rqBody :: http_body

datatype content = NoContent | JsonContent json | TextContent string

record HttpResponse =
  hrStatus :: int
  hrHeader :: "(string \<times> string) list"
  hrContent :: content

definition url_path :: "HttpRequest \<Rightarrow> string" where
  "url_path rq = concat (map (\<lambda>seg. CHR ''/'' # seg) (rqPath rq))"

definition header_set :: "string \<Rightarrow> string \<Rightarrow> (string \<times> string) list \<Rightarrow> (string \<times> string) list" where
  "header_set n v h = filter (\<lambda>(m, _). m \<noteq> n) h @ [(n, v)]"

text \<open>What a handler decides: the status and the value it writes.\<close>

datatype reply = Reply int json | EmptyReply

definition OK :: "json \<Rightarrow> reply" where "OK v = Reply 200 v"
definition Created :: "json \<Rightarrow> reply" where "Created v = Reply 201 v"

definition writeJSON :: "(string \<times> string) list \<Rightarrow> int \<Rightarrow> json \<Rightarrow> HttpResponse" where
  "writeJSON h status v = \<lparr>hrStatus = status,
     hrHeader = header_set ''Content-Type'' ''application/json; charset=utf-8'' h, hrContent = JsonContent v\<rparr>"

fun write_reply :: "(string \<times> string) list \<Rightarrow> reply \<Rightarrow> HttpResponse" where
  "write_reply h (Reply status v) = writeJSON h status v"
| "write_reply h EmptyReply = \<lparr>hrStatus = 204, hrHeader = h, hrContent = NoContent\<rparr>"

definition Pagination :: "string option \<Rightarrow> bool \<Rightarrow> nat \<Rightarrow> json" where
  "Pagination nxt hasMore limit =
     JObj [(''next_cursor'', jopt JStr nxt), (''has_more'', JBool hasMore), (''limit'', JInt (int limit))]"

definition List_reply :: "json list \<Rightarrow> string option \<Rightarrow> bool \<Rightarrow> nat \<Rightarrow> reply" where
  "List_reply items nxt hasMore limit = OK (JObj [(''data'', JArr items), (''pagination'', Pagination nxt hasMore limit)])"

definition problem_type :: string where "problem_type = ''application/problem+json; charset=utf-8''"

definition Write :: "HttpRequest \<Rightarrow> string \<Rightarrow> (string \<times> string) list \<Rightarrow> ApiError \<Rightarrow> HttpResponse" where
  "Write rq requestID h e =
     (let h1 = header_set ''Content-Type'' problem_type h;
          h2 = (if apRetryable e \<and> (Status e = 429 \<or> Status e = 503) then header_set ''Retry-After'' ''1'' h1 else h1) in
      \<lparr>hrStatus = Status e, hrHeader = h2, hrContent = JsonContent (envelope (url_path rq) requestID e)\<rparr>)"

definition WriteError :: "HttpRequest \<Rightarrow> string \<Rightarrow> (string \<times> string) list \<Rightarrow> app_error \<Rightarrow> HttpResponse" where
  "WriteError rq requestID h e = Write rq requestID h (mapError e)"

section \<open>Parsing\<close>

definition PathID :: "(string \<Rightarrow> string) \<Rightarrow> string \<Rightarrow> app_error + go_int" where
  "PathID pv name =
     (case ParseInt (pv name) of
        None \<Rightarrow> Inl (Api (invalid_field ''invalid path parameter'' name ''invalid_id''))
      | Some i \<Rightarrow> if i \<le> 0 then Inl (Api (invalid_field ''invalid path parameter'' name ''must_be_positive'')) else Inr i)"

definition QueryLimit :: "HttpRequest \<Rightarrow> int \<Rightarrow> int \<Rightarrow> app_error + int" where
  "QueryLimit rq dflt mx =
     (let raw = rqQuery rq ''limit'' in
      if raw = [] then Inr dflt
      else (case ParseInt raw of
              None \<Rightarrow> Inl (Api (invalid_field ''invalid query parameter'' ''limit'' ''invalid_limit''))
            | Some n \<Rightarrow> if n < 1 then Inl (Api (invalid_field ''invalid query parameter'' ''limit'' ''invalid_limit''))
                        else Inr (if n > mx then mx else n)))"

fun ParseIDs :: "string list \<Rightarrow> app_error + go_int list" where
  "ParseIDs [] = Inr []"
| "ParseIDs (s # raw) =
     (case ParseInt s of
        None \<Rightarrow> Inl (Api (invalid_field ''invalid id in list'' ''ids'' ''invalid_id''))
      | Some i \<Rightarrow> if i \<le> 0 then Inl (Api (invalid_field ''invalid id in list'' ''ids'' ''invalid_id''))
                  else rbind (ParseIDs raw) (\<lambda>ids. Inr (i # ids)))"

definition body_members :: "json \<Rightarrow> (string \<times> json) list option" where
  "body_members v = (case v of JNull \<Rightarrow> Some [] | JObj kvs \<Rightarrow> Some kvs | _ \<Rightarrow> None)"

definition DecodeJSON :: "((string \<times> json) list \<Rightarrow> 'a option) \<Rightarrow> HttpRequest \<Rightarrow> app_error + 'a" where
  "DecodeJSON fields_of rq =
     (case rqBody rq of
        BodyTooLarge \<Rightarrow> Inl (Api (PayloadTooLarge ''request body exceeds the 64 KiB limit''))
      | BodyMalformed \<Rightarrow> Inl (Api (invalid_field ''malformed request body'' ''body'' ''invalid_json''))
      | BodyValue v \<Rightarrow> from_opt (Api (invalid_field ''malformed request body'' ''body'' ''invalid_json''))
                         (obind (body_members v) fields_of))"

definition ErrNoPrincipal :: app_error where
  "ErrNoPrincipal = Api (Unauthorized ''authentication required'')"

section \<open>The gateway\<close>

definition bearerToken :: "HttpRequest \<Rightarrow> string" where
  "bearerToken rq =
     (case Cut (rqHeader rq ''Authorization'') (CHR '' '') of
        None \<Rightarrow> []
      | Some (scheme, token) \<Rightarrow> if same_name scheme ''Bearer'' then token else [])"

definition validationErr :: "string \<Rightarrow> string \<Rightarrow> app_error" where
  "validationErr field reason = Api (invalid_field ''validation failed'' field reason)"

text \<open>The user the request is served for.\<close>

definition RequireAuth :: "Crypto \<Rightarrow> AuthEnv \<Rightarrow> AuthDB \<Rightarrow> HttpRequest \<Rightarrow> app_error + User" where
  "RequireAuth k env adb rq =
     (if bearerToken rq = [] then Inl (Api (Unauthorized ''missing access token''))
      else if rqHeader rq ''X-Device-Id'' = [] then Inl (validationErr ''X-Device-Id'' ''required'')
      else (case Authenticate k env (bearerToken rq) (rqHeader rq ''X-Device-Id'') adb of
              Inl e \<Rightarrow> Inl (AuthErr e) | Inr user \<Rightarrow> Inr user))"

section \<open>Idempotency keys\<close>

text \<open>
  A stored response and the lock of a request in flight, under the hash of user and key (SHA-256, a
  parameter).  A value is only ever stored by \<open>Set\<close> below, so reading one back does not fail.
\<close>

record IdemStore =
  imCache :: "string \<Rightarrow> HttpResponse key"
  imLocks :: "string \<Rightarrow> unit key"

datatype idem_call = IdemGet | IdemSetNX | IdemSet | IdemDel

record RedisEnv =
  rvNow :: "idem_call \<Rightarrow> go_time"
  rvOK :: "idem_call \<Rightarrow> bool"

definition idemTTL :: go_time where "idemTTL = 24 * 60 * 60 * 1000000"
definition idemLockTTL :: go_time where "idemLockTTL = 10 * 1000000"

definition idem_key :: "(string \<Rightarrow> string) \<Rightarrow> go_int \<Rightarrow> string \<Rightarrow> string" where
  "idem_key sha userID key = ''idem:'' @ sha (FormatInt userID @ '':'' @ key)"

text \<open>\<open>client.Get\<close>: the stored response if there is one, an error when Redis is down.\<close>

definition idem_get :: "RedisEnv \<Rightarrow> string \<Rightarrow> IdemStore \<Rightarrow> unit + HttpResponse option" where
  "idem_get rv ck s = (if rvOK rv IdemGet then Inr (live (rvNow rv IdemGet) (imCache s ck)) else Inl ())"

definition idem_lock :: "RedisEnv \<Rightarrow> string \<Rightarrow> IdemStore \<Rightarrow> (unit + bool) \<times> IdemStore" where
  "idem_lock rv ck s =
     (let now = rvNow rv IdemSetNX in
      if \<not> rvOK rv IdemSetNX then (Inl (), s)
      else if live now (imLocks s ck) \<noteq> None then (Inr False, s)
      else (Inr True, s\<lparr>imLocks := (imLocks s)(ck := Some ((), now + idemLockTTL))\<rparr>))"

definition idem_store :: "RedisEnv \<Rightarrow> string \<Rightarrow> HttpResponse \<Rightarrow> IdemStore \<Rightarrow> IdemStore" where
  "idem_store rv ck resp s =
     (if 200 \<le> hrStatus resp \<and> hrStatus resp < 500 \<and> rvOK rv IdemSet
      then s\<lparr>imCache := (imCache s)(ck := Some (resp, rvNow rv IdemSet + idemTTL))\<rparr> else s)"

definition idem_unlock :: "RedisEnv \<Rightarrow> string \<Rightarrow> IdemStore \<Rightarrow> IdemStore" where
  "idem_unlock rv ck s = (if rvOK rv IdemDel then s\<lparr>imLocks := (imLocks s)(ck := None)\<rparr> else s)"

definition replay :: "(string \<times> string) list \<Rightarrow> HttpResponse \<Rightarrow> HttpResponse" where
  "replay h cached = cached\<lparr>hrHeader := h @ hrHeader cached\<rparr>"

text \<open>
  The middleware around a handler that turns the headers already set into a response.  The state is
  the one of the handler with the keys; \<open>w\<close> writes an error.
\<close>

definition Idempotency ::
  "(string \<Rightarrow> string) \<Rightarrow> RedisEnv \<Rightarrow> go_int option \<Rightarrow> HttpRequest \<Rightarrow> (app_error \<Rightarrow> HttpResponse) \<Rightarrow> (string \<times> string) list \<Rightarrow>
   ('w \<Rightarrow> HttpResponse \<times> 'w) \<Rightarrow> 'w \<times> IdemStore \<Rightarrow> HttpResponse \<times> 'w \<times> IdemStore" where
  "Idempotency sha rv caller rq err h handler s =
     (let (w, im) = s; key = rqHeader rq ''Idempotency-Key'' in
      if key = [] then (err (validationErr ''Idempotency-Key'' ''required''), s)
      else if length key > 255 then (err (validationErr ''Idempotency-Key'' ''too_long''), s)
      else (case caller of
        None \<Rightarrow> (err (Api (Unauthorized ''idempotency requires an authenticated caller'')), s)
      | Some u \<Rightarrow>
          (let ck = idem_key sha u key in
           case idem_get rv ck im of
             Inl _ \<Rightarrow> (err (Api (Wrap ''idempotency store unavailable'')), s)
           | Inr (Some cached) \<Rightarrow> (replay h cached, s)
           | Inr None \<Rightarrow>
               (case idem_lock rv ck im of
                  (Inl _, im1) \<Rightarrow> (err (Api (Wrap ''idempotency store unavailable'')), w, im1)
                | (Inr False, im1) \<Rightarrow>
                    (err (Api (Conflict ''a concurrent request with this Idempotency-Key is in flight'')), w, im1)
                | (Inr True, im1) \<Rightarrow>
                    (let (resp, w1) = handler w in
                     (resp, w1, idem_unlock rv ck (idem_store rv ck resp im1)))))))"

section \<open>Facts\<close>

text \<open>A response under the key is replayed, whatever the handler is; nothing changes.\<close>

lemma Idempotency_hit:
  assumes "rqHeader rq ''Idempotency-Key'' = key" "key \<noteq> []" "length key \<le> 255"
    and "rvOK rv IdemGet" and "live (rvNow rv IdemGet) (imCache im (idem_key sha u key)) = Some cached"
  shows "Idempotency sha rv (Some u) rq err h handler (w, im) = (replay h cached, w, im)"
  using assms by (simp add: Idempotency_def idem_get_def Let_def)

lemma idem_lock_cache [simp]: "idem_lock rv ck im = (r, im1) \<Longrightarrow> imCache im1 = imCache im"
  by (auto simp: idem_lock_def Let_def split: if_splits)

lemma idem_unlock_cache [simp]: "imCache (idem_unlock rv ck im) = imCache im"
  by (simp add: idem_unlock_def)

text \<open>A stored response stays what it is until it expires: only its own key is written, and never while it is live.\<close>

lemma Idempotency_keeps:
  assumes r: "Idempotency sha rv p rq err h handler (w, im) = (resp, w1, im1)"
    and c: "imCache im ck = Some (cached, expires)" and t: "rvNow rv IdemGet < expires"
  shows "imCache im1 ck = Some (cached, expires)"
proof (rule ccontr)
  assume changed: "imCache im1 ck \<noteq> Some (cached, expires)"
  from r changed c obtain u where u: "p = Some u" "idem_get rv (idem_key sha u (rqHeader rq ''Idempotency-Key'')) im = Inr None"
    "ck = idem_key sha u (rqHeader rq ''Idempotency-Key'')"
    by (auto simp: Idempotency_def Let_def idem_store_def
        split: if_splits option.splits sum.splits prod.splits bool.splits dest!: idem_lock_cache)
  with c t show False by (auto simp: idem_get_def split: if_splits)
qed

end
