(* ===== verification/ChatJson.thy ===== *)
theory ChatJson
  imports RtFrames
begin

text \<open>
  The JSON of the chat module's results (the struct tags of \<open>application/service.go\<close> and
  \<open>domain/message.go\<close>), as the REST handlers write them.  Members are in the order of the structs;
  a nil pointer is null, and so is a nil slice.
\<close>

definition avatar_json :: "string option \<Rightarrow> json" where
  "avatar_json a = jopt (\<lambda>m. JObj [(''media_id'', JStr m), (''url'', JStr [])]) a"

definition last_message_json :: "LastMessageView \<Rightarrow> json" where
  "last_message_json v = JObj
     [(''id'', jopt JStr (lvID v)), (''seq'', JStr (lvSeq v)), (''content'', text_json (lvText v)), (''sender_id'', jopt JStr (lvSenderID v)),
      (''created_at'', jopt JTime (lvCreatedAt v)), (''status'', JStr (lvStatus v))]"

definition conversation_view_json :: "ConversationView \<Rightarrow> json" where
  "conversation_view_json v = JObj
     [(''id'', JStr (cvID v)), (''type'', JStr (cvType v)), (''title'', jopt JStr (cvTitle v)), (''avatar'', avatar_json (cvAvatar v)),
      (''last_message'', jopt last_message_json (cvLastMessage v)), (''last_message_seq'', jopt JStr (cvLastMessageSeq v)),
      (''last_read_seq'', JStr (cvLastReadSeq v)), (''unread_count'', JInt (cvUnreadCount v)),
      (''muted_until'', jopt JTime (cvMutedUntil v)), (''is_pinned'', JBool (cvIsPinned v)), (''is_archived'', JBool (cvIsArchived v)),
      (''membership'', JObj [(''role'', JStr (cvRole v)), (''joined_at'', JTime (cvJoinedAt v))]),
      (''typing'', JArr (map JStr (cvTyping v))), (''updated_at'', JTime (cvUpdatedAt v))]"

definition settings_view_json :: "ConversationDetail \<Rightarrow> json" where
  "settings_view_json d = JObj
     [(''retention_days'', jopt JInt (cdRetentionDays d)), (''slow_mode_seconds'', JInt (sSlowModeSeconds (cdSettings d))),
      (''anyone_can_add'', JBool (sAnyoneCanAdd (cdSettings d))), (''history_visible'', JStr (sHistoryVisible (cdSettings d)))]"

definition detail_json :: "ConversationDetail \<Rightarrow> json" where
  "detail_json d = JObj
     [(''id'', JStr (cdID d)), (''type'', JStr (cdType d)), (''title'', jopt JStr (cdTitle d)), (''avatar'', avatar_json (cdAvatar d)),
      (''owner_id'', JStr (cdOwnerID d)), (''created_at'', JTime (cdCreatedAt d)), (''last_message_seq'', jopt JStr (cdLastMessageSeq d)),
      (''membership'', JObj [(''role'', JStr (cdRole d)), (''muted_until'', jopt JTime (cdMutedUntil d)),
         (''notifications_enabled'', JBool (cdNotificationsEnabled d))]),
      (''settings'', settings_view_json d), (''member_count'', JInt (cdMemberCount d)),
      (''member_preview'', JArr (map (\<lambda>(u, n). JObj [(''user_id'', JStr u), (''display_name'', JStr n)]) (cdMemberPreview d)))]"

definition member_view_json :: "MemberView \<Rightarrow> json" where
  "member_view_json v = JObj
     [(''user_id'', JStr (mvUserID v)), (''display_name'', JStr (mvDisplayName v)), (''avatar'', avatar_json (mvAvatar v)), (''role'', JStr (mvRole v)),
      (''joined_at'', JTime (mvJoinedAt v)), (''last_active_at'', jopt JTime (mvLastActiveAt v)), (''is_self'', JBool (mvIsSelf v))]"

text \<open>\<open>buildSkipped\<close> starts from a nil slice: nobody skipped is null.\<close>

definition add_result_json :: "AddMembersResult \<Rightarrow> json" where
  "add_result_json r = JObj
     [(''added'', JArr (map JStr (arAdded r))),
      (''skipped'', if arSkipped r = [] then JNull
         else JArr (map (\<lambda>(u, why). JObj [(''user_id'', JStr u), (''reason'', JStr why)]) (arSkipped r)))]"

definition role_result_json :: "string \<times> string \<Rightarrow> json" where
  "role_result_json r = JObj [(''user_id'', JStr (fst r)), (''role'', JStr (snd r))]"

definition mute_result_json :: "go_time option \<Rightarrow> json" where
  "mute_result_json until = JObj [(''muted_until'', jopt JTime until)]"

definition pin_result_json :: "bool \<Rightarrow> json" where
  "pin_result_json p = JObj [(''is_pinned'', JBool p)]"

definition archive_result_json :: "bool \<Rightarrow> json" where
  "archive_result_json a = JObj [(''is_archived'', JBool a)]"

definition reactions_result_json :: "string \<times> (string \<times> string \<times> go_time) list \<Rightarrow> json" where
  "reactions_result_json r = JObj
     [(''emoji'', JStr (fst r)),
      (''reactors'', JArr (map (\<lambda>(u, n, t). JObj [(''user_id'', JStr u), (''display_name'', JStr n), (''avatar'', JNull),
         (''at'', JTime t)]) (snd r)))]"

definition receipt_result_json :: "string \<times> string \<Rightarrow> json" where
  "receipt_result_json r = JObj [(''last_read_seq'', JStr (fst r)), (''last_delivered_seq'', JStr (snd r))]"

definition receipts_result_json :: "string \<times> string option \<times> ReaderView list \<Rightarrow> json" where
  "receipts_result_json = (\<lambda>(c, s, readers). JObj
     [(''conversation_id'', JStr c), (''last_message_seq'', jopt JStr s),
      (''readers'', JArr (map (\<lambda>v. JObj [(''user_id'', JStr (rdUserID v)), (''display_name'', JStr (rdDisplayName v)),
         (''last_read_seq'', JStr (rdLastReadSeq v)), (''last_read_at'', jopt JTime (rdLastReadAt v))]) readers))])"

end
