(* ===== verification/ChatHttp.thy ===== *)
theory ChatHttp
  imports HttpApi ChatJson ChatSystem
begin

text \<open>
  The REST handlers of the chat module (\<open>chat/delivery/http\<close>): each takes the caller, the path values
  and the request, checks them in the order of the code, calls one use case and renders its result.
  \<open>route\<close> and \<open>serve_route\<close> are the router.
\<close>

section \<open>Environment\<close>

text \<open>What one request meets: the environments of the modules it may call, and of the middleware.\<close>

record HttpEnv =
  heAuth :: AuthEnv
  heChat :: Env
  heSend :: SendEnv
  heILike :: "string \<Rightarrow> string \<Rightarrow> bool"
  heRedis :: RedisEnv
  heRequestID :: string                \<comment> \<open>minted when the request brings none\<close>

type_synonym result = "(app_error + reply) \<times> World"
type_synonym handler = "HttpEnv \<Rightarrow> go_int option \<Rightarrow> (string \<Rightarrow> string) \<Rightarrow> HttpRequest \<Rightarrow> World \<Rightarrow> result"

definition with_principal :: "go_int option \<Rightarrow> (go_int \<Rightarrow> World \<Rightarrow> result) \<Rightarrow> World \<Rightarrow> result" where
  "with_principal p k w = (case p of None \<Rightarrow> (Inl ErrNoPrincipal, w) | Some u \<Rightarrow> k u w)"

definition hbind :: "app_error + 'a \<Rightarrow> ('a \<Rightarrow> World \<Rightarrow> result) \<Rightarrow> World \<Rightarrow> result" where
  "hbind m k w = (case m of Inl e \<Rightarrow> (Inl e, w) | Inr x \<Rightarrow> k x w)"

definition answer :: "('r \<Rightarrow> reply) \<Rightarrow> chat_error + 'r \<Rightarrow> World \<Rightarrow> result" where
  "answer render r w = (case r of Inl e \<Rightarrow> (Inl (ChatErr e), w) | Inr x \<Rightarrow> (Inr (render x), w))"

definition call_db :: "(ChatDB \<Rightarrow> (chat_error + 'r) \<times> ChatDB) \<Rightarrow> ('r \<Rightarrow> reply) \<Rightarrow> World \<Rightarrow> result" where
  "call_db f render w = (let (r, db) = f (wDB w) in answer render r (w\<lparr>wDB := db\<rparr>))"

definition ok :: "('r \<Rightarrow> json) \<Rightarrow> 'r \<Rightarrow> reply" where
  "ok render x = OK (render x)"

definition ok_or_created :: "('r \<Rightarrow> bool) \<Rightarrow> ('r \<Rightarrow> json) \<Rightarrow> 'r \<Rightarrow> reply" where
  "ok_or_created created render x = (if created x then Created (render x) else OK (render x))"

section \<open>Conversations\<close>

definition validFilter :: "string \<Rightarrow> bool" where
  "validFilter f \<longleftrightarrow> f \<in> {''all'', ''pinned'', ''archived'', ''groups'', ''direct''}"

definition list_conversations :: handler where
  "list_conversations env p pv rq = with_principal p (\<lambda>u.
     hbind (QueryLimit rq 50 100) (\<lambda>limit.
     let flt = (if rqQuery rq ''filter'' = [] then ''all'' else rqQuery rq ''filter'') in
     hbind (ensure (validFilter flt) (Api (invalid_field ''invalid query parameter'' ''filter'' ''invalid_filter''))) (\<lambda>_ w.
       answer (\<lambda>r. List_reply (map conversation_view_json (clItems r)) (clNext r) (clHasMore r) (clLimit r))
         (ListConversations (nvFaults (heChat env))
            \<lparr>lcUserID = u, lcFilter = flt, lcUnreadOnly = (rqQuery rq ''unread_only'' = ''true''), lcLimit = limit,
             lcCursor = rqQuery rq ''cursor''\<rparr> (wDB w)) w)))"

record createConversationRequest =
  cqType :: string
  cqParticipantIDs :: "string list"
  cqTitle :: "string option"
  cqAvatarMediaID :: "go_int option"
  cqDraft :: "unit option"

definition get_struct :: "json \<Rightarrow> unit \<Rightarrow> unit option" where
  "get_struct v a = (case v of JNull \<Rightarrow> Some () | JObj _ \<Rightarrow> Some () | _ \<Rightarrow> None)"

definition create_fields :: "(string \<times> json) list \<Rightarrow> createConversationRequest option" where
  "create_fields kvs =
     obind (decode_member get_string ''type'' kvs []) (\<lambda>t.
     obind (decode_member (get_list get_string []) ''participant_ids'' kvs []) (\<lambda>ids.
     obind (decode_member (get_ptr get_string []) ''title'' kvs None) (\<lambda>ti.
     obind (decode_member (get_ptr get_int 0) ''avatar_media_id'' kvs None) (\<lambda>a.
     obind (decode_member (get_ptr get_struct ()) ''draft_message'' kvs None) (\<lambda>d.
       Some \<lparr>cqType = t, cqParticipantIDs = ids, cqTitle = ti, cqAvatarMediaID = a, cqDraft = d\<rparr>)))))"

definition create_conversation :: handler where
  "create_conversation env p pv rq = with_principal p (\<lambda>u.
     hbind (DecodeJSON create_fields rq) (\<lambda>body.
     hbind (ensure (\<not> cqDraft body \<noteq> None)
              (Api (invalid_field ''draft_message is not supported yet'' ''draft_message'' ''not_supported''))) (\<lambda>_.
     hbind (ParseIDs (cqParticipantIDs body)) (\<lambda>participants.
       call_db (CreateConversation (heChat env)
           \<lparr>ccUserID = u, ccType = ToLower (cqType body), ccParticipantIDs = participants, ccTitle = cqTitle body,
            ccAvatarMediaID = cqAvatarMediaID body\<rparr>)
         (ok_or_created ccrCreated (\<lambda>r. conversation_view_json (ccrView r)))))))"

definition get_conversation :: handler where
  "get_conversation env p pv rq = with_principal p (\<lambda>u.
     hbind (PathID pv ''conversation_id'') (\<lambda>c w.
       answer (ok detail_json) (GetConversation (heChat env) u c (wDB w)) w))"

record updateConversationRequest =
  uqTitle :: "string option"
  uqAvatar :: "go_int option"
  uqSettings :: "SettingsPatch option"

definition no_settings :: SettingsPatch where
  "no_settings = \<lparr>spSlowModeSeconds = None, spAnyoneCanAdd = None, spHistoryVisible = None\<rparr>"

definition decode_settings :: "json \<Rightarrow> SettingsPatch \<Rightarrow> SettingsPatch option" where
  "decode_settings v s = (case v of
     JNull \<Rightarrow> Some s
   | JObj kvs \<Rightarrow>
       obind (decode_member (get_ptr get_int 0) ''slow_mode_seconds'' kvs (spSlowModeSeconds s)) (\<lambda>n.
       obind (decode_member (get_ptr get_bool False) ''anyone_can_add'' kvs (spAnyoneCanAdd s)) (\<lambda>b.
       obind (decode_member (get_ptr get_string []) ''history_visible'' kvs (spHistoryVisible s)) (\<lambda>h.
         Some \<lparr>spSlowModeSeconds = n, spAnyoneCanAdd = b, spHistoryVisible = h\<rparr>)))
   | _ \<Rightarrow> None)"

definition update_fields :: "(string \<times> json) list \<Rightarrow> updateConversationRequest option" where
  "update_fields kvs =
     obind (decode_member (get_ptr get_string []) ''title'' kvs None) (\<lambda>t.
     obind (decode_member (get_ptr get_int 0) ''avatar_media_id'' kvs None) (\<lambda>a.
     obind (decode_member (get_ptr decode_settings no_settings) ''settings'' kvs None) (\<lambda>s.
       Some \<lparr>uqTitle = t, uqAvatar = a, uqSettings = s\<rparr>)))"

definition update_command :: "go_int \<Rightarrow> go_int \<Rightarrow> updateConversationRequest \<Rightarrow> UpdateConversationCommand" where
  "update_command u c body =
     \<lparr>ucUserID = u, ucConversationID = c, ucTitle = uqTitle body, ucTitleSet = (uqTitle body \<noteq> None),
      ucAvatarMediaID = uqAvatar body, ucAvatarSet = (uqAvatar body \<noteq> None), ucAvatarCleared = False,
      ucSettings = uqSettings body\<rparr>"

definition update_conversation :: handler where
  "update_conversation env p pv rq = with_principal p (\<lambda>u.
     hbind (PathID pv ''conversation_id'') (\<lambda>c.
     hbind (DecodeJSON update_fields rq) (\<lambda>body.
       call_db (UpdateConversation (heChat env) (update_command u c body)) (ok detail_json))))"

section \<open>Members\<close>

definition list_members :: handler where
  "list_members env p pv rq = with_principal p (\<lambda>u.
     hbind (PathID pv ''conversation_id'') (\<lambda>c.
     hbind (QueryLimit rq 50 100) (\<lambda>limit w.
       answer (\<lambda>r. List_reply (map member_view_json (mlItems r)) (mlNext r) (mlHasMore r) (mlLimit r))
         (ListMembers (nvFaults (heChat env)) (heILike env)
            \<lparr>lmUserID = u, lmConversationID = c, lmLimit = limit, lmCursor = rqQuery rq ''cursor'', lmQ = rqQuery rq ''q''\<rparr> (wDB w)) w)))"

definition add_members_fields :: "(string \<times> json) list \<Rightarrow> string list option" where
  "add_members_fields kvs = decode_member (get_list get_string []) ''user_ids'' kvs []"

definition add_members :: handler where
  "add_members env p pv rq = with_principal p (\<lambda>u.
     hbind (PathID pv ''conversation_id'') (\<lambda>c.
     hbind (DecodeJSON add_members_fields rq) (\<lambda>raw.
     hbind (ParseIDs raw) (\<lambda>ids.
       call_db (AddMembers (heChat env) \<lparr>amUserID = u, amConversationID = c, amUserIDs = ids\<rparr>) (ok add_result_json)))))"

definition remove_member :: handler where
  "remove_member env p pv rq = with_principal p (\<lambda>u.
     hbind (PathID pv ''conversation_id'') (\<lambda>c.
     hbind (PathID pv ''user_id'') (\<lambda>target.
       call_db (RemoveMember (heChat env) \<lparr>rmUserID = u, rmConversationID = c, rmTargetUserID = target\<rparr>) (\<lambda>_. EmptyReply))))"

definition role_fields :: "(string \<times> json) list \<Rightarrow> string option" where
  "role_fields kvs = decode_member get_string ''role'' kvs []"

definition change_member_role :: handler where
  "change_member_role env p pv rq = with_principal p (\<lambda>u.
     hbind (PathID pv ''conversation_id'') (\<lambda>c.
     hbind (PathID pv ''user_id'') (\<lambda>target.
     hbind (DecodeJSON role_fields rq) (\<lambda>role.
       call_db (ChangeMemberRole (heChat env)
         \<lparr>crcUserID = u, crcConversationID = c, crcTargetUserID = target, crcRole = role\<rparr>) (ok role_result_json)))))"

section \<open>Preferences\<close>

definition mute_fields :: "(string \<times> json) list \<Rightarrow> go_time option option" where
  "mute_fields kvs = decode_member (get_ptr get_time 0) ''until'' kvs None"

definition set_mute :: handler where
  "set_mute env p pv rq = with_principal p (\<lambda>u.
     hbind (PathID pv ''conversation_id'') (\<lambda>c.
     hbind (DecodeJSON mute_fields rq) (\<lambda>until.
       call_db (SetMute (heChat env) u c until) (ok mute_result_json))))"

text \<open>\<open>setFlag\<close> for the two toggles.\<close>

definition flag_fields :: "string \<Rightarrow> (string \<times> json) list \<Rightarrow> bool option" where
  "flag_fields name kvs = decode_member get_bool name kvs False"

definition setFlag :: "bool \<Rightarrow> handler" where
  "setFlag pin env p pv rq = with_principal p (\<lambda>u.
     hbind (PathID pv ''conversation_id'') (\<lambda>c.
     if pin then
       hbind (DecodeJSON (flag_fields ''pinned'') rq) (\<lambda>b. call_db (SetPin (heChat env) u c b) (ok pin_result_json))
     else
       hbind (DecodeJSON (flag_fields ''archived'') rq) (\<lambda>b. call_db (SetArchive (heChat env) u c b) (ok archive_result_json))))"

section \<open>Receipts\<close>

definition invalidSeq :: "string \<Rightarrow> app_error" where
  "invalidSeq field = Api (invalid_field ''invalid sequence'' field ''invalid_seq'')"

definition positive_seq :: "string \<Rightarrow> string \<Rightarrow> app_error + go_int" where
  "positive_seq field raw =
     (case ParseInt raw of None \<Rightarrow> Inl (invalidSeq field) | Some n \<Rightarrow> if n \<le> 0 then Inl (invalidSeq field) else Inr n)"

definition parseSeq :: "string \<Rightarrow> app_error + go_int" where
  "parseSeq raw = positive_seq ''seq'' raw"

definition querySeq :: "HttpRequest \<Rightarrow> string \<Rightarrow> app_error + go_int option" where
  "querySeq rq name =
     (if rqQuery rq name = [] then Inr None else rbind (positive_seq name (rqQuery rq name)) (\<lambda>n. Inr (Some n)))"

definition mark_fields :: "(string \<times> json) list \<Rightarrow> (string option \<times> string option) option" where
  "mark_fields kvs =
     obind (decode_member (get_ptr get_string []) ''last_read_seq'' kvs None) (\<lambda>r.
     obind (decode_member (get_ptr get_string []) ''deliver_up_to_seq'' kvs None) (\<lambda>d. Some (r, d)))"

definition mark_read :: handler where
  "mark_read env p pv rq = with_principal p (\<lambda>u.
     hbind (PathID pv ''conversation_id'') (\<lambda>c.
     hbind (DecodeJSON mark_fields rq) (\<lambda>(lastRead, deliver).
     hbind (from_opt (invalidSeq ''last_read_seq'') lastRead) (\<lambda>raw.
     hbind (parseSeq raw) (\<lambda>readSeq.
     hbind (case deliver of None \<Rightarrow> Inr None | Some d \<Rightarrow> rbind (parseSeq d) (\<lambda>n. Inr (Some n))) (\<lambda>delivered.
       call_db (MarkRead (heChat env) \<lparr>mkUserID = u, mkConversationID = c, mkReadSeq = readSeq, mkDeliveredSeq = delivered\<rparr>)
         (ok receipt_result_json)))))))"

definition get_receipts :: handler where
  "get_receipts env p pv rq = with_principal p (\<lambda>u.
     hbind (PathID pv ''conversation_id'') (\<lambda>c w.
       answer (ok receipts_result_json) (GetReceipts (nvFaults (heChat env)) u c (wDB w)) w))"

section \<open>Messages\<close>

definition list_messages :: handler where
  "list_messages env p pv rq = with_principal p (\<lambda>u.
     hbind (PathID pv ''conversation_id'') (\<lambda>c.
     hbind (QueryLimit rq 50 100) (\<lambda>limit.
     hbind (querySeq rq ''before'') (\<lambda>before.
     hbind (querySeq rq ''after_global_seq'') (\<lambda>after w.
       answer (\<lambda>r. List_reply (map message_view_json (lrItems r)) (lrNext r) (lrHasMore r) (lrLimit r))
         (ListMessages (nvFaults (heChat env))
            \<lparr>lsUserID = u, lsConversationID = c, lsCursor = rqQuery rq ''cursor'', lsBeforeSeq = before, lsAfterGlobalSeq = after,
             lsLimit = limit\<rparr> (wDB w)) w)))))"

record sendMessageRequest =
  sqClientMsgID :: string
  sqType :: string
  sqContent :: "string option option"
  sqMedia :: "Attachment list"
  sqReplyToSeq :: "string option"
  sqMentions :: "string list"

text \<open>\<open>messageContentBody\<close> has one member, the optional text.\<close>

definition messageContentBody :: "json \<Rightarrow> string option \<Rightarrow> string option option" where
  "messageContentBody v t = (case v of
     JNull \<Rightarrow> Some t | JObj kvs \<Rightarrow> decode_member (get_ptr get_string []) ''text'' kvs t | _ \<Rightarrow> None)"

definition send_request_fields :: "(string \<times> json) list \<Rightarrow> sendMessageRequest option" where
  "send_request_fields kvs =
     obind (decode_member get_string ''client_msg_id'' kvs []) (\<lambda>i.
     obind (decode_member get_string ''type'' kvs []) (\<lambda>t.
     obind (decode_member (get_ptr messageContentBody None) ''content'' kvs None) (\<lambda>c.
     obind (decode_member (get_list decode_attachment no_attachment) ''media'' kvs []) (\<lambda>m.
     obind (decode_member (get_ptr get_string []) ''reply_to_seq'' kvs None) (\<lambda>r.
     obind (decode_member (get_list get_string []) ''mentions'' kvs []) (\<lambda>ms.
       Some \<lparr>sqClientMsgID = i, sqType = t, sqContent = c, sqMedia = m, sqReplyToSeq = r, sqMentions = ms\<rparr>))))))"

definition ContentText :: "sendMessageRequest \<Rightarrow> string option" where
  "ContentText b = (case sqContent b of None \<Rightarrow> None | Some t \<Rightarrow> t)"

definition MentionIDs :: "sendMessageRequest \<Rightarrow> go_int list" where
  "MentionIDs b = List.map_filter ParseInt (sqMentions b)"

definition send_message :: handler where
  "send_message env p pv rq = with_principal p (\<lambda>u.
     hbind (PathID pv ''conversation_id'') (\<lambda>c.
     hbind (DecodeJSON send_request_fields rq) (\<lambda>body.
     hbind (case sqReplyToSeq body of None \<Rightarrow> Inr None
            | Some raw \<Rightarrow> rbind (positive_seq ''reply_to_seq'' raw) (\<lambda>n. Inr (Some n))) (\<lambda>reply w.
       let (r, w1) = SendMessage (heSend env)
             \<lparr>smUserID = u, smConversationID = c, smClientMsgID = sqClientMsgID body, smType = ToLower (sqType body),
              smText = ContentText body, smMedia = sqMedia body, smReplyToSeq = reply, smMentions = MentionIDs body\<rparr> w
       in answer (ok_or_created srCreated (\<lambda>x. message_view_json (srView x))) r w1))))"

definition get_message :: handler where
  "get_message env p pv rq = with_principal p (\<lambda>u.
     hbind (PathID pv ''message_id'') (\<lambda>i w.
       answer (ok message_view_json) (GetMessage (nvFaults (heChat env)) u i (wDB w)) w))"

definition edit_request_fields :: "(string \<times> json) list \<Rightarrow> string option option option" where
  "edit_request_fields kvs = decode_member (get_ptr messageContentBody None) ''content'' kvs None"

definition NewText :: "string option option \<Rightarrow> string" where
  "NewText c = (case c of Some (Some t) \<Rightarrow> t | _ \<Rightarrow> [])"

definition edit_message :: handler where
  "edit_message env p pv rq = with_principal p (\<lambda>u.
     hbind (PathID pv ''message_id'') (\<lambda>i.
     hbind (DecodeJSON edit_request_fields rq) (\<lambda>body.
       call_db (EditMessage (heChat env) \<lparr>emUserID = u, emMessageID = i, emNewText = NewText body\<rparr>) (ok message_view_json))))"

text \<open>
  The error of the decoding is dropped: a member that does not decode leaves the mode before it, and a
  body that cannot be read leaves it empty.
\<close>

fun lax_string :: "string \<Rightarrow> (string \<times> json) list \<Rightarrow> string \<Rightarrow> string" where
  "lax_string k [] a = a"
| "lax_string k ((n, v) # kvs) a =
     lax_string k kvs (if same_name n k then (case get_string v a of None \<Rightarrow> a | Some s \<Rightarrow> s) else a)"

definition delete_mode :: "http_body \<Rightarrow> string" where
  "delete_mode b = (case b of BodyValue (JObj kvs) \<Rightarrow> lax_string ''mode'' kvs [] | _ \<Rightarrow> [])"

definition delete_message :: handler where
  "delete_message env p pv rq = with_principal p (\<lambda>u.
     hbind (PathID pv ''message_id'') (\<lambda>i.
       call_db (DeleteMessage (heChat env) \<lparr>dmUserID = u, dmMessageID = i, dmMode = delete_mode (rqBody rq)\<rparr>)
         (ok delete_result_json)))"

definition react :: "bool \<Rightarrow> handler" where
  "react add env p pv rq = with_principal p (\<lambda>u.
     hbind (PathID pv ''message_id'') (\<lambda>i.
     let cmd = \<lparr>rcUserID = u, rcMessageID = i, rcEmoji = pv ''emoji''\<rparr> in
       call_db (if add then AddReaction (heChat env) cmd else RemoveReaction (heChat env) cmd) (ok reaction_result_json)))"

definition list_reactions :: handler where
  "list_reactions env p pv rq = with_principal p (\<lambda>u.
     hbind (PathID pv ''message_id'') (\<lambda>i w.
       answer (ok reactions_result_json)
         (ListReactions (nvFaults (heChat env)) \<lparr>rcUserID = u, rcMessageID = i, rcEmoji = rqQuery rq ''emoji''\<rparr> (wDB w)) w))"

end
