(* ===== verification/HttpServer.thy ===== *)
theory HttpServer
  imports ChatHttp
begin

text \<open>
  The REST surface as it is mounted (\<open>chat/delivery/http/handler.go\<close>, \<open>httpserver\<close>, \<open>health\<close>, the
  request id of \<open>observability\<close> and the routes of \<open>app.go\<close>): the routing table with its misses, the
  gateway in front of it, the probes, and the server that serves one request after the other.
  Requests arrive with the clean paths the standard mux serves; it redirects the others.
\<close>

section \<open>Routes\<close>

datatype seg = Lit string | Var string

fun match_path :: "seg list \<Rightarrow> string list \<Rightarrow> (string \<times> string) list option" where
  "match_path [] [] = Some []"
| "match_path (Lit l # ps) (s # ss) = (if l = s then match_path ps ss else None)"
| "match_path (Var v # ps) (s # ss) = (if s = [] then None else map_option ((#) (v, s)) (match_path ps ss))"
| "match_path _ _ = None"

abbreviation conv_seg :: seg where "conv_seg \<equiv> Var ''conversation_id''"
abbreviation msg_seg :: seg where "msg_seg \<equiv> Var ''message_id''"

text \<open>Method, pattern, whether an Idempotency-Key is required, handler.\<close>

definition conversation_routes :: "(string \<times> seg list \<times> bool \<times> handler) list" where
  "conversation_routes = map (\<lambda>(m, p, unsafe, h). (m, Lit ''v1'' # Lit ''conversations'' # p, unsafe, h))
     [(''GET'', [], False, list_conversations),
      (''GET'', [conv_seg], False, get_conversation),
      (''GET'', [conv_seg, Lit ''members''], False, list_members),
      (''GET'', [conv_seg, Lit ''messages''], False, list_messages),
      (''GET'', [conv_seg, Lit ''receipts''], False, get_receipts),
      (''POST'', [], True, create_conversation),
      (''PATCH'', [conv_seg], True, update_conversation),
      (''POST'', [conv_seg, Lit ''members''], True, add_members),
      (''DELETE'', [conv_seg, Lit ''members'', Var ''user_id''], True, remove_member),
      (''PATCH'', [conv_seg, Lit ''members'', Var ''user_id''], True, change_member_role),
      (''PUT'', [conv_seg, Lit ''mute''], True, set_mute),
      (''PUT'', [conv_seg, Lit ''pin''], True, setFlag True),
      (''PUT'', [conv_seg, Lit ''archive''], True, setFlag False),
      (''PUT'', [conv_seg, Lit ''receipts''], True, mark_read),
      (''POST'', [conv_seg, Lit ''messages''], True, send_message)]"

definition message_routes :: "(string \<times> seg list \<times> bool \<times> handler) list" where
  "message_routes = map (\<lambda>(m, p, unsafe, h). (m, Lit ''v1'' # Lit ''messages'' # msg_seg # p, unsafe, h))
     [(''GET'', [], False, get_message),
      (''GET'', [Lit ''reactions''], False, list_reactions),
      (''PATCH'', [], True, edit_message),
      (''DELETE'', [], True, delete_message),
      (''PUT'', [Lit ''reactions'', Var ''emoji''], True, react True),
      (''DELETE'', [Lit ''reactions'', Var ''emoji''], True, react False)]"

definition routes :: "(string \<times> seg list \<times> bool \<times> handler) list" where
  "routes = conversation_routes @ message_routes"

text \<open>A pattern for GET is one for HEAD too.  No two patterns of a method match the same path.\<close>

definition method_matches :: "string \<Rightarrow> string \<Rightarrow> bool" where
  "method_matches pattern method \<longleftrightarrow> pattern = method \<or> pattern = ''GET'' \<and> method = ''HEAD''"

fun first_match :: "string \<Rightarrow> string list \<Rightarrow> (string \<times> seg list \<times> bool \<times> handler) list \<Rightarrow>
    (bool \<times> handler \<times> (string \<times> string) list) option" where
  "first_match method path [] = None"
| "first_match method path ((m, p, unsafe, h) # rs) =
     (case (if method_matches m method then match_path p path else None) of
        Some binds \<Rightarrow> Some (unsafe, h, binds) | None \<Rightarrow> first_match method path rs)"

definition path_value :: "(string \<times> string) list \<Rightarrow> string \<Rightarrow> string" where
  "path_value binds name = (case map_of binds name of None \<Rightarrow> [] | Some v \<Rightarrow> v)"

text \<open>\<open>ServeMux\<close> on a path without a route for the method: 405 when another method has one, else 404.\<close>

definition allowed_methods :: "string list \<Rightarrow> string list" where
  "allowed_methods path =
     (let ms = List.map_filter (\<lambda>(m, p, _). if match_path p path \<noteq> None then Some m else None) routes in
      sort (remdups (ms @ (if ''GET'' \<in> set ms then [''HEAD''] else []))))"

fun join :: "string \<Rightarrow> string list \<Rightarrow> string" where
  "join sep [] = []"
| "join sep [s] = s"
| "join sep (s # ss) = s @ sep @ join sep ss"

definition http_Error :: "(string \<times> string) list \<Rightarrow> int \<Rightarrow> string \<Rightarrow> HttpResponse" where
  "http_Error h status message =
     \<lparr>hrStatus = status,
      hrHeader = header_set ''X-Content-Type-Options'' ''nosniff'' (header_set ''Content-Type'' ''text/plain; charset=utf-8'' h),
      hrContent = TextContent (message @ [CHR 0x0A])\<rparr>"

definition mux_miss :: "(string \<times> string) list \<Rightarrow> HttpRequest \<Rightarrow> HttpResponse" where
  "mux_miss h rq =
     (let ms = allowed_methods (rqPath rq) in
      if ms = [] then http_Error h 404 ''404 page not found''
      else http_Error (header_set ''Allow'' (join '', '' ms) h) 405 ''Method Not Allowed'')"

section \<open>The chat API\<close>

record ApiState =
  apWorld :: World
  apAuth :: AuthDB
  apIdem :: IdemStore

definition run_handler :: "handler \<Rightarrow> HttpEnv \<Rightarrow> go_int \<Rightarrow> (string \<times> string) list \<Rightarrow> HttpRequest \<Rightarrow>
    string \<Rightarrow> (string \<times> string) list \<Rightarrow> World \<Rightarrow> HttpResponse \<times> World" where
  "run_handler act env u binds rq requestID h w =
     (let (r, w1) = act env (Some u) (path_value binds) rq w in
      (case r of Inl e \<Rightarrow> WriteError rq requestID h e | Inr rep \<Rightarrow> write_reply h rep, w1))"

definition Router :: "Crypto \<Rightarrow> HttpEnv \<Rightarrow> HttpRequest \<Rightarrow> string \<Rightarrow> (string \<times> string) list \<Rightarrow> ApiState \<Rightarrow> HttpResponse \<times> ApiState" where
  "Router k env rq requestID h s =
     (case RequireAuth k (heAuth env) (apAuth s) rq of
        Inl e \<Rightarrow> (WriteError rq requestID h e, s)
      | Inr user \<Rightarrow>
          (case first_match (rqMethod rq) (rqPath rq) routes of
             None \<Rightarrow> (mux_miss h rq, s)
           | Some (unsafe, act, binds) \<Rightarrow>
               let run = run_handler act env (uID user) binds rq requestID h in
               if unsafe then
                 (let (resp, w, im) = Idempotency (kHash k) (heRedis env) (Some (uID user)) rq (WriteError rq requestID h) h run
                        (apWorld s, apIdem s)
                  in (resp, s\<lparr>apWorld := w, apIdem := im\<rparr>))
               else (let (resp, w) = run (apWorld s) in (resp, s\<lparr>apWorld := w\<rparr>))))"

section \<open>Probes\<close>

record health_result =
  hrName :: string
  hrOutcome :: string
  hrError :: string

text \<open>The registry by name; a check is what it reports now: nothing, or the text of its error.\<close>

type_synonym Registry = "(string \<times> string option) list"

definition Registry_Register :: "string \<Rightarrow> string option \<Rightarrow> Registry \<Rightarrow> Registry" where
  "Registry_Register name check reg = upsert fst (\<lambda>_ r. r) (name, check) reg"

definition Ready :: "Registry \<Rightarrow> bool \<times> health_result list" where
  "Ready reg =
     (list_all (\<lambda>(_, failure). failure = None) reg,
      map (\<lambda>(name, failure). case failure of
             None \<Rightarrow> \<lparr>hrName = name, hrOutcome = ''ok'', hrError = []\<rparr>
           | Some text \<Rightarrow> \<lparr>hrName = name, hrOutcome = ''failing'', hrError = text\<rparr>) reg)"

definition Alive :: "health_result list" where
  "Alive = [\<lparr>hrName = ''process'', hrOutcome = ''ok'', hrError = []\<rparr>]"

definition health_json :: "string \<Rightarrow> health_result list \<Rightarrow> json" where
  "health_json status results = JObj
     [(''checks'', JArr (map (\<lambda>r. JObj ([(''name'', JStr (hrName r)), (''status'', JStr (hrOutcome r))]
         @ (if hrError r = [] then [] else [(''error'', JStr (hrError r))]))) results)),
      (''status'', JStr status)]"

definition health_handler :: "Registry \<Rightarrow> bool \<Rightarrow> (string \<times> string) list \<Rightarrow> HttpResponse" where
  "health_handler reg readiness h =
     (let (good, results) = Ready reg;
          reply = (\<lambda>status body. \<lparr>hrStatus = status, hrHeader = header_set ''Content-Type'' ''application/json'' h, hrContent = JsonContent body\<rparr>) in
      if \<not> readiness then reply 200 (health_json ''ok'' Alive)
      else if \<not> good then reply 503 (health_json ''not_ready'' results)
      else reply 200 (health_json ''ready'' results))"

section \<open>The server\<close>

definition request_id :: "HttpEnv \<Rightarrow> HttpRequest \<Rightarrow> string" where
  "request_id env rq = (if rqHeader rq ''X-Request-Id'' = [] then heRequestID env else rqHeader rq ''X-Request-Id'')"

definition is_get :: "HttpRequest \<Rightarrow> bool" where
  "is_get rq \<longleftrightarrow> method_matches ''GET'' (rqMethod rq)"

text \<open>
  The mux of the server, with the request id \<open>i\<close> and the headers set so far.  \<open>None\<close>: the request is
  the upgrade of a socket, which \<open>ServeHTTP\<close> of the endpoint takes over.
\<close>

definition serve_mux :: "Crypto \<Rightarrow> Registry \<Rightarrow> HttpEnv \<Rightarrow> HttpRequest \<Rightarrow> string \<Rightarrow> (string \<times> string) list \<Rightarrow> ApiState
    \<Rightarrow> HttpResponse option \<times> ApiState" where
  "serve_mux k reg env rq i h s =
     (if rqPath rq = [''healthz''] \<and> is_get rq then (Some (health_handler reg False h), s)
      else if rqPath rq = [''readyz''] \<and> is_get rq then (Some (health_handler reg True h), s)
      else if rqPath rq = [''v1'', ''ws''] \<and> is_get rq then (None, s)
      else if take 1 (rqPath rq) = [''v1''] \<and> length (rqPath rq) > 1 then
        (let (resp, s1) = Router k env rq i h s in (Some resp, s1))
      else (Some (Write rq i h (NotFound ''resource not found'')), s))"

definition serve_http :: "Crypto \<Rightarrow> Registry \<Rightarrow> HttpEnv \<Rightarrow> HttpRequest \<Rightarrow> ApiState \<Rightarrow> HttpResponse option \<times> ApiState" where
  "serve_http k reg env rq s =
     (let i = request_id env rq in serve_mux k reg env rq i (header_set ''X-Request-Id'' i []) s)"

lemmas serve_http_defs = serve_http_def serve_mux_def

definition serve_requests :: "Crypto \<Rightarrow> Registry \<Rightarrow> (HttpEnv \<times> HttpRequest) list \<Rightarrow> ApiState \<Rightarrow> ApiState" where
  "serve_requests k reg reqs s = fold (\<lambda>(env, rq) s. snd (serve_http k reg env rq s)) reqs s"

lemma serve_requests_simps [simp]:
  "serve_requests k reg [] s = s"
  "serve_requests k reg ((env, rq) # reqs) s = serve_requests k reg reqs (snd (serve_http k reg env rq s))"
  by (simp_all add: serve_requests_def)

end
