(* ===== verification/HttpRules.thy ===== *)
theory HttpRules
  imports HttpServer
begin

text \<open>
  What every REST handler does to the chat module: a read leaves it alone, a write is one request of
  the caller, and the only faults a handler reports are the ones of its use case.  The rules follow the
  combinators the handlers are built from.
\<close>

section \<open>Handlers as requests\<close>

fun request_user :: "request \<Rightarrow> go_int option" where
  "request_user (ReqCreate _ cmd) = Some (ccUserID cmd)"
| "request_user (ReqUpdate _ cmd) = Some (ucUserID cmd)"
| "request_user (ReqAdd _ cmd) = Some (amUserID cmd)"
| "request_user (ReqRemove _ cmd) = Some (rmUserID cmd)"
| "request_user (ReqRole _ cmd) = Some (crcUserID cmd)"
| "request_user (ReqMute _ u _ _) = Some u"
| "request_user (ReqPin _ u _ _) = Some u"
| "request_user (ReqArchive _ u _ _) = Some u"
| "request_user (ReqSend _ cmd) = Some (smUserID cmd)"
| "request_user (ReqEdit _ cmd) = Some (emUserID cmd)"
| "request_user (ReqDelete _ cmd) = Some (dmUserID cmd)"
| "request_user (ReqReact _ cmd) = Some (rcUserID cmd)"
| "request_user (ReqUnreact _ cmd) = Some (rcUserID cmd)"
| "request_user (ReqMarkRead _ cmd) = Some (mkUserID cmd)"
| "request_user RedisRestart = None"

definition reported :: "app_error \<Rightarrow> bool" where
  "reported e = (case e of Api a \<Rightarrow> Status a < 500 | ChatErr _ \<Rightarrow> True | AuthErr _ \<Rightarrow> False)"

definition small_reply :: "reply \<Rightarrow> bool" where
  "small_reply rep = (case rep of Reply status _ \<Rightarrow> 200 \<le> status \<and> status < 500 | EmptyReply \<Rightarrow> True)"

lemma small_replies [simp]:
  "small_reply (ok f x)" "small_reply (ok_or_created c f x)" "small_reply (List_reply xs n b l)" "small_reply EmptyReply"
  by (simp_all add: small_reply_def ok_def ok_or_created_def List_reply_def OK_def Created_def)

definition proper :: "bool \<Rightarrow> go_int \<Rightarrow> World \<Rightarrow> result \<Rightarrow> bool" where
  "proper unsafe u w res \<longleftrightarrow>
     (snd res = w \<or> unsafe \<and> (\<exists>req. request_user req = Some u \<and> snd res = serve req w))
     \<and> (case fst res of Inl e \<Rightarrow> reported e | Inr rep \<Rightarrow> small_reply rep)"

named_theorems handler_rules
named_theorems parse_errors

lemma proper_principal [handler_rules]:
  "(proper unsafe u w (k u w)) \<Longrightarrow> proper unsafe u w (with_principal (Some u) k w)"
  by (simp add: with_principal_def)

lemma proper_hbind [handler_rules]:
  "(\<And>e. m = Inl e \<Longrightarrow> reported e) \<Longrightarrow> (\<And>x. m = Inr x \<Longrightarrow> proper unsafe u w (k x w)) \<Longrightarrow> proper unsafe u w (hbind m k w)"
  by (cases m) (simp_all add: hbind_def proper_def)

lemma proper_answer [handler_rules]: "(\<And>x. small_reply (render x)) \<Longrightarrow> proper unsafe u w (answer render r w)"
  by (auto simp: answer_def proper_def reported_def split: sum.splits)

lemma proper_call_db:
  "request_user req = Some u \<Longrightarrow> on_db f w = serve req w \<Longrightarrow> (\<And>x. small_reply (render x)) \<Longrightarrow> proper True u w (call_db f render w)"
  by (auto simp: call_db_def answer_def proper_def reported_def on_db_def Let_def split: prod.splits sum.splits)

lemma call_db_serve [handler_rules]:
  "ccUserID c1 = u \<Longrightarrow> (\<And>x. small_reply (f1 x)) \<Longrightarrow> proper True u w (call_db (CreateConversation env c1) f1 w)"
  "ucUserID c2 = u \<Longrightarrow> (\<And>x. small_reply (f2 x)) \<Longrightarrow> proper True u w (call_db (UpdateConversation env c2) f2 w)"
  "amUserID c3 = u \<Longrightarrow> (\<And>x. small_reply (f3 x)) \<Longrightarrow> proper True u w (call_db (AddMembers env c3) f3 w)"
  "rmUserID c4 = u \<Longrightarrow> (\<And>x. small_reply (f4 x)) \<Longrightarrow> proper True u w (call_db (RemoveMember env c4) f4 w)"
  "crcUserID c5 = u \<Longrightarrow> (\<And>x. small_reply (f5 x)) \<Longrightarrow> proper True u w (call_db (ChangeMemberRole env c5) f5 w)"
  "(\<And>x. small_reply (f6 x)) \<Longrightarrow> proper True u w (call_db (SetMute env u c until) f6 w)"
  "(\<And>x. small_reply (f7 x)) \<Longrightarrow> proper True u w (call_db (SetPin env u c b) f7 w)"
  "(\<And>x. small_reply (f8 x)) \<Longrightarrow> proper True u w (call_db (SetArchive env u c b) f8 w)"
  "mkUserID c9 = u \<Longrightarrow> (\<And>x. small_reply (f9 x)) \<Longrightarrow> proper True u w (call_db (MarkRead env c9) f9 w)"
  "emUserID c10 = u \<Longrightarrow> (\<And>x. small_reply (f10 x)) \<Longrightarrow> proper True u w (call_db (EditMessage env c10) f10 w)"
  "dmUserID c11 = u \<Longrightarrow> (\<And>x. small_reply (f11 x)) \<Longrightarrow> proper True u w (call_db (DeleteMessage env c11) f11 w)"
  by (rule proper_call_db [of "ReqCreate env c1"] proper_call_db [of "ReqUpdate env c2"] proper_call_db [of "ReqAdd env c3"]
      proper_call_db [of "ReqRemove env c4"] proper_call_db [of "ReqRole env c5"] proper_call_db [of "ReqMute env u c until"]
      proper_call_db [of "ReqPin env u c b"] proper_call_db [of "ReqArchive env u c b"] proper_call_db [of "ReqMarkRead env c9"]
      proper_call_db [of "ReqEdit env c10"] proper_call_db [of "ReqDelete env c11"]; simp)+

lemma call_db_react [handler_rules]:
  "rcUserID cmd = u \<Longrightarrow> (\<And>x. small_reply (f x)) \<Longrightarrow> proper True u w (call_db (if add then AddReaction env cmd else RemoveReaction env cmd) f w)"
  by (cases add) (simp_all add: proper_call_db [of "ReqReact env cmd"] proper_call_db [of "ReqUnreact env cmd"])

section \<open>The errors of parsing\<close>

lemma reported_simps [simp]:
  "reported (Api (invalid_field d f r))" "reported (Api (PayloadTooLarge d))" "reported (ChatErr e)" "reported ErrNoPrincipal"
  "reported (invalidSeq f)"
  by (simp_all add: reported_def api_error_defs ErrNoPrincipal_def invalidSeq_def)

lemma parse_reported [parse_errors]:
  "PathID pv name = Inl e \<Longrightarrow> reported e"
  "QueryLimit rq d mx = Inl e \<Longrightarrow> reported e"
  "DecodeJSON fields_of rq = Inl e \<Longrightarrow> reported e"
  "positive_seq f raw = Inl e \<Longrightarrow> reported e"
  "parseSeq raw = Inl e \<Longrightarrow> reported e"
  "querySeq rq name = Inl e \<Longrightarrow> reported e"
  "ensure b (Api (invalid_field msg f r)) = Inl e \<Longrightarrow> reported e"
  "from_opt (invalidSeq f) x = Inl e \<Longrightarrow> reported e"
  by (auto simp: PathID_def QueryLimit_def DecodeJSON_def positive_seq_def parseSeq_def querySeq_def rbind_Inl_iff Let_def
      split: option.splits if_splits http_body.splits)

lemma ParseIDs_reported [parse_errors]: "ParseIDs raw = Inl e \<Longrightarrow> reported e"
  by (induction raw) (auto simp: rbind_Inl_iff split: option.splits if_splits)

lemma optional_seq_reported [parse_errors]:
  "(case x of None \<Rightarrow> Inr None | Some raw \<Rightarrow> rbind (positive_seq f raw) (\<lambda>n. Inr (Some n))) = Inl e \<Longrightarrow> reported e"
  "(case x of None \<Rightarrow> Inr None | Some raw \<Rightarrow> rbind (parseSeq raw) (\<lambda>n. Inr (Some n))) = Inl e \<Longrightarrow> reported e"
  by (auto simp: rbind_Inl_iff parse_errors split: option.splits)

section \<open>Every route\<close>

lemma read_handlers:
  "proper False u w (list_conversations env (Some u) pv rq w)" "proper False u w (get_conversation env (Some u) pv rq w)"
  "proper False u w (list_members env (Some u) pv rq w)" "proper False u w (list_messages env (Some u) pv rq w)"
  "proper False u w (get_receipts env (Some u) pv rq w)" "proper False u w (get_message env (Some u) pv rq w)"
  "proper False u w (list_reactions env (Some u) pv rq w)"
  unfolding list_conversations_def get_conversation_def list_members_def list_messages_def get_receipts_def get_message_def
    list_reactions_def Let_def
  by (intro handler_rules; (erule parse_errors | simp)+)+

lemma write_handlers:
  "proper True u w (create_conversation env (Some u) pv rq w)" "proper True u w (add_members env (Some u) pv rq w)"
  "proper True u w (remove_member env (Some u) pv rq w)" "proper True u w (change_member_role env (Some u) pv rq w)"
  "proper True u w (set_mute env (Some u) pv rq w)" "proper True u w (edit_message env (Some u) pv rq w)"
  "proper True u w (delete_message env (Some u) pv rq w)" "proper True u w (react add env (Some u) pv rq w)"
  unfolding create_conversation_def add_members_def remove_member_def change_member_role_def set_mute_def edit_message_def
    delete_message_def react_def Let_def
  by (intro handler_rules; (erule parse_errors | simp))+

lemma update_handler: "proper True u w (update_conversation env (Some u) pv rq w)"
  unfolding update_conversation_def
  by (intro handler_rules; (erule parse_errors | simp add: update_command_def))

lemma proper_if [handler_rules]:
  "(b \<Longrightarrow> proper unsafe u w (f w)) \<Longrightarrow> (\<not> b \<Longrightarrow> proper unsafe u w (g w)) \<Longrightarrow> proper unsafe u w ((if b then f else g) w)"
  by simp

lemma flag_handler: "proper True u w (setFlag pin env (Some u) pv rq w)"
  unfolding setFlag_def by (intro handler_rules) (erule parse_errors | simp)+

lemma proper_pair [handler_rules]: "(\<And>a b. x = (a, b) \<Longrightarrow> proper unsafe u w (k a b w)) \<Longrightarrow> proper unsafe u w ((case x of (a, b) \<Rightarrow> k a b) w)"
  by (cases x) simp

lemma mark_handler: "proper True u w (mark_read env (Some u) pv rq w)"
  unfolding mark_read_def
  by (intro handler_rules; (erule parse_errors | simp))

lemma proper_send:
  assumes "smUserID cmd = u" and "\<And>x. small_reply (f x)"
  shows "proper True u w (let (r, w1) = SendMessage env cmd w in answer f r w1)"
proof -
  obtain r w1 where s: "SendMessage env cmd w = (r, w1)" by fastforce
  have "\<exists>req. request_user req = Some u \<and> w1 = serve req w"
    using assms s by (intro exI [of _ "ReqSend env cmd"]) simp
  then show ?thesis using assms(2) by (auto simp: s answer_def proper_def reported_def split: sum.splits)
qed

lemma send_handler: "proper True u w (send_message env (Some u) pv rq w)"
  unfolding send_message_def
  by (intro handler_rules proper_send; (erule parse_errors | simp))

text \<open>The table: exactly the routes that are not GET require a key, and every handler is proper.\<close>

lemma routes_proper:
  assumes "(m, p, unsafe, act) \<in> set routes"
  shows "(m = ''GET'' \<longleftrightarrow> \<not> unsafe) \<and> proper unsafe u w (act env (Some u) pv rq w)"
  using assms unfolding routes_def conversation_routes_def message_routes_def
  by (auto simp: read_handlers write_handlers update_handler flag_handler mark_handler send_handler)

lemma first_match_Some:
  "first_match method path rs = Some (unsafe, act, binds) \<Longrightarrow>
   \<exists>m p. (m, p, unsafe, act) \<in> set rs \<and> method_matches m method \<and> match_path p path = Some binds"
proof (induction rs)
  case (Cons r rs)
  obtain m p un h where r: "r = (m, p, un, h)" by (cases r)
  show ?case
  proof (cases "if method_matches m method then match_path p path else None")
    case None
    with Cons.prems r have "first_match method path rs = Some (unsafe, act, binds)" by simp
    from Cons.IH [OF this] show ?thesis by auto
  next
    case (Some b)
    with Cons.prems r have "un = unsafe" "h = act" "b = binds" by simp_all
    with Some r show ?thesis by (intro exI [of _ m] exI [of _ p]) (auto split: if_splits)
  qed
qed simp

lemma run_handler_proper:
  assumes "first_match (rqMethod rq) (rqPath rq) routes = Some (unsafe, act, binds)"
  shows "proper unsafe u w (act env (Some u) (path_value binds) rq w)"
    and "unsafe \<longleftrightarrow> \<not> is_get rq"
proof -
  from first_match_Some [OF assms] obtain m p where m: "(m, p, unsafe, act) \<in> set routes" "method_matches m (rqMethod rq)"
    by blast
  from routes_proper [OF m(1)] show "proper unsafe u w (act env (Some u) (path_value binds) rq w)" by blast
  have methods: "m \<in> {''GET'', ''POST'', ''PATCH'', ''DELETE'', ''PUT''}"
    using m(1) by (auto simp: routes_def conversation_routes_def message_routes_def)
  with m routes_proper [OF m(1)] show "unsafe \<longleftrightarrow> \<not> is_get rq"
    by (auto simp: is_get_def method_matches_def)
qed

end
