(* ===== verification/AuthLogin.thy ===== *)
theory AuthLogin
  imports AuthService
begin

text \<open>
  Login and the rotation of refresh tokens (\<open>auth/application/login.go\<close>, \<open>refresh.go\<close>).
\<close>

section \<open>Login\<close>

record LoginCommand =
  lcIdentifierType :: IdentifierType
  lcIdentifier :: string
  lcMethod :: LoginMethod
  lcPassword :: string
  lcOTPCode :: string
  lcDevice :: DeviceInfo
  lcIPAddress :: "string option"
  lcUserAgent :: "string option"

record LoginResult =
  lrUser :: User
  lrSession :: Session
  lrTokenPair :: TokenPair

definition findUser :: "AuthEnv \<Rightarrow> Identifier \<Rightarrow> AuthDB \<Rightarrow> auth_error + User" where
  "findUser env ident db =
     (case idType ident of
        IdentifierPhone \<Rightarrow> FindByPhone (avFaults env) db (idValue ident)
      | IdentifierEmail \<Rightarrow> FindByEmail (avFaults env) db (idValue ident)
      | OtherIdentifier _ \<Rightarrow> Inl AuthIO)"

definition check_lockout :: "AuthConfig \<Rightarrow> AuthEnv \<Rightarrow> string \<Rightarrow> go_time auth" where
  "check_lockout cfg env key s =
     (rbind (acall (avFaults env) CallLockout) (\<lambda>_. Inr (LockoutRemaining (cfPolicy cfg) (avRedisNow env) (asThrottle s key))), s)"

definition recordFailure :: "AuthConfig \<Rightarrow> AuthEnv \<Rightarrow> string \<Rightarrow> unit auth" where
  "recordFailure cfg env key s =
     (if avFaults env CallRecordFailure then (Inl AuthIO, s)
      else (Inr (), s\<lparr>asThrottle := (asThrottle s)(key := RecordFailure (cfPolicy cfg) (avRedisNow env) (asThrottle s key))\<rparr>))"

definition clear_throttle :: "AuthEnv \<Rightarrow> string \<Rightarrow> unit auth" where
  "clear_throttle env key s =
     (if avFaults env CallClear then (Inl AuthIO, s) else (Inr (), s\<lparr>asThrottle := (asThrottle s)(key := None)\<rparr>))"

definition verify_otp :: "Crypto \<Rightarrow> AuthEnv \<Rightarrow> Identifier \<Rightarrow> string \<Rightarrow> unit auth" where
  "verify_otp k env ident code s =
     (if avFaults env CallOTP then (Inl AuthIO, s)
      else let (r, key) = OTP_Verify (kHash k) (avRedisNow env) code (asOTP s ident) in
           (r, s\<lparr>asOTP := (asOTP s)(ident := key)\<rparr>))"

text \<open>The dummy verification for timing has no effect.\<close>

definition password_matches :: "Crypto \<Rightarrow> AuthEnv \<Rightarrow> go_int \<Rightarrow> string \<Rightarrow> AuthDB \<Rightarrow> auth_error + bool" where
  "password_matches k env u password db =
     (case FindPassword (avFaults env) db u of
        Inl e \<Rightarrow> if e = ErrUserNotFound then Inr False else Inl e
      | Inr cred \<Rightarrow>
          (case Credential_PasswordHash cred of
             Inl _ \<Rightarrow> Inr False
           | Inr hash \<Rightarrow> (case kVerify k hash password of None \<Rightarrow> Inl AuthIO | Some ok \<Rightarrow> Inr ok)))"

definition verifyCredential :: "Crypto \<Rightarrow> AuthEnv \<Rightarrow> User \<Rightarrow> Identifier \<Rightarrow> LoginCommand \<Rightarrow> bool auth" where
  "verifyCredential k env user ident cmd s =
     (case lcMethod cmd of
        LoginMethodOTP \<Rightarrow>
          (case verify_otp k env ident (lcOTPCode cmd) s of
             (Inl e, s1) \<Rightarrow> (if e \<in> {ErrOTPInvalid, ErrOTPExpired} then Inr False else Inl e, s1)
           | (Inr _, s1) \<Rightarrow> (Inr True, s1))
      | LoginMethodPassword \<Rightarrow> (password_matches k env (uID user) (lcPassword cmd) (asDB s), s)
      | _ \<Rightarrow> (Inl ErrUnsupportedLoginMethod, s))"

text \<open>What a failed attempt leaves behind.\<close>

definition failed_login ::
  "AuthConfig \<Rightarrow> AuthEnv \<Rightarrow> string \<Rightarrow> LoginCommand \<Rightarrow> go_int option \<Rightarrow> (string \<times> string) list \<Rightarrow> LoginResult auth" where
  "failed_login cfg env key cmd u details =
     abind (recordFailure cfg env key) (\<lambda>_.
     abind (audit env u ''auth.login_failed'' u (lcIPAddress cmd) details) (\<lambda>_.
     abind (recordLogin env u key (lcMethod cmd) False False (dvID (lcDevice cmd)) (lcIPAddress cmd) (lcUserAgent cmd)) (\<lambda>_.
     afail ErrInvalidCredentials)))"

definition isNewDevice :: "AuthEnv \<Rightarrow> go_int \<Rightarrow> string \<Rightarrow> AuthDB \<Rightarrow> bool" where
  "isNewDevice env u deviceID db \<longleftrightarrow> Session_FindByDeviceID (avFaults env) db u deviceID = Inl ErrSessionNotFound"

text \<open>\<open>upsertSession\<close>: the row of the device is reused, whatever its state, or a new one is made.\<close>

definition rotated_session :: "AuthEnv \<Rightarrow> DeviceInfo \<Rightarrow> string option \<Rightarrow> string option \<Rightarrow> go_time \<Rightarrow> Session \<Rightarrow> Session" where
  "rotated_session env device ip ua now s =
     s\<lparr>sePreviousHash := seHash s, seState := SessionActive, seFamily := seFamily s + 1, seDevice := device,
       seIPAddress := ip, seUserAgent := ua, seLastActiveAt := now, seUpdatedAt := now\<rparr>"

definition new_session :: "go_int \<Rightarrow> go_int \<Rightarrow> DeviceInfo \<Rightarrow> string option \<Rightarrow> string option \<Rightarrow> go_time \<Rightarrow> Session" where
  "new_session i u device ip ua now =
     \<lparr>seID = i, seUserID = u, seDevice = device, sePushToken = None, seFamily = 0, seHash = [], sePreviousHash = [],
      seRefreshExpiresAt = None, seIPAddress = ip, seUserAgent = ua, seLastActiveAt = now, seState = SessionActive,
      seCreatedAt = now, seUpdatedAt = now\<rparr>"

definition issued :: "Crypto \<Rightarrow> TokenPair \<Rightarrow> Session \<Rightarrow> Session" where
  "issued k pair s = s\<lparr>seHash := kHash k (tpRefreshToken pair), seRefreshExpiresAt := Some (tpRefreshExpiresAt pair)\<rparr>"

definition upsertSession ::
  "Crypto \<Rightarrow> AuthConfig \<Rightarrow> AuthEnv \<Rightarrow> go_int \<Rightarrow> DeviceInfo \<Rightarrow> string option \<Rightarrow> string option \<Rightarrow> go_time \<Rightarrow> go_int \<Rightarrow>
     AuthDB \<Rightarrow> auth_error + ((Session \<times> TokenPair) \<times> AuthDB)" where
  "upsertSession k cfg env u device ip ua now tokenVersion db =
     (case Session_FindByDeviceID (avFaults env) db u (dvID device) of
        Inr existing \<Rightarrow>
          (let s = rotated_session env device ip ua now existing in
           rbind (IssuePair k cfg env (seID s) u (dvID device) tokenVersion now) (\<lambda>pair.
           rbind (Session_Update (avFaults env) (avInet env) (avDBNow env) (issued k pair s) db) (\<lambda>(_, db1).
           Inr ((issued k pair s, pair), db1))))
      | Inl e \<Rightarrow>
          if e \<noteq> ErrSessionNotFound then Inl e
          else
            rbind (acall (avFaults env) CallSessionID) (\<lambda>_.
            let s = new_session (avSessionID env) u device ip ua now in
            rbind (IssuePair k cfg env (seID s) u (dvID device) tokenVersion now) (\<lambda>pair.
            rbind (Session_Create (avFaults env) (avInet env) (avDBNow env) (issued k pair s) db) (\<lambda>(_, db1).
            Inr ((issued k pair s, pair), db1)))))"

definition open_session :: "Crypto \<Rightarrow> AuthConfig \<Rightarrow> AuthEnv \<Rightarrow> User \<Rightarrow> string \<Rightarrow> LoginCommand \<Rightarrow> bool \<Rightarrow> LoginResult auth" where
  "open_session k cfg env user key cmd newDevice =
     abind (in_tx (avFaults env) (upsertSession k cfg env (uID user) (lcDevice cmd) (lcIPAddress cmd) (lcUserAgent cmd)
              (avClock env) (uTokenVersion user))) (\<lambda>(session, pair).
     abind (recordLogin env (Some (uID user)) key (lcMethod cmd) True newDevice (dvID (lcDevice cmd)) (lcIPAddress cmd) (lcUserAgent cmd)) (\<lambda>_.
     abind (audit env (Some (uID user)) ''auth.login'' (Some (uID user)) (lcIPAddress cmd)
              [(''method'', method_string (lcMethod cmd)), (''device_id'', dvID (lcDevice cmd)), (''new_device'', boolStr newDevice)]) (\<lambda>_.
     areturn \<lparr>lrUser = user, lrSession = session, lrTokenPair = pair\<rparr>)))"

text \<open>After the credential has been verified: the throttle, the risk hook, the session.\<close>

definition admit :: "Crypto \<Rightarrow> AuthConfig \<Rightarrow> AuthEnv \<Rightarrow> User \<Rightarrow> string \<Rightarrow> LoginCommand \<Rightarrow> LoginResult auth" where
  "admit k cfg env user key cmd =
     abind (clear_throttle env key) (\<lambda>_ s.
       (let newDevice = isNewDevice env (uID user) (dvID (lcDevice cmd)) (asDB s);
            decision = avRisk env \<lparr>rkUserID = uID user, rkDeviceID = dvID (lcDevice cmd), rkNewDevice = newDevice,
              rkIPAddress = lcIPAddress cmd, rkUserAgent = lcUserAgent cmd, rkMethod = lcMethod cmd\<rparr> in
        if avFaults env CallRisk then (Inl AuthIO, s)
        else if rdStepUp decision then
          abind (recordLogin env (Some (uID user)) key (lcMethod cmd) True newDevice (dvID (lcDevice cmd)) (lcIPAddress cmd) (lcUserAgent cmd)) (\<lambda>_.
          abind (audit env (Some (uID user)) ''auth.login_step_up'' (Some (uID user)) (lcIPAddress cmd)
                   [(''device_id'', dvID (lcDevice cmd)), (''new_device'', boolStr newDevice)]) (\<lambda>_.
          afail ErrStepUpRequired)) s
        else
          abind (if rdNotify decision then notify (uID user) ''login_new_device'' [(''device_id'', dvID (lcDevice cmd))] else areturn ()) (\<lambda>_.
          open_session k cfg env user key cmd newDevice) s))"

definition Login_known :: "Crypto \<Rightarrow> AuthConfig \<Rightarrow> AuthEnv \<Rightarrow> Identifier \<Rightarrow> LoginCommand \<Rightarrow> User \<Rightarrow> LoginResult auth" where
  "Login_known k cfg env ident cmd user =
     (let key = idValue ident; details = [(''identifier'', key), (''method'', method_string (lcMethod cmd))] in
      case uAccountState user of
        AccountSuspended \<Rightarrow>
          abind (audit env (Some (uID user)) ''auth.login_blocked'' (Some (uID user)) (lcIPAddress cmd) [(''reason'', ''suspended'')])
            (\<lambda>_. afail ErrAccountSuspended)
      | AccountDeleted \<Rightarrow> failed_login cfg env key cmd None details
      | AccountActive \<Rightarrow>
          abind (verifyCredential k env user ident cmd) (\<lambda>ok.
          if \<not> ok then failed_login cfg env key cmd (Some (uID user)) [(''method'', method_string (lcMethod cmd))]
          else admit k cfg env user key cmd))"

definition Login :: "Crypto \<Rightarrow> AuthConfig \<Rightarrow> AuthEnv \<Rightarrow> LoginCommand \<Rightarrow> LoginResult auth" where
  "Login k cfg env cmd =
     abind (alift (NewIdentifier (lcIdentifierType cmd) (lcIdentifier cmd))) (\<lambda>ident.
     abind (alift (case lcMethod cmd of
              LoginMethodPasskey \<Rightarrow> Inl ErrUnsupportedLoginMethod
            | OtherMethod _ \<Rightarrow> Inl (ValidationError ''method'' ''unsupported'')
            | _ \<Rightarrow> Inr ())) (\<lambda>_.
     abind (alift (ValidateDeviceID (dvID (lcDevice cmd)))) (\<lambda>_.
     let key = idValue ident; details = [(''identifier'', key), (''method'', method_string (lcMethod cmd))] in
     abind (check_lockout cfg env key) (\<lambda>remaining.
     if remaining > 0 then
       abind (audit env None ''auth.login_locked'' None (lcIPAddress cmd) details) (\<lambda>_. afail (AccountLockedError remaining))
     else (\<lambda>s. case findUser env ident (asDB s) of
         Inl e \<Rightarrow> if e \<noteq> ErrUserNotFound then (Inl e, s) else failed_login cfg env key cmd None details s
       | Inr user \<Rightarrow> Login_known k cfg env ident cmd user s)))))"

section \<open>Refresh\<close>

record RefreshCommand =
  rfRefreshToken :: string
  rfIPAddress :: "string option"
  rfUserAgent :: "string option"

record RefreshResult =
  rrAccessToken :: string
  rrRefreshToken :: string
  rrSessionID :: go_int
  rrExpiresIn :: int

text \<open>
  What the transaction of a refresh comes to.  The revocation of a reuse is committed although the
  caller gets an error, so it is an outcome and not an error of the transaction.
\<close>

datatype refresh_outcome = Rotated Session TokenPair | Reused Session

definition reuseOrInvalid :: "AuthEnv \<Rightarrow> string \<Rightarrow> AuthDB \<Rightarrow> (auth_error \<times> (string \<times> go_int option \<times> go_int option) option) + (refresh_outcome \<times> AuthDB)" where
  "reuseOrInvalid env h db =
     (case Session_FindByPreviousHash (avFaults env) db h of
        Inl e \<Rightarrow> if e = ErrSessionNotFound then Inl (ErrRefreshTokenInvalid, Some (''unknown_token'', None, None)) else Inl (e, None)
      | Inr reused \<Rightarrow>
          (case RevokeAllByUserID (avFaults env) (avDBNow env) (seUserID reused) db of
             Inl e \<Rightarrow> Inl (e, None)
           | Inr (_, db1) \<Rightarrow> Inr (Reused reused, db1)))"

definition state_string :: "SessionState \<Rightarrow> string" where
  "state_string st = (case st of SessionActive \<Rightarrow> ''active'' | SessionRevoked \<Rightarrow> ''revoked'' | SessionExpired \<Rightarrow> ''expired''
     | SessionSuspended \<Rightarrow> ''suspended'')"

definition refresh_expired :: "go_time \<Rightarrow> Session \<Rightarrow> bool" where
  "refresh_expired now s \<longleftrightarrow> (case seRefreshExpiresAt s of None \<Rightarrow> False | Some e \<Rightarrow> e \<le> now)"

text \<open>
  The body of the transaction.  An error carries the reason, the actor and the resource of the audit
  entry that goes with it.
\<close>

definition refresh_tx ::
  "Crypto \<Rightarrow> AuthConfig \<Rightarrow> AuthEnv \<Rightarrow> string \<Rightarrow> AuthDB \<Rightarrow>
     (auth_error \<times> (string \<times> go_int option \<times> go_int option) option) + (refresh_outcome \<times> AuthDB)" where
  "refresh_tx k cfg env h db =
     (let now = avClock env in
      case Session_FindByHash (avFaults env) db h of
        Inl e \<Rightarrow> if e = ErrSessionNotFound then reuseOrInvalid env h db else Inl (e, None)
      | Inr session \<Rightarrow>
          if seState session \<noteq> SessionActive
          then Inl (ErrRefreshTokenInvalid, Some (''session_'' @ state_string (seState session), Some (seUserID session), Some (seID session)))
          else if refresh_expired now session
          then Inl (ErrRefreshTokenInvalid, Some (''expired'', Some (seUserID session), Some (seID session)))
          else
            (case User_FindByID (avFaults env) db (seUserID session) of
               Inl e \<Rightarrow> if e = ErrUserNotFound then Inl (ErrRefreshTokenInvalid, Some (''account_unavailable'', None, Some (seID session)))
                        else Inl (e, None)
             | Inr user \<Rightarrow>
                 if uAccountState user = AccountDeleted
                 then Inl (ErrRefreshTokenInvalid, Some (''account_unavailable'', None, Some (seID session)))
                 else if uAccountState user = AccountSuspended
                 then Inl (ErrAccountSuspended, Some (''suspended'', Some (uID user), Some (seID session)))
                 else
                   (case IssuePair k cfg env (seID session) (seUserID session) (dvID (seDevice session)) (uTokenVersion user) now of
                      Inl e \<Rightarrow> Inl (e, None)
                    | Inr pair \<Rightarrow>
                        let session' = (issued k pair session)\<lparr>sePreviousHash := h, seFamily := seFamily session + 1,
                              seLastActiveAt := now, seUpdatedAt := now\<rparr> in
                        (case Session_Rotate (avFaults env) (avDBNow env) session' h db of
                           Inl e \<Rightarrow> if e = ErrSessionNotFound then reuseOrInvalid env h db else Inl (e, None)
                         | Inr (_, db1) \<Rightarrow> Inr (Rotated session' pair, db1)))))"

definition audit_refusal :: "AuthEnv \<Rightarrow> string option \<Rightarrow> (string \<times> go_int option \<times> go_int option) option \<Rightarrow> AuthState \<Rightarrow> AuthState" where
  "audit_refusal env ip note s =
     (case note of None \<Rightarrow> s
      | Some (reason, actor, res) \<Rightarrow> snd (audit env actor ''auth.token_refresh_failed'' res ip [(''reason'', reason)] s))"

definition seconds_until :: "go_time \<Rightarrow> go_time \<Rightarrow> int" where
  "seconds_until now t = (if t < now then 0 else (t - now) div 1000000)"

definition Refresh :: "Crypto \<Rightarrow> AuthConfig \<Rightarrow> AuthEnv \<Rightarrow> RefreshCommand \<Rightarrow> RefreshResult auth" where
  "Refresh k cfg env cmd s =
     (let fl = avFaults env; ip = rfIPAddress cmd in
      if \<not> IsOpaqueTokenShape (rfRefreshToken cmd)
      then (Inl ErrRefreshTokenInvalid, audit_refusal env ip (Some (''malformed'', None, None)) s)
      else if fl CallBeginAuth then (Inl AuthIO, s)
      else
        (case refresh_tx k cfg env (kHash k (rfRefreshToken cmd)) (asDB s) of
           Inl (e, note) \<Rightarrow> (Inl e, audit_refusal env ip note s)
         | Inr (outcome, db1) \<Rightarrow>
             if fl CallCommitAuth then (Inl AuthIO, s)
             else let s1 = s\<lparr>asDB := db1\<rparr> in
               (case outcome of
                  Reused r \<Rightarrow>
                    (Inl ErrRefreshTokenReuse,
                     snd (audit env (Some (seUserID r)) ''auth.token_reuse'' (Some (seID r)) ip [(''session_id'', FormatInt (seID r))] s1))
                | Rotated session pair \<Rightarrow>
                    (Inr \<lparr>rrAccessToken = tpAccessToken pair, rrRefreshToken = tpRefreshToken pair, rrSessionID = seID session,
                          rrExpiresIn = seconds_until (avClock env) (tpAccessExpiresAt pair)\<rparr>,
                     snd (audit env (Some (seUserID session)) ''auth.token_refresh'' (Some (seID session)) ip
                            [(''session_id'', FormatInt (seID session))] s1)))))"

end
