(* ===== verification/AuthSessions.thy ===== *)
theory AuthSessions
  imports AuthLogin
begin

text \<open>
  Device and session administration (\<open>auth/application/sessions.go\<close>).  The user and the current
  session of a command come from the access token.
\<close>

record SessionInfo =
  siID :: go_int
  siDeviceID :: string
  siDeviceName :: "string option"
  siPlatform :: "string option"
  siAppVersion :: "string option"
  siLastActiveAt :: go_time
  siCreatedAt :: go_time
  siCurrent :: bool

definition session_info :: "go_int \<Rightarrow> Session \<Rightarrow> SessionInfo" where
  "session_info current s =
     \<lparr>siID = seID s, siDeviceID = dvID (seDevice s), siDeviceName = dvName (seDevice s), siPlatform = dvPlatform (seDevice s),
      siAppVersion = dvAppVersion (seDevice s), siLastActiveAt = seLastActiveAt s, siCreatedAt = seCreatedAt s,
      siCurrent = (seID s = current)\<rparr>"

definition ListSessions :: "AuthEnv \<Rightarrow> go_int \<Rightarrow> go_int \<Rightarrow> SessionInfo list auth" where
  "ListSessions env userID current =
     aread (\<lambda>db. rbind (Session_ListByUser (avFaults env) db userID) (\<lambda>ss. Inr (map (session_info current) ss)))"

definition lockOwnSession :: "AuthEnv \<Rightarrow> go_int \<Rightarrow> go_int \<Rightarrow> AuthDB \<Rightarrow> auth_error + Session" where
  "lockOwnSession env userID sessionID db =
     rbind (Session_FindByID (avFaults env) db sessionID) (\<lambda>s.
     if seUserID s \<noteq> userID then Inl ErrSessionNotOwned else Inr s)"

definition session_audit :: "AuthEnv \<Rightarrow> go_int \<Rightarrow> string \<Rightarrow> go_int \<Rightarrow> (string \<times> string) list \<Rightarrow> unit auth" where
  "session_audit env userID action sessionID extra =
     audit env (Some userID) action (Some sessionID) None ((''session_id'', FormatInt sessionID) # extra)"

definition RenameSession :: "AuthEnv \<Rightarrow> go_int \<Rightarrow> go_int \<Rightarrow> string \<Rightarrow> unit auth" where
  "RenameSession env userID sessionID deviceName =
     abind (alift (ValidateDeviceName deviceName)) (\<lambda>_.
     abind (in_tx (avFaults env) (\<lambda>db.
       rbind (lockOwnSession env userID sessionID db) (\<lambda>session.
       rbind (Session_Rename (avFaults env) (avDBNow env) userID sessionID deviceName db) (\<lambda>(_, db1).
       Inr (session, db1))))) (\<lambda>session.
     session_audit env userID ''auth.session_renamed'' sessionID [(''device_id'', dvID (seDevice session))]))"

definition Logout :: "AuthEnv \<Rightarrow> go_int \<Rightarrow> go_int \<Rightarrow> unit auth" where
  "Logout env userID sessionID =
     abind (in_tx (avFaults env) (RevokeByID (avFaults env) (avDBNow env) userID sessionID)) (\<lambda>_.
     session_audit env userID ''auth.logout'' sessionID [])"

text \<open>
  A session somebody else revoked in between is a success; the commit of that branch is not looked at.
\<close>

definition LogoutSession :: "AuthEnv \<Rightarrow> go_int \<Rightarrow> go_int \<Rightarrow> unit auth" where
  "LogoutSession env userID sessionID s =
     (let fl = avFaults env in
      if fl CallBeginAuth then (Inl AuthIO, s)
      else
        (case lockOwnSession env userID sessionID (asDB s) of
           Inl e \<Rightarrow> (Inl e, s)
         | Inr target \<Rightarrow>
             let done = session_audit env userID ''auth.session_revoked'' sessionID [(''device_id'', dvID (seDevice target))] in
             (case RevokeByID fl (avDBNow env) userID sessionID (asDB s) of
                Inl e \<Rightarrow> if e = ErrSessionNotFound then done s else (Inl e, s)
              | Inr (_, db) \<Rightarrow> if fl CallCommitAuth then (Inl AuthIO, s) else done (s\<lparr>asDB := db\<rparr>))))"

definition LogoutOtherSessions :: "AuthEnv \<Rightarrow> go_int \<Rightarrow> go_int \<Rightarrow> unit auth" where
  "LogoutOtherSessions env userID sessionID =
     abind (in_tx (avFaults env) (RevokeOthersByUserID (avFaults env) (avDBNow env) userID sessionID)) (\<lambda>_.
     session_audit env userID ''auth.logout_others'' sessionID [])"

definition LogoutAll :: "AuthEnv \<Rightarrow> go_int \<Rightarrow> unit auth" where
  "LogoutAll env userID =
     abind (in_tx (avFaults env) (\<lambda>db.
       rbind (BumpTokenVersion (avFaults env) (avDBNow env) userID db) (\<lambda>(_, db1).
       RevokeAllByUserID (avFaults env) (avDBNow env) userID db1))) (\<lambda>_.
     audit env (Some userID) ''auth.logout_all'' (Some userID) None [])"

text \<open>The two scheduled jobs run a single statement on the pool.\<close>

definition pool_exec :: "(AuthDB \<Rightarrow> auth_error + ('a \<times> AuthDB)) \<Rightarrow> 'a auth" where
  "pool_exec f s = (case f (asDB s) of Inl e \<Rightarrow> (Inl e, s) | Inr (x, db) \<Rightarrow> (Inr x, s\<lparr>asDB := db\<rparr>))"

definition ExpireIdleSessions :: "AuthConfig \<Rightarrow> AuthEnv \<Rightarrow> int auth" where
  "ExpireIdleSessions cfg env =
     abind (pool_exec (ExpireIdle (avFaults env) (avDBNow env) (avClock env) (cfSessionIdleTimeout cfg))) (\<lambda>n.
     abind (if n > 0 then audit env None ''auth.sessions_expired'' None None [(''count'', FormatInt n)] else areturn ()) (\<lambda>_.
     areturn n))"

definition PurgeRevokedSessions :: "AuthConfig \<Rightarrow> AuthEnv \<Rightarrow> int auth" where
  "PurgeRevokedSessions cfg env =
     abind (pool_exec (Session_Purge (avFaults env) (avClock env - cfSessionRetention cfg))) (\<lambda>n.
     abind (if n > 0 then audit env None ''auth.sessions_purged'' None None [(''count'', FormatInt n)] else areturn ()) (\<lambda>_.
     areturn n))"

end
