(* ===== verification/AuthAccount.thy ===== *)
theory AuthAccount
  imports AuthSessions
begin

text \<open>
  Registration and account security (\<open>auth/application/register.go\<close>, \<open>account_security.go\<close>,
  \<open>account_security_flows.go\<close>).
\<close>

section \<open>Registration\<close>

record RegisterCommand =
  rgIdentifierType :: IdentifierType
  rgIdentifier :: string
  rgOTPCode :: string
  rgDisplayName :: string
  rgUsername :: "string option"
  rgPassword :: "string option"
  rgDevice :: DeviceInfo
  rgIPAddress :: "string option"
  rgUserAgent :: "string option"

text \<open>The zero \<open>time.Time\<close>, the first instant of year 1.\<close>

definition zero_time :: go_time where "zero_time = - 62135596800 * 1000000"

definition identifierTaken :: "AuthEnv \<Rightarrow> Identifier \<Rightarrow> AuthDB \<Rightarrow> auth_error + bool" where
  "identifierTaken env ident db =
     (case idType ident of
        IdentifierPhone \<Rightarrow> PhoneTaken (avFaults env) db (idValue ident)
      | IdentifierEmail \<Rightarrow> EmailTaken (avFaults env) db (idValue ident)
      | OtherIdentifier _ \<Rightarrow> Inl AuthIO)"

text \<open>\<open>createUser\<close>: the entity; its creation time is never set.\<close>

definition new_user :: "go_int \<Rightarrow> Identifier \<Rightarrow> string \<Rightarrow> string option \<Rightarrow> User" where
  "new_user i ident display username =
     \<lparr>uID = i, uUsername = username, uDisplayName = display,
      uPhoneNumber = (if idType ident = IdentifierPhone then Some (idValue ident) else None),
      uEmail = (if idType ident = IdentifierEmail then Some (idValue ident) else None),
      uAccountState = AccountActive,
      uPrimaryIdentifier = (if idType ident = IdentifierEmail then PrimaryEmail else PrimaryPhone),
      uTokenVersion = 0, uCreatedAt = zero_time, uUpdatedAt = zero_time\<rparr>"

definition createUser :: "AuthEnv \<Rightarrow> Identifier \<Rightarrow> string \<Rightarrow> string option \<Rightarrow> AuthDB \<Rightarrow> auth_error + (User \<times> AuthDB)" where
  "createUser env ident display username db =
     rbind (acall (avFaults env) CallUserID) (\<lambda>_.
     let u = new_user (avUserID env) ident display username in
     rbind (User_Create (avFaults env) u db) (\<lambda>(_, db1). Inr (u, db1)))"

definition hash_password :: "AuthEnv \<Rightarrow> string \<Rightarrow> auth_error + string" where
  "hash_password env plaintext =
     (if plaintext = [] then Inl AuthIO else rbind (acall (avFaults env) CallHash) (\<lambda>_. Inr (avPasswordHash env)))"

definition createPasswordCredential :: "AuthEnv \<Rightarrow> go_int \<Rightarrow> string \<Rightarrow> AuthDB \<Rightarrow> auth_error + (unit \<times> AuthDB)" where
  "createPasswordCredential env u password db =
     rbind (hash_password env password) (\<lambda>hash.
     rbind (acall (avFaults env) CallCredentialID) (\<lambda>_.
     Credential_Create (avFaults env) (NewPasswordCredential (avCredentialID env) u hash (avClock env)) db))"

definition createSession ::
  "Crypto \<Rightarrow> AuthConfig \<Rightarrow> AuthEnv \<Rightarrow> go_int \<Rightarrow> DeviceInfo \<Rightarrow> string option \<Rightarrow> string option \<Rightarrow> go_int \<Rightarrow> AuthDB \<Rightarrow>
     auth_error + ((Session \<times> TokenPair) \<times> AuthDB)" where
  "createSession k cfg env u device ip ua tokenVersion db =
     rbind (acall (avFaults env) CallSessionID) (\<lambda>_.
     rbind (IssuePair k cfg env (avSessionID env) u (dvID device) tokenVersion (avClock env)) (\<lambda>pair.
     let s = issued k pair (new_session (avSessionID env) u device ip ua (avClock env)) in
     rbind (Session_Create (avFaults env) (avInet env) (avDBNow env) s db) (\<lambda>(_, db1). Inr ((s, pair), db1))))"

definition register_tx ::
  "Crypto \<Rightarrow> AuthConfig \<Rightarrow> AuthEnv \<Rightarrow> Identifier \<Rightarrow> string \<Rightarrow> string option \<Rightarrow> RegisterCommand \<Rightarrow> AuthDB \<Rightarrow> auth_error + (LoginResult \<times> AuthDB)" where
  "register_tx k cfg env ident display username cmd db =
     rbind (createUser env ident display username db) (\<lambda>(user, db1).
     rbind (case rgPassword cmd of None \<Rightarrow> Inr ((), db1) | Some p \<Rightarrow> createPasswordCredential env (uID user) p db1) (\<lambda>(_, db2).
     rbind (createSession k cfg env (uID user) (rgDevice cmd) (rgIPAddress cmd) (rgUserAgent cmd) (uTokenVersion user) db2) (\<lambda>((s, pair), db3).
     Inr (\<lparr>lrUser = user, lrSession = s, lrTokenPair = pair\<rparr>, db3))))"

definition Register :: "Crypto \<Rightarrow> AuthConfig \<Rightarrow> AuthEnv \<Rightarrow> RegisterCommand \<Rightarrow> LoginResult auth" where
  "Register k cfg env cmd =
     abind (alift (NewIdentifier (rgIdentifierType cmd) (rgIdentifier cmd))) (\<lambda>ident.
     abind (alift (NewDisplayName (rgDisplayName cmd))) (\<lambda>display.
     abind (alift (case rgUsername cmd of None \<Rightarrow> Inr None | Some u \<Rightarrow> rbind (NewUsername u) (\<lambda>v. Inr (Some v)))) (\<lambda>username.
     abind (alift (case rgPassword cmd of None \<Rightarrow> Inr () | Some p \<Rightarrow> ValidatePassword p (idValue ident))) (\<lambda>_.
     abind (verify_otp k env ident (rgOTPCode cmd)) (\<lambda>_.
     abind (aread (identifierTaken env ident)) (\<lambda>taken.
     if taken then afail ErrIdentifierTaken else
     abind (case username of None \<Rightarrow> areturn False | Some u \<Rightarrow> aread (\<lambda>db. UsernameTaken (avFaults env) db u)) (\<lambda>held.
     if held then afail ErrUsernameTaken else
     in_tx (avFaults env) (register_tx k cfg env ident display username cmd))))))))"

section \<open>Step-up\<close>

record Reauth =
  raMethod :: LoginMethod
  raPassword :: string
  raOTPCode :: string

definition primaryIdentifier :: "User \<Rightarrow> auth_error + Identifier" where
  "primaryIdentifier u =
     (if uPrimaryIdentifier u = PrimaryEmail
      then (case uEmail u of None \<Rightarrow> Inl (ValidationError ''identifier'' ''no_email'') | Some e \<Rightarrow> NewIdentifier IdentifierEmail e)
      else (case uPhoneNumber u of None \<Rightarrow> Inl (ValidationError ''identifier'' ''no_phone'') | Some p \<Rightarrow> NewIdentifier IdentifierPhone p))"

definition reauth :: "Crypto \<Rightarrow> AuthEnv \<Rightarrow> User \<Rightarrow> Reauth \<Rightarrow> unit auth" where
  "reauth k env user r =
     (case raMethod r of
        LoginMethodPassword \<Rightarrow>
          aread (\<lambda>db. rbind (password_matches k env (uID user) (raPassword r) db) (\<lambda>ok. ensure ok ErrInvalidCredentials))
      | LoginMethodOTP \<Rightarrow>
          abind (alift (primaryIdentifier user)) (\<lambda>ident s.
            (case verify_otp k env ident (raOTPCode r) s of
               (Inl e, s1) \<Rightarrow> (Inl (if e \<in> {ErrOTPInvalid, ErrOTPExpired} then ErrInvalidCredentials else e), s1)
             | (Inr _, s1) \<Rightarrow> (Inr (), s1)))
      | _ \<Rightarrow> afail (ValidationError ''reauth'' ''unsupported_method''))"

definition issueAuthToken ::
  "Crypto \<Rightarrow> AuthEnv \<Rightarrow> go_int \<Rightarrow> TokenPurpose \<Rightarrow> json \<Rightarrow> go_time \<Rightarrow> AuthDB \<Rightarrow> auth_error + (string \<times> AuthDB)" where
  "issueAuthToken k env u purpose payload ttl db =
     rbind (acall (avFaults env) CallRandom) (\<lambda>_.
     rbind (Token_Create (avFaults env)
       \<lparr>atID = 0, atUserID = u, atPurpose = purpose, atTokenHash = kHash k (avToken env), atData = payload,
        atExpiresAt = avClock env + ttl, atUsedAt = None, atCreatedAt = avClock env\<rparr> db) (\<lambda>(_, db1).
     Inr (avToken env, db1)))"

definition setPassword :: "AuthEnv \<Rightarrow> go_int \<Rightarrow> string \<Rightarrow> AuthDB \<Rightarrow> auth_error + (unit \<times> AuthDB)" where
  "setPassword env u plaintext db =
     rbind (hash_password env plaintext) (\<lambda>hash. ReplacePassword (avFaults env) (avDBNow env) u hash db)"

text \<open>\<open>active_user\<close>: the lookup and the state check the authenticated flows begin with.\<close>

definition active_user :: "AuthEnv \<Rightarrow> go_int \<Rightarrow> AuthDB \<Rightarrow> auth_error + User" where
  "active_user env i db =
     rbind (User_FindByID (avFaults env) db i) (\<lambda>u.
     if uAccountState u \<noteq> AccountActive then Inl ErrAccountSuspended else Inr u)"

section \<open>Passwords\<close>

record RequestResult =
  rqToken :: string
  rqExpiresIn :: int

definition RequestPasswordReset :: "Crypto \<Rightarrow> AuthConfig \<Rightarrow> AuthEnv \<Rightarrow> IdentifierType \<Rightarrow> string \<Rightarrow> string option \<Rightarrow> RequestResult auth" where
  "RequestPasswordReset k cfg env ty raw ip =
     (let expiresIn = cfPasswordResetTTL cfg div 1000000 in
      abind (alift (NewIdentifier ty raw)) (\<lambda>ident s.
        (case findUser env ident (asDB s) of
           Inl e \<Rightarrow>
             if e \<noteq> ErrUserNotFound then (Inl e, s)
             else abind (audit env None ''auth.password_reset_requested'' None ip [(''identifier'', idValue ident)])
                    (\<lambda>_. areturn \<lparr>rqToken = [], rqExpiresIn = expiresIn\<rparr>) s
         | Inr user \<Rightarrow>
             if uAccountState user = AccountDeleted
             then abind (audit env None ''auth.password_reset_requested'' None ip [(''identifier'', idValue ident)])
                    (\<lambda>_. areturn \<lparr>rqToken = [], rqExpiresIn = expiresIn\<rparr>) s
             else if uAccountState user = AccountSuspended
             then abind (audit env (Some (uID user)) ''auth.password_reset_requested'' (Some (uID user)) ip [(''blocked'', ''suspended'')])
                    (\<lambda>_. areturn \<lparr>rqToken = [], rqExpiresIn = expiresIn\<rparr>) s
             else
               abind (in_tx (avFaults env) (issueAuthToken k env (uID user) PurposePasswordReset (JObj []) (cfPasswordResetTTL cfg))) (\<lambda>raw.
               abind (audit env (Some (uID user)) ''auth.password_reset_requested'' (Some (uID user)) ip []) (\<lambda>_.
               abind (notify (uID user) ''password_reset'' []) (\<lambda>_.
               areturn \<lparr>rqToken = raw, rqExpiresIn = expiresIn\<rparr>))) s)))"

text \<open>
  The bodies of the flows that consume a token.  A refusal carries the reason of its audit entry, if
  it has one.
\<close>

definition claim_token ::
  "AuthEnv \<Rightarrow> string \<Rightarrow> TokenPurpose \<Rightarrow> AuthDB \<Rightarrow> (auth_error \<times> string option) + (AuthToken \<times> AuthDB)" where
  "claim_token env h purpose db =
     (case Consume (avFaults env) (avDBNow env) h db of
        Inl e \<Rightarrow> Inl (e, if e = ErrRecoveryTokenInvalid then Some ''token_invalid'' else None)
      | Inr (tok, db1) \<Rightarrow>
          if atPurpose tok \<noteq> purpose then Inl (ErrRecoveryTokenInvalid, Some ''wrong_purpose'') else Inr (tok, db1))"

definition silently :: "auth_error + 'a \<Rightarrow> (auth_error \<times> string option) + 'a" where
  "silently r = (case r of Inl e \<Rightarrow> Inl (e, None) | Inr x \<Rightarrow> Inr x)"

definition reset_tx :: "AuthEnv \<Rightarrow> string \<Rightarrow> string \<Rightarrow> AuthDB \<Rightarrow> (auth_error \<times> string option) + (go_int \<times> AuthDB)" where
  "reset_tx env h newPassword db =
     rbind (claim_token env h PurposePasswordReset db) (\<lambda>(tok, db1).
     case User_FindByID (avFaults env) db (atUserID tok) of
       Inl e \<Rightarrow> Inl (if e = ErrUserNotFound then ErrRecoveryTokenInvalid else e, None)
     | Inr user \<Rightarrow>
         if uAccountState user = AccountDeleted then Inl (ErrRecoveryTokenInvalid, Some ''account_deleted'')
         else if uAccountState user = AccountSuspended then Inl (ErrAccountSuspended, None)
         else
           silently
             (rbind (setPassword env (uID user) newPassword db1) (\<lambda>(_, db2).
              rbind (BumpTokenVersion (avFaults env) (avDBNow env) (uID user) db2) (\<lambda>(_, db3).
              rbind (SuspendAllByUserID (avFaults env) (avDBNow env) (uID user) db3) (\<lambda>(_, db4).
              Inr (uID user, db4))))))"

definition token_flow ::
  "AuthEnv \<Rightarrow> string \<Rightarrow> string option \<Rightarrow> (AuthDB \<Rightarrow> (auth_error \<times> string option) + ('a \<times> AuthDB)) \<Rightarrow> 'a auth" where
  "token_flow env action ip body s =
     (if avFaults env CallBeginAuth then (Inl AuthIO, s)
      else case body (asDB s) of
             Inl (e, note) \<Rightarrow>
               (Inl e, case note of None \<Rightarrow> s | Some reason \<Rightarrow> snd (audit env None action None ip [(''reason'', reason)] s))
           | Inr (x, db) \<Rightarrow> if avFaults env CallCommitAuth then (Inl AuthIO, s) else (Inr x, s\<lparr>asDB := db\<rparr>))"

definition ResetPassword :: "Crypto \<Rightarrow> AuthEnv \<Rightarrow> string \<Rightarrow> string \<Rightarrow> string option \<Rightarrow> unit auth" where
  "ResetPassword k env token newPassword ip =
     (if \<not> IsOpaqueTokenShape token
      then abind (audit env None ''auth.password_reset_failed'' None ip [(''reason'', ''malformed'')]) (\<lambda>_. afail ErrRecoveryTokenInvalid)
      else
        abind (alift (ValidatePassword newPassword [])) (\<lambda>_.
        abind (token_flow env ''auth.password_reset_failed'' ip (reset_tx env (kHash k token) newPassword)) (\<lambda>u.
        abind (audit env (Some u) ''auth.password_reset'' (Some u) ip []) (\<lambda>_.
        notify u ''password_reset_completed'' []))))"

definition ChangePassword :: "Crypto \<Rightarrow> AuthEnv \<Rightarrow> go_int \<Rightarrow> go_int \<Rightarrow> Reauth \<Rightarrow> string \<Rightarrow> string option \<Rightarrow> unit auth" where
  "ChangePassword k env userID sessionID r newPassword ip =
     abind (alift (ValidatePassword newPassword [])) (\<lambda>_.
     abind (aread (active_user env userID)) (\<lambda>user.
     abind (reauth k env user r) (\<lambda>_.
     abind (in_tx (avFaults env) (\<lambda>db.
       rbind (setPassword env (uID user) newPassword db) (\<lambda>(_, db1).
       rbind (BumpTokenVersion (avFaults env) (avDBNow env) (uID user) db1) (\<lambda>(_, db2).
       SuspendOthersByUserID (avFaults env) (avDBNow env) (uID user) sessionID db2)))) (\<lambda>_.
     abind (audit env (Some (uID user)) ''auth.password_changed'' (Some (uID user)) ip []) (\<lambda>_.
     notify (uID user) ''password_changed'' [])))))"

section \<open>Changing an identifier\<close>

definition request_change ::
  "Crypto \<Rightarrow> AuthConfig \<Rightarrow> AuthEnv \<Rightarrow> IdentifierType \<Rightarrow> string \<Rightarrow> TokenPurpose \<Rightarrow> (User \<Rightarrow> string option) \<Rightarrow>
     (AuthDB \<Rightarrow> string \<Rightarrow> auth_error + bool) \<Rightarrow> go_int \<Rightarrow> string \<Rightarrow> Reauth \<Rightarrow> string option \<Rightarrow> RequestResult auth" where
  "request_change k cfg env ty name purpose current taken userID raw r ip =
     abind (alift (NewIdentifier ty raw)) (\<lambda>ident.
     abind (aread (active_user env userID)) (\<lambda>user.
     abind (reauth k env user r) (\<lambda>_.
     if current user = Some (idValue ident) then afail (ValidationError name ''unchanged'') else
     abind (aread (\<lambda>db. taken db (idValue ident))) (\<lambda>held.
     if held then afail ErrIdentifierTaken else
     abind (in_tx (avFaults env) (issueAuthToken k env (uID user) purpose (JObj [(name, JStr (idValue ident))]) (cfChangeTTL cfg))) (\<lambda>tok.
     abind (audit env (Some (uID user)) (''auth.'' @ name @ ''_change_requested'') (Some (uID user)) ip [(name, idValue ident)]) (\<lambda>_.
     areturn \<lparr>rqToken = tok, rqExpiresIn = cfChangeTTL cfg div 1000000\<rparr>))))))"

definition RequestEmailChange :: "Crypto \<Rightarrow> AuthConfig \<Rightarrow> AuthEnv \<Rightarrow> go_int \<Rightarrow> string \<Rightarrow> Reauth \<Rightarrow> string option \<Rightarrow> RequestResult auth" where
  "RequestEmailChange k cfg env = request_change k cfg env IdentifierEmail ''email'' PurposeEmailChange uEmail (EmailTaken (avFaults env))"

definition RequestPhoneChange :: "Crypto \<Rightarrow> AuthConfig \<Rightarrow> AuthEnv \<Rightarrow> go_int \<Rightarrow> string \<Rightarrow> Reauth \<Rightarrow> string option \<Rightarrow> RequestResult auth" where
  "RequestPhoneChange k cfg env = request_change k cfg env IdentifierPhone ''phone'' PurposePhoneChange uPhoneNumber (PhoneTaken (avFaults env))"

definition confirm_tx ::
  "AuthEnv \<Rightarrow> string \<Rightarrow> TokenPurpose \<Rightarrow> AuthDB \<Rightarrow> (auth_error \<times> string option) + (go_int \<times> AuthDB)" where
  "confirm_tx env h purpose db =
     rbind (claim_token env h purpose db) (\<lambda>(tok, db1).
     case User_FindByID (avFaults env) db (atUserID tok) of
       Inl e \<Rightarrow> Inl (if e = ErrUserNotFound then ErrRecoveryTokenInvalid else e, None)
     | Inr user \<Rightarrow>
         if uAccountState user \<noteq> AccountActive then Inl (ErrAccountSuspended, None)
         else
           (case purpose of
              PurposeEmailChange \<Rightarrow>
                (case PendingEmail tok of None \<Rightarrow> Inl (ErrRecoveryTokenInvalid, None)
                 | Some email \<Rightarrow> silently (rbind (SetEmail (avFaults env) (avDBNow env) (uID user) email db1) (\<lambda>(_, db2). Inr (uID user, db2))))
            | PurposePhoneChange \<Rightarrow>
                (case PendingPhone tok of None \<Rightarrow> Inl (ErrRecoveryTokenInvalid, None)
                 | Some phone \<Rightarrow> silently (rbind (SetPhone (avFaults env) (avDBNow env) (uID user) phone db1) (\<lambda>(_, db2). Inr (uID user, db2))))
            | PurposePasswordReset \<Rightarrow> Inr (uID user, db1)))"

text \<open>The audit entry of the change is written before the commit, on the pool.\<close>

definition confirmIdentifierChange :: "Crypto \<Rightarrow> AuthEnv \<Rightarrow> string \<Rightarrow> string option \<Rightarrow> TokenPurpose \<Rightarrow> unit auth" where
  "confirmIdentifierChange k env token ip purpose =
     (let failed = ''auth.identifier_change_failed'';
          changed = (case purpose of PurposeEmailChange \<Rightarrow> ''auth.email_changed'' | _ \<Rightarrow> ''auth.phone_changed'') in
      if \<not> IsOpaqueTokenShape token
      then abind (audit env None failed None ip [(''reason'', ''malformed'')]) (\<lambda>_. afail ErrRecoveryTokenInvalid)
      else (\<lambda>s.
        if avFaults env CallBeginAuth then (Inl AuthIO, s)
        else case confirm_tx env (kHash k token) purpose (asDB s) of
               Inl (e, note) \<Rightarrow>
                 (Inl e, case note of None \<Rightarrow> s | Some reason \<Rightarrow> snd (audit env None failed None ip [(''reason'', reason)] s))
             | Inr (u, db) \<Rightarrow>
                 let s1 = snd (audit env (Some u) changed (Some u) ip [] s) in
                 if avFaults env CallCommitAuth then (Inl AuthIO, s1)
                 else notify u ''identifier_changed'' [] (s1\<lparr>asDB := db\<rparr>)))"

definition ConfirmEmailChange :: "Crypto \<Rightarrow> AuthEnv \<Rightarrow> string \<Rightarrow> string option \<Rightarrow> unit auth" where
  "ConfirmEmailChange k env token ip = confirmIdentifierChange k env token ip PurposeEmailChange"

definition ConfirmPhoneChange :: "Crypto \<Rightarrow> AuthEnv \<Rightarrow> string \<Rightarrow> string option \<Rightarrow> unit auth" where
  "ConfirmPhoneChange k env token ip = confirmIdentifierChange k env token ip PurposePhoneChange"

section \<open>Deletion and restoration\<close>

definition DeleteAccount :: "Crypto \<Rightarrow> AuthEnv \<Rightarrow> go_int \<Rightarrow> Reauth \<Rightarrow> string option \<Rightarrow> unit auth" where
  "DeleteAccount k env userID r ip =
     abind (aread (\<lambda>db. rbind (User_FindByID (avFaults env) db userID) (\<lambda>u.
       case uAccountState u of
         AccountDeleted \<Rightarrow> Inl ErrAccountAlreadyDeleted
       | AccountSuspended \<Rightarrow> Inl ErrAccountSuspended
       | AccountActive \<Rightarrow> Inr u))) (\<lambda>user.
     abind (reauth k env user r) (\<lambda>_.
     abind (in_tx (avFaults env) (\<lambda>db.
       rbind (MarkDeleted (avFaults env) (avDBNow env) (uID user) (avClock env) db) (\<lambda>(_, db1).
       rbind (RevokeAllByUserID (avFaults env) (avDBNow env) (uID user) db1) (\<lambda>(_, db2).
       BumpTokenVersion (avFaults env) (avDBNow env) (uID user) db2)))) (\<lambda>_.
     abind (audit env (Some (uID user)) ''account.deleted'' (Some (uID user)) ip []) (\<lambda>_.
     notify (uID user) ''account_deleted'' []))))"

definition RestoreAccount :: "Crypto \<Rightarrow> AuthConfig \<Rightarrow> AuthEnv \<Rightarrow> IdentifierType \<Rightarrow> string \<Rightarrow> string \<Rightarrow> string option \<Rightarrow> unit auth" where
  "RestoreAccount k cfg env ty raw code ip =
     abind (alift (NewIdentifier ty raw)) (\<lambda>ident.
     abind (\<lambda>s. case verify_otp k env ident code s of
              (Inl _, s1) \<Rightarrow> (Inl ErrInvalidCredentials, s1) | (Inr _, s1) \<Rightarrow> (Inr (), s1)) (\<lambda>_.
     abind (aread (\<lambda>db.
       (case (case idType ident of
                IdentifierPhone \<Rightarrow> find_deleted_by (avFaults env) db uPhoneNumber (idValue ident)
              | IdentifierEmail \<Rightarrow> find_deleted_by (avFaults env) db uEmail (idValue ident)
              | OtherIdentifier _ \<Rightarrow> Inl (ValidationError ''identifier_type'' ''unsupported'')) of
          Inl e \<Rightarrow> Inl (if e = ErrUserNotFound then ErrInvalidCredentials else e)
        | Inr u \<Rightarrow> Inr u))) (\<lambda>user.
     abind (in_tx (avFaults env) (\<lambda>db.
       rbind (Restore (avFaults env) (avDBNow env) (uID user) (avClock env - cfDeletionGrace cfg) db) (\<lambda>(_, db1).
       RevokeAllByUserID (avFaults env) (avDBNow env) (uID user) db1))) (\<lambda>_.
     abind (audit env (Some (uID user)) ''account.restored'' (Some (uID user)) ip []) (\<lambda>_.
     notify (uID user) ''account_restored'' [])))))"

text \<open>The purge clears the account from the login history and the audit trail it leaves behind.\<close>

definition forget :: "go_int list \<Rightarrow> AuthState \<Rightarrow> AuthState" where
  "forget ids s =
     s\<lparr>asHistory := upd_where (\<lambda>e. leUserID e \<in> Some ` set ids) (\<lambda>e. e\<lparr>leUserID := None\<rparr>) (asHistory s),
       asAudit := upd_where (\<lambda>e. aeActorUserID e \<in> Some ` set ids) (\<lambda>e. e\<lparr>aeActorUserID := None\<rparr>) (asAudit s)\<rparr>"

definition PurgeDeletedAccounts :: "AuthConfig \<Rightarrow> AuthEnv \<Rightarrow> int auth" where
  "PurgeDeletedAccounts cfg env s =
     (let cutoff = avClock env - cfDeletionGrace cfg in
      case PurgeDeleted (avFaults env) cutoff (asDB s) of
        Inl e \<Rightarrow> (Inl e, s)
      | Inr (n, db) \<Rightarrow> (Inr n, (forget (purge_due cutoff (asDB s)) s)\<lparr>asDB := db\<rparr>))"

section \<open>Login history\<close>

record LoginEventInfo =
  liID :: int
  liMethod :: LoginMethod
  liSuccess :: bool
  liNewDevice :: bool
  liDeviceID :: string
  liIPAddress :: "string option"
  liUserAgent :: "string option"
  liIdentifier :: string
  liCreatedAt :: go_time

definition LoginHistory_ListByUser :: "AuthEnv \<Rightarrow> LoginEvent list \<Rightarrow> go_int \<Rightarrow> int \<Rightarrow> auth_error + LoginEvent list" where
  "LoginHistory_ListByUser env history userID limit =
     rbind (acall (avFaults env) CallHistoryList) (\<lambda>_.
       Inr (take (nat (if limit \<le> 0 then 50 else limit))
         (sort_key (\<lambda>e. - leCreatedAt e) (sort_key (\<lambda>e. - leID e) (filter (\<lambda>e. leUserID e = Some userID) history)))))"

definition history_limit :: "int \<Rightarrow> int" where
  "history_limit limit = (if limit \<le> 0 \<or> limit > 100 then 20 else limit)"

definition login_event_info :: "LoginEvent \<Rightarrow> LoginEventInfo" where
  "login_event_info e = \<lparr>liID = leID e, liMethod = leMethod e, liSuccess = leSuccess e, liNewDevice = leNewDevice e,
     liDeviceID = leDeviceID e, liIPAddress = leIPAddress e, liUserAgent = leUserAgent e, liIdentifier = leIdentifier e,
     liCreatedAt = leCreatedAt e\<rparr>"

definition ListLoginHistory :: "AuthEnv \<Rightarrow> go_int \<Rightarrow> int \<Rightarrow> LoginEventInfo list auth" where
  "ListLoginHistory env userID limit s =
     (rbind (LoginHistory_ListByUser env (asHistory s) userID (history_limit limit)) (\<lambda>events.
       Inr (map login_event_info events)), s)"

end
