(* ===== verification/AuthSafety.thy ===== *)
theory AuthSafety
  imports AuthAccount
begin

text \<open>
  What committed transactions of the authentication module can do to its tables.  \<open>db_step\<close> lists the
  changes of the store operations; a run of such steps contains every interleaving of the use cases'
  transactions, with whatever stale rows they read before.  What is new in a step is drawn from
  \<open>Fresh\<close>: the ids of new accounts, the hashes of new refresh tokens and of new recovery tokens.
\<close>

record Fresh =
  frUser :: "go_int \<Rightarrow> bool"
  frHash :: "string \<Rightarrow> bool"
  frToken :: "string \<Rightarrow> bool"

inductive db_step :: "Fresh \<Rightarrow> AuthDB \<Rightarrow> AuthDB \<Rightarrow> bool" for F where
  db_user: "frUser F (uID u) \<Longrightarrow> User_Create fl u db = Inr (x, db') \<Longrightarrow> db_step F db db'"
| db_bump: "BumpTokenVersion fl now i db = Inr (n, db') \<Longrightarrow> db_step F db db'"
| db_email: "SetEmail fl now i v db = Inr (x, db') \<Longrightarrow> db_step F db db'"
| db_phone: "SetPhone fl now i v db = Inr (x, db') \<Longrightarrow> db_step F db db'"
| db_deleted: "MarkDeleted fl now i t db = Inr (x, db') \<Longrightarrow> db_step F db db'"
| db_restored: "Restore fl now i t db = Inr (x, db') \<Longrightarrow> db_step F db db'"
| db_purged: "PurgeDeleted fl t db = Inr (n, db') \<Longrightarrow> db_step F db db'"
| db_credential: "Credential_Create fl c db = Inr (x, db') \<Longrightarrow> db_step F db db'"
| db_password: "ReplacePassword fl now i h db = Inr (x, db') \<Longrightarrow> db_step F db db'"
| db_session: "frHash F (seHash s) \<Longrightarrow> Session_Create fl inet now s db = Inr (x, db') \<Longrightarrow> db_step F db db'"
| db_session_update: "frHash F (seHash s) \<Longrightarrow> Session_Update fl inet now s db = Inr (x, db') \<Longrightarrow> db_step F db db'"
| db_rotated: "frHash F (seHash s) \<Longrightarrow> Session_Rotate fl now s h db = Inr (x, db') \<Longrightarrow> db_step F db db'"
| db_state: "st \<noteq> SessionActive \<Longrightarrow> db_step F db (set_state now st P db)"
| db_renamed: "Session_Rename fl now u i name db = Inr (x, db') \<Longrightarrow> db_step F db db'"
| db_sessions_purged: "Session_Purge fl t db = Inr (n, db') \<Longrightarrow> db_step F db db'"
| db_token: "frToken F (atTokenHash t) \<Longrightarrow> Token_Create fl t db = Inr (x, db') \<Longrightarrow> db_step F db db'"
| db_consumed: "Consume fl now h db = Inr (t, db') \<Longrightarrow> db_step F db db'"

definition db_run :: "Fresh \<Rightarrow> AuthDB \<Rightarrow> AuthDB \<Rightarrow> bool" where
  "db_run F = (db_step F)\<^sup>*\<^sup>*"

lemma db_run_refl [simp, intro]: "db_run F db db"
  by (simp add: db_run_def)

lemma db_run_trans: "db_run F a b \<Longrightarrow> db_run F b c \<Longrightarrow> db_run F a c"
  unfolding db_run_def by (rule rtranclp_trans)

lemma db_run_step: "db_step F a b \<Longrightarrow> db_run F a b"
  unfolding db_run_def by (rule r_into_rtranclp)

lemma db_run_induct [consumes 1, case_names refl step]:
  "db_run F a b \<Longrightarrow> P a \<Longrightarrow> (\<And>x y. db_step F x y \<Longrightarrow> P x \<Longrightarrow> P y) \<Longrightarrow> P b"
  unfolding db_run_def by (induction rule: rtranclp_induct) auto

section \<open>The use cases are runs\<close>

text \<open>What a request brings along is fresh.\<close>

definition env_fresh :: "Fresh \<Rightarrow> Crypto \<Rightarrow> AuthEnv \<Rightarrow> bool" where
  "env_fresh F k env \<longleftrightarrow> frUser F (avUserID env) \<and> frHash F (kHash k (avToken env)) \<and> frToken F (kHash k (avToken env))"

definition body_runs :: "Fresh \<Rightarrow> (AuthDB \<Rightarrow> 'e + ('a \<times> AuthDB)) \<Rightarrow> bool" where
  "body_runs F body \<longleftrightarrow> (\<forall>db x db'. body db = Inr (x, db') \<longrightarrow> db_run F db db')"

definition runs :: "Fresh \<Rightarrow> 'a auth \<Rightarrow> bool" where
  "runs F m \<longleftrightarrow> (\<forall>s. db_run F (asDB s) (asDB (snd (m s))))"

named_theorems run_rules \<open>use cases and their parts only make steps of the store\<close>

lemma body_runsD: "body_runs F body \<Longrightarrow> body db = Inr (x, db') \<Longrightarrow> db_run F db db'"
  by (simp add: body_runs_def)

lemma body_runs_bind [run_rules]:
  "body_runs F m \<Longrightarrow> (\<And>x. body_runs F (f x)) \<Longrightarrow> body_runs F (\<lambda>db. rbind (m db) (\<lambda>(x, db1). f x db1))"
  unfolding body_runs_def
  by (clarsimp split: sum.splits) (blast intro: db_run_trans)

lemma body_runs_read [run_rules]:
  "(\<And>x. body_runs F (f x)) \<Longrightarrow> body_runs F (\<lambda>db. rbind (r db) (\<lambda>x. f x db))"
  unfolding body_runs_def by auto

lemma body_runs_pure [run_rules]: "body_runs F (\<lambda>db. Inr (x, db))"
  by (simp add: body_runs_def)

lemma body_runs_fail [run_rules]: "body_runs F (\<lambda>db. Inl e)"
  by (simp add: body_runs_def)

lemma runs_abind [run_rules]:
  assumes "runs F m" and "\<And>x. runs F (f x)"
  shows "runs F (abind m f)"
  unfolding runs_def
proof
  fix s
  obtain r s1 where m: "m s = (r, s1)" by fastforce
  have "db_run F (asDB s) (asDB s1)" using assms(1) m unfolding runs_def by (metis snd_conv)
  moreover have "db_run F (asDB s1) (asDB (snd (f x s1)))" for x using assms(2) by (simp add: runs_def)
  ultimately show "db_run F (asDB s) (asDB (snd (abind m f s)))"
    by (auto simp: abind_def m intro: db_run_trans split: sum.splits)
qed

lemma runs_tx [run_rules]: "body_runs F body \<Longrightarrow> runs F (in_tx fl body)"
  by (auto simp: runs_def in_tx_def body_runs_def split: sum.splits)

lemma runs_pool [run_rules]: "body_runs F body \<Longrightarrow> runs F (pool_exec body)"
  by (auto simp: runs_def pool_exec_def body_runs_def split: sum.splits)

lemma runs_token_flow [run_rules]:
  assumes "body_runs F body"
  shows "runs F (token_flow env action ip body)"
  using assms by (auto simp: runs_def token_flow_def body_runs_def audit_def split: sum.splits option.splits)

lemma runs_keep: "(\<And>s. asDB (snd (m s)) = asDB s) \<Longrightarrow> runs F m"
  by (simp add: runs_def)

lemma runs_quiet [run_rules]:
  "runs F (areturn x)" "runs F (afail e)" "runs F (aread r)" "runs F (alift y)"
  "runs F (audit env a act res ip ds)" "runs F (notify u ev ds)"
  "runs F (recordLogin env u' i me ok nd d ip ua)" "runs F (check_lockout cfg env key)"
  "runs F (recordFailure cfg env key)" "runs F (clear_throttle env key)" "runs F (verify_otp k env ident code)"
  by (rule runs_keep; simp add: audit_def notify_def recordLogin_def check_lockout_def recordFailure_def clear_throttle_def
      verify_otp_def Let_def split: prod.splits)+

lemma runs_if [run_rules]: "(b \<Longrightarrow> runs F m) \<Longrightarrow> (\<not> b \<Longrightarrow> runs F n) \<Longrightarrow> runs F (if b then m else n)"
  by simp

subsection \<open>Store operations\<close>

lemma body_runs_ops [run_rules]:
  "body_runs F (BumpTokenVersion fl now i)" "body_runs F (SetEmail fl now i v)" "body_runs F (SetPhone fl now i v)"
  "body_runs F (MarkDeleted fl now i t)" "body_runs F (Restore fl now i t)" "body_runs F (ReplacePassword fl now i h)"
  "body_runs F (Credential_Create fl c)" "body_runs F (Session_Rename fl now u i name)" "body_runs F (Session_Purge fl t)"
  "body_runs F (Consume fl now h)"
  "frUser F (uID u') \<Longrightarrow> body_runs F (User_Create fl u')"
  "frHash F (seHash s) \<Longrightarrow> body_runs F (Session_Create fl inet now s)"
  "frHash F (seHash s) \<Longrightarrow> body_runs F (Session_Update fl inet now s)"
  "frHash F (seHash s) \<Longrightarrow> body_runs F (Session_Rotate fl now s h)"
  "frToken F (atTokenHash t') \<Longrightarrow> body_runs F (Token_Create fl t')"
  unfolding body_runs_def by (blast intro: db_run_step db_step.intros)+

lemma body_runs_state [run_rules]:
  "st \<noteq> SessionActive \<Longrightarrow> body_runs F (state_of_others fl now st P)"
  "body_runs F (RevokeAllByUserID fl now u)" "body_runs F (RevokeOthersByUserID fl now u j)"
  "body_runs F (SuspendOthersByUserID fl now u j)" "body_runs F (SuspendAllByUserID fl now u)"
  "body_runs F (RevokeByID fl now u j)" "body_runs F (ExpireIdle fl dbnow now idle)"
  by (auto simp: body_runs_def state_of_others_def RevokeAllByUserID_def RevokeOthersByUserID_def SuspendOthersByUserID_def
      SuspendAllByUserID_def RevokeByID_def ExpireIdle_def Let_def split: if_splits intro!: db_run_step db_step.db_state)

subsection \<open>Login, refresh, registration\<close>

lemma seHash_issued [simp]: "seHash (issued k pair s) = kHash k (tpRefreshToken pair)"
  by (simp add: issued_def)

lemma IssuePair_token: "IssuePair k cfg env i u d v now = Inr pair \<Longrightarrow> tpRefreshToken pair = avToken env"
  by (auto simp: IssuePair_def)

lemma session_write:
  "Session_Create fl inet now s db = Inr (x, db') \<Longrightarrow> frHash F (seHash s) \<Longrightarrow> db_run F db db'"
  "Session_Update fl inet now s db = Inr (x, db') \<Longrightarrow> frHash F (seHash s) \<Longrightarrow> db_run F db db'"
  "Session_Rotate fl now s h db = Inr (x, db') \<Longrightarrow> frHash F (seHash s) \<Longrightarrow> db_run F db db'"
  by (rule db_run_step, erule (1) db_step.db_session db_step.db_session_update db_step.db_rotated)+

lemma body_runs_upsert [run_rules]:
  "env_fresh F k env \<Longrightarrow> body_runs F (upsertSession k cfg env u device ip ua now v)"
  unfolding body_runs_def upsertSession_def Let_def
  by (auto simp: env_fresh_def IssuePair_token split: sum.splits if_splits dest!: IssuePair_token elim!: session_write)

lemma body_runs_reuse: "body_runs F (reuseOrInvalid env h)"
  using body_runs_state(2)[of F "avFaults env" "avDBNow env"]
  unfolding body_runs_def reuseOrInvalid_def by (auto split: sum.splits if_splits)

lemma body_runs_refresh [run_rules]: "env_fresh F k env \<Longrightarrow> body_runs F (refresh_tx k cfg env h)"
  using body_runs_reuse[of F env h]
  unfolding body_runs_def refresh_tx_def Let_def
  by (auto simp: env_fresh_def IssuePair_token split: sum.splits if_splits elim!: session_write)

lemma asDB_audit [simp]: "asDB (snd (audit env a act res ip ds s)) = asDB s"
  by (simp add: audit_def)

lemma asDB_notify [simp]: "asDB (snd (notify u ev ds s)) = asDB s"
  by (simp add: notify_def)

lemma asDB_audit_refusal [simp]: "asDB (audit_refusal env ip note s) = asDB s"
  by (simp add: audit_refusal_def split: option.splits prod.splits)

lemma runs_verifyCredential [run_rules]: "runs F (verifyCredential k env user ident cmd)"
  by (rule runs_keep) (simp add: verifyCredential_def verify_otp_def Let_def split: LoginMethod.splits prod.splits sum.splits)

lemma runs_failed_login [run_rules]: "runs F (failed_login cfg env key cmd u ds)"
  unfolding failed_login_def by (intro run_rules)

lemma runs_open_session [run_rules]: "env_fresh F k env \<Longrightarrow> runs F (open_session k cfg env user key cmd nd)"
  unfolding open_session_def by (auto intro!: run_rules)

lemma runs_lambda: "(\<And>s. db_run F (asDB s) (asDB (snd (m s)))) \<Longrightarrow> runs F m"
  by (simp add: runs_def)

lemma runsD: "runs F m \<Longrightarrow> db_run F (asDB s) (asDB (snd (m s)))"
  by (simp add: runs_def)

lemma runs_admit [run_rules]:
  assumes "env_fresh F k env"
  shows "runs F (admit k cfg env user key cmd)"
proof -
  have open': "runs F (abind (if c then notify u ev ds else areturn ()) (\<lambda>_. open_session k cfg env user key cmd nd))" for c u ev ds nd
    by (intro runs_abind runs_if runs_quiet runs_open_session assms)
  have step_up: "runs F (abind (recordLogin env u i me ok nd d ip ua) (\<lambda>_. abind (audit env a act res ip' ds) (\<lambda>_. afail e)))"
    for u i me ok nd d ip ua a act res ip' ds and e :: auth_error
    by (intro runs_abind runs_quiet)
  show ?thesis
    unfolding admit_def Let_def
    by (rule runs_abind, rule runs_quiet, rule runs_lambda) (simp add: runsD [OF open'] runsD [OF step_up])
qed

lemma runs_Login_known [run_rules]:
  assumes "env_fresh F k env"
  shows "runs F (Login_known k cfg env ident cmd user)"
proof (cases "uAccountState user")
  case AccountActive
  then show ?thesis unfolding Login_known_def Let_def AccountState.case
    by simp (intro runs_abind runs_if runs_verifyCredential runs_failed_login runs_admit assms)
next
  case AccountSuspended
  then show ?thesis unfolding Login_known_def Let_def by simp (intro runs_abind runs_quiet)
next
  case AccountDeleted
  then show ?thesis unfolding Login_known_def Let_def by simp (rule runs_failed_login)
qed

lemma runs_Login [run_rules]: "env_fresh F k env \<Longrightarrow> runs F (Login k cfg env cmd)"
  unfolding Login_def Let_def
  by (intro runs_abind runs_quiet runs_if runs_lambda)
     (auto split: sum.split intro: runsD [OF runs_failed_login] runsD [OF runs_Login_known])

lemma runs_Refresh [run_rules]: "env_fresh F k env \<Longrightarrow> runs F (Refresh k cfg env cmd)"
  using body_runs_refresh[of F k env cfg "kHash k (rfRefreshToken cmd)"]
  unfolding runs_def body_runs_def Refresh_def Let_def
  by (auto split: sum.split refresh_outcome.split)

lemma body_runs_issue [run_rules]:
  assumes "env_fresh F k env"
  shows "body_runs F (issueAuthToken k env u purpose payload ttl)"
  using body_runs_ops(15)[of F "\<lparr>atID = 0, atUserID = u, atPurpose = purpose, atTokenHash = kHash k (avToken env), atData = payload,
    atExpiresAt = avClock env + ttl, atUsedAt = None, atCreatedAt = avClock env\<rparr>" "avFaults env"] assms
  by (auto simp: body_runs_def issueAuthToken_def env_fresh_def)

lemma body_runs_setPassword [run_rules]: "body_runs F (setPassword env u plaintext)"
  unfolding setPassword_def by (intro body_runs_read body_runs_ops)

lemma body_runs_register [run_rules]:
  assumes "env_fresh F k env"
  shows "body_runs F (register_tx k cfg env ident display username cmd)"
proof -
  have user: "createUser env ident display username db = Inr (u, db') \<Longrightarrow> db_run F db db'" for u db db'
    using assms by (auto simp: createUser_def new_user_def env_fresh_def Let_def intro!: db_run_step db_step.db_user)
  have password: "createPasswordCredential env u p db = Inr (x, db') \<Longrightarrow> db_run F db db'" for u p db x db'
    by (auto simp: createPasswordCredential_def intro: db_run_step db_step.db_credential)
  have session: "createSession k cfg env u device ip ua v db = Inr (x, db') \<Longrightarrow> db_run F db db'" for u device ip ua v db x db'
    using assms by (auto simp: createSession_def env_fresh_def Let_def dest!: IssuePair_token elim!: session_write)
  show ?thesis
    unfolding register_tx_def
    by (intro body_runs_bind)
       (auto simp: body_runs_def split: option.splits dest: user session password)
qed

lemma runs_Register [run_rules]: "env_fresh F k env \<Longrightarrow> runs F (Register k cfg env cmd)"
  unfolding Register_def
  by (intro runs_abind runs_if runs_quiet runs_tx body_runs_register) (auto split: option.split intro: runs_quiet)

subsection \<open>Sessions\<close>

lemma runs_session_audit [run_rules]: "runs F (session_audit env u action i extra)"
  unfolding session_audit_def by (rule runs_quiet)

lemma runs_sessions [run_rules]:
  "runs F (RenameSession env u i name)" "runs F (Logout env u i)" "runs F (LogoutOtherSessions env u i)"
  "runs F (LogoutAll env u)" "runs F (ExpireIdleSessions cfg env)" "runs F (PurgeRevokedSessions cfg env)"
  unfolding RenameSession_def Logout_def LogoutOtherSessions_def LogoutAll_def ExpireIdleSessions_def PurgeRevokedSessions_def
  by (intro runs_abind runs_tx runs_pool runs_quiet runs_if runs_session_audit body_runs_bind body_runs_read body_runs_pure
      body_runs_ops body_runs_state)+

lemma runs_LogoutSession [run_rules]: "runs F (LogoutSession env u i)"
  using body_runs_state(6)[of F "avFaults env" "avDBNow env" u i]
  by (auto simp: runs_def LogoutSession_def Let_def session_audit_def body_runs_def split: sum.split)

subsection \<open>Account security\<close>

lemma runs_reauth [run_rules]: "runs F (reauth k env user r)"
proof -
  have "runs F (\<lambda>s. case verify_otp k env ident code s of (Inl e, s1) \<Rightarrow> (Inl (g e), s1) | (Inr u, s1) \<Rightarrow> (Inr (), s1))"
    for ident code and g :: "auth_error \<Rightarrow> auth_error"
    by (rule runs_keep) (simp add: verify_otp_def Let_def split: prod.splits sum.splits)
  then show ?thesis
    unfolding reauth_def by (auto split: LoginMethod.split intro!: runs_abind runs_quiet)
qed

lemma body_runs_claim: "body_runs F (claim_token env h purpose)"
  using body_runs_ops(10)[of F "avFaults env" "avDBNow env" h]
  by (auto simp: body_runs_def claim_token_def split: sum.splits if_splits)

lemma silently_Inr [simp]: "silently r = Inr x \<longleftrightarrow> r = Inr x"
  by (auto simp: silently_def split: sum.splits)

lemma body_runs_silently: "body_runs F m \<Longrightarrow> body_runs F (\<lambda>db. silently (m db))"
  by (simp add: body_runs_def)

lemma reset_tx_Inr:
  assumes "reset_tx env h password db = Inr (u, db')"
  obtains tok db1 user db2 n db3 where
    "claim_token env h PurposePasswordReset db = Inr (tok, db1)"
    "User_FindByID (avFaults env) db (atUserID tok) = Inr user" "u = uID user" "uAccountState user = AccountActive"
    "setPassword env u password db1 = Inr ((), db2)" "BumpTokenVersion (avFaults env) (avDBNow env) u db2 = Inr (n, db3)"
    "SuspendAllByUserID (avFaults env) (avDBNow env) u db3 = Inr ((), db')"
proof -
  from assms obtain tok db1 where claim: "claim_token env h PurposePasswordReset db = Inr (tok, db1)"
    by (auto simp: reset_tx_def)
  with assms obtain user where user: "User_FindByID (avFaults env) db (atUserID tok) = Inr user"
    by (cases "User_FindByID (avFaults env) db (atUserID tok)") (auto simp: reset_tx_def)
  from assms claim user that show thesis
    by (cases "uAccountState user") (auto simp: reset_tx_def)
qed

lemma confirm_tx_Inr:
  assumes "confirm_tx env h purpose db = Inr (u, db')"
  obtains tok db1 where "claim_token env h purpose db = Inr (tok, db1)"
    "db' = db1 \<or> (\<exists>v. SetEmail (avFaults env) (avDBNow env) u v db1 = Inr ((), db'))
       \<or> (\<exists>v. SetPhone (avFaults env) (avDBNow env) u v db1 = Inr ((), db'))"
proof -
  from assms obtain tok db1 where claim: "claim_token env h purpose db = Inr (tok, db1)"
    by (auto simp: confirm_tx_def)
  with assms obtain user where user: "User_FindByID (avFaults env) db (atUserID tok) = Inr user"
    by (cases "User_FindByID (avFaults env) db (atUserID tok)") (auto simp: confirm_tx_def)
  from assms claim user have "db' = db1 \<or> (\<exists>v. SetEmail (avFaults env) (avDBNow env) u v db1 = Inr ((), db'))
      \<or> (\<exists>v. SetPhone (avFaults env) (avDBNow env) u v db1 = Inr ((), db'))"
    by (cases purpose; cases "PendingEmail tok"; cases "PendingPhone tok") (auto simp: confirm_tx_def split: if_splits)
  with claim that show thesis by blast
qed

lemma body_runs_reset [run_rules]: "body_runs F (reset_tx env h password)"
  unfolding body_runs_def
  by (auto elim!: reset_tx_Inr)
     (meson db_run_trans body_runsD body_runs_claim body_runs_setPassword body_runs_ops(1) body_runs_state(5))

lemma body_runs_confirm [run_rules]: "body_runs F (confirm_tx env h purpose)"
  unfolding body_runs_def
  by (auto elim!: confirm_tx_Inr)
     (meson db_run_trans body_runsD body_runs_claim body_runs_ops(2,3))+

lemma runs_RequestPasswordReset [run_rules]:
  assumes "env_fresh F k env"
  shows "runs F (RequestPasswordReset k cfg env ty raw ip)"
proof -
  have quiet: "runs F (abind (audit env a act res ip ds) (\<lambda>_. areturn r))" for a act res ds and r :: RequestResult
    by (intro runs_abind runs_quiet)
  have send: "runs F (abind (in_tx (avFaults env) (issueAuthToken k env u p j t)) (\<lambda>raw.
      abind (audit env a act res ip ds) (\<lambda>_. abind (notify v ev []) (\<lambda>_. areturn (g raw)))))"
    for u p j t a act res ds v ev and g :: "string \<Rightarrow> RequestResult"
    by (intro runs_abind runs_tx runs_quiet body_runs_issue assms)
  show ?thesis
    unfolding RequestPasswordReset_def Let_def
    by (rule runs_abind, rule runs_quiet, rule runs_lambda) (simp add: runsD [OF quiet] runsD [OF send] split: sum.split)
qed

lemma runs_password_flows [run_rules]:
  "runs F (ResetPassword k env token password ip)" "runs F (ChangePassword k env u i r password ip)"
  unfolding ResetPassword_def ChangePassword_def
  by (intro runs_abind runs_if runs_quiet runs_token_flow runs_reauth runs_tx body_runs_reset body_runs_bind
      body_runs_setPassword body_runs_ops body_runs_state)+

lemma runs_request_change:
  "env_fresh F k env \<Longrightarrow> runs F (request_change k cfg env ty name purpose current taken u raw r ip)"
  unfolding request_change_def by (intro runs_abind runs_if runs_quiet runs_reauth runs_tx body_runs_issue)

lemma runs_confirm: "runs F (confirmIdentifierChange k env token ip purpose)"
proof (cases "IsOpaqueTokenShape token")
  case True
  then show ?thesis
    using body_runs_confirm[of F env "kHash k token" purpose]
    unfolding runs_def confirmIdentifierChange_def Let_def body_runs_def by (auto split: sum.split option.split)
next
  case False
  have "runs F (abind (audit env None act None ip ds) (\<lambda>_. afail ErrRecoveryTokenInvalid :: unit auth))" for act ds
    by (intro runs_abind runs_quiet)
  with False show ?thesis by (simp add: confirmIdentifierChange_def Let_def)
qed

lemma runs_identifier_flows [run_rules]:
  "env_fresh F k env \<Longrightarrow> runs F (RequestEmailChange k cfg env u raw r ip)"
  "env_fresh F k env \<Longrightarrow> runs F (RequestPhoneChange k cfg env u raw r ip)"
  "runs F (ConfirmEmailChange k env token ip)" "runs F (ConfirmPhoneChange k env token ip)"
  unfolding RequestEmailChange_def RequestPhoneChange_def ConfirmEmailChange_def ConfirmPhoneChange_def
  by (intro runs_request_change runs_confirm; assumption)+

lemma runs_DeleteAccount [run_rules]: "runs F (DeleteAccount k env u r ip)"
  unfolding DeleteAccount_def
  by (intro runs_abind runs_quiet runs_reauth runs_tx body_runs_bind body_runs_ops body_runs_state)

lemma runs_RestoreAccount [run_rules]: "runs F (RestoreAccount k cfg env ty raw code ip)"
proof -
  have "runs F (\<lambda>s. case verify_otp k env ident code s of (Inl x, s1) \<Rightarrow> (Inl ErrInvalidCredentials, s1) | (Inr u, s1) \<Rightarrow> (Inr (), s1))"
    for ident
    by (rule runs_keep) (simp add: verify_otp_def Let_def split: prod.splits sum.splits)
  then show ?thesis
    unfolding RestoreAccount_def
    by (intro runs_abind runs_quiet runs_tx body_runs_bind body_runs_ops body_runs_state)
qed

lemma runs_PurgeDeletedAccounts [run_rules]: "runs F (PurgeDeletedAccounts cfg env)"
  by (auto simp: runs_def PurgeDeletedAccounts_def Let_def split: sum.splits intro: db_run_step db_step.db_purged)

section \<open>Requests\<close>

text \<open>One request of the module, as the delivery layer and the jobs issue it.\<close>

datatype AuthRequest =
    ReqRegister RegisterCommand
  | ReqLogin LoginCommand
  | ReqRefresh RefreshCommand
  | ReqRenameSession go_int go_int string
  | ReqLogout go_int go_int
  | ReqLogoutSession go_int go_int
  | ReqLogoutOthers go_int go_int
  | ReqLogoutAll go_int
  | ReqExpireIdle
  | ReqPurgeRevoked
  | ReqPasswordReset IdentifierType string "string option"
  | ReqResetPassword string string "string option"
  | ReqChangePassword go_int go_int Reauth string "string option"
  | ReqEmailChange go_int string Reauth "string option"
  | ReqPhoneChange go_int string Reauth "string option"
  | ReqConfirmEmail string "string option"
  | ReqConfirmPhone string "string option"
  | ReqDeleteAccount go_int Reauth "string option"
  | ReqRestoreAccount IdentifierType string string "string option"
  | ReqPurgeDeleted

fun auth_serve :: "Crypto \<Rightarrow> AuthConfig \<Rightarrow> AuthEnv \<Rightarrow> AuthRequest \<Rightarrow> AuthState \<Rightarrow> AuthState" where
  "auth_serve k cfg env (ReqRegister c) s = snd (Register k cfg env c s)"
| "auth_serve k cfg env (ReqLogin c) s = snd (Login k cfg env c s)"
| "auth_serve k cfg env (ReqRefresh c) s = snd (Refresh k cfg env c s)"
| "auth_serve k cfg env (ReqRenameSession u i name) s = snd (RenameSession env u i name s)"
| "auth_serve k cfg env (ReqLogout u i) s = snd (Logout env u i s)"
| "auth_serve k cfg env (ReqLogoutSession u i) s = snd (LogoutSession env u i s)"
| "auth_serve k cfg env (ReqLogoutOthers u i) s = snd (LogoutOtherSessions env u i s)"
| "auth_serve k cfg env (ReqLogoutAll u) s = snd (LogoutAll env u s)"
| "auth_serve k cfg env ReqExpireIdle s = snd (ExpireIdleSessions cfg env s)"
| "auth_serve k cfg env ReqPurgeRevoked s = snd (PurgeRevokedSessions cfg env s)"
| "auth_serve k cfg env (ReqPasswordReset ty raw ip) s = snd (RequestPasswordReset k cfg env ty raw ip s)"
| "auth_serve k cfg env (ReqResetPassword t p ip) s = snd (ResetPassword k env t p ip s)"
| "auth_serve k cfg env (ReqChangePassword u i r p ip) s = snd (ChangePassword k env u i r p ip s)"
| "auth_serve k cfg env (ReqEmailChange u raw r ip) s = snd (RequestEmailChange k cfg env u raw r ip s)"
| "auth_serve k cfg env (ReqPhoneChange u raw r ip) s = snd (RequestPhoneChange k cfg env u raw r ip s)"
| "auth_serve k cfg env (ReqConfirmEmail t ip) s = snd (ConfirmEmailChange k env t ip s)"
| "auth_serve k cfg env (ReqConfirmPhone t ip) s = snd (ConfirmPhoneChange k env t ip s)"
| "auth_serve k cfg env (ReqDeleteAccount u r ip) s = snd (DeleteAccount k env u r ip s)"
| "auth_serve k cfg env (ReqRestoreAccount ty raw code ip) s = snd (RestoreAccount k cfg env ty raw code ip s)"
| "auth_serve k cfg env ReqPurgeDeleted s = snd (PurgeDeletedAccounts cfg env s)"

lemma auth_serve_run:
  "env_fresh F k env \<Longrightarrow> db_run F (asDB s) (asDB (auth_serve k cfg env req s))"
  by (cases req) (simp_all add: runsD run_rules)

text \<open>
  Serving a list of requests in turn.  Between the reads of one request and its transaction others
  commit; \<open>db_run\<close> covers that too, since its steps take whatever row they are given.
\<close>

fun auth_serve_all :: "Crypto \<Rightarrow> AuthConfig \<Rightarrow> (AuthEnv \<times> AuthRequest) list \<Rightarrow> AuthState \<Rightarrow> AuthState" where
  "auth_serve_all k cfg [] s = s"
| "auth_serve_all k cfg ((env, req) # rs) s = auth_serve_all k cfg rs (auth_serve k cfg env req s)"

lemma auth_serve_all_run:
  "(\<And>env req. (env, req) \<in> set rs \<Longrightarrow> env_fresh F k env) \<Longrightarrow> db_run F (asDB s) (asDB (auth_serve_all k cfg rs s))"
proof (induction rs arbitrary: s)
  case (Cons r rs)
  obtain env req where r: "r = (env, req)" by fastforce
  have "db_run F (asDB s) (asDB (auth_serve k cfg env req s))" using Cons.prems r by (intro auth_serve_run) auto
  moreover have "db_run F (asDB (auth_serve k cfg env req s)) (asDB (auth_serve_all k cfg rs (auth_serve k cfg env req s)))"
    using Cons.prems by (intro Cons.IH) auto
  ultimately show ?case by (simp add: r db_run_trans)
qed simp

end
