(* ===== verification/AuthDemo.thy ===== *)
theory AuthDemo
  imports AuthInvariants
begin

text \<open>
  A concrete deployment for the examples: a cryptography that meets what the code relies on (a token
  is the list of its claims, each part behind its length), a configuration, and accounts.
\<close>

section \<open>Tokens as netstrings\<close>

definition netstring :: "string \<Rightarrow> string" where
  "netstring s = format_nat (length s) @ CHR '':'' # s"

lemma Cut_length: "Cut s sep = Some (a, b) \<Longrightarrow> length b < length s"
  by (induction s arbitrary: a) (auto split: if_splits option.splits)

function split_netstrings :: "string \<Rightarrow> string list option" where
  "split_netstrings s =
     (if s = [] then Some []
      else case Cut s (CHR '':'') of
             None \<Rightarrow> None
           | Some (a, b) \<Rightarrow>
               (case parse_digits 0 a of
                  None \<Rightarrow> None
                | Some n \<Rightarrow> map_option (Cons (take n b)) (split_netstrings (drop n b))))"
  by pat_completeness auto
termination
  by (relation "measure length") (auto dest: Cut_length)

declare split_netstrings.simps [simp del]

lemma split_netstring: "split_netstrings (netstring s @ t) = map_option (Cons s) (split_netstrings t)"
  by (subst split_netstrings.simps) (simp add: netstring_def Cut_append format_nat_no_colon parse_format_nat)

lemma split_join: "split_netstrings (concat (map netstring ss)) = Some ss"
  by (induction ss) (simp_all add: split_netstring, simp add: split_netstrings.simps)

definition digits_value :: "string \<Rightarrow> int" where
  "digits_value s = (case parse_digits 0 s of None \<Rightarrow> 0 | Some n \<Rightarrow> int n)"

definition read_int :: "string \<Rightarrow> int" where
  "read_int s = (case s of [] \<Rightarrow> 0 | c # cs \<Rightarrow> if c = CHR ''-'' then - digits_value cs else digits_value s)"

lemma read_FormatInt [simp]: "read_int (FormatInt i) = i"
proof (cases "i < 0")
  case False
  obtain c cs where "format_nat (nat i) = c # cs" "c \<noteq> CHR ''-''" using format_nat_Cons by blast
  with False show ?thesis using parse_format_nat [of "nat i"] by (simp add: FormatInt_def read_int_def digits_value_def)
qed (simp add: FormatInt_def read_int_def digits_value_def parse_format_nat)

definition demo_sign :: "RawClaims \<Rightarrow> string" where
  "demo_sign c = concat (map netstring ([rcSubject c, FormatInt (rcSessionID c), rcDeviceID c, FormatInt (rcTokenVersion c), rcJTI c,
     rcIssuer c, FormatInt (rcIssuedAt c), FormatInt (rcNotBefore c), FormatInt (rcExpiresAt c), FormatInt (int (length (rcAudience c)))]
     @ rcAudience c @ rcScopes c))"

fun claims_of :: "string list \<Rightarrow> RawClaims option" where
  "claims_of (sub # sid # dev # ver # jti # iss # iat # nb # ex # n # rest) =
     Some \<lparr>rcSubject = sub, rcSessionID = read_int sid, rcDeviceID = dev, rcScopes = drop (nat (read_int n)) rest, rcTokenVersion = read_int ver,
       rcJTI = jti, rcIssuer = iss, rcAudience = take (nat (read_int n)) rest, rcIssuedAt = read_int iat, rcNotBefore = read_int nb, rcExpiresAt = read_int ex\<rparr>"
| "claims_of _ = None"

definition demo_parse :: "string \<Rightarrow> string \<Rightarrow> go_time \<Rightarrow> string \<Rightarrow> jwt_result" where
  "demo_parse iss aud now t =
     (case Option.bind (split_netstrings t) claims_of of
        None \<Rightarrow> JwtBad
      | Some c \<Rightarrow>
          if rcExpiresAt c \<le> now then JwtExpired
          else if now < rcNotBefore c \<or> rcIssuer c \<noteq> iss \<or> aud \<notin> set (rcAudience c) then JwtBad else JwtClaims c)"

definition demo_crypto :: Crypto where
  "demo_crypto = \<lparr>kHash = (\<lambda>s. CHR ''#'' # s), kVerify = (\<lambda>h p. Some (h = CHR ''$'' # p)), kSign = demo_sign, kParse = demo_parse,
     kIssuer = ''https://api'', kAudience = ''api''\<rparr>"

lemma demo_jwt_sound: "jwt_sound demo_crypto"
proof -
  have "split_netstrings (demo_sign c) =
      Some ([rcSubject c, FormatInt (rcSessionID c), rcDeviceID c, FormatInt (rcTokenVersion c), rcJTI c,
        rcIssuer c, FormatInt (rcIssuedAt c), FormatInt (rcNotBefore c), FormatInt (rcExpiresAt c), FormatInt (int (length (rcAudience c)))]
        @ rcAudience c @ rcScopes c)" for c
    unfolding demo_sign_def by (rule split_join)
  then show ?thesis by (simp add: jwt_sound_def demo_crypto_def demo_parse_def)
qed

lemma demo_crypto_simps [simp]:
  "kHash demo_crypto s = CHR ''#'' # s" "kVerify demo_crypto h p = Some (h = CHR ''$'' # p)"
  by (simp_all add: demo_crypto_def)

section \<open>Configuration and environments\<close>

definition demo_config :: AuthConfig where
  "demo_config = \<lparr>cfPolicy = DefaultLoginPolicy, cfAccessTTL = 900000000, cfRefreshTTL = 2592000000000,
     cfSessionIdleTimeout = 2592000000000, cfSessionRetention = 7776000000000, cfPasswordResetTTL = 900000000,
     cfChangeTTL = 3600000000, cfDeletionGrace = 2592000000000\<rparr>"

text \<open>A request at a time, with the identifiers and the token it draws; nothing fails.\<close>

definition demo_env :: "go_time \<Rightarrow> go_int \<Rightarrow> string \<Rightarrow> AuthEnv" where
  "demo_env now i token =
     \<lparr>avClock = now, avDBNow = now, avRedisNow = now, avUserID = i, avCredentialID = i, avSessionID = i, avToken = token,
      avJTI = ''jti'', avPasswordHash = ''$new'', avInet = (\<lambda>_. True), avRisk = (\<lambda>_. PermissiveRisk), avFaults = (\<lambda>_. False)\<rparr>"

lemma demo_env_simps [simp]:
  "avClock (demo_env now i t) = now" "avDBNow (demo_env now i t) = now" "avRedisNow (demo_env now i t) = now"
  "avUserID (demo_env now i t) = i" "avCredentialID (demo_env now i t) = i" "avSessionID (demo_env now i t) = i"
  "avToken (demo_env now i t) = t" "avJTI (demo_env now i t) = ''jti''" "avPasswordHash (demo_env now i t) = ''$new''"
  "avInet (demo_env now i t) = (\<lambda>_. True)" "avRisk (demo_env now i t) = (\<lambda>_. PermissiveRisk)"
  "avFaults (demo_env now i t) = (\<lambda>_. False)"
  by (simp_all add: demo_env_def)

section \<open>Accounts\<close>

definition demo_account :: "go_int \<Rightarrow> string \<Rightarrow> Account" where
  "demo_account i phone =
     \<lparr>uID = i, uUsername = None, uDisplayName = ''User'', uPhoneNumber = Some phone, uEmail = None, uAccountState = AccountActive,
      uPrimaryIdentifier = PrimaryPhone, uTokenVersion = 3, uCreatedAt = 0, uUpdatedAt = 0, uDeletedAt = None\<rparr>"

definition demo_device :: DeviceInfo where
  "demo_device = \<lparr>dvID = ''phone-1'', dvName = None, dvPlatform = None, dvAppVersion = None\<rparr>"

definition demo_session :: "go_int \<Rightarrow> go_int \<Rightarrow> string \<Rightarrow> Session" where
  "demo_session i u h =
     \<lparr>seID = i, seUserID = u, seDevice = demo_device, sePushToken = None, seFamily = 0, seHash = h, sePreviousHash = [],
      seRefreshExpiresAt = Some 2592000000000, seIPAddress = None, seUserAgent = None, seLastActiveAt = 0,
      seState = SessionActive, seCreatedAt = 0, seUpdatedAt = 0\<rparr>"

text \<open>A token of the opaque shape: 43 characters of the URL-safe alphabet.\<close>

definition demo_token :: "char \<Rightarrow> string" where
  "demo_token c = replicate 42 c @ ''A''"

definition demo_auth_db :: AuthDB where
  "demo_auth_db =
     \<lparr>auUsers = [demo_account 7 ''+14155550100'', demo_account 8 ''+14155550101''],
      auCredentials = [NewPasswordCredential 70 7 ''$secret-pass'' 0],
      auSessions = [demo_session 71 7 (CHR ''#'' # demo_token CHR ''a'')],
      auTokens = [\<lparr>atID = 1, atUserID = 7, atPurpose = PurposePasswordReset, atTokenHash = CHR ''#'' # demo_token CHR ''r'',
         atData = JObj [], atExpiresAt = 900000000, atUsedAt = None, atCreatedAt = 0\<rparr>],
      auNextToken = 2, auReferenced = []\<rparr>"

definition demo_state :: AuthState where
  "demo_state = \<lparr>asDB = demo_auth_db, asThrottle = (\<lambda>_. None), asOTP = (\<lambda>_. None), asHistory = [], asAudit = [], asNotices = []\<rparr>"

lemmas demo_auth_simps = demo_state_def demo_auth_db_def demo_session_def demo_device_def demo_account_def demo_config_def
  NewPasswordCredential_def

lemma demo_token_shape [simp]: "IsOpaqueTokenShape (demo_token CHR ''a'')" "IsOpaqueTokenShape (demo_token CHR ''r'')"
  by code_simp+

section \<open>Evaluating the examples\<close>

lemma ToLower_ascii: "ascii s \<Longrightarrow> ToLower s = concat (map (\<lambda>c. lower_rune (byte c, [c])) s)"
  by (simp add: ToLower_def runes_ascii comp_def)

lemma byte_Char [simp]:
  "byte (Char b0 b1 b2 b3 b4 b5 b6 b7) =
     of_bool b0 + 2 * of_bool b1 + 4 * of_bool b2 + 8 * of_bool b3 + 16 * of_bool b4 + 32 * of_bool b5 + 64 * of_bool b6 + 128 * of_bool b7"
  by (simp add: byte_def)

lemma demo_inputs [simp]:
  "ValidatePassword ''correct-horse-9'' [] = Inr ()"
  "NewIdentifier IdentifierPhone ''+14155550100'' = Inr \<lparr>idType = IdentifierPhone, idValue = ''+14155550100''\<rparr>"
  "ValidateDeviceID ''phone-1'' = Inr ()" "parseSubject (FormatInt 7) = Some 7"
  by (simp add: ValidatePassword_def passwordMinLen_def ToLower_ascii ascii_def lower_rune_def)
     (simp add: NewIdentifier_def NormalizePhone_def phoneRe_def is_digit_def Let_def TrimSpace_plain,
      code_simp, code_simp)

lemmas store_eval = User_FindByID_def find_live_by_def FindByPhone_def findUser_def FindPassword_def latest_def Session_FindByDeviceID_def
  Session_FindByHash_def Session_FindByPreviousHash_def Session_FindByID_def ReplacePassword_def BumpTokenVersion_def
  SuspendOthersByUserID_def SuspendAllByUserID_def RevokeAllByUserID_def state_of_others_def set_state_def Consume_def claimable_def
  Session_Rotate_def upd_account_def user_of_def User.defs Credential_PasswordHash_def password_data_def acall_def
  AccountState.simps from_opt_def ensure_def int64_def

lemmas service_eval = password_matches_def reauth_def setPassword_def hash_password_def active_user_def abind_def in_tx_def
  audit_def notify_def inet_ok_def nullIfEmpty_def Let_def

end
