(* ===== verification/AuthBehaviour.thy ===== *)
theory AuthBehaviour
  imports AuthDemo
begin

text \<open>
  What a use case that succeeds has done to the tables, in the form the properties use.
\<close>

lemma version_floor_run: "db_run F db db' \<Longrightarrow> version_floor u v db \<Longrightarrow> \<not> frUser F u \<Longrightarrow> version_floor u v db'"
  by (induction rule: db_run_induct) (auto intro: version_floor_step)

lemma spent_run: "db_run F db db' \<Longrightarrow> spent h db \<Longrightarrow> \<not> frToken F h \<Longrightarrow> spent h db'"
  by (induction rule: db_run_induct) (auto intro: spent_step)

lemma retired_run: "db_run F db db' \<Longrightarrow> retired h db \<Longrightarrow> \<not> frHash F h \<Longrightarrow> retired h db'"
  by (induction rule: db_run_induct) (auto intro: retired_step)

lemma audit_Inr: "audit env act a res ip ds s = (Inr (), snd (audit env act a res ip ds s))"
  by (simp add: audit_def)

lemma notify_Inr: "notify u ev ds s = (Inr (), snd (notify u ev ds s))"
  by (simp add: notify_def)

lemma audit_db: "audit env act a res ip ds s = (r, s') \<Longrightarrow> asDB s' = asDB s"
  by (metis asDB_audit snd_conv)

lemma notify_db: "notify u ev ds s = (r, s') \<Longrightarrow> asDB s' = asDB s"
  by (metis asDB_notify snd_conv)

lemma audit_throttle: "audit env act a res ip ds s = (r, s') \<Longrightarrow> asThrottle s' = asThrottle s"
  by (auto simp: audit_def split: if_splits)

lemma User_FindByID_Inr:
  "User_FindByID fl db i = Inr u \<Longrightarrow> \<exists>a \<in> set (auUsers db). u = user_of a \<and> uID a = i \<and> uID u = i \<and> uAccountState u \<noteq> AccountDeleted"
  by (auto simp: User_FindByID_def user_of_def User.truncate_def find_Some_iff split: if_splits)

lemma user_of_simps [simp]:
  "uID (user_of a) = uID a" "uTokenVersion (user_of a) = uTokenVersion a" "uAccountState (user_of a) = uAccountState a"
  by (simp_all add: user_of_def User.truncate_def)

section \<open>Signing out\<close>

lemma BumpTokenVersion_Inr:
  "BumpTokenVersion fl now u db = Inr (n, db') \<Longrightarrow> db' = upd_account now u (\<lambda>a. a\<lparr>uTokenVersion := uTokenVersion a + 1\<rparr>) db"
  unfolding BumpTokenVersion_def rbind_Inr_iff by (elim exE conjE) (simp split: if_split_asm)

lemma bump_raises:
  assumes "BumpTokenVersion fl now u db = Inr (n, db')" and floor: "version_floor u v db"
  shows "version_floor u (v + 1) db'"
proof -
  from BumpTokenVersion_Inr [OF assms(1)] have "auUsers db' = upd_where (\<lambda>a. uID a = u) (\<lambda>a. a\<lparr>uTokenVersion := uTokenVersion a + 1, uUpdatedAt := now\<rparr>) (auUsers db)"
    by (simp only: upd_account_users)
  then have rows: "\<exists>b \<in> set (auUsers db). uID b = uID a \<and> (uID a = u \<longrightarrow> uTokenVersion a = uTokenVersion b + 1)"
    if "a \<in> set (auUsers db')" for a
    using that by (simp only: set_upd_where image_iff) (elim bexE, rule bexI, simp_all)
  show ?thesis
    unfolding version_floor_def using rows floor [unfolded version_floor_def] by fastforce
qed

text \<open>The other statements of these transactions leave the versions alone.\<close>

lemma floor_kept:
  "RevokeAllByUserID fl now u db = Inr (x, db') \<Longrightarrow> version_floor u v db \<Longrightarrow> version_floor u v db'"
  "SuspendOthersByUserID fl now u i db = Inr (x, db') \<Longrightarrow> version_floor u v db \<Longrightarrow> version_floor u v db'"
  "SuspendAllByUserID fl now u db = Inr (x, db') \<Longrightarrow> version_floor u v db \<Longrightarrow> version_floor u v db'"
  "setPassword env u pw db = Inr (y, db') \<Longrightarrow> version_floor u v db \<Longrightarrow> version_floor u v db'"
  by (auto simp: RevokeAllByUserID_def SuspendOthersByUserID_def SuspendAllByUserID_def state_of_others_def setPassword_def
      ReplacePassword_def version_floor_def)

lemma floor_MarkDeleted: "MarkDeleted fl now u t db = Inr (x, db') \<Longrightarrow> version_floor u v db \<Longrightarrow> version_floor u v db'"
  by (fastforce simp: MarkDeleted_def version_floor_def set_upd_where split: if_splits)

text \<open>The four ways a user gets every access token of theirs refused.\<close>

datatype SignOut =
    OutEverywhere
  | OutPassword go_int Reauth string "string option"
  | OutDeletion Reauth "string option"
  | OutReset string string "string option"

fun sign_out :: "Crypto \<Rightarrow> AuthEnv \<Rightarrow> go_int \<Rightarrow> SignOut \<Rightarrow> unit auth" where
  "sign_out k env u OutEverywhere = LogoutAll env u"
| "sign_out k env u (OutPassword sid r password ip) = ChangePassword k env u sid r password ip"
| "sign_out k env u (OutDeletion r ip) = DeleteAccount k env u r ip"
| "sign_out k env u (OutReset token password ip) = ResetPassword k env token password ip"

text \<open>A reset is the user's own when the token was issued to them.\<close>

fun own_sign_out :: "Crypto \<Rightarrow> go_int \<Rightarrow> SignOut \<Rightarrow> AuthDB \<Rightarrow> bool" where
  "own_sign_out k u (OutReset token password ip) db \<longleftrightarrow> (\<forall>t \<in> set (auTokens db). atTokenHash t = kHash k token \<longrightarrow> atUserID t = u)"
| "own_sign_out k u _ db \<longleftrightarrow> True"

lemma reauth_db: "reauth k env user r s = (x, s') \<Longrightarrow> asDB s' = asDB s"
  by (auto simp: reauth_def abind_def verify_otp_def Let_def split: LoginMethod.splits prod.splits sum.splits if_splits)

lemma active_user_Inr: "active_user env i db = Inr u \<Longrightarrow> uID u = i"
  by (auto simp: active_user_def dest: User_FindByID_Inr split: if_splits)

lemma LogoutAll_Inr:
  assumes "LogoutAll env u s = (Inr x, s1)"
  obtains n db1 where "BumpTokenVersion (avFaults env) (avDBNow env) u (asDB s) = Inr (n, db1)"
    "RevokeAllByUserID (avFaults env) (avDBNow env) u db1 = Inr ((), asDB s1)"
  using assms by (auto simp: LogoutAll_def abind_Inr in_tx_Inr dest!: audit_db)

lemma ChangePassword_Inr:
  assumes "ChangePassword k env u sid r password ip s = (Inr x, s1)"
  obtains db1 n db2 where "setPassword env u password (asDB s) = Inr ((), db1)"
    "BumpTokenVersion (avFaults env) (avDBNow env) u db1 = Inr (n, db2)"
    "SuspendOthersByUserID (avFaults env) (avDBNow env) u sid db2 = Inr ((), asDB s1)"
  using assms
  by (auto simp: ChangePassword_def abind_Inr in_tx_Inr dest!: audit_db notify_db reauth_db active_user_Inr)

lemma deletable_Inr:
  "(case uAccountState x of AccountActive \<Rightarrow> Inr x | AccountSuspended \<Rightarrow> Inl e | AccountDeleted \<Rightarrow> Inl e') = Inr y \<Longrightarrow> y = x"
  by (cases "uAccountState x") auto

lemma DeleteAccount_Inr:
  assumes "DeleteAccount k env u r ip s = (Inr x, s1)"
  obtains db1 db2 n where "MarkDeleted (avFaults env) (avDBNow env) u (avClock env) (asDB s) = Inr ((), db1)"
    "RevokeAllByUserID (avFaults env) (avDBNow env) u db1 = Inr ((), db2)"
    "BumpTokenVersion (avFaults env) (avDBNow env) u db2 = Inr (n, asDB s1)"
  using assms
  by (auto simp: DeleteAccount_def abind_Inr in_tx_Inr dest!: audit_db notify_db reauth_db deletable_Inr User_FindByID_Inr)

lemma token_flow_Inr:
  "token_flow env action ip body s = (Inr x, s1) \<longleftrightarrow>
     \<not> avFaults env CallBeginAuth \<and> \<not> avFaults env CallCommitAuth \<and> (\<exists>db. body (asDB s) = Inr (x, db) \<and> s1 = s\<lparr>asDB := db\<rparr>)"
  by (auto simp: token_flow_def split: sum.splits)

lemma ResetPassword_Inr:
  assumes "ResetPassword k env token password ip s = (Inr x, s1)"
  obtains u where "reset_tx env (kHash k token) password (asDB s) = Inr (u, asDB s1)"
proof -
  from assms have "IsOpaqueTokenShape token" by (cases "IsOpaqueTokenShape token") (auto simp: ResetPassword_def abind_Inr)
  with assms obtain u s2 where
    "token_flow env ''auth.password_reset_failed'' ip (reset_tx env (kHash k token) password) s = (Inr u, s2)"
    "asDB s1 = asDB s2"
    by (auto simp: ResetPassword_def abind_Inr dest!: audit_db notify_db)
  with that show thesis by (auto simp: token_flow_Inr)
qed

lemma Consume_Inr:
  assumes "Consume fl now h db = Inr (tok, db1)"
  shows "\<exists>t \<in> set (auTokens db). claimable now h t \<and> atUserID tok = atUserID t"
    and "auUsers db1 = auUsers db" and "auSessions db1 = auSessions db"
  using assms by (auto simp: Consume_def find_Some_iff)

lemma claim_token_Inr:
  "claim_token env h purpose db = Inr (tok, db1) \<Longrightarrow> Consume (avFaults env) (avDBNow env) h db = Inr (tok, db1)"
  by (auto simp: claim_token_def split: sum.splits if_splits)

lemma sign_out_raises:
  assumes "sign_out k env u how s = (Inr x, s1)" and "own_sign_out k u how (asDB s)" and floor: "version_floor u v (asDB s)"
  shows "version_floor u (v + 1) (asDB s1)"
proof (cases how)
  case OutEverywhere
  with assms(1) have "LogoutAll env u s = (Inr x, s1)" by simp
  then show ?thesis by (rule LogoutAll_Inr) (rule floor_kept(1), assumption, rule bump_raises [OF _ floor], assumption)
next
  case (OutPassword sid r password ip)
  with assms(1) have "ChangePassword k env u sid r password ip s = (Inr x, s1)" by simp
  then show ?thesis
    by (rule ChangePassword_Inr)
       (rule floor_kept(2), assumption, rule bump_raises, assumption, rule floor_kept(4) [OF _ floor], assumption)
next
  case (OutDeletion r ip)
  with assms(1) have "DeleteAccount k env u r ip s = (Inr x, s1)" by simp
  then show ?thesis
    by (rule DeleteAccount_Inr)
       (rule bump_raises, assumption, rule floor_kept(1), assumption, rule floor_MarkDeleted [OF _ floor], assumption)
next
  case (OutReset token password ip)
  with assms(1) have "ResetPassword k env token password ip s = (Inr x, s1)" by simp
  then obtain u' where r: "reset_tx env (kHash k token) password (asDB s) = Inr (u', asDB s1)" by (rule ResetPassword_Inr)
  then obtain tok db1 user db2 n db3 where e: "claim_token env (kHash k token) PurposePasswordReset (asDB s) = Inr (tok, db1)"
    "User_FindByID (avFaults env) (asDB s) (atUserID tok) = Inr user" "u' = uID user"
    "setPassword env u' password db1 = Inr ((), db2)" "BumpTokenVersion (avFaults env) (avDBNow env) u' db2 = Inr (n, db3)"
    "SuspendAllByUserID (avFaults env) (avDBNow env) u' db3 = Inr ((), asDB s1)"
    by (rule reset_tx_Inr) blast
  have "atUserID tok = u"
    using Consume_Inr(1) [OF claim_token_Inr [OF e(1)]] assms(2) OutReset by (auto simp: claimable_def)
  then have u: "u' = u" using User_FindByID_Inr [OF e(2)] e(3) by auto
  have floor1: "version_floor u v db1"
    using Consume_Inr(2) [OF claim_token_Inr [OF e(1)]] floor by (simp add: version_floor_def)
  show ?thesis
    by (rule floor_kept(3) [OF e(6) [unfolded u] bump_raises [OF e(5) [unfolded u] floor_kept(4) [OF e(4) [unfolded u] floor1]]])
qed

text \<open>Refresh is closed at once as well: no session of the user stays active but the one a password change is made from.\<close>

fun kept :: "SignOut \<Rightarrow> go_int \<Rightarrow> bool" where
  "kept (OutPassword sid r password ip) i \<longleftrightarrow> i = sid"
| "kept _ i \<longleftrightarrow> False"

definition signed_out :: "go_int \<Rightarrow> (go_int \<Rightarrow> bool) \<Rightarrow> AuthDB \<Rightarrow> bool" where
  "signed_out u keep db \<longleftrightarrow> (\<forall>x \<in> set (auSessions db). seUserID x = u \<longrightarrow> seState x = SessionActive \<longrightarrow> keep (seID x))"

lemma signed_out_set_state:
  assumes "\<And>x. seUserID x = u \<Longrightarrow> seState x = SessionActive \<Longrightarrow> \<not> keep (seID x) \<Longrightarrow> P x" and "st \<noteq> SessionActive"
  shows "signed_out u keep (set_state now st P db)"
  unfolding signed_out_def set_state_simps set_upd_where
proof (intro ballI impI)
  fix y
  assume "y \<in> (\<lambda>r. if P r then r\<lparr>seState := st, seUpdatedAt := now\<rparr> else r) ` set (auSessions db)"
    and y: "seUserID y = u" "seState y = SessionActive"
  then obtain x where x: "y = (if P x then x\<lparr>seState := st, seUpdatedAt := now\<rparr> else x)" by (elim imageE)
  with y(2) assms(2) have "\<not> P x" by (cases "P x") simp_all
  with x y assms(1) [of x] show "keep (seID y)" by auto
qed

lemma signed_out_intros:
  "RevokeAllByUserID fl now u db = Inr (x, db') \<Longrightarrow> signed_out u keep db'"
  "SuspendAllByUserID fl now u db = Inr (x, db') \<Longrightarrow> signed_out u keep db'"
  "SuspendOthersByUserID fl now u i db = Inr (x, db') \<Longrightarrow> signed_out u (\<lambda>j. j = i) db'"
  unfolding RevokeAllByUserID_def SuspendAllByUserID_def SuspendOthersByUserID_def state_of_others_def
  by (auto intro!: signed_out_set_state)

lemma signed_out_bump:
  assumes "BumpTokenVersion fl now u db = Inr (n, db')" and "signed_out u keep db"
  shows "signed_out u keep db'"
  using assms(2) BumpTokenVersion_Inr [OF assms(1)] by (simp only: signed_out_def upd_account_users)

lemma sign_out_sessions:
  assumes "sign_out k env u how s = (Inr x, s1)" and "own_sign_out k u how (asDB s)"
  shows "signed_out u (kept how) (asDB s1)"
proof (cases how)
  case OutEverywhere
  with assms(1) show ?thesis by (auto elim!: LogoutAll_Inr intro: signed_out_intros)
next
  case (OutPassword sid r password ip)
  with assms(1) have "ChangePassword k env u sid r password ip s = (Inr x, s1)" by simp
  then have "signed_out u (\<lambda>j. j = sid) (asDB s1)" by (auto elim!: ChangePassword_Inr intro: signed_out_intros)
  with OutPassword show ?thesis by (simp add: signed_out_def)
next
  case (OutDeletion r ip)
  with assms(1) have "DeleteAccount k env u r ip s = (Inr x, s1)" by simp
  then show ?thesis by (rule DeleteAccount_Inr) (rule signed_out_bump, assumption, rule signed_out_intros(1))
next
  case (OutReset token password ip)
  with assms(1) have "ResetPassword k env token password ip s = (Inr x, s1)" by simp
  then obtain u' where r: "reset_tx env (kHash k token) password (asDB s) = Inr (u', asDB s1)" by (rule ResetPassword_Inr)
  then obtain tok db1 user db3 where e: "claim_token env (kHash k token) PurposePasswordReset (asDB s) = Inr (tok, db1)"
    "User_FindByID (avFaults env) (asDB s) (atUserID tok) = Inr user" "u' = uID user"
    "SuspendAllByUserID (avFaults env) (avDBNow env) u' db3 = Inr ((), asDB s1)"
    by (rule reset_tx_Inr) blast
  have "atUserID tok = u"
    using Consume_Inr(1) [OF claim_token_Inr [OF e(1)]] assms(2) OutReset by (auto simp: claimable_def)
  then have "u' = u" using User_FindByID_Inr [OF e(2)] e(3) by auto
  with e(4) show ?thesis by (auto intro: signed_out_intros)
qed

section \<open>Access tokens\<close>

text \<open>A subject that is printed is read back, when it is a user id at all.\<close>

lemma parseSubject_printed: "parseSubject (FormatInt u) = (if 0 < u \<and> int64 u then Some u else None)"
proof (cases "u < 0")
  case True
  then show ?thesis by (simp add: parseSubject_def FormatInt_def byte_def Let_def)
next
  case False
  have digits: "takeWhile is_digit (format_nat m) = format_nat m" for m
  proof (induction m rule: format_nat.induct)
    case (1 m)
    then show ?case by (cases "m < 10") (subst (1 2) format_nat.simps, simp add: takeWhile_append2)+
  qed
  obtain c cs where c: "format_nat (nat u) = c # cs" "c \<noteq> CHR ''-''" "c \<noteq> CHR ''+''" using format_nat_Cons by blast
  have "is_digit c" using digits [of "nat u"] c(1) by (simp split: if_splits)
  then have "dropWhile (\<lambda>c. byte c \<in> {9, 11, 12, 32}) (c # cs) = c # cs" by (auto simp: is_digit_def)
  with False c digits [of "nat u"] parse_format_nat [of "nat u"]
  show ?thesis by (auto simp: parseSubject_def FormatInt_def Let_def)
qed

lemma parseSubject_FormatInt: "parseSubject (FormatInt u) = Some n \<Longrightarrow> n = u"
  by (simp add: parseSubject_printed split: if_splits)

section \<open>Recovery tokens\<close>

text \<open>The three flows that take a recovery token.\<close>

datatype TokenUse = UseReset string | UseEmail | UsePhone

fun use_token :: "Crypto \<Rightarrow> AuthEnv \<Rightarrow> string \<Rightarrow> string option \<Rightarrow> TokenUse \<Rightarrow> unit auth" where
  "use_token k env token ip (UseReset password) = ResetPassword k env token password ip"
| "use_token k env token ip UseEmail = ConfirmEmailChange k env token ip"
| "use_token k env token ip UsePhone = ConfirmPhoneChange k env token ip"

lemma confirm_Inr:
  assumes "confirmIdentifierChange k env token ip purpose s = (Inr x, s1)"
  obtains u where "confirm_tx env (kHash k token) purpose (asDB s) = Inr (u, asDB s1)"
proof -
  from assms have shape: "IsOpaqueTokenShape token"
    by (cases "IsOpaqueTokenShape token") (auto simp: confirmIdentifierChange_def abind_Inr Let_def)
  show thesis
  proof (cases "confirm_tx env (kHash k token) purpose (asDB s)")
    case (Inl e)
    with assms shape show thesis by (auto simp: confirmIdentifierChange_def Let_def split: prod.splits if_splits)
  next
    case (Inr r)
    with assms shape have "asDB s1 = snd r"
      by (auto simp: confirmIdentifierChange_def Let_def split: prod.splits if_splits dest!: notify_db)
    with Inr that show thesis by (metis prod.collapse)
  qed
qed

lemma tokens_kept:
  "setPassword env u pw db = Inr (y, db') \<Longrightarrow> auTokens db' = auTokens db"
  "BumpTokenVersion fl now u db = Inr (n, db') \<Longrightarrow> auTokens db' = auTokens db"
  "SuspendAllByUserID fl now u db = Inr (x, db') \<Longrightarrow> auTokens db' = auTokens db"
  "SetEmail fl now u v db = Inr (x, db') \<Longrightarrow> auTokens db' = auTokens db"
  "SetPhone fl now u v db = Inr (x, db') \<Longrightarrow> auTokens db' = auTokens db"
  by (auto simp: setPassword_def ReplacePassword_def SuspendAllByUserID_def state_of_others_def SetEmail_def SetPhone_def
      set_column_def dest!: BumpTokenVersion_Inr split: if_splits)

lemma use_token_claims:
  assumes "use_token k env token ip use s = (Inr x, s1)"
  obtains tok db1 where "Consume (avFaults env) (avDBNow env) (kHash k token) (asDB s) = Inr (tok, db1)"
    "auTokens (asDB s1) = auTokens db1"
proof (cases use)
  case (UseReset password)
  with assms have "ResetPassword k env token password ip s = (Inr x, s1)" by simp
  then obtain u where "reset_tx env (kHash k token) password (asDB s) = Inr (u, asDB s1)" by (rule ResetPassword_Inr)
  then show thesis
    by (rule reset_tx_Inr)
       (rule that, erule claim_token_Inr, simp add: tokens_kept)
next
  case UseEmail
  with assms obtain u where "confirm_tx env (kHash k token) PurposeEmailChange (asDB s) = Inr (u, asDB s1)"
    by (auto simp: ConfirmEmailChange_def elim!: confirm_Inr)
  then show thesis
    by (rule confirm_tx_Inr)
       (rule that, erule claim_token_Inr, auto dest: tokens_kept)
next
  case UsePhone
  with assms obtain u where "confirm_tx env (kHash k token) PurposePhoneChange (asDB s) = Inr (u, asDB s1)"
    by (auto simp: ConfirmPhoneChange_def elim!: confirm_Inr)
  then show thesis
    by (rule confirm_tx_Inr)
       (rule that, erule claim_token_Inr, auto dest: tokens_kept)
qed

lemma Consume_spends:
  assumes c: "Consume fl now h db = Inr (tok, db1)" and unique: "distinct (map atTokenHash (auTokens db))"
  shows "spent h db1"
proof -
  from c obtain t where t: "t \<in> set (auTokens db)" "claimable now h t"
    and db1: "auTokens db1 = upd_where (claimable now h) (\<lambda>t. t\<lparr>atUsedAt := Some now\<rparr>) (auTokens db)"
    by (auto simp: Consume_def dest!: find_SomeD)
  have "claimable now h t'" if "t' \<in> set (auTokens db)" "atTokenHash t' = h" for t'
    using that t unique by (metis claimable_def distinct_map inj_on_eq_iff)
  then show ?thesis by (auto simp: spent_def db1 set_upd_where)
qed

lemma spent_refuses: "spent h db \<Longrightarrow> Consume fl now h db \<noteq> Inr (tok, db1)"
  by (auto simp: Consume_def spent_def find_Some_iff claimable_def)

section \<open>Refresh\<close>

text \<open>A hash that was handed out once: one session holds it, none remembers it as its previous one.\<close>

definition current_once :: "string \<Rightarrow> AuthDB \<Rightarrow> bool" where
  "current_once h db \<longleftrightarrow> (\<forall>x \<in> set (auSessions db). \<forall>y \<in> set (auSessions db). seHash x = h \<longrightarrow> seHash y = h \<longrightarrow> x = y)
     \<and> (\<forall>x \<in> set (auSessions db). sePreviousHash x \<noteq> h)"

lemma Refresh_Inr:
  assumes "Refresh k cfg env cmd s = (Inr res, s1)"
  obtains session pair db1 where "refresh_tx k cfg env (kHash k (rfRefreshToken cmd)) (asDB s) = Inr (Rotated session pair, db1)"
    "asDB s1 = db1" "IsOpaqueTokenShape (rfRefreshToken cmd)" "\<not> avFaults env CallBeginAuth" "\<not> avFaults env CallCommitAuth"
  using assms by (auto simp: Refresh_def Let_def split: if_splits sum.splits refresh_outcome.splits dest!: audit_db)

lemma reuse_not_rotated: "reuseOrInvalid env h db \<noteq> Inr (Rotated session pair, db1)"
  by (auto simp: reuseOrInvalid_def split: sum.splits if_splits)

lemma refresh_tx_Rotated:
  assumes "refresh_tx k cfg env h db = Inr (Rotated session pair, db1)"
  obtains old now where "Session_FindByHash (avFaults env) db h = Inr old" "seID session = seID old"
    "seHash session = kHash k (avToken env)" "Session_Rotate (avFaults env) now session h db = Inr ((), db1)"
    "seUserID session = seUserID old"
  using assms reuse_not_rotated [of env h db session pair db1]
  by (auto simp: refresh_tx_def Let_def issued_def split: sum.splits if_splits dest: IssuePair_token)

lemma Session_FindByHash_Inr:
  "Session_FindByHash fl db h = Inr x \<Longrightarrow> x \<in> set (auSessions db) \<and> seHash x = h \<and> h \<noteq> []"
  by (auto simp: Session_FindByHash_def dest!: find_SomeD)

text \<open>The row that held the hash now remembers it; no row holds it any more.\<close>

lemma Session_Rotate_Inr:
  assumes r: "Session_Rotate fl now session h db = Inr ((), db1)" and once: "current_once h db" and new: "seHash session \<noteq> h"
  shows "retired h db1"
    and "\<exists>x y. x \<in> set (auSessions db) \<and> seHash x = h \<and> seID x = seID session \<and> y \<in> set (auSessions db1)
      \<and> sePreviousHash y = h \<and> seUserID y = seUserID x"
    and "\<forall>y \<in> set (auSessions db1). sePreviousHash y = h \<longrightarrow> (\<exists>x \<in> set (auSessions db). seHash x = h \<and> seUserID y = seUserID x)"
proof -
  define P :: "Session \<Rightarrow> bool" where "P = (\<lambda>r. seID r = seID session \<and> seHash r = h \<and> seHash r \<noteq> [] \<and> seState r = SessionActive)"
  define f :: "Session \<Rightarrow> Session" where "f = (\<lambda>r. r\<lparr>sePreviousHash := h, seHash := seHash session, seFamily := seFamily r + 1,
    seRefreshExpiresAt := seRefreshExpiresAt session, seLastActiveAt := seLastActiveAt session, seUpdatedAt := now\<rparr>)"
  from r obtain x where x: "x \<in> set (auSessions db)" "P x" and db1: "auSessions db1 = upd_where P f (auSessions db)"
    unfolding Session_Rotate_def Let_def P_def f_def by (auto split: if_splits)
  have all: "P y" if "y \<in> set (auSessions db)" "seHash y = h" for y
    using once x that unfolding current_once_def P_def by blast
  have "seHash (if P y then f y else y) \<noteq> h" if "y \<in> set (auSessions db)" for y
    using all [OF that] new by (cases "P y") (auto simp: f_def)
  then show "retired h db1" unfolding retired_def db1 set_upd_where by blast
  show "\<exists>x y. x \<in> set (auSessions db) \<and> seHash x = h \<and> seID x = seID session \<and> y \<in> set (auSessions db1)
      \<and> sePreviousHash y = h \<and> seUserID y = seUserID x"
  proof (intro exI conjI)
    show "x \<in> set (auSessions db)" "seHash x = h" "seID x = seID session" using x by (simp_all add: P_def)
    show "f x \<in> set (auSessions db1)"
      unfolding db1 set_upd_where using x by (intro image_eqI [of _ _ x]) simp_all
    show "sePreviousHash (f x) = h" "seUserID (f x) = seUserID x" by (simp_all add: f_def)
  qed
  have "sePreviousHash (if P y then f y else y) = h \<longrightarrow> (\<exists>x \<in> set (auSessions db). seHash x = h \<and> seUserID (if P y then f y else y) = seUserID x)"
    if "y \<in> set (auSessions db)" for y
    using that once by (cases "P y") (auto simp: f_def P_def current_once_def)
  then show "\<forall>y \<in> set (auSessions db1). sePreviousHash y = h \<longrightarrow> (\<exists>x \<in> set (auSessions db). seHash x = h \<and> seUserID y = seUserID x)"
    unfolding db1 set_upd_where by blast
qed

lemma retired_refuses: "retired h db \<Longrightarrow> Session_FindByHash fl db h \<noteq> Inr x"
  by (auto simp: retired_def dest: Session_FindByHash_Inr)

lemma Refresh_rotates:
  assumes "Refresh k cfg env cmd s = (Inr res, s1)" and "current_once (kHash k (rfRefreshToken cmd)) (asDB s)"
    and "kHash k (avToken env) \<noteq> kHash k (rfRefreshToken cmd)"
  shows "retired (kHash k (rfRefreshToken cmd)) (asDB s1)"
    and "\<exists>y \<in> set (auSessions (asDB s1)). sePreviousHash y = kHash k (rfRefreshToken cmd)"
    and "\<forall>y \<in> set (auSessions (asDB s1)). sePreviousHash y = kHash k (rfRefreshToken cmd) \<longrightarrow>
      (\<exists>x \<in> set (auSessions (asDB s)). seHash x = kHash k (rfRefreshToken cmd) \<and> seUserID y = seUserID x)"
    and "IsOpaqueTokenShape (rfRefreshToken cmd)" and "kHash k (rfRefreshToken cmd) \<noteq> []"
proof -
  obtain session pair db1 where tx: "refresh_tx k cfg env (kHash k (rfRefreshToken cmd)) (asDB s) = Inr (Rotated session pair, db1)"
    and db1: "asDB s1 = db1" and shape: "IsOpaqueTokenShape (rfRefreshToken cmd)"
    using assms(1) by (rule Refresh_Inr) blast
  obtain old now where find: "Session_FindByHash (avFaults env) (asDB s) (kHash k (rfRefreshToken cmd)) = Inr old"
    and rot: "Session_Rotate (avFaults env) now session (kHash k (rfRefreshToken cmd)) (asDB s) = Inr ((), db1)"
    and new: "seHash session \<noteq> kHash k (rfRefreshToken cmd)"
    using tx assms(3) by (auto elim!: refresh_tx_Rotated)
  note r = Session_Rotate_Inr [OF rot assms(2) new, folded db1]
  show "retired (kHash k (rfRefreshToken cmd)) (asDB s1)"
    "\<exists>y \<in> set (auSessions (asDB s1)). sePreviousHash y = kHash k (rfRefreshToken cmd)"
    "\<forall>y \<in> set (auSessions (asDB s1)). sePreviousHash y = kHash k (rfRefreshToken cmd) \<longrightarrow>
      (\<exists>x \<in> set (auSessions (asDB s)). seHash x = kHash k (rfRefreshToken cmd) \<and> seUserID y = seUserID x)"
    using r by blast+
  show "IsOpaqueTokenShape (rfRefreshToken cmd)" "kHash k (rfRefreshToken cmd) \<noteq> []"
    using shape Session_FindByHash_Inr [OF find] by simp_all
qed

lemma Refresh_retired:
  assumes "retired (kHash k (rfRefreshToken cmd)) (asDB s)"
  shows "fst (Refresh k cfg env cmd s) \<noteq> Inr res"
proof
  assume "fst (Refresh k cfg env cmd s) = Inr res"
  then obtain s1 where "Refresh k cfg env cmd s = (Inr res, s1)" by (metis prod.collapse)
  then obtain session pair db1 where "refresh_tx k cfg env (kHash k (rfRefreshToken cmd)) (asDB s) = Inr (Rotated session pair, db1)"
    by (rule Refresh_Inr) blast
  then obtain old where "Session_FindByHash (avFaults env) (asDB s) (kHash k (rfRefreshToken cmd)) = Inr old"
    by (rule refresh_tx_Rotated) blast
  with retired_refuses [OF assms] show False by blast
qed

lemma Refresh_reuse:
  assumes retired: "retired h (asDB s)" and prev: "\<exists>y \<in> set (auSessions (asDB s)). sePreviousHash y = h"
    and h: "h = kHash k (rfRefreshToken cmd)" "h \<noteq> []" and shape: "IsOpaqueTokenShape (rfRefreshToken cmd)"
    and ok: "avFaults env = (\<lambda>_. False)"
  obtains y s1 where "Refresh k cfg env cmd s = (Inl ErrRefreshTokenReuse, s1)" "y \<in> set (auSessions (asDB s))"
    "sePreviousHash y = h" "signed_out (seUserID y) (\<lambda>_. False) (asDB s1)"
proof -
  have none: "Session_FindByHash (avFaults env) (asDB s) h = Inl ErrSessionNotFound"
    using retired unfolding retired_def Session_FindByHash_def ok
    by (cases "find (\<lambda>s. seHash s = h \<and> seHash s \<noteq> []) (auSessions (asDB s))") (auto simp: acall_def from_opt_def dest!: find_SomeD)
  obtain y where find: "find (\<lambda>s. sePreviousHash s = h \<and> sePreviousHash s \<noteq> []) (auSessions (asDB s)) = Some y"
    using prev h(2) by (metis (mono_tags, lifting) find_None_iff option.exhaust)
  then have y: "y \<in> set (auSessions (asDB s))" "sePreviousHash y = h" by (auto dest: find_SomeD)
  obtain db1 where rev: "RevokeAllByUserID (avFaults env) (avDBNow env) (seUserID y) (asDB s) = Inr ((), db1)"
    by (simp add: RevokeAllByUserID_def state_of_others_def ok acall_def)
  have "refresh_tx k cfg env h (asDB s) = Inr (Reused y, db1)"
    using none find rev by (simp add: refresh_tx_def reuseOrInvalid_def Session_FindByPreviousHash_def ok acall_def from_opt_def Let_def)
  then have "\<exists>s1. Refresh k cfg env cmd s = (Inl ErrRefreshTokenReuse, s1) \<and> asDB s1 = db1"
    using shape h(1) by (simp add: Refresh_def ok Let_def)
  with y signed_out_intros(1) [OF rev] that show thesis by blast
qed

end
