(* ===== verification/AuthLockout.thy ===== *)
theory AuthLockout
  imports AuthBehaviour
begin

text \<open>
  The login throttle under a series of guesses at one identifier (\<open>auth/application/login.go\<close>,
  \<open>auth/infra/throttle/redis.go\<close>).
\<close>

section \<open>One attempt\<close>

text \<open>The answers that tell a guess was wrong or was not looked at.\<close>

fun guess_answer :: "auth_error \<Rightarrow> bool" where
  "guess_answer ErrInvalidCredentials \<longleftrightarrow> True"
| "guess_answer (AccountLockedError _) \<longleftrightarrow> True"
| "guess_answer _ \<longleftrightarrow> False"

text \<open>A password attempt on an account that has none is answered without being counted; it is set aside.\<close>

definition has_credential :: "AuthEnv \<Rightarrow> Identifier \<Rightarrow> LoginCommand \<Rightarrow> AuthDB \<Rightarrow> bool" where
  "has_credential env ident cmd db \<longleftrightarrow>
     (lcMethod cmd = LoginMethodPassword \<longrightarrow>
        (case findUser env ident db of Inl _ \<Rightarrow> True | Inr u \<Rightarrow> FindPassword (avFaults env) db (uID u) \<noteq> Inl ErrInvalidCredentials))"

lemma failed_login_Inl:
  "failed_login cfg env key cmd u ds s = (Inl e, s2) \<Longrightarrow> guess_answer e \<Longrightarrow>
     e = ErrInvalidCredentials \<and> asThrottle s2 key = RecordFailure (cfPolicy cfg) (avRedisNow env) (asThrottle s key)"
  by (auto simp: failed_login_def abind_def recordFailure_def audit_def recordLogin_def split: if_splits)

lemma upsertSession_Inl: "upsertSession k cfg env u device ip ua now v db = Inl e \<Longrightarrow> e = AuthIO"
  by (auto simp: upsertSession_def Let_def rbind_def Session_FindByDeviceID_def acall_def from_opt_def IssuePair_def
      Session_Update_def Session_Create_def split: sum.splits if_splits option.splits)

lemma in_tx_error: "in_tx fl body s = (Inl e, s2) \<Longrightarrow> e = AuthIO \<or> body (asDB s) = Inl e"
  by (auto simp: in_tx_def split: if_splits sum.splits)

lemma open_session_Inl: "open_session k cfg env user key cmd nd s = (Inl e, s2) \<Longrightarrow> \<not> guess_answer e"
  unfolding open_session_def
  by (auto simp: abind_Inl audit_def recordLogin_def dest!: in_tx_error upsertSession_Inl split: prod.splits)

lemma admit_Inl: "admit k cfg env user key cmd s = (Inl e, s2) \<Longrightarrow> \<not> guess_answer e"
  unfolding admit_def Let_def
  by (auto simp: abind_Inl clear_throttle_def audit_def recordLogin_def notify_def split: if_splits dest: open_session_Inl)

lemma verifyCredential_Inl:
  assumes "verifyCredential k env user ident cmd s = (Inl e, s2)"
    and "lcMethod cmd = LoginMethodPassword \<Longrightarrow> FindPassword (avFaults env) (asDB s) (uID user) \<noteq> Inl ErrInvalidCredentials"
  shows "\<not> guess_answer e"
  using assms
  by (auto simp: verifyCredential_def verify_otp_def OTP_Verify_def password_matches_def FindPassword_def rbind_def acall_def
      from_opt_def Let_def split: LoginMethod.splits if_splits prod.splits sum.splits option.splits)

lemma verifyCredential_Inr: "verifyCredential k env user ident cmd s = (Inr b, s2) \<Longrightarrow> asThrottle s2 = asThrottle s"
  by (auto simp: verifyCredential_def verify_otp_def Let_def split: LoginMethod.splits if_splits prod.splits sum.splits)

lemma findUser_Inl: "findUser env ident db = Inl e \<Longrightarrow> \<not> guess_answer e"
  by (auto simp: findUser_def FindByPhone_def FindByEmail_def find_live_by_def rbind_def acall_def from_opt_def
      split: IdentifierType.splits if_splits sum.splits option.splits)

lemma Login_known_Inl:
  assumes r: "Login_known k cfg env ident cmd user s = (Inl e, s2)" "guess_answer e"
    and pw: "lcMethod cmd = LoginMethodPassword \<Longrightarrow> FindPassword (avFaults env) (asDB s) (uID user) \<noteq> Inl ErrInvalidCredentials"
  shows "e = ErrInvalidCredentials
     \<and> asThrottle s2 (idValue ident) = RecordFailure (cfPolicy cfg) (avRedisNow env) (asThrottle s (idValue ident))"
proof (cases "uAccountState user")
  case AccountActive
  then have "abind (verifyCredential k env user ident cmd) (\<lambda>ok.
          if \<not> ok then failed_login cfg env (idValue ident) cmd (Some (uID user)) [(''method'', method_string (lcMethod cmd))]
          else admit k cfg env user (idValue ident) cmd) s = (Inl e, s2)"
    using r(1) by (simp add: Login_known_def Let_def)
  then show ?thesis
    unfolding abind_Inl using verifyCredential_Inl [OF _ pw] r(2)
    by (auto dest!: verifyCredential_Inr split: if_splits dest: admit_Inl failed_login_Inl)
next
  case AccountSuspended
  with r show ?thesis by (auto simp: Login_known_def abind_Inl audit_def)
next
  case AccountDeleted
  with r show ?thesis by (auto simp: Login_known_def Let_def dest: failed_login_Inl)
qed

lemma LockoutRemaining_nonneg: "LockoutRemaining pol now k \<le> 0 \<Longrightarrow> Failures now k < lpMaxFailures pol
    \<or> k = None \<or> (\<exists>n e. k = Some (n, e) \<and> (e \<le> now \<or> ttl_seconds now e \<le> 0))"
  by (auto simp: LockoutRemaining_def split: option.splits if_splits)

text \<open>
  A guess that gets one of these answers: either it was turned away by the lockout and nothing is
  counted, or it was counted and the lockout was off.
\<close>

lemma Login_guess:
  assumes r: "Login k cfg env cmd s = (Inl e, s2)" "guess_answer e"
    and ident: "NewIdentifier (lcIdentifierType cmd) (lcIdentifier cmd) = Inr ident"
    and cred: "has_credential env ident cmd (asDB s)"
  shows "(\<exists>t. e = AccountLockedError t) \<and> asThrottle s2 = asThrottle s
     \<or> e = ErrInvalidCredentials \<and> LockoutRemaining (cfPolicy cfg) (avRedisNow env) (asThrottle s (idValue ident)) \<le> 0
       \<and> asThrottle s2 (idValue ident) = RecordFailure (cfPolicy cfg) (avRedisNow env) (asThrottle s (idValue ident))"
proof -
  define remaining where "remaining = LockoutRemaining (cfPolicy cfg) (avRedisNow env) (asThrottle s (idValue ident))"
  have dev: "ValidateDeviceID (dvID (lcDevice cmd)) = Inr () \<and> lcMethod cmd \<in> {LoginMethodPassword, LoginMethodOTP}"
    using r by (auto simp: Login_def ident abind_def ValidateDeviceID_def split: if_splits LoginMethod.splits sum.splits)
  have up: "\<not> avFaults env CallLockout"
    using r dev by (auto simp: Login_def ident abind_def check_lockout_def acall_def Let_def)
  show ?thesis
  proof (cases "remaining > 0")
    case True
    with r dev up have "e = AccountLockedError remaining \<and> asThrottle s2 = asThrottle s"
      by (auto simp: Login_def ident abind_def check_lockout_def acall_def remaining_def audit_def Let_def)
    then show ?thesis by blast
  next
    case False
    define ds where "ds = [(''identifier'', idValue ident), (''method'', method_string (lcMethod cmd))]"
    have rest: "(case findUser env ident (asDB s) of
         Inl e \<Rightarrow> if e \<noteq> ErrUserNotFound then (Inl e, s) else failed_login cfg env (idValue ident) cmd None ds s
       | Inr user \<Rightarrow> Login_known k cfg env ident cmd user s) = (Inl e, s2)"
      using r(1) dev up False unfolding ds_def
      by (auto simp: Login_def ident abind_def check_lockout_def acall_def remaining_def Let_def)
    have "e = ErrInvalidCredentials
        \<and> asThrottle s2 (idValue ident) = RecordFailure (cfPolicy cfg) (avRedisNow env) (asThrottle s (idValue ident))"
    proof (cases "findUser env ident (asDB s)")
      case (Inl x)
      with rest r(2) findUser_Inl [OF Inl] show ?thesis by (auto split: if_splits dest: failed_login_Inl)
    next
      case (Inr user)
      with rest have "Login_known k cfg env ident cmd user s = (Inl e, s2)" by simp
      from Login_known_Inl [OF this r(2)] Inr cred show ?thesis by (simp add: has_credential_def)
    qed
    with False show ?thesis by (simp add: remaining_def)
  qed
qed

section \<open>A series of attempts\<close>

text \<open>
  Guesses at the identifier \<open>key\<close> while Redis says a time from \<open>a\<close> to \<open>b\<close>, with their answers in order.
  In between anything may happen that leaves the counter of the identifier alone, on whatever tables.
\<close>

inductive guessing :: "Crypto \<Rightarrow> AuthConfig \<Rightarrow> string \<Rightarrow> go_time \<Rightarrow> go_time \<Rightarrow> AuthState \<Rightarrow> auth_error list \<Rightarrow> AuthState \<Rightarrow> bool"
  for k cfg key a b s where
  guess_none: "guessing k cfg key a b s [] s"
| guess_other: "guessing k cfg key a b s es s1 \<Longrightarrow> asThrottle s2 key = asThrottle s1 key \<Longrightarrow> guessing k cfg key a b s es s2"
| guess_try: "guessing k cfg key a b s es s1 \<Longrightarrow>
     NewIdentifier (lcIdentifierType cmd) (lcIdentifier cmd) = Inr ident \<Longrightarrow> idValue ident = key \<Longrightarrow>
     a \<le> avRedisNow env \<Longrightarrow> avRedisNow env \<le> b \<Longrightarrow> has_credential env ident cmd (asDB s1) \<Longrightarrow>
     Login k cfg env cmd s1 = (Inl e, s2) \<Longrightarrow> guess_answer e \<Longrightarrow> guessing k cfg key a b s (es @ [e]) s2"

definition looked_at :: "auth_error list \<Rightarrow> nat" where
  "looked_at es = length (filter (\<lambda>e. e = ErrInvalidCredentials) es)"

definition counter_ok :: "int key \<Rightarrow> bool" where
  "counter_ok k \<longleftrightarrow> (case k of None \<Rightarrow> True | Some (n, _) \<Rightarrow> 0 \<le> n)"

lemma looked_at_snoc [simp]: "looked_at (es @ [e]) = looked_at es + (if e = ErrInvalidCredentials then 1 else 0)"
  by (simp add: looked_at_def)

text \<open>The counter never loses a guess of the series, because its expiry slides past the end of it.\<close>

lemma guessing_counter:
  assumes "guessing k cfg key a b s es s2" and pol: "0 < lpMaxFailures (cfPolicy cfg)" "b + 500000 \<le> a + lpLockoutDuration (cfPolicy cfg)"
    and start: "counter_ok (asThrottle s key)"
  shows "int (looked_at es) \<le> lpMaxFailures (cfPolicy cfg)
    \<and> counter_ok (asThrottle s2 key)
    \<and> (looked_at es = 0 \<or> (\<exists>n e. asThrottle s2 key = Some (n, e) \<and> int (looked_at es) \<le> n \<and> a + lpLockoutDuration (cfPolicy cfg) \<le> e))"
  using assms(1)
proof (induction rule: guessing.induct)
  case guess_none
  with start pol show ?case by (simp add: looked_at_def)
next
  case (guess_other es s1 s2)
  then show ?case by simp
next
  case (guess_try es s1 cmd ident env e s2)
  let ?pol = "cfPolicy cfg" and ?now = "avRedisNow env" and ?c = "asThrottle s1 key"
  from Login_guess [OF guess_try(7,8,2,6)] guess_try(3)
  consider (locked) t where "e = AccountLockedError t" "asThrottle s2 = asThrottle s1"
    | (counted) "e = ErrInvalidCredentials" "LockoutRemaining ?pol ?now ?c \<le> 0" "asThrottle s2 key = RecordFailure ?pol ?now ?c"
    by blast
  then show ?case
  proof cases
    case locked
    with guess_try.IH show ?thesis by simp
  next
    case counted
    have n0: "0 \<le> Failures ?now ?c"
      using guess_try.IH by (auto simp: counter_ok_def Failures_def live_def split: option.splits if_splits)
    then have new: "asThrottle s2 key = Some (Failures ?now ?c + 1, ?now + lpLockoutDuration ?pol)"
      using counted(3) by (simp add: RecordFailure_def Let_def)
    have "looked_at es = 0 \<or> int (looked_at es) \<le> Failures ?now ?c \<and> Failures ?now ?c < lpMaxFailures ?pol"
    proof (cases "looked_at es = 0")
      case False
      then obtain n t where c: "?c = Some (n, t)" "int (looked_at es) \<le> n" "a + lpLockoutDuration ?pol \<le> t"
        using guess_try.IH by auto
      have later: "?now + 500000 \<le> t" using c(3) guess_try(5) pol(2) by linarith
      then have live: "Failures ?now ?c = n" by (simp add: Failures_def live_def c(1))
      have "1 \<le> ttl_seconds ?now t" using later by (simp add: ttl_seconds_def)
      with LockoutRemaining_nonneg [OF counted(2)] later c(1) have "Failures ?now ?c < lpMaxFailures ?pol" by auto
      with live c(2) show ?thesis by simp
    qed simp
    with new n0 pol guess_try(4) counted(1) guess_try.IH show ?thesis by (auto simp: counter_ok_def)
  qed
qed

text \<open>With as many guesses looked at as the policy allows, the next login is turned away, right or wrong.\<close>

lemma Login_locked:
  assumes ident: "NewIdentifier (lcIdentifierType cmd) (lcIdentifier cmd) = Inr ident"
    and locked: "0 < LockoutRemaining (cfPolicy cfg) (avRedisNow env) (asThrottle s (idValue ident))"
  shows "fst (Login k cfg env cmd s) \<noteq> Inr res"
  using locked
  by (auto simp: Login_def ident abind_def check_lockout_def acall_def audit_def Let_def split: if_splits sum.splits LoginMethod.splits)

lemma guessing_locks:
  assumes "guessing k cfg key a b s es s2" and pol: "0 < lpMaxFailures (cfPolicy cfg)" "b + 500000 \<le> a + lpLockoutDuration (cfPolicy cfg)"
    and start: "counter_ok (asThrottle s key)"
    and all: "int (looked_at es) = lpMaxFailures (cfPolicy cfg)" and now: "now \<le> b"
  shows "0 < LockoutRemaining (cfPolicy cfg) now (asThrottle s2 key)"
proof -
  from guessing_counter [OF assms(1) pol start] all pol(1) obtain n t where c: "asThrottle s2 key = Some (n, t)"
    "lpMaxFailures (cfPolicy cfg) \<le> n" "a + lpLockoutDuration (cfPolicy cfg) \<le> t"
    by auto
  have later: "now + 500000 \<le> t" using c(3) now pol(2) by linarith
  then have "1 \<le> ttl_seconds now t" by (simp add: ttl_seconds_def)
  with later c(1,2) show ?thesis by (simp add: LockoutRemaining_def Failures_def live_def)
qed

text \<open>A wrong password for the account of the example.\<close>

definition demo_guess :: "string \<Rightarrow> LoginCommand" where
  "demo_guess password = \<lparr>lcIdentifierType = IdentifierPhone, lcIdentifier = ''+14155550100'', lcMethod = LoginMethodPassword,
     lcPassword = password, lcOTPCode = [], lcDevice = demo_device, lcIPAddress = None, lcUserAgent = None\<rparr>"

definition demo_counter :: "int \<Rightarrow> int key" where
  "demo_counter n = (if n = 0 then None else Some (n, 301000000))"

lemma demo_guess_fails:
  assumes "asDB s = demo_auth_db" and "asThrottle s ''+14155550100'' = demo_counter n" and "0 \<le> n" and "n < 5"
  shows "\<exists>s'. Login demo_crypto demo_config (demo_env 1000000 90 []) (demo_guess ''guess'') s = (Inl ErrInvalidCredentials, s')
     \<and> asDB s' = demo_auth_db \<and> asThrottle s' ''+14155550100'' = demo_counter (n + 1)"
  using assms
  by (simp add: Login_def demo_guess_def check_lockout_def LockoutRemaining_def Failures_def live_def Login_known_def verifyCredential_def
      failed_login_def recordFailure_def recordLogin_def RecordFailure_def demo_counter_def demo_auth_simps store_eval service_eval
      DefaultLoginPolicy_def)

lemma demo_guess_step:
  assumes "guessing demo_crypto demo_config ''+14155550100'' 1000000 1000000 demo_state es s"
    and "asDB s = demo_auth_db" and "asThrottle s ''+14155550100'' = demo_counter n" and "0 \<le> n" and "n < 5"
  shows "\<exists>s'. guessing demo_crypto demo_config ''+14155550100'' 1000000 1000000 demo_state (es @ [ErrInvalidCredentials]) s'
     \<and> asDB s' = demo_auth_db \<and> asThrottle s' ''+14155550100'' = demo_counter (n + 1)"
proof -
  obtain s' where r: "Login demo_crypto demo_config (demo_env 1000000 90 []) (demo_guess ''guess'') s = (Inl ErrInvalidCredentials, s')"
    and s': "asDB s' = demo_auth_db" "asThrottle s' ''+14155550100'' = demo_counter (n + 1)"
    using demo_guess_fails [OF assms(2-5)] by blast
  have ident: "NewIdentifier (lcIdentifierType (demo_guess ''guess'')) (lcIdentifier (demo_guess ''guess''))
      = Inr \<lparr>idType = IdentifierPhone, idValue = ''+14155550100''\<rparr>"
    by (simp add: demo_guess_def)
  have cred: "has_credential (demo_env 1000000 90 []) \<lparr>idType = IdentifierPhone, idValue = ''+14155550100''\<rparr> (demo_guess ''guess'') (asDB s)"
    by (simp add: has_credential_def demo_guess_def assms(2) demo_auth_simps store_eval)
  show ?thesis
    using guess_try [OF assms(1) ident _ _ _ cred r] s' by auto
qed

lemma demo_five_guesses:
  "\<exists>s. guessing demo_crypto demo_config ''+14155550100'' 1000000 1000000 demo_state (replicate 5 ErrInvalidCredentials) s"
proof -
  let ?es = "\<lambda>n. replicate n ErrInvalidCredentials"
  have "\<exists>s. guessing demo_crypto demo_config ''+14155550100'' 1000000 1000000 demo_state (?es n) s
      \<and> asDB s = demo_auth_db \<and> asThrottle s ''+14155550100'' = demo_counter (int n)" if "n \<le> 5" for n
    using that
  proof (induction n)
    case 0
    show ?case by (rule exI [of _ demo_state]) (simp add: guess_none demo_state_def demo_counter_def)
  next
    case (Suc n)
    then obtain s where "guessing demo_crypto demo_config ''+14155550100'' 1000000 1000000 demo_state (?es n) s"
      "asDB s = demo_auth_db" "asThrottle s ''+14155550100'' = demo_counter (int n)" by auto
    from demo_guess_step [OF this] Suc.prems show ?case by (simp add: replicate_append_same [symmetric] add.commute)
  qed
  from this [of 5] show ?thesis by blast
qed

end
