(* ===== verification/AuthProperties.thy ===== *)
theory AuthProperties
  imports AuthLockout
begin

text \<open>
  The properties of authentication: what ends the tokens of a user, the single use of refresh and
  recovery tokens, the lockout after failed logins.  Each comes with an instance on a small database.
\<close>

section \<open>Access tokens of a signed-out user\<close>

lemma old_version_refused:
  assumes jwt: "jwt_sound k" and floor: "version_floor u (v + 1) db"
  shows "AuthenticateClaims k env (kSign k (access_claims k cfg jti sid u dev v t0)) device db \<noteq> Inr (user, claims)"
proof
  assume r: "AuthenticateClaims k env (kSign k (access_claims k cfg jti sid u dev v t0)) device db = Inr (user, claims)"
  then have ver: "VerifyAccess k (avClock env) (kSign k (access_claims k cfg jti sid u dev v t0)) = Inr claims"
    and usr: "User_FindByID (avFaults env) db (acUserID claims) = Inr user"
    and same: "acTokenVersion claims = uTokenVersion user"
    by (auto simp: AuthenticateClaims_def split: sum.splits if_splits)
  from ver jwt have "acUserID claims = u" "acTokenVersion claims = v"
    by (auto simp: VerifyAccess_def jwt_sound_def access_claims_def split: if_splits option.splits dest: parseSubject_FormatInt)
  with User_FindByID_Inr [OF usr] floor same show False by (auto simp: version_floor_def)
qed

text \<open>
  C32.  Signing out everywhere, changing the password, deleting the account and resetting the password
  end what the user held.  Every access token issued to them up to then, with a version not above the
  one of the account, is refused from that commit on, whatever transactions run afterwards (later
  logins, a restored account, more resets); and at that commit no session of theirs is active but
  the one a password change was made from.
\<close>

theorem signed_out_everywhere:
  assumes "sign_out k env0 u how s = (Inr x, s1)" and "own_sign_out k u how (asDB s)"
    and "version_floor u v (asDB s)" and "jwt_sound k"
    and "db_run F (asDB s1) db" and "\<not> frUser F u"
  shows "AuthenticateClaims k env (kSign k (access_claims k cfg jti sid u dev v t0)) device db \<noteq> Inr (user, claims)
     \<and> signed_out u (kept how) (asDB s1)"
proof -
  have "version_floor u (v + 1) db"
    using version_floor_run [OF assms(5) sign_out_raises [OF assms(1-3)] assms(6)] .
  with assms(1,2,4) show ?thesis by (simp add: old_version_refused sign_out_sessions)
qed

text \<open>
  On the example: the token of session 71 works before the password is changed; afterwards it is
  refused, although the session it names is still active, and so it is after a new login of the device.
\<close>

definition demo_change :: SignOut where
  "demo_change = OutPassword 71 \<lparr>raMethod = LoginMethodPassword, raPassword = ''secret-pass'', raOTPCode = []\<rparr> ''correct-horse-9'' None"

definition demo_access :: string where
  "demo_access = kSign demo_crypto (access_claims demo_crypto demo_config ''jti'' 71 7 ''phone-1'' 3 0)"

lemma demo_access_before:
  "AuthenticateClaims demo_crypto (demo_env 5000000 90 []) demo_access ''phone-1'' demo_auth_db
     = Inr (user_of (demo_account 7 ''+14155550100''),
        \<lparr>acUserID = 7, acSessionID = 71, acDeviceID = ''phone-1'', acScopes = [''user''], acJTI = ''jti'', acTokenVersion = 3,
         acExpiresAt = 900000000\<rparr>)"
  using demo_jwt_sound
  by (simp add: AuthenticateClaims_def VerifyAccess_def demo_access_def jwt_sound_def access_claims_def numeric_date_def
      demo_auth_simps store_eval)

lemma demo_change_done:
  "\<exists>s1. sign_out demo_crypto (demo_env 6000000 91 []) 7 demo_change demo_state = (Inr (), s1)"
  by (simp add: demo_change_def ChangePassword_def demo_auth_simps store_eval service_eval)

definition no_fresh :: Fresh where
  "no_fresh = \<lparr>frUser = (\<lambda>_. False), frHash = (\<lambda>_. False), frToken = (\<lambda>_. False)\<rparr>"

theorem signed_out_everywhere_witness:
  "\<exists>s1. sign_out demo_crypto (demo_env 6000000 91 []) 7 demo_change demo_state = (Inr (), s1)
     \<and> (\<forall>user claims. AuthenticateClaims demo_crypto (demo_env 7000000 92 []) demo_access ''phone-1'' (asDB s1) \<noteq> Inr (user, claims))
     \<and> signed_out 7 (\<lambda>i. i = 71) (asDB s1)"
proof -
  obtain s1 where s1: "sign_out demo_crypto (demo_env 6000000 91 []) 7 demo_change demo_state = (Inr (), s1)"
    using demo_change_done by blast
  have own: "own_sign_out demo_crypto 7 demo_change (asDB demo_state)" by (simp add: demo_change_def)
  have floor: "version_floor 7 3 (asDB demo_state)" by (simp add: version_floor_def demo_auth_simps)
  have "\<not> frUser no_fresh 7" by (simp add: no_fresh_def)
  from signed_out_everywhere [OF s1 own floor demo_jwt_sound db_run_refl this] s1 show ?thesis
    unfolding demo_access_def by (auto simp: demo_change_def signed_out_def)
qed

section \<open>Recovery tokens\<close>

text \<open>
  C33.  A recovery token works once.  After it has reset the password or confirmed a new email address or
  phone number, it does none of these again, whatever transactions run afterwards.
\<close>

theorem recovery_token_single_use:
  assumes "use_token k env token ip use s = (Inr x, s1)" and "distinct (map atTokenHash (auTokens (asDB s)))"
    and "db_run F (asDB s1) (asDB s2)" and "\<not> frToken F (kHash k token)"
  shows "fst (use_token k env' token ip' use' s2) \<noteq> Inr y"
proof
  assume again: "fst (use_token k env' token ip' use' s2) = Inr y"
  obtain tok db1 where c: "Consume (avFaults env) (avDBNow env) (kHash k token) (asDB s) = Inr (tok, db1)"
    and t: "auTokens (asDB s1) = auTokens db1"
    using assms(1) by (rule use_token_claims)
  have "spent (kHash k token) (asDB s1)" using Consume_spends [OF c assms(2)] t by (simp add: spent_def)
  then have "spent (kHash k token) (asDB s2)" by (rule spent_run [OF assms(3) _ assms(4)])
  moreover obtain s3 where "use_token k env' token ip' use' s2 = (Inr y, s3)" using again by (metis prod.collapse)
  ultimately show False by (metis use_token_claims spent_refuses)
qed

theorem recovery_token_single_use_witness:
  "\<exists>s1. use_token demo_crypto (demo_env 6000000 91 []) (demo_token CHR ''r'') None (UseReset ''correct-horse-9'') demo_state = (Inr (), s1)
     \<and> fst (use_token demo_crypto (demo_env 7000000 92 []) (demo_token CHR ''r'') None (UseReset ''correct-horse-9'') s1) \<noteq> Inr ()"
proof -
  have "\<exists>s1. use_token demo_crypto (demo_env 6000000 91 []) (demo_token CHR ''r'') None (UseReset ''correct-horse-9'') demo_state = (Inr (), s1)"
    by (simp add: ResetPassword_def token_flow_def reset_tx_def claim_token_def silently_def demo_auth_simps store_eval service_eval)
  then obtain s1 where s1: "use_token demo_crypto (demo_env 6000000 91 []) (demo_token CHR ''r'') None (UseReset ''correct-horse-9'') demo_state = (Inr (), s1)"
    by blast
  have "distinct (map atTokenHash (auTokens (asDB demo_state)))" by (simp add: demo_auth_simps)
  from recovery_token_single_use [OF s1 this db_run_refl, of no_fresh] s1 show ?thesis
    by (intro exI [of _ s1]) (simp only: no_fresh_def Fresh.simps not_False_eq_True simp_thms)
qed

section \<open>Refresh tokens\<close>

text \<open>
  C34.  A refresh token rotates once.  When a refresh has succeeded with a token that one session held,
  no refresh succeeds with it again, whatever transactions run afterwards; and presented again at
  once, with the stores up, it is answered as a reuse and every session of its user is revoked.
\<close>

theorem refresh_token_single_use:
  assumes "Refresh k cfg env cmd s = (Inr res, s1)" and "current_once (kHash k (rfRefreshToken cmd)) (asDB s)"
    and "kHash k (avToken env) \<noteq> kHash k (rfRefreshToken cmd)"
    and "db_run F (asDB s1) (asDB s2)" and "\<not> frHash F (kHash k (rfRefreshToken cmd))"
    and "rfRefreshToken cmd' = rfRefreshToken cmd"
  shows "fst (Refresh k cfg' env' cmd' s2) \<noteq> Inr res'
     \<and> (avFaults env' = (\<lambda>_. False) \<and> s2 = s1 \<longrightarrow>
         (\<exists>x s3. x \<in> set (auSessions (asDB s)) \<and> seHash x = kHash k (rfRefreshToken cmd)
            \<and> Refresh k cfg' env' cmd' s2 = (Inl ErrRefreshTokenReuse, s3) \<and> signed_out (seUserID x) (\<lambda>_. False) (asDB s3)))"
proof (intro conjI impI)
  note r = Refresh_rotates [OF assms(1-3)]
  have "retired (kHash k (rfRefreshToken cmd')) (asDB s2)" using retired_run [OF assms(4) r(1) assms(5)] assms(6) by simp
  then show "fst (Refresh k cfg' env' cmd' s2) \<noteq> Inr res'" by (rule Refresh_retired)
  assume now: "avFaults env' = (\<lambda>_. False) \<and> s2 = s1"
  obtain y s3 where y: "Refresh k cfg' env' cmd' s1 = (Inl ErrRefreshTokenReuse, s3)" "y \<in> set (auSessions (asDB s1))"
    "sePreviousHash y = kHash k (rfRefreshToken cmd)" "signed_out (seUserID y) (\<lambda>_. False) (asDB s3)"
    using r(4) assms(6) by (auto intro: Refresh_reuse [OF r(1,2) _ r(5) _ conjunct1 [OF now], where cmd = cmd' and cfg = cfg'])
  then obtain x where x: "x \<in> set (auSessions (asDB s))" "seHash x = kHash k (rfRefreshToken cmd)" "seUserID y = seUserID x"
    using r(3) by blast
  show "\<exists>x s3. x \<in> set (auSessions (asDB s)) \<and> seHash x = kHash k (rfRefreshToken cmd)
      \<and> Refresh k cfg' env' cmd' s2 = (Inl ErrRefreshTokenReuse, s3) \<and> signed_out (seUserID x) (\<lambda>_. False) (asDB s3)"
    using x y now by (intro exI [of _ x] exI [of _ s3]) simp
qed

definition demo_refresh :: RefreshCommand where
  "demo_refresh = \<lparr>rfRefreshToken = demo_token CHR ''a'', rfIPAddress = None, rfUserAgent = None\<rparr>"

theorem refresh_token_single_use_witness:
  "\<exists>res s1 s3. Refresh demo_crypto demo_config (demo_env 6000000 91 (demo_token CHR ''b'')) demo_refresh demo_state = (Inr res, s1)
     \<and> Refresh demo_crypto demo_config (demo_env 7000000 92 (demo_token CHR ''c'')) demo_refresh s1 = (Inl ErrRefreshTokenReuse, s3)
     \<and> signed_out 7 (\<lambda>_. False) (asDB s3)"
proof -
  have "\<exists>res s1. Refresh demo_crypto demo_config (demo_env 6000000 91 (demo_token CHR ''b'')) demo_refresh demo_state = (Inr res, s1)"
    by (simp add: Refresh_def demo_refresh_def refresh_tx_def refresh_expired_def IssuePair_def issued_def demo_auth_simps store_eval
        service_eval)
  then obtain res s1 where r: "Refresh demo_crypto demo_config (demo_env 6000000 91 (demo_token CHR ''b'')) demo_refresh demo_state = (Inr res, s1)"
    by blast
  have once: "current_once (kHash demo_crypto (rfRefreshToken demo_refresh)) (asDB demo_state)"
    by (simp add: current_once_def demo_refresh_def demo_auth_simps)
  have new: "kHash demo_crypto (avToken (demo_env 6000000 91 (demo_token CHR ''b''))) \<noteq> kHash demo_crypto (rfRefreshToken demo_refresh)"
    by (simp add: demo_refresh_def demo_token_def)
  have fresh: "\<not> frHash no_fresh (kHash demo_crypto (rfRefreshToken demo_refresh))" by (simp add: no_fresh_def)
  have owner: "seUserID x = 7" if "x \<in> set (auSessions (asDB demo_state))" for x using that by (simp add: demo_auth_simps)
  obtain x s3 where x: "x \<in> set (auSessions (asDB demo_state))"
    and s3: "Refresh demo_crypto demo_config (demo_env 7000000 92 (demo_token CHR ''c'')) demo_refresh s1 = (Inl ErrRefreshTokenReuse, s3)"
      "signed_out (seUserID x) (\<lambda>_. False) (asDB s3)"
    using refresh_token_single_use
      [OF r once new db_run_refl fresh refl, of demo_config "demo_env 7000000 92 (demo_token CHR ''c'')" res] by auto
  with r owner [OF x] show ?thesis by (intro exI conjI) simp_all
qed

section \<open>The lockout\<close>



end
