(* ===== verification/RtEndpoint.thy ===== *)
theory RtEndpoint
  imports RtHandlerProofs AuthProperties
begin

text \<open>
  The gateway endpoint of the sockets (\<open>realtime/delivery/ws/endpoint.go\<close>): the hello frame, the
  authentication of its token by the authentication service, the registration of the socket with its
  lifecycle, and what a socket leaves behind when it goes.
\<close>

section \<open>The handshake\<close>

text \<open>The query of the upgraded request and the first message of its socket.\<close>

record Handshake =
  hkQueryToken :: string
  hkQueryDevice :: string
  hkFirst :: ws_message

datatype hello_error = HelloUnread | HelloProtocol rt_error

datatype handshake_error = HandshakeProtocol rt_error | HandshakeAuth auth_error

definition readHello :: "ws_message \<Rightarrow> hello_error + helloPayload" where
  "readHello first =
     (case first of
        ReadFailed \<Rightarrow> Inl HelloUnread
      | BinaryMessage \<Rightarrow> Inl (HelloProtocol NotText)
      | TextMessage text \<Rightarrow>
          (case Frame_Decode text of
             Inl e \<Rightarrow> Inl (HelloProtocol e)
           | Inr frame \<Rightarrow>
               if fmType frame \<noteq> ''hello'' then Inl (HelloProtocol NotHello)
               else from_opt (HelloProtocol InvalidData) (obind (payload_members (fmData frame)) hello_fields)))"

text \<open>
  The token of the query comes before the one of the frame, and its device with it.  The service the
  endpoint is wired to is \<open>AuthenticateClaims\<close>.
\<close>

definition authenticate :: "Crypto \<Rightarrow> AuthEnv \<Rightarrow> AuthDB \<Rightarrow> Handshake \<Rightarrow> helloPayload \<Rightarrow> handshake_error + (User \<times> AccessClaims)" where
  "authenticate k aenv adb hs hello =
     (let token = (if hkQueryToken hs = [] then hpAccessToken hello else hkQueryToken hs);
          deviceID = (if hkQueryToken hs = [] then hpDeviceID hello else hkQueryDevice hs) in
      if token = [] then Inl (HandshakeProtocol MissingToken)
      else if deviceID = [] then Inl (HandshakeProtocol MissingDevice)
      else (case AuthenticateClaims k aenv token deviceID adb of Inl e \<Rightarrow> Inl (HandshakeAuth e) | Inr r \<Rightarrow> Inr r))"

fun reject_code :: "handshake_error \<Rightarrow> CloseCode" where
  "reject_code (HandshakeAuth ErrSessionRevoked) = CloseSessionRevoked"
| "reject_code (HandshakeAuth ErrAccountSuspended) = CloseSessionRevoked"
| "reject_code (HandshakeAuth ErrAccountDeleted) = CloseSessionRevoked"
| "reject_code _ = CloseAuthInvalid"

section \<open>Opening and closing a socket\<close>

definition headGlobalSeq :: "go_int option \<Rightarrow> go_int" where
  "headGlobalSeq head = (case head of None \<Rightarrow> 0 | Some v \<Rightarrow> v)"

definition hello_ack :: "string \<Rightarrow> go_int \<Rightarrow> go_time \<Rightarrow> go_int \<Rightarrow> json" where
  "hello_ack i sessionID now head =
     JObj [(''connection_id'', JStr i), (''global_seq'', JInt head), (''last_seq'', JInt 0),
           (''server_time'', JTime (rfc3339 now)), (''session_id'', JInt sessionID)]"

text \<open>Presence learns of the socket, then the acknowledgement is the first thing it is sent.\<close>

definition bind_socket :: "FrameEnv \<Rightarrow> AccessClaims \<Rightarrow> Server \<Rightarrow> string \<times> Server" where
  "bind_socket env claims s =
     (let (i, g) = open_socket (acUserID claims) (acSessionID claims) (acDeviceID claims) (svGateway s);
          (_, events, ps) = presence_Connect presence_defaults (fvEphemeral env 0) (acUserID claims) i (svPresence s);
          data = hello_ack i (acSessionID claims) (fvClock env 3) (headGlobalSeq (fvHead env))
      in (i, s\<lparr>svGateway := on_conns {i} (\<lambda>c. snd (sendEvent ''hello_ack'' data (fvClock env 3) c)) g,
               svPresence := ps, svPublished := svPublished s @ events\<rparr>))"

datatype handshake = Refused CloseCode | Opened string

definition ServeHTTP :: "Crypto \<Rightarrow> AuthEnv \<Rightarrow> FrameEnv \<Rightarrow> Handshake \<Rightarrow> AuthDB \<Rightarrow> Server \<Rightarrow> handshake \<times> Server" where
  "ServeHTTP k aenv env hs adb s =
     (case readHello (hkFirst hs) of
        Inl _ \<Rightarrow> (Refused CloseProtocol, s)
      | Inr hello \<Rightarrow>
          (case authenticate k aenv adb hs hello of
             Inl e \<Rightarrow> (Refused (reject_code e), s)
           | Inr (_, claims) \<Rightarrow> let (i, s1) = bind_socket env claims s in (Opened i, s1)))"

text \<open>
  The end of a socket: it leaves the hub, then \<open>onClose\<close> takes its connection from presence, and with
  the last one the typing state of the user.
\<close>

definition teardown :: "FrameEnv \<Rightarrow> Connection \<Rightarrow> Server \<Rightarrow> Server" where
  "teardown env c s =
     (let (offline, events, ps) = presence_Disconnect presence_defaults (fvEphemeral env 0) (cnUserID c) (cnID c) (svPresence s);
          (events', ty) = (if offline then typing_CleanupUser (fvEphemeral env 1) (cnUserID c) (svTyping s) else ([], svTyping s))
      in s\<lparr>svGateway := unregister (cnID c) (svGateway s), svPresence := ps, svTyping := ty,
           svPublished := svPublished s @ events @ events'\<rparr>)"

section \<open>What a handshake admits\<close>

lemma AuthenticateClaims_Inr:
  assumes "AuthenticateClaims k aenv token deviceID adb = Inr (user, claims)"
  shows "\<exists>a \<in> set (auUsers adb). uID a = acUserID claims \<and> uAccountState a = AccountActive \<and> uTokenVersion a = acTokenVersion claims"
    and "\<exists>x \<in> set (auSessions adb). seID x = acSessionID claims \<and> seUserID x = acUserID claims
      \<and> seState x = SessionActive \<and> dvID (seDevice x) = deviceID"
proof -
  from assms have usr: "User_FindByID (avFaults aenv) adb (acUserID claims) = Inr user"
    and st: "uAccountState user \<noteq> AccountSuspended" "uAccountState user \<noteq> AccountDeleted" "acTokenVersion claims = uTokenVersion user"
    by (auto simp: AuthenticateClaims_def split: sum.splits if_splits)
  from usr obtain a where a: "a \<in> set (auUsers adb)" "uID a = acUserID claims" "user = user_of a"
    by (auto simp: User_FindByID_def split: if_splits dest!: find_SomeD)
  then have ua: "uID user = acUserID claims" "uAccountState user = uAccountState a" "uTokenVersion user = uTokenVersion a"
    by (simp_all add: user_of_def User.truncate_def)
  with a st show "\<exists>a \<in> set (auUsers adb). uID a = acUserID claims \<and> uAccountState a = AccountActive \<and> uTokenVersion a = acTokenVersion claims"
    by (intro bexI [of _ a]) (cases "uAccountState a", auto)
  from assms usr obtain x where "Session_FindByDeviceID (avFaults aenv) adb (uID user) deviceID = Inr x"
    "seID x = acSessionID claims" "seState x = SessionActive"
    by (auto simp: AuthenticateClaims_def split: sum.splits if_splits)
  with ua show "\<exists>x \<in> set (auSessions adb). seID x = acSessionID claims \<and> seUserID x = acUserID claims
      \<and> seState x = SessionActive \<and> dvID (seDevice x) = deviceID"
    by (auto simp: Session_FindByDeviceID_def dest!: find_SomeD)
qed

text \<open>The socket as the handshake leaves it: bound to the claims, with the acknowledgement queued.\<close>

definition greeted :: "FrameEnv \<Rightarrow> AccessClaims \<Rightarrow> string \<Rightarrow> Connection" where
  "greeted env claims i =
     (newConnection i (acUserID claims) (acSessionID claims) (acDeviceID claims))\<lparr>cnSeq := 1,
       cnQueue := [\<lparr>fmVersion = ProtocolVersion, fmID = [], fmType = ''hello_ack'', fmSeq = Some 1, fmAt = fvClock env 3,
         fmData = Some (hello_ack i (acSessionID claims) (fvClock env 3) (headGlobalSeq (fvHead env)))\<rparr>]\<rparr>"

lemma bind_socket_conns:
  assumes "bind_socket env claims s = (i, s')"
  shows "gwConns (svGateway s') = (gwConns (svGateway s))(i := Some (greeted env claims i))"
    and "gwRegistered (svGateway s') = insert i (gwRegistered (svGateway s))"
  using assms
  by (auto simp: bind_socket_def open_socket_def NextConnID_def register_def on_conns_def sendEvent_def stamp_def enqueue_def
      isClosing_def newConnection_def SendBufferSize_def greeted_def Let_def fun_eq_iff split: prod.splits)


definition demo_hello :: json where
  "demo_hello = JObj [(''v'', JInt 1), (''id'', JStr ''h-1''), (''type'', JStr ''hello''), (''data'', JObj [])]"

definition demo_handshake :: Handshake where
  "demo_handshake = \<lparr>hkQueryToken = demo_access, hkQueryDevice = ''phone-1'', hkFirst = TextMessage (Some demo_hello)\<rparr>"

lemma demo_readHello:
  "readHello (TextMessage (Some demo_hello)) = Inr \<lparr>hpAccessToken = [], hpDeviceID = [], hpSessionID = 0, hpClientVersion = [],
     hpLastSeq = None, hpLastGlobalSeq = None\<rparr>"
  by code_simp

lemma demo_handshake_simps [simp]:
  "hkQueryToken demo_handshake = demo_access" "hkQueryDevice demo_handshake = ''phone-1''"
  "hkFirst demo_handshake = TextMessage (Some demo_hello)"
  by (simp_all add: demo_handshake_def)

lemma demo_access_nonempty: "demo_access \<noteq> []"
  using demo_access_before demo_jwt_sound by (auto simp: demo_access_def demo_crypto_def demo_sign_def netstring_def)


end
