(* ===== verification/HttpProperties.thy ===== *)
theory HttpProperties
  imports HttpRules RtEndpoint ChatServe
begin

text \<open>
  The REST surface as a whole: what a request may change and for whom, that the chat module's
  invariants survive whatever is sent, that a retried write is answered and not repeated, and where
  server errors come from.
\<close>

section \<open>What a request changes\<close>

lemma Idempotency_state:
  assumes "Idempotency sha rv p rq err h run (w, im) = (resp, w1, im1)"
  shows "w1 = w \<or> w1 = snd (run w) \<and> rqHeader rq ''Idempotency-Key'' \<noteq> [] \<and> length (rqHeader rq ''Idempotency-Key'') \<le> 255"
  using assms
  by (auto simp: Idempotency_def Let_def split: if_splits option.splits sum.splits prod.splits bool.splits)

lemma run_handler_snd [simp]: "snd (run_handler act env u binds rq i h w) = snd (act env (Some u) (path_value binds) rq w)"
  by (simp add: run_handler_def split: prod.splits)

lemma RequireAuth_Inr:
  assumes "RequireAuth k env adb rq = Inr user"
  obtains claims where "AuthenticateClaims k env (bearerToken rq) (rqHeader rq ''X-Device-Id'') adb = Inr (user, claims)"
    and "bearerToken rq \<noteq> []"
proof -
  from assms have "Authenticate k env (bearerToken rq) (rqHeader rq ''X-Device-Id'') adb = Inr user" "bearerToken rq \<noteq> []"
    by (auto simp: RequireAuth_def split: if_splits sum.splits)
  with that show ?thesis by (auto simp: Authenticate_def)
qed

definition keyed :: "HttpRequest \<Rightarrow> bool" where
  "keyed rq \<longleftrightarrow> rqHeader rq ''Idempotency-Key'' \<noteq> [] \<and> length (rqHeader rq ''Idempotency-Key'') \<le> 255"

text \<open>One request of the caller, whom the gateway admitted; only a write with a key gets that far.\<close>

definition acts_for_caller :: "Crypto \<Rightarrow> HttpEnv \<Rightarrow> HttpRequest \<Rightarrow> ApiState \<Rightarrow> ApiState \<Rightarrow> bool" where
  "acts_for_caller k env rq s s' \<longleftrightarrow> \<not> is_get rq \<and> keyed rq \<and>
     (\<exists>user req. RequireAuth k (heAuth env) (apAuth s) rq = Inr user \<and> request_user req = Some (uID user)
        \<and> apWorld s' = serve req (apWorld s))"

lemma Router_effect:
  assumes "Router k env rq i h s = (resp, s')"
  shows "apAuth s' = apAuth s \<and> (apWorld s' = apWorld s \<or> acts_for_caller k env rq s s')"
proof (cases "\<exists>user unsafe act binds. RequireAuth k (heAuth env) (apAuth s) rq = Inr user
    \<and> first_match (rqMethod rq) (rqPath rq) routes = Some (unsafe, act, binds)")
  case False
  with assms show ?thesis by (auto simp: Router_def split: sum.splits option.splits)
next
  case True
  then obtain user unsafe act binds where r: "RequireAuth k (heAuth env) (apAuth s) rq = Inr user"
    "first_match (rqMethod rq) (rqPath rq) routes = Some (unsafe, act, binds)" by blast
  let ?run = "run_handler act env (uID user) binds rq i h"
  have p: "proper unsafe (uID user) (apWorld s) (act env (Some (uID user)) (path_value binds) rq (apWorld s))"
    by (rule run_handler_proper [OF r(2)])
  have "apAuth s' = apAuth s" and
    w: "apWorld s' = apWorld s \<or> apWorld s' = snd (?run (apWorld s)) \<and> (unsafe \<longrightarrow> keyed rq)"
    using assms r
    by (auto simp: Router_def Let_def keyed_def simp del: run_handler_snd split: if_splits prod.splits dest!: Idempotency_state)
  moreover have "acts_for_caller k env rq s s'" if "apWorld s' \<noteq> apWorld s"
    using that w p r run_handler_proper(2) [OF r(2)] unfolding proper_def acts_for_caller_def by auto
  ultimately show ?thesis by blast
qed

lemma serve_http_effect:
  assumes "serve_http k reg env rq s = (out, s')"
  shows "apAuth s' = apAuth s \<and> (apWorld s' = apWorld s \<or> acts_for_caller k env rq s s')"
proof -
  from assms have "s' = s \<or> (\<exists>i h resp. Router k env rq i h s = (resp, s'))"
    by (auto simp: serve_http_defs Let_def split: if_splits prod.splits)
  with Router_effect show ?thesis by blast
qed

lemma serve_http_chat_ok:
  assumes "chat_ok (wDB (apWorld s))"
  shows "chat_ok (wDB (apWorld (snd (serve_http k reg env rq s))))"
proof -
  obtain out s' where r: "serve_http k reg env rq s = (out, s')" by fastforce
  with serve_http_effect [OF r] assms show ?thesis
    by (auto simp: acts_for_caller_def intro: serve_chat_ok)
qed

lemma serve_requests_chat_ok: "chat_ok (wDB (apWorld s)) \<Longrightarrow> chat_ok (wDB (apWorld (serve_requests k reg reqs s)))"
  by (induction reqs arbitrary: s) (auto simp: serve_http_chat_ok)

section \<open>Retries\<close>

text \<open>The first request gets to its handler: nothing is stored or locked under its key, and Redis answers.\<close>

definition fresh_key :: "(string \<Rightarrow> string) \<Rightarrow> RedisEnv \<Rightarrow> go_int \<Rightarrow> HttpRequest \<Rightarrow> IdemStore \<Rightarrow> bool" where
  "fresh_key sha rv u rq im \<longleftrightarrow> (\<forall>c. rvOK rv c) \<and>
     live (rvNow rv IdemGet) (imCache im (idem_key sha u (rqHeader rq ''Idempotency-Key''))) = None \<and>
     live (rvNow rv IdemSetNX) (imLocks im (idem_key sha u (rqHeader rq ''Idempotency-Key''))) = None"

definition routed_write :: "HttpRequest \<Rightarrow> bool" where
  "routed_write rq \<longleftrightarrow> \<not> is_get rq \<and> keyed rq \<and> first_match (rqMethod rq) (rqPath rq) routes \<noteq> None"

lemma match_path_prefix: "match_path (Lit a # p) path = Some binds \<Longrightarrow> \<exists>rest. path = a # rest \<and> match_path p rest = Some binds"
  by (cases path) (auto split: if_splits)

lemma routed_path:
  assumes "first_match m path routes = Some r"
  shows "take 1 path = [''v1''] \<and> 1 < length path"
proof -
  obtain unsafe act binds where r: "r = (unsafe, act, binds)" by (cases r)
  from first_match_Some [OF assms [unfolded r]] obtain m' p where
    p: "(m', p, unsafe, act) \<in> set routes" "match_path p path = Some binds" by blast
  from p(1) obtain l q where "p = Lit ''v1'' # Lit l # q"
    by (auto simp: routes_def conversation_routes_def message_routes_def)
  with p(2) show ?thesis by (auto dest!: match_path_prefix)
qed

text \<open>A write with a route is served by the middleware around its handler.\<close>

lemma serve_routed_write:
  assumes "routed_write rq" and user: "RequireAuth k (heAuth env) (apAuth s) rq = Inr user"
  obtains act binds where "serve_http k reg env rq s =
    (let i = request_id env rq; h = [(''X-Request-Id'', i)];
         (resp, w, im) = Idempotency (kHash k) (heRedis env) (Some (uID user)) rq (WriteError rq i h) h
            (run_handler act env (uID user) binds rq i h) (apWorld s, apIdem s)
     in (Some resp, s\<lparr>apWorld := w, apIdem := im\<rparr>))"
proof -
  from assms(1) obtain unsafe act binds where r: "first_match (rqMethod rq) (rqPath rq) routes = Some (unsafe, act, binds)"
    "\<not> is_get rq" by (auto simp: routed_write_def)
  then have "unsafe" using run_handler_proper(2) by blast
  with r routed_path [OF r(1)] user that show ?thesis
    by (simp add: serve_http_defs Router_def Let_def header_set_def split_beta)
qed

text \<open>The stored response of a key stays until it expires, whatever is served.\<close>

lemma serve_http_keeps:
  assumes "imCache (apIdem s) ck = Some (cached, expires)" and "rvNow (heRedis env) IdemGet < expires"
  shows "imCache (apIdem (snd (serve_http k reg env rq s))) ck = Some (cached, expires)"
proof -
  obtain out s' where r: "serve_http k reg env rq s = (out, s')" by fastforce
  have router: "imCache (apIdem s') ck = Some (cached, expires)" if "Router k env rq i h s = (resp, s')" for i h resp
    using that assms
    by (auto simp: Router_def Let_def split: sum.splits option.splits prod.splits if_splits dest: Idempotency_keeps)
  from r have "s' = s \<or> (\<exists>i h resp. Router k env rq i h s = (resp, s'))"
    by (auto simp: serve_http_defs Let_def split: if_splits prod.splits)
  with r router assms show ?thesis by auto
qed

lemma serve_requests_keeps:
  assumes "imCache (apIdem s) ck = Some (cached, expires)"
    and "\<forall>(env, rq) \<in> set reqs. rvNow (heRedis env) IdemGet < expires"
  shows "imCache (apIdem (serve_requests k reg reqs s)) ck = Some (cached, expires)"
  using assms
proof (induction reqs arbitrary: s)
  case (Cons r reqs)
  then show ?case by (cases r) (auto intro!: Cons.IH serve_http_keeps)
qed simp

lemma fresh_steps:
  assumes "fresh_key sha rv u rq im"
  shows "idem_get rv (idem_key sha u (rqHeader rq ''Idempotency-Key'')) im = Inr None" "rvOK rv IdemSet"
    and "\<exists>im1. idem_lock rv (idem_key sha u (rqHeader rq ''Idempotency-Key'')) im = (Inr True, im1)"
  using assms unfolding fresh_key_def idem_get_def idem_lock_def Let_def by simp_all

lemma Idempotency_fresh:
  assumes "keyed rq" and fresh: "fresh_key sha rv u rq im" and h: "handler w = (resp', w2)"
    and r: "Idempotency sha rv (Some u) rq err h handler (w, im) = (resp, w1, im1)"
  shows "resp = resp'" and "200 \<le> hrStatus resp \<Longrightarrow> hrStatus resp < 500 \<Longrightarrow>
    imCache im1 (idem_key sha u (rqHeader rq ''Idempotency-Key'')) = Some (resp, rvNow rv IdemSet + idemTTL)"
proof -
  let ?ck = "idem_key sha u (rqHeader rq ''Idempotency-Key'')"
  from fresh obtain im2 where steps: "idem_get rv ?ck im = Inr None" "idem_lock rv ?ck im = (Inr True, im2)" "rvOK rv IdemSet"
    using fresh_steps by blast
  have "Idempotency sha rv (Some u) rq err h handler (w, im) = (resp', w2, idem_unlock rv ?ck (idem_store rv ?ck resp' im2))"
    using assms(1) unfolding Idempotency_def keyed_def by (simp add: steps h Let_def)
  then have "resp = resp'" "im1 = idem_unlock rv ?ck (idem_store rv ?ck resp' im2)" unfolding r by blast+
  with steps(3) show "resp = resp'" and "200 \<le> hrStatus resp \<Longrightarrow> hrStatus resp < 500 \<Longrightarrow>
    imCache im1 ?ck = Some (resp, rvNow rv IdemSet + idemTTL)"
    by (simp_all add: idem_store_def)
qed

lemma first_request_stored:
  assumes w: "routed_write rq" and user: "RequireAuth k (heAuth env) (apAuth s) rq = Inr user"
    and fresh: "fresh_key (kHash k) (heRedis env) (uID user) rq (apIdem s)"
    and r: "serve_http k reg env rq s = (Some resp, s1)" and status: "200 \<le> hrStatus resp" "hrStatus resp < 500"
  shows "imCache (apIdem s1) (idem_key (kHash k) (uID user) (rqHeader rq ''Idempotency-Key''))
    = Some (resp, rvNow (heRedis env) IdemSet + idemTTL)"
proof -
  let ?i = "request_id env rq" and ?h = "[(''X-Request-Id'', request_id env rq)]"
  have key: "keyed rq" using w by (simp add: routed_write_def)
  obtain act binds where served: "serve_http k reg env rq s =
    (let (resp, w, im) = Idempotency (kHash k) (heRedis env) (Some (uID user)) rq (WriteError rq ?i ?h) ?h
            (run_handler act env (uID user) binds rq ?i ?h) (apWorld s, apIdem s)
     in (Some resp, s\<lparr>apWorld := w, apIdem := im\<rparr>))"
    by (rule serve_routed_write [OF w user]) (simp add: Let_def)
  obtain resp' w1 im1 where id: "Idempotency (kHash k) (heRedis env) (Some (uID user)) rq (WriteError rq ?i ?h) ?h
      (run_handler act env (uID user) binds rq ?i ?h) (apWorld s, apIdem s) = (resp', w1, im1)"
    by (metis prod_cases3)
  from served r id have eq: "resp' = resp" and s1: "s1 = s\<lparr>apWorld := w1, apIdem := im1\<rparr>" by simp_all
  obtain resp2 w2 where run: "run_handler act env (uID user) binds rq ?i ?h (apWorld s) = (resp2, w2)" by fastforce
  from Idempotency_fresh(2) [OF key fresh run id] status eq s1 show ?thesis by simp
qed


section \<open>Server errors\<close>

text \<open>No stored response is a server error; the middleware keeps it so.\<close>

definition cache_ok :: "IdemStore \<Rightarrow> bool" where
  "cache_ok im \<longleftrightarrow> (\<forall>ck cached t. imCache im ck = Some (cached, t) \<longrightarrow> hrStatus cached < 500)"

lemma idem_lock_cache_ok: "idem_lock rv ck im = (r, im1) \<Longrightarrow> cache_ok im1 = cache_ok im"
  by (simp add: cache_ok_def)

lemma idem_store_cache_ok: "cache_ok im \<Longrightarrow> cache_ok (idem_unlock rv ck (idem_store rv ck resp im))"
  by (simp add: cache_ok_def idem_store_def)

lemma Idempotency_cache_ok:
  assumes "cache_ok im" and "Idempotency sha rv p rq err h handler (w, im) = (resp, w1, im1)"
  shows "cache_ok im1"
  using assms idem_store_cache_ok idem_lock_cache_ok
  by (auto simp: Idempotency_def Let_def split: if_splits option.splits sum.splits prod.splits bool.splits)

text \<open>What the middleware answers: an error of its own, a stored response, or the handler's.\<close>

lemma Idempotency_unkeyed:
  "\<not> keyed rq \<Longrightarrow> \<exists>f. Idempotency sha rv p rq err h handler s = (err (validationErr ''Idempotency-Key'' f), s)"
  unfolding Idempotency_def keyed_def Let_def by (cases s) auto

lemma Idempotency_locked:
  assumes "keyed rq" and "idem_get rv (idem_key sha u (rqHeader rq ''Idempotency-Key'')) im = Inr None"
    and "idem_lock rv (idem_key sha u (rqHeader rq ''Idempotency-Key'')) im = (Inr b, im1)"
  shows "fst (Idempotency sha rv (Some u) rq err h handler (w, im)) =
    (if b then fst (handler w) else err (Api (Conflict ''a concurrent request with this Idempotency-Key is in flight'')))"
  using assms unfolding Idempotency_def keyed_def Let_def by (cases b) (simp_all split: prod.splits)

lemma Idempotency_cases:
  assumes r: "Idempotency sha rv (Some u) rq (WriteError rq i h) h handler (w, im) = (resp, w1, im1)" and "cache_ok im"
    and fault: "500 \<le> hrStatus resp"
  shows "\<not> rvOK rv IdemGet \<or> \<not> rvOK rv IdemSetNX \<or> resp = fst (handler w)"
proof (rule ccontr)
  let ?ck = "idem_key sha u (rqHeader rq ''Idempotency-Key'')"
  have minor: "hrStatus (WriteError rq i h (validationErr f g)) < 500" "hrStatus (WriteError rq i h (Api (Conflict g))) < 500" for f g
    by (simp_all add: WriteError_def Write_def Let_def validationErr_def api_error_defs)
  assume no: "\<not> (\<not> rvOK rv IdemGet \<or> \<not> rvOK rv IdemSetNX \<or> resp = fst (handler w))"
  have key: "keyed rq"
  proof (rule ccontr)
    assume "\<not> keyed rq"
    from Idempotency_unkeyed [OF this, of sha rv "Some u" "WriteError rq i h" h handler "(w, im)"] r
    obtain f where "resp = WriteError rq i h (validationErr ''Idempotency-Key'' f)" by auto
    with minor(1) fault show False by (meson not_le)
  qed
  show False
  proof (cases "live (rvNow rv IdemGet) (imCache im ?ck)")
    case (Some cached)
    then have "Idempotency sha rv (Some u) rq (WriteError rq i h) h handler (w, im) = (replay h cached, w, im)"
      using key no by (intro Idempotency_hit [OF refl]) (auto simp: keyed_def)
    with r have "resp = replay h cached" by simp
    moreover have "hrStatus cached < 500"
      using Some assms(2) unfolding cache_ok_def live_def by (auto split: option.splits if_splits) blast
    ultimately show False using fault by (simp add: replay_def)
  next
    case None
    with no have get: "idem_get rv ?ck im = Inr None" by (simp add: idem_get_def)
    from no have "rvOK rv IdemSetNX" by blast
    then have "\<exists>b im2. idem_lock rv ?ck im = (Inr b, im2)" unfolding idem_lock_def Let_def by (simp add: ex_bool_eq split: if_split)
    then obtain b im2 where lock: "idem_lock rv ?ck im = (Inr b, im2)" by blast
    have "resp = (if b then fst (handler w) else WriteError rq i h (Api (Conflict ''a concurrent request with this Idempotency-Key is in flight'')))"
      using Idempotency_locked [OF key get lock, of "WriteError rq i h" h handler w] r by simp
    with no obtain g where "resp = WriteError rq i h (Api (Conflict g))" by (auto split: if_splits)
    with fault minor(2) show False by (meson not_le)
  qed
qed

lemma RequireAuth_fault:
  assumes "RequireAuth k env adb rq = Inl e" and "500 \<le> Status (mapError e)"
  shows "e = AuthErr AuthIO"
  using assms
  by (auto simp: RequireAuth_def Authenticate_def AuthenticateClaims_def validationErr_def api_error_defs rbind_Inl_iff
      User_FindByID_def Session_FindByDeviceID_def acall_def ensure_def
      split: if_splits sum.splits option.splits)

lemma run_handler_fault:
  assumes "proper unsafe u w (act env (Some u) (path_value binds) rq w)"
    and "500 \<le> hrStatus (fst (run_handler act env u binds rq i h w))"
  shows "\<exists>e. fst (act env (Some u) (path_value binds) rq w) = Inl (ChatErr e) \<and> chat_fault e"
proof -
  obtain r w1 where a: "act env (Some u) (path_value binds) rq w = (r, w1)" by fastforce
  show ?thesis
  proof (cases r)
    case (Inl e)
    with assms a have "reported e" "500 \<le> Status (mapError e)"
      by (simp_all add: proper_def run_handler_def WriteError_def Write_def Let_def)
    with a Inl show ?thesis by (cases e) (auto simp: reported_def map_chat_error_status)
  next
    case (Inr rep)
    with assms a show ?thesis
      by (cases rep) (simp_all add: proper_def run_handler_def small_reply_def writeJSON_def)
  qed
qed

lemma Router_fault:
  assumes "Router k env rq i h s = (resp, s')" and "cache_ok (apIdem s)"
  shows "cache_ok (apIdem s')" and "500 \<le> hrStatus resp \<Longrightarrow>
     RequireAuth k (heAuth env) (apAuth s) rq = Inl (AuthErr AuthIO)
     \<or> \<not> rvOK (heRedis env) IdemGet \<or> \<not> rvOK (heRedis env) IdemSetNX
     \<or> (\<exists>user unsafe act binds e. RequireAuth k (heAuth env) (apAuth s) rq = Inr user
          \<and> first_match (rqMethod rq) (rqPath rq) routes = Some (unsafe, act, binds)
          \<and> fst (act env (Some (uID user)) (path_value binds) rq (apWorld s)) = Inl (ChatErr e) \<and> chat_fault e)"
proof -
  show "cache_ok (apIdem s')"
    using assms by (auto simp: Router_def Let_def split: sum.splits option.splits prod.splits if_splits intro: Idempotency_cache_ok)
  assume fault: "500 \<le> hrStatus resp"
  show "RequireAuth k (heAuth env) (apAuth s) rq = Inl (AuthErr AuthIO)
     \<or> \<not> rvOK (heRedis env) IdemGet \<or> \<not> rvOK (heRedis env) IdemSetNX
     \<or> (\<exists>user unsafe act binds e. RequireAuth k (heAuth env) (apAuth s) rq = Inr user
          \<and> first_match (rqMethod rq) (rqPath rq) routes = Some (unsafe, act, binds)
          \<and> fst (act env (Some (uID user)) (path_value binds) rq (apWorld s)) = Inl (ChatErr e) \<and> chat_fault e)"
  proof (cases "RequireAuth k (heAuth env) (apAuth s) rq")
    case (Inl e)
    with assms(1) fault have "500 \<le> Status (mapError e)"
      by (auto simp: Router_def WriteError_def Write_def Let_def)
    with RequireAuth_fault [OF Inl] Inl show ?thesis by simp
  next
    case (Inr user)
    show ?thesis
    proof (cases "first_match (rqMethod rq) (rqPath rq) routes")
      case None
      with assms(1) fault Inr show ?thesis
        by (auto simp: Router_def mux_miss_def http_Error_def Let_def split: if_splits)
    next
      case (Some m)
      obtain unsafe act binds where m: "m = (unsafe, act, binds)" by (cases m)
      let ?run = "run_handler act env (uID user) binds rq i h"
      from assms(1) Inr Some m have "resp = fst (?run (apWorld s)) \<or> (\<exists>w1 im1.
          Idempotency (kHash k) (heRedis env) (Some (uID user)) rq (WriteError rq i h) h ?run (apWorld s, apIdem s) = (resp, w1, im1))"
        by (auto simp: Router_def Let_def split: if_splits prod.splits)
      then have "\<not> rvOK (heRedis env) IdemGet \<or> \<not> rvOK (heRedis env) IdemSetNX \<or> resp = fst (?run (apWorld s))"
        using Idempotency_cases [OF _ assms(2) fault] by (elim disjE exE) simp_all
      moreover have "proper unsafe (uID user) (apWorld s) (act env (Some (uID user)) (path_value binds) rq (apWorld s))"
        by (rule run_handler_proper(1) [OF Some [unfolded m]])
      ultimately show ?thesis
        using run_handler_fault [of unsafe "uID user" "apWorld s" act env binds rq i h] fault Inr Some m by blast
    qed
  qed
qed

section \<open>The properties\<close>

text \<open>
  C37.  What a REST request can change: accounts never, the chat module only by one request of the caller, who
  presented a live token of an active session on the named device and, since it is a write, an
  Idempotency-Key; a GET or HEAD changes nothing.
\<close>

theorem rest_acts_for_its_caller:
  assumes "serve_http k reg env rq s = (out, s')"
  shows "apAuth s' = apAuth s \<and> (apWorld s' = apWorld s \<or> \<not> is_get rq \<and> keyed rq \<and>
     (\<exists>user claims req. AuthenticateClaims k (heAuth env) (bearerToken rq) (rqHeader rq ''X-Device-Id'') (apAuth s) = Inr (user, claims)
        \<and> (\<exists>x \<in> set (auSessions (apAuth s)). seID x = acSessionID claims \<and> seUserID x = acUserID claims
             \<and> seState x = SessionActive \<and> dvID (seDevice x) = rqHeader rq ''X-Device-Id'')
        \<and> request_user req = Some (uID user) \<and> apWorld s' = serve req (apWorld s)))"
proof (cases "apWorld s' = apWorld s")
  case False
  with serve_http_effect [OF assms] obtain user req where r: "apAuth s' = apAuth s" "\<not> is_get rq" "keyed rq"
    "RequireAuth k (heAuth env) (apAuth s) rq = Inr user" "request_user req = Some (uID user)" "apWorld s' = serve req (apWorld s)"
    by (auto simp: acts_for_caller_def)
  from r(4) obtain claims where "AuthenticateClaims k (heAuth env) (bearerToken rq) (rqHeader rq ''X-Device-Id'') (apAuth s) = Inr (user, claims)"
    by (rule RequireAuth_Inr)
  with AuthenticateClaims_Inr(2) [OF this] r show ?thesis by blast
next
  case True
  with serve_http_effect [OF assms] show ?thesis by blast
qed

text \<open>
  The chat module's invariants hold over REST: whatever sequence of HTTP requests is served in turn, the schema,
  the membership references, the caps and the closure of direct chats hold of the store.
\<close>

lemma rest_keeps_chat_invariants:
  assumes "chat_ok (wDB (apWorld s))"
  shows "chat_ok (wDB (apWorld (serve_requests k reg reqs s)))"
  using assms by (rule serve_requests_chat_ok)

text \<open>
  C39.  A server error has a cause on the server: a probe that fails, a failing user or session lookup, Redis
  not answering the key lookup or the lock, or a fault of the chat module, which is a failing
  collaborator or one of the five sentinels the mapping has no case for.  No stored response is a server error.
\<close>

theorem server_errors_have_a_cause:
  assumes "serve_http k reg env rq s = (Some resp, s')" and "cache_ok (apIdem s)"
  shows "cache_ok (apIdem s') \<and> (500 \<le> hrStatus resp \<longrightarrow>
     rqPath rq = [''readyz''] \<and> hrStatus resp = 503 \<and> (\<exists>(name, failure) \<in> set reg. failure \<noteq> None)
     \<or> RequireAuth k (heAuth env) (apAuth s) rq = Inl (AuthErr AuthIO)
     \<or> \<not> rvOK (heRedis env) IdemGet \<or> \<not> rvOK (heRedis env) IdemSetNX
     \<or> (\<exists>user unsafe act binds e. RequireAuth k (heAuth env) (apAuth s) rq = Inr user
          \<and> first_match (rqMethod rq) (rqPath rq) routes = Some (unsafe, act, binds)
          \<and> fst (act env (Some (uID user)) (path_value binds) rq (apWorld s)) = Inl (ChatErr e) \<and> chat_fault e))"
proof -
  let ?h = "header_set ''X-Request-Id'' (request_id env rq) []"
  from assms(1) consider "s' = s" "rqPath rq = [''healthz'']" "resp = health_handler reg False ?h"
    | "s' = s" "rqPath rq = [''readyz'']" "resp = health_handler reg True ?h"
    | "Router k env rq (request_id env rq) ?h s = (resp, s')"
    | "s' = s" "resp = Write rq (request_id env rq) ?h (NotFound ''resource not found'')"
    by (auto simp: serve_http_defs Let_def split: if_splits prod.splits)
  then show ?thesis
  proof cases
    case 1
    with assms(2) show ?thesis by (simp add: health_handler_def Let_def split: prod.splits)
  next
    case 2
    with assms(2) show ?thesis by (auto simp: health_handler_def Ready_def Let_def list_all_iff)
  next
    case 3
    with Router_fault [OF 3 assms(2)] show ?thesis by blast
  next
    case 4
    with assms(2) show ?thesis by (simp add: Write_def Let_def api_error_defs)
  qed
qed

section \<open>Examples\<close>

text \<open>The account of the authentication examples owns a conversation, and pins it.\<close>

definition demo_api :: ApiState where
  "demo_api = \<lparr>apWorld = demo_world\<lparr>wDB := demo_db\<lparr>tMembers := [demo_member 1 7 RoleOwner, demo_member 1 11 RoleMember]\<rparr>\<rparr>,
     apAuth = demo_auth_db, apIdem = \<lparr>imCache = (\<lambda>_. None), imLocks = (\<lambda>_. None)\<rparr>\<rparr>"

definition demo_http_env :: "go_time \<Rightarrow> HttpEnv" where
  "demo_http_env now = \<lparr>heAuth = demo_env 5000000 90 [], heChat = healthy_env 5 1, heSend = healthy_send 5 100,
     heILike = (\<lambda>_ _. True), heRedis = \<lparr>rvNow = (\<lambda>_. now), rvOK = (\<lambda>_. True)\<rparr>, heRequestID = ''req_1''\<rparr>"

definition demo_headers :: "string \<Rightarrow> string \<Rightarrow> string" where
  "demo_headers key n = (if n = ''Authorization'' then ''Bearer '' @ demo_access else if n = ''X-Device-Id'' then ''phone-1''
     else if n = ''Idempotency-Key'' then key else [])"

definition demo_request :: "string \<Rightarrow> string list \<Rightarrow> string \<Rightarrow> json \<Rightarrow> HttpRequest" where
  "demo_request m path key body =
     \<lparr>rqMethod = m, rqPath = path, rqQuery = (\<lambda>_. []), rqHeader = demo_headers key, rqBody = BodyValue body\<rparr>"

definition pin_request :: HttpRequest where
  "pin_request = demo_request ''PUT'' [''v1'', ''conversations'', ''1'', ''pin''] ''k-1'' (JObj [(''pinned'', JBool True)])"

definition archive_request :: HttpRequest where
  "archive_request = demo_request ''PUT'' [''v1'', ''conversations'', ''1'', ''archive''] ''k-2'' (JObj [(''archived'', JBool True)])"

lemma demo_headers_simps [simp]:
  "demo_headers key ''Authorization'' = ''Bearer '' @ demo_access" "demo_headers key ''X-Device-Id'' = ''phone-1''"
  "demo_headers key ''Idempotency-Key'' = key" "demo_headers key ''X-Request-Id'' = []"
  by (simp_all add: demo_headers_def)

lemma demo_request_simps [simp]:
  "rqMethod (demo_request m p key b) = m" "rqPath (demo_request m p key b) = p" "rqHeader (demo_request m p key b) = demo_headers key"
  "rqBody (demo_request m p key b) = BodyValue b" "rqQuery (demo_request m p key b) = (\<lambda>_. [])"
  by (simp_all add: demo_request_def)

lemma demo_http_simps [simp]:
  "apAuth demo_api = demo_auth_db" "heAuth (demo_http_env now) = demo_env 5000000 90 []" "heChat (demo_http_env now) = healthy_env 5 1"
  "rvNow (heRedis (demo_http_env now)) c = now" "rvOK (heRedis (demo_http_env now)) c" "heRequestID (demo_http_env now) = ''req_1''"
  by (simp_all add: demo_api_def demo_http_env_def)

lemma demo_bearer: "bearerToken (demo_request m p key b) = demo_access"
proof -
  have "Cut (''Bearer '' @ demo_access) (CHR '' '') = Some (''Bearer'', demo_access)"
    using Cut_append [of "CHR '' ''" "''Bearer''" demo_access] by simp
  then show ?thesis by (simp add: bearerToken_def)
qed

definition demo_caller :: User where
  "demo_caller = user_of (demo_account 7 ''+14155550100'')"

lemma demo_auth: "RequireAuth demo_crypto (demo_env 5000000 90 []) demo_auth_db (demo_request m p key b) = Inr demo_caller"
  using demo_access_before demo_access_nonempty
  by (simp add: RequireAuth_def Authenticate_def demo_bearer demo_caller_def)

lemma demo_caller_id [simp]: "uID demo_caller = 7"
  by (simp add: demo_caller_def user_of_def User.defs demo_account_def)

lemma demo_pin_route:
  "first_match ''PUT'' [''v1'', ''conversations'', ''1'', ''pin''] routes = Some (True, setFlag True, [(''conversation_id'', ''1'')])"
  by (simp add: routes_def conversation_routes_def method_matches_def)

lemma demo_pin_handler:
  "fst (setFlag True (demo_http_env now) (Some 7) (path_value [(''conversation_id'', ''1'')]) pin_request (apWorld demo_api))
     = Inr (Reply 200 (JObj [(''is_pinned'', JBool True)]))"
  by code_simp

lemma demo_pin_served:
  assumes "serve_http demo_crypto [] (demo_http_env now) pin_request demo_api = (Some resp, s1)"
  shows "hrStatus resp = 200"
proof -
  let ?h = "[(''X-Request-Id'', request_id (demo_http_env now) pin_request)]" and ?i = "request_id (demo_http_env now) pin_request"
  have user: "RequireAuth demo_crypto (heAuth (demo_http_env now)) (apAuth demo_api) pin_request = Inr demo_caller"
    by (simp add: pin_request_def demo_auth)
  have "fresh_key (kHash demo_crypto) (heRedis (demo_http_env now)) 7 pin_request (apIdem demo_api)"
    by (simp add: fresh_key_def demo_api_def)
  moreover have "keyed pin_request" by (simp add: keyed_def pin_request_def)
  moreover obtain r2 w2 where run: "run_handler (setFlag True) (demo_http_env now) 7 [(''conversation_id'', ''1'')] pin_request ?i ?h
      (apWorld demo_api) = (r2, w2)" by fastforce
  moreover from run have "hrStatus r2 = 200"
    using demo_pin_handler [of now] by (auto simp: run_handler_def writeJSON_def split: prod.splits)
  moreover obtain r3 w3 im3 where id: "Idempotency (kHash demo_crypto) (heRedis (demo_http_env now)) (Some 7) pin_request
      (WriteError pin_request ?i ?h) ?h (run_handler (setFlag True) (demo_http_env now) 7 [(''conversation_id'', ''1'')] pin_request ?i ?h)
      (apWorld demo_api, apIdem demo_api) = (r3, w3, im3)" by (metis prod_cases3)
  moreover from assms id have "resp = r3"
    using user demo_pin_route
    by (simp add: serve_http_defs Router_def pin_request_def is_get_def method_matches_def header_set_def Let_def split: prod.splits)
  ultimately show ?thesis using Idempotency_fresh(1) by metis
qed

lemma demo_pin_facts:
  "routed_write pin_request" "fresh_key (kHash demo_crypto) (heRedis (demo_http_env now)) 7 pin_request (apIdem demo_api)"
  "RequireAuth demo_crypto (heAuth (demo_http_env now)) demo_auth_db pin_request = Inr demo_caller"
  by (simp_all add: routed_write_def keyed_def pin_request_def is_get_def method_matches_def demo_pin_route fresh_key_def demo_api_def demo_auth)

lemma demo_pin_response: "\<exists>resp s1. serve_http demo_crypto [] (demo_http_env now) pin_request demo_api = (Some resp, s1)"
proof -
  have user: "RequireAuth demo_crypto (heAuth (demo_http_env now)) (apAuth demo_api) pin_request = Inr demo_caller"
    using demo_pin_facts(3) by simp
  show ?thesis
    by (rule serve_routed_write [OF demo_pin_facts(1) user, of "[]"]) (simp add: Let_def split_beta)
qed

theorem rest_acts_for_its_caller_witness:
  "\<exists>out s'. serve_http demo_crypto [] (demo_http_env 1000000) pin_request demo_api = (out, s') \<and> apAuth s' = demo_auth_db"
proof -
  obtain out s' where r: "serve_http demo_crypto [] (demo_http_env 1000000) pin_request demo_api = (out, s')" by fastforce
  from rest_acts_for_its_caller [OF this] r show ?thesis by auto
qed

lemma demo_api_chat_ok: "chat_ok (wDB (apWorld demo_api))"
proof -
  have "schema_ok (wDB (apWorld demo_api))" by code_simp
  moreover have "active_count (wDB (apWorld demo_api)) c \<le> 500" for c
    by (simp add: active_count_def demo_api_def demo_db_def count_where_def demo_member_def active_in_def)
  ultimately show ?thesis
    by (simp add: chat_ok_def members_refer_def members_capped_def reactions_capped_def direct_closed_def kinds_def
        conversation_exists_def distinct_emoji_def demo_api_def demo_db_def demo_member_def demo_conversation_def
        DefaultSettings_def maxDistinctReactions_def)
qed

lemma rest_keeps_chat_invariants_example:
  "chat_ok (wDB (apWorld (serve_requests demo_crypto [] [(demo_http_env 1000000, pin_request), (demo_http_env 2000000, archive_request)] demo_api)))"
  by (rule rest_keeps_chat_invariants [OF demo_api_chat_ok])


theorem server_errors_have_a_cause_witness:
  "\<exists>resp. serve_http demo_crypto [(''redis'', Some ''down'')] (demo_http_env 1000000)
      (demo_request ''GET'' [''readyz''] [] JNull) demo_api = (Some resp, demo_api) \<and> hrStatus resp = 503 \<and> cache_ok (apIdem demo_api)"
proof -
  obtain resp where r: "serve_http demo_crypto [(''redis'', Some ''down'')] (demo_http_env 1000000)
      (demo_request ''GET'' [''readyz''] [] JNull) demo_api = (Some resp, demo_api)" "500 \<le> hrStatus resp"
    by (simp add: serve_http_defs is_get_def method_matches_def health_handler_def Ready_def Let_def)
  have "cache_ok (apIdem demo_api)" by (simp add: cache_ok_def demo_api_def)
  moreover have "first_match ''GET'' [''readyz''] routes = None"
    by (simp add: routes_def conversation_routes_def message_routes_def)
  ultimately show ?thesis
    using server_errors_have_a_cause [OF r(1)] r by (auto simp: demo_auth)
qed

end
