(* ===== verification/HttpChain.thy ===== *)
theory HttpChain
  imports HttpServer AuthToken
begin

text \<open>
  The middleware around the mux (\<open>httpserver/server.go\<close>, \<open>httpserver/middleware.go\<close>,
  \<open>observability/middleware.go\<close>) and the logger it writes to (\<open>observability/logger.go\<close>).  A handler
  gets the request, the request id of its context and the headers set so far; it answers, takes the
  connection over, or panics before it has written a status.
\<close>

section \<open>The logger\<close>

datatype Level = LevelDebug | LevelInfo | LevelWarn | LevelError

fun severity :: "Level \<Rightarrow> int" where
  "severity LevelDebug = - 4" | "severity LevelInfo = 0" | "severity LevelWarn = 4" | "severity LevelError = 8"

record LogRecord =
  lgLevel :: Level
  lgMessage :: string
  lgAttrs :: "(string \<times> string) list"

datatype log_format = TextLines | JsonLines

text \<open>The format and the least level of the handler \<open>NewLogger\<close> chooses.\<close>

definition NewLogger :: "string \<Rightarrow> log_format \<times> Level" where
  "NewLogger appEnv = (if appEnv = ''dev'' then (TextLines, LevelDebug) else (JsonLines, LevelInfo))"

definition ContextHandler_Handle :: "string \<Rightarrow> LogRecord \<Rightarrow> LogRecord" where
  "ContextHandler_Handle contextID rec =
     (if contextID \<noteq> [] then rec\<lparr>lgAttrs := lgAttrs rec @ [(''request_id'', contextID)]\<rparr> else rec)"

definition emit :: "log_format \<times> Level \<Rightarrow> string \<Rightarrow> LogRecord \<Rightarrow> LogRecord list" where
  "emit lg contextID rec = (if severity (snd lg) \<le> severity (lgLevel rec) then [ContextHandler_Handle contextID rec] else [])"

text \<open>\<open>Info\<close>, \<open>Warn\<close> and \<open>Error\<close> of a \<open>slog.Logger\<close> log under the background context, which has no request id.\<close>

definition log_line :: "log_format \<times> Level \<Rightarrow> Level \<Rightarrow> string \<Rightarrow> (string \<times> string) list \<Rightarrow> LogRecord list" where
  "log_line lg level message attrs = emit lg [] \<lparr>lgLevel = level, lgMessage = message, lgAttrs = attrs\<rparr>"

section \<open>Handlers\<close>

text \<open>The status of a takeover is the one the upgrade writes through the recorder.\<close>

datatype outcome = Answered HttpResponse | TookOver int | Panicked string "(string \<times> string) list"

type_synonym 's http_handler =
  "HttpRequest \<Rightarrow> string \<Rightarrow> (string \<times> string) list \<Rightarrow> 's \<Rightarrow> outcome \<times> 's \<times> LogRecord list"

text \<open>What the middleware reads from its surroundings.\<close>

record ChainEnv =
  ceLogger :: "log_format \<times> Level"
  ceRandom :: "nat list option"      \<comment> \<open>eight random bytes\<close>
  ceDuration :: string               \<comment> \<open>milliseconds\<close>
  ceRemote :: string
  ceStack :: string
  ceUpgrade :: int

definition newRequestID :: "nat list option \<Rightarrow> string" where
  "newRequestID random = (case random of None \<Rightarrow> ''req_000000000000'' | Some b \<Rightarrow> ''req_'' @ hex_encode b)"

definition chosen_id :: "ChainEnv \<Rightarrow> HttpRequest \<Rightarrow> string" where
  "chosen_id ce rq = (if rqHeader rq ''X-Request-Id'' = [] then newRequestID (ceRandom ce) else rqHeader rq ''X-Request-Id'')"

definition RequestID :: "ChainEnv \<Rightarrow> 's http_handler \<Rightarrow> 's http_handler" where
  "RequestID ce inner rq contextID h s =
     (let i = chosen_id ce rq in
      inner rq i (header_set ''X-Request-Id'' i h) s)"

definition recorded_status :: "outcome \<Rightarrow> int" where
  "recorded_status out = (case out of Answered r \<Rightarrow> hrStatus r | TookOver status \<Rightarrow> status | Panicked _ _ \<Rightarrow> 200)"

definition access_line :: "ChainEnv \<Rightarrow> HttpRequest \<Rightarrow> int \<Rightarrow> LogRecord list" where
  "access_line ce rq status = log_line (ceLogger ce) LevelInfo ''http_request''
     [(''method'', rqMethod rq), (''path'', url_path rq), (''status'', FormatInt status),
      (''duration_ms'', ceDuration ce), (''remote_addr'', ceRemote ce)]"

text \<open>A panic passes through: the line after the call is not reached.\<close>

definition AccessLog :: "ChainEnv \<Rightarrow> 's http_handler \<Rightarrow> 's http_handler" where
  "AccessLog ce inner rq contextID h s =
     (let (out, s1, logs) = inner rq contextID h s in
      (out, s1, logs @ (case out of Panicked _ _ \<Rightarrow> [] | _ \<Rightarrow> access_line ce rq (recorded_status out))))"

definition Recover :: "ChainEnv \<Rightarrow> 's http_handler \<Rightarrow> 's http_handler" where
  "Recover ce inner rq contextID h s =
     (case inner rq contextID h s of
        (Panicked value h1, s1, logs) \<Rightarrow>
          (Answered (Write rq contextID h1 (Internal ''an internal error occurred'')), s1,
           logs @ log_line (ceLogger ce) LevelError ''panic recovered'' [(''panic'', value), (''stack'', ceStack ce)])
      | other \<Rightarrow> other)"

text \<open>The order of \<open>httpserver.New\<close>.\<close>

definition chain :: "ChainEnv \<Rightarrow> 's http_handler \<Rightarrow> 's http_handler" where
  "chain ce inner = RequestID ce (Recover ce (AccessLog ce inner))"

section \<open>The server's own mux\<close>

definition readiness_log :: "ChainEnv \<Rightarrow> Registry \<Rightarrow> HttpRequest \<Rightarrow> LogRecord list" where
  "readiness_log ce reg rq =
     (if rqPath rq = [''readyz''] \<and> is_get rq \<and> \<not> fst (Ready reg)
      then log_line (ceLogger ce) LevelWarn ''readiness failed'' [(''checks'', FormatInt (int (length reg)))] else [])"

definition mux_handler :: "ChainEnv \<Rightarrow> Crypto \<Rightarrow> Registry \<Rightarrow> HttpEnv \<Rightarrow> ApiState http_handler" where
  "mux_handler ce k reg env rq contextID h s =
     (let (resp, s1) = serve_mux k reg env rq contextID h s in
      (case resp of Some r \<Rightarrow> Answered r | None \<Rightarrow> TookOver (ceUpgrade ce), s1, readiness_log ce reg rq))"

section \<open>What the chain does\<close>

lemma chain_run:
  assumes "inner rq (chosen_id ce rq) (header_set ''X-Request-Id'' (chosen_id ce rq) h) s = (out, s1, logs)"
  shows "chain ce inner rq contextID h s = (case out of
      Panicked v h1 \<Rightarrow> (Answered (Write rq (chosen_id ce rq) h1 (Internal ''an internal error occurred'')), s1,
        logs @ log_line (ceLogger ce) LevelError ''panic recovered'' [(''panic'', v), (''stack'', ceStack ce)])
    | _ \<Rightarrow> (out, s1, logs @ access_line ce rq (recorded_status out)))"
  using assms by (cases out) (simp_all add: chain_def RequestID_def Recover_def AccessLog_def Let_def)

text \<open>No panic leaves the chain, and the state is what the handler made of it.\<close>

lemma chain_state:
  "fst (snd (chain ce inner rq contextID h s)) = fst (snd (inner rq (chosen_id ce rq) (header_set ''X-Request-Id'' (chosen_id ce rq) h) s))"
  "fst (chain ce inner rq contextID h s) \<noteq> Panicked v h1"
proof -
  obtain out s2 l where "inner rq (chosen_id ce rq) (header_set ''X-Request-Id'' (chosen_id ce rq) h) s = (out, s2, l)"
    by (metis prod_cases3)
  with chain_run [where inner = inner and contextID = contextID, OF this]
  show "fst (snd (chain ce inner rq contextID h s)) = fst (snd (inner rq (chosen_id ce rq) (header_set ''X-Request-Id'' (chosen_id ce rq) h) s))"
    and "fst (chain ce inner rq contextID h s) \<noteq> Panicked v h1" by (cases out; simp)+
qed

text \<open>A panic becomes a 500 with the request id; its line is \<open>panic recovered\<close>, and the access log has none for it.\<close>

lemma panic_answered:
  assumes "inner rq (chosen_id ce rq) (header_set ''X-Request-Id'' (chosen_id ce rq) h) s = (Panicked v h1, s1, logs)"
  shows "\<exists>resp. chain ce inner rq contextID h s = (Answered resp, s1, logs @ log_line (ceLogger ce) LevelError ''panic recovered''
       [(''panic'', v), (''stack'', ceStack ce)])
     \<and> hrStatus resp = 500
     \<and> hrContent resp = JsonContent (envelope (url_path rq) (chosen_id ce rq) (Internal ''an internal error occurred''))"
  using chain_run [where inner = inner and contextID = contextID, OF assms] by (simp add: Write_def Let_def Status_def Internal_def api_error_def)

text \<open>Around the mux it is the server of \<open>HttpServer\<close>, with one line per request.\<close>

lemma chain_serves:
  assumes "heRequestID env = newRequestID (ceRandom ce)" and "serve_http k reg env rq s = (resp, s1)"
  shows "chain ce (mux_handler ce k reg env) rq contextID [] s =
     (let out = (case resp of Some r \<Rightarrow> Answered r | None \<Rightarrow> TookOver (ceUpgrade ce)) in
      (out, s1, readiness_log ce reg rq @ access_line ce rq (recorded_status out)))"
proof -
  have "request_id env rq = chosen_id ce rq" using assms(1) by (simp add: request_id_def chosen_id_def)
  then have m: "mux_handler ce k reg env rq (chosen_id ce rq) (header_set ''X-Request-Id'' (chosen_id ce rq) []) s
      = (case resp of Some r \<Rightarrow> Answered r | None \<Rightarrow> TookOver (ceUpgrade ce), s1, readiness_log ce reg rq)"
    using assms(2) by (simp add: serve_http_def mux_handler_def Let_def)
  from chain_run [where inner = "mux_handler ce k reg env" and contextID = contextID, OF m] show ?thesis by (cases resp) (simp_all add: Let_def)
qed

text \<open>
  The lines are to carry the request id; none does, since they are logged under the background context.
\<close>

definition no_request_id :: "LogRecord list \<Rightarrow> bool" where
  "no_request_id logs \<longleftrightarrow> (\<forall>rec \<in> set logs. ''request_id'' \<notin> fst ` set (lgAttrs rec))"

lemma no_request_id_simps [simp]:
  "no_request_id []" "no_request_id (as @ bs) \<longleftrightarrow> no_request_id as \<and> no_request_id bs"
  "no_request_id (log_line lg level message attrs) \<longleftrightarrow> \<not> severity (snd lg) \<le> severity level \<or> ''request_id'' \<notin> fst ` set attrs"
  by (auto simp: no_request_id_def log_line_def emit_def ContextHandler_Handle_def)

lemma chain_logs:
  assumes "\<And>i h'. no_request_id (snd (snd (inner rq i h' s)))"
  shows "no_request_id (snd (snd (chain ce inner rq contextID h s)))"
proof -
  obtain out s1 logs where n: "inner rq (chosen_id ce rq) (header_set ''X-Request-Id'' (chosen_id ce rq) h) s = (out, s1, logs)"
    by (metis prod_cases3)
  have "no_request_id logs" using assms [of "chosen_id ce rq" "header_set ''X-Request-Id'' (chosen_id ce rq) h"] n by simp
  then show ?thesis using chain_run [where inner = inner and contextID = contextID, OF n] by (simp add: access_line_def split: outcome.split)
qed

lemma server_logs_no_request_id:
  "no_request_id (snd (snd (chain ce (mux_handler ce k reg env) rq contextID h s)))"
  by (rule chain_logs) (simp add: mux_handler_def readiness_log_def split: prod.split)

end
