(* ===== verification/Mint.thy ===== *)
theory Mint
  imports Config AuthBehaviour
begin

text \<open>
  The helper that mints an access token for the end-to-end tests (\<open>cmd/minttoken/main.go\<close>), and that a
  server of the same environment takes its tokens for its own.  Signing is the library's
  (\<open>None\<close>: it fails), the clock is in nanoseconds.
\<close>

section \<open>The command\<close>

datatype mint_error = SeedUndecodable | SeedLength nat | NotANumber string | SigningFails

definition mustInt :: "environ \<Rightarrow> string \<Rightarrow> mint_error + go_int" where
  "mustInt env name = from_opt (NotANumber name) (ParseInt (os_Getenv env name))"

text \<open>\<open>FormatInt(n, 36)\<close>.\<close>

definition digit36 :: "nat \<Rightarrow> char" where
  "digit36 d = char_of (if d < 10 then 48 + d else 87 + d)"

fun format36 :: "nat \<Rightarrow> string" where
  "format36 n = (if n < 36 then [digit36 n] else format36 (n div 36) @ [digit36 (n mod 36)])"

declare format36.simps [simp del]

definition FormatInt36 :: "go_int \<Rightarrow> string" where
  "FormatInt36 i = (if i < 0 then CHR ''-'' # format36 (nat (- i)) else format36 (nat i))"

definition mint_key :: "(string \<Rightarrow> nat list option) \<Rightarrow> (nat list \<Rightarrow> nat list) \<Rightarrow> environ \<Rightarrow> mint_error + nat list" where
  "mint_key decode from_seed env =
     rbind (from_opt SeedUndecodable (decode (os_Getenv env ''APP_JWT_PRIVATE_KEY''))) (\<lambda>seed.
       if length seed \<noteq> 32 then Inl (SeedLength (length seed)) else Inr (from_seed seed))"

definition mint_claims :: "environ \<Rightarrow> int \<Rightarrow> mint_error + RawClaims" where
  "mint_claims env nanos =
     (let now = nanos div 1000 in
      rbind (mustInt env ''E2E_SESSION_ID'') (\<lambda>sid.
      rbind (mustInt env ''E2E_TOKEN_VERSION'') (\<lambda>ver.
      rbind (mustInt env ''E2E_USER_ID'') (\<lambda>uid. Inr
        \<lparr>rcSubject = FormatInt uid, rcSessionID = sid, rcDeviceID = os_Getenv env ''E2E_DEVICE_ID'', rcScopes = [''user''],
         rcTokenVersion = ver, rcJTI = ''jt_e2e_'' @ FormatInt36 nanos,
         rcIssuer = getEnv env ''APP_JWT_ISSUER'' ''https://api.socialmedia.example'',
         rcAudience = [getEnv env ''APP_JWT_AUDIENCE'' ''inchat-api''],
         rcIssuedAt = numeric_date now, rcNotBefore = numeric_date now,
         rcExpiresAt = numeric_date (now + 15 * minute div 1000)\<rparr>))))"

definition mint ::
  "(string \<Rightarrow> nat list option) \<Rightarrow> (nat list \<Rightarrow> nat list) \<Rightarrow> (nat list \<Rightarrow> RawClaims \<Rightarrow> string option) \<Rightarrow> environ \<Rightarrow> int
    \<Rightarrow> mint_error + string" where
  "mint decode from_seed sign env nanos =
     rbind (mint_key decode from_seed env) (\<lambda>key.
     rbind (mint_claims env nanos) (\<lambda>claims. from_opt SigningFails (sign key claims)))"

section \<open>The same key, issuer and audience as the server\<close>

lemma mint_key_is_signing_key:
  assumes "Load pd dsn_ok env = Inr c" and "mint_key decode from_seed env = Inr key" and "decode [] = Some []"
  shows "signing_key decode from_seed generated c = Inr key"
proof -
  have "cgJWTPrivateKey c = os_Getenv env ''APP_JWT_PRIVATE_KEY''"
    using assms(1) by (auto simp: Load_def read_config_def Let_def split: if_splits)
  then show ?thesis using assms(2,3) by (auto simp: mint_key_def signing_key_def from_opt_def split: if_splits option.splits)
qed

lemma mint_claims_config:
  assumes "Load pd dsn_ok env = Inr c" and "mint_claims env nanos = Inr r"
  shows "rcIssuer r = cgJWTIssuer c \<and> rcAudience r = [cgJWTAudience c]"
  using assms by (auto simp: Load_def read_config_def mint_claims_def Let_def split: if_splits)

text \<open>
  A minted token passes the gateway check of the server for fourteen minutes at least, as the user, the
  session, the device and the token version of the environment.
\<close>

lemma mint_accepted:
  assumes "Load pd dsn_ok env = Inr c" and "jwt_sound k" "kIssuer k = cgJWTIssuer c" "kAudience k = cgJWTAudience c"
    and "\<forall>claims. sign key claims = Some (kSign k claims)" "mint_key decode from_seed env = Inr key"
    and "mint decode from_seed sign env nanos = Inr token" and "mustInt env ''E2E_USER_ID'' = Inr u" "0 < u"
    and "nanos div 1000 \<le> now" "now < nanos div 1000 + 14 * minute div 1000"
  shows "\<exists>claims. VerifyAccess k now token = Inr claims \<and> acUserID claims = u \<and> acScopes claims = [''user'']
    \<and> acDeviceID claims = os_Getenv env ''E2E_DEVICE_ID'' \<and> mustInt env ''E2E_SESSION_ID'' = Inr (acSessionID claims)
    \<and> mustInt env ''E2E_TOKEN_VERSION'' = Inr (acTokenVersion claims)"
proof -
  obtain r where r: "mint_claims env nanos = Inr r" "token = kSign k r"
    using assms(5-7) by (auto simp: mint_def from_opt_def)
  have n: "numeric_date t \<le> t" "t < numeric_date t + 1000000" for t by (simp_all add: numeric_date_def)
  have m: "15 * minute div 1000 = 900000000" "14 * minute div 1000 = 840000000" by (simp_all add: minute_def second_def)
  have "numeric_date (nanos div 1000) \<le> now" using assms(10) n(1) order_trans by blast
  moreover have "now < numeric_date (nanos div 1000 + 15 * minute div 1000)"
    using assms(11) n(2) [of "nanos div 1000 + 900000000"] unfolding m by linarith
  ultimately have d: "rcNotBefore r \<le> now" "now < rcExpiresAt r" using r(1) by (auto simp: mint_claims_def Let_def)
  have "int64 u" using assms(8) by (auto simp: mustInt_def from_opt_def ParseInt_def int64_def Let_def split: option.splits if_splits)
  then have s: "parseSubject (rcSubject r) = Some u"
    using r(1) assms(8,9) by (auto simp: mint_claims_def Let_def parseSubject_printed)
  have "kParse k (kIssuer k) (kAudience k) now token = JwtClaims r"
    using assms(2-4) d mint_claims_config [OF assms(1) r(1)] by (simp add: jwt_sound_def r(2))
  with s r(1) show ?thesis by (auto simp: VerifyAccess_def mint_claims_def Let_def)
qed

end
