(* ===== verification/App.thy ===== *)
theory App
  imports Config HttpServer RtDispatch RtTyping RtWorkers
begin

text \<open>
  The life of the process (\<open>app/app.go\<close>, \<open>cmd/api-server/main.go\<close>): what \<open>Run\<close> opens, starts, waits
  for and closes, in which order, and how it ends.  A run is the trace of its effects with its error;
  a deferred call is the effect that ends the trace of the block it was deferred in.
\<close>

section \<open>Traces\<close>

text \<open>What has to be given back, in the order of the code; the last three are contexts with their cancel functions.\<close>

datatype resource = PgPool | RedisClient | WatcherContext | SignalContext | DrainContext

datatype worker = RevokeWatcher | OutboxRelay | WsDispatcher | PresenceSweeper

datatype action =
    Acquire resource | Release resource | Start worker | Listen string | DrainHTTP | DrainSockets | LogLine string

datatype run_error =
    ConfigRefused config_error | PostgresRefused | IdgenRefused id_error | KeyRefused key_error | HasherRefused argon_error
  | ServerFailed | DrainFailed | PostgresUnreachable | RedisUnreachable

type_synonym run = "action list \<times> (run_error + unit)"

definition fails :: "run_error \<Rightarrow> run" where
  "fails e = ([], Inl e)"

definition returns :: run where
  "returns = ([], Inr ())"

definition doing :: "action list \<Rightarrow> run \<Rightarrow> run" where
  "doing as r = (as @ fst r, snd r)"

definition deferring :: "resource \<Rightarrow> run \<Rightarrow> run" where
  "deferring x r = (Acquire x # fst r @ [Release x], snd r)"

section \<open>The run\<close>

text \<open>
  What the process meets: its environment variables, with the parsers of durations and DSNs; whether
  the pool accepts its settings and the dependencies answer a ping; the keys; and how it comes to an end.
\<close>

datatype ending = ListenerFails | StopSignal

record ProcessEnv =
  psEnviron :: environ
  psParseDuration :: "string \<Rightarrow> int option"
  psDSN :: "string \<Rightarrow> bool"
  psOpen :: "string \<Rightarrow> int \<Rightarrow> bool"
  psPostgres :: "string option"      \<comment> \<open>the error of a ping\<close>
  psRedis :: "string option"
  psDecode :: "string \<Rightarrow> nat list option"
  psFromSeed :: "nat list \<Rightarrow> nat list"
  psGenerated :: "nat list option"
  psEnding :: ending
  psDrained :: bool                  \<comment> \<open>in-flight requests end within the shutdown timeout\<close>

definition load_config :: "ProcessEnv \<Rightarrow> config_error + Config" where
  "load_config env = Load (psParseDuration env) (psDSN env) (psEnviron env)"

text \<open>The probe at startup only logs.\<close>

definition startup_probe :: "ProcessEnv \<Rightarrow> action list" where
  "startup_probe env =
     [LogLine (if psPostgres env = None then ''postgres connection established'' else ''postgres not reachable at startup''),
      LogLine (if psRedis env = None then ''redis connection established'' else ''redis not reachable at startup'')]"

text \<open>The readiness registry with what its checks report now.\<close>

definition process_registry :: "ProcessEnv \<Rightarrow> Registry" where
  "process_registry env =
     Registry_Register ''redis'' (psRedis env) (Registry_Register ''postgres'' (psPostgres env) [])"

text \<open>An ephemeral key that could be generated is announced, whatever the factory then says to it.\<close>

definition key_warning :: "ProcessEnv \<Rightarrow> Config \<Rightarrow> action list" where
  "key_warning env c =
     (if cgJWTPrivateKey c = [] \<and> cgAppEnv c = ''dev'' \<and> psGenerated env \<noteq> None
      then [LogLine ''no APP_JWT_PRIVATE_KEY configured; using ephemeral key (dev only)''] else [])"

definition server_addr :: "Config \<Rightarrow> string" where
  "server_addr c = CHR '':'' # cgHTTPPort c"

text \<open>From the signal on: the HTTP server drains first, and the sockets only if it did in time.\<close>

definition drain :: "ProcessEnv \<Rightarrow> run" where
  "drain env =
     doing [LogLine ''shutdown signal received, draining in-flight requests'']
       (deferring DrainContext
         (doing [DrainHTTP]
           (if psDrained env then
              doing [LogLine ''http server stopped'', DrainSockets, LogLine ''realtime gateway stopped'',
                     LogLine ''api-server stopped cleanly''] returns
            else fails DrainFailed)))"

definition serve_process :: "ProcessEnv \<Rightarrow> Config \<Rightarrow> run" where
  "serve_process env c =
     deferring WatcherContext
       (doing [Start RevokeWatcher, Start OutboxRelay, Start WsDispatcher, Start PresenceSweeper]
         (deferring SignalContext
           (doing [LogLine ''http server listening'', Listen (server_addr c)]
             (case psEnding env of ListenerFails \<Rightarrow> fails ServerFailed | StopSignal \<Rightarrow> drain env))))"

definition wire :: "ProcessEnv \<Rightarrow> Config \<Rightarrow> run" where
  "wire env c =
     (case New (cgIDGenNodeID c) DefaultEpoch of Inl e \<Rightarrow> fails (IdgenRefused e) | Inr ids \<Rightarrow>
      doing (key_warning env c)
        (case loadTokenFactory (psDecode env) (psFromSeed env) (psGenerated env) c of Inl e \<Rightarrow> fails (KeyRefused e) | Inr tokens \<Rightarrow>
         case NewArgon2ID (argon2_params c) of Inl e \<Rightarrow> fails (HasherRefused e) | Inr hasher \<Rightarrow> serve_process env c))"

definition Run :: "ProcessEnv \<Rightarrow> run" where
  "Run env =
     (case load_config env of Inl e \<Rightarrow> fails (ConfigRefused e) | Inr c \<Rightarrow>
      doing [LogLine ''starting api-server'']
        (if \<not> psOpen env (cgPGDSN c) (cgPGMaxConns c) then fails PostgresRefused
         else deferring PgPool (deferring RedisClient (doing (startup_probe env) (wire env c)))))"

definition Healthcheck :: "ProcessEnv \<Rightarrow> run" where
  "Healthcheck env =
     (case load_config env of Inl e \<Rightarrow> fails (ConfigRefused e) | Inr c \<Rightarrow>
      if \<not> psOpen env (cgPGDSN c) (cgPGMaxConns c) then fails PostgresRefused
      else deferring PgPool (deferring RedisClient
        (if psPostgres env \<noteq> None then fails PostgresUnreachable
         else if psRedis env \<noteq> None then fails RedisUnreachable
         else returns)))"

text \<open>\<open>main\<close> with its flag, and the exit status.\<close>

definition main_run :: "bool \<Rightarrow> ProcessEnv \<Rightarrow> run" where
  "main_run healthcheck env = (if healthcheck then Healthcheck env else Run env)"

definition exit_status :: "run \<Rightarrow> int" where
  "exit_status r = (case snd r of Inl _ \<Rightarrow> 1 | Inr _ \<Rightarrow> 0)"

text \<open>What the end of the run does to the sockets.\<close>

definition gateway_after :: "run \<Rightarrow> string set \<Rightarrow> go_time \<Rightarrow> Gateway \<Rightarrow> Gateway" where
  "gateway_after r gone now g = (if DrainSockets \<in> set (fst r) then Shutdown gone now g else g)"

section \<open>Everything opened is closed\<close>

text \<open>
  \<open>held\<close> reads a trace as a stack machine: what is open after it, innermost first; \<open>None\<close> when
  something is closed out of order.
\<close>

fun held :: "action list \<Rightarrow> resource list \<Rightarrow> resource list option" where
  "held [] st = Some st"
| "held (Acquire x # as) st = held as (x # st)"
| "held (Release x # as) st = (case st of y # ys \<Rightarrow> if x = y then held as ys else None | [] \<Rightarrow> None)"
| "held (a # as) st = held as st"

lemma held_append: "held (as @ bs) st = (case held as st of None \<Rightarrow> None | Some st' \<Rightarrow> held bs st')"
  by (induction as st rule: held.induct) (auto split: list.splits)

definition balanced :: "run \<Rightarrow> bool" where
  "balanced r \<longleftrightarrow> (\<forall>st. held (fst r) st = Some st)"

named_theorems balanced_rules

lemma balanced_ends [balanced_rules]: "balanced (fails e)" "balanced returns"
  by (simp_all add: balanced_def fails_def returns_def)

lemma balanced_doing [balanced_rules]: "(\<forall>st. held as st = Some st) \<Longrightarrow> balanced r \<Longrightarrow> balanced (doing as r)"
  by (simp add: balanced_def doing_def held_append)

lemma balanced_deferring [balanced_rules]: "balanced r \<Longrightarrow> balanced (deferring x r)"
  by (simp add: balanced_def deferring_def held_append)

lemma balanced_drain: "balanced (drain env)"
  unfolding drain_def by (auto intro!: balanced_rules)

lemma balanced_serve: "balanced (serve_process env c)"
  unfolding serve_process_def by (auto intro!: balanced_rules balanced_drain split: ending.split)

lemma balanced_wire: "balanced (wire env c)"
  unfolding wire_def by (auto intro!: balanced_rules balanced_serve simp: key_warning_def split: sum.split)

text \<open>However a run ends, all it opened is closed, in the reverse order.\<close>

lemma runs_balanced: "balanced (main_run healthcheck env)"
  unfolding main_run_def Run_def Healthcheck_def
  by (auto intro!: balanced_rules balanced_wire simp: startup_probe_def split: sum.split)

lemma main_releases_everything: "held (fst (main_run healthcheck env)) [] = Some []"
  using runs_balanced by (simp add: balanced_def)

section \<open>What is open when\<close>

text \<open>The effects of a trace, each with what is open when it happens.\<close>

fun exposures :: "action list \<Rightarrow> resource list \<Rightarrow> (action \<times> resource list) list" where
  "exposures [] st = []"
| "exposures (Acquire x # as) st = exposures as (x # st)"
| "exposures (Release x # as) st = exposures as (tl st)"
| "exposures (a # as) st = (a, st) # exposures as st"

definition acts :: "run \<Rightarrow> resource list \<Rightarrow> (action \<times> resource list) list" where
  "acts r st = exposures (fst r) st"

lemma exposures_append: "held as st = Some st' \<Longrightarrow> exposures (as @ bs) st = exposures as st @ exposures bs st'"
  by (induction as st rule: exposures.induct) (auto split: list.splits if_splits)

named_theorems act_rules

lemma acts_ends [act_rules]: "acts (fails e) st = []" "acts returns st = []"
  by (simp_all add: acts_def fails_def returns_def)

lemma acts_doing [act_rules]: "held as st = Some st \<Longrightarrow> acts (doing as r) st = exposures as st @ acts r st"
  by (simp add: acts_def doing_def exposures_append)

lemma acts_deferring [act_rules]: "balanced r \<Longrightarrow> acts (deferring x r) st = acts r (x # st)"
  by (simp add: acts_def deferring_def balanced_def exposures_append)

text \<open>When a run gets as far as serving.\<close>

definition starts :: "ProcessEnv \<Rightarrow> Config \<Rightarrow> bool" where
  "starts env c \<longleftrightarrow> load_config env = Inr c \<and> psOpen env (cgPGDSN c) (cgPGMaxConns c)
     \<and> loadTokenFactory (psDecode env) (psFromSeed env) (psGenerated env) c \<in> range Inr
     \<and> NewArgon2ID (argon2_params c) \<in> range Inr"

definition drained :: "ProcessEnv \<Rightarrow> bool" where
  "drained env \<longleftrightarrow> psEnding env = StopSignal \<and> psDrained env"

lemma acts_serve:
  "acts (serve_process env c) st =
     map (\<lambda>w. (Start w, WatcherContext # st)) [RevokeWatcher, OutboxRelay, WsDispatcher, PresenceSweeper]
     @ map (\<lambda>a. (a, SignalContext # WatcherContext # st)) [LogLine ''http server listening'', Listen (server_addr c)]
     @ (case psEnding env of ListenerFails \<Rightarrow> [] | StopSignal \<Rightarrow> acts (drain env) (SignalContext # WatcherContext # st))"
  unfolding serve_process_def
  by (simp add: act_rules balanced_rules balanced_drain split: ending.split)

lemma acts_drain:
  "acts (drain env) st =
     (LogLine ''shutdown signal received, draining in-flight requests'', st)
     # map (\<lambda>a. (a, DrainContext # st)) (DrainHTTP # (if psDrained env then
         [LogLine ''http server stopped'', DrainSockets, LogLine ''realtime gateway stopped'', LogLine ''api-server stopped cleanly''] else []))"
  by (simp add: drain_def act_rules balanced_rules)

definition probed :: "ProcessEnv \<Rightarrow> Config \<Rightarrow> (action \<times> resource list) list" where
  "probed env c = (LogLine ''starting api-server'', [])
     # map (\<lambda>a. (a, [RedisClient, PgPool])) (startup_probe env @ key_warning env c)"

lemma exposures_logs [simp]:
  "exposures (startup_probe env) st = map (\<lambda>a. (a, st)) (startup_probe env)" "held (startup_probe env) st = Some st"
  "exposures (key_warning env c) st = map (\<lambda>a. (a, st)) (key_warning env c)" "held (key_warning env c) st = Some st"
  by (simp_all add: startup_probe_def key_warning_def)

lemma started_run:
  assumes "starts env c"
  shows "acts (Run env) [] = probed env c @ acts (serve_process env c) [RedisClient, PgPool]" and "snd (Run env) = snd (serve_process env c)"
proof -
  obtain f h where c: "load_config env = Inr c" "psOpen env (cgPGDSN c) (cgPGMaxConns c)"
    "loadTokenFactory (psDecode env) (psFromSeed env) (psGenerated env) c = Inr f" "NewArgon2ID (argon2_params c) = Inr h"
    using assms by (auto simp: starts_def)
  obtain g where "New (cgIDGenNodeID c) DefaultEpoch = Inr g"
    using Load_starts_generator c(1) unfolding load_config_def by blast
  then have w: "wire env c = doing (key_warning env c) (serve_process env c)"
    using c by (simp add: wire_def)
  show "acts (Run env) [] = probed env c @ acts (serve_process env c) [RedisClient, PgPool]" and "snd (Run env) = snd (serve_process env c)"
    unfolding Run_def using c w
    by (simp_all add: act_rules balanced_rules balanced_serve probed_def) (simp add: doing_def deferring_def)
qed

text \<open>A run that is refused before it serves only logs.\<close>

definition only_logs :: "run \<Rightarrow> bool" where
  "only_logs r \<longleftrightarrow> snd r \<in> range Inl \<and> (\<forall>st. \<forall>x \<in> set (acts r st). \<exists>t. fst x = LogLine t)"

lemma logs_fails: "only_logs (fails e)"
  by (auto simp: only_logs_def act_rules) (simp add: fails_def)

lemma logs_doing:
  assumes "\<forall>st. held as st = Some st \<and> (\<forall>x \<in> set (exposures as st). \<exists>t. fst x = LogLine t)" and "only_logs r"
  shows "only_logs (doing as r)"
  using assms by (auto simp: only_logs_def act_rules) (simp add: doing_def)

lemma logs_deferring: "balanced r \<Longrightarrow> only_logs r \<Longrightarrow> only_logs (deferring x r)"
  by (auto simp: only_logs_def act_rules) (simp add: deferring_def)

lemma refused_wire:
  assumes "load_config env = Inr c" "psOpen env (cgPGDSN c) (cgPGMaxConns c)" and "\<not> starts env c"
  shows "only_logs (wire env c)"
proof -
  have w: "\<forall>st. held (key_warning env c) st = Some st \<and> (\<forall>x \<in> set (exposures (key_warning env c) st). \<exists>t. fst x = LogLine t)"
    by (auto simp: key_warning_def)
  have "loadTokenFactory (psDecode env) (psFromSeed env) (psGenerated env) c \<notin> range Inr \<or> NewArgon2ID (argon2_params c) \<notin> range Inr"
    using assms by (auto simp: starts_def)
  then show ?thesis
    unfolding wire_def using w by (auto intro!: logs_fails logs_doing split: sum.split)
qed

lemma refused_run:
  assumes "\<nexists>c. starts env c"
  shows "only_logs (Run env)"
proof (cases "load_config env")
  case (Inr c)
  have p: "\<forall>st. held (startup_probe env) st = Some st \<and> (\<forall>x \<in> set (exposures (startup_probe env) st). \<exists>t. fst x = LogLine t)"
    by (auto simp: startup_probe_def)
  show ?thesis
  proof (cases "psOpen env (cgPGDSN c) (cgPGMaxConns c)")
    case True
    then have "only_logs (wire env c)" using refused_wire Inr assms by blast
    then have "only_logs (deferring PgPool (deferring RedisClient (doing (startup_probe env) (wire env c))))"
      using p by (intro logs_deferring logs_doing balanced_rules balanced_wire) auto
    with Inr True show ?thesis by (auto simp: Run_def intro!: logs_doing)
  qed (auto simp: Run_def Inr intro!: logs_doing logs_fails)
qed (simp add: Run_def logs_fails)

section \<open>The order of the start\<close>

lemma starts_unique: "starts env c \<Longrightarrow> starts env c' \<Longrightarrow> c = c'"
  by (simp add: starts_def)

lemma run_cases:
  obtains (refused) "\<nexists>c. starts env c" "only_logs (Run env)"
  | (served) c where "starts env c" "acts (Run env) [] = probed env c @ acts (serve_process env c) [RedisClient, PgPool]"
      "snd (Run env) = snd (serve_process env c)"
  using refused_run started_run by blast

lemma probed_logs: "(a, st) \<in> set (probed env c) \<Longrightarrow> \<exists>t. a = LogLine t"
  by (auto simp: probed_def startup_probe_def key_warning_def split: if_splits)

lemma other_acts:
  assumes "\<nexists>t. a = LogLine t"
  shows "(a, st) \<in> set (acts (Run env) []) \<longleftrightarrow> (\<exists>c. starts env c \<and> (a, st) \<in> set (acts (serve_process env c) [RedisClient, PgPool]))"
proof (cases rule: run_cases [of env])
  case refused
  then show ?thesis using assms by (fastforce simp: only_logs_def)
next
  case (served c)
  have "(a, st) \<notin> set (probed env c)" using assms probed_logs by blast
  with served(1,2) show ?thesis using starts_unique by (metis Un_iff set_append)
qed

text \<open>
  The server listens on the configured port exactly when the configuration loads, the pool opens and
  the key and the hasher are accepted; the workers run then too.  Listening starts with everything
  open and the workers started, and whatever the workers use is open for as long as their context is.
\<close>

lemma listens_when_started:
  "(Listen a, st) \<in> set (acts (Run env) [])
     \<longleftrightarrow> st = [SignalContext, WatcherContext, RedisClient, PgPool] \<and> (\<exists>c. starts env c \<and> a = server_addr c)"
  by (subst other_acts) (auto simp: acts_serve acts_drain split: ending.splits)

lemma workers_when_started:
  "(Start w, st) \<in> set (acts (Run env) []) \<longleftrightarrow> st = [WatcherContext, RedisClient, PgPool] \<and> (\<exists>c. starts env c)"
  by (subst other_acts; cases w) (auto simp: acts_serve acts_drain split: ending.splits)

text \<open>The process ends with status 0 only after a signal and a drain in time, and only then are the sockets told.\<close>

lemma serve_outcome: "snd (serve_process env c) = Inr () \<longleftrightarrow> drained env"
  by (cases "psEnding env") (auto simp: serve_process_def drain_def drained_def doing_def deferring_def fails_def returns_def)

lemma clean_end: "snd (Run env) = Inr () \<longleftrightarrow> (\<exists>c. starts env c) \<and> drained env"
  by (cases rule: run_cases [of env]) (auto simp: only_logs_def serve_outcome)

lemma sockets_drained:
  "(DrainSockets, st) \<in> set (acts (Run env) [])
     \<longleftrightarrow> st = [DrainContext, SignalContext, WatcherContext, RedisClient, PgPool] \<and> snd (Run env) = Inr ()"
  unfolding clean_end
  by (subst other_acts) (auto simp: acts_serve acts_drain drained_def split: ending.splits)

text \<open>A configuration that loads starts, with a pool, a key of ed25519's length and hasher settings that fit.\<close>

lemma loaded_starts:
  assumes "load_config env = Inr c" "psOpen env (cgPGDSN c) (cgPGMaxConns c)"
    and "signing_key (psDecode env) (psFromSeed env) (psGenerated env) c = Inr key" "length key = PrivateKeySize"
    and "cgArgon2Memory c < 2 ^ 32" "cgArgon2Time c < 2 ^ 32"
  shows "starts env c"
  using Load_starts_factory [OF assms(1)[unfolded load_config_def] assms(3,4)]
    Load_starts_hasher [OF assms(1)[unfolded load_config_def] assms(5,6)] assms(1,2)
  by (auto simp: starts_def)

section \<open>The end of the gateway\<close>

text \<open>
  After a clean end no handshake is admitted and every socket is aborted, told to reconnect unless it
  was gone already; after any other end the gateway is as it was, its sockets neither told nor closed.
\<close>

lemma gateway_closed:
  assumes "snd (Run env) = Inr ()" and "\<not> gwClosed g" and "gwConns g i = Some conn" "i \<in> gwRegistered g"
  shows "gwClosed (gateway_after (Run env) gone now g)
    \<and> (\<exists>conn'. gwConns (gateway_after (Run env) gone now g) i = Some conn' \<and> cnDropped conn'
         \<and> (i \<notin> gone \<longrightarrow> cnClosing conn' \<noteq> None))"
proof -
  have "DrainSockets \<in> set as" if "(DrainSockets, st') \<in> set (exposures as st)" for as st st'
    using that by (induction as st rule: exposures.induct) auto
  then have "DrainSockets \<in> set (fst (Run env))"
    using sockets_drained [of _ env] assms(1) unfolding acts_def by blast
  then show ?thesis using assms(2-4)
    by (auto simp: gateway_after_def Shutdown_def Let_def on_conns_def drop_socket_def closeWith_def isClosing_def)
qed

lemma gateway_abandoned:
  assumes "snd (Run env) \<noteq> Inr ()"
  shows "gateway_after (Run env) gone now g = g"
proof -
  have "\<exists>st'. (DrainSockets, st') \<in> set (exposures as st)" if "DrainSockets \<in> set as" for as st
    using that by (induction as st rule: exposures.induct) auto
  then have "DrainSockets \<notin> set (fst (Run env))"
    using sockets_drained [of _ env] assms unfolding acts_def by blast
  then show ?thesis by (simp add: gateway_after_def)
qed

section \<open>The health check\<close>

text \<open>\<open>-healthcheck\<close> agrees with \<open>/readyz\<close> of a process with the same configuration, and starts nothing.\<close>

lemma healthcheck_ready:
  "snd (Healthcheck env) = Inr ()
     \<longleftrightarrow> (\<exists>c. load_config env = Inr c \<and> psOpen env (cgPGDSN c) (cgPGMaxConns c))
       \<and> hrStatus (health_handler (process_registry env) True h) = 200"
  by (cases "load_config env")
    (auto simp: Healthcheck_def deferring_def fails_def returns_def process_registry_def Registry_Register_def upsert_def
      health_handler_def Ready_def)

lemma healthcheck_starts_nothing: "acts (Healthcheck env) st = []"
  by (auto simp: Healthcheck_def act_rules balanced_rules split: sum.split)

lemma exit_status_zero: "exit_status r = 0 \<longleftrightarrow> snd r = Inr ()"
  by (cases "snd r") (simp_all add: exit_status_def)

section \<open>The settings handed out\<close>

text \<open>
  What \<open>Run\<close> gives the objects it builds besides each other: the settings of the authentication service
  and of its throttle, the node of the generator, the name of this instance in the presence keys, and
  the defaults of the realtime parts.
\<close>

record Wiring =
  wgAuth :: AuthConfig
  wgThrottle :: LoginPolicy
  wgNode :: int
  wgInstance :: string
  wgPresence :: PresenceConfig
  wgTyping :: TypingConfig
  wgReplay :: ReplayConfig
  wgSendBuffer :: nat
  wgRelayBatch :: nat

definition wiring :: "string option \<Rightarrow> Config \<Rightarrow> Wiring" where
  "wiring hostname c =
     \<lparr>wgAuth = auth_config c, wgThrottle = DefaultLoginPolicy, wgNode = cgIDGenNodeID c, wgInstance = instanceID hostname c,
      wgPresence = presence_defaults, wgTyping = typing_defaults, wgReplay = DefaultReplayConfig,
      wgSendBuffer = SendBufferSize, wgRelayBatch = relay_batch\<rparr>"

text \<open>
  Processes on different nodes have different names in the presence keys and never issue the same id, unless one
  of them is on node 0: that is a node like any other to the generator, but counts as unset for the name.
\<close>

lemma nodes_apart:
  assumes "wgNode (wiring h1 c1) \<noteq> wgNode (wiring h2 c2)" "wgNode (wiring h1 c1) \<noteq> 0" "wgNode (wiring h2 c2) \<noteq> 0"
  shows "wgInstance (wiring h1 c1) \<noteq> wgInstance (wiring h2 c2)"
  using assms FormatInt_inj by (auto simp: wiring_def instanceID_def)

lemma node_zero_name: "wgNode (wiring hostname c) = 0 \<Longrightarrow>
    wgInstance (wiring hostname c) = (case hostname of Some h \<Rightarrow> if h \<noteq> [] then h else ''default'' | None \<Rightarrow> ''default'')"
  by (simp add: wiring_def instanceID_def)

text \<open>
  A sweep comes before the presence keys lapse; one poll of the relay can bring more than the queue of a
  socket takes.
\<close>

lemma wired_in_step:
  "sweep_interval (wgPresence (wiring h c)) < pcTTL (wgPresence (wiring h c))"
  "wgSendBuffer (wiring h c) < wgRelayBatch (wiring h c)"
  by (simp_all add: wiring_def sweep_interval_def presence_defaults_def SendBufferSize_def relay_batch_def)

section \<open>The life of the process\<close>

text \<open>
  C29. Whatever the process meets, all it opened is closed again in the reverse order.  It listens, on the
  configured port, exactly when the configuration loads, the pool opens and the key and the hasher are
  accepted, with its workers started and the connections under them open.  It exits with status 0 exactly
  after a signal and a drain in time, and then and only then the sockets are told to go.
\<close>

theorem process_life:
  "held (fst (main_run healthcheck env)) [] = Some []
   \<and> ((Listen a, st) \<in> set (acts (main_run False env) [])
        \<longleftrightarrow> st = [SignalContext, WatcherContext, RedisClient, PgPool] \<and> (\<exists>c. starts env c \<and> a = server_addr c))
   \<and> ((Start w, st) \<in> set (acts (main_run False env) []) \<longleftrightarrow> st = [WatcherContext, RedisClient, PgPool] \<and> (\<exists>c. starts env c))
   \<and> (exit_status (main_run False env) = 0 \<longleftrightarrow> (\<exists>c. starts env c) \<and> drained env)
   \<and> ((DrainSockets, st) \<in> set (acts (main_run False env) [])
        \<longleftrightarrow> st = [DrainContext, SignalContext, WatcherContext, RedisClient, PgPool] \<and> exit_status (main_run False env) = 0)"
  using main_releases_everything [of healthcheck env] listens_when_started [of a st env] workers_when_started [of w st env]
    clean_end [of env] sockets_drained [of st env]
  by (simp add: main_run_def exit_status_zero)

section \<open>A process\<close>

definition demo_process :: ProcessEnv where
  "demo_process = \<lparr>psEnviron = (\<lambda>_. None), psParseDuration = (\<lambda>_. None), psDSN = (\<lambda>_. True), psOpen = (\<lambda>_ _. True),
     psPostgres = None, psRedis = Some ''refused'', psDecode = (\<lambda>_. None), psFromSeed = (\<lambda>s. s),
     psGenerated = Some (replicate 64 7), psEnding = StopSignal, psDrained = True\<rparr>"

lemma demo_process_serves: "exit_status (main_run False demo_process) = 0 \<and> exit_status (main_run True demo_process) = 1"
proof -
  have "map_sum id (\<lambda>c. (cgArgon2Memory c, cgArgon2Time c, cgJWTPrivateKey c, cgAppEnv c)) (load_config demo_process)
      = Inr (65536, 3, [], ''dev'')" by code_simp
  then obtain c where c: "load_config demo_process = Inr c" "cgArgon2Memory c = 65536" "cgArgon2Time c = 3"
    "cgJWTPrivateKey c = []" "cgAppEnv c = ''dev''" by (cases "load_config demo_process") auto
  have "starts demo_process c"
    by (rule loaded_starts [where key = "replicate 64 7"]) (simp_all add: c, simp_all add: demo_process_def signing_key_def c PrivateKeySize_def from_opt_def)
  then have "snd (Run demo_process) = Inr ()"
    by (auto simp: clean_end drained_def) (simp_all add: demo_process_def)
  moreover have "snd (Healthcheck demo_process) \<noteq> Inr ()"
    by (simp add: healthcheck_ready [where h = "[]"] process_registry_def Registry_Register_def upsert_def health_handler_def Ready_def)
      (simp add: demo_process_def)
  ultimately show ?thesis by (simp add: main_run_def exit_status_zero) (auto simp: exit_status_def split: sum.split)
qed

end
