(* ===== verification/Spec2Isabelle.thy ===== *)
theory Spec2Isabelle
  imports SendProperties ChatProperties ChatRules ChatBehaviour ChatPaging ChatContent ChatRaces
    ChatSearch IdGen RateLimit RtStream RtHub RtPresence RtTyping RtHandlerProofs RtDispatch RtProtocol RtWorkers
    AuthRows HttpProperties HttpChain Config Mint App
begin

text \<open>
  A verification library for the chat server under \<open>src/server\<close> (Go).  Paths below are relative to
  that directory.

  \<^bold>\<open>The program.\<close>  One process serves a REST API and a WebSocket gateway over PostgreSQL and Redis.
  The chat module keeps conversations, members, messages, reactions and receipts in PostgreSQL; each
  write commits its rows together with rows of a change log, the outbox.  A relay polls the outbox and
  publishes it on a Redis channel, the backplane; on every instance a dispatcher reads the backplane,
  drops duplicates, keeps a replay buffer and hands the events to the hub, which delivers them to the
  sockets.  Sockets send frames that call the same use cases as the REST handlers.  Presence and typing
  live in Redis keys with expiry and go to the backplane directly.  The authentication module owns
  accounts, credentials, sessions, refresh and recovery tokens, and is the gateway both surfaces pass.

  \<^bold>\<open>How the code is read.\<close>
  A struct is a record whose fields carry a short prefix (\<open>gSequence\<close> is \<open>Message.Sequence\<close>), a closed
  string type a datatype, a value with an error the sum \<open>error + value\<close> with \<open>Inl\<close> the error.  Wrapping
  an error is left out: a wrapped error is the sentinel \<open>errors.Is\<close> finds, or the infrastructure error
  of its module.  Strings are byte lists (\<open>GoStrings\<close>), so lengths in bytes and in runes differ as they
  do in Go.  \<open>int64\<close> identifiers are \<open>int\<close>, with the range written out where a value is parsed, counted
  up or decoded; the identifier generator and the cursors work on 64-bit words.  Times are microseconds,
  durations of the configuration nanoseconds.  JSON is its parsed value: \<open>JTime\<close> is the text of a time
  stamp, numbers are integers, members of a Go map are listed in the order of the source, and the
  marshalling of these values does not fail.  A \<open>[]byte\<close> payload is the value it encodes, a nil slice
  in a payload the empty list, except where \<open>ChatJson\<close> says null.

  The environment of a request is a record of everything the code does not decide: clock readings,
  fresh identifiers, and which calls to PostgreSQL or Redis fail (one flag per kind of call and
  request).  A table is the list of its rows, a repository operation a function that checks the
  constraints of the migrations and returns the new tables.  A use case is its checks, which read the
  committed tables, then the body of its transaction; the body's reads through the pool see the
  committed tables, those through the transaction the new ones.  An error, or a commit that fails,
  rolls back.  Queries without an order give table order; gaps of \<open>nextval\<close> are not modelled; a
  primary key is printed with \<open>FormatInt\<close>.  Redis scripts are atomic, and a key is a value with its
  expiry.

  \<^bold>\<open>Shared theories.\<close>
  \<open>Prelude\<close>: the error sum, table updates, collections of rules.  \<open>GoStrings\<close>: runes, \<open>TrimSpace\<close>,
  \<open>strconv\<close>, with the round trip of \<open>FormatInt\<close> and \<open>ParseInt\<close>.  \<open>RedisKeys\<close>: keys with expiry.
  \<open>Keyset\<close>: two locales, the contract of a keyset query and of an endpoint that pages over it, in
  which a client that follows the cursors is proved to see everything once.

  \<^bold>\<open>Chat.\<close>
  \<open>ChatDomain\<close> is \<open>chat/domain\<close> and the user summary of \<open>user/domain\<close>; \<open>Cursor\<close> the opaque cursors of
  \<open>application/helpers.go\<close> with their base64url, proved to round-trip.  \<open>ChatStore\<close> and \<open>MessageStore\<close>
  are \<open>infra/postgres\<close>; \<open>SequenceSource\<close> is \<open>sequence_source.go\<close>, the Redis counter over the durable
  floor.  \<open>ChatTx\<close> is how a use case runs.  The use cases are \<open>ChatConversations\<close> (\<open>create.go\<close>, \<open>get.go\<close>,
  \<open>list.go\<close>, \<open>update.go\<close>), \<open>ChatMembers\<close> (\<open>members.go\<close>, \<open>prefs.go\<close>), \<open>ChatSend\<close> (\<open>send.go\<close>), \<open>ChatMessages\<close>
  (\<open>edit_delete.go\<close>, \<open>reactions.go\<close>, \<open>receipts.go\<close>, \<open>history.go\<close>) and \<open>ChatViews\<close> (\<open>message_views.go\<close> and
  the rendering of \<open>helpers.go\<close>).
  The locale \<open>sequence_allocator\<close> is what the send path needs of an allocator; it is interpreted on the
  Redis counter.  The locales of \<open>Keyset\<close> are interpreted in \<open>ChatPaging\<close> on the message history, the
  catch-up, the conversation list and the member list.
  \<open>StoreLemmas\<close> shows that every statement keeps the schema, \<open>StoreEvolution\<close> in which order relation
  rows may change, \<open>ChatSystem\<close> puts the use cases together: \<open>tx_step\<close> is any transaction any request
  can commit, with the reads before it as old as they like, so a run of \<open>tx_step\<close> over-approximates
  every interleaving of requests at the granularity of transactions; \<open>serve\<close> is a request on its own.
  Invariants of all interleavings (schema, floors, history that only grows) are in \<open>ChatSafety\<close> and
  \<open>StoreEvolution\<close>.  The caps and the closure of direct chats rest on checks before the transaction,
  so they are invariants of served requests (\<open>ChatInvariants\<close>, \<open>ChatServe\<close>); \<open>ChatRaces\<close> and
  \<open>ChatBehaviour\<close> show interleavings that break what only holds in turn.  \<open>SendProofs\<close> carries the
  exactly-once send, \<open>ChatRules\<close>, \<open>ChatBehaviour\<close> and \<open>ChatContent\<close> the authority and the effects.
  \<open>ChatSearch\<close> shows that the name filter of the member list matches what was typed, wildcards included.

  \<^bold>\<open>Realtime.\<close>
  \<open>RtDomain\<close> is \<open>realtime/domain\<close>: events, frames, and the decoding of \<open>encoding/json\<close> (field names
  without regard to case, the last member wins).  Under \<open>delivery/ws\<close>: \<open>RtConnection\<close> and \<open>RtStream\<close>
  (\<open>connection.go\<close>: queue of 256, stamps, pumps, close; \<open>RtStream\<close> splits stamping from enqueueing as
  the locks do), \<open>RateLimit\<close> (\<open>rate_limit.go\<close>), \<open>RtHub\<close> (\<open>hub.go\<close>, \<open>session_revoke.go\<close>), \<open>RtReplay\<close>,
  \<open>RtDedupe\<close> and \<open>RtDispatch\<close> (\<open>dispatcher.go\<close>), \<open>RtFrames\<close> and \<open>RtHandler\<close> (\<open>handler.go\<close>), \<open>RtEndpoint\<close>
  (\<open>endpoint.go\<close>).  \<open>RtRelay\<close> is \<open>realtime/infra\<close>, \<open>RtPresence\<close> and \<open>RtTyping\<close> are \<open>presence\<close> and \<open>typing\<close>
  with the notifiers of \<open>ephemeral.go\<close>.
  Step relations (\<open>conn_step\<close>, \<open>socket_step\<close>, \<open>gw_step\<close>) say what the goroutines of a socket and the
  callers of the hub may do in any order; \<open>stream_ok\<close>, \<open>numbers_ok\<close> and \<open>registry_ok\<close> are their
  invariants.  A hub operation is one step, for it holds the hub's lock.  The registry holds socket
  names, the sockets are in a store by name.  The locale \<open>duplicate_filter\<close> is what the dispatcher
  needs of its dedupe window and is interpreted on the bounded set of the code.
  Presence is a refinement: the Redis keys stand for the set of open sockets as long as every instance
  touches its users in time.  \<open>RtDispatch\<close> joins relay, dispatcher and hub: what the chat transactions
  committed reaches the queues in order, once, while the window and the queue suffice; the polls of the
  relay see the change log of states of the run (\<open>polls_between\<close>).
  \<open>RtProtocol\<close> has the frame as it is written and the names of both directions.  \<open>RtWorkers\<close> is a
  supervised subscription: what a worker hears while its channel breaks and comes back, and how long it
  waits; the locale \<open>worker_contract\<close> carries an invariant of a handler through it and is interpreted on
  the dispatcher and the revocation watcher.

  \<^bold>\<open>Identifiers.\<close>  \<open>IdGen\<close> is \<open>platform/idgen\<close>.  The clock is a function of the number of readings; the
  busy wait for the next millisecond is a partial function whose value \<open>None\<close> is not returning, and a
  clock that reaches a later millisecond makes it return.

  \<^bold>\<open>Authentication.\<close>
  \<open>AuthDomain\<close> is \<open>auth/domain\<close> and the value objects of \<open>user/domain\<close>; \<open>AuthStore\<close> is \<open>auth/infra\<close> but
  for cryptography; \<open>AuthService\<close> has the frame of a use case, audit, history, access tokens of
  \<open>security/token.go\<close>; \<open>AuthToken\<close> the factory and the random tokens, \<open>AuthPassword\<close> is \<open>security/argon2id.go\<close>.  The use cases are \<open>AuthLogin\<close>,
  \<open>AuthSessions\<close>, \<open>AuthAccount\<close>.  \<open>AuthSafety\<close> has the step relation \<open>db_step\<close> of everything the module
  can commit and shows, with a collection of rules, that each use case makes only such steps;
  \<open>AuthInvariants\<close> and \<open>AuthBehaviour\<close> derive what can never be undone: a token version does not go
  down, a used recovery token stays used, a rotated refresh hash stays away.  \<open>AuthLockout\<close> follows a
  series of guesses at one identifier.  \<open>AuthDemo\<close> is a concrete deployment with a cryptography that
  meets the hypotheses.
  Parameters of the model, for they are libraries: SHA-256 and randomness, the key derivation of
  argon2 (\<open>kdf_ok\<close>: as many bytes as asked for), signing and parsing of JWTs (\<open>jwt_sound\<close>: parsing
  what was signed gives the claims back, for its issuer and audience, until it expires), the text of an IP address.
  \<open>AuthRows\<close> has the session rows with their NULLs and shows that the tables of \<open>AuthStore\<close> are what a scan
  of them reads, but for the address, which the store keeps as it was given.

  \<^bold>\<open>REST.\<close>
  \<open>HttpErrors\<close> is \<open>platform/apierr\<close> and the mapping of domain errors in \<open>httpapi/errors.go\<close>; \<open>HttpApi\<close> the
  rest of \<open>platform/httpapi\<close> (parsing, gateway, \<open>Idempotency-Key\<close>); \<open>ChatJson\<close> and \<open>ChatHttp\<close> are
  \<open>chat/delivery/http\<close>; \<open>HttpServer\<close> the route table, the mux, health probes and the request id;
  \<open>HttpChain\<close> the middleware around the mux (request id, panic recovery, access log) and the logger: the
  chain answers what \<open>serve_http\<close> answers, turns a panic into a 500, and logs without a request id.
  \<open>HttpRules\<close> has one rule per combinator of the handlers, \<open>HttpProperties\<close> the properties of the whole
  surface: whom a request acts for, what a retry does, where a server error comes from.

  \<^bold>\<open>Process.\<close>  \<open>Config\<close> is \<open>config/config.go\<close> and what \<open>app/app.go\<close> makes of it: settings of the
  components, signing key, the back-off of supervised workers.  Parsing of durations and URLs are
  parameters.  \<open>App\<close> is the life of the process: a run is a trace of effects with an error, a deferred call
  the end of its block.  A stack machine over the trace (\<open>held\<close>) shows that whatever was opened is closed in
  reverse order in every outcome; \<open>acts\<close> pairs each effect with what is open when it happens; \<open>wiring\<close> is the settings
  the parts are given.  \<open>Mint\<close> is the
  token helper \<open>cmd/minttoken\<close>, whose tokens the gateway of the same environment accepts.

  \<^bold>\<open>Bounds and fuel.\<close>  The send is retried \<open>maxSendRetries\<close> times and the replay of a duplicate polls ten
  times, as in the code: the counters are the loops of the source, not fuel.  Nothing else is bounded
  by the model.  Loops of the workers (relay ticks, dispatcher, pumps) are runs of any length.

  \<^bold>\<open>What is idealised.\<close>  Token buckets count in rationals where the code has \<open>float64\<close>.  \<open>ILIKE\<close> is a
  parameter.  \<open>strings.ToLower\<close> is exact on ASCII and on the two other runes that fold to ASCII.  What
  the polls of a replayed send see is a hypothesis where it matters (\<open>faithful_views\<close>: every poll sees
  what statements committed since have made of the tables).  HTTP requests come with a clean, decoded
  path, query and headers; a body is the first JSON value of at most 64 KiB, or too large, or
  malformed.  REST requests are served one after the other in \<open>HttpProperties\<close>; the race of two requests
  with one key is a finding.  Stored idempotency records read back as written.  Causes of errors
  never reach a client and are left out.  Presence and typing are wired as in \<open>app.go\<close>.

  \<^bold>\<open>Not modelled.\<close>  The adapters to PostgreSQL and Redis (pool, client, transaction helper) and the system
  clock, which hand every call on to a library: whether a pool opens and a ping answers is an input of
  \<open>App\<close>, the effect of a transaction is in \<open>ChatTx\<close> and \<open>AuthService\<close>, the clock a parameter everywhere.  The
  constructors, which store what they are given; a second failure of a
  handler that panics after it began to answer; the listener, the WebSocket upgrade and the socket's
  bytes; tickers.  The domain of a deployment is one process and its database: two processes meet in
  \<open>RtPresence\<close>, \<open>IdGen\<close> and the relay only.
\<close>

end
